(* ===== verification/Prelude.thy ===== *)
theory Prelude
  imports Main "HOL-Library.List_Lexorder" "HOL-Library.Char_ord"
begin

text \<open>
  Shared vocabulary of the development: exceptions as values of a sum type, the
  Python string methods the runtime uses, order-preserving removal of duplicates,
  and the theorem collections the component theories add to.

  A Python \<open>str\<close> is a \<open>string\<close>, so the model covers strings of code points below
  256; every method below is exact on those.  A fail-closed refusal
  (\<open>ToolError\<close>, \<open>ControlBlocked\<close>, \<open>ApprovalBlocked\<close>, \<open>TaskRegistryBlocked\<close>,
  \<open>RunnerRefused\<close>, \<open>PersistenceError\<close>) is \<open>Refused\<close> of its reason code; the
  explanatory sentence it carries decides nothing and is left out.  A bare Python
  exception that is not one of those classes is \<open>PyError\<close> of its class name.
\<close>

named_theorems step_simps
  \<open>unfolding rules that evaluate one operation of a component\<close>

named_theorems inv_intros
  \<open>preservation lemmas of the component invariants\<close>

section \<open>Exceptions as values\<close>

datatype exn = Refused string | PyError string

type_synonym 'a res = "exn + 'a"

definition bindR :: "'a res \<Rightarrow> ('a \<Rightarrow> 'b res) \<Rightarrow> 'b res" where
  "bindR m f = (case m of Inl e \<Rightarrow> Inl e | Inr x \<Rightarrow> f x)"

definition ensure :: "bool \<Rightarrow> string \<Rightarrow> unit res" where
  "ensure b code = (if b then Inr () else Inl (Refused code))"

text \<open>\<open>except E: raise Refused(code)\<close>, and \<open>if x is None: raise Refused(code)\<close>.\<close>

definition recode :: "string \<Rightarrow> 'a res \<Rightarrow> 'a res" where
  "recode code m = (case m of Inl _ \<Rightarrow> Inl (Refused code) | Inr x \<Rightarrow> Inr x)"

definition need :: "string \<Rightarrow> 'a option \<Rightarrow> 'a res" where
  "need code v = (case v of None \<Rightarrow> Inl (Refused code) | Some x \<Rightarrow> Inr x)"

lemma recode_simps [simp]: "recode c (Inl e) = Inl (Refused c)" "recode c (Inr x) = Inr x"
  by (simp_all add: recode_def)

lemma recode_Inr_iff [simp]: "recode c m = Inr x \<longleftrightarrow> m = Inr x"
  by (cases m) simp_all

lemma recode_Inl_iff: "recode c m = Inl e \<longleftrightarrow> (\<exists>d. m = Inl d) \<and> e = Refused c"
  by (cases m) auto

lemma need_simps [simp]: "need c None = Inl (Refused c)" "need c (Some x) = Inr x"
  by (simp_all add: need_def)

lemma need_Inr_iff [simp]: "need c v = Inr x \<longleftrightarrow> v = Some x"
  by (cases v) simp_all

lemma need_Inl_iff: "need c v = Inl e \<longleftrightarrow> v = None \<and> e = Refused c"
  by (cases v) auto

lemma bindR_simps [simp]:
  "bindR (Inl e) f = Inl e"
  "bindR (Inr x) f = f x"
  by (simp_all add: bindR_def)

lemma bindR_Inr_iff: "bindR m f = Inr y \<longleftrightarrow> (\<exists>x. m = Inr x \<and> f x = Inr y)"
  by (cases m) auto

lemma bindR_Inl_iff: "bindR m f = Inl e \<longleftrightarrow> m = Inl e \<or> (\<exists>x. m = Inr x \<and> f x = Inl e)"
  by (cases m) auto

lemma ensure_Inr_iff [simp]: "ensure b c = Inr u \<longleftrightarrow> b"
  by (simp add: ensure_def)

lemma ensure_Inl_iff [simp]: "ensure b c = Inl e \<longleftrightarrow> \<not> b \<and> e = Refused c"
  by (auto simp: ensure_def)

lemma ensure_True [simp]: "ensure True c = Inr ()"
  by (simp add: ensure_def)

lemma ensure_False [simp]: "ensure False c = Inl (Refused c)"
  by (simp add: ensure_def)

text \<open>Sequencing of operations on a world: an exception stops, and keeps what was written.\<close>

definition bindW :: "'a res \<times> 'w \<Rightarrow> ('a \<Rightarrow> 'w \<Rightarrow> 'b res \<times> 'w) \<Rightarrow> 'b res \<times> 'w" where
  "bindW m f = (case m of (Inl e, w) \<Rightarrow> (Inl e, w) | (Inr x, w) \<Rightarrow> f x w)"

lemma bindW_simps [simp]:
  "bindW (Inl e, w) f = (Inl e, w)"
  "bindW (Inr x, w) f = f x w"
  by (simp_all add: bindW_def)

lemma bindW_Inr_iff:
  "bindW m f = (Inr y, w') \<longleftrightarrow> (\<exists>x w. m = (Inr x, w) \<and> f x w = (Inr y, w'))"
  by (auto simp: bindW_def split: prod.splits sum.splits)

lemma bindW_Inl_iff:
  "bindW m f = (Inl e, w') \<longleftrightarrow> m = (Inl e, w') \<or> (\<exists>x w. m = (Inr x, w) \<and> f x w = (Inl e, w'))"
  by (auto simp: bindW_def split: prod.splits sum.splits)

section \<open>Python string methods\<close>

definition is_ws :: "char \<Rightarrow> bool" where
  "is_ws c = (let n = of_char c :: nat in
     (9 \<le> n \<and> n \<le> 13) \<or> (28 \<le> n \<and> n \<le> 32) \<or> n = 133 \<or> n = 160)"

definition lower_char :: "char \<Rightarrow> char" where
  "lower_char c = (let n = of_char c :: nat in
     if (65 \<le> n \<and> n \<le> 90) \<or> (192 \<le> n \<and> n \<le> 222 \<and> n \<noteq> 215)
     then char_of (n + 32) else c)"

text \<open>Letters and digits need no arithmetic when a definition is evaluated.\<close>

lemma of_char_letter:
  assumes "b6" "\<not> b7"
  shows "64 \<le> (of_char (Char b0 b1 b2 b3 b4 b5 b6 b7) :: nat)" "(of_char (Char b0 b1 b2 b3 b4 b5 b6 b7) :: nat) < 128"
    "b5 \<Longrightarrow> 96 \<le> (of_char (Char b0 b1 b2 b3 b4 b5 b6 b7) :: nat)"
  using assms by (auto simp: of_char_Char of_bool_def)

lemma lower_char_code [code]:
  "lower_char (Char b0 b1 b2 b3 b4 b5 b6 b7) = (let c = Char b0 b1 b2 b3 b4 b5 b6 b7 in
     if b5 \<and> b6 \<and> \<not> b7 then c
     else let n = of_char c :: nat in
       if (65 \<le> n \<and> n \<le> 90) \<or> (192 \<le> n \<and> n \<le> 222 \<and> n \<noteq> 215) then char_of (n + 32) else c)"
  using of_char_letter [of b6 b7 b0 b1 b2 b3 b4 b5] by (auto simp: lower_char_def Let_def)

lemma is_ws_code [code]:
  "is_ws (Char b0 b1 b2 b3 b4 b5 b6 b7) = (\<not> (b6 \<and> \<not> b7) \<and>
     (let n = of_char (Char b0 b1 b2 b3 b4 b5 b6 b7) :: nat in
      (9 \<le> n \<and> n \<le> 13) \<or> (28 \<le> n \<and> n \<le> 32) \<or> n = 133 \<or> n = 160))"
  using of_char_letter [of b6 b7 b0 b1 b2 b3 b4 b5] by (auto simp: is_ws_def Let_def)

definition lower :: "string \<Rightarrow> string" where
  "lower s = map lower_char s"

definition lstrip :: "string \<Rightarrow> string" where
  "lstrip s = dropWhile is_ws s"

definition rstrip :: "string \<Rightarrow> string" where
  "rstrip s = rev (dropWhile is_ws (rev s))"

definition strip :: "string \<Rightarrow> string" where
  "strip s = rstrip (lstrip s)"

definition lstrip_char :: "char \<Rightarrow> string \<Rightarrow> string" where
  "lstrip_char c s = dropWhile (\<lambda>x. x = c) s"

fun startswith :: "string \<Rightarrow> string \<Rightarrow> bool" where
  "startswith s [] = True"
| "startswith [] (p # ps) = False"
| "startswith (x # s) (p # ps) = (x = p \<and> startswith s ps)"

definition endswith :: "string \<Rightarrow> string \<Rightarrow> bool" where
  "endswith s p = startswith (rev s) (rev p)"

text \<open>\<open>s.partition(c)\<close> as (head, rest); the separator itself is never used.\<close>

definition partition_at :: "char \<Rightarrow> string \<Rightarrow> string \<times> string" where
  "partition_at c s =
     (takeWhile (\<lambda>x. x \<noteq> c) s, drop 1 (dropWhile (\<lambda>x. x \<noteq> c) s))"

text \<open>\<open>s.split()\<close>: the maximal runs of non-whitespace.\<close>

function words_of :: "string \<Rightarrow> string list" where
  "words_of s =
     (let t = dropWhile is_ws s in
      if t = [] then []
      else takeWhile (\<lambda>c. \<not> is_ws c) t # words_of (dropWhile (\<lambda>c. \<not> is_ws c) t))"
  by pat_completeness auto
termination
proof (relation "measure length")
  show "wf (measure (length :: string \<Rightarrow> nat))" by simp
next
  fix s t :: string
  assume t: "t = dropWhile is_ws s" and ne: "t \<noteq> []"
  from ne t have "\<not> is_ws (hd t)" by (metis hd_dropWhile)
  with ne have "length (dropWhile (\<lambda>c. \<not> is_ws c) t) < length t"
    by (cases t) (auto simp: le_imp_less_Suc length_dropWhile_le)
  also have "length t \<le> length s" by (simp add: t length_dropWhile_le)
  finally show "(dropWhile (\<lambda>c. \<not> is_ws c) t, s) \<in> measure length" by simp
qed

declare words_of.simps [simp del]

fun join_with :: "string \<Rightarrow> string list \<Rightarrow> string" where
  "join_with sep [] = []"
| "join_with sep [w] = w"
| "join_with sep (w # v # ws) = w @ sep @ join_with sep (v # ws)"

text \<open>\<open>tuple(dict.fromkeys(xs))\<close>: keep each element's first occurrence.\<close>

fun dedup_from :: "'a list \<Rightarrow> 'a list \<Rightarrow> 'a list" where
  "dedup_from seen [] = []"
| "dedup_from seen (x # xs) =
     (if x \<in> set seen then dedup_from seen xs else x # dedup_from (x # seen) xs)"

definition dict_fromkeys :: "'a list \<Rightarrow> 'a list" where
  "dict_fromkeys xs = dedup_from [] xs"

lemma set_dedup_from: "set (dedup_from seen xs) = set xs - set seen"
  by (induction seen xs rule: dedup_from.induct) auto

lemma distinct_dedup_from: "distinct (dedup_from seen xs)"
  by (induction seen xs rule: dedup_from.induct) (auto simp: set_dedup_from)

lemma set_dict_fromkeys [simp]: "set (dict_fromkeys xs) = set xs"
  by (simp add: dict_fromkeys_def set_dedup_from)

lemma distinct_dict_fromkeys [simp]: "distinct (dict_fromkeys xs)"
  by (simp add: dict_fromkeys_def distinct_dedup_from)

lemma dedup_from_append_set:
  "set xs \<subseteq> set seen \<Longrightarrow> dedup_from seen (xs @ ys) = dedup_from seen ys"
  by (induction xs) auto

lemma dedup_from_prefix:
  "distinct xs \<Longrightarrow> set xs \<inter> set seen = {} \<Longrightarrow>
   dedup_from seen (xs @ ys) = xs @ dedup_from (rev xs @ seen) ys"
  by (induction xs arbitrary: seen) auto

lemma dict_fromkeys_snoc:
  "distinct xs \<Longrightarrow> dict_fromkeys (xs @ [y]) = (if y \<in> set xs then xs else xs @ [y])"
  by (simp add: dict_fromkeys_def dedup_from_prefix)

section \<open>Association lists\<close>

text \<open>\<open>d.items()\<close> without one key, as \<open>{k: v for k, v in d.items() if k != key}\<close>.\<close>

definition without_key :: "string \<Rightarrow> (string \<times> 'v) list \<Rightarrow> (string \<times> 'v) list" where
  "without_key k kvs = filter (\<lambda>kv. fst kv \<noteq> k) kvs"

lemma map_of_without_key:
  "map_of (without_key k kvs) x = (if x = k then None else map_of kvs x)"
  by (induction kvs) (auto simp: without_key_def)

lemma without_key_id: "k \<notin> fst ` set kvs \<Longrightarrow> without_key k kvs = kvs"
  by (induction kvs) (auto simp: without_key_def)

lemma fst_without_key: "fst ` set (without_key k kvs) = fst ` set kvs - {k}"
  by (auto simp: without_key_def)

lemma distinct_without_key:
  "distinct (map fst kvs) \<Longrightarrow> distinct (map fst (without_key k kvs))"
  by (induction kvs) (auto simp: without_key_def)

end
