(* ===== verification/Integrity.thy ===== *)
theory Integrity
  imports Prelude "HOL-Library.AList"
begin

text \<open>
  JSON values and the integrity kernel (\<open>runtime/read_only_kernel/integrity.py\<close>,
  \<open>runtime/mvp_runtime/events.py\<close>): the secret-key scan, the canonical text of a
  value, and the self-hashes and short ids every store is built on.

  A JSON object is the list of its items; a finite float is kept as the text Python
  writes for it.  \<open>hashlib.sha256(text.encode()).hexdigest()\<close> is not code of the
  repository: it is the parameter \<open>H\<close> of every definition that hashes.  No property
  assumes that \<open>H\<close> is injective; where a conclusion rests on a hash it is "equal, or
  here is a collision of \<open>H\<close>" (\<open>collision H\<close>).
\<close>

datatype json =
    JNull
  | JBool bool
  | JInt int
  | JFloat string
  | JStr string
  | JArr "json list"
  | JObj "(string \<times> json) list"

section \<open>Reading a dictionary\<close>

definition is_obj :: "json \<Rightarrow> bool" where
  "is_obj j = (case j of JObj _ \<Rightarrow> True | _ \<Rightarrow> False)"

definition unhashable :: "json \<Rightarrow> bool" where
  "unhashable j = (case j of JArr _ \<Rightarrow> True | JObj _ \<Rightarrow> True | _ \<Rightarrow> False)"

definition is_str :: "json \<Rightarrow> bool" where
  "is_str j = (case j of JStr _ \<Rightarrow> True | _ \<Rightarrow> False)"

definition items :: "json \<Rightarrow> (string \<times> json) list" where
  "items j = (case j of JObj kvs \<Rightarrow> kvs | _ \<Rightarrow> [])"

text \<open>\<open>d.get(k)\<close>: a missing key reads as null.\<close>

definition jget :: "json \<Rightarrow> string \<Rightarrow> json" where
  "jget j k = (case map_of (items j) k of None \<Rightarrow> JNull | Some v \<Rightarrow> v)"

definition has_key :: "json \<Rightarrow> string \<Rightarrow> bool" where
  "has_key j k = (map_of (items j) k \<noteq> None)"

definition str_or_none :: "json \<Rightarrow> string option" where
  "str_or_none j = (case j of JStr s \<Rightarrow> Some s | _ \<Rightarrow> None)"

definition of_opt :: "string option \<Rightarrow> json" where
  "of_opt v = (case v of None \<Rightarrow> JNull | Some s \<Rightarrow> JStr s)"

text \<open>\<open>d[k]\<close>: a missing key is a \<open>KeyError\<close>, a value that is no dictionary a \<open>TypeError\<close>.\<close>

definition jindex :: "json \<Rightarrow> string \<Rightarrow> json res" where
  "jindex j k = (if \<not> is_obj j then Inl (PyError ''TypeError'')
     else case map_of (items j) k of None \<Rightarrow> Inl (PyError ''KeyError'') | Some v \<Rightarrow> Inr v)"

text \<open>\<open>d[k] = v\<close>: a present key keeps its place, a new one goes last.\<close>

definition jset :: "string \<Rightarrow> json \<Rightarrow> json \<Rightarrow> json" where
  "jset k v j = JObj (AList.update k v (items j))"

definition arr_items :: "json \<Rightarrow> json list" where
  "arr_items j = (case j of JArr xs \<Rightarrow> xs | _ \<Rightarrow> [])"

text \<open>Python's truth value of a JSON value (\<open>bool(v)\<close>, \<open>v or default\<close>).\<close>

definition truthy :: "json \<Rightarrow> bool" where
  "truthy j = (case j of JNull \<Rightarrow> False | JBool b \<Rightarrow> b | JInt i \<Rightarrow> i \<noteq> 0
     | JFloat r \<Rightarrow> r \<notin> {''0.0'', ''-0.0''} | JStr s \<Rightarrow> s \<noteq> [] | JArr xs \<Rightarrow> xs \<noteq> []
     | JObj kvs \<Rightarrow> kvs \<noteq> [])"

lemma is_str_iff: "is_str j \<longleftrightarrow> (\<exists>s. j = JStr s)"
  by (simp add: is_str_def split: json.splits)

lemma is_obj_iff: "is_obj j \<longleftrightarrow> (\<exists>kvs. j = JObj kvs)"
  by (simp add: is_obj_def split: json.splits)

lemma is_obj_simps [simp]: "is_obj (JObj kvs)" "\<not> is_obj JNull" "\<not> is_obj (JStr s)"
  "\<not> is_obj (JInt i)" "\<not> is_obj (JBool b)" "\<not> is_obj (JArr xs)" "\<not> is_obj (JFloat r)"
  by (simp_all add: is_obj_def)

lemma is_str_simps [simp]: "is_str (JStr s)" "\<not> is_str JNull" "\<not> is_str (JObj kvs)"
  "\<not> is_str (JInt i)" "\<not> is_str (JBool b)" "\<not> is_str (JArr xs)" "\<not> is_str (JFloat r)"
  by (simp_all add: is_str_def)

lemma items_JObj [simp]: "items (JObj kvs) = kvs"
  by (simp add: items_def)

lemma jget_Nil [simp]: "jget (JObj []) k = JNull"
  by (simp add: jget_def)

lemma jget_Cons [simp]: "jget (JObj ((k, v) # kvs)) x = (if x = k then v else jget (JObj kvs) x)"
  by (simp add: jget_def)

lemma update_fresh: "k \<notin> fst ` set kvs \<Longrightarrow> AList.update k v kvs = kvs @ [(k, v)]"
  by (induction kvs) auto

lemma jget_jset [simp]: "jget (jset k v j) x = (if x = k then v else jget j x)"
  by (simp add: jset_def jget_def update_conv')

lemma is_obj_jset [simp]: "is_obj (jset k v j)"
  by (simp add: jset_def)

lemma jindex_Inr: "jindex j k = Inr v \<Longrightarrow> jget j k = v"
  by (auto simp: jindex_def jget_def split: if_splits option.splits)

lemma arr_items_JArr [simp]: "arr_items (JArr xs) = xs"
  by (simp add: arr_items_def)

lemma jget_JNull [simp]: "jget JNull k = JNull"
  by (simp add: jget_def items_def)

lemma has_key_Cons [simp]:
  "has_key (JObj ((k, v) # kvs)) x = (x = k \<or> has_key (JObj kvs) x)"
  by (simp add: has_key_def)

lemma has_key_Nil [simp]: "\<not> has_key (JObj []) x"
  by (simp add: has_key_def)

lemma str_or_none_simps [simp]: "str_or_none (JStr s) = Some s" "str_or_none JNull = None"
  by (simp_all add: str_or_none_def)

lemma str_or_none_Some: "str_or_none j = Some s \<longleftrightarrow> j = JStr s"
  by (auto simp: str_or_none_def split: json.splits)

lemma of_opt_simps [simp]: "of_opt None = JNull" "of_opt (Some s) = JStr s"
  by (simp_all add: of_opt_def)

lemma str_or_none_of_opt [simp]: "str_or_none (of_opt v) = v"
  by (cases v) simp_all

lemma truthy_simps [simp]: "\<not> truthy JNull" "truthy (JStr s) = (s \<noteq> [])" "truthy (JBool b) = b"
  "truthy (JObj kvs) = (kvs \<noteq> [])"
  by (simp_all add: truthy_def)

section \<open>The secret-key scan\<close>

definition forbidden_exact_keys :: "string list" where
  "forbidden_exact_keys = [''api_key'', ''api_secret'', ''private_key'', ''password'',
     ''passphrase'', ''access_token'', ''refresh_token'', ''secret'', ''token'',
     ''credential'', ''authorization'', ''cookie'', ''session_key'', ''bot_token'',
     ''webhook_secret'']"

definition secret_key :: "string \<Rightarrow> bool" where
  "secret_key k = (let n = lower (strip k) in
     n \<in> set forbidden_exact_keys \<or>
     (\<exists>f \<in> set forbidden_exact_keys. endswith n (''_'' @ f)))"

text \<open>The same scan over the reversed key, for evaluation.\<close>

fun ends_here :: "string \<Rightarrow> string \<Rightarrow> bool" where
  "ends_here (x # r) (p # ps) = (x = p \<and> ends_here r ps)"
| "ends_here [] (p # ps) = False"
| "ends_here r [] = (case r of [] \<Rightarrow> True | c # _ \<Rightarrow> c = CHR ''_'')"

lemma ends_here_iff: "ends_here r p \<longleftrightarrow> r = p \<or> startswith r (p @ ''_'')"
  by (induction r p rule: ends_here.induct) (auto split: list.splits)

definition reversed_forbidden_keys :: "string list" where
  "reversed_forbidden_keys = [''yek_ipa'', ''terces_ipa'', ''yek_etavirp'', ''drowssap'',
     ''esarhpssap'', ''nekot_ssecca'', ''nekot_hserfer'', ''terces'', ''nekot'',
     ''laitnederc'', ''noitazirohtua'', ''eikooc'', ''yek_noisses'', ''nekot_tob'', ''terces_koohbew'']"

lemma reversed_forbidden: "reversed_forbidden_keys = map rev forbidden_exact_keys"
  by (simp add: reversed_forbidden_keys_def forbidden_exact_keys_def)

lemma secret_key_code [code]:
  "secret_key k = list_ex (ends_here (rev (lower (strip k)))) reversed_forbidden_keys"
  by (auto simp: secret_key_def Let_def reversed_forbidden list_ex_iff ends_here_iff endswith_def)

fun has_secret_key :: "json \<Rightarrow> bool" where
  "has_secret_key (JObj kvs) =
     (\<exists>kv \<in> set kvs. secret_key (fst kv) \<or> has_secret_key (snd kv))"
| "has_secret_key (JArr xs) = (\<exists>x \<in> set xs. has_secret_key x)"
| "has_secret_key _ = False"

fun has_float :: "json \<Rightarrow> bool" where
  "has_float (JFloat r) = True"
| "has_float (JObj kvs) = (\<exists>kv \<in> set kvs. has_float (snd kv))"
| "has_float (JArr xs) = (\<exists>x \<in> set xs. has_float x)"
| "has_float _ = False"

section \<open>The canonical text\<close>

text \<open>\<open>sort_keys=True\<close>: every object's items in the order of their keys.\<close>

fun canon :: "json \<Rightarrow> json" where
  "canon (JArr xs) = JArr (map canon xs)"
| "canon (JObj kvs) = JObj (sort_key fst (map (\<lambda>kv. (fst kv, canon (snd kv))) kvs))"
| "canon j = j"

definition hex_digit :: "nat \<Rightarrow> char" where
  "hex_digit n = ''0123456789abcdef'' ! n"

text \<open>The escapes of \<open>json.dumps(..., ensure_ascii=False)\<close>.\<close>

definition esc :: "char \<Rightarrow> string" where
  "esc c = (let n = of_char c :: nat in
     if n = 34 then [CHR 0x5C, CHR 0x22]
     else if n = 92 then [CHR 0x5C, CHR 0x5C]
     else if n = 10 then [CHR 0x5C, CHR ''n'']
     else if n = 13 then [CHR 0x5C, CHR ''r'']
     else if n = 9 then [CHR 0x5C, CHR ''t'']
     else if n = 8 then [CHR 0x5C, CHR ''b'']
     else if n = 12 then [CHR 0x5C, CHR ''f'']
     else if n < 32 then [CHR 0x5C, CHR ''u'', CHR ''0'', CHR ''0'',
       hex_digit (n div 16), hex_digit (n mod 16)]
     else [c])"

fun esc_string :: "string \<Rightarrow> string" where
  "esc_string [] = [CHR 0x22]"
| "esc_string (c # s) = esc c @ esc_string s"

definition quote :: "string \<Rightarrow> string" where
  "quote s = CHR 0x22 # esc_string s"

fun show_nat :: "nat \<Rightarrow> string" where
  "show_nat n = (if n < 10 then [char_of (48 + n)]
     else show_nat (n div 10) @ [char_of (48 + n mod 10)])"

declare show_nat.simps [simp del]

definition show_int :: "int \<Rightarrow> string" where
  "show_int i = (if i < 0 then CHR ''-'' # show_nat (nat (- i)) else show_nat (nat i))"

fun render :: "json \<Rightarrow> string"
  and render_arr :: "json list \<Rightarrow> string"
  and render_obj :: "(string \<times> json) list \<Rightarrow> string" where
  "render JNull = ''null''"
| "render (JBool b) = (if b then ''true'' else ''false'')"
| "render (JInt i) = show_int i"
| "render (JFloat r) = r"
| "render (JStr s) = quote s"
| "render (JArr []) = ''[]''"
| "render (JArr (x # xs)) = CHR ''['' # render x @ render_arr xs"
| "render (JObj []) = ''{}''"
| "render (JObj ((k, v) # kvs)) = CHR ''{'' # quote k @ CHR '':'' # render v @ render_obj kvs"
| "render_arr [] = '']''"
| "render_arr (x # xs) = CHR '','' # render x @ render_arr xs"
| "render_obj [] = ''}''"
| "render_obj ((k, v) # kvs) = CHR '','' # quote k @ CHR '':'' # render v @ render_obj kvs"

definition canonical_text :: "json \<Rightarrow> string" where
  "canonical_text j = render (canon j)"

definition canonical_bytes :: "json \<Rightarrow> string res" where
  "canonical_bytes j =
     (if has_secret_key j then Inl (PyError ''IntegrityError'')
      else if has_float j then Inl (PyError ''IntegrityError'')
      else Inr (canonical_text j))"

definition sha256_value :: "(string \<Rightarrow> string) \<Rightarrow> json \<Rightarrow> string res" where
  "sha256_value H j = bindR (canonical_bytes j) (\<lambda>t. Inr (''sha256:'' @ H t))"

definition sha256_record :: "(string \<Rightarrow> string) \<Rightarrow> json \<Rightarrow> string res" where
  "sha256_record H j =
     (if has_secret_key j then Inl (PyError ''IntegrityError'')
      else Inr (''sha256:'' @ H (canonical_text j)))"

definition short_id :: "(string \<Rightarrow> string) \<Rightarrow> string \<Rightarrow> json \<Rightarrow> string res" where
  "short_id H pre j =
     bindR (canonical_bytes j) (\<lambda>t. Inr (pre @ ''_'' @ take 20 (H t)))"

definition stamped_event :: "(string \<Rightarrow> string) \<Rightarrow> string \<Rightarrow> (string \<times> json) list \<Rightarrow> json res" where
  "stamped_event H record_type fields =
     (let event = (''record_type'', JStr record_type) # fields in
      bindR (sha256_record H (JObj event)) (\<lambda>h.
        Inr (JObj (event @ [(''integrity'', JObj [(''event_sha256'', JStr h)])]))))"

text \<open>Python's \<open>==\<close> on dictionaries and lists ignores the order of the keys.\<close>

definition py_eq :: "json \<Rightarrow> json \<Rightarrow> bool" where
  "py_eq a b = (canon a = canon b)"

lemma py_eq_refl [simp]: "py_eq a a"
  by (simp add: py_eq_def)

section \<open>The canonical text determines the value\<close>

definition unhex :: "char \<Rightarrow> nat" where
  "unhex c = (let n = of_char c :: nat in if n \<le> 57 then n - 48 else n - 87)"

fun unesc :: "string \<Rightarrow> char \<times> string" where
  "unesc (b # e # r) =
     (if b = CHR 0x5C then
        (if e = CHR ''n'' then (CHR 0x0A, r)
         else if e = CHR ''r'' then (CHR 0x0D, r)
         else if e = CHR ''t'' then (CHR 0x09, r)
         else if e = CHR ''b'' then (CHR 0x08, r)
         else if e = CHR ''f'' then (CHR 0x0C, r)
         else if e = CHR ''u'' then
           (char_of (16 * unhex (r ! 2) + unhex (r ! 3)), drop 4 r)
         else (e, r))
      else (b, e # r))"
| "unesc s = (hd s, tl s)"

lemma unhex_hex: "m < 16 \<Longrightarrow> unhex (hex_digit m) = m"
  unfolding unhex_def hex_digit_def
  by (simp add: less_Suc_eq numeral_eq_Suc) (elim disjE; simp)

lemma char_by_code: "of_char c = (of_char d :: nat) \<Longrightarrow> c = d"
  by simp

lemma char_eqI: "of_char c = n \<Longrightarrow> c = char_of (n :: nat)"
  by (metis char_of_char)

lemma unesc_single: "c \<noteq> CHR 0x5C \<Longrightarrow> unesc (c # x) = (c, x)"
  by (cases x) auto

lemma unesc_esc: "unesc (esc c @ x) = (c, x)"
proof -
  let ?n = "of_char c :: nat"
  consider "?n = 34" | "?n = 92" | "?n = 10" | "?n = 13" | "?n = 9" | "?n = 8" | "?n = 12"
    | "?n < 32" "?n \<notin> {8, 9, 10, 12, 13}"
    | "?n \<ge> 32" "?n \<noteq> 34" "?n \<noteq> 92"
    by fastforce
  then show ?thesis
  proof cases
    case 8
    then have "16 * unhex (hex_digit (?n div 16)) + unhex (hex_digit (?n mod 16)) = ?n"
      by (simp add: unhex_hex)
    with 8 show ?thesis by (simp add: esc_def Let_def)
  next
    case 9
    then have "c \<noteq> CHR 0x5C" by auto
    with 9 show ?thesis by (simp add: esc_def unesc_single)
  next
    case 1
    then have "c = CHR 0x22" by (intro char_by_code) simp
    then show ?thesis by (simp add: esc_def)
  next
    case 2
    then have "c = CHR 0x5C" by (intro char_by_code) simp
    then show ?thesis by (simp add: esc_def)
  next
    case 3
    then have "c = CHR 0x0A" by (intro char_by_code) simp
    then show ?thesis by (simp add: esc_def)
  next
    case 4
    then have "c = CHR 0x0D" by (intro char_by_code) simp
    then show ?thesis by (simp add: esc_def)
  next
    case 5
    then have "c = CHR 0x09" by (intro char_by_code) simp
    then show ?thesis by (simp add: esc_def)
  next
    case 6
    then have "c = CHR 0x08" by (intro char_by_code) simp
    then show ?thesis by (simp add: esc_def)
  next
    case 7
    then have "c = CHR 0x0C" by (intro char_by_code) simp
    then show ?thesis by (simp add: esc_def)
  qed
qed

lemma esc_prefix_free: "esc c @ x = esc d @ y \<Longrightarrow> c = d \<and> x = y"
  by (metis unesc_esc prod.inject)

lemma esc_not_quote: "esc c @ x \<noteq> CHR 0x22 # y"
  by (auto simp: esc_def Let_def char_eqI)

lemma esc_string_inj: "esc_string s @ x = esc_string t @ y \<Longrightarrow> s = t \<and> x = y"
proof (induction s arbitrary: t)
  case Nil
  then show ?case by (cases t) (auto dest: sym simp: esc_not_quote)
next
  case (Cons c s)
  show ?case
  proof (cases t)
    case Nil
    with Cons.prems show ?thesis by (simp add: esc_not_quote)
  next
    case (Cons d t')
    with Cons.prems have "c = d \<and> esc_string s @ x = esc_string t' @ y"
      by (auto dest: esc_prefix_free)
    with Cons.IH Cons show ?thesis by blast
  qed
qed

lemma quote_inj: "quote s @ x = quote t @ y \<Longrightarrow> s = t \<and> x = y"
  by (auto simp: quote_def dest: esc_string_inj)

subsection \<open>Numbers\<close>

definition is_digit :: "char \<Rightarrow> bool" where
  "is_digit c = (48 \<le> (of_char c :: nat) \<and> (of_char c :: nat) \<le> 57)"

definition num_char :: "char \<Rightarrow> bool" where
  "num_char c = (is_digit c \<or> c \<in> set ''-+.e'')"

definition float_text :: "string \<Rightarrow> bool" where
  "float_text r = (r \<noteq> [] \<and> (\<forall>c \<in> set r. num_char c) \<and>
     (is_digit (hd r) \<or> hd r = CHR ''-'') \<and> (\<exists>c \<in> set r. c = CHR ''.'' \<or> c = CHR ''e''))"

fun digits_val :: "nat \<Rightarrow> string \<Rightarrow> nat" where
  "digits_val a [] = a"
| "digits_val a (c # s) = digits_val (10 * a + (of_char c - 48)) s"

lemma digits_val_append: "digits_val a (s @ t) = digits_val (digits_val a s) t"
  by (induction s arbitrary: a) auto

lemma of_char_digit: "d < 10 \<Longrightarrow> of_char (char_of (48 + d) :: char) = (48 + d :: nat)"
  by (simp add: of_char_of)

lemma show_nat_digits: "\<forall>c \<in> set (show_nat n). is_digit c"
proof (induction n rule: show_nat.induct)
  case (1 n)
  then show ?case
    by (subst show_nat.simps) (auto simp: is_digit_def of_char_digit)
qed

lemma show_nat_ne: "show_nat n \<noteq> []"
  by (subst show_nat.simps) simp

lemma digits_val_show_nat: "digits_val 0 (show_nat n) = n"
proof (induction n rule: show_nat.induct)
  case (1 n)
  then show ?case
    by (subst show_nat.simps) (auto simp: digits_val_append of_char_digit)
qed

lemma show_nat_inj: "show_nat m = show_nat n \<Longrightarrow> m = n"
  by (metis digits_val_show_nat)

lemma minus_not_digit: "\<not> is_digit CHR ''-''"
  by (simp add: is_digit_def)

lemma hd_show_nat: "is_digit (hd (show_nat n))"
  using show_nat_digits show_nat_ne by (meson hd_in_set)

lemma show_nat_not_minus: "show_nat n \<noteq> CHR ''-'' # s"
  by (metis hd_show_nat list.sel(1) minus_not_digit)

lemma show_int_inj: "show_int i = show_int k \<Longrightarrow> i = k"
  by (auto simp: show_int_def show_nat_not_minus show_nat_not_minus [symmetric]
      dest!: show_nat_inj split: if_splits)

lemma show_int_chars: "c \<in> set (show_int i) \<Longrightarrow> is_digit c \<or> c = CHR ''-''"
  using show_nat_digits by (auto simp: show_int_def split: if_splits)

lemma show_int_ne: "show_int i \<noteq> []"
  by (simp add: show_int_def show_nat_ne)

lemma show_int_hd: "hd (show_int i) \<noteq> CHR ''-'' \<Longrightarrow> is_digit (hd (show_int i))"
  by (auto simp: show_int_def hd_show_nat)

lemma show_int_not_float: "float_text r \<Longrightarrow> show_int i \<noteq> r"
  by (auto simp: float_text_def dest!: show_int_chars) (auto simp: is_digit_def)

subsection \<open>Values\<close>

fun wf_json :: "json \<Rightarrow> bool" where
  "wf_json (JFloat r) = float_text r"
| "wf_json (JArr xs) = (\<forall>x \<in> set xs. wf_json x)"
| "wf_json (JObj kvs) = (\<forall>kv \<in> set kvs. wf_json (snd kv))"
| "wf_json _ = True"

definition delim :: "string \<Rightarrow> bool" where
  "delim r = (r = [] \<or> hd r \<in> set '',]}'')"

lemma delim_simps [simp]: "delim []" "delim (CHR '','' # r)" "delim (CHR '']'' # r)"
  "delim (CHR ''}'' # r)"
  by (simp_all add: delim_def)

lemma delim_arr [simp]: "delim (render_arr xs @ r)"
  by (cases xs) simp_all

lemma delim_obj [simp]: "delim (render_obj kvs @ r)"
  by (cases kvs rule: render_obj.cases) auto

definition numeric :: "json \<Rightarrow> bool" where
  "numeric j = (case j of JInt _ \<Rightarrow> True | JFloat _ \<Rightarrow> True | _ \<Rightarrow> False)"

lemma numeric_cases: "numeric j \<longleftrightarrow> (\<exists>i. j = JInt i) \<or> (\<exists>r. j = JFloat r)"
  by (cases j) (auto simp: numeric_def)

lemma render_numeric_chars:
  "numeric j \<Longrightarrow> wf_json j \<Longrightarrow> \<forall>c \<in> set (render j). num_char c"
  by (auto simp: numeric_cases num_char_def float_text_def dest: show_int_chars)

lemma render_numeric_hd:
  "numeric j \<Longrightarrow> wf_json j \<Longrightarrow>
   render j \<noteq> [] \<and> (is_digit (hd (render j)) \<or> hd (render j) = CHR ''-'')"
  by (auto simp: numeric_cases float_text_def show_int_ne dest: show_int_hd)

lemma delim_not_num: "delim r \<Longrightarrow> r = [] \<or> \<not> num_char (hd r)"
  by (auto simp: delim_def num_char_def is_digit_def)

lemma take_num: "\<forall>c \<in> set s. num_char c \<Longrightarrow> delim r \<Longrightarrow> takeWhile num_char (s @ r) = s"
  by (cases r) (auto simp: takeWhile_append2 dest: delim_not_num)

lemma render_numeric_inj:
  assumes "numeric i" "numeric j" "wf_json i" "wf_json j" "delim r" "delim r'"
    and eq: "render i @ r = render j @ r'"
  shows "i = j \<and> r = r'"
proof -
  have "render i = takeWhile num_char (render i @ r)"
    by (rule take_num [OF render_numeric_chars [OF assms(1,3)] assms(5), symmetric])
  also have "\<dots> = takeWhile num_char (render j @ r')" by (simp only: eq)
  also have "\<dots> = render j"
    by (rule take_num [OF render_numeric_chars [OF assms(2,4)] assms(6)])
  finally have same: "render i = render j" .
  with eq have "r = r'" by simp
  from assms(1,2,3,4) same have "i = j"
    by (auto simp: numeric_cases dest: show_int_inj show_int_not_float sym)
  with \<open>r = r'\<close> show ?thesis by blast
qed

definition first_char :: "json \<Rightarrow> char" where
  "first_char j = hd (render j)"

lemma render_ne: "wf_json j \<Longrightarrow> render j \<noteq> []"
  by (cases j rule: render.cases) (auto simp: quote_def show_int_ne float_text_def)

text \<open>The first character tells the constructors apart.\<close>

definition kind :: "json \<Rightarrow> nat" where
  "kind j = (case j of JNull \<Rightarrow> 0 | JBool True \<Rightarrow> 1 | JBool False \<Rightarrow> 2 | JStr _ \<Rightarrow> 3
     | JArr _ \<Rightarrow> 4 | JObj _ \<Rightarrow> 5 | JInt _ \<Rightarrow> 6 | JFloat _ \<Rightarrow> 6)"

definition kind_of_char :: "char \<Rightarrow> nat" where
  "kind_of_char c = (if c = CHR ''n'' then 0 else if c = CHR ''t'' then 1
     else if c = CHR ''f'' then 2 else if c = CHR 0x22 then 3 else if c = CHR ''['' then 4
     else if c = CHR ''{'' then 5 else 6)"

lemma kind_of_numeric: "is_digit c \<or> c = CHR ''-'' \<Longrightarrow> kind_of_char c = 6"
  by (auto simp: kind_of_char_def is_digit_def)

lemma kind_render: "wf_json j \<Longrightarrow> kind_of_char (hd (render j @ r)) = kind j"
proof (cases "numeric j")
  case True
  moreover assume "wf_json j"
  ultimately have "kind_of_char (hd (render j @ r)) = 6"
    by (simp add: render_numeric_hd kind_of_numeric)
  with True show ?thesis by (auto simp: numeric_cases kind_def)
next
  case False
  then show ?thesis
    by (cases j rule: render.cases)
       (auto simp: numeric_def kind_def kind_of_char_def quote_def split: bool.splits)
qed

lemma render_not_close: "wf_json j \<Longrightarrow> render j @ s \<noteq> CHR '']'' # r"
proof
  assume wf: "wf_json j" and eq: "render j @ s = CHR '']'' # r"
  then have k: "kind_of_char (CHR '']'') = kind j" by (metis kind_render list.sel(1))
  then have "numeric j"
    by (auto simp: kind_of_char_def kind_def numeric_def split: json.splits bool.splits)
  with wf have "render j \<noteq> [] \<and> (is_digit (hd (render j)) \<or> hd (render j) = CHR ''-'')"
    by (simp add: render_numeric_hd)
  with eq show False by (cases "render j") (auto simp: is_digit_def)
qed

lemma render_kind: "wf_json i \<Longrightarrow> wf_json j \<Longrightarrow> render i @ r = render j @ r' \<Longrightarrow> kind i = kind j"
  by (metis kind_render)

lemma render_inj:
  "wf_json i \<Longrightarrow> wf_json j \<Longrightarrow> delim r \<Longrightarrow> delim r' \<Longrightarrow>
   render i @ r = render j @ r' \<Longrightarrow> i = j \<and> r = r'"
  and render_arr_inj:
  "\<forall>x \<in> set xs. wf_json x \<Longrightarrow> \<forall>x \<in> set ys. wf_json x \<Longrightarrow>
   render_arr xs @ r = render_arr ys @ r' \<Longrightarrow> xs = ys \<and> r = r'"
  and render_obj_inj:
  "\<forall>kv \<in> set kvs. wf_json (snd kv) \<Longrightarrow> \<forall>kv \<in> set mvs. wf_json (snd kv) \<Longrightarrow>
   render_obj kvs @ r = render_obj mvs @ r' \<Longrightarrow> kvs = mvs \<and> r = r'"
proof (induction i and xs and kvs arbitrary: j r r' and ys r r' and mvs r r'
    rule: render_render_arr_render_obj.induct)
  case 1
  then have "kind j = 0" by (metis render_kind kind_def json.case(1))
  with 1 show ?case by (auto simp: kind_def split: json.splits bool.splits)
next
  case (2 b)
  then have "kind j = kind (JBool b)" by (metis render_kind)
  with 2 show ?case by (auto simp: kind_def split: json.splits bool.splits)
next
  case (3 i)
  then have "kind j = 6" using render_kind [of "JInt i" j r r'] by (simp add: kind_def)
  then have "numeric j" by (auto simp: kind_def numeric_def split: json.splits bool.splits)
  with 3 show ?case by (intro render_numeric_inj) (auto simp: numeric_def)
next
  case (4 f)
  then have "kind j = 6" using render_kind [of "JFloat f" j r r'] by (simp add: kind_def)
  then have "numeric j" by (auto simp: kind_def numeric_def split: json.splits bool.splits)
  with 4 show ?case by (intro render_numeric_inj) (auto simp: numeric_def)
next
  case (5 s)
  then have "kind j = 3" using render_kind [of "JStr s" j r r'] by (simp add: kind_def)
  then obtain t where "j = JStr t" by (auto simp: kind_def split: json.splits bool.splits)
  with 5 show ?case by (auto dest: quote_inj)
next
  case 6
  then have "kind j = 4" using render_kind [of "JArr []" j r r'] by (simp add: kind_def)
  then obtain ys where j: "j = JArr ys" by (auto simp: kind_def split: json.splits bool.splits)
  show ?case
  proof (cases ys)
    case Nil
    with 6 j show ?thesis by simp
  next
    case (Cons y ys')
    with 6 j show ?thesis using render_not_close [of y "render_arr ys' @ r'" r] by auto
  qed
next
  case (7 x xs)
  then have "kind j = 4" using render_kind [of "JArr (x # xs)" j r r'] by (simp add: kind_def)
  then obtain ys where j: "j = JArr ys" by (auto simp: kind_def split: json.splits bool.splits)
  show ?case
  proof (cases ys)
    case Nil
    with 7 j show ?thesis
      using render_not_close [of x "render_arr xs @ r" r'] by (auto dest: sym)
  next
    case (Cons y ys')
    have *: "x = y \<and> render_arr xs @ r = render_arr ys' @ r'"
      using 7(1) [of y "render_arr xs @ r" "render_arr ys' @ r'"] 7(3-) j Cons by simp
    have "xs = ys' \<and> r = r'"
      using 7(2) [OF _ _ conjunct2 [OF *]] 7(3,4) j Cons by simp
    with * j Cons show ?thesis by simp
  qed
next
  case 8
  then have "kind j = 5" using render_kind [of "JObj []" j r r'] by (simp add: kind_def)
  then obtain ys where j: "j = JObj ys" by (auto simp: kind_def split: json.splits bool.splits)
  with 8 show ?case by (cases ys) (auto simp: quote_def)
next
  case (9 k v kvs)
  then have "kind j = 5" using render_kind [of "JObj ((k, v) # kvs)" j r r'] by (simp add: kind_def)
  then obtain ys where j: "j = JObj ys" by (auto simp: kind_def split: json.splits bool.splits)
  show ?case
  proof (cases ys)
    case Nil
    with 9 j show ?thesis by (auto simp: quote_def)
  next
    case (Cons y ys')
    obtain k' v' where y: "y = (k', v')" by (cases y)
    with 9(7) j Cons have kk: "k = k' \<and>
        CHR '':'' # render v @ render_obj kvs @ r = CHR '':'' # render v' @ render_obj ys' @ r'"
      by (auto dest!: quote_inj)
    have *: "v = v' \<and> render_obj kvs @ r = render_obj ys' @ r'"
      by (rule 9(1)) (use 9(3,4) j Cons y kk in simp_all)
    have "kvs = ys' \<and> r = r'"
      using 9(2) [OF _ _ conjunct2 [OF *]] 9(3,4) j Cons y by simp
    with * kk j Cons y show ?thesis by simp
  qed
next
  case 10
  then show ?case by (cases ys) auto
next
  case (11 x xs)
  show ?case
  proof (cases ys)
    case Nil
    with 11(5) show ?thesis by simp
  next
    case (Cons y ys')
    have *: "x = y \<and> render_arr xs @ r = render_arr ys' @ r'"
      using 11(1) [of y "render_arr xs @ r" "render_arr ys' @ r'"] 11(3-) Cons by simp
    have "xs = ys' \<and> r = r'"
      using 11(2) [OF _ _ conjunct2 [OF *]] 11(3,4) Cons by simp
    with * Cons show ?thesis by simp
  qed
next
  case 12
  then show ?case by (cases mvs) auto
next
  case (13 k v kvs)
  show ?case
  proof (cases mvs)
    case Nil
    with 13(5) show ?thesis by simp
  next
    case (Cons y ys')
    obtain k' v' where y: "y = (k', v')" by (cases y)
    with 13(5) Cons have kk: "k = k' \<and>
        CHR '':'' # render v @ render_obj kvs @ r = CHR '':'' # render v' @ render_obj ys' @ r'"
      by (auto dest!: quote_inj)
    have *: "v = v' \<and> render_obj kvs @ r = render_obj ys' @ r'"
      by (rule 13(1)) (use 13(3,4) Cons y kk in simp_all)
    have "kvs = ys' \<and> r = r'"
      using 13(2) [OF _ _ conjunct2 [OF *]] 13(3,4) Cons y by simp
    with * kk Cons y show ?thesis by simp
  qed
qed

lemma wf_json_canon: "wf_json j \<Longrightarrow> wf_json (canon j)"
  by (induction j rule: canon.induct) auto

lemma canonical_text_inj:
  assumes "wf_json a" "wf_json b" "canonical_text a = canonical_text b"
  shows "py_eq a b"
  using render_inj [of "canon a" "canon b" "[]" "[]"] assms
  by (simp add: canonical_text_def py_eq_def wf_json_canon)

lemma canonical_text_py_eq: "py_eq a b \<Longrightarrow> canonical_text a = canonical_text b"
  by (simp add: canonical_text_def py_eq_def)

definition collision :: "(string \<Rightarrow> string) \<Rightarrow> bool" where
  "collision H = (\<exists>s t. s \<noteq> t \<and> H s = H t)"

lemma no_collision_id [simp]: "\<not> collision (\<lambda>s. s)"
  by (simp add: collision_def)

lemma sha256_record_binds:
  assumes "sha256_record H a = Inr h" "sha256_record H b = Inr h" "wf_json a" "wf_json b"
  shows "py_eq a b \<or> collision H"
proof (cases "canonical_text a = canonical_text b")
  case True
  with assms show ?thesis by (simp add: canonical_text_inj)
next
  case False
  moreover from assms have "H (canonical_text a) = H (canonical_text b)"
    by (auto simp: sha256_record_def split: if_splits)
  ultimately show ?thesis by (auto simp: collision_def)
qed

lemma sha256_value_record:
  "sha256_value H j = Inr h \<Longrightarrow> sha256_record H j = Inr h"
  by (auto simp: sha256_value_def sha256_record_def canonical_bytes_def split: if_splits)

lemma sha256_value_binds:
  assumes "sha256_value H a = Inr h" "sha256_value H b = Inr h" "wf_json a" "wf_json b"
  shows "py_eq a b \<or> collision H"
  using assms by (blast dest: sha256_value_record sha256_record_binds)

subsection \<open>Lookups see through the canonical order\<close>

lemma map_of_insort_key:
  "map_of (insort_key fst (k, v) xs) = (map_of xs)(k \<mapsto> v)"
  by (induction xs) (auto simp: fun_upd_twist)

lemma map_of_sort_key: "map_of (sort_key fst kvs) = map_of kvs"
proof (induction kvs)
  case Nil
  then show ?case by simp
next
  case (Cons kv kvs)
  then show ?case by (cases kv) (simp add: map_of_insort_key)
qed

lemma map_of_map_canon:
  "map_of (map (\<lambda>kv. (fst kv, canon (snd kv))) kvs) k = map_option canon (map_of kvs k)"
  by (induction kvs) auto

lemma jget_canon: "jget (canon j) k = canon (jget j k)"
  by (cases j) (simp_all add: jget_def items_def map_of_sort_key map_of_map_canon
      split: option.splits)

lemma py_eq_jget: "py_eq a b \<Longrightarrow> py_eq (jget a k) (jget b k)"
  by (simp add: py_eq_def flip: jget_canon)

lemma py_eq_str [simp]: "py_eq (JStr s) j \<longleftrightarrow> j = JStr s" "py_eq j (JStr s) \<longleftrightarrow> j = JStr s"
  by (cases j; auto simp: py_eq_def)+

lemma py_eq_int [simp]: "py_eq (JInt i) j \<longleftrightarrow> j = JInt i" "py_eq j (JInt i) \<longleftrightarrow> j = JInt i"
  by (cases j; auto simp: py_eq_def)+

lemma py_eq_null [simp]: "py_eq JNull j \<longleftrightarrow> j = JNull" "py_eq j JNull \<longleftrightarrow> j = JNull"
  by (cases j; auto simp: py_eq_def)+

definition drop_key :: "string \<Rightarrow> json \<Rightarrow> json" where
  "drop_key k j = JObj (without_key k (items j))"

lemma jget_drop_key: "jget (drop_key k j) x = (if x = k then JNull else jget j x)"
  by (simp add: drop_key_def jget_def map_of_without_key)

lemma wf_json_drop_key: "wf_json j \<Longrightarrow> wf_json (drop_key k j)"
  by (cases j) (auto simp: drop_key_def items_def without_key_def)

section \<open>Comparing a number with an int\<close>

text \<open>
  Python's \<open>v == n\<close> for an \<open>int\<close> \<open>n\<close>: a bool is 0 or 1, and an integral float below 10^16 is
  written with \<open>.0\<close>.
\<close>

definition py_int_eq :: "json \<Rightarrow> int \<Rightarrow> bool" where
  "py_int_eq j n = (case j of JInt i \<Rightarrow> i = n | JBool b \<Rightarrow> (if b then 1 else 0) = n
     | JFloat r \<Rightarrow> r = show_int n @ ''.0'' \<or> (n = 0 \<and> r = ''-0.0'') | _ \<Rightarrow> False)"

lemma py_int_eq_JInt [simp]: "py_int_eq (JInt i) n \<longleftrightarrow> i = n"
  by (simp add: py_int_eq_def)

lemma show_nat_zero: "show_nat 0 = ''0''"
  by code_simp

lemma show_int_not_minus_zero: "show_int n \<noteq> ''-0''"
proof
  assume a: "show_int n = ''-0''"
  show False
  proof (cases "n < 0")
    case True
    with a have "show_nat (nat (- n)) = show_nat 0" by (simp add: show_int_def show_nat_zero)
    then have "nat (- n) = 0" by (rule show_nat_inj)
    with True show False by simp
  next
    case False
    with a have "hd (show_nat (nat n)) = CHR ''-''" by (simp add: show_int_def)
    with hd_show_nat [of "nat n"] minus_not_digit show False by simp
  qed
qed

lemma float_not_minus_zero: "show_int k @ ''.0'' \<noteq> ''-0.0''"
proof
  assume "show_int k @ ''.0'' = ''-0.0''"
  then have "show_int k @ ''.0'' = ''-0'' @ ''.0''" by simp
  then have "show_int k = ''-0''" by (simp only: append_same_eq)
  with show_int_not_minus_zero show False by blast
qed

lemma py_int_eq_fun:
  assumes "py_int_eq j m" "py_int_eq j n"
  shows "m = n"
proof (cases j)
  case (JFloat r)
  with assms have "r = show_int m @ ''.0'' \<or> m = 0 \<and> r = ''-0.0''"
    "r = show_int n @ ''.0'' \<or> n = 0 \<and> r = ''-0.0''" by (simp_all add: py_int_eq_def)
  then show ?thesis
    using float_not_minus_zero [of m] float_not_minus_zero [of n] show_int_inj [of m n]
    by (metis append_same_eq)
qed (use assms in \<open>simp_all add: py_int_eq_def\<close>)

lemma py_int_eq_py_eq: "py_eq a b \<Longrightarrow> py_int_eq a m \<Longrightarrow> py_int_eq b n \<Longrightarrow> m = n"
proof -
  assume e: "py_eq a b" "py_int_eq a m" "py_int_eq b n"
  then have "a = b" by (cases a; cases b) (auto simp: py_eq_def py_int_eq_def)
  with e show ?thesis using py_int_eq_fun by blast
qed

end
