(* ===== verification/Logs.thy ===== *)
theory Logs
  imports Integrity
begin

text \<open>
  What the append-only stores of the runtime share.  A store is the list of its rows in
  file order.  Two readings recur: the latest row of each id (approvals, requests, task
  registry), and the whole file as one hash chain (execution-stage ledger, consumption
  store, effect audit, gate intake).  Each reading is a definition here, with a locale
  that states what a component promises about its rows and what follows from it.
\<close>

section \<open>The latest row of each id\<close>

definition latest_step :: "('r \<Rightarrow> 'k option) \<Rightarrow> ('k \<rightharpoonup> 'r) \<Rightarrow> 'r \<Rightarrow> ('k \<rightharpoonup> 'r)" where
  "latest_step key m r = (case key r of None \<Rightarrow> m | Some k \<Rightarrow> m(k \<mapsto> r))"

definition latest_by :: "('r \<Rightarrow> 'k option) \<Rightarrow> 'r list \<Rightarrow> ('k \<rightharpoonup> 'r)" where
  "latest_by key rows = foldl (latest_step key) Map.empty rows"

lemma latest_by_Nil [simp]: "latest_by key [] = Map.empty"
  by (simp add: latest_by_def)

lemma latest_by_snoc [simp]: "latest_by key (rows @ [r]) = latest_step key (latest_by key rows) r"
  by (simp add: latest_by_def)

lemma latest_by_in: "latest_by key rows k = Some r \<Longrightarrow> r \<in> set rows \<and> key r = Some k"
  by (induction rows rule: rev_induct)
     (auto simp: latest_step_def split: option.splits if_splits)

lemma latest_by_None: "latest_by key rows k = None \<longleftrightarrow> (\<forall>r \<in> set rows. key r \<noteq> Some k)"
  by (induction rows rule: rev_induct)
     (auto simp: latest_step_def split: option.splits if_splits)

text \<open>
  A history is legal when every row either opens its id in an initial status or moves the
  id's latest row along an allowed edge.
\<close>

inductive legal_history ::
  "('r \<Rightarrow> 'k option) \<Rightarrow> ('r \<Rightarrow> 's) \<Rightarrow> ('s \<Rightarrow> bool) \<Rightarrow> ('s \<Rightarrow> 's \<Rightarrow> bool) \<Rightarrow> 'r list \<Rightarrow> bool"
  for key status initial allowed where
  empty_history: "legal_history key status initial allowed []"
| open_row: "legal_history key status initial allowed rows \<Longrightarrow> key r = Some k \<Longrightarrow>
     latest_by key rows k = None \<Longrightarrow> initial (status r) \<Longrightarrow>
     legal_history key status initial allowed (rows @ [r])"
| move_row: "legal_history key status initial allowed rows \<Longrightarrow> key r = Some k \<Longrightarrow>
     latest_by key rows k = Some p \<Longrightarrow> allowed (status p) (status r) \<Longrightarrow>
     legal_history key status initial allowed (rows @ [r])"

inductive_cases legal_history_snocE: "legal_history key status initial allowed (rows @ [r])"

lemma legal_history_butlast:
  "legal_history key status initial allowed (rows @ [r]) \<Longrightarrow>
   legal_history key status initial allowed rows"
  by (erule legal_history_snocE) simp_all

lemma legal_history_move:
  "legal_history key status initial allowed (rows @ [r]) \<Longrightarrow> key r = Some k \<Longrightarrow>
   latest_by key rows k = Some p \<Longrightarrow> allowed (status p) (status r)"
  by (erule legal_history_snocE) auto

lemma legal_history_prefix:
  "legal_history key status initial allowed (xs @ ys) \<Longrightarrow>
   legal_history key status initial allowed xs"
proof (induction ys rule: rev_induct)
  case Nil
  then show ?case by simp
next
  case (snoc y ys)
  from snoc.prems have "legal_history key status initial allowed ((xs @ ys) @ [y])" by simp
  then have "legal_history key status initial allowed (xs @ ys)"
    by (rule legal_history_butlast)
  then show ?case by (rule snoc.IH)
qed

text \<open>
  The contract of a store whose lifecycle only moves forward: a terminal status has no
  way out.
\<close>

locale forward_store =
  fixes key :: "'r \<Rightarrow> 'k option"
    and status :: "'r \<Rightarrow> 's"
    and initial :: "'s \<Rightarrow> bool"
    and allowed :: "'s \<Rightarrow> 's \<Rightarrow> bool"
    and terminal :: "'s \<Rightarrow> bool"
  assumes terminal_stuck: "terminal s \<Longrightarrow> \<not> allowed s t"
begin

lemma terminal_final:
  assumes "legal_history key status initial allowed (xs @ ys)"
    and "latest_by key xs k = Some p" and "terminal (status p)"
  shows "latest_by key (xs @ ys) k = Some p"
  using assms(1)
proof (induction ys rule: rev_induct)
  case Nil
  with assms show ?case by simp
next
  case (snoc y ys)
  from snoc.prems have step: "legal_history key status initial allowed ((xs @ ys) @ [y])"
    by simp
  then have "legal_history key status initial allowed (xs @ ys)"
    by (rule legal_history_butlast)
  then have p: "latest_by key (xs @ ys) k = Some p" by (rule snoc.IH)
  have "key y \<noteq> Some k"
  proof
    assume "key y = Some k"
    from legal_history_move [OF step this p] have "allowed (status p) (status y)" .
    with assms(3) terminal_stuck show False by blast
  qed
  with p show ?case
    by (auto simp: latest_step_def simp flip: append_assoc split: option.splits)
qed

lemma one_terminal_row:
  assumes "legal_history key status initial allowed rows"
    and "i < j" "j < length rows" "key (rows ! i) = Some k" "terminal (status (rows ! i))"
  shows "key (rows ! j) \<noteq> Some k"
proof
  assume kj: "key (rows ! j) = Some k"
  let ?xs = "take (Suc i) rows"
  have xs: "?xs = take i rows @ [rows ! i]"
    using assms(2,3) by (simp add: take_Suc_conv_app_nth)
  have "latest_by key ?xs k = Some (rows ! i)"
    unfolding xs using assms(4) by (simp add: latest_step_def)
  moreover have split: "take j rows = ?xs @ take (j - Suc i) (drop (Suc i) rows)"
    using assms(2) by (metis Suc_leI add_diff_inverse_nat not_less_eq_eq take_add
        le_add_diff_inverse)
  moreover have leg: "legal_history key status initial allowed (take j rows @ [rows ! j])"
  proof -
    have "legal_history key status initial allowed (take (Suc j) rows @ drop (Suc j) rows)"
      using assms(1) by simp
    then have "legal_history key status initial allowed (take (Suc j) rows)"
      by (rule legal_history_prefix)
    with assms(3) show ?thesis by (simp add: take_Suc_conv_app_nth)
  qed
  moreover have "legal_history key status initial allowed (take j rows)"
    using leg by (rule legal_history_prefix)
  ultimately have "latest_by key (take j rows) k = Some (rows ! i)"
    using terminal_final [of ?xs "take (j - Suc i) (drop (Suc i) rows)"] assms(5) by metis
  from legal_history_move [OF leg kj this]
  have "allowed (status (rows ! i)) (status (rows ! j))" .
  with assms(5) terminal_stuck show False by blast
qed

end

section \<open>The file as one hash chain\<close>

text \<open>
  Row \<open>i\<close> carries its number, the hash stored by the row before, and its own hash.
\<close>

fun linked :: "string \<Rightarrow> string \<Rightarrow> (json \<Rightarrow> string option) \<Rightarrow> int \<Rightarrow> json \<Rightarrow> json list \<Rightarrow> bool" where
  "linked pf hf rowhash i p [] = True"
| "linked pf hf rowhash i p (r # rs) =
     (py_int_eq (jget r ''seq'') i \<and> jget r pf = p \<and>
      (\<exists>h. rowhash r = Some h \<and> jget r hf = JStr h) \<and>
      linked pf hf rowhash (i + 1) (jget r hf) rs)"

definition tip_hash :: "string \<Rightarrow> json \<Rightarrow> json list \<Rightarrow> json" where
  "tip_hash hf p rows = (if rows = [] then p else jget (last rows) hf)"

lemma linked_append:
  "linked pf hf rowhash i p (xs @ ys) \<longleftrightarrow>
   linked pf hf rowhash i p xs \<and>
   linked pf hf rowhash (i + int (length xs)) (tip_hash hf p xs) ys"
  by (induction xs arbitrary: i p) (auto simp: tip_hash_def algebra_simps)

lemma linked_snoc:
  "linked pf hf rowhash i p (xs @ [r]) \<longleftrightarrow>
   linked pf hf rowhash i p xs \<and> py_int_eq (jget r ''seq'') (i + int (length xs)) \<and>
   jget r pf = tip_hash hf p xs \<and> (\<exists>h. rowhash r = Some h \<and> jget r hf = JStr h)"
  by (simp add: linked_append)

lemma linked_nth_seq:
  "linked pf hf rowhash i p rows \<Longrightarrow> n < length rows \<Longrightarrow>
   py_int_eq (jget (rows ! n) ''seq'') (i + int n)"
proof (induction rows arbitrary: i p n)
  case (Cons r rows)
  show ?case
  proof (cases n)
    case (Suc m)
    with Cons.prems Cons.IH [of "i + 1" "jget r hf" m] show ?thesis by (simp add: algebra_simps)
  qed (use Cons.prems in simp)
qed simp

text \<open>
  The contract of a row hash: two rows with one hash are the same row, or a collision.
  From it, the tip's hash vouches for the whole file.
\<close>

definition same_row :: "string \<Rightarrow> json \<Rightarrow> json \<Rightarrow> bool" where
  "same_row hf a b = (py_eq (drop_key hf a) (drop_key hf b) \<and> jget a hf = jget b hf)"

locale hash_chain =
  fixes pf hf :: string
    and rowhash :: "json \<Rightarrow> string option"
    and coll :: bool
  assumes binds: "rowhash a = Some h \<Longrightarrow> rowhash b = Some h \<Longrightarrow> wf_json a \<Longrightarrow> wf_json b \<Longrightarrow>
      py_eq (drop_key hf a) (drop_key hf b) \<or> coll"
    and fields: "pf \<noteq> hf" "hf \<noteq> ''seq''"
begin

lemma same_row_fields:
  assumes "py_eq (drop_key hf a) (drop_key hf b)" "x \<noteq> hf"
  shows "py_eq (jget a x) (jget b x)"
  using py_eq_jget [OF assms(1), of x] assms(2) by (simp add: jget_drop_key)

lemma tip_determines:
  assumes "linked pf hf rowhash i p xs" "linked pf hf rowhash i p ys"
    and "\<forall>r \<in> set xs. wf_json r" "\<forall>r \<in> set ys. wf_json r"
    and "xs \<noteq> []" "ys \<noteq> []" "tip_hash hf p xs = tip_hash hf p ys"
  shows "coll \<or> list_all2 (same_row hf) xs ys"
  using assms
proof (induction xs arbitrary: ys rule: rev_induct)
  case Nil
  then show ?case by simp
next
  case (snoc x xs)
  then obtain y ys' where ys: "ys = ys' @ [y]" by (metis rev_exhaust)
  from snoc.prems ys obtain h where
    x: "rowhash x = Some h" "jget x hf = JStr h" and y: "rowhash y = Some h" "jget y hf = JStr h"
    by (auto simp: linked_snoc tip_hash_def)
  show ?case
  proof (cases coll)
    case True
    then show ?thesis by simp
  next
    case False
    with binds [OF x(1) y(1)] snoc.prems ys
    have eq: "py_eq (drop_key hf x) (drop_key hf y)" by simp
    then have same: "same_row hf x y" using x y by (simp add: same_row_def)
    from snoc.prems ys py_int_eq_py_eq [OF same_row_fields [OF eq fields(2) [symmetric]]]
    have len: "length xs = length ys'" by (fastforce simp: linked_snoc)
    show ?thesis
    proof (cases xs)
      case Nil
      with len ys same show ?thesis by simp
    next
      case (Cons z zs)
      with len have ne: "xs \<noteq> []" "ys' \<noteq> []" by auto
      from snoc.prems ys same_row_fields [OF eq fields(1)]
      have "py_eq (tip_hash hf p xs) (tip_hash hf p ys')" by (simp add: linked_snoc)
      moreover from snoc.prems(1) have "linked pf hf rowhash i p xs"
        by (simp add: linked_append)
      then obtain h' where "tip_hash hf p xs = JStr h'"
        using ne(1) by (cases xs rule: rev_cases) (auto simp: linked_snoc tip_hash_def)
      ultimately have "tip_hash hf p xs = tip_hash hf p ys'" by simp
      with snoc.IH [of ys'] snoc.prems ys ne False have "list_all2 (same_row hf) xs ys'"
        by (simp add: linked_snoc)
      with same ys show ?thesis by (simp add: list_all2_appendI)
    qed
  qed
qed

text \<open>An edit, insertion, removal or reordering that leaves the tip alone is a collision.\<close>

lemma proper_prefix_other_tip:
  assumes "linked pf hf rowhash i p (xs @ ys)" "\<forall>r \<in> set (xs @ ys). wf_json r"
    and "xs \<noteq> []" "ys \<noteq> []" "tip_hash hf p xs = tip_hash hf p (xs @ ys)"
  shows coll
proof -
  from assms(1) have "linked pf hf rowhash i p xs" by (simp add: linked_append)
  with tip_determines [of i p xs "xs @ ys"] assms
  have "coll \<or> list_all2 (same_row hf) xs (xs @ ys)" by simp
  with assms(4) show ?thesis by (auto dest: list_all2_lengthD)
qed

end

end
