(* ===== verification/Control.thy ===== *)
theory Control
  imports Logs
begin

text \<open>
  The operator control state (\<open>runtime/mvp_runtime/control.py\<close>): the state dataclass,
  the fail-closed read of the state file, the recovery of a lost file from the control
  ledger, the atomic write, the control event, and the policy grants.

  A file is what a read can find: absent, unreadable (an \<open>OSError\<close>, or bytes that are
  not JSON), or a JSON value.  The durable control ledger is absent, damaged, or its rows.
  Whether a write reaches the disk is the environment's answer (\<open>save_fails\<close>,
  \<open>append_fails\<close>).
\<close>

section \<open>The state\<close>

datatype mode = Active | Paused | Killed

datatype halt = Soft | Hard

definition mode_name :: "mode \<Rightarrow> string" where
  "mode_name m = (case m of Active \<Rightarrow> ''ACTIVE'' | Paused \<Rightarrow> ''PAUSED'' | Killed \<Rightarrow> ''KILLED'')"

definition mode_of :: "string \<Rightarrow> mode option" where
  "mode_of s = (if s = ''ACTIVE'' then Some Active else if s = ''PAUSED'' then Some Paused
     else if s = ''KILLED'' then Some Killed else None)"

definition halt_name :: "halt \<Rightarrow> string" where
  "halt_name h = (case h of Soft \<Rightarrow> ''SOFT'' | Hard \<Rightarrow> ''HARD'')"

definition halt_json :: "halt option \<Rightarrow> json" where
  "halt_json h = of_opt (map_option halt_name h)"

definition halt_rank :: "halt option \<Rightarrow> nat" where
  "halt_rank h = (case h of None \<Rightarrow> 0 | Some Soft \<Rightarrow> 1 | Some Hard \<Rightarrow> 2)"

lemma mode_of_name [simp]: "mode_of (mode_name m) = Some m"
  by (cases m) (simp_all add: mode_of_def mode_name_def)

lemma mode_name_simps [simp]: "mode_name Active = ''ACTIVE''" "mode_name Paused = ''PAUSED''"
  "mode_name Killed = ''KILLED''"
  by (simp_all add: mode_name_def)

lemma mode_name_inj [simp]: "mode_name m = mode_name n \<longleftrightarrow> m = n"
  by (metis mode_of_name option.inject)

lemma mode_of_Some: "mode_of s = Some m \<longleftrightarrow> s = mode_name m"
  by (cases m) (auto simp: mode_of_def mode_name_def)

record control_state =
  cs_mode :: mode
  updated_by :: string
  updated_at :: string
  cs_reason :: string
  stop_requested_task_ids :: "string list"
  fail_closed :: bool
  trading_armed :: bool
  halt_level :: "halt option"

definition active_default :: control_state where
  "active_default = \<lparr>cs_mode = Active, updated_by = ''system'', updated_at = [],
     cs_reason = ''default active state (no operator stop in effect)'',
     stop_requested_task_ids = [], fail_closed = False, trading_armed = True,
     halt_level = None\<rparr>"

definition execution_allowed :: "control_state \<Rightarrow> bool" where
  "execution_allowed s = (cs_mode s = Active)"

definition trading_allowed :: "control_state \<Rightarrow> bool" where
  "trading_allowed s = (execution_allowed s \<and> trading_armed s \<and> halt_level s = None)"

definition refusal_reason_code :: "control_state \<Rightarrow> string" where
  "refusal_reason_code s = (if cs_mode s = Killed then ''RUNTIME_KILLED'' else ''RUNTIME_PAUSED'')"

definition as_record :: "control_state \<Rightarrow> json" where
  "as_record s = JObj
     [(''record_type'', JStr ''operator_control_state.v0''),
      (''mode'', JStr (mode_name (cs_mode s))),
      (''updated_by'', JStr (updated_by s)),
      (''updated_at'', JStr (updated_at s)),
      (''reason'', JStr (cs_reason s)),
      (''stop_requested_task_ids'', JArr (map JStr (stop_requested_task_ids s))),
      (''trading_armed'', JBool (trading_armed s \<and> halt_level s = None)),
      (''halt_level'', halt_json (halt_level s))]"

text \<open>A recorded halt level, read fail-closed: anything present and unreadable is HARD.\<close>

definition halt_level_of :: "json \<Rightarrow> halt option" where
  "halt_level_of raw = (if raw = JNull then None
     else if raw = JStr ''SOFT'' then Some Soft
     else if raw = JStr ''HARD'' then Some Hard
     else Some Hard)"

lemma halt_level_of_json [simp]: "halt_level_of (halt_json h) = h"
proof (cases h)
  case (Some a)
  then show ?thesis by (cases a) (simp_all add: halt_level_of_def halt_json_def halt_name_def)
qed (simp add: halt_level_of_def halt_json_def)

lemma halt_level_of_None: "halt_level_of raw = None \<longleftrightarrow> raw = JNull"
  by (simp add: halt_level_of_def)

definition stop_ref :: "(string \<Rightarrow> string) \<Rightarrow> control_state \<Rightarrow> string res" where
  "stop_ref H s = short_id H ''stop'' (JObj
     ([(''mode'', JStr (mode_name (cs_mode s))),
       (''updated_at'', JStr (updated_at s)),
       (''updated_by'', JStr (updated_by s)),
       (''reason'', JStr (cs_reason s)),
       (''fail_closed'', JBool (fail_closed s))]
      @ (case halt_level s of None \<Rightarrow> []
         | Some h \<Rightarrow> [(''halt_level'', JStr (halt_name h))])))"

section \<open>Python's \<open>str()\<close> of a JSON value\<close>

definition repr_char :: "char \<Rightarrow> char \<Rightarrow> string" where
  "repr_char q c = (let n = of_char c :: nat in
     if c = q \<or> n = 92 then [CHR 0x5C, c]
     else if n = 10 then [CHR 0x5C, CHR ''n'']
     else if n = 13 then [CHR 0x5C, CHR ''r'']
     else if n = 9 then [CHR 0x5C, CHR ''t'']
     else if n < 32 \<or> (127 \<le> n \<and> n \<le> 160) \<or> n = 173 then
       [CHR 0x5C, CHR ''x'', hex_digit (n div 16), hex_digit (n mod 16)]
     else [c])"

definition repr_str :: "string \<Rightarrow> string" where
  "repr_str s = (let q = (if CHR 0x27 \<in> set s \<and> CHR 0x22 \<notin> set s then CHR 0x22 else CHR 0x27) in
     q # concat (map (repr_char q) s) @ [q])"

fun py_repr :: "json \<Rightarrow> string" where
  "py_repr JNull = ''None''"
| "py_repr (JBool b) = (if b then ''True'' else ''False'')"
| "py_repr (JInt i) = show_int i"
| "py_repr (JFloat r) = r"
| "py_repr (JStr s) = repr_str s"
| "py_repr (JArr xs) = ''['' @ join_with '', '' (map py_repr xs) @ '']''"
| "py_repr (JObj kvs) =
     ''{'' @ join_with '', '' (map (\<lambda>kv. repr_str (fst kv) @ '': '' @ py_repr (snd kv)) kvs) @ ''}''"

definition py_str :: "json \<Rightarrow> string" where
  "py_str j = (case j of JStr s \<Rightarrow> s | _ \<Rightarrow> py_repr j)"

lemma py_str_JStr [simp]: "py_str (JStr s) = s"
  by (simp add: py_str_def)

text \<open>\<open>str(data.get(k, default))\<close>.\<close>

definition str_default :: "json \<Rightarrow> string \<Rightarrow> string \<Rightarrow> string" where
  "str_default j k dflt = (if has_key j k then py_str (jget j k) else dflt)"

section \<open>The store\<close>

datatype control_file = No_File | Unreadable_File | Json_File json

datatype event_file = No_Log | Damaged_Log | Log "json list"

record control_world =
  state_file :: control_file
  event_log :: event_file
  save_fails :: bool
  append_fails :: bool

definition corrupt_killed :: "string \<Rightarrow> control_state" where
  "corrupt_killed detail = \<lparr>cs_mode = Killed, updated_by = ''system'', updated_at = [],
     cs_reason = ''fail-closed: '' @ detail @ ''; manual recovery required (resume to clear)'',
     stop_requested_task_ids = [], fail_closed = True, trading_armed = False,
     halt_level = Some Hard\<rparr>"

text \<open>The newest event that names a known mode, and the halt level beside it.\<close>

fun last_mode :: "json list \<Rightarrow> (mode \<times> halt option) option" where
  "last_mode [] = None"
| "last_mode (e # older) =
     (case (if is_obj e then jget e ''resulting_mode'' else JNull) of
        JStr s \<Rightarrow> (case mode_of s of
            Some m \<Rightarrow> Some (m, halt_level_of (jget e ''resulting_halt_level''))
          | None \<Rightarrow> last_mode older)
      | _ \<Rightarrow> last_mode older)"

definition mode_from_ledger :: "control_world \<Rightarrow> mode option \<times> halt option" where
  "mode_from_ledger w = (case event_log w of
       No_Log \<Rightarrow> (None, None)
     | Damaged_Log \<Rightarrow> (Some Killed, Some Hard)
     | Log events \<Rightarrow> (case last_mode (rev events) of
          None \<Rightarrow> (None, None)
        | Some (m, level) \<Rightarrow> (if m = Active then None else Some m, level)))"

definition load_missing :: "control_world \<Rightarrow> control_state" where
  "load_missing w = (case mode_from_ledger w of
       (None, Some level) \<Rightarrow> active_default\<lparr>
          cs_reason := ''no control-state file; the control-event ledger's last event left a '' @
            halt_name level @ '' halt in effect, so it is kept - /resume clears it'',
          trading_armed := False, halt_level := Some level\<rparr>
     | (None, None) \<Rightarrow> active_default\<lparr>
          cs_reason := ''default active state (no operator stop in effect); live entries '' @
            ''UNARMED because no control-state file exists - /resume arms them'',
          trading_armed := False\<rparr>
     | (Some m, level) \<Rightarrow> \<lparr>cs_mode = m, updated_by = ''system'', updated_at = [],
          cs_reason = ''fail-closed: no control-state file, but the control-event ledger's last '' @
            ''event is '' @ mode_name m @ ''; deleting the state file does not clear an operator '' @
            ''stop (resume, as the authenticated operator, to clear it)'',
          stop_requested_task_ids = [], fail_closed = True, trading_armed = False,
          halt_level = level\<rparr>)"

definition stop_ids_of :: "json \<Rightarrow> string list" where
  "stop_ids_of data = (case jget data ''stop_requested_task_ids'' of
       JArr xs \<Rightarrow> map py_str xs | _ \<Rightarrow> [])"

definition armed_of :: "json \<Rightarrow> bool" where
  "armed_of data = (if has_key data ''trading_armed''
     then jget data ''trading_armed'' = JBool True else True)"

definition load_content :: "json \<Rightarrow> control_state" where
  "load_content data = (case (if is_obj data then jget data ''mode'' else JNull) of
       JStr s \<Rightarrow> (case mode_of s of
           None \<Rightarrow> corrupt_killed ''control state file is malformed or has an unknown mode''
         | Some m \<Rightarrow>
             (let level = halt_level_of (jget data ''halt_level'') in
              \<lparr>cs_mode = m,
               updated_by = str_default data ''updated_by'' ''unknown'',
               updated_at = str_default data ''updated_at'' [],
               cs_reason = str_default data ''reason'' [],
               stop_requested_task_ids = stop_ids_of data,
               fail_closed = False,
               trading_armed = armed_of data \<and> level = None,
               halt_level = level\<rparr>))
     | _ \<Rightarrow> corrupt_killed ''control state file is malformed or has an unknown mode'')"

definition load :: "control_world \<Rightarrow> control_state" where
  "load w = (case state_file w of
       No_File \<Rightarrow> load_missing w
     | Unreadable_File \<Rightarrow> corrupt_killed ''control state file is unreadable''
     | Json_File data \<Rightarrow> load_content data)"

text \<open>\<open>save\<close> writes a temporary file and replaces; a failure leaves the old file.\<close>

definition save :: "control_state \<Rightarrow> control_world \<Rightarrow> unit res \<times> control_world" where
  "save s w = (if save_fails w then (Inl (Refused ''CONTROL_WRITE_FAILED''), w)
     else (Inr (), w\<lparr>state_file := Json_File (as_record s)\<rparr>))"

definition append_control :: "json \<Rightarrow> control_world \<Rightarrow> unit res \<times> control_world" where
  "append_control e w = (if append_fails w then (Inl (Refused ''LEDGER_WRITE_FAILED''), w)
     else (Inr (), w\<lparr>event_log := (case event_log w of No_Log \<Rightarrow> Log [e]
        | Damaged_Log \<Rightarrow> Damaged_Log | Log es \<Rightarrow> Log (es @ [e]))\<rparr>))"

definition control_event ::
  "(string \<Rightarrow> string) \<Rightarrow> string \<Rightarrow> control_state \<Rightarrow> string \<Rightarrow> string option \<Rightarrow> string option \<Rightarrow> json res" where
  "control_event H action s now task_id actor =
     stamped_event H ''operator_control_event.v0''
       ([(''action'', JStr action),
         (''resulting_mode'', JStr (mode_name (cs_mode s))),
         (''resulting_trading_armed'', JBool (trading_armed s)),
         (''resulting_halt_level'', halt_json (halt_level s)),
         (''actor'', JStr (case actor of None \<Rightarrow> updated_by s | Some a \<Rightarrow> a)),
         (''reason'', JStr (cs_reason s)),
         (''created_at'', JStr now)]
        @ (case task_id of None \<Rightarrow> [] | Some t \<Rightarrow> [(''task_id'', JStr t)]))"

section \<open>The policy's grants\<close>

text \<open>The parsed policy file; None when it cannot be read or is not YAML.\<close>

definition control_channel_clause :: "json option \<Rightarrow> string \<Rightarrow> json" where
  "control_channel_clause policy door = (case policy of
       None \<Rightarrow> JNull
     | Some p \<Rightarrow> (let channel = (if is_obj p then jget p ''control_channel'' else JNull) in
         if is_obj channel then jget channel door else JNull))"

definition string_list :: "json \<Rightarrow> string list" where
  "string_list j = (case j of JArr xs \<Rightarrow> concat (map (\<lambda>x. case x of JStr s \<Rightarrow> [s] | _ \<Rightarrow> []) xs)
     | _ \<Rightarrow> [])"

definition granted_emergency_controls :: "json option \<Rightarrow> string list" where
  "granted_emergency_controls policy =
     (let console = control_channel_clause policy ''local_operator_console'' in
      string_list (if is_obj console then jget console ''emergency_controls_allowed'' else JNull))"

definition granted_read_verbs :: "json option \<Rightarrow> string list" where
  "granted_read_verbs policy =
     (let clause = control_channel_clause policy ''assistant_read'' in
      string_list (if is_obj clause then jget clause ''verbs'' else JNull))"

section \<open>Reading back what was written\<close>

lemma load_as_record:
  "load_content (as_record s) =
   s\<lparr>fail_closed := False, trading_armed := trading_armed s \<and> halt_level s = None\<rparr>"
  by (cases s) (simp add: load_content_def as_record_def str_default_def stop_ids_of_def
      armed_of_def comp_def Let_def)

lemma load_content_cases:
  obtains (corrupt) "load_content data =
      corrupt_killed ''control state file is malformed or has an unknown mode''"
    "\<not> (is_obj data \<and> (\<exists>m. jget data ''mode'' = JStr (mode_name m)))"
  | (state) m where "is_obj data" "jget data ''mode'' = JStr (mode_name m)"
    "cs_mode (load_content data) = m"
    "halt_level (load_content data) = halt_level_of (jget data ''halt_level'')"
    "trading_armed (load_content data) \<longleftrightarrow> armed_of data \<and> jget data ''halt_level'' = JNull"
    "fail_closed (load_content data) = False"
proof (cases "\<exists>m. is_obj data \<and> jget data ''mode'' = JStr (mode_name m)")
  case True
  then obtain m where "is_obj data" "jget data ''mode'' = JStr (mode_name m)" by blast
  then show thesis
    by (intro state [of m]) (simp_all add: load_content_def Let_def halt_level_of_None)
next
  case False
  then show thesis
    by (intro corrupt)
       (auto simp: load_content_def mode_of_Some split: json.splits option.splits)
qed

lemma load_content_trading:
  "trading_allowed (load_content data) \<longleftrightarrow>
   is_obj data \<and> jget data ''mode'' = JStr ''ACTIVE'' \<and> jget data ''halt_level'' = JNull \<and>
   (\<not> has_key data ''trading_armed'' \<or> jget data ''trading_armed'' = JBool True)"
proof (cases rule: load_content_cases [of data])
  case corrupt
  then show ?thesis
    by (metis corrupt_killed_def trading_allowed_def control_state.select_convs(7) mode_name_simps(1))
next
  case (state m)
  moreover have "JStr (mode_name m) = JStr ''ACTIVE'' \<longleftrightarrow> m = Active" by (cases m) simp_all
  ultimately show ?thesis
    by (auto simp: trading_allowed_def execution_allowed_def armed_of_def halt_level_of_None)
qed

lemma load_missing_not_trading: "\<not> trading_allowed (load_missing w)"
  by (auto simp: load_missing_def trading_allowed_def split: prod.splits option.splits)

lemma load_missing_disarmed: "\<not> trading_armed (load_missing w)"
  by (auto simp: load_missing_def split: prod.splits option.splits)

lemma load_halt_disarms: "halt_level (load w) \<noteq> None \<Longrightarrow> \<not> trading_armed (load w)"
proof (cases "state_file w")
  case (Json_File data)
  assume "halt_level (load w) \<noteq> None"
  with Json_File show ?thesis
    by (cases rule: load_content_cases [of data])
       (auto simp: load_def corrupt_killed_def halt_level_of_None)
qed (simp_all add: load_def load_missing_disarmed corrupt_killed_def)

text \<open>No key the control event writes is secret-bearing, so the stamp always succeeds.\<close>

lemma control_event_keys:
  "\<not> secret_key ''record_type''" "\<not> secret_key ''action''" "\<not> secret_key ''resulting_mode''"
  "\<not> secret_key ''resulting_trading_armed''" "\<not> secret_key ''resulting_halt_level''"
  "\<not> secret_key ''actor''" "\<not> secret_key ''reason''" "\<not> secret_key ''created_at''"
  "\<not> secret_key ''task_id''"
  by code_simp+

lemma has_secret_key_halt [simp]: "\<not> has_secret_key (halt_json h)"
  by (cases h) (simp_all add: halt_json_def)

lemma control_event_total:
  "\<exists>e. control_event H action s now task_id actor = Inr e \<and> is_obj e \<and>
     jget e ''resulting_mode'' = JStr (mode_name (cs_mode s)) \<and>
     jget e ''resulting_halt_level'' = halt_json (halt_level s)"
  by (cases task_id)
     (simp_all add: control_event_def stamped_event_def sha256_record_def control_event_keys)

end
