(* ===== verification/Control_Commands.thy ===== *)
theory Control_Commands
  imports Control
begin

text \<open>
  The console verbs (\<open>control.py\<close>: \<open>command_verb\<close>, \<open>parse_command\<close>,
  \<open>apply_command\<close> and its helpers).

  \<open>apply_command\<close> reads the state when it is called and again immediately before it
  writes, and takes no lock.  The model therefore gets two worlds: \<open>seen\<close>, what the
  first read found, and \<open>w\<close>, what another writer may have left by the time of the second
  read and of the write.  With no interference both are the same world.

  The reply text is a \<open>reply\<close>: which message is sent, with the values it names.
\<close>

section \<open>Parsing what the operator typed\<close>

definition commands :: "string list" where
  "commands = [''status'', ''pause'', ''kill'', ''resume'', ''stop'', ''audit'', ''recovery'',
     ''halt_trading'']"

definition policy_gated_commands :: "string list" where
  "policy_gated_commands = [''halt_trading'']"

definition command_verb :: "string \<Rightarrow> bool \<Rightarrow> string" where
  "command_verb head slash_seen =
     (let verb = lower (strip (lstrip_char (CHR ''/'') head)) in
      if slash_seen \<and> CHR ''@'' \<in> set verb then fst (partition_at (CHR ''@'') verb) else verb)"

text \<open>\<open>text\<close> is None for a message that is not a string.\<close>

definition parse_command :: "string option \<Rightarrow> (string \<times> string option) option" where
  "parse_command text = (case text of None \<Rightarrow> None
     | Some t \<Rightarrow> (let stripped = strip t in
         if stripped = [] then None
         else (let (head, rest) = partition_at (CHR '' '') stripped;
                   v = command_verb head (startswith stripped ''/'');
                   verb = (if v = ''stop_task'' then ''stop'' else v);
                   arg = strip rest
               in if verb \<notin> set commands then None
                  else Some (verb, if arg = [] then None else Some arg))))"

definition max_reason_chars :: nat where
  "max_reason_chars = 300"

definition stated_reason :: "string \<Rightarrow> string option \<Rightarrow> string" where
  "stated_reason reason arg =
     (let stated = strip reason;
          stated' = (if stated = [] then (case arg of Some a \<Rightarrow> strip a | None \<Rightarrow> []) else stated)
      in take max_reason_chars (join_with '' '' (words_of stated')))"

text \<open>\<open>arg.split(None, 1)\<close>: the first word, and what follows the whitespace after it.\<close>

definition first_word :: "string \<Rightarrow> (string \<times> string) option" where
  "first_word s = (let t = lstrip s in
     if t = [] then None
     else Some (takeWhile (\<lambda>c. \<not> is_ws c) t, lstrip (dropWhile (\<lambda>c. \<not> is_ws c) t)))"

definition halt_level_word :: "string \<Rightarrow> halt option" where
  "halt_level_word s = (if s = ''soft'' then Some Soft else if s = ''hard'' then Some Hard else None)"

definition halt_level_and_reason ::
  "halt option \<Rightarrow> string option \<Rightarrow> halt option \<times> string option" where
  "halt_level_and_reason level arg = (case level of Some l \<Rightarrow> (Some l, arg)
     | None \<Rightarrow> (case arg of None \<Rightarrow> (None, None)
         | Some a \<Rightarrow> (case first_word a of None \<Rightarrow> (None, arg)
             | Some (word, rest) \<Rightarrow> (case halt_level_word (lower word) of
                 Some l \<Rightarrow> (Some l, Some rest) | None \<Rightarrow> (None, arg)))))"

definition dec_digit :: "char \<Rightarrow> nat option" where
  "dec_digit c = (let n = of_char c :: nat in if 48 \<le> n \<and> n \<le> 57 then Some (n - 48) else None)"

text \<open>\<open>int(text)\<close> on a word: an optional sign, digits, single underscores between digits.\<close>

fun dec_digits :: "nat \<Rightarrow> string \<Rightarrow> nat option" where
  "dec_digits a [] = Some a"
| "dec_digits a [c] = map_option (\<lambda>d. 10 * a + d) (dec_digit c)"
| "dec_digits a (c # d # s) = (case dec_digit c of
     Some n \<Rightarrow> (if d = CHR ''_'' then (if s = [] then None else dec_digits (10 * a + n) s)
                else dec_digits (10 * a + n) (d # s))
   | None \<Rightarrow> None)"

definition py_int :: "string \<Rightarrow> int option" where
  "py_int s = (case s of [] \<Rightarrow> None
     | c # t \<Rightarrow> (if c = CHR ''-'' then (if t = [] then None else map_option (\<lambda>n. - int n) (dec_digits 0 t))
         else if c = CHR ''+'' then (if t = [] then None else map_option int (dec_digits 0 t))
         else map_option int (dec_digits 0 s)))"

datatype count_note = No_Note | Not_A_Number | Clamped

definition parse_count_arg :: "string option \<Rightarrow> int \<Rightarrow> int \<Rightarrow> int \<times> count_note" where
  "parse_count_arg arg dflt maximum =
     (case (case arg of None \<Rightarrow> None | Some a \<Rightarrow> first_word a) of
        None \<Rightarrow> (dflt, No_Note)
      | Some (raw, _) \<Rightarrow> (case py_int raw of
          None \<Rightarrow> (dflt, Not_A_Number)
        | Some requested \<Rightarrow> (let count = max 1 (min requested maximum) in
            (count, if count \<noteq> requested then Clamped else No_Note))))"

text \<open>\<open>s.split(sep, 1)[0]\<close>: what precedes the first occurrence of \<open>sep\<close>.\<close>

fun before_first :: "string \<Rightarrow> string \<Rightarrow> string" where
  "before_first sep [] = []"
| "before_first sep (c # s) = (if startswith (c # s) sep then [] else c # before_first sep s)"

section \<open>Applying a command\<close>

datatype reply =
    StatusReport
  | AuditReport int count_note
  | RecoveryReport
  | StopRequestRecorded string string
  | AlreadyHalted halt
  | HardHaltKept
  | HaltLoosened
  | HaltTightened
  | EntriesHalted halt
  | StopLeftAsIs mode "halt option" bool
  | HaltRecordedUnder mode halt
  | ReleasedToHalt mode halt bool
  | HaltRaced mode bool
  | PauseLeftKilled
  | PausedReply
  | KilledReply
  | ResumedReply bool "halt option" bool

record command_result =
  res_reply :: reply
  res_mode :: mode
  res_changed :: bool
  res_action :: string

text \<open>
  The keyword arguments of \<open>apply_command\<close>.  \<open>c_stamp\<close> is \<open>now or utc_now_iso()\<close>.
\<close>

record command_args =
  c_actor :: string
  c_stamp :: string
  c_reason :: string
  c_arg :: "string option"
  c_ledger :: bool
  c_resume_arms :: bool
  c_may_release :: bool
  c_level :: "string option"
  c_expected :: "control_state option"

definition level_of_arg :: "string option \<Rightarrow> halt option" where
  "level_of_arg l = (if l = Some ''SOFT'' then Some Soft
     else if l = Some ''HARD'' then Some Hard else None)"

text \<open>Save the state, then record the event; the answer comes only after both.\<close>

definition commit ::
  "(string \<Rightarrow> string) \<Rightarrow> string \<Rightarrow> control_state \<Rightarrow> string \<Rightarrow> string option \<Rightarrow> string option \<Rightarrow> bool \<Rightarrow>
   command_result \<Rightarrow> control_world \<Rightarrow> command_result res \<times> control_world" where
  "commit H action st now task_id actor has_ledger res w =
     (case save st w of
        (Inl e, w1) \<Rightarrow> (Inl e, w1)
      | (Inr _, w1) \<Rightarrow>
          (if \<not> has_ledger then (Inr res, w1)
           else (case control_event H action st now task_id actor of
                Inl e \<Rightarrow> (Inl e, w1)
              | Inr ev \<Rightarrow> (case append_control ev w1 of
                    (Inl e, w2) \<Rightarrow> (Inl e, w2)
                  | (Inr _, w2) \<Rightarrow> (Inr res, w2)))))"

definition apply_stop ::
  "(string \<Rightarrow> string) \<Rightarrow> command_args \<Rightarrow> control_world \<Rightarrow> command_result res \<times> control_world" where
  "apply_stop H c w =
     (case c_arg c of None \<Rightarrow> (Inl (Refused ''MISSING_TASK_ID''), w)
      | Some a \<Rightarrow>
        (if strip a = [] then (Inl (Refused ''MISSING_TASK_ID''), w)
         else (let (task_id, tail) = partition_at (CHR '' '') (strip a);
                   stated = stated_reason (c_reason c) (Some tail);
                   latest = load w;
                   new_state = \<lparr>cs_mode = cs_mode latest, updated_by = c_actor c,
                     updated_at = c_stamp c,
                     cs_reason = (if stated \<noteq> [] then stated
                                  else ''stop requested for task '' @ task_id),
                     stop_requested_task_ids =
                       dict_fromkeys (stop_requested_task_ids latest @ [task_id]),
                     fail_closed = False,
                     trading_armed = trading_armed latest,
                     halt_level = halt_level latest\<rparr>
               in commit H ''stop'' new_state (c_stamp c) (Some task_id) None (c_ledger c)
                    \<lparr>res_reply = StopRequestRecorded task_id stated, res_mode = cs_mode latest,
                     res_changed = True, res_action = ''stop''\<rparr> w)))"

definition recovered_state :: string where
  "recovered_state = ''a control state recovered after its file was lost or unreadable''"

definition under_stop_note :: string where
  "under_stop_note = '' [under the stop: ''"

definition unchanged :: "reply \<Rightarrow> control_state \<Rightarrow> string \<Rightarrow> command_result" where
  "unchanged r st action =
     \<lparr>res_reply = r, res_mode = cs_mode st, res_changed = False, res_action = action\<rparr>"

definition changed :: "reply \<Rightarrow> control_state \<Rightarrow> string \<Rightarrow> command_result" where
  "changed r st action =
     \<lparr>res_reply = r, res_mode = cs_mode st, res_changed = True, res_action = action\<rparr>"

text \<open>What a \<open>halt_trading\<close> decides from the state it read: nothing to write, or a new state.\<close>

definition halt_on_active ::
  "command_args \<Rightarrow> control_state \<Rightarrow> halt \<Rightarrow> string \<Rightarrow> reply + reply \<times> control_state" where
  "halt_on_active c current level stated =
     (if halt_level current = Some level then Inl (AlreadyHalted level)
      else if halt_level current = Some Hard \<and> \<not> c_may_release c then Inl HardHaltKept
      else Inr
        (case halt_level current of Some Hard \<Rightarrow> HaltLoosened | Some Soft \<Rightarrow> HaltTightened
           | None \<Rightarrow> EntriesHalted level,
         \<lparr>cs_mode = Active, updated_by = c_actor c, updated_at = c_stamp c,
          cs_reason = (if stated \<noteq> [] then stated
            else ''live entries halted by operator ('' @ lower (halt_name level) @ '' halt)''),
          stop_requested_task_ids = stop_requested_task_ids current,
          fail_closed = False, trading_armed = False, halt_level = Some level\<rparr>))"

definition halt_under_stop ::
  "command_args \<Rightarrow> control_state \<Rightarrow> halt \<Rightarrow> string \<Rightarrow> reply + reply \<times> control_state" where
  "halt_under_stop c current level stated =
     (if fail_closed current \<or> halt_rank (Some level) \<le> halt_rank (halt_level current)
      then Inl (StopLeftAsIs (cs_mode current) (halt_level current) (fail_closed current))
      else Inr
        (HaltRecordedUnder (cs_mode current) level,
         \<lparr>cs_mode = cs_mode current, updated_by = updated_by current,
          updated_at = updated_at current,
          cs_reason = strip (rstrip (before_first under_stop_note (cs_reason current)) @
            under_stop_note @ halt_name level @ '' halt recorded by '' @ c_actor c @ '' at '' @
            c_stamp c @ (if stated \<noteq> [] then '': '' @ stated @ '']'' else '']'')),
          stop_requested_task_ids = stop_requested_task_ids current,
          fail_closed = False, trading_armed = False, halt_level = Some level\<rparr>))"

definition halt_releasing ::
  "command_args \<Rightarrow> control_state \<Rightarrow> halt option \<Rightarrow> halt \<Rightarrow> string \<Rightarrow> reply + reply \<times> control_state" where
  "halt_releasing c current asked level stated =
     (let derived = (asked = None \<and> fail_closed current \<and> halt_level current \<noteq> None) in Inr
        (ReleasedToHalt (cs_mode current) level derived,
         \<lparr>cs_mode = Active, updated_by = c_actor c, updated_at = c_stamp c,
          cs_reason = (if stated \<noteq> [] then stated
            else lower (halt_name level) @ '' halt (released '' @ mode_name (cs_mode current) @
                 ''): entries halted, management resumed'') @
            (if derived then '' ['' @ halt_name level @ '' halt kept from '' @ recovered_state @ '']''
             else []),
          stop_requested_task_ids = stop_requested_task_ids current,
          fail_closed = False, trading_armed = False, halt_level = Some level\<rparr>))"

definition decide_halt ::
  "command_args \<Rightarrow> control_state \<Rightarrow> reply + reply \<times> control_state" where
  "decide_halt c current =
     (let (asked, arg) = halt_level_and_reason (level_of_arg (c_level c)) (c_arg c);
          level = (case asked of Some l \<Rightarrow> l
                   | None \<Rightarrow> (case halt_level current of Some l \<Rightarrow> l | None \<Rightarrow> Soft));
          stated = stated_reason (c_reason c) arg
      in if cs_mode current = Active then halt_on_active c current level stated
         else if \<not> c_may_release c then halt_under_stop c current level stated
         else halt_releasing c current asked level stated)"

definition apply_halt ::
  "(string \<Rightarrow> string) \<Rightarrow> command_args \<Rightarrow> control_world \<Rightarrow> control_world \<Rightarrow>
   command_result res \<times> control_world" where
  "apply_halt H c seen w =
     (let current = load seen in
      case decide_halt c current of
        Inl r \<Rightarrow> (Inr (unchanged r current ''halt_trading''), w)
      | Inr (r, new_state) \<Rightarrow>
          (let latest = load w in
           if latest \<noteq> current
           then (Inr (unchanged (HaltRaced (cs_mode latest) (trading_armed latest)) latest
                   ''halt_trading''), w)
           else commit H ''halt_trading'' new_state (c_stamp c) None (Some (c_actor c))
                  (c_ledger c) (changed r new_state ''halt_trading'') w))"

definition apply_pause ::
  "(string \<Rightarrow> string) \<Rightarrow> command_args \<Rightarrow> control_world \<Rightarrow> command_result res \<times> control_world" where
  "apply_pause H c w =
     (let current = load w; stated = stated_reason (c_reason c) (c_arg c) in
      if cs_mode current = Killed then (Inr (unchanged PauseLeftKilled current ''pause''), w)
      else (let new_state = \<lparr>cs_mode = Paused, updated_by = c_actor c, updated_at = c_stamp c,
                cs_reason = (if stated \<noteq> [] then stated else ''paused by operator''),
                stop_requested_task_ids = stop_requested_task_ids current,
                fail_closed = False, trading_armed = False, halt_level = halt_level current\<rparr>
            in commit H ''pause'' new_state (c_stamp c) None None (c_ledger c)
                 (changed PausedReply new_state ''pause'') w))"

definition apply_kill ::
  "(string \<Rightarrow> string) \<Rightarrow> command_args \<Rightarrow> control_world \<Rightarrow> command_result res \<times> control_world" where
  "apply_kill H c w =
     (let current = load w; stated = stated_reason (c_reason c) (c_arg c);
          new_state = \<lparr>cs_mode = Killed, updated_by = c_actor c, updated_at = c_stamp c,
            cs_reason = (if stated \<noteq> [] then stated else ''killed by operator''),
            stop_requested_task_ids = stop_requested_task_ids current,
            fail_closed = False, trading_armed = False, halt_level = halt_level current\<rparr>
      in commit H ''kill'' new_state (c_stamp c) None None (c_ledger c)
           (changed KilledReply new_state ''kill'') w)"

definition resumed_state :: "command_args \<Rightarrow> control_state \<Rightarrow> control_state" where
  "resumed_state c baseline =
     (let stated = stated_reason (c_reason c) (c_arg c);
          armed = (if c_resume_arms c then True else trading_armed baseline);
          kept = (if c_resume_arms c then None else halt_level baseline);
          derived = (case kept of None \<Rightarrow> []
             | Some h \<Rightarrow> (if fail_closed baseline
                 then '' ['' @ halt_name h @ '' halt kept from '' @ recovered_state @ '']'' else []))
      in \<lparr>cs_mode = Active, updated_by = c_actor c, updated_at = c_stamp c,
          cs_reason = (if stated \<noteq> [] then stated else ''resumed by operator'') @ derived,
          stop_requested_task_ids = stop_requested_task_ids baseline,
          fail_closed = False, trading_armed = armed \<and> kept = None, halt_level = kept\<rparr>)"

definition apply_resume ::
  "(string \<Rightarrow> string) \<Rightarrow> command_args \<Rightarrow> control_world \<Rightarrow> control_world \<Rightarrow>
   command_result res \<times> control_world" where
  "apply_resume H c seen w =
     (let baseline = (case c_expected c of Some e \<Rightarrow> e | None \<Rightarrow> load seen);
          new_state = resumed_state c baseline in
      if load w \<noteq> baseline then (Inl (Refused ''CONTROL_STATE_CHANGED''), w)
      else commit H ''resume'' new_state (c_stamp c) None None (c_ledger c)
             (changed (ResumedReply (trading_armed new_state) (halt_level new_state)
                (halt_level new_state \<noteq> None \<and> fail_closed baseline)) new_state ''resume'') w)"

definition apply_command ::
  "(string \<Rightarrow> string) \<Rightarrow> json option \<Rightarrow> string \<Rightarrow> command_args \<Rightarrow> control_world \<Rightarrow> control_world \<Rightarrow>
   command_result res \<times> control_world" where
  "apply_command H policy command c seen w =
     (if command \<notin> set commands then (Inl (Refused ''UNKNOWN_COMMAND''), w)
      else if c_level c \<noteq> None \<and>
         (command \<noteq> ''halt_trading'' \<or> c_level c \<notin> {Some ''SOFT'', Some ''HARD''})
        then (Inl (Refused ''UNKNOWN_HALT_LEVEL''), w)
      else if c_expected c \<noteq> None \<and> command \<noteq> ''resume''
        then (Inl (Refused ''ARGUMENT_NOT_ACCEPTED''), w)
      else if command \<in> set policy_gated_commands \<and>
         command \<notin> set (granted_emergency_controls policy)
        then (Inl (Refused ''CONTROL_VERB_NOT_GRANTED''), w)
      else if command = ''status'' then
        (Inr (unchanged StatusReport (load seen) ''status''), w)
      else if command = ''audit'' then
        (let (n, note) = parse_count_arg (c_arg c) 10 100 in
         (Inr (unchanged (AuditReport n note) (load seen) ''audit''), w))
      else if command = ''recovery'' then
        (Inr (unchanged RecoveryReport (load seen) ''recovery''), w)
      else if command = ''stop'' then apply_stop H c w
      else if command = ''halt_trading'' then apply_halt H c seen w
      else if command = ''pause'' then apply_pause H c w
      else if command = ''kill'' then apply_kill H c w
      else apply_resume H c seen w)"

end
