(* ===== verification/Control_Safety.thy ===== *)
theory Control_Safety
  imports Control_Commands
begin

text \<open>
  What the operator's controls guarantee.  \<open>control_step\<close> is the specification: which
  state changes each verb may make.  \<open>apply_command\<close> refines it, and the safety
  properties are read off the specification.
\<close>

section \<open>The specification of one command\<close>

definition asked_level :: "command_args \<Rightarrow> halt option" where
  "asked_level c = fst (halt_level_and_reason (level_of_arg (c_level c)) (c_arg c))"

inductive control_step ::
  "bool \<Rightarrow> string \<Rightarrow> command_args \<Rightarrow> control_state \<Rightarrow> control_state \<Rightarrow> bool"
  for granted :: bool where
  step_stop: "cs_mode t = cs_mode s \<Longrightarrow> halt_level t = halt_level s \<Longrightarrow>
     trading_armed t = (trading_armed s \<and> halt_level s = None) \<Longrightarrow>
     stop_requested_task_ids t = dict_fromkeys (stop_requested_task_ids s @ [x]) \<Longrightarrow>
     control_step granted ''stop'' c s t"
| step_pause: "cs_mode s \<noteq> Killed \<Longrightarrow> cs_mode t = Paused \<Longrightarrow> halt_level t = halt_level s \<Longrightarrow>
     \<not> trading_armed t \<Longrightarrow> stop_requested_task_ids t = stop_requested_task_ids s \<Longrightarrow>
     control_step granted ''pause'' c s t"
| step_kill: "cs_mode t = Killed \<Longrightarrow> halt_level t = halt_level s \<Longrightarrow>
     \<not> trading_armed t \<Longrightarrow> stop_requested_task_ids t = stop_requested_task_ids s \<Longrightarrow>
     control_step granted ''kill'' c s t"
| step_halt: "granted \<Longrightarrow> cs_mode s = Active \<or> c_may_release c \<Longrightarrow> cs_mode t = Active \<Longrightarrow>
     halt_level t = Some l \<Longrightarrow> \<not> trading_armed t \<Longrightarrow>
     stop_requested_task_ids t = stop_requested_task_ids s \<Longrightarrow>
     c_may_release c \<and> asked_level c \<noteq> None \<or> halt_rank (halt_level s) \<le> halt_rank (Some l) \<Longrightarrow>
     control_step granted ''halt_trading'' c s t"
| step_halt_under_stop: "granted \<Longrightarrow> cs_mode s \<noteq> Active \<Longrightarrow> cs_mode t = cs_mode s \<Longrightarrow>
     halt_level t = Some l \<Longrightarrow> halt_rank (halt_level s) < halt_rank (Some l) \<Longrightarrow>
     \<not> trading_armed t \<Longrightarrow> stop_requested_task_ids t = stop_requested_task_ids s \<Longrightarrow>
     control_step granted ''halt_trading'' c s t"
| step_resume: "cs_mode t = Active \<Longrightarrow>
     halt_level t = (if c_resume_arms c then None else halt_level s) \<Longrightarrow>
     trading_armed t = ((c_resume_arms c \<or> trading_armed s) \<and> halt_level t = None) \<Longrightarrow>
     stop_requested_task_ids t = stop_requested_task_ids s \<Longrightarrow>
     control_step granted ''resume'' c s t"

inductive_cases control_stepE: "control_step granted v c s t"

definition halt_granted :: "json option \<Rightarrow> bool" where
  "halt_granted policy = (''halt_trading'' \<in> set (granted_emergency_controls policy))"

section \<open>What a commit leaves on disk\<close>

lemma commit_effect:
  assumes "commit H action st now task actor lg res w = (r, w')"
  shows "state_file w' = state_file w \<and> event_log w' = event_log w \<or>
         state_file w' = Json_File (as_record st)"
  using assms
  by (auto simp: commit_def save_def append_control_def
      split: if_splits sum.splits prod.splits)

lemma commit_load:
  assumes "commit H action st now task actor lg res w = (r, w')"
  shows "load w' = load w \<or>
    load w' = st\<lparr>fail_closed := False, trading_armed := trading_armed st \<and> halt_level st = None\<rparr>"
  using commit_effect [OF assms]
proof
  assume same: "state_file w' = state_file w \<and> event_log w' = event_log w"
  then have "load_missing w' = load_missing w"
    by (simp add: load_missing_def mode_from_ledger_def)
  with same have "load w' = load w" by (simp add: load_def split: control_file.split)
  then show ?thesis ..
next
  assume "state_file w' = Json_File (as_record st)"
  then show ?thesis by (simp add: load_def load_as_record)
qed

lemma commit_ok:
  assumes "\<not> save_fails w"
  shows "load (snd (commit H action st now task actor lg res w)) =
    st\<lparr>fail_closed := False, trading_armed := trading_armed st \<and> halt_level st = None\<rparr>"
  using assms control_event_total [of H action st now task actor]
  by (auto simp: commit_def save_def append_control_def load_def load_as_record)

lemma commit_error:
  assumes "commit H action st now task actor lg res w = (Inl e, w')"
    "e \<noteq> Refused ''LEDGER_WRITE_FAILED''"
  shows "w' = w"
  using assms control_event_total [of H action st now task actor]
  by (auto simp: commit_def save_def append_control_def split: if_splits)

section \<open>A command writes nothing, or commits once\<close>

definition committed ::
  "command_result res \<times> control_world \<Rightarrow> (string \<Rightarrow> string) \<Rightarrow> command_args \<Rightarrow> control_world \<Rightarrow> bool" where
  "committed out H c w = (\<exists>action st now task actor res.
     out = commit H action st now task actor (c_ledger c) res w)"

lemma committed_commit [intro]: "committed (commit H action st now task actor (c_ledger c) res w) H c w"
  unfolding committed_def by blast

lemma apply_stop_commits: "(\<exists>x. apply_stop H c w = (x, w)) \<or> committed (apply_stop H c w) H c w"
  by (auto simp: apply_stop_def Let_def split: option.splits prod.splits)

lemma apply_pause_commits: "(\<exists>x. apply_pause H c w = (x, w)) \<or> committed (apply_pause H c w) H c w"
  by (auto simp: apply_pause_def Let_def)

lemma apply_kill_commits: "committed (apply_kill H c w) H c w"
  by (auto simp: apply_kill_def Let_def)

lemma apply_resume_commits:
  "(\<exists>x. apply_resume H c seen w = (x, w)) \<or> committed (apply_resume H c seen w) H c w"
  by (auto simp: apply_resume_def Let_def split: option.splits)

lemma apply_halt_commits:
  "(\<exists>x. apply_halt H c seen w = (x, w)) \<or> committed (apply_halt H c seen w) H c w"
proof (cases "decide_halt c (load seen)")
  case (Inr rt)
  then show ?thesis by (cases rt) (auto simp: apply_halt_def Let_def)
qed (simp add: apply_halt_def)

lemma writes_by_commit:
  "(\<exists>x. apply_command H policy v c seen w = (x, w)) \<or>
   committed (apply_command H policy v c seen w) H c w"
  using apply_stop_commits [of H c w] apply_pause_commits [of H c w] apply_kill_commits [of H c w]
    apply_resume_commits [of H c seen w] apply_halt_commits [of H c seen w]
  by (simp add: apply_command_def Let_def split: prod.splits)

section \<open>Each verb refines its rule\<close>

lemma load_armed_halt: "trading_armed (load w) \<and> halt_level (load w) = None \<longleftrightarrow> trading_armed (load w)"
  using load_halt_disarms by blast

lemma apply_stop_refines:
  assumes "apply_stop H c w = (r, w')"
  shows "load w' = load w \<or> control_step g ''stop'' c (load w) (load w')"
proof (cases "\<exists>a. c_arg c = Some a \<and> strip a \<noteq> []")
  case False
  with assms show ?thesis by (auto simp: apply_stop_def split: option.splits if_splits)
next
  case True
  then obtain a where a: "c_arg c = Some a" "strip a \<noteq> []" by blast
  obtain x tail where p: "partition_at (CHR '' '') (strip a) = (x, tail)" by fastforce
  from assms a p show ?thesis
    by (auto simp: apply_stop_def Let_def dest!: commit_load intro!: step_stop)
qed

lemma apply_pause_refines:
  assumes "apply_pause H c w = (r, w')"
  shows "load w' = load w \<or> control_step g ''pause'' c (load w) (load w')"
  using assms
  by (auto simp: apply_pause_def Let_def dest!: commit_load intro!: step_pause split: if_splits)

lemma apply_kill_refines:
  assumes "apply_kill H c w = (r, w')"
  shows "load w' = load w \<or> control_step g ''kill'' c (load w) (load w')"
  using assms by (auto simp: apply_kill_def Let_def dest!: commit_load intro!: step_kill)

lemma apply_resume_refines:
  assumes "apply_resume H c seen w = (r, w')"
  shows "load w' = load w \<or> control_step g ''resume'' c (load w) (load w')"
  using assms
  by (auto simp: apply_resume_def resumed_state_def Let_def dest!: commit_load
      intro!: step_resume split: if_splits)

lemma halt_on_active_new:
  assumes "halt_on_active c s l stated = Inr (r, t)"
  shows "cs_mode t = Active \<and> halt_level t = Some l \<and> \<not> trading_armed t \<and>
    stop_requested_task_ids t = stop_requested_task_ids s \<and>
    (c_may_release c \<or> halt_rank (halt_level s) \<le> halt_rank (Some l))"
  using assms
  by (cases l; cases "halt_level s")
     (auto simp: halt_on_active_def halt_rank_def split: if_splits halt.splits)

lemma decide_halt_step:
  assumes "decide_halt c s = Inr (r, t)"
    and "t' = t\<lparr>fail_closed := False, trading_armed := trading_armed t \<and> halt_level t = None\<rparr>"
  shows "control_step True ''halt_trading'' c s t'"
proof -
  obtain asked arg where p:
    "halt_level_and_reason (level_of_arg (c_level c)) (c_arg c) = (asked, arg)" by fastforce
  then have asked: "asked_level c = asked" by (simp add: asked_level_def)
  define l where "l = (case asked of Some l \<Rightarrow> l
     | None \<Rightarrow> (case halt_level s of Some l \<Rightarrow> l | None \<Rightarrow> Soft))"
  define stated where "stated = stated_reason (c_reason c) arg"
  have kept: "asked = None \<Longrightarrow> halt_rank (halt_level s) \<le> halt_rank (Some l)"
    by (auto simp: l_def halt_rank_def split: option.splits)
  from assms(1) p have d: "(if cs_mode s = Active then halt_on_active c s l stated
      else if \<not> c_may_release c then halt_under_stop c s l stated
      else halt_releasing c s asked l stated) = Inr (r, t)"
    unfolding decide_halt_def l_def stated_def Let_def by simp
  consider "cs_mode s = Active" "halt_on_active c s l stated = Inr (r, t)"
    | "cs_mode s \<noteq> Active" "\<not> c_may_release c" "halt_under_stop c s l stated = Inr (r, t)"
    | "cs_mode s \<noteq> Active" "c_may_release c" "halt_releasing c s asked l stated = Inr (r, t)"
    using d by (auto split: if_splits)
  then show ?thesis
  proof cases
    case 1
    with halt_on_active_new [OF 1(2)] kept asked assms(2) show ?thesis
      by (intro step_halt [where l = l]) auto
  next
    case 2
    with assms(2) show ?thesis
      by (intro step_halt_under_stop [where l = l]) (auto simp: halt_under_stop_def split: if_splits)
  next
    case 3
    with kept asked assms(2) show ?thesis
      by (intro step_halt [where l = l]) (auto simp: halt_releasing_def Let_def)
  qed
qed

lemma apply_halt_refines:
  assumes "apply_halt H c seen w = (r, w')"
  shows "load w' = load w \<or> control_step True ''halt_trading'' c (load w) (load w')"
proof (cases "decide_halt c (load seen)")
  case (Inl x)
  with assms show ?thesis by (simp add: apply_halt_def)
next
  case (Inr rt)
  obtain r' t where rt: "rt = (r', t)" by fastforce
  show ?thesis
  proof (cases "load w = load seen")
    case False
    with Inr rt assms show ?thesis by (simp add: apply_halt_def Let_def)
  next
    case True
    with Inr rt assms have "load w' = load w \<or> load w' =
        t\<lparr>fail_closed := False, trading_armed := trading_armed t \<and> halt_level t = None\<rparr>"
      by (auto simp: apply_halt_def Let_def dest: commit_load)
    with True Inr rt decide_halt_step [of c "load w" r' t] show ?thesis by auto
  qed
qed

lemma apply_command_refines:
  assumes "apply_command H policy v c seen w = (r, w')"
  shows "load w' = load w \<or> control_step (halt_granted policy) v c (load w) (load w')"
proof -
  consider "w' = w"
    | "v = ''stop''" "apply_stop H c w = (r, w')"
    | "v = ''halt_trading''" "halt_granted policy" "apply_halt H c seen w = (r, w')"
    | "v = ''pause''" "apply_pause H c w = (r, w')"
    | "v = ''kill''" "apply_kill H c w = (r, w')"
    | "v = ''resume''" "apply_resume H c seen w = (r, w')"
    using assms
    by (auto simp: apply_command_def commands_def policy_gated_commands_def halt_granted_def
        split: if_splits prod.splits)
  then show ?thesis
  proof cases
    case 3
    with apply_halt_refines [OF 3(3)] show ?thesis by simp
  qed (auto dest: apply_stop_refines apply_pause_refines apply_kill_refines apply_resume_refines)
qed

section \<open>Runs of commands\<close>

text \<open>One writer at a time: each command sees the world the last one left.\<close>

fun run_commands ::
  "(string \<Rightarrow> string) \<Rightarrow> json option \<Rightarrow> (string \<times> command_args) list \<Rightarrow> control_world \<Rightarrow> control_world" where
  "run_commands H policy [] w = w"
| "run_commands H policy ((v, c) # rest) w =
     run_commands H policy rest (snd (apply_command H policy v c w w))"

definition fresh_world :: "control_world" where
  "fresh_world = \<lparr>state_file = No_File, event_log = No_Log, save_fails = False, append_fails = False\<rparr>"

text \<open>The ledger's last event agrees with the state: losing the file loses nothing.\<close>

definition ledger_agrees :: "control_world \<Rightarrow> bool" where
  "ledger_agrees w = (\<not> append_fails w \<and> event_log w \<noteq> Damaged_Log \<and> mode_from_ledger w =
     (if cs_mode (load w) = Active then None else Some (cs_mode (load w)), halt_level (load w)))"

lemma ledger_agrees_fresh: "ledger_agrees fresh_world"
  by (simp add: ledger_agrees_def fresh_world_def mode_from_ledger_def load_def load_missing_def
      active_default_def)

lemma last_mode_event:
  assumes "control_event H action st now task actor = Inr e"
  shows "last_mode (e # older) = Some (cs_mode st, halt_level st)"
proof -
  from control_event_total [of H action st now task actor] assms
  have "is_obj e" "jget e ''resulting_mode'' = JStr (mode_name (cs_mode st))"
    "jget e ''resulting_halt_level'' = halt_json (halt_level st)" by auto
  then show ?thesis by simp
qed

lemma commit_agrees:
  assumes "ledger_agrees w"
  shows "ledger_agrees (snd (commit H action st now task actor True res w))"
proof (cases "save_fails w")
  case True
  with assms show ?thesis by (simp add: commit_def save_def)
next
  case False
  from control_event_total [of H action st now task actor] obtain e where
    e: "control_event H action st now task actor = Inr e" by blast
  define w' where "w' = snd (commit H action st now task actor True res w)"
  from assms False e have "\<exists>es. event_log w' = Log (es @ [e])" and "\<not> append_fails w'"
    by (cases "event_log w"; auto simp: w'_def commit_def save_def append_control_def
        ledger_agrees_def)+
  then obtain es where log: "event_log w' = Log (es @ [e])" and live: "\<not> append_fails w'" by blast
  moreover from log last_mode_event [OF e, of "rev es"]
  have "mode_from_ledger w' = (if cs_mode st = Active then None else Some (cs_mode st), halt_level st)"
    by (simp add: mode_from_ledger_def)
  moreover have "load w' =
      st\<lparr>fail_closed := False, trading_armed := trading_armed st \<and> halt_level st = None\<rparr>"
    unfolding w'_def by (rule commit_ok [OF False])
  ultimately show ?thesis using live by (simp add: ledger_agrees_def w'_def [symmetric])
qed

lemma apply_command_agrees:
  assumes "ledger_agrees w" "c_ledger c"
  shows "ledger_agrees (snd (apply_command H policy v c seen w))"
  using writes_by_commit [of H policy v c seen w]
proof
  assume "\<exists>x. apply_command H policy v c seen w = (x, w)"
  with assms show ?thesis by auto
next
  assume "committed (apply_command H policy v c seen w) H c w"
  with assms show ?thesis by (auto simp: committed_def intro!: commit_agrees)
qed

lemma run_commands_agrees:
  "ledger_agrees w \<Longrightarrow> \<forall>vc \<in> set cs. c_ledger (snd vc) \<Longrightarrow> ledger_agrees (run_commands H policy cs w)"
  by (induction H policy cs w rule: run_commands.induct) (simp_all add: apply_command_agrees)

lemma load_lost_file:
  "ledger_agrees w \<Longrightarrow>
   cs_mode (load (w\<lparr>state_file := No_File\<rparr>)) = cs_mode (load w) \<and>
   halt_level (load (w\<lparr>state_file := No_File\<rparr>)) = halt_level (load w) \<and>
   \<not> trading_armed (load (w\<lparr>state_file := No_File\<rparr>))"
proof -
  assume a: "ledger_agrees w"
  have "mode_from_ledger (w\<lparr>state_file := No_File\<rparr>) = mode_from_ledger w"
    by (simp add: mode_from_ledger_def)
  with a show ?thesis
    by (auto simp: ledger_agrees_def load_def [of "w\<lparr>state_file := No_File\<rparr>"] load_missing_def
        active_default_def split: option.splits)
qed

section \<open>Concrete runs\<close>

definition sample_args :: "string \<Rightarrow> bool \<Rightarrow> command_args" where
  "sample_args stamp arms = \<lparr>c_actor = ''thomas'', c_stamp = stamp, c_reason = ''drill'',
     c_arg = None, c_ledger = True, c_resume_arms = arms, c_may_release = True,
     c_level = None, c_expected = None\<rparr>"

definition sample_policy :: "json option" where
  "sample_policy = Some (JObj [(''control_channel'', JObj [(''local_operator_console'', JObj
     [(''emergency_controls_allowed'', JArr [JStr ''kill'', JStr ''halt_trading''])])])])"

abbreviation sample_run :: "(string \<times> command_args) list \<Rightarrow> control_world" where
  "sample_run cs \<equiv> run_commands (\<lambda>s. s) sample_policy cs fresh_world"

definition killed_world :: control_world where
  "killed_world = sample_run [(''kill'', sample_args ''t1'' False)]"

abbreviation sample_step :: "string \<Rightarrow> command_args \<Rightarrow> control_world \<Rightarrow> control_world \<Rightarrow>
    command_result res \<times> control_world" where
  "sample_step v c seen w \<equiv> apply_command (\<lambda>s. s) sample_policy v c seen w"

section \<open>Properties\<close>

text \<open>
  C12 The fail-closed read.  A live entry is permitted exactly when the state file is a JSON
  object whose mode is ACTIVE, whose halt level is absent or null, and whose arm is absent
  or true; a missing, unreadable, malformed or unknown file never permits one.
\<close>

theorem load_permits_trading_iff:
  "trading_allowed (load w) \<longleftrightarrow>
   (\<exists>data. state_file w = Json_File data \<and> is_obj data \<and> jget data ''mode'' = JStr ''ACTIVE'' \<and>
      jget data ''halt_level'' = JNull \<and>
      (if has_key data ''trading_armed'' then jget data ''trading_armed'' = JBool True else True))"
proof (cases "state_file w")
  case (Json_File data)
  then show ?thesis by (simp add: load_def load_content_trading)
qed (simp_all add: load_def load_missing_not_trading, simp add: corrupt_killed_def trading_allowed_def)

text \<open>
  Round trip of the state file: what \<open>save\<close> wrote reads back as the same state, with the
  arm held down under a halt and the fail-closed marker cleared; a failed write leaves the
  old state.
\<close>

theorem save_then_load:
  "load (snd (save s w)) = (if save_fails w then load w
     else s\<lparr>fail_closed := False, trading_armed := trading_armed s \<and> halt_level s = None\<rparr>)"
  by (simp add: save_def load_def [of "w\<lparr>state_file := Json_File (as_record s)\<rparr>"] load_as_record)



text \<open>
  Starting is reserved: a stopped runtime becomes ACTIVE only through \<open>resume\<close>, or through a
  policy-granted \<open>halt_trading\<close> whose caller may release a stop, and that one leaves entries
  disarmed under a halt.
\<close>

theorem only_release_verbs_start:
  assumes "apply_command H policy v c seen w = (r, w')"
    and "cs_mode (load w) \<noteq> Active" "cs_mode (load w') = Active"
  shows "v = ''resume'' \<or>
    (v = ''halt_trading'' \<and> c_may_release c \<and> halt_granted policy \<and> \<not> trading_armed (load w') \<and>
     halt_level (load w') \<noteq> None)"
  using apply_command_refines [OF assms(1)] assms(2,3)
  by (auto elim!: control_stepE)

theorem only_release_verbs_start_witness:
  "''halt_trading'' = ''resume'' \<or> (''halt_trading'' = ''halt_trading'' \<and>
     c_may_release (sample_args ''t2'' False) \<and> halt_granted sample_policy \<and>
     \<not> trading_armed (load (snd (sample_step ''halt_trading'' (sample_args ''t2'' False)
        killed_world killed_world))) \<and>
     halt_level (load (snd (sample_step ''halt_trading'' (sample_args ''t2'' False)
        killed_world killed_world))) \<noteq> None)"
  by (rule only_release_verbs_start [OF prod.collapse [symmetric]]) code_simp+

text \<open>
  C30 Arming is reserved: live entries become permitted only through \<open>resume\<close>, and only when the
  resume re-arms or the arm was already up with no halt placed.
\<close>

theorem only_resume_arms:
  assumes "apply_command H policy v c seen w = (r, w')"
    and "\<not> trading_allowed (load w)" "trading_allowed (load w')"
  shows "v = ''resume'' \<and>
    (c_resume_arms c \<or> trading_armed (load w) \<and> halt_level (load w) = None)"
  using apply_command_refines [OF assms(1)] assms(2,3)
  by (auto elim!: control_stepE simp: trading_allowed_def execution_allowed_def split: if_splits)

theorem only_resume_arms_witness:
  "''resume'' = ''resume'' \<and> (c_resume_arms (sample_args ''t2'' True) \<or>
     trading_armed (load killed_world) \<and> halt_level (load killed_world) = None)"
  by (rule only_resume_arms
      [of "\<lambda>s. s" sample_policy "''resume''" "sample_args ''t2'' True" killed_world killed_world,
       OF prod.collapse [symmetric]]) code_simp+

text \<open>
  A halt never loosens by accident: no verb but \<open>resume\<close> lowers the halt level, unless it is a
  \<open>halt_trading\<close> that names its level from a door that may release a stop.
\<close>

theorem halt_never_loosens:
  assumes "apply_command H policy v c seen w = (r, w')"
    and "v \<noteq> ''resume''" "\<not> (c_may_release c \<and> asked_level c \<noteq> None)"
  shows "halt_rank (halt_level (load w)) \<le> halt_rank (halt_level (load w'))"
  using apply_command_refines [OF assms(1)] assms(2,3)
  by (auto elim!: control_stepE)

theorem halt_never_loosens_witness:
  "halt_rank (halt_level (load killed_world)) \<le>
   halt_rank (halt_level (load (snd (sample_step ''halt_trading'' (sample_args ''t2'' False)
     killed_world killed_world))))"
  by (rule halt_never_loosens [OF prod.collapse [symmetric]]) code_simp+



text \<open>
  Resume is compare-and-set: if the state at the write is not exactly the one the resume was
  judged against, it refuses with CONTROL_STATE_CHANGED and writes nothing; otherwise the disk
  holds the resumed state of that baseline.
\<close>

theorem resume_compare_and_set:
  assumes "apply_command H policy ''resume'' c seen w = (r, w')" "c_level c = None" "\<not> save_fails w"
    and "baseline = (case c_expected c of Some e \<Rightarrow> e | None \<Rightarrow> load seen)"
  shows "if load w = baseline then load w' = resumed_state c baseline
         else r = Inl (Refused ''CONTROL_STATE_CHANGED'') \<and> w' = w"
proof -
  from assms(1,2) have "apply_resume H c seen w = (r, w')"
    by (simp add: apply_command_def commands_def policy_gated_commands_def)
  with assms(3,4) commit_ok [OF assms(3)] show ?thesis
    by (auto simp: apply_resume_def Let_def resumed_state_def prod_eq_iff)
qed

theorem resume_compare_and_set_witness:
  "fst (sample_step ''resume'' (sample_args ''t2'' True) fresh_world killed_world) =
     Inl (Refused ''CONTROL_STATE_CHANGED'') \<and>
   snd (sample_step ''resume'' (sample_args ''t2'' True) fresh_world killed_world) = killed_world"
proof -
  have "load killed_world \<noteq> load fresh_world" by code_simp
  moreover have "c_level (sample_args ''t2'' True) = None" "\<not> save_fails killed_world"
    "load fresh_world = (case c_expected (sample_args ''t2'' True) of Some e \<Rightarrow> e
       | None \<Rightarrow> load fresh_world)"
    by code_simp+
  ultimately show ?thesis
    using resume_compare_and_set [where H = "\<lambda>s. s" and policy = sample_policy and
        c = "sample_args ''t2'' True" and seen = fresh_world and w = killed_world and
        baseline = "load fresh_world", OF prod.collapse [symmetric]] by simp
qed

text \<open>
  Stop requests are never lost: every command keeps every stop request that was recorded when
  it wrote, errors and interference included.
\<close>

theorem stop_requests_survive:
  "set (stop_requested_task_ids (load w)) \<subseteq>
   set (stop_requested_task_ids (load (snd (apply_command H policy v c seen w))))"
  using apply_command_refines [of H policy v c seen w "fst (apply_command H policy v c seen w)"
      "snd (apply_command H policy v c seen w)"]
  by (auto elim!: control_stepE)

text \<open>
  A refused command changes nothing on disk, except when only the ledger append failed after
  the state was saved.
\<close>

theorem refused_command_changes_nothing:
  assumes "apply_command H policy v c seen w = (Inl e, w')" "e \<noteq> Refused ''LEDGER_WRITE_FAILED''"
  shows "w' = w"
  using writes_by_commit [of H policy v c seen w]
proof
  assume "\<exists>x. apply_command H policy v c seen w = (x, w)"
  with assms show ?thesis by auto
next
  assume "committed (apply_command H policy v c seen w) H c w"
  then obtain action st now task actor res where
    "apply_command H policy v c seen w = commit H action st now task actor (c_ledger c) res w"
    by (auto simp: committed_def)
  with assms show ?thesis by (intro commit_error) simp_all
qed

theorem refused_command_changes_nothing_witness:
  "snd (sample_step ''stop'' (sample_args ''t2'' False) killed_world killed_world) = killed_world"
proof (rule refused_command_changes_nothing)
  show "sample_step ''stop'' (sample_args ''t2'' False) killed_world killed_world =
    (Inl (Refused ''MISSING_TASK_ID''),
     snd (sample_step ''stop'' (sample_args ''t2'' False) killed_world killed_world))"
    by (simp add: apply_command_def commands_def policy_gated_commands_def sample_args_def
        apply_stop_def)
qed simp

text \<open>
  C37 Deleting the state file does not clear a stop: after any run of recorded commands on a fresh
  machine, a world that lost its state file reads the same mode and the same halt level from the
  control ledger, with live entries disarmed.
\<close>

theorem lost_state_file_keeps_stop:
  assumes "\<forall>vc \<in> set cs. c_ledger (snd vc)"
    and "w = run_commands H policy cs fresh_world"
  shows "cs_mode (load (w\<lparr>state_file := No_File\<rparr>)) = cs_mode (load w) \<and>
    halt_level (load (w\<lparr>state_file := No_File\<rparr>)) = halt_level (load w) \<and>
    \<not> trading_allowed (load (w\<lparr>state_file := No_File\<rparr>))"
  using load_lost_file [OF run_commands_agrees [OF ledger_agrees_fresh assms(1)]] assms(2)
  by (simp add: trading_allowed_def)

theorem lost_state_file_keeps_stop_witness:
  "cs_mode (load (killed_world\<lparr>state_file := No_File\<rparr>)) = cs_mode (load killed_world) \<and>
   halt_level (load (killed_world\<lparr>state_file := No_File\<rparr>)) = halt_level (load killed_world) \<and>
   \<not> trading_allowed (load (killed_world\<lparr>state_file := No_File\<rparr>))"
  by (rule lost_state_file_keeps_stop [OF _ killed_world_def]) (simp add: sample_args_def)

end
