(* ===== verification/Fingerprint.thy ===== *)
theory Fingerprint
  imports Integrity
begin

text \<open>
  The action fingerprint (\<open>scripts/lib/action_fingerprint.py\<close>): the hash that binds an
  approval to exactly one action.  The payload is checked, its data scope is put in order,
  and the canonical text is hashed.
\<close>

definition fingerprint_schema_version :: string where
  "fingerprint_schema_version = ''action_fingerprint_payload.v0.1''"

definition fp_exact_keys :: "string list" where
  "fp_exact_keys = [''api_key'', ''api_secret'', ''private_key'', ''password'', ''passphrase'',
     ''access_token'', ''refresh_token'', ''secret'', ''token'']"

definition fp_suffixes :: "string list" where
  "fp_suffixes = [''_api_key'', ''_api_secret'', ''_private_key'', ''_password'', ''_passphrase'',
     ''_access_token'', ''_refresh_token'', ''_secret'']"

definition fp_forbidden_key :: "string \<Rightarrow> bool" where
  "fp_forbidden_key k = (let n = lower (strip k) in
     n \<in> set fp_exact_keys \<or> (\<exists>f \<in> set fp_suffixes. endswith n f))"

lemma fp_forbidden_key_code [code]:
  "fp_forbidden_key k = (let n = lower (strip k); r = rev n in
     list_ex (\<lambda>f. f = n) fp_exact_keys \<or> list_ex (\<lambda>f. startswith r (rev f)) fp_suffixes)"
  by (auto simp: fp_forbidden_key_def Let_def list_ex_iff endswith_def)

text \<open>No float and no secret-bearing key, at any depth.\<close>

fun fp_value_ok :: "json \<Rightarrow> bool" where
  "fp_value_ok (JFloat r) = False"
| "fp_value_ok (JArr xs) = (\<forall>x \<in> set xs. fp_value_ok x)"
| "fp_value_ok (JObj kvs) = (\<forall>kv \<in> set kvs. \<not> fp_forbidden_key (fst kv) \<and> fp_value_ok (snd kv))"
| "fp_value_ok _ = True"

definition nonempty_str :: "json \<Rightarrow> bool" where
  "nonempty_str j = (is_str j \<and> truthy j)"

definition data_scope_of :: "json \<Rightarrow> string list option" where
  "data_scope_of j = (case j of
       JArr xs \<Rightarrow> (if list_all nonempty_str xs
         then Some (concat (map (\<lambda>x. case x of JStr s \<Rightarrow> [s] | _ \<Rightarrow> []) xs)) else None)
     | _ \<Rightarrow> None)"

definition normalize_fingerprint_payload :: "json \<Rightarrow> json res" where
  "normalize_fingerprint_payload payload =
     (let bad = Inl (PyError ''FingerprintPayloadError'') in
      if \<not> is_obj payload \<or> \<not> fp_value_ok payload then bad
      else if jget payload ''schema_version'' \<noteq> JStr fingerprint_schema_version then bad
      else if \<not> nonempty_str (jget payload ''permission_scope'') then bad
      else (case data_scope_of (jget payload ''data_scope'') of
          None \<Rightarrow> bad
        | Some scope \<Rightarrow>
            (if \<not> distinct scope then bad
             else if (jget payload ''amount_decimal'' = JNull) \<noteq> (jget payload ''currency'' = JNull)
             then bad
             else Inr (jset ''data_scope'' (JArr (map JStr (sort scope))) payload))))"

definition compute_action_fingerprint :: "(string \<Rightarrow> string) \<Rightarrow> json \<Rightarrow> string res" where
  "compute_action_fingerprint H payload =
     bindR (normalize_fingerprint_payload payload) (\<lambda>n. Inr (''sha256:'' @ H (canonical_text n)))"

section \<open>One fingerprint, one action\<close>

lemma normalize_fields:
  assumes "normalize_fingerprint_payload p = Inr n"
  shows "x \<noteq> ''data_scope'' \<Longrightarrow> jget n x = jget p x"
    and "\<exists>scope. data_scope_of (jget p ''data_scope'') = Some scope \<and>
      jget n ''data_scope'' = JArr (map JStr (sort scope))"
  using assms
  by (auto simp: normalize_fingerprint_payload_def Let_def split: if_splits option.splits)

lemma set_items_update: "set (AList.update k v kvs) \<subseteq> insert (k, v) (set kvs)"
  by (induction kvs) auto

lemma wf_json_jset: "wf_json j \<Longrightarrow> wf_json v \<Longrightarrow> wf_json (jset k v j)"
  using set_items_update [of k v "items j"]
  by (cases j) (auto simp: jset_def items_def distinct_update dest!: subsetD)

lemma normalize_wf:
  assumes "normalize_fingerprint_payload p = Inr n" "wf_json p"
  shows "wf_json n"
proof -
  from assms(1) obtain scope where "n = jset ''data_scope'' (JArr (map JStr scope)) p"
    by (auto simp: normalize_fingerprint_payload_def Let_def split: if_splits option.splits)
  with assms(2) show ?thesis by (auto intro: wf_json_jset)
qed

text \<open>
  Two payloads with one fingerprint agree on every field but the order of the data scope, or
  they exhibit a collision.
\<close>

lemma fingerprint_binds:
  assumes "compute_action_fingerprint H p = Inr h" "compute_action_fingerprint H q = Inr h"
    and "wf_json p" "wf_json q"
  shows "collision H \<or> (\<forall>x. x \<noteq> ''data_scope'' \<longrightarrow> py_eq (jget p x) (jget q x))"
proof -
  from assms(1,2) obtain m n where m: "normalize_fingerprint_payload p = Inr m"
    and n: "normalize_fingerprint_payload q = Inr n"
    and h: "H (canonical_text m) = H (canonical_text n)"
    by (auto simp: compute_action_fingerprint_def bindR_Inr_iff)
  show ?thesis
  proof (cases "canonical_text m = canonical_text n")
    case False
    with h show ?thesis by (auto simp: collision_def)
  next
    case True
    have "wf_json m" "wf_json n" using normalize_wf m n assms(3,4) by blast+
    with True have "py_eq m n" by (simp add: canonical_text_inj)
    then have "py_eq (jget m x) (jget n x)" for x by (rule py_eq_jget)
    with normalize_fields(1) [OF m] normalize_fields(1) [OF n] show ?thesis by metis
  qed
qed

end
