(* ===== verification/Timeutil.thy ===== *)
theory Timeutil
  imports Integrity
begin

text \<open>
  Timestamps (\<open>runtime/mvp_runtime/timeutil.py\<close>).  An aware \<open>datetime\<close> is its instant:
  seconds since 0001-01-01T00:00:00Z.  The calendar is the proleptic Gregorian one of
  Python's \<open>datetime\<close>, with its range check (\<open>OverflowError\<close> past the year 9999).

  \<open>fromisoformat\<close> is modelled on the spelling \<open>YYYY-MM-DD?hh:mm:ss\<close> with an offset of hours and
  minutes, which contains every timestamp the runtime writes; other ISO 8601 spellings
  (fractions, week dates, the basic form) are a \<open>ValueError\<close> here.
\<close>

section \<open>The calendar\<close>

definition is_leap :: "int \<Rightarrow> bool" where
  "is_leap y = (y mod 4 = 0 \<and> (y mod 100 \<noteq> 0 \<or> y mod 400 = 0))"

definition days_before_year :: "int \<Rightarrow> int" where
  "days_before_year y = 365 * (y - 1) + (y - 1) div 4 - (y - 1) div 100 + (y - 1) div 400"

definition month_lengths :: "int \<Rightarrow> int list" where
  "month_lengths y = [31, if is_leap y then 29 else 28, 31, 30, 31, 30, 31, 31, 30, 31, 30, 31]"

fun days_before :: "int list \<Rightarrow> int \<Rightarrow> int" where
  "days_before [] m = 0"
| "days_before (l # ls) m = (if m \<le> 1 then 0 else l + days_before ls (m - 1))"

text \<open>The month and the day of the month on day \<open>d\<close> of the year, both from 1.\<close>

fun month_of_day :: "int list \<Rightarrow> int \<Rightarrow> int \<Rightarrow> int \<times> int" where
  "month_of_day [] m d = (m, d + 1)"
| "month_of_day (l # ls) m d = (if d < l then (m, d + 1) else month_of_day ls (m + 1) (d - l))"

function year_from :: "int \<Rightarrow> int \<Rightarrow> int" where
  "year_from y d = (if y < 1 then 1
     else if days_before_year (y + 1) \<le> d then year_from (y + 1) d else y)"
  by pat_completeness auto
termination
proof (relation "measure (\<lambda>(y, d). nat (d - y))")
  show "wf (measure (\<lambda>(y, d). nat (d - y)))" by simp
next
  fix y d :: int
  assume "\<not> y < 1" "days_before_year (y + 1) \<le> d"
  moreover from this(1) have "y + y \<le> days_before_year (y + 1)"
  proof -
    have "y div 100 \<le> y div 4" using \<open>\<not> y < 1\<close> by (intro zdiv_mono2) auto
    moreover have "0 \<le> y div 400" using \<open>\<not> y < 1\<close> by simp
    ultimately show ?thesis using \<open>\<not> y < 1\<close> by (simp add: days_before_year_def)
  qed
  ultimately show "((y + 1, d), (y, d)) \<in> measure (\<lambda>(y, d). nat (d - y))" by auto
qed

declare year_from.simps [simp del]

definition year_of_days :: "int \<Rightarrow> int" where
  "year_of_days d = year_from (d div 366 + 1) d"

definition max_instant :: int where
  "max_instant = 86400 * days_before_year 10000"

definition instant_of :: "int \<Rightarrow> int \<Rightarrow> int \<Rightarrow> int \<Rightarrow> int \<Rightarrow> int \<Rightarrow> int" where
  "instant_of y mo d h mi s =
     86400 * (days_before_year y + days_before (month_lengths y) mo + (d - 1)) +
     3600 * h + 60 * mi + s"

section \<open>Writing a timestamp\<close>

definition digit :: "int \<Rightarrow> char" where
  "digit n = char_of (48 + nat (n mod 10))"

definition pad2 :: "int \<Rightarrow> string" where
  "pad2 n = [digit (n div 10), digit n]"

definition pad4 :: "int \<Rightarrow> string" where
  "pad4 n = [digit (n div 1000), digit (n div 100), digit (n div 10), digit n]"

text \<open>\<open>strftime\<close> with the runtime's format.\<close>

definition format_iso :: "int \<Rightarrow> string" where
  "format_iso t = (let d = t div 86400; r = t mod 86400; y = year_of_days d;
       (mo, day) = month_of_day (month_lengths y) 1 (d - days_before_year y) in
     pad4 y @ ''-'' @ pad2 mo @ ''-'' @ pad2 day @ ''T'' @
     pad2 (r div 3600) @ '':'' @ pad2 (r div 60 mod 60) @ '':'' @ pad2 (r mod 60) @ ''Z'')"

section \<open>Reading a timestamp\<close>

definition replace_z :: "string \<Rightarrow> string" where
  "replace_z s = concat (map (\<lambda>c. if c = CHR ''Z'' then ''+00:00'' else [c]) s)"

fun number :: "string \<Rightarrow> int option" where
  "number s = (if s \<noteq> [] \<and> list_all is_digit s then Some (int (digits_val 0 s)) else None)"

definition ranged :: "int \<Rightarrow> int \<Rightarrow> int option \<Rightarrow> int option" where
  "ranged lo hi v = (case v of Some n \<Rightarrow> if lo \<le> n \<and> n \<le> hi then Some n else None
     | None \<Rightarrow> None)"

definition field :: "string \<Rightarrow> nat \<Rightarrow> nat \<Rightarrow> string" where
  "field s i n = take n (drop i s)"

definition wall_clock :: "string \<Rightarrow> int option" where
  "wall_clock s =
     (case (number (field s 0 4), number (field s 5 2), number (field s 8 2)) of
        (Some y, Some mo, Some d) \<Rightarrow>
          (case (number (field s 11 2), number (field s 14 2), number (field s 17 2)) of
             (Some h, Some mi, Some sec) \<Rightarrow>
               (if length s = 19 \<and> s ! 4 = CHR ''-'' \<and> s ! 7 = CHR ''-'' \<and>
                   s ! 13 = CHR '':'' \<and> s ! 16 = CHR '':'' \<and>
                   1 \<le> y \<and> 1 \<le> mo \<and> mo \<le> 12 \<and> 1 \<le> d \<and> d \<le> month_lengths y ! nat (mo - 1) \<and>
                   h \<le> 23 \<and> mi \<le> 59 \<and> sec \<le> 59
                then Some (instant_of y mo d h mi sec) else None)
           | _ \<Rightarrow> None)
      | _ \<Rightarrow> None)"

definition utc_offset :: "string \<Rightarrow> int option" where
  "utc_offset s =
     (case (number (field s 1 2), number (field s 4 2)) of
        (Some h, Some m) \<Rightarrow>
          (if length s = 6 \<and> s ! 3 = CHR '':'' \<and> (s ! 0 = CHR ''+'' \<or> s ! 0 = CHR ''-'') \<and>
              h \<le> 23 \<and> m \<le> 59
           then Some ((if s ! 0 = CHR ''-'' then -1 else 1) * (3600 * h + 60 * m)) else None)
      | _ \<Rightarrow> None)"

definition parse_iso :: "string \<Rightarrow> int res" where
  "parse_iso value =
     (let s = replace_z value in
      case (wall_clock (take 19 s), utc_offset (drop 19 s)) of
        (Some w, Some off) \<Rightarrow> Inr (w - off)
      | _ \<Rightarrow> Inl (PyError ''ValueError''))"

definition checked :: "int \<Rightarrow> int res" where
  "checked t = (if 0 \<le> t \<and> t < max_instant then Inr t else Inl (PyError ''OverflowError''))"

definition plus_seconds :: "string \<Rightarrow> int \<Rightarrow> string res" where
  "plus_seconds now n =
     bindR (parse_iso now) (\<lambda>t. bindR (checked (t + n)) (\<lambda>u. Inr (format_iso u)))"

definition plus_minutes :: "string \<Rightarrow> int \<Rightarrow> string res" where
  "plus_minutes now n =
     bindR (parse_iso now) (\<lambda>t. bindR (checked (t + 60 * n)) (\<lambda>u. Inr (format_iso u)))"

text \<open>\<open>FIXED_UTC_PATTERN\<close>: the one form whose string order is the order in time.\<close>

definition fixed_utc :: "string \<Rightarrow> bool" where
  "fixed_utc s = (length s = 20 \<and> (\<forall>i < 20. if i \<in> {4, 7} then s ! i = CHR ''-''
     else if i = 10 then s ! i = CHR ''T'' else if i \<in> {13, 16} then s ! i = CHR '':''
     else if i = 19 then s ! i = CHR ''Z'' else is_digit (s ! i)))"

section \<open>Every day has one date\<close>

lemma div_step:
  assumes "0 < (k :: int)"
  shows "y div k - (y - 1) div k = (if y mod k = 0 then 1 else 0)"
proof (cases "y mod k = 0")
  case True
  then have "k * (y div k) = y" using mult_div_mod_eq [of k y] by simp
  then have "y - 1 = k * (y div k - 1) + (k - 1)" by (simp only: right_diff_distrib)
  from int_div_pos_eq [OF this] assms have "(y - 1) div k = y div k - 1" by simp
  with True show ?thesis by simp
next
  case False
  have "0 \<le> y mod k" "y mod k < k" using assms by simp_all
  moreover have "y - 1 = k * (y div k) + (y mod k - 1)" by simp
  ultimately have "(y - 1) div k = y div k"
    using int_div_pos_eq [of "y - 1" k "y div k" "y mod k - 1"] False by simp
  with False show ?thesis by simp
qed

lemma mod_step:
  "(y :: int) mod 100 = 0 \<Longrightarrow> y mod 4 = 0" "y mod 400 = 0 \<Longrightarrow> y mod 100 = 0"
  using dvd_trans [of "4 :: int" 100 y] dvd_trans [of "100 :: int" 400 y]
  by (simp_all only: mod_eq_0_iff_dvd) simp_all

lemma leap_count:
  "(b \<Longrightarrow> a) \<Longrightarrow> (c \<Longrightarrow> b) \<Longrightarrow>
   (365 :: int) + (if a then 1 else 0) - (if b then 1 else 0) + (if c then 1 else 0) =
   (if a \<and> (\<not> b \<or> c) then 366 else 365)"
  by (cases a; cases b; cases c; simp)

lemma leap_step: "days_before_year (y + 1) = days_before_year y + (if is_leap y then 366 else 365)"
proof -
  have "days_before_year (y + 1) - days_before_year y =
      365 + (y div 4 - (y - 1) div 4) - (y div 100 - (y - 1) div 100) +
      (y div 400 - (y - 1) div 400)"
    by (simp add: days_before_year_def)
  also have "\<dots> = 365 + (if y mod 4 = 0 then 1 else 0) - (if y mod 100 = 0 then 1 else 0) +
      (if y mod 400 = 0 then 1 else 0)"
    by (simp only: div_step [OF zero_less_numeral])
  also have "\<dots> = (if is_leap y then 366 else 365)"
    unfolding is_leap_def by (rule leap_count) (rule mod_step, assumption)+
  finally show ?thesis by linarith
qed

lemma year_from_bounds:
  "1 \<le> y \<Longrightarrow> days_before_year y \<le> d \<Longrightarrow>
   days_before_year (year_from y d) \<le> d \<and> d < days_before_year (year_from y d + 1) \<and> y \<le> year_from y d"
proof (induction y d rule: year_from.induct)
  case (1 y d)
  show ?case
  proof (cases "days_before_year (y + 1) \<le> d")
    case True
    with 1 have "days_before_year (year_from (y + 1) d) \<le> d \<and>
        d < days_before_year (year_from (y + 1) d + 1) \<and> y + 1 \<le> year_from (y + 1) d" by simp
    with True 1(2) show ?thesis by (simp add: year_from.simps [of y d])
  next
    case False
    with 1 show ?thesis by (simp add: year_from.simps [of y d])
  qed
qed

lemma year_of_days_bounds:
  assumes "0 \<le> d"
  shows "days_before_year (year_of_days d) \<le> d \<and> d < days_before_year (year_of_days d + 1) \<and>
    1 \<le> year_of_days d"
proof -
  let ?q = "d div 366"
  have "days_before_year (?q + 1) \<le> 366 * ?q"
  proof -
    have q: "0 \<le> ?q" using assms by simp
    have "?q div 4 \<le> ?q div 1" using q by (intro zdiv_mono2) simp_all
    moreover have "?q div 400 \<le> ?q div 100" using q by (intro zdiv_mono2) simp_all
    ultimately show ?thesis by (simp add: days_before_year_def)
  qed
  also have "366 * ?q \<le> d" by linarith
  finally show ?thesis
    using year_from_bounds [of "?q + 1" d] assms unfolding year_of_days_def
    by (smt (verit) div_int_pos_iff)
qed

lemma month_lengths_sum:
  "0 \<le> d \<Longrightarrow> d < days_before_year (y + 1) - days_before_year y \<Longrightarrow> d < sum_list (month_lengths y)"
  by (simp add: leap_step month_lengths_def split: if_splits)

lemma month_of_day_bounds:
  assumes "0 \<le> d" "d < sum_list ls"
  shows "case month_of_day ls m d of (mo, day) \<Rightarrow>
    m \<le> mo \<and> mo < m + int (length ls) \<and> 1 \<le> day \<and> day \<le> ls ! nat (mo - m) \<and>
    days_before ls (mo - m + 1) + (day - 1) = d"
  using assms
proof (induction ls m d rule: month_of_day.induct)
  case (1 m d)
  then show ?case by simp
next
  case (2 l ls m d)
  show ?case
  proof (cases "d < l")
    case True
    with 2 show ?thesis by simp
  next
    case False
    obtain mo day where md: "month_of_day ls (m + 1) (d - l) = (mo, day)" by fastforce
    with 2 False have ih: "m + 1 \<le> mo" "mo < m + 1 + int (length ls)" "1 \<le> day"
      "day \<le> ls ! nat (mo - (m + 1))" "days_before ls (mo - (m + 1) + 1) + (day - 1) = d - l"
      by auto
    then have "nat (mo - m) = Suc (nat (mo - (m + 1)))" by simp
    with ih md False show ?thesis by (simp add: algebra_simps)
  qed
qed

lemma month_of_day_ge: "m \<le> fst (month_of_day ls m d)"
  by (induction ls m d rule: month_of_day.induct) auto

lemma month_of_day_mono:
  "d < e \<Longrightarrow> fst (month_of_day ls m d) < fst (month_of_day ls m e) \<or>
     fst (month_of_day ls m d) = fst (month_of_day ls m e) \<and>
     snd (month_of_day ls m d) < snd (month_of_day ls m e)"
proof (induction ls arbitrary: m d e)
  case Nil
  then show ?case by simp
next
  case (Cons l ls)
  show ?case
  proof (cases "d < l")
    case True
    with Cons.prems month_of_day_ge [of "m + 1" ls "e - l"] show ?thesis by auto
  next
    case False
    with Cons.prems Cons.IH [of "d - l" "e - l" "m + 1"] show ?thesis by auto
  qed
qed

section \<open>Digits\<close>

lemma of_char_digit_int: "of_char (digit n) = (48 + nat (n mod 10) :: nat)"
proof -
  have "nat (n mod 10) < 10" by simp
  then show ?thesis by (simp add: digit_def of_char_of)
qed

lemma is_digit_digit [simp]: "is_digit (digit n)"
proof -
  have "nat (n mod 10) < 10" by simp
  then show ?thesis by (simp add: is_digit_def of_char_digit_int)
qed

lemma digit_not_z [simp]: "digit n \<noteq> CHR ''Z''"
proof
  assume "digit n = CHR ''Z''"
  then have "(48 + nat (n mod 10) :: nat) = of_char CHR ''Z''" by (metis of_char_digit_int)
  moreover have "nat (n mod 10) < 10" by simp
  ultimately show False by simp
qed

lemma digit_less: "digit m < digit n \<longleftrightarrow> m mod 10 < n mod 10"
proof -
  have "0 \<le> m mod 10" "0 \<le> n mod 10" by simp_all
  then have "nat (m mod 10) < nat (n mod 10) \<longleftrightarrow> m mod 10 < n mod 10" by linarith
  then show ?thesis by (simp add: less_char_def of_char_digit_int del: nat_less_eq_zless)
qed

lemma digit_eq: "digit m = digit n \<longleftrightarrow> m mod 10 = n mod 10"
proof
  assume "digit m = digit n"
  then have "(48 + nat (m mod 10) :: nat) = 48 + nat (n mod 10)" by (metis of_char_digit_int)
  then show "m mod 10 = n mod 10" by simp
qed (simp add: digit_def)

lemma number_pad2: "0 \<le> n \<Longrightarrow> n < 100 \<Longrightarrow> number [digit (n div 10), digit n] = Some n"
  using div_mod_decomp_int [of n 10] by (simp add: of_char_digit_int pos_imp_zdiv_nonneg_iff)

lemma div_100: "(n :: int) div 100 = n div 10 div 10"
  using zdiv_zmult2_eq [of 10 n 10] by simp

lemma div_1000: "(n :: int) div 1000 = n div 10 div 10 div 10"
  using zdiv_zmult2_eq [of 10 "n div 10" 10] zdiv_zmult2_eq [of 100 n 10] by simp

lemma decimal4_sum:
  "n = 10 * a + r \<Longrightarrow> a = 10 * b + s \<Longrightarrow> b = 10 * c + u \<Longrightarrow>
   1000 * c + 100 * u + 10 * s + r = (n :: int)"
  by simp

lemma decimal4: "1000 * (n div 1000) + 100 * (n div 100 mod 10) +
    10 * (n div 10 mod 10) + n mod 10 = (n :: int)"
  unfolding div_100 div_1000
  by (rule decimal4_sum; rule mult_div_mod_eq [symmetric])

lemma number_pad4:
  assumes "0 \<le> n" "n < 10000"
  shows "number [digit (n div 1000), digit (n div 100), digit (n div 10), digit n] = Some n"
proof -
  have "0 \<le> n div 1000" using assms by (simp add: pos_imp_zdiv_nonneg_iff)
  with assms show ?thesis by (simp add: of_char_digit_int decimal4)
qed

lemma div_mod_less:
  assumes "0 < (k :: int)" "m < n"
  shows "m div k < n div k \<or> m div k = n div k \<and> m mod k < n mod k"
proof (cases "m div k = n div k")
  case True
  have "m = k * (m div k) + m mod k" "n = k * (n div k) + n mod k" by simp_all
  with True assms(2) have "m mod k < n mod k" by (metis add_less_cancel_left)
  with True show ?thesis by simp
next
  case False
  moreover have "m div k \<le> n div k" using assms by (simp add: zdiv_mono1)
  ultimately show ?thesis by simp
qed

lemma pad2_less: "0 \<le> m \<Longrightarrow> m < n \<Longrightarrow> n < 100 \<Longrightarrow> pad2 m < pad2 n"
  using div_mod_less [of 10 m n] by (auto simp: pad2_def digit_less digit_eq)

lemma div_cascade:
  assumes "(a :: int) < b" "p = a div 10" "q = b div 10" "p' = p div 10" "q' = q div 10"
    "p'' = p' div 10" "q'' = q' div 10"
  shows "p'' < q'' \<or> p'' = q'' \<and> p' mod 10 < q' mod 10 \<or>
    p'' = q'' \<and> p' = q' \<and> p mod 10 < q mod 10 \<or>
    p'' = q'' \<and> p' = q' \<and> p = q \<and> a mod 10 < b mod 10"
proof -
  have one: "p < q \<or> p = q \<and> a mod 10 < b mod 10"
    unfolding assms(2,3) by (rule div_mod_less) (use assms(1) in simp_all)
  have two: "p' < q' \<or> p' = q' \<and> p mod 10 < q mod 10" if "p < q"
    unfolding assms(4,5) by (rule div_mod_less) (use that in simp_all)
  have three: "p'' < q'' \<or> p'' = q'' \<and> p' mod 10 < q' mod 10" if "p' < q'"
    unfolding assms(6,7) by (rule div_mod_less) (use that in simp_all)
  have "p = q \<Longrightarrow> p' = q'" "p' = q' \<Longrightarrow> p'' = q''" by (simp_all only: assms(4-7))
  with one two three show ?thesis by blast
qed

lemma pad4_less:
  assumes "0 \<le> m" "m < n" "n < 10000"
  shows "pad4 m < pad4 n"
proof -
  have "0 \<le> m div 1000" "n div 1000 < 10" "m div 1000 \<le> n div 1000"
    using assms by (simp_all add: zdiv_mono1 pos_imp_zdiv_nonneg_iff)
  then have top: "m div 1000 mod 10 = m div 1000" "n div 1000 mod 10 = n div 1000" by simp_all
  from div_cascade [OF assms(2) refl refl div_100 div_100 div_1000 [unfolded div_100 [symmetric]]
      div_1000 [unfolded div_100 [symmetric]]] show ?thesis
    by (elim disjE) (simp_all add: pad4_def digit_less digit_eq top)
qed

lemma append_less:
  "length xs = length ys \<Longrightarrow> (xs :: string) < ys \<or> xs = ys \<and> a < b \<Longrightarrow> xs @ a < ys @ b"
  by (induction xs ys rule: list_induct2) auto

lemma append_same: "(xs :: string) @ a < xs @ b \<longleftrightarrow> a < b"
  by (induction xs) simp_all

lemma days_before_year_mono: "y \<le> z \<Longrightarrow> days_before_year y \<le> days_before_year z"
proof (induction z rule: int_ge_induct)
  case base
  then show ?case by simp
next
  case (step z)
  then show ?case by (simp add: leap_step split: if_splits)
qed

lemma year_of_days_mono:
  assumes "0 \<le> d" "d \<le> e"
  shows "year_of_days d \<le> year_of_days e"
proof (rule ccontr)
  assume "\<not> ?thesis"
  then have "days_before_year (year_of_days e + 1) \<le> days_before_year (year_of_days d)"
    by (intro days_before_year_mono) simp
  with year_of_days_bounds [of d] year_of_days_bounds [of e] assms show False by linarith
qed

lemma date_fields:
  assumes "0 \<le> d" "d < days_before_year 10000"
    and "month_of_day (month_lengths (year_of_days d)) 1 (d - days_before_year (year_of_days d)) = (mo, day)"
  shows "1 \<le> year_of_days d \<and> year_of_days d < 10000 \<and> 1 \<le> mo \<and> mo \<le> 12 \<and> 1 \<le> day \<and>
    day \<le> month_lengths (year_of_days d) ! nat (mo - 1) \<and> day \<le> 31 \<and>
    days_before_year (year_of_days d) + days_before (month_lengths (year_of_days d)) mo + (day - 1) = d"
proof -
  let ?y = "year_of_days d"
  have y: "days_before_year ?y \<le> d" "d < days_before_year (?y + 1)" "1 \<le> ?y"
    using year_of_days_bounds [OF assms(1)] by auto
  have "?y < 10000"
  proof (rule ccontr)
    assume "\<not> ?thesis"
    then have "days_before_year 10000 \<le> days_before_year ?y" by (intro days_before_year_mono) simp
    with y assms(2) show False by linarith
  qed
  moreover have len: "length (month_lengths ?y) = 12" by (simp add: month_lengths_def)
  moreover have small: "\<forall>l \<in> set (month_lengths ?y). l \<le> 31" by (simp add: month_lengths_def)
  moreover have "d - days_before_year ?y < sum_list (month_lengths ?y)"
    using y by (intro month_lengths_sum) auto
  then have b: "1 \<le> mo" "mo < 1 + int (length (month_lengths ?y))" "1 \<le> day"
    "day \<le> month_lengths ?y ! nat (mo - 1)"
    "days_before (month_lengths ?y) (mo - 1 + 1) + (day - 1) = d - days_before_year ?y"
    using month_of_day_bounds [of "d - days_before_year ?y" "month_lengths ?y" 1] y assms(3) by auto
  moreover from b len have "nat (mo - 1) < length (month_lengths ?y)" by simp
  with small have "month_lengths ?y ! nat (mo - 1) \<le> 31" by (meson nth_mem)
  with b have "day \<le> 31" by linarith
  ultimately show ?thesis using y by auto
qed

lemma replace_z_append: "replace_z (a @ b) = replace_z a @ replace_z b"
  by (simp add: replace_z_def)

lemma replace_z_simps [simp]:
  "replace_z [] = []"
  "replace_z (c # s) = (if c = CHR ''Z'' then ''+00:00'' else [c]) @ replace_z s"
  by (simp_all add: replace_z_def)

lemma replace_z_pads [simp]: "replace_z (pad2 n) = pad2 n" "replace_z (pad4 n) = pad4 n"
  by (simp_all add: pad2_def pad4_def)

lemma time_fields:
  assumes "0 \<le> (r :: int)" "r < 86400"
  shows "0 \<le> r div 3600 \<and> r div 3600 \<le> 23 \<and> 0 \<le> r div 60 mod 60 \<and> r div 60 mod 60 \<le> 59 \<and>
    0 \<le> r mod 60 \<and> r mod 60 \<le> 59 \<and>
    3600 * (r div 3600) + 60 * (r div 60 mod 60) + r mod 60 = r"
proof -
  have q: "r div 3600 = r div 60 div 60" using zdiv_zmult2_eq [of 60 r 60] by simp
  have "60 * (r div 60 div 60) + r div 60 mod 60 = r div 60" "60 * (r div 60) + r mod 60 = r" by simp_all
  moreover have "0 \<le> r div 3600" "r div 3600 < 24" using assms by simp_all
  moreover have "0 \<le> r div 60 mod 60" "r div 60 mod 60 < 60" "0 \<le> r mod 60" "r mod 60 < 60" by simp_all
  ultimately show ?thesis unfolding q by linarith
qed

lemma wall_clock_pads:
  assumes "1 \<le> y" "y < 10000" "1 \<le> mo" "mo \<le> 12" "1 \<le> d" "d \<le> month_lengths y ! nat (mo - 1)"
    "d \<le> 31" "0 \<le> h" "h \<le> 23" "0 \<le> mi" "mi \<le> 59" "0 \<le> s" "s \<le> 59"
  shows "wall_clock (pad4 y @ ''-'' @ pad2 mo @ ''-'' @ pad2 d @ ''T'' @ pad2 h @ '':'' @ pad2 mi @
     '':'' @ pad2 s) = Some (instant_of y mo d h mi s)"
proof -
  have n: "number (pad4 y) = Some y" "number (pad2 mo) = Some mo" "number (pad2 d) = Some d"
    "number (pad2 h) = Some h" "number (pad2 mi) = Some mi" "number (pad2 s) = Some s"
    unfolding pad4_def pad2_def using assms
    by (intro number_pad4 number_pad2; linarith)+
  let ?s = "pad4 y @ ''-'' @ pad2 mo @ ''-'' @ pad2 d @ ''T'' @ pad2 h @ '':'' @ pad2 mi @
     '':'' @ pad2 s"
  have "field ?s 0 4 = pad4 y" "field ?s 5 2 = pad2 mo" "field ?s 8 2 = pad2 d"
    "field ?s 11 2 = pad2 h" "field ?s 14 2 = pad2 mi" "field ?s 17 2 = pad2 s"
    "length ?s = 19" "?s ! 4 = CHR ''-''" "?s ! 7 = CHR ''-''" "?s ! 13 = CHR '':''"
    "?s ! 16 = CHR '':''"
    by (simp_all add: field_def pad4_def pad2_def)
  with n assms show ?thesis unfolding wall_clock_def by simp
qed

lemma instant_sum:
  "86400 * d + r = t \<Longrightarrow> 3600 * h + 60 * m + s = r \<Longrightarrow> x + y + (day - 1) = d \<Longrightarrow>
   86400 * (x + y + (day - 1)) + 3600 * h + 60 * m + s = (t :: int)"
  by simp

lemma take_exact: "length xs = n \<Longrightarrow> take n (xs @ ys) = xs"
  by simp

lemma drop_exact: "length xs = n \<Longrightarrow> drop n (xs @ ys) = ys"
  by simp

lemma parse_format:
  assumes "0 \<le> t" "t < max_instant"
  shows "parse_iso (format_iso t) = Inr t"
proof -
  let ?d = "t div 86400" and ?r = "t mod 86400"
  let ?y = "year_of_days ?d"
  obtain mo day where md: "month_of_day (month_lengths ?y) 1 (?d - days_before_year ?y) = (mo, day)"
    by fastforce
  let ?w = "pad4 ?y @ ''-'' @ pad2 mo @ ''-'' @ pad2 day @ ''T'' @ pad2 (?r div 3600) @ '':'' @
    pad2 (?r div 60 mod 60) @ '':'' @ pad2 (?r mod 60)"
  have "?d < days_before_year 10000"
    using assms by (simp add: max_instant_def days_before_year_def)
  with date_fields [OF _ this md] assms have df: "1 \<le> ?y" "?y < 10000" "1 \<le> mo" "mo \<le> 12" "1 \<le> day"
    "day \<le> month_lengths ?y ! nat (mo - 1)" "day \<le> 31"
    "days_before_year ?y + days_before (month_lengths ?y) mo + (day - 1) = ?d"
    by simp_all
  have tf: "0 \<le> ?r div 3600" "?r div 3600 \<le> 23" "0 \<le> ?r div 60 mod 60" "?r div 60 mod 60 \<le> 59"
    "0 \<le> ?r mod 60" "?r mod 60 \<le> 59"
    "3600 * (?r div 3600) + 60 * (?r div 60 mod 60) + ?r mod 60 = ?r"
    using time_fields [of ?r] by simp_all
  have f: "format_iso t = ?w @ ''Z''" using md by (simp add: format_iso_def Let_def)
  have "replace_z (format_iso t) = ?w @ ''+00:00''" unfolding f by (simp add: replace_z_append)
  moreover have "length ?w = 19" by (simp add: pad4_def pad2_def)
  ultimately have parts: "take 19 (replace_z (format_iso t)) = ?w"
    "drop 19 (replace_z (format_iso t)) = ''+00:00''"
    by (simp_all only: take_exact drop_exact)
  have "wall_clock ?w = Some (instant_of ?y mo day (?r div 3600) (?r div 60 mod 60) (?r mod 60))"
    by (rule wall_clock_pads [OF df(1-7) tf(1-6)])
  also have "instant_of ?y mo day (?r div 3600) (?r div 60 mod 60) (?r mod 60) = t"
    unfolding instant_of_def by (rule instant_sum [OF mult_div_mod_eq tf(7) df(8)])
  finally have w: "wall_clock ?w = Some t" .
  have off: "utc_offset ''+00:00'' = Some 0" by code_simp
  show ?thesis unfolding parse_iso_def Let_def parts w off
    by (simp only: prod.case option.case diff_0_right)
qed

lemma format_iso_length: "length (format_iso t) = 20"
  by (simp add: format_iso_def Let_def pad4_def pad2_def split: prod.splits)

lemma date_less:
  assumes "0 \<le> d" "d < e" "e < days_before_year 10000"
    and "month_of_day (month_lengths (year_of_days d)) 1 (d - days_before_year (year_of_days d)) = (m1, x1)"
    and "month_of_day (month_lengths (year_of_days e)) 1 (e - days_before_year (year_of_days e)) = (m2, x2)"
  shows "pad4 (year_of_days d) @ ''-'' @ pad2 m1 @ ''-'' @ pad2 x1 @ a <
    pad4 (year_of_days e) @ ''-'' @ pad2 m2 @ ''-'' @ pad2 x2 @ b"
proof -
  have f: "1 \<le> year_of_days d" "year_of_days e < 10000" "1 \<le> m1" "m2 \<le> 12" "1 \<le> x1" "x2 \<le> 31"
    using date_fields [OF _ _ assms(4)] date_fields [OF _ _ assms(5)] assms(1-3) by simp_all
  consider "year_of_days d < year_of_days e"
    | "year_of_days d = year_of_days e" "m1 < m2"
    | "year_of_days d = year_of_days e" "m1 = m2" "x1 < x2"
    using year_of_days_mono [of d e] assms
      month_of_day_mono [of "d - days_before_year (year_of_days d)"
        "e - days_before_year (year_of_days d)" "month_lengths (year_of_days d)" 1]
    by (cases "year_of_days d = year_of_days e") auto
  then show ?thesis
  proof cases
    case 1
    with f have "pad4 (year_of_days d) < pad4 (year_of_days e)" by (intro pad4_less) auto
    then show ?thesis by (intro append_less) (simp_all add: pad4_def)
  next
    case 2
    with f have "pad2 m1 < pad2 m2" by (intro pad2_less) auto
    then have "pad2 m1 @ ''-'' @ pad2 x1 @ a < pad2 m2 @ ''-'' @ pad2 x2 @ b"
      by (intro append_less) (simp_all add: pad2_def)
    with 2 show ?thesis by (simp add: append_same)
  next
    case 3
    with f have "pad2 x1 < pad2 x2" by (intro pad2_less) auto
    then have "pad2 x1 @ a < pad2 x2 @ b" by (intro append_less) (simp_all add: pad2_def)
    with 3 show ?thesis by (simp add: append_same)
  qed
qed

lemma sixty_cascade:
  assumes "(a :: int) < b" "p = a div 60" "q = b div 60" "p' = p div 60" "q' = q div 60"
  shows "p' < q' \<or> p' = q' \<and> p mod 60 < q mod 60 \<or> p' = q' \<and> p = q \<and> a mod 60 < b mod 60"
proof -
  have one: "p < q \<or> p = q \<and> a mod 60 < b mod 60"
    unfolding assms(2,3) by (rule div_mod_less) (use assms(1) in simp_all)
  have two: "p' < q' \<or> p' = q' \<and> p mod 60 < q mod 60" if "p < q"
    unfolding assms(4,5) by (rule div_mod_less) (use that in simp_all)
  have "p = q \<Longrightarrow> p' = q'" by (simp only: assms(4,5))
  with one two show ?thesis by blast
qed

lemma time_less:
  assumes "0 \<le> q" "q < r" "r < 86400"
  shows "pad2 (q div 3600) @ '':'' @ pad2 (q div 60 mod 60) @ '':'' @ pad2 (q mod 60) @ a <
    pad2 (r div 3600) @ '':'' @ pad2 (r div 60 mod 60) @ '':'' @ pad2 (r mod 60) @ b"
proof -
  have d: "x div 3600 = x div 60 div 60" for x :: int using zdiv_zmult2_eq [of 60 x 60] by simp
  have f: "0 \<le> q div 3600" "r div 3600 \<le> 23" "0 \<le> q div 60 mod 60" "r div 60 mod 60 \<le> 59"
    "0 \<le> q mod 60" "r mod 60 \<le> 59"
    using time_fields [of q] time_fields [of r] assms by simp_all
  have pad: "length (pad2 x) = length (pad2 y)" for x y by (simp add: pad2_def)
  have small: "x \<le> 23 \<Longrightarrow> x < 100" "x \<le> 59 \<Longrightarrow> x < 100" for x :: int by simp_all
  from sixty_cascade [OF assms(2) refl refl d d] consider "q div 3600 < r div 3600"
    | "q div 3600 = r div 3600" "q div 60 mod 60 < r div 60 mod 60"
    | "q div 3600 = r div 3600" "q div 60 = r div 60" "q mod 60 < r mod 60"
    by blast
  then show ?thesis
  proof cases
    case 1
    have "pad2 (q div 3600) < pad2 (r div 3600)" by (rule pad2_less [OF f(1) 1 small(1) [OF f(2)]])
    then show ?thesis by (intro append_less pad disjI1)
  next
    case 2
    have "pad2 (q div 60 mod 60) < pad2 (r div 60 mod 60)"
      by (rule pad2_less [OF f(3) 2(2) small(2) [OF f(4)]])
    then have "pad2 (q div 60 mod 60) @ '':'' @ pad2 (q mod 60) @ a <
        pad2 (r div 60 mod 60) @ '':'' @ pad2 (r mod 60) @ b"
      by (intro append_less pad disjI1)
    then show ?thesis unfolding 2(1) append_same .
  next
    case 3
    have "pad2 (q mod 60) < pad2 (r mod 60)"
      by (rule pad2_less [OF f(5) 3(3) small(2) [OF f(6)]])
    then have "pad2 (q mod 60) @ a < pad2 (r mod 60) @ b" by (intro append_less pad disjI1)
    then show ?thesis unfolding 3(1) 3(2) append_same .
  qed
qed

lemma format_iso_less:
  assumes "0 \<le> t" "t < u" "u < max_instant"
  shows "format_iso t < format_iso u"
proof -
  obtain m1 x1 where d1: "month_of_day (month_lengths (year_of_days (t div 86400))) 1
      (t div 86400 - days_before_year (year_of_days (t div 86400))) = (m1, x1)" by fastforce
  obtain m2 x2 where d2: "month_of_day (month_lengths (year_of_days (u div 86400))) 1
      (u div 86400 - days_before_year (year_of_days (u div 86400))) = (m2, x2)" by fastforce
  have top: "u div 86400 < days_before_year 10000"
    using assms by (simp add: max_instant_def days_before_year_def)
  have low: "0 \<le> t div 86400" using assms by simp
  consider "t div 86400 < u div 86400"
    | "t div 86400 = u div 86400" "t mod 86400 < u mod 86400"
    using div_mod_less [of 86400 t u] assms by auto
  then show ?thesis
  proof cases
    case 1
    from date_less [OF low 1 top d1 d2] show ?thesis
      unfolding format_iso_def Let_def d1 d2 by simp
  next
    case 2
    have "0 \<le> t mod 86400" "u mod 86400 < 86400" by simp_all
    note less = time_less [OF this(1) 2(2) this(2)]
    from 2(1) d1 d2 have "m1 = m2" "x1 = x2" by simp_all
    with less 2(1) show ?thesis
      unfolding format_iso_def Let_def d1 d2 by (simp only: prod.case append_same)
  qed
qed

lemma format_iso_less_iff:
  assumes "0 \<le> t" "t < max_instant" "0 \<le> u" "u < max_instant"
  shows "format_iso t < format_iso u \<longleftrightarrow> t < u"
  using format_iso_less [of t u] format_iso_less [of u t] assms
  by (metis linorder_neqE order_less_asym order_less_irrefl)

section \<open>Properties\<close>

text \<open>
  Timestamps are faithful to time: what \<open>format_iso\<close> writes \<open>parse_iso\<close> reads back, every
  written timestamp has the one fixed length, and comparing two of them as strings is comparing
  the instants, which is what every expiry check of the runtime relies on.
\<close>

theorem timestamp_string_order:
  assumes "0 \<le> t" "t < max_instant" "0 \<le> u" "u < max_instant"
  shows "parse_iso (format_iso t) = Inr t \<and> length (format_iso t) = 20 \<and>
    (format_iso t < format_iso u \<longleftrightarrow> t < u)"
  using parse_format [OF assms(1,2)] format_iso_length [of t] format_iso_less_iff [OF assms] by blast

theorem timestamp_string_order_witness:
  "parse_iso (format_iso 63926445600) = Inr 63926445600 \<and> length (format_iso 63926445600) = 20 \<and>
    (format_iso 63926445600 < format_iso 63926445601 \<longleftrightarrow> (63926445600 :: int) < 63926445601)"
  by (rule timestamp_string_order) (simp_all add: max_instant_def days_before_year_def)

end
