(* ===== verification/Approval.thy ===== *)
theory Approval
  imports Control_Commands Fingerprint Timeutil
begin

text \<open>
  The governed ask (\<open>runtime/mvp_runtime/approval.py\<close>, \<open>approval_store.py\<close>) and the semantic
  check every approval record passes before it is written
  (\<open>scripts/validate_permission_approval_contracts.py\<close>).

  The environment of a check is a record: the hash, whether a record passes the closed
  approval schema (a third-party JSON-schema validator), the parsed Governance Policy (None
  when it cannot be read) and what \<open>load_yaml\<close> returns for a path.  The schema runs first, so
  the semantic pass reads blocks the schema has required to be objects; on anything else
  \<open>jget\<close> reads null.
\<close>

record approval_env =
  env_H :: "string \<Rightarrow> string"
  env_schema :: "json \<Rightarrow> bool"
  env_policy :: "json option"
  env_yaml :: "string \<Rightarrow> json"

definition required_approver :: string where
  "required_approver = ''Thomas''"

definition telegram_verification_method :: string where
  "telegram_verification_method = ''telegram_private_control_channel''"

definition permission_ref :: "json \<Rightarrow> string res" where
  "permission_ref decision =
     bindR (jindex decision ''permission_decision_id'') (\<lambda>i. Inr (''in_memory:'' @ py_str i))"

section \<open>The semantic check\<close>

definition issue :: "bool \<Rightarrow> string \<Rightarrow> string list" where
  "issue b msg = (if b then [msg] else [])"

lemma issue_Nil [simp]: "issue b msg = [] \<longleftrightarrow> \<not> b"
  by (simp add: issue_def)

text \<open>A date-time without an offset counts as invalid here.\<close>

definition parse_dt :: "json \<Rightarrow> string \<Rightarrow> int option \<times> string list" where
  "parse_dt value label = (case value of
       JStr s \<Rightarrow> (case parse_iso s of Inr t \<Rightarrow> (Some t, [])
                | Inl _ \<Rightarrow> (None, [label @ '': invalid date-time'']))
     | _ \<Rightarrow> (None, [label @ '': expected date-time string'']))"

definition policy_binding :: json where
  "policy_binding = JObj [(''policy_id'', JStr ''thomas.governance.policy''),
     (''policy_version'', JStr ''1.7.0''),
     (''policy_ref'', JStr ''governance/GOVERNANCE_POLICY.yaml'')]"

definition validate_policy_binding :: "json \<Rightarrow> string list" where
  "validate_policy_binding record =
     (let binding = jget record ''operating_policy'' in
      if py_eq binding policy_binding then []
      else if is_obj binding \<and>
        py_eq (jget binding ''policy_id'') (jget policy_binding ''policy_id'') \<and>
        py_eq (jget binding ''policy_ref'') (jget policy_binding ''policy_ref'') \<and>
        \<not> py_eq (jget binding ''policy_version'') (jget policy_binding ''policy_version'')
      then [''operating_policy binds a SUPERSEDED policy version'']
      else [''operating_policy must bind canonical thomas.governance.policy v1.7.0''])"

definition decision_ranks :: "string list" where
  "decision_ranks = [''ALLOW'', ''EXECUTE_AND_REPORT'', ''APPROVAL_REQUIRED'', ''BLOCK'']"

text \<open>\<open>scope_policy_map\<close>: None where the source raises \<open>ValueError\<close>.\<close>

fun add_scopes :: "string \<Rightarrow> json list \<Rightarrow> (string \<times> string) list \<Rightarrow> (string \<times> string) list option" where
  "add_scopes decision [] m = Some m"
| "add_scopes decision (s # ss) m = (case s of
      JStr scope \<Rightarrow> (if scope = [] \<or> map_of m scope \<noteq> None then None
        else add_scopes decision ss (m @ [(scope, decision)]))
    | _ \<Rightarrow> None)"

fun scope_policy_items :: "(string \<times> json) list \<Rightarrow> (string \<times> string) list \<Rightarrow> (string \<times> string) list option" where
  "scope_policy_items [] m = Some m"
| "scope_policy_items ((decision, scopes) # rest) m =
     (if decision \<notin> set decision_ranks then None
      else case scopes of
        JArr ss \<Rightarrow> (case add_scopes decision ss m of None \<Rightarrow> None
          | Some m' \<Rightarrow> scope_policy_items rest m')
      | _ \<Rightarrow> None)"

definition scope_policy_map :: "json \<Rightarrow> (string \<times> string) list option" where
  "scope_policy_map policy = scope_policy_items (items (jget policy ''policy_dispositions'')) []"

definition runtime_false_fields :: "string list" where
  "runtime_false_fields = [''executor_handoff_allowed'', ''external_execution_allowed'',
     ''financial_execution_allowed'', ''runtime_mutation_allowed'', ''tool_enablement_allowed'',
     ''program_enablement_allowed'', ''permission_expansion_allowed'']"

definition validate_runtime_effect :: "json \<Rightarrow> string list" where
  "validate_runtime_effect record =
     (let effect = jget record ''runtime_effect'' in
      issue (jget effect ''mode'' \<noteq> JStr ''REVIEW_ONLY'') ''runtime_effect.mode must be REVIEW_ONLY'' @
      concat (map (\<lambda>f. issue (jget effect f \<noteq> JBool False)
        (''runtime_effect.'' @ f @ '' must remain false'')) runtime_false_fields))"

definition fingerprint_issues :: "(string \<Rightarrow> string) \<Rightarrow> json \<Rightarrow> string list" where
  "fingerprint_issues H data =
     (let snapshot = jget data ''approved_action_snapshot'' in
      (case compute_action_fingerprint H snapshot of
         Inl _ \<Rightarrow> [''fingerprint payload cannot be canonicalized'']
       | Inr fp \<Rightarrow> issue (jget data ''action_fingerprint'' \<noteq> JStr fp)
           ''action_fingerprint does not match approved_action_snapshot'') @
      concat (map (\<lambda>f. issue (\<not> py_eq (jget snapshot f) (jget data f))
        (''approved_action_snapshot.'' @ f @ '' must match top-level '' @ f))
        [''task_id'', ''task_revision'', ''core_context_binding_id'']))"

text \<open>The policy's longest lifetime for a scope, when it is an integer.\<close>

definition max_ttl_of :: "json \<Rightarrow> json \<Rightarrow> int option" where
  "max_ttl_of policy scope =
     (let lifetime = jget policy ''approval_lifetime'';
          ttls = jget lifetime ''scope_max_ttl_minutes'';
          v = (case scope of
             JStr s \<Rightarrow> (if has_key ttls s then jget ttls s
                        else jget lifetime ''default_approval_ttl_minutes'')
           | _ \<Rightarrow> jget lifetime ''default_approval_ttl_minutes'')
      in case v of JInt n \<Rightarrow> Some n | JBool b \<Rightarrow> Some (if b then 1 else 0) | _ \<Rightarrow> None)"

definition lifetime_issues :: "json \<Rightarrow> json \<Rightarrow> int option \<Rightarrow> int option \<Rightarrow> string list" where
  "lifetime_issues policy scope issued expires = (case (issued, expires) of
       (Some i, Some e) \<Rightarrow>
         issue (e \<le> i) ''approval must expire after issuance'' @
         (case max_ttl_of policy scope of None \<Rightarrow> []
          | Some n \<Rightarrow> issue (e - i > 60 * n)
              (''approval TTL exceeds policy maximum for '' @ py_str scope))
     | _ \<Rightarrow> [])"

definition scope_issues :: "json \<Rightarrow> json \<Rightarrow> string list" where
  "scope_issues policy scope =
     (let required = ''Action Approval may exist only for an APPROVAL_REQUIRED policy scope'' in
      case scope_policy_map policy of
        None \<Rightarrow> [''policy_dispositions is malformed'', required]
      | Some m \<Rightarrow> issue (case scope of
          JStr s \<Rightarrow> map_of m s \<noteq> Some ''APPROVAL_REQUIRED'' | _ \<Rightarrow> True) required)"

definition decided_statuses :: "string list" where
  "decided_statuses = [''APPROVED'', ''REJECTED'', ''REVOKED'', ''CONSUMPTION_PREVIEWED'', ''CONSUMED'']"

definition approver_issues :: "json \<Rightarrow> json \<Rightarrow> int option \<Rightarrow> string list" where
  "approver_issues policy data expires =
     (let status = py_str (jget data ''status'');
          approver = jget data ''approver'';
          decision = jget data ''decision'' in
      if jget data ''status'' = JStr ''PENDING'' then
        issue (jget approver ''approved_by'' \<noteq> JNull) ''PENDING approval cannot have approved_by'' @
        issue (jget approver ''verification_status'' \<noteq> JStr ''NOT_VERIFIED'')
          ''PENDING approval must be NOT_VERIFIED'' @
        issue (jget decision ''decided_at'' \<noteq> JNull) ''PENDING approval cannot have decided_at''
      else if jget data ''status'' \<in> JStr ` set decided_statuses then
        issue (jget approver ''approved_by'' \<noteq> JStr ''Thomas'')
          (status @ '' approval must be decided by Thomas'') @
        issue (jget approver ''verification_status'' \<noteq> JStr ''VERIFIED'')
          (status @ '' approval requires verified identity'') @
        issue (jget approver ''identity_verification_method'' \<notin>
            set (arr_items (jget (jget policy ''control_channel'')
              ''allowed_identity_verification_methods'')))
          (status @ '' approval must use the approved Telegram private Control Channel'') @
        issue (case jget approver ''verification_ref'' of
            JStr r \<Rightarrow> \<not> startswith r ''telegram:private_chat:'' | _ \<Rightarrow> True)
          (status @ '' approval requires a Telegram private-chat verification_ref'') @
        (let (decided, bad) = parse_dt (jget decision ''decided_at'') ''decision.decided_at'' in
         bad @ issue (case (decided, expires) of (Some d, Some e) \<Rightarrow> e < d | _ \<Rightarrow> False)
           ''approval decision occurred after expiration'')
      else [])"

definition consumption_issues :: "json \<Rightarrow> int option \<Rightarrow> string list" where
  "consumption_issues data expires =
     (let c = jget data ''consumption'' in
      if jget data ''status'' = JStr ''CONSUMPTION_PREVIEWED'' then
        issue (jget c ''consumption_status'' \<noteq> JStr ''PREVIEWED_ONLY'')
          ''CONSUMPTION_PREVIEWED requires PREVIEWED_ONLY consumption status'' @
        issue (\<not> truthy (jget c ''previewed_at'') \<or> \<not> truthy (jget c ''preview_ref''))
          ''consumption preview requires timestamp and reference'' @
        issue (jget c ''consumed_at'' \<noteq> JNull \<or> jget c ''consumption_ref'' \<noteq> JNull)
          ''a previewed approval has not been consumed''
      else if jget data ''status'' = JStr ''CONSUMED'' then
        issue (jget c ''consumption_status'' \<noteq> JStr ''CONSUMED'')
          ''CONSUMED status requires CONSUMED consumption status'' @
        issue (\<not> truthy (jget c ''consumed_at'') \<or> \<not> truthy (jget c ''consumption_ref''))
          ''a consumed approval requires consumed_at and consumption_ref'' @
        issue (jget c ''previewed_at'' \<noteq> JNull \<or> jget c ''preview_ref'' \<noteq> JNull)
          ''a consumed approval cannot also carry a preview marker'' @
        (let (at, bad) = parse_dt (jget c ''consumed_at'') ''consumption.consumed_at'' in
         bad @ issue (case (at, expires) of (Some t, Some e) \<Rightarrow> e < t | _ \<Rightarrow> False)
           ''approval consumption occurred after expiration'')
      else
        issue (jget c ''consumption_status'' \<noteq> JStr ''NOT_CONSUMED'')
          ''non-preview status must remain NOT_CONSUMED'' @
        issue (jget c ''previewed_at'' \<noteq> JNull) ''non-preview status cannot have previewed_at'' @
        issue (jget c ''preview_ref'' \<noteq> JNull) ''non-preview status cannot have preview_ref'' @
        issue (jget c ''consumed_at'' \<noteq> JNull \<or> jget c ''consumption_ref'' \<noteq> JNull)
          ''an unconsumed approval cannot carry consumption evidence'')"

definition reference_pairs :: "string list" where
  "reference_pairs = [''permission_decision_id'', ''trace_id'', ''task_id'', ''task_revision'',
     ''core_context_binding_id'', ''action_fingerprint'']"

definition reference_issues :: "(string \<Rightarrow> json) \<Rightarrow> (string \<times> json) list \<Rightarrow> json \<Rightarrow> string list" where
  "reference_issues yaml cache data = (case jget data ''permission_decision_ref'' of
       JStr ref \<Rightarrow>
         (let permission = (case map_of cache ref of Some p \<Rightarrow> p | None \<Rightarrow> yaml ref) in
          if has_key permission ''__load_error__''
          then [py_str (jget permission ''__load_error__'')]
          else
            issue (jget (jget permission ''decision'') ''permission_decision'' \<noteq> JStr ''APPROVAL_REQUIRED'')
              ''Approval may reference only an APPROVAL_REQUIRED Permission Decision'' @
            concat (map (\<lambda>f. issue (\<not> py_eq (jget data f) (jget permission f))
              (f @ '' does not match referenced Permission Decision'')) reference_pairs) @
            issue (\<not> py_eq (jget data ''approved_action_snapshot'') (jget permission ''fingerprint_payload''))
              ''approved_action_snapshot differs from referenced fingerprint_payload'' @
            issue (\<not> py_eq (jget data ''operating_policy'') (jget permission ''operating_policy''))
              ''operating_policy does not match referenced Permission Decision'')
     | _ \<Rightarrow> [])"

definition validate_approval_record ::
  "(string \<Rightarrow> string) \<Rightarrow> (string \<Rightarrow> json) \<Rightarrow> json \<Rightarrow> (string \<times> json) list \<Rightarrow> json \<Rightarrow> string list" where
  "validate_approval_record H yaml data cache policy =
     (if has_key data ''__load_error__'' then [py_str (jget data ''__load_error__'')]
      else (let scope = jget (jget data ''approved_action_snapshot'') ''permission_scope'';
                (issued, bad_issued) = parse_dt (jget (jget data ''validity'') ''issued_at'')
                   ''validity.issued_at'';
                (expires, bad_expires) = parse_dt (jget (jget data ''validity'') ''expires_at'')
                   ''validity.expires_at'' in
            validate_policy_binding data @ fingerprint_issues H data @ bad_issued @ bad_expires @
            lifetime_issues policy scope issued expires @ scope_issues policy scope @
            approver_issues policy data expires @ consumption_issues data expires @
            issue (jget (jget data ''consumption'') ''one_time_use'' \<noteq> JBool True)
              ''Action Approval must remain one-time-use'' @
            issue (jget data ''approval_scope'' \<noteq> JStr ''REVIEW_ONLY'')
              ''approval_scope must remain REVIEW_ONLY'' @
            validate_runtime_effect data @ reference_issues yaml cache data))"

definition validate_approval :: "approval_env \<Rightarrow> json \<Rightarrow> json \<Rightarrow> unit res" where
  "validate_approval env approval decision =
     bindR (ensure (env_schema env approval) ''APPROVAL_SCHEMA_INVALID'') (\<lambda>_.
     bindR (permission_ref decision) (\<lambda>ref.
     (case env_policy env of
        None \<Rightarrow> Inl (Refused ''POLICY_UNAVAILABLE'')
      | Some policy \<Rightarrow> ensure (validate_approval_record (env_H env) (env_yaml env) approval
          [(ref, decision)] policy = []) ''APPROVAL_SEMANTICS_INVALID'')))"

end
