(* ===== verification/Approval_Store.thy ===== *)
theory Approval_Store
  imports Approval
begin

text \<open>
  The approval store (\<open>approval_store.py\<close>) and the operations that append to it
  (\<open>approval.py\<close>: the request, Thomas's answer, the expiry, the single-use spend).

  A store is two append-only files.  An operation that reads and later appends outside a
  lock gets two worlds: \<open>seen\<close>, what it read, and \<open>w\<close>, what is there when it appends.  The
  spend re-reads under \<open>spend_lock\<close>, so it needs only \<open>w\<close>.
\<close>

record approval_world =
  approval_rows :: event_file
  permission_rows :: event_file
  approval_append_fails :: bool
  spend_lock_busy :: bool

section \<open>Reading\<close>

definition read_rows :: "string \<Rightarrow> event_file \<Rightarrow> json list res" where
  "read_rows code f = (case f of No_Log \<Rightarrow> Inr [] | Damaged_Log \<Rightarrow> Inl (Refused code)
     | Log rows \<Rightarrow> Inr rows)"

definition approval_key :: "json \<Rightarrow> string option" where
  "approval_key r = (case jget r ''approval_id'' of
       JStr s \<Rightarrow> if s = [] then None else Some s | _ \<Rightarrow> None)"

text \<open>\<open>ApprovalStore.current\<close>: the latest row of each id.\<close>

definition current_approvals :: "approval_world \<Rightarrow> (string \<rightharpoonup> json) res" where
  "current_approvals w = bindR (read_rows ''APPROVAL_READ_FAILED'' (approval_rows w)) (\<lambda>rows.
     if list_all is_obj rows then Inr (latest_by approval_key rows)
     else Inl (PyError ''AttributeError''))"

definition get_approval :: "approval_world \<Rightarrow> string \<Rightarrow> json option res" where
  "get_approval w i = bindR (current_approvals w) (\<lambda>m. Inr (m i))"

text \<open>\<open>ApprovalStore.pending\<close>: open asks, in the order they were issued.\<close>

definition issued_key :: "json \<Rightarrow> string" where
  "issued_key a = (let v = jget a ''validity'' in
     if has_key v ''issued_at'' then py_str (jget v ''issued_at'') else [])"

definition pending_approvals :: "approval_world \<Rightarrow> json list res" where
  "pending_approvals w = bindR (read_rows ''APPROVAL_READ_FAILED'' (approval_rows w)) (\<lambda>rows.
     bindR (current_approvals w) (\<lambda>m.
       let ids = dict_fromkeys (List.map_filter approval_key rows);
           latest = List.map_filter m ids in
       Inr (sort_key issued_key (filter (\<lambda>a. jget a ''status'' = JStr ''PENDING'') latest))))"

definition get_permission_decision :: "approval_world \<Rightarrow> json \<Rightarrow> json option res" where
  "get_permission_decision w i =
     bindR (read_rows ''APPROVAL_READ_FAILED'' (permission_rows w)) (\<lambda>rows.
       Inr (List.find (\<lambda>r. py_eq (jget r ''permission_decision_id'') i) (rev rows)))"

section \<open>Writing\<close>

definition append_rows :: "json list \<Rightarrow> event_file \<Rightarrow> event_file" where
  "append_rows new f = (case f of No_Log \<Rightarrow> Log new | Damaged_Log \<Rightarrow> Damaged_Log
     | Log rows \<Rightarrow> Log (rows @ new))"

definition append_approvals :: "json list \<Rightarrow> approval_world \<Rightarrow> unit res \<times> approval_world" where
  "append_approvals new w =
     (if new = [] then (Inr (), w)
      else if approval_append_fails w then (Inl (Refused ''APPROVAL_WRITE_FAILED''), w)
      else (Inr (), w\<lparr>approval_rows := append_rows new (approval_rows w)\<rparr>))"

definition append_permission_decision :: "json \<Rightarrow> approval_world \<Rightarrow> unit res \<times> approval_world" where
  "append_permission_decision d w =
     (if approval_append_fails w then (Inl (Refused ''APPROVAL_WRITE_FAILED''), w)
      else (Inr (), w\<lparr>permission_rows := append_rows [d] (permission_rows w)\<rparr>))"

section \<open>The ask\<close>

text \<open>\<open>int(v)\<close> on a policy value; a float is cut at its point.\<close>

definition int_of :: "json \<Rightarrow> int res" where
  "int_of v = (case v of JInt n \<Rightarrow> Inr n | JBool b \<Rightarrow> Inr (if b then 1 else 0)
     | JStr s \<Rightarrow> (case py_int (strip s) of Some n \<Rightarrow> Inr n | None \<Rightarrow> Inl (PyError ''ValueError''))
     | JFloat r \<Rightarrow> (case py_int (takeWhile (\<lambda>c. c \<noteq> CHR ''.'') r) of Some n \<Rightarrow> Inr n
         | None \<Rightarrow> Inl (PyError ''ValueError''))
     | _ \<Rightarrow> Inl (PyError ''TypeError''))"

definition approval_ttl_minutes :: "approval_env \<Rightarrow> json \<Rightarrow> int res" where
  "approval_ttl_minutes env scope = (case env_policy env of
       None \<Rightarrow> Inl (Refused ''POLICY_UNAVAILABLE'')
     | Some policy \<Rightarrow>
         (let lifetime = jget policy ''approval_lifetime'';
              dflt = (if has_key lifetime ''default_approval_ttl_minutes''
                      then jget lifetime ''default_approval_ttl_minutes'' else JInt 30);
              ttls = jget lifetime ''scope_max_ttl_minutes'' in
          int_of (case scope of JStr s \<Rightarrow> (if has_key ttls s then jget ttls s else dflt) | _ \<Rightarrow> dflt)))"

definition parse_iso_json :: "json \<Rightarrow> int res" where
  "parse_iso_json j = (case j of JStr s \<Rightarrow> parse_iso s | _ \<Rightarrow> Inl (PyError ''AttributeError''))"

definition permission_decision_runtime_effect :: json where
  "permission_decision_runtime_effect = JObj ((''mode'', JStr ''REVIEW_ONLY'') #
     map (\<lambda>f. (f, JBool False)) runtime_false_fields)"

text \<open>The PENDING record itself, once its times are known.\<close>

definition request_fields :: "json \<Rightarrow> string \<Rightarrow> string \<Rightarrow> string \<Rightarrow> string \<Rightarrow> json" where
  "request_fields d approval_id ref issued expires = JObj
     [(''schema_version'', JStr ''approval.v0.2''),
      (''approval_id'', JStr approval_id),
      (''permission_decision_id'', jget d ''permission_decision_id''),
      (''permission_decision_ref'', JStr ref),
      (''trace_id'', jget d ''trace_id''),
      (''task_id'', jget d ''task_id''),
      (''task_revision'', jget d ''task_revision''),
      (''core_context_binding_id'', jget d ''core_context_binding_id''),
      (''operating_policy'', jget d ''operating_policy''),
      (''action_fingerprint'', jget d ''action_fingerprint''),
      (''approved_action_snapshot'', jget d ''fingerprint_payload''),
      (''approval_scope'', JStr ''REVIEW_ONLY''),
      (''status'', JStr ''PENDING''),
      (''approver'', JObj [(''required_approver'', JStr required_approver), (''approved_by'', JNull),
         (''verification_status'', JStr ''NOT_VERIFIED''), (''identity_verification_method'', JNull),
         (''verification_ref'', JNull)]),
      (''decision'', JObj [(''decision_reason'', JNull), (''decided_at'', JNull)]),
      (''consumption'', JObj [(''one_time_use'', JBool True),
         (''consumption_status'', JStr ''NOT_CONSUMED''), (''previewed_at'', JNull),
         (''preview_ref'', JNull), (''consumed_at'', JNull), (''consumption_ref'', JNull)]),
      (''validity'', JObj [(''issued_at'', JStr issued), (''expires_at'', JStr expires)]),
      (''runtime_effect'', permission_decision_runtime_effect),
      (''audit_refs'', JArr [JStr (''audit:approval_request:'' @ approval_id)])]"

definition request_required_keys :: "string list" where
  "request_required_keys = [''permission_decision_id'', ''trace_id'', ''task_id'', ''task_revision'',
     ''core_context_binding_id'', ''operating_policy'', ''action_fingerprint'']"

definition build_approval_request ::
  "approval_env \<Rightarrow> json \<Rightarrow> string \<Rightarrow> int option \<Rightarrow> json res" where
  "build_approval_request env d now ttl_minutes =
     bindR (ensure (jget (jget d ''decision'') ''permission_decision'' = JStr ''APPROVAL_REQUIRED'')
       ''NOT_APPROVAL_REQUIRED'') (\<lambda>_.
     bindR (case jget (jget d ''approval'') ''approval_id'' of
         JStr i \<Rightarrow> if startswith i ''approval_'' then Inr i else Inl (Refused ''NO_APPROVAL_ID'')
       | _ \<Rightarrow> Inl (Refused ''NO_APPROVAL_ID'')) (\<lambda>approval_id.
     bindR (bindR (jindex d ''fingerprint_payload'') (\<lambda>p. jindex p ''permission_scope'')) (\<lambda>scope.
     bindR (approval_ttl_minutes env scope) (\<lambda>policy_max.
     (let requested = (case ttl_minutes of None \<Rightarrow> policy_max | Some n \<Rightarrow> n) in
     bindR (ensure (1 \<le> requested) ''INVALID_TTL'') (\<lambda>_.
     bindR (ensure (requested \<le> policy_max) ''TTL_EXCEEDS_POLICY'') (\<lambda>_.
     bindR (parse_iso now) (\<lambda>issued.
     bindR (bindR (bindR (jindex d ''lifecycle'') (\<lambda>l. jindex l ''expires_at'')) parse_iso_json)
       (\<lambda>decision_expiry.
     bindR (checked (issued + 60 * requested)) (\<lambda>latest.
     (let expires = min decision_expiry latest in
     bindR (ensure (issued < expires) ''DECISION_EXPIRED'') (\<lambda>_.
     bindR (permission_ref d) (\<lambda>ref.
     (if \<not> list_all (has_key d) request_required_keys then Inl (PyError ''KeyError'')
      else (let approval = request_fields d approval_id ref (format_iso issued) (format_iso expires) in
        bindR (validate_approval env approval d) (\<lambda>_. Inr approval))))))))))))))))"

section \<open>The answer\<close>

record verification =
  ver_approved_by :: string
  ver_method :: string
  ver_ref :: "string option"

definition require_pending :: "json \<Rightarrow> unit res" where
  "require_pending a = ensure (jget a ''status'' = JStr ''PENDING'') ''NOT_PENDING''"

definition is_expired :: "json \<Rightarrow> string \<Rightarrow> bool res" where
  "is_expired a now =
     bindR (parse_iso now) (\<lambda>t.
     bindR (bindR (bindR (jindex a ''validity'') (\<lambda>v. jindex v ''expires_at'')) parse_iso_json) (\<lambda>e.
     Inr (e \<le> t)))"

text \<open>\<open>list(dict.fromkeys([*refs, ref]))\<close>.\<close>

definition with_audit_ref :: "string \<Rightarrow> json \<Rightarrow> json" where
  "with_audit_ref ref a = JArr (dict_fromkeys (arr_items (jget a ''audit_refs'') @ [JStr ref]))"

definition record_decision ::
  "approval_env \<Rightarrow> json \<Rightarrow> json \<Rightarrow> bool \<Rightarrow> verification \<Rightarrow> string \<Rightarrow> string \<Rightarrow> json res" where
  "record_decision env a d granted v reason now =
     bindR (require_pending a) (\<lambda>_.
     bindR (is_expired a now) (\<lambda>late.
     bindR (ensure (\<not> late) ''APPROVAL_EXPIRED'') (\<lambda>_.
     bindR (ensure (ver_approved_by v = required_approver) ''WRONG_APPROVER'') (\<lambda>_.
     bindR (ensure (ver_method v = telegram_verification_method) ''UNVERIFIED_SOURCE'') (\<lambda>_.
     bindR (ensure (case ver_ref v of Some r \<Rightarrow> strip r \<noteq> [] | None \<Rightarrow> False) ''NO_VERIFICATION_REF'') (\<lambda>_.
     bindR (ensure (strip reason \<noteq> []) ''NO_DECISION_REASON'') (\<lambda>_.
     bindR (jindex a ''approval_id'') (\<lambda>i.
     (let decided =
        jset ''audit_refs'' (with_audit_ref (''audit:approval_decision:'' @ py_str i) a)
        (jset ''decision'' (JObj [(''decision_reason'', JStr reason), (''decided_at'', JStr now)])
        (jset ''approver'' (JObj [(''required_approver'', JStr required_approver),
             (''approved_by'', JStr (ver_approved_by v)), (''verification_status'', JStr ''VERIFIED''),
             (''identity_verification_method'', JStr (ver_method v)),
             (''verification_ref'', of_opt (ver_ref v))])
        (jset ''status'' (JStr (if granted then ''APPROVED'' else ''REJECTED'')) a))) in
      bindR (validate_approval env decided d) (\<lambda>_. Inr decided))))))))))"

definition expire :: "json \<Rightarrow> string \<Rightarrow> json res" where
  "expire a now =
     bindR (require_pending a) (\<lambda>_.
     bindR (is_expired a now) (\<lambda>late.
     bindR (ensure late ''NOT_EXPIRED'') (\<lambda>_.
     Inr (jset ''status'' (JStr ''EXPIRED'') a))))"

section \<open>The spend\<close>

definition build_consumed_record ::
  "approval_env \<Rightarrow> json \<Rightarrow> json \<Rightarrow> string \<Rightarrow> string \<Rightarrow> json res" where
  "build_consumed_record env a d consumed_at consumption_ref =
     bindR (ensure (jget a ''status'' \<noteq> JStr ''CONSUMED'') ''ALREADY_CONSUMED'') (\<lambda>_.
     bindR (ensure (jget a ''status'' = JStr ''APPROVED'') ''NOT_APPROVED'') (\<lambda>_.
     bindR (ensure (strip consumption_ref \<noteq> []) ''NO_CONSUMPTION_REF'') (\<lambda>_.
     bindR (jindex a ''approval_id'') (\<lambda>i.
     (let consumed =
        jset ''audit_refs'' (with_audit_ref (''audit:approval_consumption:'' @ py_str i) a)
        (jset ''consumption'' (JObj [(''one_time_use'', JBool True),
             (''consumption_status'', JStr ''CONSUMED''), (''previewed_at'', JNull),
             (''preview_ref'', JNull), (''consumed_at'', JStr consumed_at),
             (''consumption_ref'', JStr consumption_ref)])
        (jset ''status'' (JStr ''CONSUMED'') a)) in
      bindR (validate_approval env consumed d) (\<lambda>_. Inr consumed))))))"

definition validate_spendable_approval ::
  "(string \<Rightarrow> string) \<Rightarrow> approval_world \<Rightarrow> string \<Rightarrow> string \<Rightarrow> control_state \<Rightarrow> string \<Rightarrow>
   (json \<times> json \<times> json) res" where
  "validate_spendable_approval H w approval_id now control scope =
     bindR (ensure (execution_allowed control) (refusal_reason_code control)) (\<lambda>_.
     bindR (bindR (get_approval w approval_id) (need ''UNKNOWN_APPROVAL'')) (\<lambda>a.
     bindR (ensure (jget a ''status'' \<noteq> JStr ''CONSUMED'') ''ALREADY_CONSUMED'') (\<lambda>_.
     bindR (ensure (jget a ''status'' = JStr ''APPROVED'') ''NOT_APPROVED'') (\<lambda>_.
     bindR (is_expired a now) (\<lambda>late.
     bindR (ensure (\<not> late) ''APPROVAL_EXPIRED'') (\<lambda>_.
     bindR (jindex a ''permission_decision_id'') (\<lambda>pid.
     bindR (bindR (get_permission_decision w pid) (need ''PERMISSION_DECISION_MISSING'')) (\<lambda>d.
     bindR (jindex a ''approved_action_snapshot'') (\<lambda>snapshot.
     bindR (recode ''FINGERPRINT_UNCOMPUTABLE'' (compute_action_fingerprint H snapshot)) (\<lambda>fp.
     bindR (ensure (jget a ''action_fingerprint'' = JStr fp) ''FINGERPRINT_MISMATCH'') (\<lambda>_.
     bindR (ensure (jget snapshot ''permission_scope'' = JStr scope) ''SCOPE_NOT_CONSUMABLE'') (\<lambda>_.
     Inr (a, d, snapshot)))))))))))))"

text \<open>
  \<open>spend_lock\<close>: the lock, the stored status read again, and only then the caller's block,
  which gets the row just read.
\<close>

definition with_spend_lock ::
  "approval_world \<Rightarrow> string \<Rightarrow> (json \<Rightarrow> 'a res \<times> approval_world) \<Rightarrow> 'a res \<times> approval_world" where
  "with_spend_lock w approval_id block =
     (if spend_lock_busy w then (Inl (Refused ''APPROVAL_WRITE_FAILED''), w)
      else (case get_approval w approval_id of
         Inl e \<Rightarrow> (Inl e, w)
       | Inr None \<Rightarrow> (Inl (Refused ''ALREADY_CONSUMED''), w)
       | Inr (Some latest) \<Rightarrow>
           (if jget latest ''status'' \<noteq> JStr ''APPROVED''
            then (Inl (Refused ''ALREADY_CONSUMED''), w) else block latest)))"

text \<open>The block every spend surface runs: the CONSUMED record is appended before the effect.\<close>

definition spend_approval ::
  "approval_env \<Rightarrow> approval_world \<Rightarrow> string \<Rightarrow> json \<Rightarrow> string \<Rightarrow> string \<Rightarrow> json res \<times> approval_world" where
  "spend_approval env w approval_id d consumed_at consumption_ref =
     with_spend_lock w approval_id (\<lambda>fresh.
       case build_consumed_record env fresh d consumed_at consumption_ref of
         Inl e \<Rightarrow> (Inl e, w)
       | Inr consumed \<Rightarrow>
           (case append_approvals [consumed] w of
              (Inl e, w1) \<Rightarrow> (Inl e, w1) | (Inr _, w1) \<Rightarrow> (Inr consumed, w1)))"

section \<open>The console commands\<close>

definition approval_commands :: "string list" where
  "approval_commands = [''approve'', ''reject'']"

definition parse_approval_command ::
  "string option \<Rightarrow> (string \<times> string option \<times> string option) option" where
  "parse_approval_command text = (case text of None \<Rightarrow> None
     | Some t \<Rightarrow> (let stripped = strip t in
         if stripped = [] then None
         else (let (head, rest) = partition_at (CHR '' '') stripped;
                   verb = command_verb head (startswith stripped ''/'');
                   (ref, tail) = partition_at (CHR '' '') (strip rest);
                   reason = strip tail in
               if verb \<notin> set approval_commands then None
               else Some (verb, if ref = [] then None else Some ref,
                          if reason = [] then None else Some reason))))"

definition default_decision_reason :: "bool \<Rightarrow> string" where
  "default_decision_reason granted =
     (if granted then ''Approved by Thomas on the verified control channel.''
      else ''Rejected by Thomas on the verified control channel.'')"

text \<open>\<open>apply_command\<close> of \<open>approval.py\<close>: the row appended is the answer's record.\<close>

definition apply_approval_command ::
  "approval_env \<Rightarrow> string \<Rightarrow> string option \<Rightarrow> verification \<Rightarrow> string option \<Rightarrow> string \<Rightarrow>
   approval_world \<Rightarrow> approval_world \<Rightarrow> json res \<times> approval_world" where
  "apply_approval_command env verb approval_id v reason now seen w =
     (if verb \<notin> set approval_commands then (Inl (Refused ''UNKNOWN_COMMAND''), w)
      else if approval_id = None \<or> approval_id = Some [] then (Inl (Refused ''NO_APPROVAL_ID''), w)
      else (case get_approval seen (the approval_id) of
        Inl e \<Rightarrow> (Inl e, w)
      | Inr None \<Rightarrow> (Inl (Refused ''UNKNOWN_APPROVAL''), w)
      | Inr (Some a) \<Rightarrow>
      (case bindR (jindex a ''permission_decision_id'') (get_permission_decision seen) of
        Inl e \<Rightarrow> (Inl e, w)
      | Inr None \<Rightarrow> (Inl (Refused ''PERMISSION_DECISION_MISSING''), w)
      | Inr (Some d) \<Rightarrow>
      (case (if jget a ''status'' = JStr ''PENDING'' then is_expired a now else Inr False) of
        Inl e \<Rightarrow> (Inl e, w)
      | Inr True \<Rightarrow>
          (case expire a now of
             Inl e \<Rightarrow> (Inl e, w)
           | Inr expired \<Rightarrow>
               (case append_approvals [expired] w of
                  (Inl e, w1) \<Rightarrow> (Inl e, w1)
                | (Inr _, w1) \<Rightarrow> (Inl (Refused ''APPROVAL_EXPIRED''), w1)))
      | Inr False \<Rightarrow>
          (let granted = (verb = ''approve'');
               stated = (case reason of None \<Rightarrow> default_decision_reason granted
                 | Some r \<Rightarrow> if r = [] then default_decision_reason granted else r) in
           case record_decision env a d granted v stated now of
             Inl e \<Rightarrow> (Inl e, w)
           | Inr decided \<Rightarrow>
               (case append_approvals [decided] w of
                  (Inl e, w1) \<Rightarrow> (Inl e, w1) | (Inr _, w1) \<Rightarrow> (Inr decided, w1)))))))"

end
