(* ===== verification/Stage.thy ===== *)
theory Stage
  imports Approval_Store
begin

text \<open>
  The machine's execution stage (\<open>runtime/mvp_runtime/crypto/execution_stage.py\<close>): the
  ladder, the verified read of the hash-chained ledger and of its anchor, and the resolution
  that every consumer reads.

  A stage record, a ledger row and the anchor are JSON objects.  The three closed JSON
  schemas are checked by a third-party validator, so they are fields of the environment
  (\<open>se_record_ok\<close>, \<open>se_row_ok\<close>, \<open>se_anchor_ok\<close>); the parsed Governance Policy is one too (None
  when it cannot be read).  The witness is looked up in the approval store of the model.
\<close>

record stage_env =
  se_H :: "string \<Rightarrow> string"
  se_record_ok :: "json \<Rightarrow> bool"
  se_row_ok :: "json \<Rightarrow> bool"
  se_anchor_ok :: "json \<Rightarrow> bool"
  se_policy :: "json option"

text \<open>The files of the state directory.\<close>

record stage_world =
  stage_ledger :: event_file
  stage_anchor :: control_file
  stage_mirror :: control_file
  replaced_ledgers :: "(string \<times> event_file) list"
  rename_fails :: bool
  ledger_write_fails :: bool
  anchor_write_fails :: bool
  mirror_write_fails :: bool

section \<open>The ladder\<close>

definition ladder :: "string list" where
  "ladder = [''READ_ONLY'', ''SHADOW'', ''PAPER'', ''SIGNED_TESTNET'', ''LIVE_AUTONOMOUS'',
     ''LIVE_SCALED'']"

definition bootstrap_stages :: "string list" where
  "bootstrap_stages = [''SHADOW'', ''PAPER'']"

definition supported_venue :: string where
  "supported_venue = ''binance_futures''"

fun index_of :: "'a \<Rightarrow> 'a list \<Rightarrow> nat option" where
  "index_of x [] = None"
| "index_of x (y # ys) = (if x = y then Some 0 else map_option Suc (index_of x ys))"

text \<open>\<open>LADDER.index(stage)\<close>; an unknown stage raises.\<close>

definition stage_rank :: "string \<Rightarrow> nat res" where
  "stage_rank s = (case index_of s ladder of None \<Rightarrow> Inl (PyError ''ValueError'') | Some n \<Rightarrow> Inr n)"

definition required_stage :: "string \<Rightarrow> string res" where
  "required_stage purpose =
     (if purpose \<in> {''probe'', ''autonomous'', ''live_arm''} then Inr ''LIVE_AUTONOMOUS''
      else if purpose = ''signed_testnet'' then Inr ''SIGNED_TESTNET''
      else Inl (PyError ''KeyError''))"

record stage_status =
  ss_stage :: string
  ss_valid :: bool
  ss_reason :: "string option"
  ss_recorded :: "string option"
  ss_stage_id :: "string option"
  ss_record_sha256 :: "string option"
  ss_policy_version :: "string option"
  ss_present :: bool
  ss_approval_id :: "string option"
  ss_fingerprint :: "string option"
  ss_witness_stage_id :: "string option"
  ss_policy_safety :: "string option"
  ss_anchor_behind :: bool

definition stage_allows :: "stage_status \<Rightarrow> string \<Rightarrow> bool res" where
  "stage_allows st purpose = (if \<not> ss_valid st then Inr False
     else bindR (stage_rank (ss_stage st)) (\<lambda>n. bindR (required_stage purpose) (\<lambda>r.
       bindR (stage_rank r) (\<lambda>m. Inr (m \<le> n)))))"

definition stage_binding :: "stage_status \<Rightarrow> bool" where
  "stage_binding st = (ss_valid st \<and> ss_stage st \<noteq> ''READ_ONLY'')"

definition ladder_stage :: "json \<Rightarrow> string option" where
  "ladder_stage j = (case j of JStr s \<Rightarrow> if s \<in> set ladder then Some s else None | _ \<Rightarrow> None)"

definition from_record :: "json \<Rightarrow> bool \<Rightarrow> string option \<Rightarrow> stage_status" where
  "from_record record valid reason =
     (let recorded = ladder_stage (jget record ''stage'') in
      \<lparr>ss_stage = (case recorded of Some s \<Rightarrow> if valid \<and> s \<noteq> [] then s else ''READ_ONLY''
         | None \<Rightarrow> ''READ_ONLY''),
       ss_valid = valid, ss_reason = reason, ss_recorded = recorded,
       ss_stage_id = str_or_none (jget record ''stage_id''),
       ss_record_sha256 = str_or_none (jget record ''record_sha256''),
       ss_policy_version = str_or_none (jget record ''policy_version''),
       ss_present = True,
       ss_approval_id = str_or_none (jget record ''approval_id''),
       ss_fingerprint = str_or_none (jget record ''action_fingerprint''),
       ss_witness_stage_id = str_or_none (jget record ''witness_stage_id''),
       ss_policy_safety = str_or_none (jget record ''policy_safety_sha256''),
       ss_anchor_behind = False\<rparr>)"

definition bare_status :: "string \<Rightarrow> bool \<Rightarrow> stage_status" where
  "bare_status reason present =
     \<lparr>ss_stage = ''READ_ONLY'', ss_valid = False, ss_reason = Some reason, ss_recorded = None,
      ss_stage_id = None, ss_record_sha256 = None, ss_policy_version = None, ss_present = present,
      ss_approval_id = None, ss_fingerprint = None, ss_witness_stage_id = None,
      ss_policy_safety = None, ss_anchor_behind = False\<rparr>"

definition read_only_status :: "string \<Rightarrow> json option \<Rightarrow> bool \<Rightarrow> stage_status" where
  "read_only_status reason record present = (case record of None \<Rightarrow> bare_status reason present
     | Some r \<Rightarrow> from_record r False (Some reason))"

section \<open>One record\<close>

text \<open>\<open>_transition_consistent\<close>: is this record one the door can have written?\<close>

definition evidence_of :: "json \<Rightarrow> string \<Rightarrow> json" where
  "evidence_of record k = jget (jget record ''evidence'') k"

definition witness_fields :: "json \<Rightarrow> json list" where
  "witness_fields record = [jget record ''approval_id'', jget record ''action_fingerprint'',
     jget record ''witness_stage_id'']"

definition next_rank :: "string \<Rightarrow> string \<Rightarrow> bool" where
  "next_rank lo hi = (case (index_of lo ladder, index_of hi ladder) of
     (Some m, Some n) \<Rightarrow> n = m + 1 | _ \<Rightarrow> False)"

definition lower_rank :: "string \<Rightarrow> string \<Rightarrow> bool" where
  "lower_rank lo hi = (case (index_of lo ladder, index_of hi ladder) of
     (Some m, Some n) \<Rightarrow> m < n | _ \<Rightarrow> False)"

definition transition_consistent :: "json \<Rightarrow> bool" where
  "transition_consistent record =
     (let previous = jget record ''previous_stage''; transition = jget record ''transition'';
          witnessed = list_all is_str (witness_fields record);
          unwitnessed = list_all (\<lambda>v. v = JNull) (witness_fields record);
          policy_bound = (is_str (jget record ''policy_version'') \<and>
            is_str (jget record ''policy_safety_sha256''));
          own_witness = (witnessed \<and> jget record ''witness_stage_id'' = jget record ''stage_id'') in
      case ladder_stage (jget record ''stage'') of None \<Rightarrow> False
      | Some stage \<Rightarrow>
        (if previous \<noteq> JNull \<and> ladder_stage previous = None then False
         else if transition = JStr ''BOOTSTRAP'' then
           previous = JNull \<and> stage \<in> set bootstrap_stages \<and> own_witness \<and> policy_bound \<and>
           truthy (evidence_of record ''attestation'')
         else if stage = ''LIVE_AUTONOMOUS'' \<and> transition \<noteq> JStr ''DEMOTE'' \<and>
           \<not> truthy (evidence_of record ''testnet_cycle_id'') then False
         else if transition = JStr ''CLIMB'' then
           (case ladder_stage previous of None \<Rightarrow> False
            | Some p \<Rightarrow> p \<noteq> ''READ_ONLY'' \<and> next_rank p stage \<and> own_witness \<and> policy_bound)
         else if transition = JStr ''REBIND'' then
           previous \<noteq> JNull \<and> JStr stage = previous \<and> stage \<noteq> ''READ_ONLY'' \<and> own_witness \<and>
           policy_bound
         else if transition = JStr ''DEMOTE'' then
           (if stage = ''READ_ONLY'' then previous \<noteq> JStr ''READ_ONLY'' \<and> unwitnessed
            else (case ladder_stage previous of None \<Rightarrow> False
               | Some p \<Rightarrow> lower_rank stage p \<and> witnessed \<and> \<not> own_witness \<and> policy_bound))
         else False))"

text \<open>The self-hash of a row, a record or the anchor, None when it cannot be computed.\<close>

definition hash_or_none :: "(string \<Rightarrow> string) \<Rightarrow> json \<Rightarrow> string option" where
  "hash_or_none H body = (case sha256_record H body of Inr h \<Rightarrow> Some h | Inl _ \<Rightarrow> None)"

definition verified_record :: "stage_env \<Rightarrow> json \<Rightarrow> json res" where
  "verified_record env data =
     (if \<not> is_obj data then Inl (Refused ''EXECUTION_STAGE_RECORD_UNREADABLE'')
      else (case hash_or_none (se_H env) (drop_key ''record_sha256'' data) of
          None \<Rightarrow> Inl (Refused ''EXECUTION_STAGE_RECORD_UNREADABLE'')
        | Some h \<Rightarrow>
            (if jget data ''record_sha256'' \<noteq> JStr h then Inl (Refused ''EXECUTION_STAGE_RECORD_TAMPERED'')
             else if \<not> se_record_ok env data then Inl (Refused ''EXECUTION_STAGE_RECORD_INVALID'')
             else Inr data)))"

section \<open>The ledger\<close>

text \<open>
  One row at its index: its hash, its schema, its number and its link; then its record, whose
  own defect is kept only at the tip; then the continuity of the stages and the single use of
  approvals.  \<open>before\<close> is the record of the row before, None at the first row.
\<close>

definition broken :: "'a res" where
  "broken = Inl (Refused ''EXECUTION_STAGE_LEDGER_BROKEN'')"

definition row_record ::
  "stage_env \<Rightarrow> bool \<Rightarrow> json \<Rightarrow> json res" where
  "row_record env tip row = bindR (jindex row ''record'') (\<lambda>data.
     case verified_record env data of
       Inr record \<Rightarrow> Inr record
     | Inl e \<Rightarrow> if tip then Inl e else broken)"

definition check_row ::
  "stage_env \<Rightarrow> bool \<Rightarrow> int \<Rightarrow> json \<Rightarrow> json option \<Rightarrow> string list \<Rightarrow> json \<Rightarrow> (json \<times> string list) res" where
  "check_row env tip index previous_hash before approvals row =
     (case hash_or_none (se_H env) (drop_key ''row_sha256'' row) of
        None \<Rightarrow> broken
      | Some h \<Rightarrow>
        (if jget row ''row_sha256'' \<noteq> JStr h then broken
         else if \<not> se_row_ok env row then broken
         else bindR (jindex row ''seq'') (\<lambda>seq.
         if \<not> py_int_eq seq index then broken
         else bindR (jindex row ''prev_row_sha256'') (\<lambda>link.
         if link \<noteq> previous_hash then broken
         else bindR (row_record env tip row) (\<lambda>record.
         if (case before of None \<Rightarrow> False
             | Some p \<Rightarrow> jget record ''transition'' \<noteq> JStr ''BOOTSTRAP'' \<and>
                 \<not> py_eq (jget record ''previous_stage'') (jget p ''stage'')) then broken
         else (case jget record ''approval_id'' of
             JStr a \<Rightarrow> (if jget record ''transition'' = JStr ''DEMOTE'' then Inr (record, approvals)
                else if a \<in> set approvals then broken else Inr (record, a # approvals))
           | _ \<Rightarrow> Inr (record, approvals)))))))"

fun check_rows ::
  "stage_env \<Rightarrow> int \<Rightarrow> json \<Rightarrow> json option \<Rightarrow> string list \<Rightarrow> json list \<Rightarrow> unit res" where
  "check_rows env index previous_hash before approvals [] = Inr ()"
| "check_rows env index previous_hash before approvals (row # rows) =
     bindR (check_row env (rows = []) index previous_hash before approvals row) (\<lambda>(record, approvals').
       check_rows env (index + 1) (jget row ''row_sha256'') (Some record) approvals' rows)"

definition read_ledger :: "stage_env \<Rightarrow> stage_world \<Rightarrow> json list res" where
  "read_ledger env w = (case stage_ledger w of
       No_Log \<Rightarrow> Inr []
     | Damaged_Log \<Rightarrow> Inl (Refused ''EXECUTION_STAGE_LEDGER_UNREADABLE'')
     | Log rows \<Rightarrow>
         (if rows = [] \<or> \<not> list_all is_obj rows
          then Inl (Refused ''EXECUTION_STAGE_LEDGER_UNREADABLE'')
          else bindR (check_rows env 0 JNull None [] rows) (\<lambda>_. Inr rows)))"

section \<open>The anchor\<close>

definition read_anchor :: "stage_env \<Rightarrow> stage_world \<Rightarrow> json option res" where
  "read_anchor env w =
     (let tampered = Inl (Refused ''EXECUTION_STAGE_ANCHOR_TAMPERED'') in
      case stage_anchor w of
        No_File \<Rightarrow> Inr None
      | Unreadable_File \<Rightarrow> tampered
      | Json_File data \<Rightarrow>
          (if \<not> is_obj data then tampered
           else case hash_or_none (se_H env) (drop_key ''anchor_sha256'' data) of
              None \<Rightarrow> tampered
            | Some h \<Rightarrow>
                (if jget data ''anchor_sha256'' \<noteq> JStr h \<or> \<not> se_anchor_ok env data then tampered
                 else bindR (jindex data ''venue'') (\<lambda>v.
                   if v \<noteq> JStr supported_venue then tampered else Inr (Some data)))))"

text \<open>
  A JSON number in an order comparison (an integral float is read from its text; any other
  value is a \<open>TypeError\<close> here), and as a list index, where a float never is one.
\<close>

definition num_of :: "json \<Rightarrow> int res" where
  "num_of j = (case j of JInt i \<Rightarrow> Inr i | JBool b \<Rightarrow> Inr (if b then 1 else 0)
     | JFloat r \<Rightarrow> (if endswith r ''.0'' then
          (case py_int (take (length r - 2) r) of Some n \<Rightarrow> Inr n
           | None \<Rightarrow> Inl (PyError ''TypeError''))
        else Inl (PyError ''TypeError''))
     | _ \<Rightarrow> Inl (PyError ''TypeError''))"

definition py_nth :: "'a list \<Rightarrow> int \<Rightarrow> 'a res" where
  "py_nth xs i = (let n = int (length xs) in
     if 0 \<le> i \<and> i < n then Inr (xs ! nat i)
     else if - n \<le> i \<and> i < 0 then Inr (xs ! nat (n + i))
     else Inl (PyError ''IndexError''))"

definition py_nth_json :: "'a list \<Rightarrow> json \<Rightarrow> 'a res" where
  "py_nth_json xs j = (case j of JInt i \<Rightarrow> py_nth xs i | JBool b \<Rightarrow> py_nth xs (if b then 1 else 0)
     | _ \<Rightarrow> Inl (PyError ''TypeError''))"

definition anchor_problem :: "json list \<Rightarrow> json option \<Rightarrow> string option res" where
  "anchor_problem rows anchor = (case anchor of
       None \<Rightarrow> Inr (Some ''EXECUTION_STAGE_ANCHOR_MISSING'')
     | Some a \<Rightarrow>
       bindR (bindR (jindex (last rows) ''seq'') num_of) (\<lambda>tip_seq.
       bindR (jindex a ''seq'') (\<lambda>seq.
       bindR (num_of seq) (\<lambda>n.
       if tip_seq < n then Inr (Some ''EXECUTION_STAGE_ROLLED_BACK'')
       else bindR (bindR (py_nth_json rows seq) (\<lambda>row. jindex row ''row_sha256'')) (\<lambda>held.
       bindR (jindex a ''row_sha256'') (\<lambda>named.
       if \<not> py_eq held named then Inr (Some ''EXECUTION_STAGE_ROLLED_BACK'')
       else if tip_seq - n > 1 then Inr (Some ''EXECUTION_STAGE_ANCHOR_BEHIND'')
       else Inr None))))))"

definition read_registered_stage :: "stage_env \<Rightarrow> stage_world \<Rightarrow> json option res" where
  "read_registered_stage env w =
     bindR (read_ledger env w) (\<lambda>rows. if rows = [] then Inr None
     else bindR (read_anchor env w) (\<lambda>anchor.
     bindR (anchor_problem rows anchor) (\<lambda>problem. case problem of
         Some code \<Rightarrow> Inl (Refused code)
       | None \<Rightarrow> bindR (jindex (last rows) ''record'') (\<lambda>r. Inr (Some r)))))"

definition mirror_record :: "stage_world \<Rightarrow> json option" where
  "mirror_record w = (case stage_mirror w of
       Json_File data \<Rightarrow> if is_obj data then Some data else None | _ \<Rightarrow> None)"

section \<open>The witness\<close>

definition stage_id_for :: "(string \<Rightarrow> string) \<Rightarrow> json \<Rightarrow> string res" where
  "stage_id_for H content = short_id H ''stage'' content"

definition consumption_ref :: "string \<Rightarrow> string" where
  "consumption_ref stage_id = ''execution_stage:'' @ stage_id"

definition stage_scope :: string where
  "stage_scope = ''RUNTIME_GOVERNANCE''"

definition stage_target_prefix :: string where
  "stage_target_prefix = ''execution_stage:''"

definition stage_target :: "json \<Rightarrow> string" where
  "stage_target content = stage_target_prefix @ py_str (jget content ''venue'') @ '':'' @
     py_str (jget content ''to_stage'')"

definition content_bound_fields :: "(string \<times> string) list" where
  "content_bound_fields = [(''venue'', ''venue''), (''transition'', ''transition''),
     (''stage'', ''to_stage''), (''policy_version'', ''policy_version''),
     (''policy_safety_sha256'', ''policy_safety_sha256''), (''registered_by'', ''registered_by''),
     (''reason'', ''reason''), (''evidence'', ''evidence'')]"

text \<open>Does the approval row say that Thomas granted it and that this record spent it?\<close>

definition spent_for :: "json \<Rightarrow> json \<Rightarrow> bool" where
  "spent_for record approval =
     (jget approval ''status'' = JStr ''CONSUMED'' \<and>
      jget (jget approval ''approver'') ''approved_by'' = JStr required_approver \<and>
      jget (jget approval ''approver'') ''verification_status'' = JStr ''VERIFIED'' \<and>
      jget (jget approval ''approver'') ''identity_verification_method'' =
        JStr telegram_verification_method \<and>
      py_eq (jget approval ''action_fingerprint'') (jget record ''action_fingerprint'') \<and>
      jget (jget approval ''consumption'') ''consumption_ref'' =
        JStr (consumption_ref (py_str (jget record ''witness_stage_id''))))"

definition content_matches :: "json \<Rightarrow> json \<Rightarrow> json \<Rightarrow> bool" where
  "content_matches record content approval =
     (list_all (\<lambda>(r, c). py_eq (jget record r) (jget content c)) content_bound_fields \<and>
      py_eq (if truthy (jget record ''previous_stage'') then jget record ''previous_stage''
             else JStr ''NONE'') (jget content ''from_stage'') \<and>
      py_eq (jget record ''effective_from'') (jget (jget approval ''consumption'') ''consumed_at''))"

definition str_rank :: "json \<Rightarrow> nat res" where
  "str_rank j = stage_rank (py_str j)"

definition descends_from :: "json \<Rightarrow> json \<Rightarrow> bool res" where
  "descends_from record content =
     (if \<not> py_eq (jget record ''venue'') (jget content ''venue'') \<or>
         jget content ''transition'' = JStr ''DEMOTE'' then Inr False
      else bindR (str_rank (jget record ''stage'')) (\<lambda>m.
           bindR (str_rank (jget content ''to_stage'')) (\<lambda>n.
           Inr (m < n \<and> py_eq (jget record ''policy_version'') (jget content ''policy_version'') \<and>
             py_eq (jget record ''policy_safety_sha256'') (jget content ''policy_safety_sha256'')))))"

definition snapshot_content :: "(string \<Rightarrow> string) \<Rightarrow> json \<Rightarrow> json \<Rightarrow> json option res" where
  "snapshot_content H record snapshot =
     (let content = jget snapshot ''normalized_parameters'' in
      if \<not> is_obj snapshot then Inr None
      else (case compute_action_fingerprint H snapshot of
          Inl _ \<Rightarrow> Inr None
        | Inr fp \<Rightarrow>
            (if jget record ''action_fingerprint'' \<noteq> JStr fp then Inr None
             else if \<not> is_obj content \<or> jget snapshot ''permission_scope'' \<noteq> JStr stage_scope \<or>
               jget snapshot ''target_ref'' \<noteq> JStr (stage_target content) \<or>
               ladder_stage (jget content ''to_stage'') = None then Inr None
             else bindR (stage_id_for H content) (\<lambda>i.
               Inr (if jget record ''witness_stage_id'' = JStr i then Some content else None)))))"

definition witness_reason :: "(string \<Rightarrow> string) \<Rightarrow> approval_world \<Rightarrow> json \<Rightarrow> string option res" where
  "witness_reason H approvals record =
     (let demote = (jget record ''transition'' = JStr ''DEMOTE'');
          mismatch = Inr (Some ''EXECUTION_STAGE_WITNESS_MISMATCH'');
          not_consumed = Inr (Some ''EXECUTION_STAGE_APPROVAL_NOT_CONSUMED'') in
      if demote \<and> jget record ''stage'' = JStr ''READ_ONLY'' then Inr None
      else (case get_approval approvals (py_str (jget record ''approval_id'')) of
          Inl _ \<Rightarrow> Inr (Some ''EXECUTION_STAGE_APPROVAL_UNREADABLE'')
        | Inr None \<Rightarrow> not_consumed
        | Inr (Some approval) \<Rightarrow>
            (if \<not> spent_for record approval then not_consumed
             else bindR (snapshot_content H record (jget approval ''approved_action_snapshot'')) (\<lambda>found.
             case found of None \<Rightarrow> mismatch
             | Some content \<Rightarrow>
                 (if \<not> demote then
                    (if content_matches record content approval then Inr None else mismatch)
                  else bindR (descends_from record content) (\<lambda>ok.
                    if ok then Inr None else mismatch))))))"

section \<open>The policy's identity\<close>

definition safety_sections :: "string list list" where
  "safety_sections = [[''policy_dispositions''], [''authority'', ''p5_policy_gate''],
     [''authority'', ''required_invariant''], [''authority'', ''approval_cannot_expand_authority''],
     [''control_channel'', ''local_operator_console''], [''approval_lifetime''], [''financial''],
     [''kill_switch''], [''conflict_policy''], [''runtime_effect'']]"

definition safety_identity :: "(string \<Rightarrow> string) \<Rightarrow> json option \<Rightarrow> (string \<times> string) option res" where
  "safety_identity H policy = (case policy of None \<Rightarrow> Inr None
     | Some p \<Rightarrow> (case (if is_obj p then jget p ''policy_version'' else JNull) of
          JStr v \<Rightarrow> bindR (sha256_record H (JObj (map (\<lambda>path.
              (join_with ''.'' path, foldl jget p path)) safety_sections)))
            (\<lambda>h. Inr (Some (v, h)))
        | _ \<Rightarrow> Inr None))"

section \<open>The effective stage\<close>

definition policy_defect :: "stage_env \<Rightarrow> json \<Rightarrow> string option res" where
  "policy_defect env record =
     bindR (safety_identity (se_H env) (se_policy env)) (\<lambda>identity. case identity of
         None \<Rightarrow> Inr (Some ''EXECUTION_STAGE_POLICY_UNREADABLE'')
       | Some (version, safety) \<Rightarrow>
         bindR (jindex record ''policy_version'') (\<lambda>v.
         if v \<noteq> JStr version then Inr (Some ''EXECUTION_STAGE_POLICY_VERSION_CHANGED'')
         else bindR (jindex record ''policy_safety_sha256'') (\<lambda>s.
         if s \<noteq> JStr safety then Inr (Some ''EXECUTION_STAGE_POLICY_SAFETY_CHANGED'')
         else Inr None)))"

text \<open>Why the tip's record does not bind, once the chain and the anchor have been read.\<close>

definition record_defect ::
  "stage_env \<Rightarrow> approval_world \<Rightarrow> string \<Rightarrow> json \<Rightarrow> string option res" where
  "record_defect env approvals now record =
     (if jget record ''venue'' \<noteq> JStr supported_venue then Inr (Some ''EXECUTION_STAGE_VENUE_MISMATCH'')
      else if \<not> transition_consistent record then Inr (Some ''EXECUTION_STAGE_TRANSITION_INVALID'')
      else bindR (jindex record ''effective_from'') (\<lambda>from.
      case from of
        JStr t \<Rightarrow>
          (if now < t then Inr (Some ''EXECUTION_STAGE_NOT_YET_EFFECTIVE'')
           else bindR (witness_reason (se_H env) approvals record) (\<lambda>witness.
           case witness of Some code \<Rightarrow> Inr (Some code)
           | None \<Rightarrow> bindR (jindex record ''stage'') (\<lambda>stage.
               if stage = JStr ''READ_ONLY'' then Inr None else policy_defect env record)))
      | _ \<Rightarrow> Inl (PyError ''TypeError'')))"

definition resolve_core ::
  "stage_env \<Rightarrow> approval_world \<Rightarrow> string \<Rightarrow> stage_world \<Rightarrow> stage_status res" where
  "resolve_core env approvals now w = (case read_ledger env w of
       Inl (Refused code) \<Rightarrow> Inr (read_only_status code None True)
     | Inl e \<Rightarrow> Inl e
     | Inr rows \<Rightarrow>
         (if rows = [] then
            Inr (if stage_mirror w \<noteq> No_File
                 then read_only_status ''EXECUTION_STAGE_LEDGER_MISSING'' (mirror_record w) True
                 else read_only_status ''EXECUTION_STAGE_RECORD_MISSING'' None False)
          else bindR (jindex (last rows) ''record'') (\<lambda>record.
          case read_anchor env w of
            Inl (Refused code) \<Rightarrow> Inr (read_only_status code (Some record) True)
          | Inl e \<Rightarrow> Inl e
          | Inr anchor \<Rightarrow>
              bindR (anchor_problem rows anchor) (\<lambda>problem. case problem of
                  Some code \<Rightarrow> Inr (read_only_status code (Some record) True)
                | None \<Rightarrow>
                  bindR (bindR (jindex (last rows) ''seq'') num_of) (\<lambda>tip.
                  bindR (bindR (jindex (the anchor) ''seq'') num_of) (\<lambda>named.
                  bindR (record_defect env approvals now record) (\<lambda>defect. case defect of
                      Some code \<Rightarrow> Inr (read_only_status code (Some record) True)
                    | None \<Rightarrow> Inr ((from_record record True None)
                        \<lparr>ss_anchor_behind := tip \<noteq> named\<rparr>))))))))"

text \<open>\<open>resolve_execution_stage\<close> never raises.\<close>

definition resolve_stage ::
  "stage_env \<Rightarrow> approval_world \<Rightarrow> string \<Rightarrow> stage_world \<Rightarrow> stage_status" where
  "resolve_stage env approvals now w = (case resolve_core env approvals now w of
       Inr st \<Rightarrow> st | Inl _ \<Rightarrow> read_only_status ''EXECUTION_STAGE_RECORD_UNREADABLE'' None True)"

end
