(* ===== verification/Testnet_Evidence.thy ===== *)
theory Testnet_Evidence
  imports Stage
begin

text \<open>
  The signed testnet evidence registry (\<open>crypto/testnet_evidence.py\<close>): one self-hashed row
  per cycle, a verified read, and the verdict derived from the row on every read.

  A finding is a constructor that names what is missing; the sentence it renders as is left
  out.
\<close>

datatype cycle_finding =
    Entry_Not_Reconciled | Entry_Mismatches | Wrong_Schema | Not_Testnet | Stopped_Early
  | Leg_Missing string | Leg_Not_Resting string | Leg_Wrong_Endpoint string
  | Leg_Not_Withdrawn string | Exit_Not_Reconciled | Exit_Not_Reduce_Only
  | Position_Not_Reconciled

definition evidence_schema_version :: string where
  "evidence_schema_version = ''signed_testnet_cycle.v0.1''"

definition venue_testnet :: string where
  "venue_testnet = ''binance_futures_testnet''"

definition resting_statuses :: "string list" where
  "resting_statuses = [''NEW'', ''PARTIALLY_FILLED'']"

definition required_legs :: "string list" where
  "required_legs = [''SL'', ''TP'']"

definition algo_legs :: "string list" where
  "algo_legs = [''SL'']"

definition testnet_hosts :: "string list" where
  "testnet_hosts = [''testnet.binancefuture.com'']"

definition build_cycle_record ::
  "(string \<Rightarrow> string) \<Rightarrow> string \<Rightarrow> string \<Rightarrow> json \<Rightarrow> json list \<Rightarrow> json \<Rightarrow> json \<Rightarrow> string \<Rightarrow> string \<Rightarrow>
   string \<Rightarrow> string \<Rightarrow> string option \<Rightarrow> string option \<Rightarrow> string option \<Rightarrow> json res" where
  "build_cycle_record H cycle_id symbol entry legs exit_result reconciliation tool host
     started completed operator reason failure =
     (let body = JObj [(''schema_version'', JStr evidence_schema_version),
        (''cycle_id'', JStr cycle_id), (''venue'', JStr venue_testnet), (''venue_host'', JStr host),
        (''provenance'', JStr ''mvp_testnet_kernel''), (''symbol'', JStr symbol),
        (''adapter_tool_id'', JStr tool), (''entry'', entry), (''protective_legs'', JArr legs),
        (''exit'', exit_result), (''position_reconciliation'', reconciliation),
        (''operator'', of_opt operator), (''reason'', of_opt reason), (''failure'', of_opt failure),
        (''started_at'', JStr started), (''completed_at'', JStr completed)] in
      bindR (sha256_record H body) (\<lambda>h. Inr (jset ''record_sha256'' (JStr h) body)))"

definition finding_if :: "bool \<Rightarrow> 'a \<Rightarrow> 'a list" where
  "finding_if b x = (if b then [x] else [])"

lemma finding_if_Nil [simp]: "finding_if b x = [] \<longleftrightarrow> \<not> b"
  by (simp add: finding_if_def)

text \<open>The legs by name; a later leg of one name replaces an earlier one.\<close>

definition legs_by_name :: "json \<Rightarrow> (string \<times> json) list" where
  "legs_by_name record =
     foldl (\<lambda>m leg. AList.update (py_str (jget leg ''leg'')) leg m) []
       (filter is_obj (arr_items (jget record ''protective_legs'')))"

definition leg_findings :: "string \<times> json \<Rightarrow> cycle_finding list" where
  "leg_findings named = (let (name, leg) = named in
     finding_if (jget leg ''observed_status'' \<notin> JStr ` set resting_statuses) (Leg_Not_Resting name) @
     finding_if (truthy (jget leg ''algo'') \<noteq> (name \<in> set algo_legs)) (Leg_Wrong_Endpoint name) @
     finding_if (jget leg ''withdrawn'' \<noteq> JBool True) (Leg_Not_Withdrawn name))"

definition cycle_findings :: "json \<Rightarrow> cycle_finding list" where
  "cycle_findings record =
     (let entry = jget record ''entry''; legs = legs_by_name record;
          exit_result = jget record ''exit''; position = jget record ''position_reconciliation'' in
      finding_if (jget entry ''reconcile_status'' \<noteq> JStr ''RECONCILED'') Entry_Not_Reconciled @
      finding_if (truthy (jget entry ''mismatches'')) Entry_Mismatches @
      finding_if (jget record ''schema_version'' \<noteq> JStr evidence_schema_version) Wrong_Schema @
      finding_if (jget record ''venue'' \<noteq> JStr venue_testnet \<or>
        jget record ''venue_host'' \<notin> JStr ` set testnet_hosts) Not_Testnet @
      finding_if (truthy (jget record ''failure'')) Stopped_Early @
      concat (map (\<lambda>leg. finding_if (map_of legs leg = None) (Leg_Missing leg)) required_legs) @
      concat (map leg_findings (sort_key fst legs)) @
      finding_if (jget exit_result ''reconcile_status'' \<noteq> JStr ''RECONCILED'') Exit_Not_Reconciled @
      finding_if (\<not> truthy (jget exit_result ''reduce_only'')) Exit_Not_Reduce_Only @
      finding_if (jget position ''status'' \<noteq> JStr ''RECONCILED'') Position_Not_Reconciled)"

section \<open>The verified read\<close>

fun verify_cycles :: "(string \<Rightarrow> string) \<Rightarrow> string list \<Rightarrow> json list \<Rightarrow> json list res" where
  "verify_cycles H seen [] = Inr []"
| "verify_cycles H seen (row # rows) =
     (if \<not> is_obj row then verify_cycles H seen rows
      else (case hash_or_none H (drop_key ''record_sha256'' row) of
          None \<Rightarrow> Inl (Refused ''TESTNET_EVIDENCE_UNREADABLE'')
        | Some h \<Rightarrow>
            (if jget row ''record_sha256'' \<noteq> JStr h then Inl (Refused ''TESTNET_EVIDENCE_TAMPERED'')
             else (case jget row ''cycle_id'' of
                 JStr i \<Rightarrow> (if i = [] then
                     bindR (verify_cycles H seen rows) (\<lambda>rest. Inr (row # rest))
                   else if i \<in> set seen then Inl (Refused ''TESTNET_EVIDENCE_DUPLICATE'')
                   else bindR (verify_cycles H (i # seen) rows) (\<lambda>rest. Inr (row # rest)))
               | _ \<Rightarrow> bindR (verify_cycles H seen rows) (\<lambda>rest. Inr (row # rest))))))"

definition read_cycles :: "(string \<Rightarrow> string) \<Rightarrow> event_file \<Rightarrow> json list res" where
  "read_cycles H f = bindR (read_rows ''TESTNET_EVIDENCE_UNREADABLE'' f) (verify_cycles H [])"

definition complete_cycles :: "(string \<Rightarrow> string) \<Rightarrow> event_file \<Rightarrow> json list res" where
  "complete_cycles H f =
     bindR (read_cycles H f) (\<lambda>rows. Inr (filter (\<lambda>r. cycle_findings r = []) rows))"

definition find_cycle :: "(string \<Rightarrow> string) \<Rightarrow> event_file \<Rightarrow> string \<Rightarrow> json option res" where
  "find_cycle H f cycle_id = bindR (read_cycles H f) (\<lambda>rows.
     Inr (List.find (\<lambda>r. jget r ''cycle_id'' = JStr cycle_id) rows))"

definition assert_complete_cycle :: "(string \<Rightarrow> string) \<Rightarrow> event_file \<Rightarrow> string \<Rightarrow> json res" where
  "assert_complete_cycle H f cycle_id =
     bindR (bindR (find_cycle H f cycle_id) (need ''TESTNET_EVIDENCE_INCOMPLETE'')) (\<lambda>row.
     bindR (ensure (cycle_findings row = []) ''TESTNET_EVIDENCE_INCOMPLETE'') (\<lambda>_. Inr row))"

text \<open>\<open>append_cycle\<close>: idempotent on the id, by a raw scan that never judges the history.\<close>

definition append_cycle :: "json \<Rightarrow> event_file \<Rightarrow> event_file" where
  "append_cycle record f =
     (let ids = List.map_filter (\<lambda>r. if is_obj r then str_or_none (jget r ''cycle_id'') else None)
            (case f of Log rows \<Rightarrow> rows | _ \<Rightarrow> []) in
      if py_str (jget record ''cycle_id'') \<in> set ids then f else append_rows [record] f)"

section \<open>What a complete cycle shows\<close>

lemma assert_complete_cycle_row:
  assumes "assert_complete_cycle H f i = Inr row"
  shows "jget row ''cycle_id'' = JStr i" "cycle_findings row = []"
    "\<exists>rows. read_cycles H f = Inr rows \<and> row \<in> set rows"
  using assms
  by (auto simp: assert_complete_cycle_def find_cycle_def bindR_Inr_iff find_Some_iff)

lemma verify_cycles_hash:
  "verify_cycles H seen rows = Inr out \<Longrightarrow> row \<in> set out \<Longrightarrow>
   is_obj row \<and> (\<exists>h. hash_or_none H (drop_key ''record_sha256'' row) = Some h \<and>
     jget row ''record_sha256'' = JStr h)"
proof (induction H seen rows arbitrary: out rule: verify_cycles.induct)
  case (2 H seen row' rows)
  then show ?case
    by (auto simp: bindR_Inr_iff split: if_splits option.splits json.splits)
qed simp

end
