(* ===== verification/Stage_Writes.thy ===== *)
theory Stage_Writes
  imports Testnet_Evidence
begin

text \<open>
  The transitions of the execution stage (\<open>execution_stage.py\<close>: what an ask may plan, the
  record an approved transition or a demotion writes, the row-anchor-mirror write, the
  re-anchoring) and the operator's door (\<open>scripts/register_execution_stage.py\<close>).
\<close>

section \<open>Planning\<close>

definition opt_or_none_text :: "string option \<Rightarrow> json" where
  "opt_or_none_text v = JStr (case v of None \<Rightarrow> ''none'' | Some s \<Rightarrow> if s = [] then ''none'' else s)"

definition stage_ref :: "(string \<Rightarrow> string) \<Rightarrow> stage_status \<Rightarrow> string res" where
  "stage_ref H st = short_id H ''stageref'' (JObj
     [(''stage_id'', opt_or_none_text (ss_stage_id st)),
      (''recorded_stage'', opt_or_none_text (ss_recorded st)),
      (''record_sha256'', opt_or_none_text (ss_record_sha256 st))])"

definition rebindable_reasons :: "string list" where
  "rebindable_reasons = [''EXECUTION_STAGE_POLICY_VERSION_CHANGED'',
     ''EXECUTION_STAGE_POLICY_SAFETY_CHANGED'']"

definition rebindable :: "stage_status \<Rightarrow> bool" where
  "rebindable st = (\<not> ss_valid st \<and> (case ss_reason st of Some r \<Rightarrow> r \<in> set rebindable_reasons
     | None \<Rightarrow> False))"

text \<open>An argument of the door as Python sees it: a string, or something that is none.\<close>

definition stated :: "json \<Rightarrow> bool" where
  "stated v = (case v of JStr s \<Rightarrow> strip s \<noteq> [] | _ \<Rightarrow> False)"

definition text_of :: "json \<Rightarrow> string" where
  "text_of v = (case v of JStr s \<Rightarrow> s | _ \<Rightarrow> [])"

definition live_entry_evidence ::
  "(string \<Rightarrow> string) \<Rightarrow> event_file \<Rightarrow> json \<Rightarrow> (string \<times> json) list res" where
  "live_entry_evidence H cycles cycle_id =
     (if \<not> stated cycle_id then Inl (Refused ''EXECUTION_STAGE_SIGNED_TESTNET_EVIDENCE_REQUIRED'')
      else bindR (assert_complete_cycle H cycles (strip (text_of cycle_id))) (\<lambda>row.
        Inr [(''testnet_cycle_id'', JStr (py_str (jget row ''cycle_id''))),
             (''testnet_cycle_sha256'', JStr (py_str (jget row ''record_sha256'')))]))"

text \<open>\<open>from_stage or "NONE"\<close>.\<close>

definition opt_or_none_stage :: "string option \<Rightarrow> json" where
  "opt_or_none_stage v = JStr (case v of None \<Rightarrow> ''NONE'' | Some s \<Rightarrow> if s = [] then ''NONE'' else s)"

text \<open>
  Which transition reaches \<open>target\<close>: its kind, the stage it leaves (None is NONE) and the
  evidence that names what it replaces.
\<close>

definition choose_transition ::
  "stage_status \<Rightarrow> string \<Rightarrow> json \<Rightarrow> (string \<times> string option \<times> (string \<times> json) list) res" where
  "choose_transition st target attestation =
     (let recorded = ss_recorded st in
      if stage_binding st then
        (if recorded = Some target then Inl (Refused ''EXECUTION_STAGE_ALREADY_BINDS'')
         else bindR (stage_rank target) (\<lambda>t.
           bindR (case recorded of None \<Rightarrow> Inl (PyError ''ValueError'') | Some s \<Rightarrow> stage_rank s) (\<lambda>r.
          if t < r then Inl (Refused ''EXECUTION_STAGE_USE_DEMOTE'')
          else if t \<noteq> r + 1 then Inl (Refused ''EXECUTION_STAGE_SKIP_REFUSED'')
          else if target = ''LIVE_SCALED'' then Inl (Refused ''EXECUTION_STAGE_NOT_DEFINED'')
          else Inr (''CLIMB'', recorded, []))))
      else if rebindable st \<and> recorded = Some target then
        Inr (''REBIND'', recorded, [(''replaced_reason_code'', of_opt (ss_reason st))])
      else if target \<in> set bootstrap_stages then
        (if \<not> stated attestation then Inl (Refused ''EXECUTION_STAGE_ATTESTATION_REQUIRED'')
         else Inr (''BOOTSTRAP'', None,
           (if ss_present st \<and> \<not> (ss_valid st \<and> recorded = Some ''READ_ONLY'') then
              (case recorded of None \<Rightarrow> [] | Some r \<Rightarrow> [(''replaced_stage'', JStr r)]) @
              [(''replaced_reason_code'', of_opt (ss_reason st))]
            else [])))
      else if rebindable st then Inl (Refused ''EXECUTION_STAGE_REBIND_FIRST'')
      else Inl (Refused ''EXECUTION_STAGE_BOOTSTRAP_ONLY_SHADOW_OR_PAPER''))"

record stage_ask =
  ask_target :: string
  ask_registered_by :: json
  ask_reason :: json
  ask_attestation :: json
  ask_cycle :: json

definition plan_transition :: "stage_env \<Rightarrow> event_file \<Rightarrow> stage_status \<Rightarrow> stage_ask \<Rightarrow> json res" where
  "plan_transition env cycles st a =
     bindR (ensure (ask_target a \<in> set ladder) ''EXECUTION_STAGE_NOT_DEFINED'') (\<lambda>_.
     bindR (ensure (\<not> ss_anchor_behind st) ''EXECUTION_STAGE_ANCHOR_SYNC_REQUIRED'') (\<lambda>_.
     bindR (ensure (stated (ask_registered_by a) \<and> stated (ask_reason a)) ''EXECUTION_STAGE_RECORD_INVALID'') (\<lambda>_.
     bindR (choose_transition st (ask_target a) (ask_attestation a)) (\<lambda>(kind, from, replaced).
     bindR (if ask_target a = ''LIVE_AUTONOMOUS'' then live_entry_evidence (se_H env) cycles (ask_cycle a)
            else if ask_cycle a \<noteq> JNull then Inl (Refused ''EXECUTION_STAGE_EVIDENCE_NOT_APPLICABLE'')
            else Inr []) (\<lambda>cycle.
     bindR (bindR (safety_identity (se_H env) (se_policy env)) (need ''EXECUTION_STAGE_POLICY_UNREADABLE''))
       (\<lambda>(version, safety).
     bindR (stage_ref (se_H env) st) (\<lambda>ref.
     Inr (JObj [(''venue'', JStr supported_venue), (''transition'', JStr kind),
       (''from_stage'', opt_or_none_stage from), (''to_stage'', JStr (ask_target a)),
       (''stage_ref'', JStr ref), (''policy_version'', JStr version),
       (''policy_safety_sha256'', JStr safety),
       (''registered_by'', JStr (strip (text_of (ask_registered_by a)))),
       (''reason'', JStr (take 600 (strip (text_of (ask_reason a))))),
       (''evidence'', JObj (replaced @ cycle @
          (if stated (ask_attestation a)
           then [(''attestation'', JStr (take 2000 (strip (text_of (ask_attestation a)))))] else [])))]))))))))"

section \<open>The records\<close>

definition finish_record :: "stage_env \<Rightarrow> json \<Rightarrow> json res" where
  "finish_record env body = bindR (sha256_record (se_H env) body) (\<lambda>h.
     (let record = jset ''record_sha256'' (JStr h) body in
      bindR (ensure (se_record_ok env record) ''EXECUTION_STAGE_RECORD_INVALID'') (\<lambda>_. Inr record)))"

definition same_identity :: "(string \<times> string) option \<Rightarrow> json \<Rightarrow> bool" where
  "same_identity identity content = (case identity of None \<Rightarrow> False
     | Some (version, safety) \<Rightarrow> jget content ''policy_version'' = JStr version \<and>
         jget content ''policy_safety_sha256'' = JStr safety)"

definition approved_body :: "json \<Rightarrow> string \<Rightarrow> string \<Rightarrow> string \<Rightarrow> string \<Rightarrow> json" where
  "approved_body content stage_id approval_id fingerprint now = JObj
     [(''schema_version'', JStr ''execution_stage.v0.1''), (''stage_id'', JStr stage_id),
      (''venue'', jget content ''venue''), (''stage'', jget content ''to_stage''),
      (''previous_stage'', if jget content ''from_stage'' = JStr ''NONE'' then JNull
         else jget content ''from_stage''),
      (''transition'', jget content ''transition''), (''effective_from'', JStr now),
      (''registered_by'', jget content ''registered_by''), (''reason'', jget content ''reason''),
      (''approval_id'', JStr approval_id), (''action_fingerprint'', JStr fingerprint),
      (''witness_stage_id'', JStr stage_id), (''policy_version'', jget content ''policy_version''),
      (''policy_safety_sha256'', jget content ''policy_safety_sha256''),
      (''evidence'', JObj (items (jget content ''evidence''))), (''registered_at'', JStr now)]"

definition record_from_approved ::
  "stage_env \<Rightarrow> event_file \<Rightarrow> json \<Rightarrow> stage_status \<Rightarrow> string \<Rightarrow> string \<Rightarrow> string \<Rightarrow> json res" where
  "record_from_approved env cycles content st approval_id fingerprint now =
     bindR (stage_ref (se_H env) st) (\<lambda>ref.
     bindR (ensure (jget content ''stage_ref'' = JStr ref) ''EXECUTION_STAGE_CHANGED'') (\<lambda>_.
     bindR (safety_identity (se_H env) (se_policy env)) (\<lambda>identity.
     bindR (ensure (same_identity identity content) ''EXECUTION_STAGE_POLICY_CHANGED_SINCE_ASK'') (\<lambda>_.
     bindR (plan_transition env cycles st
       \<lparr>ask_target = py_str (jget content ''to_stage''),
        ask_registered_by = JStr (py_str (jget content ''registered_by'')),
        ask_reason = JStr (py_str (jget content ''reason'')),
        ask_attestation = evidence_of content ''attestation'',
        ask_cycle = evidence_of content ''testnet_cycle_id''\<rparr>) (\<lambda>replanned.
     bindR (ensure (py_eq replanned content) ''EXECUTION_STAGE_CHANGED'') (\<lambda>_.
     bindR (stage_id_for (se_H env) content) (\<lambda>stage_id.
     finish_record env (approved_body content stage_id approval_id fingerprint now))))))))"

text \<open>The fields every demotion shares, then those of its landing.\<close>

definition demote_body ::
  "string \<Rightarrow> string \<Rightarrow> string \<Rightarrow> string \<Rightarrow> json \<Rightarrow> (string \<times> json) list \<Rightarrow> json" where
  "demote_body target registered_by reason now evidence rest = JObj
     ([(''schema_version'', JStr ''execution_stage.v0.1''), (''venue'', JStr supported_venue),
       (''stage'', JStr target), (''transition'', JStr ''DEMOTE''), (''effective_from'', JStr now),
       (''registered_by'', JStr (strip registered_by)), (''reason'', JStr (take 600 (strip reason))),
       (''evidence'', evidence), (''registered_at'', JStr now)] @ rest)"

definition demote_to_floor ::
  "stage_env \<Rightarrow> stage_status \<Rightarrow> string \<Rightarrow> string \<Rightarrow> string \<Rightarrow> json res" where
  "demote_to_floor env st registered_by reason now =
     bindR (ensure (ss_present st) ''EXECUTION_STAGE_NOTHING_TO_DEMOTE'') (\<lambda>_.
     bindR (ensure (\<not> (ss_valid st \<and> ss_recorded st = Some ''READ_ONLY''))
       ''EXECUTION_STAGE_NOT_LOWER'') (\<lambda>_.
     bindR (safety_identity (se_H env) (se_policy env)) (\<lambda>identity.
     Inr (demote_body ''READ_ONLY'' registered_by reason now
       (if \<not> ss_valid st \<and> ss_reason st \<noteq> None \<and> ss_reason st \<noteq> Some []
        then JObj [(''replaced_reason_code'', of_opt (ss_reason st))] else JObj [])
       [(''previous_stage'', if ss_recorded st = Some ''READ_ONLY'' then JNull
           else of_opt (ss_recorded st)),
        (''approval_id'', JNull), (''action_fingerprint'', JNull), (''witness_stage_id'', JNull),
        (''policy_version'', of_opt (map_option fst identity)),
        (''policy_safety_sha256'', of_opt (map_option snd identity))]))))"

definition demote_to_rung ::
  "stage_status \<Rightarrow> string \<Rightarrow> string \<Rightarrow> string \<Rightarrow> string \<Rightarrow> json res" where
  "demote_to_rung st target registered_by reason now =
     bindR (ensure (stage_binding st) ''EXECUTION_STAGE_DEMOTE_FROM_UNBOUND_RECORD'') (\<lambda>_.
     bindR (stage_rank target) (\<lambda>t.
     bindR (case ss_recorded st of None \<Rightarrow> Inl (PyError ''ValueError'') | Some s \<Rightarrow> stage_rank s) (\<lambda>r.
     bindR (ensure (t < r) ''EXECUTION_STAGE_NOT_LOWER'') (\<lambda>_.
     Inr (demote_body target registered_by reason now (JObj [])
       [(''previous_stage'', of_opt (ss_recorded st)), (''approval_id'', of_opt (ss_approval_id st)),
        (''action_fingerprint'', of_opt (ss_fingerprint st)),
        (''witness_stage_id'', of_opt (ss_witness_stage_id st)),
        (''policy_version'', of_opt (ss_policy_version st)),
        (''policy_safety_sha256'', of_opt (ss_policy_safety st))])))))"

definition demote_record ::
  "stage_env \<Rightarrow> stage_status \<Rightarrow> string \<Rightarrow> json \<Rightarrow> json \<Rightarrow> string \<Rightarrow> json res" where
  "demote_record env st target registered_by reason now =
     bindR (ensure (target \<in> set ladder) ''EXECUTION_STAGE_NOT_DEFINED'') (\<lambda>_.
     bindR (ensure (stated registered_by \<and> stated reason) ''EXECUTION_STAGE_RECORD_INVALID'') (\<lambda>_.
     bindR (if target = ''READ_ONLY''
            then demote_to_floor env st (text_of registered_by) (text_of reason) now
            else demote_to_rung st target (text_of registered_by) (text_of reason) now) (\<lambda>body.
     bindR (stage_id_for (se_H env) (jset ''from_stage_id'' (opt_or_none_text (ss_stage_id st)) body)) (\<lambda>i.
     finish_record env (jset ''stage_id'' (JStr i) body)))))"

end
