(* ===== verification/Stage_Append.thy ===== *)
theory Stage_Append
  imports Stage_Writes
begin

text \<open>
  The writes of the execution stage (\<open>append_stage_record\<close>, \<open>write_anchor\<close>, \<open>sync_anchor\<close> of
  \<open>execution_stage.py\<close>) over the files of the state directory: the old chain set aside, the
  ledger row, the anchor, the mirror, in that order, each one atomic.  The caller holds the
  stage lock.
\<close>

section \<open>Which chain a row extends\<close>

definition may_start_chain :: "json \<Rightarrow> bool" where
  "may_start_chain record = (jget record ''transition'' = JStr ''BOOTSTRAP'' \<or>
     jget record ''transition'' = JStr ''DEMOTE'' \<and> jget record ''stage'' = JStr ''READ_ONLY'')"

definition chain_to_extend :: "stage_env \<Rightarrow> stage_world \<Rightarrow> json list option res" where
  "chain_to_extend env w = (case read_ledger env w of
       Inl (Refused _) \<Rightarrow> Inr None
     | Inl e \<Rightarrow> Inl e
     | Inr rows \<Rightarrow>
         (if rows = [] then Inr None
          else (case read_anchor env w of
              Inl (Refused _) \<Rightarrow> Inr None
            | Inl e \<Rightarrow> Inl e
            | Inr None \<Rightarrow> Inr None
            | Inr (Some a) \<Rightarrow> bindR (anchor_problem rows (Some a)) (\<lambda>problem.
                Inr (if problem = Some ''EXECUTION_STAGE_ROLLED_BACK'' then None else Some rows)))))"

definition assert_appendable :: "stage_env \<Rightarrow> json \<Rightarrow> stage_world \<Rightarrow> unit res" where
  "assert_appendable env record w = bindR (chain_to_extend env w) (\<lambda>chain.
     ensure (chain \<noteq> None \<or> may_start_chain record) ''EXECUTION_STAGE_LEDGER_NEEDS_BINDING'')"

section \<open>The anchor\<close>

definition anchor_body :: "stage_env \<Rightarrow> json \<Rightarrow> string \<Rightarrow> json res" where
  "anchor_body env row now =
     bindR (bindR (jindex row ''seq'') int_of) (\<lambda>seq.
     bindR (jindex row ''row_sha256'') (\<lambda>h.
     (let body = JObj [(''schema_version'', JStr ''execution_stage_anchor.v0.1''),
        (''venue'', JStr supported_venue), (''seq'', JInt seq), (''row_sha256'', JStr (py_str h)),
        (''written_at'', JStr now)] in
      bindR (sha256_record (se_H env) body) (\<lambda>a.
      (let anchor = jset ''anchor_sha256'' (JStr a) body in
       if se_anchor_ok env anchor then Inr anchor else Inl (PyError ''RuntimeSchemaError''))))))"

definition write_anchor :: "stage_env \<Rightarrow> json \<Rightarrow> string \<Rightarrow> stage_world \<Rightarrow> unit res \<times> stage_world" where
  "write_anchor env row now w = (case anchor_body env row now of
       Inl e \<Rightarrow> (Inl e, w)
     | Inr anchor \<Rightarrow> (if anchor_write_fails w then (Inl (PyError ''OSError''), w)
          else (Inr (), w\<lparr>stage_anchor := Json_File anchor\<rparr>)))"

section \<open>One transition\<close>

text \<open>The file the old ledger is kept in: the record's time without its colons.\<close>

definition aside_stamp :: "json \<Rightarrow> string" where
  "aside_stamp record = filter (\<lambda>c. c \<noteq> CHR '':'')
     (if truthy (jget record ''registered_at'') then py_str (jget record ''registered_at'')
      else ''unstamped'')"

definition set_aside :: "json \<Rightarrow> stage_world \<Rightarrow> unit res \<times> stage_world" where
  "set_aside record w = (case stage_ledger w of
       No_Log \<Rightarrow> (Inr (), w)
     | f \<Rightarrow> (if rename_fails w then (Inl (PyError ''OSError''), w)
         else (Inr (), w\<lparr>stage_ledger := No_Log,
           replaced_ledgers := AList.update (aside_stamp record) f (replaced_ledgers w)\<rparr>)))"

definition row_body :: "json list \<Rightarrow> json \<Rightarrow> json" where
  "row_body rows record = JObj
     [(''schema_version'', JStr ''execution_stage_ledger.v0.1''),
      (''seq'', JInt (int (length rows))),
      (''prev_row_sha256'', if rows = [] then JNull else jget (last rows) ''row_sha256''),
      (''record'', record), (''appended_at'', jget record ''registered_at'')]"

definition next_row :: "stage_env \<Rightarrow> json list \<Rightarrow> json \<Rightarrow> json res" where
  "next_row env rows record = bindR (sha256_record (se_H env) (row_body rows record)) (\<lambda>h.
     (let row = jset ''row_sha256'' (JStr h) (row_body rows record) in
      bindR (ensure (se_row_ok env row) ''EXECUTION_STAGE_RECORD_INVALID'') (\<lambda>_. Inr row)))"

definition put_ledger :: "json list \<Rightarrow> stage_world \<Rightarrow> unit res \<times> stage_world" where
  "put_ledger rows w = (if ledger_write_fails w then (Inl (PyError ''OSError''), w)
     else (Inr (), w\<lparr>stage_ledger := Log rows\<rparr>))"

definition put_mirror :: "json \<Rightarrow> stage_world \<Rightarrow> unit res \<times> stage_world" where
  "put_mirror record w = (if mirror_write_fails w then (Inl (PyError ''OSError''), w)
     else (Inr (), w\<lparr>stage_mirror := Json_File record\<rparr>))"

text \<open>
  After the row has landed a failed anchor or mirror is a warning; the exceptions are the ones
  the source catches.
\<close>

definition warned :: "string list \<Rightarrow> string \<Rightarrow> unit res \<times> 'w \<Rightarrow> string list res \<times> 'w" where
  "warned classes warning m = (case m of
       (Inr _, w) \<Rightarrow> (Inr [], w)
     | (Inl e, w) \<Rightarrow> (if e \<in> PyError ` set classes then (Inr [warning], w) else (Inl e, w)))"

definition anchor_then_mirror ::
  "stage_env \<Rightarrow> json \<Rightarrow> json \<Rightarrow> stage_world \<Rightarrow> string list res \<times> stage_world" where
  "anchor_then_mirror env row record w =
     bindW (warned [''OSError'', ''RuntimeSchemaError'', ''ValueError'', ''IntegrityError'', ''TypeError'']
       ''EXECUTION_STAGE_ANCHOR_WRITE_FAILED''
       (write_anchor env row (py_str (jget record ''registered_at'')) w)) (\<lambda>anchor_warning w1.
     bindW (warned [''OSError'', ''ValueError'', ''TypeError''] ''MIRROR_WRITE_FAILED''
       (put_mirror record w1)) (\<lambda>mirror_warning w2.
     (Inr (anchor_warning @ mirror_warning), w2)))"

definition append_stage_record ::
  "stage_env \<Rightarrow> json \<Rightarrow> stage_world \<Rightarrow> string list res \<times> stage_world" where
  "append_stage_record env record w =
     bindW (chain_to_extend env w, w) (\<lambda>chain w0.
     bindW (if chain = None \<and> \<not> may_start_chain record then (assert_appendable env record w0, w0)
            else (Inr (), w0)) (\<lambda>_ w0.
     bindW (if chain = None then set_aside record w0 else (Inr (), w0)) (\<lambda>_ w1.
     (let rows = (case chain of None \<Rightarrow> [] | Some rs \<Rightarrow> rs) in
      bindW (next_row env rows record, w1) (\<lambda>row w1.
      bindW (put_ledger (rows @ [row]) w1) (\<lambda>_ w2. anchor_then_mirror env row record w2))))))"

section \<open>Re-anchoring\<close>

datatype sync_result = In_Sync json | Re_Anchored json json

definition sync_anchor :: "stage_env \<Rightarrow> string \<Rightarrow> stage_world \<Rightarrow> sync_result res \<times> stage_world" where
  "sync_anchor env now w =
     (let refused = Refused ''EXECUTION_STAGE_ANCHOR_SYNC_REFUSED'' in
      bindW (read_ledger env w, w) (\<lambda>rows w.
      if rows = [] then (Inl refused, w)
      else bindW (case read_anchor env w of Inl (Refused _) \<Rightarrow> Inl refused | r \<Rightarrow> r, w) (\<lambda>found w.
      case found of None \<Rightarrow> (Inl refused, w)
      | Some anchor \<Rightarrow>
        bindW (anchor_problem rows (Some anchor), w) (\<lambda>problem w.
        if problem = Some ''EXECUTION_STAGE_ROLLED_BACK'' then (Inl refused, w)
        else bindW (jindex anchor ''seq'', w) (\<lambda>from w.
        bindW (jindex (last rows) ''seq'', w) (\<lambda>tip w.
        if num_of from = num_of tip then (Inr (In_Sync tip), w)
        else bindW (write_anchor env (last rows) now w) (\<lambda>_ w.
          (Inr (Re_Anchored tip from), w))))))))"

section \<open>The control-ledger event\<close>

definition transition_event ::
  "(string \<Rightarrow> string) \<Rightarrow> json \<Rightarrow> stage_status \<Rightarrow> string \<Rightarrow> json res" where
  "transition_event H record previous now =
     (if \<not> list_all (has_key record) [''stage_id'', ''stage'', ''previous_stage'', ''transition'',
         ''approval_id'', ''registered_by'', ''reason'', ''record_sha256'']
      then Inl (PyError ''KeyError'')
      else stamped_event H ''execution_stage_transition.v0''
        [(''stage_id'', jget record ''stage_id''), (''stage'', jget record ''stage''),
         (''previous_stage'', jget record ''previous_stage''),
         (''transition'', jget record ''transition''), (''approval_id'', jget record ''approval_id''),
         (''registered_by'', jget record ''registered_by''), (''reason'', jget record ''reason''),
         (''record_sha256'', jget record ''record_sha256''),
         (''replaced_stage_id'', of_opt (ss_stage_id previous)),
         (''replaced_recorded_stage'', of_opt (ss_recorded previous)),
         (''replaced_valid'', JBool (ss_valid previous)),
         (''replaced_reason_code'', of_opt (ss_reason previous)), (''created_at'', JStr now)])"

end
