(* ===== verification/Stage_Door.thy ===== *)
theory Stage_Door
  imports Stage_Append
begin

text \<open>
  The operator's door to the execution stage (\<open>scripts/register_execution_stage.py\<close>): the
  confirmation of an approved transition, the demotion and the re-anchoring.

  The confirmation reads the approval store twice: once before it takes the stage lock (the
  world \<open>seen\<close>) and again under it (\<open>w\<close>); what another process did in between is the
  difference of the two.  Everything under the lock happens on \<open>w\<close>.
\<close>

record door_world =
  dw_approvals :: approval_world
  dw_stage :: stage_world
  dw_events :: event_file
  dw_events_fail :: bool
  dw_lock_busy :: bool
  dw_foreign_root :: bool

definition foreign_root_guard :: "door_world \<Rightarrow> unit res" where
  "foreign_root_guard w = ensure (\<not> dw_foreign_root w) ''STATE_FOREIGN_ROOT_RUN''"

definition stage_lock_guard :: "door_world \<Rightarrow> unit res" where
  "stage_lock_guard w = ensure (\<not> dw_lock_busy w) ''EXECUTION_STAGE_LOCK_FAILED''"

definition resolve_door :: "stage_env \<Rightarrow> string \<Rightarrow> door_world \<Rightarrow> stage_status" where
  "resolve_door env now w = resolve_stage env (dw_approvals w) now (dw_stage w)"

definition on_stage :: "(stage_world \<Rightarrow> 'a res \<times> stage_world) \<Rightarrow> door_world \<Rightarrow> 'a res \<times> door_world" where
  "on_stage f w = (let (x, s) = f (dw_stage w) in (x, w\<lparr>dw_stage := s\<rparr>))"

definition on_approvals ::
  "(approval_world \<Rightarrow> 'a res \<times> approval_world) \<Rightarrow> door_world \<Rightarrow> 'a res \<times> door_world" where
  "on_approvals f w = (let (x, a) = f (dw_approvals w) in (x, w\<lparr>dw_approvals := a\<rparr>))"

text \<open>The history row; a failure to append it is a warning.\<close>

definition ledger_event :: "json \<Rightarrow> door_world \<Rightarrow> string list res \<times> door_world" where
  "ledger_event event w =
     (if dw_events_fail w then (Inr [''CONTROL_EVENT_NOT_WRITTEN''], w)
      else (Inr [], w\<lparr>dw_events := append_rows [event] (dw_events w)\<rparr>))"

section \<open>Confirm\<close>

text \<open>The grant the operator names: spendable, of the stage scope, and aimed at a stage.\<close>

definition stage_grant ::
  "stage_env \<Rightarrow> control_state \<Rightarrow> string \<Rightarrow> string \<Rightarrow> door_world \<Rightarrow> (json \<times> json \<times> json) res" where
  "stage_grant env control now approval_id seen =
     bindR (foreign_root_guard seen) (\<lambda>_.
     bindR (validate_spendable_approval (se_H env) (dw_approvals seen) approval_id now control stage_scope)
       (\<lambda>(approval, d, snapshot).
     bindR (ensure (startswith (if truthy (jget snapshot ''target_ref'')
         then py_str (jget snapshot ''target_ref'') else []) stage_target_prefix)
       ''EXECUTION_STAGE_NOT_A_STAGE_GRANT'') (\<lambda>_.
     Inr (approval, d, JObj (items (jget snapshot ''normalized_parameters''))))))"

text \<open>What is built and refused under the lock, before anything is spent.\<close>

definition stage_preflight ::
  "stage_env \<Rightarrow> event_file \<Rightarrow> string \<Rightarrow> string \<Rightarrow> json \<Rightarrow> json \<Rightarrow> door_world \<Rightarrow>
   (stage_status \<times> json) res" where
  "stage_preflight env cycles now approval_id approval content w =
     bindR (bindR (get_approval (dw_approvals w) approval_id) (need ''ALREADY_CONSUMED'')) (\<lambda>latest.
     bindR (ensure (jget latest ''status'' = JStr ''APPROVED'') ''ALREADY_CONSUMED'') (\<lambda>_.
     (let st = resolve_door env now w in
      bindR (record_from_approved env cycles content st approval_id
        (py_str (jget approval ''action_fingerprint'')) now) (\<lambda>record.
      bindR (assert_appendable env record (dw_stage w)) (\<lambda>_. Inr (st, record))))))"

definition spend_and_write ::
  "approval_env \<Rightarrow> stage_env \<Rightarrow> string \<Rightarrow> string \<Rightarrow> json \<Rightarrow> json \<Rightarrow> door_world \<Rightarrow>
   string list res \<times> door_world" where
  "spend_and_write aenv env now approval_id d record w =
     bindW (on_approvals (\<lambda>a. spend_approval aenv a approval_id d now
       (consumption_ref (py_str (jget record ''stage_id'')))) w) (\<lambda>_ w1.
     case on_stage (append_stage_record env record) w1 of
       (Inl e, w2) \<Rightarrow> (Inl (case e of Refused _ \<Rightarrow> Refused ''EXECUTION_STAGE_WRITE_FAILED_AFTER_SPEND''
          | PyError c \<Rightarrow> if c = ''OSError'' then Refused ''EXECUTION_STAGE_WRITE_FAILED_AFTER_SPEND''
              else PyError c), w2)
     | (Inr warnings, w2) \<Rightarrow> (Inr warnings, w2))"

definition run_confirm ::
  "approval_env \<Rightarrow> stage_env \<Rightarrow> event_file \<Rightarrow> control_state \<Rightarrow> string \<Rightarrow> string \<Rightarrow> door_world \<Rightarrow>
   door_world \<Rightarrow> (json \<times> stage_status \<times> string list) res \<times> door_world" where
  "run_confirm aenv env cycles control now approval_id seen w =
     bindW (stage_grant env control now approval_id seen, w) (\<lambda>(approval, d, content) w.
     bindW (stage_lock_guard w, w) (\<lambda>_ w.
     bindW (stage_preflight env cycles now approval_id approval content w, w) (\<lambda>(before, record) w.
     bindW (spend_and_write aenv env now approval_id d record w) (\<lambda>warnings w.
     bindW (transition_event (se_H env) record before now, w) (\<lambda>event w.
     bindW (ledger_event event w) (\<lambda>more w.
     (Inr (record, resolve_door env now w, warnings @ more), w)))))))"

section \<open>Demote\<close>

definition run_demote ::
  "stage_env \<Rightarrow> string \<Rightarrow> string \<Rightarrow> json \<Rightarrow> json \<Rightarrow> door_world \<Rightarrow>
   (json \<times> stage_status \<times> string list) res \<times> door_world" where
  "run_demote env now target registered_by reason w =
     bindW (foreign_root_guard w, w) (\<lambda>_ w.
     bindW (stage_lock_guard w, w) (\<lambda>_ w.
     (let before = resolve_door env now w in
      bindW (demote_record env before target registered_by reason now, w) (\<lambda>record w.
      bindW (on_stage (append_stage_record env record) w) (\<lambda>warnings w.
      bindW (transition_event (se_H env) record before now, w) (\<lambda>event w.
      bindW (ledger_event event w) (\<lambda>more w.
      (Inr (record, resolve_door env now w, warnings @ more), w))))))))"

section \<open>Re-anchor\<close>

definition run_sync_anchor ::
  "stage_env \<Rightarrow> string \<Rightarrow> door_world \<Rightarrow> (sync_result \<times> stage_status) res \<times> door_world" where
  "run_sync_anchor env now w =
     bindW (foreign_root_guard w, w) (\<lambda>_ w.
     bindW (stage_lock_guard w, w) (\<lambda>_ w.
     bindW (on_stage (sync_anchor env now) w) (\<lambda>result w.
     (Inr (result, resolve_door env now w), w))))"

end
