(* ===== verification/Stage_Chain.thy ===== *)
theory Stage_Chain
  imports Stage_Door
begin

text \<open>
  The stage ledger as one hash chain: what a verified read says row by row, that a row written
  by \<open>append_stage_record\<close> is accepted by the reader, and what the anchor pins.  The contract
  \<open>hash_chain\<close> of \<open>Logs\<close> is discharged here for the ledger's rows.
\<close>

section \<open>One row\<close>

lemma jindex_Inr_iff: "jindex j k = Inr v \<longleftrightarrow> has_key j k \<and> jget j k = v"
  by (cases j) (auto simp: jindex_def has_key_def jget_def items_def split: option.splits)

lemma jget_not_null_has_key: "jget j k \<noteq> JNull \<Longrightarrow> has_key j k"
  by (auto simp: jget_def has_key_def split: option.splits)

lemma broken_not_Inr [simp]: "broken \<noteq> Inr x" "Inr x \<noteq> broken"
  by (simp_all add: broken_def)

definition row_hash :: "(string \<Rightarrow> string) \<Rightarrow> json \<Rightarrow> string option" where
  "row_hash H row = hash_or_none H (drop_key ''row_sha256'' row)"

text \<open>The approval a row spends: a demotion carries one forward and spends none.\<close>

definition row_approval :: "json \<Rightarrow> string option" where
  "row_approval row = (let record = jget row ''record'' in
     if jget record ''transition'' = JStr ''DEMOTE'' then None else str_or_none (jget record ''approval_id''))"

definition continues :: "json option \<Rightarrow> json \<Rightarrow> bool" where
  "continues before record = (case before of None \<Rightarrow> True
     | Some p \<Rightarrow> jget record ''transition'' = JStr ''BOOTSTRAP'' \<or>
         py_eq (jget record ''previous_stage'') (jget p ''stage''))"

definition row_fits ::
  "stage_env \<Rightarrow> int \<Rightarrow> json \<Rightarrow> json option \<Rightarrow> string list \<Rightarrow> json \<Rightarrow> bool" where
  "row_fits env index previous before approvals row =
     ((\<exists>h. row_hash (se_H env) row = Some h \<and> jget row ''row_sha256'' = JStr h) \<and> se_row_ok env row \<and>
      has_key row ''seq'' \<and> py_int_eq (jget row ''seq'') index \<and>
      has_key row ''prev_row_sha256'' \<and> jget row ''prev_row_sha256'' = previous \<and>
      has_key row ''record'' \<and> verified_record env (jget row ''record'') = Inr (jget row ''record'') \<and>
      continues before (jget row ''record'') \<and>
      (\<forall>a. row_approval row = Some a \<longrightarrow> a \<notin> set approvals))"

definition add_approval :: "json \<Rightarrow> string list \<Rightarrow> string list" where
  "add_approval row aps = (case row_approval row of None \<Rightarrow> aps | Some a \<Rightarrow> a # aps)"

lemma verified_record_Inr: "verified_record env data = Inr r \<Longrightarrow> r = data"
  by (auto simp: verified_record_def split: if_splits option.splits)

lemma row_record_Inr:
  "row_record env tip row = Inr r \<longleftrightarrow> has_key row ''record'' \<and> r = jget row ''record'' \<and>
     verified_record env r = Inr r"
  by (auto simp: row_record_def bindR_Inr_iff jindex_Inr_iff dest: verified_record_Inr
      split: sum.splits if_splits)

lemma check_row_Inr:
  "check_row env tip i p before aps row = Inr (record, aps') \<longleftrightarrow>
   row_fits env i p before aps row \<and> record = jget row ''record'' \<and> aps' = add_approval row aps"
proof (cases "hash_or_none (se_H env) (drop_key ''row_sha256'' row)")
  case None
  then show ?thesis by (simp add: check_row_def row_fits_def row_hash_def)
next
  case (Some h)
  show ?thesis
    unfolding check_row_def row_fits_def row_hash_def Some continues_def
    by (auto simp: bindR_Inr_iff jindex_Inr_iff row_record_Inr row_approval_def add_approval_def Let_def
        str_or_none_def split: if_splits option.splits json.splits)
qed

section \<open>The chain\<close>

fun chain_fits ::
  "stage_env \<Rightarrow> int \<Rightarrow> json \<Rightarrow> json option \<Rightarrow> string list \<Rightarrow> json list \<Rightarrow> bool" where
  "chain_fits env i p before aps [] = True"
| "chain_fits env i p before aps (row # rows) = (row_fits env i p before aps row \<and>
     chain_fits env (i + 1) (jget row ''row_sha256'') (Some (jget row ''record'')) (add_approval row aps) rows)"

lemma check_rows_iff: "check_rows env i p before aps rows = Inr () \<longleftrightarrow> chain_fits env i p before aps rows"
  by (induction env i p before aps rows rule: check_rows.induct)
     (auto simp: bindR_Inr_iff check_row_Inr)

definition tip_record :: "json option \<Rightarrow> json list \<Rightarrow> json option" where
  "tip_record before rows = (if rows = [] then before else Some (jget (last rows) ''record''))"

lemma chain_fits_snoc:
  "chain_fits env i p before aps (rows @ [row]) \<longleftrightarrow> chain_fits env i p before aps rows \<and>
     row_fits env (i + int (length rows)) (tip_hash ''row_sha256'' p rows) (tip_record before rows)
       (fold add_approval rows aps) row"
  by (induction rows arbitrary: i p before aps) (auto simp: tip_hash_def tip_record_def algebra_simps)

lemma set_fold_add_approval:
  "set (fold add_approval rows aps) = set aps \<union> {a. \<exists>r \<in> set rows. row_approval r = Some a}"
  by (induction rows arbitrary: aps) (auto simp: add_approval_def split: option.splits)

lemma chain_fits_linked:
  "chain_fits env i p before aps rows \<Longrightarrow>
   linked ''prev_row_sha256'' ''row_sha256'' (row_hash (se_H env)) i p rows"
  by (induction rows arbitrary: i p before aps) (auto simp: row_fits_def)

lemma read_ledger_iff:
  "read_ledger env w = Inr rows \<longleftrightarrow>
     (stage_ledger w = No_Log \<and> rows = [] \<or>
      stage_ledger w = Log rows \<and> rows \<noteq> [] \<and> list_all is_obj rows \<and>
        chain_fits env 0 JNull None [] rows)"
  by (cases "stage_ledger w") (auto simp: read_ledger_def bindR_Inr_iff check_rows_iff)

interpretation stage_chain: hash_chain "''prev_row_sha256''" "''row_sha256''" "row_hash H" "collision H"
  for H
proof
  fix a b h
  assume h: "row_hash H a = Some h" "row_hash H b = Some h" and wf: "wf_json a" "wf_json b"
  then have "sha256_record H (drop_key ''row_sha256'' a) = Inr h"
    "sha256_record H (drop_key ''row_sha256'' b) = Inr h"
    by (auto simp: row_hash_def hash_or_none_def split: sum.splits)
  from sha256_record_binds [OF this wf_json_drop_key [OF wf(1)] wf_json_drop_key [OF wf(2)]]
  show "py_eq (drop_key ''row_sha256'' a) (drop_key ''row_sha256'' b) \<or> collision H" .
qed simp_all

section \<open>The numbers of the chain\<close>

lemma dec_digits_val: "\<forall>c \<in> set s. is_digit c \<Longrightarrow> dec_digits a s = Some (digits_val a s)"
proof (induction a s rule: dec_digits.induct)
  case (3 a c d s)
  then show ?case
    by (auto simp: dec_digit_def is_digit_def Let_def intro!: arg_cong [of _ _ "\<lambda>x. digits_val x s"])
qed (auto simp: dec_digit_def is_digit_def Let_def)

lemma startswith_append [simp]: "startswith (s @ t) s"
  by (induction s) auto

lemma py_int_show: "py_int (show_int i) = Some i"
proof (cases "i < 0")
  case True
  then show ?thesis
    using dec_digits_val [OF show_nat_digits] show_nat_ne
    by (simp add: py_int_def show_int_def digits_val_show_nat)
next
  case False
  obtain c s where cs: "show_nat (nat i) = c # s"
    using show_nat_ne [of "nat i"] by (cases "show_nat (nat i)") auto
  then have "is_digit c" using hd_show_nat [of "nat i"] by simp
  then have "c \<noteq> CHR ''-''" "c \<noteq> CHR ''+''" by (auto simp: is_digit_def)
  moreover have "dec_digits 0 (c # s) = Some (nat i)"
    using dec_digits_val [OF show_nat_digits, of 0 "nat i"] cs digits_val_show_nat [of "nat i"] by simp
  ultimately show ?thesis using False cs by (simp add: py_int_def show_int_def)
qed

lemma num_of_py_int_eq: "py_int_eq j i \<Longrightarrow> num_of j = Inr i"
proof (cases j)
  case (JFloat r)
  assume eq: "py_int_eq j i"
  show ?thesis
  proof (cases "r = show_int i @ ''.0''")
    case True
    then show ?thesis using JFloat by (simp add: num_of_def endswith_def py_int_show)
  next
    case False
    with eq JFloat have "i = 0" "r = ''-0.0''" by (simp_all add: py_int_eq_def)
    with JFloat show ?thesis by (simp add: num_of_def endswith_def py_int_def dec_digit_def)
  qed
qed (simp_all add: py_int_eq_def num_of_def)

section \<open>A row the writer makes is one the reader takes\<close>

lemma drop_key_jset [simp]: "k \<notin> fst ` set kvs \<Longrightarrow> drop_key k (jset k v (JObj kvs)) = JObj kvs"
  by (auto simp: drop_key_def jset_def items_def without_key_def update_fresh filter_id_conv)

lemma has_key_jset [simp]: "has_key (jset k v j) x \<longleftrightarrow> x = k \<or> has_key j x"
  by (auto simp: has_key_def jset_def items_def update_conv')

lemma next_row_fields:
  assumes "next_row env rows record = Inr row"
  shows "is_obj row" "has_key row ''seq''" "jget row ''seq'' = JInt (int (length rows))"
    "has_key row ''prev_row_sha256''" "jget row ''prev_row_sha256'' = tip_hash ''row_sha256'' JNull rows"
    "has_key row ''record''" "jget row ''record'' = record" "se_row_ok env row"
    "\<exists>h. row_hash (se_H env) row = Some h \<and> jget row ''row_sha256'' = JStr h"
  using assms
  by (auto simp: next_row_def bindR_Inr_iff Let_def row_body_def tip_hash_def row_hash_def hash_or_none_def)

lemma appended_row_fits:
  assumes "chain_fits env 0 JNull None [] rows" "next_row env rows record = Inr row"
    and "verified_record env record = Inr record" "continues (tip_record None rows) record"
    and "\<And>a. row_approval row = Some a \<Longrightarrow> \<forall>r \<in> set rows. row_approval r \<noteq> Some a"
  shows "chain_fits env 0 JNull None [] (rows @ [row])"
  using assms next_row_fields [OF assms(2)]
  by (fastforce simp: chain_fits_snoc row_fits_def set_fold_add_approval)

lemma finish_record_Inr:
  assumes "finish_record env (JObj kvs) = Inr record" "''record_sha256'' \<notin> fst ` set kvs"
  shows "verified_record env record = Inr record" "\<exists>h. record = jset ''record_sha256'' (JStr h) (JObj kvs)"
    "se_record_ok env record"
  using assms
  by (auto simp: finish_record_def bindR_Inr_iff Let_def verified_record_def hash_or_none_def)

section \<open>What the append leaves\<close>

definition base_rows :: "json list option \<Rightarrow> json list" where
  "base_rows chain = (case chain of None \<Rightarrow> [] | Some rows \<Rightarrow> rows)"

lemma base_rows_simps [simp]: "base_rows None = []" "base_rows (Some rows) = rows"
  by (simp_all add: base_rows_def)

lemma chain_to_extend_Some:
  assumes "chain_to_extend env w = Inr (Some rows)"
  shows "read_ledger env w = Inr rows" "rows \<noteq> []"
    "\<exists>a p. read_anchor env w = Inr (Some a) \<and> anchor_problem rows (Some a) = Inr p \<and>
       p \<noteq> Some ''EXECUTION_STAGE_ROLLED_BACK''"
  using assms
  by (auto simp: chain_to_extend_def bindR_Inr_iff split: sum.splits exn.splits if_splits option.splits)

lemma set_aside_cases:
  assumes "set_aside record w = (x, w')"
  shows "(x = Inr () \<and> stage_ledger w' = No_Log \<or> x = Inl (PyError ''OSError'') \<and> w' = w) \<and>
    stage_anchor w' = stage_anchor w \<and> stage_mirror w' = stage_mirror w"
  using assms by (auto simp: set_aside_def split: event_file.splits if_splits)

lemma put_ledger_cases:
  assumes "put_ledger rows w = (x, w')"
  shows "x = Inr () \<and> w' = w\<lparr>stage_ledger := Log rows\<rparr> \<or> x = Inl (PyError ''OSError'') \<and> w' = w"
  using assms by (auto simp: put_ledger_def split: if_splits)

lemma write_anchor_cases:
  assumes "write_anchor env row now w = (x, w')"
  shows "(\<exists>a. x = Inr () \<and> anchor_body env row now = Inr a \<and> w' = w\<lparr>stage_anchor := Json_File a\<rparr>) \<or>
    (\<exists>e. x = Inl e) \<and> w' = w"
  using assms by (auto simp: write_anchor_def split: sum.splits if_splits)

lemma anchor_then_mirror_ledger:
  assumes "anchor_then_mirror env row record w = (x, w')"
  shows "stage_ledger w' = stage_ledger w \<and>
    (stage_anchor w' = stage_anchor w \<or>
     (\<exists>a. anchor_body env row (py_str (jget record ''registered_at'')) = Inr a \<and>
        stage_anchor w' = Json_File a))"
  using assms
  by (auto simp: anchor_then_mirror_def warned_def write_anchor_def put_mirror_def bindW_def
      split: sum.splits if_splits prod.splits)

text \<open>
  Whatever fails: the old ledger still stands, or it was only set aside, or the new row is the
  ledger's tip.
\<close>

lemma append_leaves:
  assumes "append_stage_record env record w = (x, w')"
  shows "(\<exists>e. x = Inl e) \<and> w' = w \<or>
    (\<exists>e. x = Inl e) \<and> stage_ledger w' = No_Log \<and> chain_to_extend env w = Inr None \<or>
    (\<exists>chain row. chain_to_extend env w = Inr chain \<and> (chain = None \<longrightarrow> may_start_chain record) \<and>
       next_row env (base_rows chain) record = Inr row \<and> stage_ledger w' = Log (base_rows chain @ [row]) \<and>
       (\<exists>w2. anchor_then_mirror env row record w2 = (x, w') \<and> stage_anchor w2 = stage_anchor w))"
proof (cases "chain_to_extend env w")
  case (Inl e)
  with assms show ?thesis by (auto simp: append_stage_record_def)
next
  case (Inr chain)
  show ?thesis
  proof (cases "chain = None \<and> \<not> may_start_chain record")
    case True
    with Inr assms show ?thesis
      by (auto simp: append_stage_record_def assert_appendable_def)
  next
    case False
    obtain y w1 where aside: "(if chain = None then set_aside record w else (Inr (), w)) = (y, w1)"
      by fastforce
    have shape: "bindW (y, w1) (\<lambda>_ w1. bindW (next_row env (base_rows chain) record, w1) (\<lambda>row w1.
        bindW (put_ledger (base_rows chain @ [row]) w1) (\<lambda>_ w2. anchor_then_mirror env row record w2)))
        = (x, w')"
      using assms False by (simp add: append_stage_record_def Inr aside base_rows_def Let_def)
    have w1: "stage_anchor w1 = stage_anchor w" "\<And>e. y = Inl e \<Longrightarrow> w1 = w"
      "chain \<noteq> None \<Longrightarrow> w1 = w" "y = Inr () \<Longrightarrow> chain = None \<Longrightarrow> stage_ledger w1 = No_Log"
      using aside set_aside_cases [of "record" w y w1] by (auto split: if_splits)
    show ?thesis
    proof (cases y)
      case (Inl e)
      with shape w1 show ?thesis by auto
    next
      case (Inr u)
      show ?thesis
      proof (cases "next_row env (base_rows chain) record")
        case (Inl e)
        with shape \<open>y = Inr u\<close> w1 \<open>chain_to_extend env w = Inr chain\<close> show ?thesis
          by (cases chain) (auto simp: base_rows_def)
      next
        case (Inr row)
        obtain z w2 where put: "put_ledger (base_rows chain @ [row]) w1 = (z, w2)" by fastforce
        have "bindW (z, w2) (\<lambda>_ w2. anchor_then_mirror env row record w2) = (x, w')"
          using shape \<open>y = Inr u\<close> Inr put by (simp add: base_rows_def Let_def)
        then consider (no) "x = Inl (PyError ''OSError'')" "w' = w1"
          | (yes) "w2 = w1\<lparr>stage_ledger := Log (base_rows chain @ [row])\<rparr>"
              "anchor_then_mirror env row record w2 = (x, w')"
          using put_ledger_cases [OF put] by auto
        then show ?thesis
        proof cases
          case no
          with w1 \<open>y = Inr u\<close> \<open>chain_to_extend env w = Inr chain\<close> show ?thesis
            by (cases chain) simp_all
        next
          case yes
          from anchor_then_mirror_ledger [OF yes(2)] yes(1)
          have "stage_ledger w' = Log (base_rows chain @ [row])" by simp
          moreover from yes w1(1) have "stage_anchor w2 = stage_anchor w" by simp
          ultimately show ?thesis using yes(2) Inr False \<open>chain_to_extend env w = Inr chain\<close> by blast
        qed
      qed
    qed
  qed
qed

end
