(* ===== verification/Approval_Safety.thy ===== *)
theory Approval_Safety
  imports Approval_Store
begin

text \<open>
  What the approval store promises.  Its rows are a legal history of the lifecycle
  PENDING, then APPROVED, REJECTED or EXPIRED, then CONSUMED; the forward-only contract of
  \<open>Logs\<close> is discharged here for it, and single use is read off that contract.
\<close>

section \<open>The lifecycle as a forward-only store\<close>

definition approval_status :: "json \<Rightarrow> json" where
  "approval_status r = jget r ''status''"

definition approval_initial :: "json \<Rightarrow> bool" where
  "approval_initial s = (s = JStr ''PENDING'')"

definition approval_allowed :: "json \<Rightarrow> json \<Rightarrow> bool" where
  "approval_allowed s t =
     (s = JStr ''PENDING'' \<and> t \<in> {JStr ''APPROVED'', JStr ''REJECTED'', JStr ''EXPIRED''} \<or>
      s = JStr ''APPROVED'' \<and> t = JStr ''CONSUMED'')"

definition approval_terminal :: "json \<Rightarrow> bool" where
  "approval_terminal s = (s \<in> {JStr ''REJECTED'', JStr ''EXPIRED'', JStr ''CONSUMED''})"

interpretation ap: forward_store approval_key approval_status approval_initial approval_allowed
  approval_terminal
  by unfold_locales (auto simp: approval_allowed_def approval_terminal_def)

abbreviation approval_history :: "json list \<Rightarrow> bool" where
  "approval_history \<equiv> legal_history approval_key approval_status approval_initial approval_allowed"

definition store_rows :: "event_file \<Rightarrow> json list" where
  "store_rows f = (case f of Log rows \<Rightarrow> rows | _ \<Rightarrow> [])"

lemma read_rows_Inr: "read_rows code f = Inr rows \<Longrightarrow> rows = store_rows f \<and> f \<noteq> Damaged_Log"
  by (cases f) (auto simp: read_rows_def store_rows_def)

lemma store_rows_append: "f \<noteq> Damaged_Log \<Longrightarrow> store_rows (append_rows new f) = store_rows f @ new"
  by (cases f) (auto simp: store_rows_def append_rows_def)

lemma append_rows_damaged [simp]: "append_rows new f = Damaged_Log \<longleftrightarrow> f = Damaged_Log"
  by (cases f) (auto simp: append_rows_def)

lemma get_approval_Inr:
  assumes "get_approval w i = Inr found"
  shows "found = latest_by approval_key (store_rows (approval_rows w)) i" "approval_rows w \<noteq> Damaged_Log"
    "list_all is_obj (store_rows (approval_rows w))"
  using assms
  by (auto simp: get_approval_def current_approvals_def bindR_Inr_iff dest!: read_rows_Inr split: if_splits)

section \<open>What each operation writes\<close>

lemma approval_key_jset [simp]: "k \<noteq> ''approval_id'' \<Longrightarrow> approval_key (jset k v a) = approval_key a"
  by (simp add: approval_key_def)

definition verified_thomas :: "json \<Rightarrow> bool" where
  "verified_thomas a = (jget (jget a ''approver'') ''approved_by'' = JStr required_approver \<and>
     jget (jget a ''approver'') ''verification_status'' = JStr ''VERIFIED'' \<and>
     jget (jget a ''approver'') ''identity_verification_method'' = JStr telegram_verification_method)"

lemma record_decision_row:
  assumes "record_decision env a d granted v reason now = Inr r"
  shows "approval_status a = JStr ''PENDING''"
    "approval_status r = JStr (if granted then ''APPROVED'' else ''REJECTED'')"
    "approval_key r = approval_key a" "verified_thomas r" "is_obj r"
    "is_expired a now = Inr False" "validate_approval env r d = Inr ()"
  using assms
  by (auto simp: record_decision_def require_pending_def bindR_Inr_iff Let_def approval_status_def
      verified_thomas_def)

lemma expire_row:
  assumes "expire a now = Inr r"
  shows "approval_status a = JStr ''PENDING''" "approval_status r = JStr ''EXPIRED''"
    "approval_key r = approval_key a" "is_obj r"
  using assms
  by (auto simp: expire_def require_pending_def bindR_Inr_iff approval_status_def)

lemma build_consumed_row:
  assumes "build_consumed_record env a d at ref = Inr r"
  shows "approval_status a = JStr ''APPROVED''" "approval_status r = JStr ''CONSUMED''"
    "approval_key r = approval_key a" "verified_thomas r = verified_thomas a" "is_obj r"
    "validate_approval env r d = Inr ()"
    "jget (jget r ''consumption'') ''consumption_ref'' = JStr ref"
    "jget (jget r ''consumption'') ''consumed_at'' = JStr at"
  using assms
  by (auto simp: build_consumed_record_def bindR_Inr_iff Let_def approval_status_def
      verified_thomas_def)

lemma build_request_row:
  assumes "build_approval_request env d now ttl = Inr r"
  shows "\<exists>i issued expires ref m e.
    r = request_fields d i ref (format_iso issued) (format_iso expires) \<and> startswith i ''approval_'' \<and>
    validate_approval env r d = Inr () \<and> permission_ref d = Inr ref \<and>
    jget (jget d ''decision'') ''permission_decision'' = JStr ''APPROVAL_REQUIRED'' \<and>
    parse_iso now = Inr issued \<and> issued < expires \<and>
    approval_ttl_minutes env (jget (jget d ''fingerprint_payload'') ''permission_scope'') = Inr m \<and>
    expires \<le> issued + 60 * m \<and>
    parse_iso_json (jget (jget d ''lifecycle'') ''expires_at'') = Inr e \<and> expires \<le> e"
  using assms
  apply (auto simp: build_approval_request_def bindR_Inr_iff Let_def split: if_splits json.splits
      dest!: jindex_Inr)
  subgoal for i m issued e latest ref
    by (intro exI [of _ i] exI [of _ "min e latest"]) (auto simp: checked_def split: if_splits)
  done

lemma startswith_nonempty: "startswith i (c # p) \<Longrightarrow> i \<noteq> []"
  by auto

lemma request_row:
  assumes "build_approval_request env d now ttl = Inr r"
  shows "approval_status r = JStr ''PENDING''" "is_obj r"
    "\<exists>i. approval_key r = Some i \<and> jget r ''approval_id'' = JStr i"
  using build_request_row [OF assms]
  by (auto simp: request_fields_def approval_status_def approval_key_def dest: startswith_nonempty)

section \<open>Every operation keeps the history legal\<close>

definition store_ok :: "approval_world \<Rightarrow> bool" where
  "store_ok w = (approval_history (store_rows (approval_rows w)) \<and>
     (\<forall>r \<in> set (store_rows (approval_rows w)). is_obj r \<and>
        (approval_status r \<in> {JStr ''APPROVED'', JStr ''REJECTED'', JStr ''CONSUMED''} \<longrightarrow>
         verified_thomas r)))"

lemma append_approvals_cases:
  assumes "append_approvals [r] w = (x, w')"
  shows "w' = w \<and> x = Inl (Refused ''APPROVAL_WRITE_FAILED'') \<or>
    w' = w\<lparr>approval_rows := append_rows [r] (approval_rows w)\<rparr> \<and> x = Inr ()"
  using assms by (auto simp: append_approvals_def split: if_splits)

lemma store_ok_move:
  assumes "store_ok w" "approval_rows w \<noteq> Damaged_Log" "is_obj r"
    and "approval_key r = Some i" "latest_by approval_key (store_rows (approval_rows w)) i = Some p"
    and "approval_allowed (approval_status p) (approval_status r)"
    and "approval_status r = JStr ''EXPIRED'' \<or> verified_thomas r"
  shows "store_ok (w\<lparr>approval_rows := append_rows [r] (approval_rows w)\<rparr>)"
  using assms
  by (auto simp: store_ok_def store_rows_append intro: move_row)

lemma store_ok_open:
  assumes "store_ok w" "approval_rows w \<noteq> Damaged_Log" "is_obj r"
    and "approval_key r = Some i" "latest_by approval_key (store_rows (approval_rows w)) i = None"
    and "approval_status r = JStr ''PENDING''"
  shows "store_ok (w\<lparr>approval_rows := append_rows [r] (approval_rows w)\<rparr>)"
  using assms
  by (auto simp: store_ok_def store_rows_append approval_initial_def intro: open_row)

text \<open>The ask as the doors make it: the decision is recorded, then the request.\<close>

definition ask_approval ::
  "approval_env \<Rightarrow> json \<Rightarrow> string \<Rightarrow> int option \<Rightarrow> approval_world \<Rightarrow> json res \<times> approval_world" where
  "ask_approval env d now ttl w = (case build_approval_request env d now ttl of
       Inl e \<Rightarrow> (Inl e, w)
     | Inr request \<Rightarrow> (case append_permission_decision d w of
          (Inl e, w1) \<Rightarrow> (Inl e, w1)
        | (Inr _, w1) \<Rightarrow> (case append_approvals [request] w1 of
             (Inl e, w2) \<Rightarrow> (Inl e, w2) | (Inr _, w2) \<Rightarrow> (Inr request, w2))))"

lemma ask_keeps_store:
  assumes "ask_approval env d now ttl w = (x, w')" "store_ok w" "approval_rows w \<noteq> Damaged_Log"
    and "\<And>i. jget (jget d ''approval'') ''approval_id'' = JStr i \<Longrightarrow> get_approval w i = Inr None"
  shows "store_ok w'"
proof (cases "build_approval_request env d now ttl")
  case (Inl e)
  with assms show ?thesis by (simp add: ask_approval_def)
next
  case (Inr r)
  obtain y w1 where pd: "append_permission_decision d w = (y, w1)" by fastforce
  have same: "approval_rows w1 = approval_rows w"
    using pd by (auto simp: append_permission_decision_def split: if_splits)
  then have ok1: "store_ok w1" using assms(2) by (simp add: store_ok_def)
  show ?thesis
  proof (cases y)
    case (Inl e)
    with Inr pd assms(1) ok1 show ?thesis by (simp add: ask_approval_def)
  next
    case (Inr u)
    obtain z w2 where ap: "append_approvals [r] w1 = (z, w2)" by fastforce
    with \<open>build_approval_request env d now ttl = Inr r\<close> Inr pd assms(1) have "w' = w2"
      by (simp add: ask_approval_def split: sum.splits)
    from request_row [OF \<open>build_approval_request env d now ttl = Inr r\<close>] obtain i where
      r: "approval_status r = JStr ''PENDING''" "is_obj r" "approval_key r = Some i" by blast
    have "jget (jget d ''approval'') ''approval_id'' = JStr i"
      using \<open>build_approval_request env d now ttl = Inr r\<close> r(3)
      by (auto simp: build_approval_request_def bindR_Inr_iff Let_def request_fields_def approval_key_def
          split: if_splits json.splits)
    from get_approval_Inr(1) [OF assms(4) [OF this]]
    have none: "latest_by approval_key (store_rows (approval_rows w)) i = None" by simp
    from append_approvals_cases [OF ap] ok1
      store_ok_open [OF ok1, of r i, unfolded same, OF assms(3) r(2,3) none r(1)] \<open>w' = w2\<close> same
    show ?thesis by auto
  qed
qed

lemma spend_cases:
  assumes "spend_approval env w i d at ref = (x, w')"
  shows "(\<exists>e. x = Inl e \<and> w' = w) \<or>
    (\<exists>p r. get_approval w i = Inr (Some p) \<and> build_consumed_record env p d at ref = Inr r \<and>
       x = Inr r \<and> w' = w\<lparr>approval_rows := append_rows [r] (approval_rows w)\<rparr>)"
proof (cases "\<exists>p. \<not> spend_lock_busy w \<and> get_approval w i = Inr (Some p) \<and>
    jget p ''status'' = JStr ''APPROVED''")
  case False
  with assms show ?thesis
    by (auto simp: spend_approval_def with_spend_lock_def split: if_splits sum.splits option.splits)
next
  case True
  then obtain p where p: "\<not> spend_lock_busy w" "get_approval w i = Inr (Some p)"
    "jget p ''status'' = JStr ''APPROVED''" by blast
  show ?thesis
  proof (cases "build_consumed_record env p d at ref")
    case (Inl e)
    with p assms show ?thesis
      by (intro disjI1 exI [of _ e]) (simp add: spend_approval_def with_spend_lock_def)
  next
    case (Inr r)
    obtain y w1 where ap: "append_approvals [r] w = (y, w1)" by fastforce
    from append_approvals_cases [OF ap] p Inr ap assms show ?thesis
      by (auto simp: spend_approval_def with_spend_lock_def)
  qed
qed

lemma spend_keeps_store:
  assumes "spend_approval env w i d at ref = (x, w')" "store_ok w"
  shows "store_ok w'"
  using spend_cases [OF assms(1)]
proof (elim disjE exE conjE)
  fix p r
  assume get: "get_approval w i = Inr (Some p)" and built: "build_consumed_record env p d at ref = Inr r"
    and w': "w' = w\<lparr>approval_rows := append_rows [r] (approval_rows w)\<rparr>"
  note row = build_consumed_row [OF built]
  from get_approval_Inr [OF get] have
    latest: "latest_by approval_key (store_rows (approval_rows w)) i = Some p" "approval_rows w \<noteq> Damaged_Log"
    by simp_all
  from latest_by_in [OF latest(1)] have
    p: "p \<in> set (store_rows (approval_rows w))" "approval_key p = Some i" by simp_all
  with assms(2) row(1) have "verified_thomas p" by (auto simp: store_ok_def)
  with row p latest assms(2) show ?thesis unfolding w'
    by (intro store_ok_move [of w r i p]) (simp_all add: approval_allowed_def)
qed (use assms(2) in simp)

lemma answer_cases:
  assumes "apply_approval_command env verb i v reason now seen w = (x, w')"
  shows "w' = w \<or> (\<exists>k p r. i = Some k \<and> get_approval seen k = Inr (Some p) \<and>
      w' = w\<lparr>approval_rows := append_rows [r] (approval_rows w)\<rparr> \<and>
      (expire p now = Inr r \<and> x = Inl (Refused ''APPROVAL_EXPIRED'') \<or>
       (\<exists>d g why. record_decision env p d g v why now = Inr r \<and> x = Inr r \<and>
          (g \<longleftrightarrow> verb = ''approve''))))"
  using assms
  by (auto simp: apply_approval_command_def append_approvals_def Let_def
      split: if_splits sum.splits option.splits bool.splits prod.splits)

lemma answer_keeps_store:
  assumes "apply_approval_command env verb i v reason now seen w = (x, w')" "store_ok w"
    and "\<And>k. i = Some k \<Longrightarrow> get_approval w k = get_approval seen k"
  shows "store_ok w'"
  using answer_cases [OF assms(1)]
proof (elim disjE exE conjE)
  fix k p r
  assume k: "i = Some k" "get_approval seen k = Inr (Some p)"
    and w': "w' = w\<lparr>approval_rows := append_rows [r] (approval_rows w)\<rparr>" and e: "expire p now = Inr r"
  from get_approval_Inr [of w k] assms(3) [OF k(1)] k(2) latest_by_in [of approval_key _ k p]
    expire_row [OF e] assms(2) show ?thesis unfolding w'
    by (intro store_ok_move [of w r k p]) (auto simp: approval_allowed_def)
next
  fix k p r d g why
  assume k: "i = Some k" "get_approval seen k = Inr (Some p)"
    and w': "w' = w\<lparr>approval_rows := append_rows [r] (approval_rows w)\<rparr>"
    and e: "record_decision env p d g v why now = Inr r"
  from get_approval_Inr [of w k] assms(3) [OF k(1)] k(2) latest_by_in [of approval_key _ k p]
    record_decision_row [OF e] assms(2) show ?thesis unfolding w'
    by (intro store_ok_move [of w r k p]) (auto simp: approval_allowed_def)
qed (use assms(2) in simp)

section \<open>Runs\<close>

text \<open>
  A run of one machine: asks under a fresh id, answers no other answer overtook, and spends
  under any interleaving (each is atomic under its lock).
\<close>

inductive approval_run :: "approval_env \<Rightarrow> approval_world \<Rightarrow> approval_world \<Rightarrow> bool" for env where
  run_start: "approval_run env w w"
| run_ask: "approval_run env w w1 \<Longrightarrow> approval_rows w1 \<noteq> Damaged_Log \<Longrightarrow>
    (\<And>i. jget (jget d ''approval'') ''approval_id'' = JStr i \<Longrightarrow> get_approval w1 i = Inr None) \<Longrightarrow>
    ask_approval env d now ttl w1 = (x, w2) \<Longrightarrow> approval_run env w w2"
| run_answer: "approval_run env w w1 \<Longrightarrow>
    (\<And>k. i = Some k \<Longrightarrow> get_approval w1 k = get_approval seen k) \<Longrightarrow>
    apply_approval_command env verb i v reason now seen w1 = (x, w2) \<Longrightarrow> approval_run env w w2"
| run_spend: "approval_run env w w1 \<Longrightarrow> spend_approval env w1 i d at ref = (x, w2) \<Longrightarrow>
    approval_run env w w2"

lemma run_keeps_store: "approval_run env w w' \<Longrightarrow> store_ok w \<Longrightarrow> store_ok w'"
  by (induction rule: approval_run.induct)
     (blast intro: ask_keeps_store answer_keeps_store spend_keeps_store)+

definition empty_store :: approval_world where
  "empty_store = \<lparr>approval_rows = No_Log, permission_rows = No_Log, approval_append_fails = False,
     spend_lock_busy = False\<rparr>"

lemma store_ok_empty: "store_ok empty_store"
  by (simp add: store_ok_def empty_store_def store_rows_def empty_history)

lemma rows_of_get: "get_approval w i = Inr found \<Longrightarrow> latest_by approval_key (store_rows (approval_rows w)) i = found"
  using get_approval_Inr by blast

lemma append_extends: "\<exists>ys. store_rows (append_rows new f) = store_rows f @ ys"
  by (cases f) (auto simp: store_rows_def append_rows_def)

lemma ask_extends:
  "ask_approval env d now ttl w = (x, w') \<Longrightarrow>
   \<exists>ys. store_rows (approval_rows w') = store_rows (approval_rows w) @ ys"
  using append_extends
  by (fastforce simp: ask_approval_def append_permission_decision_def append_approvals_def
      split: if_splits sum.splits prod.splits)

lemma run_extends:
  "approval_run env w w' \<Longrightarrow> \<exists>ys. store_rows (approval_rows w') = store_rows (approval_rows w) @ ys"
proof (induction rule: approval_run.induct)
  case (run_ask w w1 d now ttl x w2)
  with ask_extends [of env d now ttl w1 x w2] show ?case by auto
next
  case (run_answer w w1 i seen verb v reason now x w2)
  from answer_cases [OF run_answer.hyps(3)] append_extends [of _ "approval_rows w1"] run_answer.IH
  show ?case by (metis append_assoc approval_world.select_convs(1) approval_world.surjective
        approval_world.update_convs(1))
next
  case (run_spend w w1 i d at ref x w2)
  from spend_cases [OF run_spend.hyps(2)] append_extends [of _ "approval_rows w1"] run_spend.IH
  show ?case by (metis append_assoc approval_world.select_convs(1) approval_world.surjective
        approval_world.update_convs(1))
qed simp

lemma spent_is_terminal:
  assumes "spend_approval env w i d at ref = (Inr r, w1)" "store_ok w"
  shows "latest_by approval_key (store_rows (approval_rows w1)) i = Some r"
    "approval_terminal (approval_status r)"
proof -
  from spend_cases [OF assms(1)] obtain p where
    get: "get_approval w i = Inr (Some p)" and built: "build_consumed_record env p d at ref = Inr r"
    and w1: "w1 = w\<lparr>approval_rows := append_rows [r] (approval_rows w)\<rparr>" by auto
  from latest_by_in [OF rows_of_get [OF get]] have "approval_key p = Some i" by simp
  with build_consumed_row [OF built] get_approval_Inr [OF get] w1
  show "latest_by approval_key (store_rows (approval_rows w1)) i = Some r"
    by (simp add: store_rows_append latest_step_def)
  from build_consumed_row [OF built] show "approval_terminal (approval_status r)"
    by (simp add: approval_terminal_def)
qed

lemma ask_undamaged:
  "ask_approval env d now ttl w = (x, w') \<Longrightarrow> approval_rows w \<noteq> Damaged_Log \<Longrightarrow>
   approval_rows w' \<noteq> Damaged_Log"
  by (auto simp: ask_approval_def append_permission_decision_def append_approvals_def
      split: if_splits sum.splits prod.splits)

lemma run_undamaged:
  "approval_run env w w' \<Longrightarrow> approval_rows w \<noteq> Damaged_Log \<Longrightarrow> approval_rows w' \<noteq> Damaged_Log"
proof (induction rule: approval_run.induct)
  case (run_ask w w1 d now ttl x w2)
  then show ?case using ask_undamaged by blast
next
  case (run_answer w w1 i seen verb v reason now x w2)
  with answer_cases [OF run_answer.hyps(3)] show ?case by auto
next
  case (run_spend w w1 i d at ref x w2)
  with spend_cases [OF run_spend.hyps(2)] show ?case by auto
qed simp

lemma second_spend_refused:
  assumes "store_ok w" "spend_approval env w i d at ref = (Inr r, w1)" "approval_run env w1 w2"
  shows "spend_approval env w2 i d' at' ref' =
    (Inl (Refused (if spend_lock_busy w2 then ''APPROVAL_WRITE_FAILED'' else ''ALREADY_CONSUMED'')), w2)"
proof -
  have ok1: "store_ok w1" by (rule spend_keeps_store [OF assms(2,1)])
  then have ok2: "store_ok w2" by (rule run_keeps_store [OF assms(3)])
  from spend_cases [OF assms(2)] get_approval_Inr(2) have "approval_rows w1 \<noteq> Damaged_Log" by auto
  then have live: "approval_rows w2 \<noteq> Damaged_Log" by (rule run_undamaged [OF assms(3)])
  from run_extends [OF assms(3)] obtain ys where
    ys: "store_rows (approval_rows w2) = store_rows (approval_rows w1) @ ys" by blast
  from ok2 ys have "approval_history (store_rows (approval_rows w1) @ ys)" by (simp add: store_ok_def)
  from ap.terminal_final [OF this spent_is_terminal [OF assms(2,1)]]
  have latest: "latest_by approval_key (store_rows (approval_rows w2)) i = Some r" by (simp add: ys)
  have "get_approval w2 i = Inr (Some r)"
    using ok2 live latest
    by (cases "approval_rows w2")
       (auto simp: get_approval_def current_approvals_def read_rows_def store_rows_def store_ok_def
         list_all_iff)
  moreover have "jget r ''status'' \<noteq> JStr ''APPROVED''"
    using spent_is_terminal(2) [OF assms(2,1)]
    by (auto simp: approval_terminal_def approval_status_def)
  ultimately show ?thesis by (simp add: spend_approval_def with_spend_lock_def)
qed

lemma validated_record:
  assumes "validate_approval env a d = Inr ()"
  obtains policy ref where "env_policy env = Some policy" "permission_ref d = Inr ref"
    "validate_approval_record (env_H env) (env_yaml env) a [(ref, d)] policy = []" "env_schema env a"
  using assms
  by (auto simp: validate_approval_def bindR_Inr_iff split: option.splits)

lemma validated_times:
  assumes "parse_dt v l = (t, [])"
  shows "\<exists>s i. v = JStr s \<and> parse_iso s = Inr i \<and> t = Some i"
  using assms by (auto simp: parse_dt_def split: json.splits sum.splits)

lemma validated_binding:
  assumes "validate_approval env a d = Inr ()" "\<not> has_key a ''__load_error__''"
    and "permission_ref d = Inr ref" "jget a ''permission_decision_ref'' = JStr ref"
    and "\<not> has_key d ''__load_error__''"
  shows "compute_action_fingerprint (env_H env) (jget a ''approved_action_snapshot'') = Inr fp \<Longrightarrow>
      jget a ''action_fingerprint'' = JStr fp"
    "\<exists>fp. compute_action_fingerprint (env_H env) (jget a ''approved_action_snapshot'') = Inr fp"
    "py_eq (jget a ''approved_action_snapshot'') (jget d ''fingerprint_payload'')"
    "jget (jget d ''decision'') ''permission_decision'' = JStr ''APPROVAL_REQUIRED''"
proof -
  from validated_record [OF assms(1)] obtain policy ref' where
    r: "permission_ref d = Inr ref'"
    "validate_approval_record (env_H env) (env_yaml env) a [(ref', d)] policy = []" by blast
  then have [simp]: "ref' = ref" using assms(3) by simp
  from r(2) assms(2) have f: "fingerprint_issues (env_H env) a = []"
    "reference_issues (env_yaml env) [(ref, d)] a = []"
    by (auto simp: validate_approval_record_def Let_def split: prod.splits)
  from f(1) show "\<exists>fp. compute_action_fingerprint (env_H env) (jget a ''approved_action_snapshot'') = Inr fp"
    "compute_action_fingerprint (env_H env) (jget a ''approved_action_snapshot'') = Inr fp \<Longrightarrow>
      jget a ''action_fingerprint'' = JStr fp"
    by (auto simp: fingerprint_issues_def Let_def split: sum.splits)
  from f(2) assms(4,5) show "py_eq (jget a ''approved_action_snapshot'') (jget d ''fingerprint_payload'')"
    "jget (jget d ''decision'') ''permission_decision'' = JStr ''APPROVAL_REQUIRED''"
    by (auto simp: reference_issues_def Let_def)
qed

lemma terminal_row_unique:
  assumes "approval_history rows" "r \<in> set rows" "approval_key r = Some k"
    and "approval_terminal (approval_status r)"
  shows "latest_by approval_key rows k = Some r"
    "filter (\<lambda>x. approval_key x = Some k \<and> approval_terminal (approval_status x)) rows = [r]"
proof -
  from assms(2) obtain xs ys where rows: "rows = xs @ r # ys" by (auto simp: in_set_conv_decomp)
  have split: "rows = (xs @ [r]) @ ys" by (simp add: rows)
  have "latest_by approval_key (xs @ [r]) k = Some r" using assms(3) by (simp add: latest_step_def)
  from ap.terminal_final [OF assms(1) [unfolded split] this assms(4)]
  show "latest_by approval_key rows k = Some r" by (simp add: split)
  have "\<forall>y \<in> set ys. approval_key y \<noteq> Some k"
  proof
    fix y assume "y \<in> set ys"
    then obtain j where j: "j < length ys" "ys ! j = y" by (auto simp: in_set_conv_nth)
    from ap.one_terminal_row [OF assms(1), of "length xs" "Suc (length xs) + j" k] assms(3,4) j rows
    show "approval_key y \<noteq> Some k" by (simp add: nth_append)
  qed
  moreover have "\<forall>x \<in> set xs. \<not> (approval_key x = Some k \<and> approval_terminal (approval_status x))"
  proof
    fix x assume "x \<in> set xs"
    then obtain i where i: "i < length xs" "xs ! i = x" by (auto simp: in_set_conv_nth)
    from ap.one_terminal_row [OF assms(1), of i "length xs" k] assms(3) i rows
    show "\<not> (approval_key x = Some k \<and> approval_terminal (approval_status x))"
      by (auto simp: nth_append)
  qed
  ultimately show "filter (\<lambda>x. approval_key x = Some k \<and> approval_terminal (approval_status x)) rows = [r]"
    using assms(3,4) by (simp add: rows filter_False)
qed

section \<open>Concrete runs\<close>

definition sample_governance :: json where
  "sample_governance = JObj
     [(''policy_dispositions'', JObj [(''APPROVAL_REQUIRED'', JArr [JStr ''RUNTIME_GOVERNANCE''])]),
      (''approval_lifetime'', JObj [(''default_approval_ttl_minutes'', JInt 30),
         (''scope_max_ttl_minutes'', JObj [(''RUNTIME_GOVERNANCE'', JInt 15)])]),
      (''control_channel'', JObj [(''allowed_identity_verification_methods'',
         JArr [JStr telegram_verification_method])])]"

definition sample_env :: approval_env where
  "sample_env = \<lparr>env_H = (\<lambda>_. ''h''), env_schema = is_obj, env_policy = Some sample_governance,
     env_yaml = (\<lambda>_. JObj [])\<rparr>"

definition sample_decision :: json where
  "sample_decision = JObj
     [(''permission_decision_id'', JStr ''permdec_1''), (''trace_id'', JStr ''trace_1''),
      (''task_id'', JStr ''task_1''), (''task_revision'', JInt 1),
      (''core_context_binding_id'', JStr ''ccb-1''), (''operating_policy'', policy_binding),
      (''action_fingerprint'', JStr ''sha256:h''),
      (''fingerprint_payload'', JObj [(''schema_version'', JStr fingerprint_schema_version),
         (''permission_scope'', JStr ''RUNTIME_GOVERNANCE''), (''data_scope'', JArr []),
         (''amount_decimal'', JNull), (''currency'', JNull), (''task_id'', JStr ''task_1''),
         (''task_revision'', JInt 1), (''core_context_binding_id'', JStr ''ccb-1'')]),
      (''lifecycle'', JObj [(''expires_at'', JStr ''2026-10-01T10:20:00Z'')]),
      (''decision'', JObj [(''permission_decision'', JStr ''APPROVAL_REQUIRED'')]),
      (''approval'', JObj [(''approval_id'', JStr ''approval_1'')])]"

definition thomas_on_telegram :: verification where
  "thomas_on_telegram = \<lparr>ver_approved_by = required_approver, ver_method = telegram_verification_method,
     ver_ref = Some ''telegram:private_chat:registered-thomas:approval_1''\<rparr>"

definition sample_request :: json where
  "sample_request = request_fields sample_decision ''approval_1'' ''in_memory:permdec_1''
     ''2026-10-01T10:00:00Z'' ''2026-10-01T10:15:00Z''"

definition sample_approved :: json where
  "sample_approved =
     jset ''audit_refs'' (with_audit_ref ''audit:approval_decision:approval_1'' sample_request)
     (jset ''decision'' (JObj [(''decision_reason'', JStr ''the drill''),
        (''decided_at'', JStr ''2026-10-01T10:05:00Z'')])
     (jset ''approver'' (JObj [(''required_approver'', JStr required_approver),
        (''approved_by'', JStr required_approver), (''verification_status'', JStr ''VERIFIED''),
        (''identity_verification_method'', JStr telegram_verification_method),
        (''verification_ref'', of_opt (ver_ref thomas_on_telegram))])
     (jset ''status'' (JStr ''APPROVED'') sample_request)))"

definition sample_consumed :: json where
  "sample_consumed =
     jset ''audit_refs'' (with_audit_ref ''audit:approval_consumption:approval_1'' sample_approved)
     (jset ''consumption'' (JObj [(''one_time_use'', JBool True),
        (''consumption_status'', JStr ''CONSUMED''), (''previewed_at'', JNull), (''preview_ref'', JNull),
        (''consumed_at'', JStr ''2026-10-01T10:06:00Z''),
        (''consumption_ref'', JStr ''execution_stage:stage_1'')])
     (jset ''status'' (JStr ''CONSUMED'') sample_approved))"

lemma sample_times: "parse_iso ''2026-10-01T10:00:00Z'' = Inr 63926445600"
  "parse_iso ''2026-10-01T10:05:00Z'' = Inr 63926445900"
  "parse_iso ''2026-10-01T10:06:00Z'' = Inr 63926445960"
  "parse_iso ''2026-10-01T10:15:00Z'' = Inr 63926446500"
  "parse_iso ''2026-10-01T10:20:00Z'' = Inr 63926446800"
  "format_iso 63926445600 = ''2026-10-01T10:00:00Z''"
  "format_iso 63926446500 = ''2026-10-01T10:15:00Z''"
  "checked 63926446500 = Inr 63926446500"
  by code_simp+

lemma sample_valid:
  "validate_approval sample_env sample_request sample_decision = Inr ()"
  "validate_approval sample_env sample_approved sample_decision = Inr ()"
  "validate_approval sample_env sample_consumed sample_decision = Inr ()"
  by code_simp+

lemma sample_parts:
  "jget (jget sample_decision ''decision'') ''permission_decision'' = JStr ''APPROVAL_REQUIRED''"
  "jget (jget sample_decision ''approval'') ''approval_id'' = JStr ''approval_1''"
  "bindR (jindex sample_decision ''fingerprint_payload'') (\<lambda>p. jindex p ''permission_scope'') =
     Inr (JStr ''RUNTIME_GOVERNANCE'')"
  "approval_ttl_minutes sample_env (JStr ''RUNTIME_GOVERNANCE'') = Inr 15"
  "bindR (bindR (jindex sample_decision ''lifecycle'') (\<lambda>l. jindex l ''expires_at'')) parse_iso_json =
     Inr 63926446800"
  "permission_ref sample_decision = Inr ''in_memory:permdec_1''"
  "list_all (has_key sample_decision) request_required_keys"
  "startswith ''approval_1'' ''approval_''"
  by code_simp+

lemma sample_ask:
  "build_approval_request sample_env sample_decision ''2026-10-01T10:00:00Z'' None = Inr sample_request"
  unfolding build_approval_request_def
  by (simp add: sample_parts sample_times sample_valid flip: sample_request_def)

lemma sample_answer:
  "record_decision sample_env sample_request sample_decision True thomas_on_telegram ''the drill''
     ''2026-10-01T10:05:00Z'' = Inr sample_approved"
proof -
  have "require_pending sample_request = Inr ()" "is_expired sample_request ''2026-10-01T10:05:00Z'' = Inr False"
    "jindex sample_request ''approval_id'' = Inr (JStr ''approval_1'')" "py_str (JStr ''approval_1'') = ''approval_1''"
    "strip ''the drill'' \<noteq> []" "strip ''telegram:private_chat:registered-thomas:approval_1'' \<noteq> []"
    by code_simp+
  with sample_valid(2) show ?thesis
    unfolding record_decision_def
    by (simp add: sample_approved_def thomas_on_telegram_def)
qed

lemma sample_spend:
  "build_consumed_record sample_env sample_approved sample_decision ''2026-10-01T10:06:00Z''
     ''execution_stage:stage_1'' = Inr sample_consumed"
proof -
  have "jget sample_approved ''status'' = JStr ''APPROVED''"
    "jindex sample_approved ''approval_id'' = Inr (JStr ''approval_1'')" "py_str (JStr ''approval_1'') = ''approval_1''"
    "strip ''execution_stage:stage_1'' \<noteq> []"
    by code_simp+
  with sample_valid(3) show ?thesis
    unfolding build_consumed_record_def by (simp add: sample_consumed_def)
qed

text \<open>The ask, the answer and the spend, row by row.\<close>

definition asked_world :: approval_world where
  "asked_world = empty_store\<lparr>permission_rows := Log [sample_decision], approval_rows := Log [sample_request]\<rparr>"

definition approved_world :: approval_world where
  "approved_world = asked_world\<lparr>approval_rows := Log [sample_request, sample_approved]\<rparr>"

definition spent_world :: approval_world where
  "spent_world = asked_world\<lparr>approval_rows := Log [sample_request, sample_approved, sample_consumed]\<rparr>"

lemmas sample_world_defs = asked_world_def approved_world_def spent_world_def empty_store_def

lemma sample_keys [simp]:
  "approval_key sample_request = Some ''approval_1''" "approval_key sample_approved = Some ''approval_1''"
  "approval_key sample_consumed = Some ''approval_1''"
  "is_obj sample_request" "is_obj sample_approved" "is_obj sample_consumed" "is_obj sample_decision"
  "jget sample_request ''status'' = JStr ''PENDING''" "jget sample_approved ''status'' = JStr ''APPROVED''"
  "jget sample_consumed ''status'' = JStr ''CONSUMED''"
  by (simp_all add: sample_consumed_def sample_approved_def sample_request_def request_fields_def
      approval_key_def sample_decision_def)

lemma ask_step:
  "ask_approval sample_env sample_decision ''2026-10-01T10:00:00Z'' None empty_store =
   (Inr sample_request, asked_world)"
  by (simp add: ask_approval_def sample_ask append_permission_decision_def append_approvals_def
      sample_world_defs append_rows_def)

lemma get_sample [simp]:
  "get_approval asked_world ''approval_1'' = Inr (Some sample_request)"
  "get_approval approved_world ''approval_1'' = Inr (Some sample_approved)"
  "get_approval spent_world ''approval_1'' = Inr (Some sample_consumed)"
  by (simp_all add: get_approval_def current_approvals_def read_rows_def sample_world_defs latest_by_def
      latest_step_def)

lemma sample_appends:
  "append_approvals [sample_approved] asked_world = (Inr (), approved_world)"
  "append_approvals [sample_consumed] approved_world = (Inr (), spent_world)"
  "\<not> spend_lock_busy approved_world"
  by (simp_all add: append_approvals_def append_rows_def sample_world_defs)

lemma answer_step:
  "apply_approval_command sample_env ''approve'' (Some ''approval_1'') thomas_on_telegram
     (Some ''the drill'') ''2026-10-01T10:05:00Z'' asked_world asked_world =
   (Inr sample_approved, approved_world)"
proof -
  have "jindex sample_request ''permission_decision_id'' = Inr (JStr ''permdec_1'')"
    "get_permission_decision asked_world (JStr ''permdec_1'') = Inr (Some sample_decision)"
    "is_expired sample_request ''2026-10-01T10:05:00Z'' = Inr False"
    by code_simp+
  then show ?thesis
    by (simp add: apply_approval_command_def approval_commands_def sample_answer sample_appends)
qed

lemma spend_step:
  "spend_approval sample_env approved_world ''approval_1'' sample_decision ''2026-10-01T10:06:00Z''
     ''execution_stage:stage_1'' = (Inr sample_consumed, spent_world)"
  by (simp add: spend_approval_def with_spend_lock_def sample_spend sample_appends)

lemma sample_run_approved: "approval_run sample_env empty_store approved_world"
proof -
  have "get_approval empty_store i = Inr None" for i
    by (simp add: get_approval_def current_approvals_def read_rows_def empty_store_def)
  from run_ask [OF run_start _ this ask_step] have "approval_run sample_env empty_store asked_world"
    by (simp add: empty_store_def)
  from run_answer [OF this _ answer_step] show ?thesis by simp
qed

lemma sample_run_spent: "approval_run sample_env empty_store spent_world"
  by (rule run_spend [OF sample_run_approved spend_step])

section \<open>Properties\<close>



text \<open>
  C31 Only Thomas decides: every row of a run that records a grant, a refusal or a spend carries
  Thomas as its approver, verified on the Telegram private control channel.
\<close>

theorem decided_only_by_thomas:
  assumes "approval_run env empty_store w" "r \<in> set (store_rows (approval_rows w))"
    and "jget r ''status'' \<in> {JStr ''APPROVED'', JStr ''REJECTED'', JStr ''CONSUMED''}"
  shows "jget (jget r ''approver'') ''approved_by'' = JStr required_approver \<and>
    jget (jget r ''approver'') ''verification_status'' = JStr ''VERIFIED'' \<and>
    jget (jget r ''approver'') ''identity_verification_method'' = JStr telegram_verification_method"
proof -
  have "verified_thomas r"
    using run_keeps_store [OF assms(1) store_ok_empty] assms(2,3)
    unfolding store_ok_def approval_status_def by blast
  then show ?thesis by (simp add: verified_thomas_def)
qed

theorem decided_only_by_thomas_witness:
  "jget (jget sample_consumed ''approver'') ''approved_by'' = JStr required_approver \<and>
    jget (jget sample_consumed ''approver'') ''verification_status'' = JStr ''VERIFIED'' \<and>
    jget (jget sample_consumed ''approver'') ''identity_verification_method'' =
      JStr telegram_verification_method"
  by (rule decided_only_by_thomas [OF sample_run_spent])
     (simp_all add: sample_world_defs store_rows_def)

text \<open>
  A spent grant stays spent: once a spend has succeeded, whatever asks, answers and spends
  follow, a second spend of the same approval is refused with ALREADY_CONSUMED (or because the
  spend lock could not be had) and writes nothing.
\<close>

theorem spent_grant_stays_spent:
  assumes "approval_run env empty_store w" "spend_approval env w i d at ref = (Inr r, w1)"
    and "approval_run env w1 w2"
  shows "spend_approval env w2 i d' at' ref' =
    (Inl (Refused (if spend_lock_busy w2 then ''APPROVAL_WRITE_FAILED'' else ''ALREADY_CONSUMED'')), w2)"
  by (rule second_spend_refused [OF run_keeps_store [OF assms(1) store_ok_empty] assms(2,3)])

theorem spent_grant_stays_spent_witness:
  "spend_approval sample_env spent_world ''approval_1'' sample_decision
      ''2026-10-01T10:07:00Z'' ''execution_stage:stage_2'' =
    (Inl (Refused (if spend_lock_busy spent_world then ''APPROVAL_WRITE_FAILED''
       else ''ALREADY_CONSUMED'')), spent_world)"
  by (rule spent_grant_stays_spent [OF sample_run_approved spend_step run_start])

text \<open>
  What an ask binds: the PENDING record's fingerprint is that of the snapshot it carries, the
  snapshot is the permission decision's payload, the decision is one that requires approval,
  and the ask lives no longer than the policy's maximum for its scope or than the decision.
\<close>

theorem request_binds_action:
  assumes "build_approval_request env d now ttl = Inr r" "\<not> has_key d ''__load_error__''"
  shows "(\<exists>fp. compute_action_fingerprint (env_H env) (jget r ''approved_action_snapshot'') = Inr fp \<and>
      jget r ''action_fingerprint'' = JStr fp) \<and>
    py_eq (jget r ''approved_action_snapshot'') (jget d ''fingerprint_payload'') \<and>
    jget (jget d ''decision'') ''permission_decision'' = JStr ''APPROVAL_REQUIRED'' \<and>
    jget r ''status'' = JStr ''PENDING'' \<and>
    (\<exists>issued expires m e. parse_iso now = Inr issued \<and> issued < expires \<and>
       jget (jget r ''validity'') ''expires_at'' = JStr (format_iso expires) \<and>
       approval_ttl_minutes env (jget (jget d ''fingerprint_payload'') ''permission_scope'') = Inr m \<and>
       expires \<le> issued + 60 * m \<and>
       parse_iso_json (jget (jget d ''lifecycle'') ''expires_at'') = Inr e \<and> expires \<le> e)"
proof -
  from build_request_row [OF assms(1)] obtain i issued expires ref m e where
    r: "r = request_fields d i ref (format_iso issued) (format_iso expires)"
    and v: "validate_approval env r d = Inr ()" "permission_ref d = Inr ref"
    and t: "parse_iso now = Inr issued" "issued < expires"
    "approval_ttl_minutes env (jget (jget d ''fingerprint_payload'') ''permission_scope'') = Inr m"
    "expires \<le> issued + 60 * m"
    "parse_iso_json (jget (jget d ''lifecycle'') ''expires_at'') = Inr e" "expires \<le> e"
    by blast
  have f: "\<not> has_key r ''__load_error__''" "jget r ''permission_decision_ref'' = JStr ref"
    "jget r ''status'' = JStr ''PENDING''"
    "jget (jget r ''validity'') ''expires_at'' = JStr (format_iso expires)"
    by (simp_all add: r request_fields_def)
  note b = validated_binding [OF v(1) f(1) v(2) f(2) assms(2)]
  from b(1) b(2) have "\<exists>fp. compute_action_fingerprint (env_H env)
      (jget r ''approved_action_snapshot'') = Inr fp \<and> jget r ''action_fingerprint'' = JStr fp"
    by blast
  with b(3,4) f t show ?thesis by blast
qed

theorem request_binds_action_witness:
  "(\<exists>fp. compute_action_fingerprint (env_H sample_env) (jget sample_request ''approved_action_snapshot'') =
       Inr fp \<and> jget sample_request ''action_fingerprint'' = JStr fp) \<and>
    py_eq (jget sample_request ''approved_action_snapshot'') (jget sample_decision ''fingerprint_payload'') \<and>
    jget (jget sample_decision ''decision'') ''permission_decision'' = JStr ''APPROVAL_REQUIRED'' \<and>
    jget sample_request ''status'' = JStr ''PENDING'' \<and>
    (\<exists>issued expires m e. parse_iso ''2026-10-01T10:00:00Z'' = Inr issued \<and> issued < expires \<and>
       jget (jget sample_request ''validity'') ''expires_at'' = JStr (format_iso expires) \<and>
       approval_ttl_minutes sample_env
         (jget (jget sample_decision ''fingerprint_payload'') ''permission_scope'') = Inr m \<and>
       expires \<le> issued + 60 * m \<and>
       parse_iso_json (jget (jget sample_decision ''lifecycle'') ''expires_at'') = Inr e \<and> expires \<le> e)"
  by (rule request_binds_action [OF sample_ask]) (simp add: sample_decision_def)

text \<open>
  When a grant may be spent: the ladder passes exactly for the id's latest row when the runtime
  may execute, the row is APPROVED and unexpired, its permission decision is on record, its
  snapshot still has the recorded fingerprint, and the scope is the one the door spends.
\<close>

theorem spendable_iff:
  "validate_spendable_approval H w i now control scope = Inr (a, d, snapshot) \<longleftrightarrow>
   execution_allowed control \<and> get_approval w i = Inr (Some a) \<and> jget a ''status'' = JStr ''APPROVED'' \<and>
   is_expired a now = Inr False \<and>
   (\<exists>pid. jindex a ''permission_decision_id'' = Inr pid \<and>
      get_permission_decision w pid = Inr (Some d)) \<and>
   jindex a ''approved_action_snapshot'' = Inr snapshot \<and>
   (\<exists>fp. compute_action_fingerprint H snapshot = Inr fp \<and> jget a ''action_fingerprint'' = JStr fp) \<and>
   jget snapshot ''permission_scope'' = JStr scope"
  (is "_ = Inr _ \<longleftrightarrow> ?spendable")
proof
  assume "validate_spendable_approval H w i now control scope = Inr (a, d, snapshot)"
  then show ?spendable
    by (auto simp: validate_spendable_approval_def bindR_Inr_iff)
next
  assume ?spendable
  then show "validate_spendable_approval H w i now control scope = Inr (a, d, snapshot)"
    by (auto simp: validate_spendable_approval_def)
qed

text \<open>
  An answer that lands: it was given to the named ask while that was PENDING and unexpired, by
  Thomas on the verified channel; the row appended is that ask with the verdict of the verb, and
  its action snapshot is untouched.
\<close>

theorem answer_lands_on_a_live_ask:
  assumes "apply_approval_command env verb i v reason now seen w = (Inr r, w')"
  shows "\<exists>k p. i = Some k \<and> get_approval seen k = Inr (Some p) \<and> jget p ''status'' = JStr ''PENDING'' \<and>
    is_expired p now = Inr False \<and> ver_approved_by v = required_approver \<and>
    ver_method v = telegram_verification_method \<and>
    jget r ''status'' = JStr (if verb = ''approve'' then ''APPROVED'' else ''REJECTED'') \<and>
    jget r ''approved_action_snapshot'' = jget p ''approved_action_snapshot'' \<and>
    jget r ''action_fingerprint'' = jget p ''action_fingerprint'' \<and>
    w' = w\<lparr>approval_rows := append_rows [r] (approval_rows w)\<rparr>"
proof -
  from assms obtain k where k: "i = Some k"
    by (cases i) (auto simp: apply_approval_command_def split: if_splits)
  from assms k obtain p d why where
    get: "get_approval seen k = Inr (Some p)"
    and rec: "record_decision env p d (verb = ''approve'') v why now = Inr r"
    and w': "append_approvals [r] w = (Inr (), w')"
    by (auto simp: apply_approval_command_def Let_def
        split: if_splits sum.splits option.splits bool.splits prod.splits)
  from rec have "jget p ''status'' = JStr ''PENDING''" "is_expired p now = Inr False"
    "ver_approved_by v = required_approver" "ver_method v = telegram_verification_method"
    "jget r ''status'' = JStr (if verb = ''approve'' then ''APPROVED'' else ''REJECTED'')"
    "jget r ''approved_action_snapshot'' = jget p ''approved_action_snapshot''"
    "jget r ''action_fingerprint'' = jget p ''action_fingerprint''"
    by (auto simp: record_decision_def require_pending_def bindR_Inr_iff Let_def)
  with k get w' append_approvals_cases [of r w "Inr ()" w'] show ?thesis by auto
qed

theorem answer_lands_on_a_live_ask_witness:
  "\<exists>k p. Some ''approval_1'' = Some k \<and> get_approval asked_world k = Inr (Some p) \<and>
    jget p ''status'' = JStr ''PENDING'' \<and> is_expired p ''2026-10-01T10:05:00Z'' = Inr False \<and>
    ver_approved_by thomas_on_telegram = required_approver \<and>
    ver_method thomas_on_telegram = telegram_verification_method \<and>
    jget sample_approved ''status'' = JStr (if ''approve'' = ''approve'' then ''APPROVED'' else ''REJECTED'') \<and>
    jget sample_approved ''approved_action_snapshot'' = jget p ''approved_action_snapshot'' \<and>
    jget sample_approved ''action_fingerprint'' = jget p ''action_fingerprint'' \<and>
    approved_world = asked_world\<lparr>approval_rows := append_rows [sample_approved] (approval_rows asked_world)\<rparr>"
  by (rule answer_lands_on_a_live_ask [OF answer_step])

end
