(* ===== verification/Stage_Facts.thy ===== *)
theory Stage_Facts
  imports Stage_Chain Approval_Safety
begin

text \<open>
  Lemmas on the execution stage: what a valid status rests on, what the anchor pins, what a
  plan and a written record carry.  The properties over them are in \<open>Stage_Safety\<close>.
\<close>

section \<open>The verified read behind a stage\<close>

lemma from_record_stage: "ss_stage (from_record r v why) \<noteq> ''READ_ONLY'' \<Longrightarrow>
    v \<and> jget r ''stage'' = JStr (ss_stage (from_record r v why)) \<and>
    ss_stage (from_record r v why) \<in> set ladder"
  by (auto simp: from_record_def Let_def ladder_stage_def split: option.splits json.splits if_splits)

lemma bare_status_simps [simp]: "ss_stage (bare_status c p) = ''READ_ONLY''"
  "\<not> ss_valid (bare_status c p)" "ss_anchor_behind (bare_status c p) = False"
  by (simp_all add: bare_status_def)

lemma read_only_status_simps [simp]: "ss_stage (read_only_status c r p) = ''READ_ONLY''"
  "\<not> ss_valid (read_only_status c r p)" "\<not> ss_anchor_behind (read_only_status c r p)"
  by (auto simp: read_only_status_def from_record_def Let_def split: option.splits)

lemma read_only_status_neq [simp]:
  "read_only_status c r p \<noteq> (from_record x True None)\<lparr>ss_anchor_behind := b\<rparr>"
proof
  assume "read_only_status c r p = (from_record x True None)\<lparr>ss_anchor_behind := b\<rparr>"
  then have "ss_valid (read_only_status c r p) = ss_valid ((from_record x True None)\<lparr>ss_anchor_behind := b\<rparr>)"
    by (rule arg_cong)
  then show False by (simp add: from_record_def Let_def)
qed

definition vouched :: "stage_env \<Rightarrow> stage_world \<Rightarrow> json list \<Rightarrow> json \<Rightarrow> bool" where
  "vouched env w rows anchor = (read_ledger env w = Inr rows \<and> rows \<noteq> [] \<and>
     read_anchor env w = Inr (Some anchor) \<and> anchor_problem rows (Some anchor) = Inr None)"

definition tip_status :: "json list \<Rightarrow> json \<Rightarrow> stage_status" where
  "tip_status rows anchor = (from_record (jget (last rows) ''record'') True None)
     \<lparr>ss_anchor_behind := num_of (jget (last rows) ''seq'') \<noteq> num_of (jget anchor ''seq'')\<rparr>"

lemma anchor_problem_seqs:
  assumes "anchor_problem rows (Some a) = Inr p"
  shows "\<exists>t n. jindex (last rows) ''seq'' = Inr (jget (last rows) ''seq'') \<and>
     num_of (jget (last rows) ''seq'') = Inr t \<and> jindex a ''seq'' = Inr (jget a ''seq'') \<and>
     num_of (jget a ''seq'') = Inr n"
  using assms by (auto simp: anchor_problem_def bindR_Inr_iff jindex_Inr_iff)

lemma resolve_core_valid:
  assumes "resolve_core env aw now w = Inr st" "ss_valid st"
  shows "\<exists>rows anchor. vouched env w rows anchor \<and> has_key (last rows) ''record'' \<and>
     record_defect env aw now (jget (last rows) ''record'') = Inr None \<and> st = tip_status rows anchor"
proof -
  from assms obtain rows where rows: "read_ledger env w = Inr rows" "rows \<noteq> []"
    by (auto simp: resolve_core_def split: sum.splits exn.splits if_splits)
  from assms(1) rows obtain r where r: "jindex (last rows) ''record'' = Inr r"
    by (auto simp: resolve_core_def bindR_Inr_iff)
  have "\<exists>anchor. read_anchor env w = Inr anchor"
  proof (cases "read_anchor env w")
    case (Inl e)
    with assms rows r show ?thesis by (cases e) (auto simp: resolve_core_def)
  qed simp
  then obtain anchor where a: "read_anchor env w = Inr anchor" by blast
  from assms(1) rows r a obtain q where q: "anchor_problem rows anchor = Inr q"
    by (auto simp: resolve_core_def bindR_Inr_iff)
  with assms rows r a have p: "anchor_problem rows anchor = Inr None"
    by (cases q) (auto simp: resolve_core_def)
  then obtain anc where anc: "anchor = Some anc" by (cases anchor) (auto simp: anchor_problem_def)
  from assms(1) rows r a p anc anchor_problem_seqs [OF p [unfolded anc]] obtain d where
    d: "record_defect env aw now r = Inr d"
    by (auto simp: resolve_core_def bindR_Inr_iff)
  with assms rows r a p anc anchor_problem_seqs [OF p [unfolded anc]]
  have "record_defect env aw now r = Inr None \<and> st = tip_status rows anc"
    by (cases d) (auto simp: resolve_core_def bindR_Inr_iff jindex_Inr_iff tip_status_def)
  with rows r a p anc show ?thesis by (auto simp: vouched_def jindex_Inr_iff)
qed

lemma resolve_core_valid_conv:
  assumes "vouched env w rows anchor" "has_key (last rows) ''record''"
    and "record_defect env aw now (jget (last rows) ''record'') = Inr None"
  shows "resolve_core env aw now w = Inr (tip_status rows anchor)"
  using assms anchor_problem_seqs [of rows anchor None]
  by (auto simp: resolve_core_def vouched_def jindex_def tip_status_def has_key_def jget_def items_def
      split: option.splits json.splits)

lemma resolve_valid:
  assumes "ss_valid (resolve_stage env aw now w)"
  shows "\<exists>rows anchor. vouched env w rows anchor \<and> has_key (last rows) ''record'' \<and>
     record_defect env aw now (jget (last rows) ''record'') = Inr None \<and>
     resolve_stage env aw now w = tip_status rows anchor"
  using assms resolve_core_valid [of env aw now w "resolve_stage env aw now w"]
  by (auto simp: resolve_stage_def split: sum.splits)

lemma resolve_valid_conv:
  assumes "vouched env w rows anchor" "has_key (last rows) ''record''"
    and "record_defect env aw now (jget (last rows) ''record'') = Inr None"
  shows "resolve_stage env aw now w = tip_status rows anchor"
  using resolve_core_valid_conv [OF assms] by (simp add: resolve_stage_def)

lemma tip_status_simps [simp]:
  "ss_stage (tip_status rows a) = ss_stage (from_record (jget (last rows) ''record'') True None)"
  "ss_valid (tip_status rows a)"
  by (simp_all add: tip_status_def from_record_def Let_def)

lemma resolve_core_invalid_stage:
  assumes st: "resolve_core env aw now w = Inr st" and nv: "\<not> ss_valid st"
  shows "ss_stage st = ''READ_ONLY''"
proof (cases "read_ledger env w")
  case (Inl e)
  with st show ?thesis by (cases e) (auto simp: resolve_core_def)
next
  case (Inr rows)
  show ?thesis
  proof (cases "rows = []")
    case True
    with Inr st show ?thesis by (auto simp: resolve_core_def split: if_splits)
  next
    case False
    with Inr st obtain r where r: "jindex (last rows) ''record'' = Inr r"
      by (auto simp: resolve_core_def bindR_Inr_iff)
    show ?thesis
    proof (cases "read_anchor env w")
      case (Inl e)
      with \<open>read_ledger env w = Inr rows\<close> False r st show ?thesis by (cases e) (auto simp: resolve_core_def)
    next
      case (Inr a)
      with \<open>read_ledger env w = Inr rows\<close> False r st nv show ?thesis
        by (auto simp: resolve_core_def bindR_Inr_iff from_record_def Let_def split: option.split_asm)
    qed
  qed
qed

lemma resolve_above_valid:
  assumes "ss_stage (resolve_stage env aw now w) \<noteq> ''READ_ONLY''"
  shows "ss_valid (resolve_stage env aw now w)"
  using assms resolve_core_invalid_stage [of env aw now w "resolve_stage env aw now w"]
  by (auto simp: resolve_stage_def split: sum.splits)

section \<open>What a binding record stands on\<close>

lemma witness_reason_None:
  assumes "witness_reason H aw r = Inr None"
    and "\<not> (jget r ''transition'' = JStr ''DEMOTE'' \<and> jget r ''stage'' = JStr ''READ_ONLY'')"
  shows "\<exists>a content. get_approval aw (py_str (jget r ''approval_id'')) = Inr (Some a) \<and> spent_for r a \<and>
     snapshot_content H r (jget a ''approved_action_snapshot'') = Inr (Some content) \<and>
     (if jget r ''transition'' = JStr ''DEMOTE'' then descends_from r content = Inr True
      else content_matches r content a)"
  using assms
  by (auto simp: witness_reason_def Let_def bindR_Inr_iff split: if_splits sum.splits option.splits)

lemma record_defect_None:
  assumes "record_defect env aw now r = Inr None"
  shows "jget r ''venue'' = JStr supported_venue" "transition_consistent r"
    "\<exists>t. jget r ''effective_from'' = JStr t \<and> \<not> now < t" "witness_reason (se_H env) aw r = Inr None"
    "jget r ''stage'' \<noteq> JStr ''READ_ONLY'' \<Longrightarrow> policy_defect env r = Inr None"
  using assms
  by (auto simp: record_defect_def bindR_Inr_iff jindex_Inr_iff split: if_splits json.splits option.splits)

lemma policy_defect_None:
  assumes "policy_defect env r = Inr None"
  shows "\<exists>v s. safety_identity (se_H env) (se_policy env) = Inr (Some (v, s)) \<and>
     jget r ''policy_version'' = JStr v \<and> jget r ''policy_safety_sha256'' = JStr s"
  using assms
  by (auto simp: policy_defect_def bindR_Inr_iff jindex_Inr_iff split: option.splits if_splits prod.splits)

section \<open>What the anchor pins\<close>

lemma py_nth_json_num:
  "py_nth_json xs j = Inr x \<Longrightarrow> num_of j = Inr n \<Longrightarrow> py_nth xs n = Inr x"
  by (auto simp: py_nth_json_def num_of_def split: json.splits)

lemma vouched_tip_seq:
  assumes "vouched env w rows anchor"
  shows "num_of (jget (last rows) ''seq'') = Inr (int (length rows) - 1)"
proof -
  from assms have "chain_fits env 0 JNull None [] rows" "rows \<noteq> []"
    by (auto simp: vouched_def read_ledger_iff)
  with linked_nth_seq [OF chain_fits_linked, of env 0 JNull None "[]" rows "length rows - 1"]
  have "py_int_eq (jget (last rows) ''seq'') (int (length rows) - 1)"
    by (simp add: last_conv_nth of_nat_diff Suc_le_eq)
  then show ?thesis by (rule num_of_py_int_eq)
qed

lemma vouched_anchor_seq:
  assumes "vouched env w rows anchor"
  shows "\<exists>n. num_of (jget anchor ''seq'') = Inr n \<and> int (length rows) - 2 \<le> n \<and> n < int (length rows) \<and>
     (\<exists>row. py_nth rows n = Inr row \<and> py_eq (jget row ''row_sha256'') (jget anchor ''row_sha256''))"
  using assms vouched_tip_seq [OF assms]
  by (auto simp: vouched_def anchor_problem_def bindR_Inr_iff jindex_Inr_iff py_nth_json_num
      split: if_splits)

lemma read_anchor_cong: "stage_anchor w' = stage_anchor w \<Longrightarrow> read_anchor env w' = read_anchor env w"
  by (simp add: read_anchor_def)

lemma read_ledger_cong: "stage_ledger w' = stage_ledger w \<Longrightarrow> read_ledger env w' = read_ledger env w"
  by (simp add: read_ledger_def)

lemma vouched_cong:
  "stage_anchor w' = stage_anchor w \<Longrightarrow> stage_ledger w' = stage_ledger w \<Longrightarrow>
   vouched env w' rows a = vouched env w rows a"
  by (simp add: vouched_def read_anchor_cong [of w' w] read_ledger_cong [of w' w])

lemma vouched_rows: "vouched env w rows a \<Longrightarrow> stage_ledger w = Log rows"
  by (auto simp: vouched_def read_ledger_iff)

lemma in_sync_seq:
  assumes "vouched env w rows a" "\<not> ss_anchor_behind (tip_status rows a)"
  shows "num_of (jget a ''seq'') = Inr (int (length rows) - 1)"
    "jget a ''row_sha256'' = tip_hash ''row_sha256'' JNull rows"
proof -
  from assms vouched_tip_seq [OF assms(1)] show n: "num_of (jget a ''seq'') = Inr (int (length rows) - 1)"
    by (simp add: tip_status_def)
  have ne: "rows \<noteq> []" using assms(1) by (simp add: vouched_def)
  have "nat (int (length rows) - 1) = length rows - Suc 0" by arith
  with ne vouched_anchor_seq [OF assms(1)] n
  have "py_eq (jget (last rows) ''row_sha256'') (jget a ''row_sha256'')"
    by (auto simp: py_nth_def Let_def last_conv_nth split: if_splits)
  moreover from assms(1) have "chain_fits env 0 JNull None [] rows"
    by (auto simp: vouched_def read_ledger_iff)
  with ne have "\<exists>h. jget (last rows) ''row_sha256'' = JStr h"
    by (cases rows rule: rev_cases) (auto simp: chain_fits_snoc row_fits_def)
  ultimately show "jget a ''row_sha256'' = tip_hash ''row_sha256'' JNull rows"
    using ne by (auto simp: tip_hash_def)
qed

lemma anchor_outlives_short_ledger:
  assumes "vouched env w rows a" "\<not> ss_anchor_behind (tip_status rows a)"
    and "stage_anchor w' = stage_anchor w" "vouched env w' rows' a'"
  shows "length rows \<le> length rows'"
proof -
  from assms have "a' = a" by (simp add: vouched_def read_anchor_cong [of w' w])
  with vouched_anchor_seq [OF assms(4)] in_sync_seq(1) [OF assms(1,2)] show ?thesis by auto
qed

section \<open>What may be planned\<close>

lemma stage_rank_Inr: "stage_rank s = Inr n \<longleftrightarrow> index_of s ladder = Some n"
  by (simp add: stage_rank_def split: option.splits)

lemma choose_transition_cases:
  assumes "choose_transition st target attestation = Inr (tk, from, replaced)"
  shows "if stage_binding st
    then tk = ''CLIMB'' \<and> from = ss_recorded st \<and> replaced = [] \<and> target \<noteq> ''LIVE_SCALED'' \<and>
      (\<exists>s r. ss_recorded st = Some s \<and> stage_rank s = Inr r \<and> stage_rank target = Inr (r + 1))
    else tk = ''REBIND'' \<and> rebindable st \<and> ss_recorded st = Some target \<and> from = Some target \<or>
      tk = ''BOOTSTRAP'' \<and> target \<in> set bootstrap_stages \<and> from = None \<and> stated attestation"
  using assms
  by (auto simp: choose_transition_def Let_def bindR_Inr_iff split: if_split_asm option.split_asm)

lemma plan_transition_content:
  assumes "plan_transition env cycles st a = Inr content"
  shows "\<exists>tk from replaced cycle ref version safety.
    ask_target a \<in> set ladder \<and> \<not> ss_anchor_behind st \<and>
    choose_transition st (ask_target a) (ask_attestation a) = Inr (tk, from, replaced) \<and>
    (if ask_target a = ''LIVE_AUTONOMOUS''
     then live_entry_evidence (se_H env) cycles (ask_cycle a) = Inr cycle else cycle = []) \<and>
    safety_identity (se_H env) (se_policy env) = Inr (Some (version, safety)) \<and>
    stage_ref (se_H env) st = Inr ref \<and>
    content = JObj [(''venue'', JStr supported_venue), (''transition'', JStr tk),
       (''from_stage'', opt_or_none_stage from), (''to_stage'', JStr (ask_target a)),
       (''stage_ref'', JStr ref), (''policy_version'', JStr version),
       (''policy_safety_sha256'', JStr safety),
       (''registered_by'', JStr (strip (text_of (ask_registered_by a)))),
       (''reason'', JStr (take 600 (strip (text_of (ask_reason a))))),
       (''evidence'', JObj (replaced @ cycle @
          (if stated (ask_attestation a)
           then [(''attestation'', JStr (take 2000 (strip (text_of (ask_attestation a)))))] else [])))]"
  using assms
  by (auto simp: plan_transition_def bindR_Inr_iff split: if_split_asm)

lemma record_from_approved_Inr:
  assumes "record_from_approved env cycles content st i fp now = Inr r"
  shows "\<exists>replanned ref version safety sid a.
    stage_ref (se_H env) st = Inr ref \<and> jget content ''stage_ref'' = JStr ref \<and>
    safety_identity (se_H env) (se_policy env) = Inr (Some (version, safety)) \<and>
    jget content ''policy_version'' = JStr version \<and> jget content ''policy_safety_sha256'' = JStr safety \<and>
    ask_target a = py_str (jget content ''to_stage'') \<and> ask_cycle a = evidence_of content ''testnet_cycle_id'' \<and>
    ask_attestation a = evidence_of content ''attestation'' \<and>
    plan_transition env cycles st a = Inr replanned \<and> py_eq replanned content \<and>
    stage_id_for (se_H env) content = Inr sid \<and> finish_record env (approved_body content sid i fp now) = Inr r"
  using assms
  by (auto simp: record_from_approved_def bindR_Inr_iff same_identity_def split: option.split_asm prod.split_asm)
     (metis stage_ask.select_convs)

end
