(* ===== verification/Stage_Sample.thy ===== *)
theory Stage_Sample
  imports Stage_Facts
begin

text \<open>
  One machine, step by step: Thomas approves a BOOTSTRAP to PAPER, the operator confirms it, and
  the ledger, the anchor and the spent approval stand as the code leaves them.  Every hash is the
  same string here, so the concrete values stay readable.
\<close>

definition sample_stage_env :: stage_env where
  "sample_stage_env = \<lparr>se_H = (\<lambda>_. ''h''), se_record_ok = is_obj, se_row_ok = is_obj,
     se_anchor_ok = is_obj, se_policy = Some (JObj [(''policy_version'', JStr ''1.0'')])\<rparr>"

definition empty_stage :: stage_world where
  "empty_stage = \<lparr>stage_ledger = No_Log, stage_anchor = No_File, stage_mirror = No_File,
     replaced_ledgers = [], rename_fails = False, ledger_write_fails = False,
     anchor_write_fails = False, mirror_write_fails = False\<rparr>"

definition bootstrap_ask :: stage_ask where
  "bootstrap_ask = \<lparr>ask_target = ''PAPER'', ask_registered_by = JStr ''thomas'', ask_reason = JStr ''start'',
     ask_attestation = JStr ''paper ledger'', ask_cycle = JNull\<rparr>"

definition paper_content :: json where
  "paper_content = JObj [(''venue'', JStr ''binance_futures''), (''transition'', JStr ''BOOTSTRAP''),
     (''from_stage'', JStr ''NONE''), (''to_stage'', JStr ''PAPER''), (''stage_ref'', JStr ''stageref_h''),
     (''policy_version'', JStr ''1.0''), (''policy_safety_sha256'', JStr ''sha256:h''),
     (''registered_by'', JStr ''thomas''), (''reason'', JStr ''start''),
     (''evidence'', JObj [(''attestation'', JStr ''paper ledger'')])]"

definition grant_decision :: json where
  "grant_decision = JObj
     [(''permission_decision_id'', JStr ''permdec_1''), (''trace_id'', JStr ''trace_1''),
      (''task_id'', JStr ''task_1''), (''task_revision'', JInt 1),
      (''core_context_binding_id'', JStr ''ccb-1''), (''operating_policy'', policy_binding),
      (''action_fingerprint'', JStr ''sha256:h''),
      (''fingerprint_payload'', JObj [(''schema_version'', JStr fingerprint_schema_version),
         (''permission_scope'', JStr ''RUNTIME_GOVERNANCE''), (''data_scope'', JArr []),
         (''amount_decimal'', JNull), (''currency'', JNull), (''task_id'', JStr ''task_1''),
         (''task_revision'', JInt 1), (''core_context_binding_id'', JStr ''ccb-1''),
         (''target_ref'', JStr ''execution_stage:binance_futures:PAPER''),
         (''normalized_parameters'', paper_content)]),
      (''lifecycle'', JObj [(''expires_at'', JStr ''2026-10-01T10:20:00Z'')]),
      (''decision'', JObj [(''permission_decision'', JStr ''APPROVAL_REQUIRED'')]),
      (''approval'', JObj [(''approval_id'', JStr ''approval_1'')])]"

definition grant_request :: json where
  "grant_request = request_fields grant_decision ''approval_1'' ''in_memory:permdec_1''
     ''2026-10-01T10:00:00Z'' ''2026-10-01T10:15:00Z''"

definition grant_approved :: json where
  "grant_approved =
     jset ''audit_refs'' (with_audit_ref ''audit:approval_decision:approval_1'' grant_request)
     (jset ''decision'' (JObj [(''decision_reason'', JStr ''the drill''),
        (''decided_at'', JStr ''2026-10-01T10:05:00Z'')])
     (jset ''approver'' (JObj [(''required_approver'', JStr required_approver),
        (''approved_by'', JStr required_approver), (''verification_status'', JStr ''VERIFIED''),
        (''identity_verification_method'', JStr telegram_verification_method),
        (''verification_ref'', of_opt (ver_ref thomas_on_telegram))])
     (jset ''status'' (JStr ''APPROVED'') grant_request)))"

definition grant_consumed :: json where
  "grant_consumed =
     jset ''audit_refs'' (with_audit_ref ''audit:approval_consumption:approval_1'' grant_approved)
     (jset ''consumption'' (JObj [(''one_time_use'', JBool True),
        (''consumption_status'', JStr ''CONSUMED''), (''previewed_at'', JNull), (''preview_ref'', JNull),
        (''consumed_at'', JStr ''2026-10-01T10:06:00Z''),
        (''consumption_ref'', JStr ''execution_stage:stage_h'')])
     (jset ''status'' (JStr ''CONSUMED'') grant_approved))"

definition granted_store :: approval_world where
  "granted_store = empty_store\<lparr>permission_rows := Log [grant_decision],
     approval_rows := Log [grant_request, grant_approved]\<rparr>"

definition spent_store :: approval_world where
  "spent_store = granted_store\<lparr>approval_rows := Log [grant_request, grant_approved, grant_consumed]\<rparr>"

definition paper_record :: json where
  "paper_record = jset ''record_sha256'' (JStr ''sha256:h'')
     (approved_body paper_content ''stage_h'' ''approval_1'' ''sha256:h'' ''2026-10-01T10:06:00Z'')"

definition paper_row :: json where
  "paper_row = jset ''row_sha256'' (JStr ''sha256:h'') (row_body [] paper_record)"

definition paper_anchor :: json where
  "paper_anchor = jset ''anchor_sha256'' (JStr ''sha256:h'') (JObj
     [(''schema_version'', JStr ''execution_stage_anchor.v0.1''), (''venue'', JStr supported_venue),
      (''seq'', JInt 0), (''row_sha256'', JStr ''sha256:h''), (''written_at'', JStr ''2026-10-01T10:06:00Z'')])"

definition paper_stage :: stage_world where
  "paper_stage = empty_stage\<lparr>stage_ledger := Log [paper_row], stage_anchor := Json_File paper_anchor,
     stage_mirror := Json_File paper_record\<rparr>"

lemma plan_paper:
  "resolve_stage sample_stage_env granted_store ''2026-10-01T10:06:00Z'' empty_stage =
     bare_status ''EXECUTION_STAGE_RECORD_MISSING'' False"
  "plan_transition sample_stage_env No_Log (bare_status ''EXECUTION_STAGE_RECORD_MISSING'' False)
     bootstrap_ask = Inr paper_content"
  by code_simp+

lemma paper_record_built:
  "record_from_approved sample_stage_env No_Log paper_content
     (bare_status ''EXECUTION_STAGE_RECORD_MISSING'' False) ''approval_1'' ''sha256:h''
     ''2026-10-01T10:06:00Z'' = Inr paper_record"
  by code_simp

lemma paper_append: "append_stage_record sample_stage_env paper_record empty_stage = (Inr [], paper_stage)"
  by code_simp

lemma paper_vouched: "vouched sample_stage_env paper_stage [paper_row] paper_anchor"
proof -
  have "read_ledger sample_stage_env paper_stage = Inr [paper_row]"
    "read_anchor sample_stage_env paper_stage = Inr (Some paper_anchor)"
    "anchor_problem [paper_row] (Some paper_anchor) = Inr None"
    by code_simp+
  then show ?thesis by (simp add: vouched_def)
qed

lemma grant_valid:
  "validate_approval sample_env grant_approved grant_decision = Inr ()"
  "validate_approval sample_env grant_consumed grant_decision = Inr ()"
  by code_simp+

end
