(* ===== verification/Stage_Runs.thy ===== *)
theory Stage_Runs
  imports Stage_Sample
begin

text \<open>
  The same machine at its door: the confirmation that reaches PAPER, the demotion to SHADOW that
  follows, and what the machine reads after each.
\<close>

definition door_before :: door_world where
  "door_before = \<lparr>dw_approvals = granted_store, dw_stage = empty_stage, dw_events = No_Log,
     dw_events_fail = False, dw_lock_busy = False, dw_foreign_root = False\<rparr>"

lemma paper_defect:
  "record_defect sample_stage_env spent_store ''2026-10-01T10:06:00Z'' paper_record = Inr None"
proof -
  have "jget paper_record ''venue'' = JStr supported_venue" "transition_consistent paper_record"
    "jindex paper_record ''effective_from'' = Inr (JStr ''2026-10-01T10:06:00Z'')"
    "witness_reason (se_H sample_stage_env) spent_store paper_record = Inr None"
    "jindex paper_record ''stage'' = Inr (JStr ''PAPER'')"
    "policy_defect sample_stage_env paper_record = Inr None"
    by code_simp+
  then show ?thesis by (simp add: record_defect_def)
qed

lemma paper_row_record [simp]: "jget paper_row ''record'' = paper_record" "has_key paper_row ''record''"
  by (simp_all add: paper_row_def row_body_def)

lemma paper_resolves:
  "resolve_stage sample_stage_env spent_store ''2026-10-01T10:06:00Z'' paper_stage =
     tip_status [paper_row] paper_anchor"
  by (rule resolve_valid_conv [OF paper_vouched]) (simp_all add: paper_defect)

lemma paper_status [simp]:
  "ss_stage (tip_status [paper_row] paper_anchor) = ''PAPER''"
  "\<not> ss_anchor_behind (tip_status [paper_row] paper_anchor)"
  by code_simp+

lemma confirm_parts:
  "stage_grant sample_stage_env active_default ''2026-10-01T10:06:00Z'' ''approval_1'' door_before =
     Inr (grant_approved, grant_decision, paper_content)"
  "stage_preflight sample_stage_env No_Log ''2026-10-01T10:06:00Z'' ''approval_1'' grant_approved paper_content
     door_before = Inr (bare_status ''EXECUTION_STAGE_RECORD_MISSING'' False, paper_record)"
  "build_consumed_record sample_env grant_approved grant_decision ''2026-10-01T10:06:00Z''
     ''execution_stage:stage_h'' = Inr grant_consumed"
  by code_simp+

lemma door_before_simps [simp]:
  "dw_approvals door_before = granted_store" "dw_stage door_before = empty_stage"
  "dw_events door_before = No_Log" "\<not> dw_events_fail door_before" "\<not> dw_lock_busy door_before"
  "\<not> dw_foreign_root door_before"
  by (simp_all add: door_before_def)

definition paper_event :: json where
  "paper_event = JObj
     [(''record_type'', JStr ''execution_stage_transition.v0''), (''stage_id'', JStr ''stage_h''),
      (''stage'', JStr ''PAPER''), (''previous_stage'', JNull), (''transition'', JStr ''BOOTSTRAP''),
      (''approval_id'', JStr ''approval_1''), (''registered_by'', JStr ''thomas''),
      (''reason'', JStr ''start''), (''record_sha256'', JStr ''sha256:h''),
      (''replaced_stage_id'', JNull), (''replaced_recorded_stage'', JNull),
      (''replaced_valid'', JBool False), (''replaced_reason_code'', JStr ''EXECUTION_STAGE_RECORD_MISSING''),
      (''created_at'', JStr ''2026-10-01T10:06:00Z''),
      (''integrity'', JObj [(''event_sha256'', JStr ''sha256:h'')])]"

definition door_after :: door_world where
  "door_after = door_before\<lparr>dw_approvals := spent_store, dw_stage := paper_stage,
     dw_events := Log [paper_event]\<rparr>"

lemma paper_event_built:
  "transition_event (se_H sample_stage_env) paper_record
     (bare_status ''EXECUTION_STAGE_RECORD_MISSING'' False) ''2026-10-01T10:06:00Z'' = Inr paper_event"
  by code_simp

lemma grant_latest: "get_approval granted_store ''approval_1'' = Inr (Some grant_approved)"
  "jget grant_approved ''status'' = JStr ''APPROVED''" "\<not> spend_lock_busy granted_store"
  "append_approvals [grant_consumed] granted_store = (Inr (), spent_store)"
  by code_simp+

lemma grant_spend:
  "spend_approval sample_env granted_store ''approval_1'' grant_decision ''2026-10-01T10:06:00Z''
     ''execution_stage:stage_h'' = (Inr grant_consumed, spent_store)"
  by (simp add: spend_approval_def with_spend_lock_def grant_latest confirm_parts)

lemma paper_ref: "consumption_ref (py_str (jget paper_record ''stage_id'')) = ''execution_stage:stage_h''"
  by code_simp

lemma confirm_step:
  "run_confirm sample_env sample_stage_env No_Log active_default ''2026-10-01T10:06:00Z'' ''approval_1''
     door_before door_before =
   (Inr (paper_record, tip_status [paper_row] paper_anchor, []), door_after)"
proof -
  have "spend_and_write sample_env sample_stage_env ''2026-10-01T10:06:00Z'' ''approval_1'' grant_decision
      paper_record door_before =
    (Inr [], door_before\<lparr>dw_approvals := spent_store, dw_stage := paper_stage\<rparr>)"
    by (simp add: spend_and_write_def on_approvals_def on_stage_def paper_ref grant_spend paper_append)
  then show ?thesis
    by (simp add: run_confirm_def confirm_parts stage_lock_guard_def paper_event_built ledger_event_def
        resolve_door_def paper_resolves door_after_def append_rows_def)
qed

section \<open>The demotion\<close>

definition shadow_record :: json where
  "shadow_record = jset ''record_sha256'' (JStr ''sha256:h'') (jset ''stage_id'' (JStr ''stage_h'')
     (demote_body ''SHADOW'' ''thomas'' ''step back'' ''2026-10-01T11:00:00Z'' (JObj [])
       [(''previous_stage'', JStr ''PAPER''), (''approval_id'', JStr ''approval_1''),
        (''action_fingerprint'', JStr ''sha256:h''), (''witness_stage_id'', JStr ''stage_h''),
        (''policy_version'', JStr ''1.0''), (''policy_safety_sha256'', JStr ''sha256:h'')]))"

lemma demote_step:
  "demote_record sample_stage_env (tip_status [paper_row] paper_anchor) ''SHADOW'' (JStr ''thomas'')
     (JStr ''step back'') ''2026-10-01T11:00:00Z'' = Inr shadow_record"
  by code_simp

definition shadow_row :: json where
  "shadow_row = jset ''row_sha256'' (JStr ''sha256:h'') (row_body [paper_row] shadow_record)"

definition shadow_anchor :: json where
  "shadow_anchor = jset ''anchor_sha256'' (JStr ''sha256:h'') (JObj
     [(''schema_version'', JStr ''execution_stage_anchor.v0.1''), (''venue'', JStr supported_venue),
      (''seq'', JInt 1), (''row_sha256'', JStr ''sha256:h''), (''written_at'', JStr ''2026-10-01T11:00:00Z'')])"

definition shadow_stage :: stage_world where
  "shadow_stage = paper_stage\<lparr>stage_ledger := Log [paper_row, shadow_row],
     stage_anchor := Json_File shadow_anchor, stage_mirror := Json_File shadow_record\<rparr>"

lemma shadow_append:
  "append_stage_record sample_stage_env shadow_record paper_stage = (Inr [], shadow_stage)"
  by code_simp

lemma shadow_vouched: "vouched sample_stage_env shadow_stage [paper_row, shadow_row] shadow_anchor"
proof -
  have "read_ledger sample_stage_env shadow_stage = Inr [paper_row, shadow_row]"
    "read_anchor sample_stage_env shadow_stage = Inr (Some shadow_anchor)"
    "anchor_problem [paper_row, shadow_row] (Some shadow_anchor) = Inr None"
    by code_simp+
  then show ?thesis by (simp add: vouched_def)
qed

end
