(* ===== verification/Stage_Safety.thy ===== *)
theory Stage_Safety
  imports Stage_Runs
begin

text \<open>
  What the execution stage promises: a stage above READ_ONLY stands on a verified chain, an
  anchor that vouches for it, a spent approval of Thomas and the running policy; no older or
  edited ledger can be put back under a newer anchor; a plan climbs one rung; a write that is
  cut short leaves the old stage or the new one.
\<close>

section \<open>What a binding stage stands on\<close>

lemma paper_record_stage [simp]: "ss_stage (from_record paper_record True None) = ''PAPER''"
  by code_simp

lemma snapshot_content_Some:
  assumes "snapshot_content H r snapshot = Inr (Some content)"
  shows "content = jget snapshot ''normalized_parameters''"
    "\<exists>fp. compute_action_fingerprint H snapshot = Inr fp \<and> jget r ''action_fingerprint'' = JStr fp"
    "jget snapshot ''permission_scope'' = JStr stage_scope"
    "jget snapshot ''target_ref'' = JStr (stage_target content)"
    "\<exists>i. stage_id_for H content = Inr i \<and> jget r ''witness_stage_id'' = JStr i"
    "ladder_stage (jget content ''to_stage'') \<noteq> None"
  using assms
  by (auto simp: snapshot_content_def Let_def bindR_Inr_iff split: if_split_asm sum.split_asm)

text \<open>
  C4 A stage above READ_ONLY is earned: whatever is on the disk, when the machine reads a stage above
  READ_ONLY there is a verified chain whose tip carries that stage, an anchor that vouches for it,
  and an approval row of the store that is CONSUMED by Thomas on the verified channel, whose
  recorded fingerprint is that of its snapshot, and that was spent for this stage's witness; the
  approved stage is the recorded one, or a higher one the record was demoted from; and the
  record is bound to the policy that is running.
\<close>

theorem stage_stands_on_a_spent_grant:
  assumes "ss_stage (resolve_stage env aw now w) \<noteq> ''READ_ONLY''"
  shows "\<exists>rows anchor r a content i v s.
    vouched env w rows anchor \<and> r = jget (last rows) ''record'' \<and>
    jget r ''stage'' = JStr (ss_stage (resolve_stage env aw now w)) \<and>
    get_approval aw (py_str (jget r ''approval_id'')) = Inr (Some a) \<and>
    jget a ''status'' = JStr ''CONSUMED'' \<and> verified_thomas a \<and>
    compute_action_fingerprint (se_H env) (jget a ''approved_action_snapshot'') =
      Inr (py_str (jget r ''action_fingerprint'')) \<and>
    content = jget (jget a ''approved_action_snapshot'') ''normalized_parameters'' \<and>
    stage_id_for (se_H env) content = Inr i \<and>
    jget (jget a ''consumption'') ''consumption_ref'' = JStr (consumption_ref i) \<and>
    (if jget r ''transition'' = JStr ''DEMOTE''
     then \<exists>m n. str_rank (jget r ''stage'') = Inr m \<and> str_rank (jget content ''to_stage'') = Inr n \<and> m < n
     else jget content ''to_stage'' = jget r ''stage'') \<and>
    safety_identity (se_H env) (se_policy env) = Inr (Some (v, s)) \<and>
    jget r ''policy_version'' = JStr v \<and> jget r ''policy_safety_sha256'' = JStr s"
proof -
  from resolve_valid [OF resolve_above_valid [OF assms]] obtain rows anchor where
    v: "vouched env w rows anchor" and d: "record_defect env aw now (jget (last rows) ''record'') = Inr None"
    and st: "resolve_stage env aw now w = tip_status rows anchor" by blast
  let ?r = "jget (last rows) ''record''"
  have stage: "jget ?r ''stage'' = JStr (ss_stage (resolve_stage env aw now w))"
    using from_record_stage [of ?r True None] assms by (simp add: st)
  with assms have up: "jget ?r ''stage'' \<noteq> JStr ''READ_ONLY''" by simp
  note def = record_defect_None [OF d]
  from witness_reason_None [OF def(4)] up obtain a content where
    a: "get_approval aw (py_str (jget ?r ''approval_id'')) = Inr (Some a)" "spent_for ?r a"
    and c: "snapshot_content (se_H env) ?r (jget a ''approved_action_snapshot'') = Inr (Some content)"
    and m: "if jget ?r ''transition'' = JStr ''DEMOTE'' then descends_from ?r content = Inr True
       else content_matches ?r content a" by auto
  note sc = snapshot_content_Some [OF c]
  have up_or_same: "if jget ?r ''transition'' = JStr ''DEMOTE''
     then \<exists>m n. str_rank (jget ?r ''stage'') = Inr m \<and> str_rank (jget content ''to_stage'') = Inr n \<and> m < n
     else jget content ''to_stage'' = jget ?r ''stage''"
    using m stage
    by (auto simp: descends_from_def content_matches_def content_bound_fields_def bindR_Inr_iff
        split: if_split_asm)
  from sc(5) obtain i where i: "stage_id_for (se_H env) content = Inr i"
    "jget ?r ''witness_stage_id'' = JStr i" by blast
  with a(2) have "jget (jget a ''consumption'') ''consumption_ref'' = JStr (consumption_ref i)"
    "jget a ''status'' = JStr ''CONSUMED''" "verified_thomas a"
    by (simp_all add: spent_for_def verified_thomas_def py_str_def)
  moreover from sc(2) have "compute_action_fingerprint (se_H env) (jget a ''approved_action_snapshot'') =
      Inr (py_str (jget ?r ''action_fingerprint''))" by (auto simp: py_str_def)
  moreover from policy_defect_None [OF def(5) [OF up]] obtain pv ps where
    "safety_identity (se_H env) (se_policy env) = Inr (Some (pv, ps))"
    "jget ?r ''policy_version'' = JStr pv" "jget ?r ''policy_safety_sha256'' = JStr ps" by blast
  ultimately show ?thesis using v stage a(1) sc(1) i(1) up_or_same by blast
qed

theorem stage_stands_on_a_spent_grant_witness:
  "\<exists>rows anchor r a content i v s.
    vouched sample_stage_env paper_stage rows anchor \<and> r = jget (last rows) ''record'' \<and>
    jget r ''stage'' =
      JStr (ss_stage (resolve_stage sample_stage_env spent_store ''2026-10-01T10:06:00Z'' paper_stage)) \<and>
    get_approval spent_store (py_str (jget r ''approval_id'')) = Inr (Some a) \<and>
    jget a ''status'' = JStr ''CONSUMED'' \<and> verified_thomas a \<and>
    compute_action_fingerprint (se_H sample_stage_env) (jget a ''approved_action_snapshot'') =
      Inr (py_str (jget r ''action_fingerprint'')) \<and>
    content = jget (jget a ''approved_action_snapshot'') ''normalized_parameters'' \<and>
    stage_id_for (se_H sample_stage_env) content = Inr i \<and>
    jget (jget a ''consumption'') ''consumption_ref'' = JStr (consumption_ref i) \<and>
    (if jget r ''transition'' = JStr ''DEMOTE''
     then \<exists>m n. str_rank (jget r ''stage'') = Inr m \<and> str_rank (jget content ''to_stage'') = Inr n \<and> m < n
     else jget content ''to_stage'' = jget r ''stage'') \<and>
    safety_identity (se_H sample_stage_env) (se_policy sample_stage_env) = Inr (Some (v, s)) \<and>
    jget r ''policy_version'' = JStr v \<and> jget r ''policy_safety_sha256'' = JStr s"
  by (rule stage_stands_on_a_spent_grant) (simp add: paper_resolves)

text \<open>
  Rollback is seen: while the machine reads a valid stage whose anchor is in sync, putting back any
  shorter ledger (or removing it, or damaging it) under the same anchor reads READ_ONLY, whatever
  the rows, the approvals and the clock.
\<close>

theorem shorter_ledger_reads_read_only:
  assumes "ss_valid (resolve_stage env aw now w)" "\<not> ss_anchor_behind (resolve_stage env aw now w)"
    and "stage_anchor w' = stage_anchor w"
    and "length (store_rows (stage_ledger w')) < length (store_rows (stage_ledger w))"
  shows "ss_stage (resolve_stage env aw' now' w') = ''READ_ONLY''"
proof (rule ccontr)
  assume "ss_stage (resolve_stage env aw' now' w') \<noteq> ''READ_ONLY''"
  from resolve_valid [OF resolve_above_valid [OF this]] obtain rows' a' where
    v': "vouched env w' rows' a'" by blast
  from resolve_valid [OF assms(1)] obtain rows a where
    v: "vouched env w rows a" "resolve_stage env aw now w = tip_status rows a" by blast
  from anchor_outlives_short_ledger [OF v(1) _ assms(3) v'] assms(2) v(2)
  have "length rows \<le> length rows'" by simp
  with assms(4) vouched_rows [OF v(1)] vouched_rows [OF v'] show False by (simp add: store_rows_def)
qed

theorem shorter_ledger_reads_read_only_witness:
  "ss_stage (resolve_stage sample_stage_env spent_store ''2026-10-01T12:00:00Z''
     (paper_stage\<lparr>stage_ledger := No_Log\<rparr>)) = ''READ_ONLY''"
  by (rule shorter_ledger_reads_read_only
        [of sample_stage_env spent_store "''2026-10-01T10:06:00Z''" paper_stage])
     (simp_all add: paper_resolves store_rows_def, simp add: paper_stage_def)

text \<open>
  C35 The anchor pins the whole ledger: two ledgers the machine accepts under one anchor that names the
  tip of each are the same rows, one by one, or two texts with one SHA-256 have been found.
\<close>

theorem anchor_pins_ledger:
  assumes "ss_valid (resolve_stage env aw now w)" "\<not> ss_anchor_behind (resolve_stage env aw now w)"
    and "ss_valid (resolve_stage env aw' now' w')" "\<not> ss_anchor_behind (resolve_stage env aw' now' w')"
    and "stage_anchor w' = stage_anchor w"
    and "list_all wf_json (store_rows (stage_ledger w))" "list_all wf_json (store_rows (stage_ledger w'))"
  shows "collision (se_H env) \<or>
    list_all2 (same_row ''row_sha256'') (store_rows (stage_ledger w)) (store_rows (stage_ledger w'))"
proof -
  from resolve_valid [OF assms(1)] obtain rows a where
    v: "vouched env w rows a" "resolve_stage env aw now w = tip_status rows a" by blast
  from resolve_valid [OF assms(3)] obtain rows' a' where
    v': "vouched env w' rows' a'" "resolve_stage env aw' now' w' = tip_status rows' a'" by blast
  have same: "a' = a" using v(1) v'(1) assms(5) by (simp add: vouched_def read_anchor_cong [of w' w])
  from in_sync_seq(2) [OF v(1)] in_sync_seq(2) [OF v'(1)] assms(2,4) v(2) v'(2) same
  have "tip_hash ''row_sha256'' JNull rows = tip_hash ''row_sha256'' JNull rows'" by simp
  moreover have "chain_fits env 0 JNull None [] rows" "chain_fits env 0 JNull None [] rows'"
    "rows \<noteq> []" "rows' \<noteq> []"
    using v(1) v'(1) by (auto simp: vouched_def read_ledger_iff)
  ultimately show ?thesis
    using stage_chain.tip_determines [of "se_H env" 0 JNull rows rows'] chain_fits_linked assms(6,7)
      vouched_rows [OF v(1)] vouched_rows [OF v'(1)]
    by (simp add: store_rows_def list_all_iff)
qed

theorem anchor_pins_ledger_witness:
  "collision (se_H sample_stage_env) \<or>
    list_all2 (same_row ''row_sha256'') (store_rows (stage_ledger paper_stage))
      (store_rows (stage_ledger paper_stage))"
proof -
  have "list_all wf_json (store_rows (stage_ledger paper_stage))" by code_simp
  then show ?thesis
    by (intro anchor_pins_ledger [of sample_stage_env spent_store "''2026-10-01T10:06:00Z''" _
          spent_store "''2026-10-01T10:06:00Z''"])
       (simp_all add: paper_resolves)
qed

section \<open>What may be planned and written\<close>

text \<open>
  One rung at a time: a plan that is allowed from a binding stage reaches exactly the next rung and
  never LIVE_SCALED; with no binding stage it re-binds the recorded rung after a policy change, or
  starts again at SHADOW or PAPER on a stated attestation; it names the stage it was asked from.
\<close>

theorem plan_climbs_one_rung:
  assumes "plan_transition env cycles st a = Inr content"
  shows "jget content ''to_stage'' = JStr (ask_target a) \<and>
    jget content ''stage_ref'' = (case stage_ref (se_H env) st of Inr ref \<Rightarrow> JStr ref | Inl _ \<Rightarrow> JNull) \<and>
    (if stage_binding st
     then jget content ''transition'' = JStr ''CLIMB'' \<and> ask_target a \<noteq> ''LIVE_SCALED'' \<and>
       (\<exists>s r. ss_recorded st = Some s \<and> stage_rank s = Inr r \<and> stage_rank (ask_target a) = Inr (r + 1))
     else jget content ''transition'' = JStr ''REBIND'' \<and> rebindable st \<and>
         ss_recorded st = Some (ask_target a) \<or>
       jget content ''transition'' = JStr ''BOOTSTRAP'' \<and> ask_target a \<in> {''SHADOW'', ''PAPER''} \<and>
         stated (ask_attestation a))"
proof -
  from plan_transition_content [OF assms] obtain tk frm replaced cycle ref version safety where
    c: "choose_transition st (ask_target a) (ask_attestation a) = Inr (tk, frm, replaced)"
    and r: "stage_ref (se_H env) st = Inr ref"
    and content: "jget content ''to_stage'' = JStr (ask_target a)" "jget content ''stage_ref'' = JStr ref"
      "jget content ''transition'' = JStr tk"
    by auto
  from choose_transition_cases [OF c] r content show ?thesis
    by (auto simp: bootstrap_stages_def split: if_split_asm)
qed

theorem plan_climbs_one_rung_witness:
  "jget paper_content ''to_stage'' = JStr (ask_target bootstrap_ask) \<and>
    jget paper_content ''stage_ref'' = (case stage_ref (se_H sample_stage_env)
       (bare_status ''EXECUTION_STAGE_RECORD_MISSING'' False) of Inr ref \<Rightarrow> JStr ref | Inl _ \<Rightarrow> JNull) \<and>
    (if stage_binding (bare_status ''EXECUTION_STAGE_RECORD_MISSING'' False)
     then jget paper_content ''transition'' = JStr ''CLIMB'' \<and> ask_target bootstrap_ask \<noteq> ''LIVE_SCALED'' \<and>
       (\<exists>s r. ss_recorded (bare_status ''EXECUTION_STAGE_RECORD_MISSING'' False) = Some s \<and>
          stage_rank s = Inr r \<and> stage_rank (ask_target bootstrap_ask) = Inr (r + 1))
     else jget paper_content ''transition'' = JStr ''REBIND'' \<and>
         rebindable (bare_status ''EXECUTION_STAGE_RECORD_MISSING'' False) \<and>
         ss_recorded (bare_status ''EXECUTION_STAGE_RECORD_MISSING'' False) = Some (ask_target bootstrap_ask) \<or>
       jget paper_content ''transition'' = JStr ''BOOTSTRAP'' \<and>
         ask_target bootstrap_ask \<in> {''SHADOW'', ''PAPER''} \<and> stated (ask_attestation bootstrap_ask))"
  by (rule plan_climbs_one_rung [OF plan_paper(2)])

text \<open>
  A demotion lowers and launders nothing: the record it writes is strictly below the recorded rung of
  a binding stage and carries that stage's approval, fingerprint, witness and policy identity
  unchanged, or it is READ_ONLY and carries no approval at all.
\<close>

theorem demotion_only_lowers:
  assumes "demote_record env st target by_whom why now = Inr r"
  shows "jget r ''stage'' = JStr target \<and> jget r ''transition'' = JStr ''DEMOTE'' \<and>
    (if target = ''READ_ONLY''
     then jget r ''approval_id'' = JNull \<and> jget r ''action_fingerprint'' = JNull \<and>
       jget r ''witness_stage_id'' = JNull \<and> ss_present st
     else stage_binding st \<and> (\<exists>s. ss_recorded st = Some s \<and> lower_rank target s) \<and>
       jget r ''approval_id'' = of_opt (ss_approval_id st) \<and>
       jget r ''action_fingerprint'' = of_opt (ss_fingerprint st) \<and>
       jget r ''witness_stage_id'' = of_opt (ss_witness_stage_id st) \<and>
       jget r ''policy_version'' = of_opt (ss_policy_version st) \<and>
       jget r ''policy_safety_sha256'' = of_opt (ss_policy_safety st))"
  using assms
  by (auto simp: demote_record_def demote_to_floor_def demote_to_rung_def demote_body_def finish_record_def
      Let_def bindR_Inr_iff stage_rank_Inr lower_rank_def split: if_split_asm option.split_asm)

theorem demotion_only_lowers_witness:
  "jget shadow_record ''stage'' = JStr ''SHADOW'' \<and> jget shadow_record ''transition'' = JStr ''DEMOTE'' \<and>
    (if ''SHADOW'' = ''READ_ONLY''
     then jget shadow_record ''approval_id'' = JNull \<and> jget shadow_record ''action_fingerprint'' = JNull \<and>
       jget shadow_record ''witness_stage_id'' = JNull \<and> ss_present (tip_status [paper_row] paper_anchor)
     else stage_binding (tip_status [paper_row] paper_anchor) \<and>
       (\<exists>s. ss_recorded (tip_status [paper_row] paper_anchor) = Some s \<and> lower_rank ''SHADOW'' s) \<and>
       jget shadow_record ''approval_id'' = of_opt (ss_approval_id (tip_status [paper_row] paper_anchor)) \<and>
       jget shadow_record ''action_fingerprint'' = of_opt (ss_fingerprint (tip_status [paper_row] paper_anchor)) \<and>
       jget shadow_record ''witness_stage_id'' =
         of_opt (ss_witness_stage_id (tip_status [paper_row] paper_anchor)) \<and>
       jget shadow_record ''policy_version'' = of_opt (ss_policy_version (tip_status [paper_row] paper_anchor)) \<and>
       jget shadow_record ''policy_safety_sha256'' =
         of_opt (ss_policy_safety (tip_status [paper_row] paper_anchor)))"
  by (rule demotion_only_lowers [OF demote_step])

section \<open>The way into LIVE_AUTONOMOUS\<close>

lemma choose_transition_replaced:
  assumes "choose_transition st target attestation = Inr (tk, frm, replaced)"
  shows "fst ` set replaced \<subseteq> {''replaced_stage'', ''replaced_reason_code''}"
  using assms
  by (auto simp: choose_transition_def Let_def bindR_Inr_iff split: if_split_asm option.split_asm)

lemma jget_items [simp]: "jget (JObj (items j)) k = jget j k"
  by (simp add: jget_def items_def)

lemma jget_append:
  "jget (JObj (xs @ ys)) k = (if k \<in> fst ` set xs then jget (JObj xs) k else jget (JObj ys) k)"
proof (cases "map_of xs k")
  case None
  then have "k \<notin> fst ` set xs" by (simp add: map_of_eq_None_iff)
  with None show ?thesis by (simp add: jget_def items_def map_add_def)
next
  case (Some v)
  then have "k \<in> fst ` set xs" by (metis map_of_eq_None_iff option.distinct(1))
  with Some show ?thesis by (simp add: jget_def items_def map_add_def)
qed

lemma live_entry_evidence_Inr:
  assumes "live_entry_evidence H cycles i = Inr cycle"
  shows "\<exists>rows row s t. read_cycles H cycles = Inr rows \<and> row \<in> set rows \<and> cycle_findings row = [] \<and>
    jget row ''cycle_id'' = JStr s \<and> jget row ''record_sha256'' = JStr t \<and>
    cycle = [(''testnet_cycle_id'', jget row ''cycle_id''), (''testnet_cycle_sha256'', jget row ''record_sha256'')]"
proof -
  from assms obtain row where row: "assert_complete_cycle H cycles (strip (text_of i)) = Inr row"
    and cycle: "cycle = [(''testnet_cycle_id'', JStr (py_str (jget row ''cycle_id''))),
      (''testnet_cycle_sha256'', JStr (py_str (jget row ''record_sha256'')))]"
    by (auto simp: live_entry_evidence_def bindR_Inr_iff split: if_split_asm)
  note ok = assert_complete_cycle_row [OF row]
  from ok(3) obtain rows where rows: "read_cycles H cycles = Inr rows" "row \<in> set rows" by blast
  then obtain h where "jget row ''record_sha256'' = JStr h"
    by (auto simp: read_cycles_def bindR_Inr_iff dest!: verify_cycles_hash)
  with ok rows cycle show ?thesis by (auto simp: py_str_def)
qed

lemma complete_cycle_facts:
  assumes "cycle_findings row = []"
  shows "jget (jget row ''entry'') ''reconcile_status'' = JStr ''RECONCILED''"
    "jget row ''venue'' = JStr venue_testnet" "jget row ''venue_host'' \<in> JStr ` set testnet_hosts"
    "\<not> truthy (jget row ''failure'')" "\<forall>leg \<in> set required_legs. map_of (legs_by_name row) leg \<noteq> None"
    "\<forall>named \<in> set (legs_by_name row). jget (snd named) ''withdrawn'' = JBool True"
    "jget (jget row ''exit'') ''reconcile_status'' = JStr ''RECONCILED''"
    "jget (jget row ''position_reconciliation'') ''status'' = JStr ''RECONCILED''"
  using assms by (auto simp: cycle_findings_def Let_def leg_findings_def split: prod.split_asm)

text \<open>
  C39 A LIVE_AUTONOMOUS record stands on a complete testnet cycle: when an approved transition writes one,
  the evidence registry, verified at that moment, holds a cycle with nothing missing (entry and
  exit reconciled on the testnet, both protective legs present and withdrawn, the position view
  clean), and the record names that cycle and the hash of its row.
\<close>

theorem live_needs_a_complete_cycle:
  assumes "record_from_approved env cycles content st i fp now = Inr r"
    and "jget r ''stage'' = JStr ''LIVE_AUTONOMOUS''"
  shows "\<exists>rows row. read_cycles (se_H env) cycles = Inr rows \<and> row \<in> set rows \<and> cycle_findings row = [] \<and>
    evidence_of r ''testnet_cycle_id'' = jget row ''cycle_id'' \<and>
    evidence_of r ''testnet_cycle_sha256'' = jget row ''record_sha256'' \<and>
    jget (jget row ''entry'') ''reconcile_status'' = JStr ''RECONCILED'' \<and>
    jget (jget row ''exit'') ''reconcile_status'' = JStr ''RECONCILED'' \<and>
    jget (jget row ''position_reconciliation'') ''status'' = JStr ''RECONCILED'' \<and>
    jget row ''venue'' = JStr ''binance_futures_testnet'' \<and>
    list_all (\<lambda>leg. map_of (legs_by_name row) leg \<noteq> None) [''SL'', ''TP'']"
proof -
  from record_from_approved_Inr [OF assms(1)] obtain replanned sid a where
    target: "ask_target a = py_str (jget content ''to_stage'')"
    and plan: "plan_transition env cycles st a = Inr replanned" and eq: "py_eq replanned content"
    and fin: "finish_record env (approved_body content sid i fp now) = Inr r" by blast
  have r: "jget r ''stage'' = jget content ''to_stage''" "jget r ''evidence'' = JObj (items (jget content ''evidence''))"
    using fin by (auto simp: finish_record_def approved_body_def bindR_Inr_iff Let_def)
  with assms(2) target have live: "ask_target a = ''LIVE_AUTONOMOUS''" by (simp add: py_str_def)
  from plan_transition_content [OF plan] live obtain tk frm replaced cycle att where
    c: "choose_transition st ''LIVE_AUTONOMOUS'' (ask_attestation a) = Inr (tk, frm, replaced)"
    and cy: "live_entry_evidence (se_H env) cycles (ask_cycle a) = Inr cycle"
    and ev: "jget replanned ''evidence'' = JObj (replaced @ cycle @ att)" by auto
  from live_entry_evidence_Inr [OF cy] obtain rows row s t where
    rows: "read_cycles (se_H env) cycles = Inr rows" "row \<in> set rows" "cycle_findings row = []"
    and st: "jget row ''cycle_id'' = JStr s" "jget row ''record_sha256'' = JStr t"
    and cycle: "cycle = [(''testnet_cycle_id'', jget row ''cycle_id''),
      (''testnet_cycle_sha256'', jget row ''record_sha256'')]" by blast
  have names: "jget (jget replanned ''evidence'') ''testnet_cycle_id'' = jget row ''cycle_id''"
    "jget (jget replanned ''evidence'') ''testnet_cycle_sha256'' = jget row ''record_sha256''"
    using choose_transition_replaced [OF c] by (auto simp: ev cycle jget_append)
  from py_eq_jget [OF py_eq_jget [OF eq, of "''evidence''"]] names st
  have "jget (jget content ''evidence'') ''testnet_cycle_id'' = JStr s"
    "jget (jget content ''evidence'') ''testnet_cycle_sha256'' = JStr t"
    by (metis py_eq_str(1))+
  with r st have "evidence_of r ''testnet_cycle_id'' = jget row ''cycle_id''"
    "evidence_of r ''testnet_cycle_sha256'' = jget row ''record_sha256''"
    by (simp_all add: evidence_of_def)
  moreover note complete_cycle_facts [OF rows(3)]
  ultimately show ?thesis using rows
    by (intro exI [of _ rows] exI [of _ row]) (simp add: required_legs_def venue_testnet_def)
qed

definition sample_leg :: "string \<Rightarrow> bool \<Rightarrow> json" where
  "sample_leg name algo = JObj [(''leg'', JStr name), (''observed_status'', JStr ''NEW''),
     (''algo'', JBool algo), (''withdrawn'', JBool True)]"

definition sample_cycle :: json where
  "sample_cycle = JObj [(''schema_version'', JStr evidence_schema_version), (''cycle_id'', JStr ''cycle_1''),
     (''venue'', JStr venue_testnet), (''venue_host'', JStr ''testnet.binancefuture.com''),
     (''entry'', JObj [(''reconcile_status'', JStr ''RECONCILED'')]),
     (''protective_legs'', JArr [sample_leg ''SL'' True, sample_leg ''TP'' False]),
     (''exit'', JObj [(''reconcile_status'', JStr ''RECONCILED''), (''reduce_only'', JBool True)]),
     (''position_reconciliation'', JObj [(''status'', JStr ''RECONCILED'')]),
     (''record_sha256'', JStr ''sha256:h'')]"

definition testnet_status :: stage_status where
  "testnet_status = \<lparr>ss_stage = ''SIGNED_TESTNET'', ss_valid = True, ss_reason = None,
     ss_recorded = Some ''SIGNED_TESTNET'', ss_stage_id = Some ''stage_3'', ss_record_sha256 = Some ''sha256:r'',
     ss_policy_version = Some ''1.0'', ss_present = True, ss_approval_id = Some ''approval_3'',
     ss_fingerprint = Some ''sha256:f'', ss_witness_stage_id = Some ''stage_3'',
     ss_policy_safety = Some ''sha256:h'', ss_anchor_behind = False\<rparr>"

definition live_content :: json where
  "live_content = JObj [(''venue'', JStr ''binance_futures''), (''transition'', JStr ''CLIMB''),
     (''from_stage'', JStr ''SIGNED_TESTNET''), (''to_stage'', JStr ''LIVE_AUTONOMOUS''),
     (''stage_ref'', JStr ''stageref_h''), (''policy_version'', JStr ''1.0''),
     (''policy_safety_sha256'', JStr ''sha256:h''), (''registered_by'', JStr ''thomas''),
     (''reason'', JStr ''go''), (''evidence'', JObj [(''testnet_cycle_id'', JStr ''cycle_1''),
        (''testnet_cycle_sha256'', JStr ''sha256:h'')])]"

definition live_record :: json where
  "live_record = jset ''record_sha256'' (JStr ''sha256:h'')
     (approved_body live_content ''stage_h'' ''approval_4'' ''sha256:f'' ''2026-11-01T00:00:00Z'')"

lemma live_record_built:
  "record_from_approved sample_stage_env (Log [sample_cycle]) live_content testnet_status ''approval_4''
     ''sha256:f'' ''2026-11-01T00:00:00Z'' = Inr live_record"
  by code_simp

theorem live_needs_a_complete_cycle_witness:
  "\<exists>rows row. read_cycles (se_H sample_stage_env) (Log [sample_cycle]) = Inr rows \<and> row \<in> set rows \<and>
    cycle_findings row = [] \<and>
    evidence_of live_record ''testnet_cycle_id'' = jget row ''cycle_id'' \<and>
    evidence_of live_record ''testnet_cycle_sha256'' = jget row ''record_sha256'' \<and>
    jget (jget row ''entry'') ''reconcile_status'' = JStr ''RECONCILED'' \<and>
    jget (jget row ''exit'') ''reconcile_status'' = JStr ''RECONCILED'' \<and>
    jget (jget row ''position_reconciliation'') ''status'' = JStr ''RECONCILED'' \<and>
    jget row ''venue'' = JStr ''binance_futures_testnet'' \<and>
    list_all (\<lambda>leg. map_of (legs_by_name row) leg \<noteq> None) [''SL'', ''TP'']"
  by (rule live_needs_a_complete_cycle [OF live_record_built])
     (simp add: live_record_def approved_body_def live_content_def)

end
