(* ===== verification/Stage_Door_Safety.thy ===== *)
theory Stage_Door_Safety
  imports Stage_Safety
begin

text \<open>
  The writes and the door of the execution stage: an append that is cut short, the re-anchoring,
  and the confirmation, which spends its approval before it writes and never twice.
\<close>

section \<open>A write cut short\<close>

lemma resolve_cong:
  assumes "stage_ledger w' = stage_ledger w" "stage_anchor w' = stage_anchor w"
  shows "ss_stage (resolve_stage env aw now w') = ss_stage (resolve_stage env aw now w)"
proof -
  have "ss_stage (resolve_stage env aw now w') = ss_stage (resolve_stage env aw now w)"
    if "ss_stage (resolve_stage env aw now w) \<noteq> ''READ_ONLY''"
      "stage_ledger w' = stage_ledger w" "stage_anchor w' = stage_anchor w" for w w'
  proof -
    from resolve_valid [OF resolve_above_valid [OF that(1)]] obtain rows a where
      v: "vouched env w rows a" "has_key (last rows) ''record''"
        "record_defect env aw now (jget (last rows) ''record'') = Inr None"
        "resolve_stage env aw now w = tip_status rows a" by blast
    with resolve_valid_conv [of env w' rows a aw now] vouched_cong [OF that(3,2)] show ?thesis by simp
  qed
  from this [of w w'] this [of w' w] assms show ?thesis by metis
qed

lemma unextendable_reads_read_only:
  assumes "chain_to_extend env w = Inr None"
  shows "ss_stage (resolve_stage env aw now w) = ''READ_ONLY''"
proof (rule ccontr)
  assume "ss_stage (resolve_stage env aw now w) \<noteq> ''READ_ONLY''"
  from resolve_valid [OF resolve_above_valid [OF this]] obtain rows a where
    "vouched env w rows a" by blast
  with assms show False by (auto simp: chain_to_extend_def vouched_def)
qed

lemma no_ledger_reads_read_only:
  assumes "stage_ledger w = No_Log"
  shows "ss_stage (resolve_stage env aw now w) = ''READ_ONLY''"
proof (rule unextendable_reads_read_only)
  show "chain_to_extend env w = Inr None"
    using assms by (simp add: chain_to_extend_def read_ledger_def)
qed

lemma tip_decides_stage:
  assumes "stage_ledger w = Log (rows @ [row])"
  shows "ss_stage (resolve_stage env aw now w) = ''READ_ONLY'' \<or>
    jget (jget row ''record'') ''stage'' = JStr (ss_stage (resolve_stage env aw now w))"
proof (cases "ss_stage (resolve_stage env aw now w) = ''READ_ONLY''")
  case False
  from resolve_valid [OF resolve_above_valid [OF this]] obtain rows' a where
    v: "vouched env w rows' a" "resolve_stage env aw now w = tip_status rows' a" by blast
  from vouched_rows [OF v(1)] assms have "rows' = rows @ [row]" by simp
  with False v(2) from_record_stage [of "jget row ''record''" True None] show ?thesis by simp
qed simp

lemma anchor_body_next_row:
  assumes "next_row env rows r = Inr row"
  shows "\<exists>a. anchor_body env row now = Inr a \<or> anchor_body env row now = Inl (PyError ''RuntimeSchemaError'')"
proof -
  note f = next_row_fields [OF assms]
  from f(9) obtain h where h: "jget row ''row_sha256'' = JStr h" by blast
  then have "has_key row ''row_sha256''" by (intro jget_not_null_has_key) simp
  with f h have "jindex row ''seq'' = Inr (JInt (int (length rows)))" "jindex row ''row_sha256'' = Inr (JStr h)"
    by (simp_all add: jindex_Inr_iff)
  moreover have "\<not> has_secret_key (JObj [(''schema_version'', JStr a), (''venue'', JStr b), (''seq'', JInt n),
      (''row_sha256'', JStr c), (''written_at'', JStr d)])" for a b n c d
  proof -
    have "\<not> secret_key ''schema_version''" "\<not> secret_key ''venue''" "\<not> secret_key ''seq''"
      "\<not> secret_key ''row_sha256''" "\<not> secret_key ''written_at''" by code_simp+
    then show ?thesis by simp
  qed
  ultimately show ?thesis by (auto simp: anchor_body_def int_of_def sha256_record_def Let_def)
qed

lemma landed_append_returns:
  assumes "anchor_then_mirror env row r w = (x, w')" "next_row env rows r = Inr row"
  shows "\<exists>warnings. x = Inr warnings"
  using assms anchor_body_next_row [OF assms(2), of "py_str (jget r ''registered_at'')"]
  by (auto simp: anchor_then_mirror_def warned_def write_anchor_def put_mirror_def bindW_def
      split: sum.split_asm if_split_asm prod.split_asm)

text \<open>
  C34 The append is atomic for its readers, wherever it stops: each of the four writes may fail (which is
  also what a crash before it leaves).  When the append raises, the machine reads the stage it read
  before; when it returns, even with the anchor or the mirror missing, it reads READ_ONLY or the
  stage of the new record, whose row is the ledger's tip.
\<close>

theorem append_is_atomic:
  assumes "append_stage_record env r w = (x, w')"
  shows "case x of
      Inl e \<Rightarrow> ss_stage (resolve_stage env aw now w') = ss_stage (resolve_stage env aw now w)
    | Inr warnings \<Rightarrow>
        (\<exists>rows row. stage_ledger w' = Log (rows @ [row]) \<and> jget row ''record'' = r) \<and>
        (ss_stage (resolve_stage env aw now w') = ''READ_ONLY'' \<or>
         jget r ''stage'' = JStr (ss_stage (resolve_stage env aw now w')))"
proof -
  from append_leaves [OF assms] consider
    (same) e where "x = Inl e" "w' = w"
  | (aside) e where "x = Inl e" "stage_ledger w' = No_Log" "chain_to_extend env w = Inr None"
  | (landed) chain row w2 where "next_row env (base_rows chain) r = Inr row"
      "stage_ledger w' = Log (base_rows chain @ [row])" "anchor_then_mirror env row r w2 = (x, w')"
    by blast
  then show ?thesis
  proof cases
    case same
    then show ?thesis by simp
  next
    case aside
    then show ?thesis
      by (simp add: unextendable_reads_read_only [OF aside(3)] no_ledger_reads_read_only [OF aside(2)])
  next
    case landed
    from landed_append_returns [OF landed(3,1)] obtain warnings where "x = Inr warnings" by blast
    moreover have "jget row ''record'' = r" using next_row_fields(7) [OF landed(1)] .
    ultimately show ?thesis
      using tip_decides_stage [OF landed(2), of env aw now] landed(2) by auto
  qed
qed

theorem append_is_atomic_witness:
  "case (Inr [] :: string list res) of
      Inl e \<Rightarrow> ss_stage (resolve_stage sample_stage_env spent_store ''2026-10-01T10:06:00Z'' paper_stage) =
        ss_stage (resolve_stage sample_stage_env spent_store ''2026-10-01T10:06:00Z'' empty_stage)
    | Inr warnings \<Rightarrow>
        (\<exists>rows row. stage_ledger paper_stage = Log (rows @ [row]) \<and> jget row ''record'' = paper_record) \<and>
        (ss_stage (resolve_stage sample_stage_env spent_store ''2026-10-01T10:06:00Z'' paper_stage) =
           ''READ_ONLY'' \<or>
         jget paper_record ''stage'' = JStr (ss_stage (resolve_stage sample_stage_env spent_store
           ''2026-10-01T10:06:00Z'' paper_stage)))"
  by (rule append_is_atomic [OF paper_append])

section \<open>The re-anchoring\<close>

lemma sync_anchor_cases:
  assumes "sync_anchor env now w = (x, w')"
  shows "(\<forall>t f. x \<noteq> Inr (Re_Anchored t f)) \<and> w' = w \<or>
    (\<exists>rows anchor a p. x = Inr (Re_Anchored (jget (last rows) ''seq'') (jget anchor ''seq'')) \<and>
       read_ledger env w = Inr rows \<and> rows \<noteq> [] \<and> read_anchor env w = Inr (Some anchor) \<and>
       anchor_problem rows (Some anchor) = Inr p \<and> p \<noteq> Some ''EXECUTION_STAGE_ROLLED_BACK'' \<and>
       anchor_body env (last rows) now = Inr a \<and> w' = w\<lparr>stage_anchor := Json_File a\<rparr>)"
  using assms
  by (auto simp: sync_anchor_def Let_def bindW_def write_anchor_def jindex_Inr_iff
      split: sum.split_asm exn.split_asm if_split_asm option.split_asm prod.split_asm)

lemma show_int_no_point: "c \<in> set (show_int i) \<Longrightarrow> c \<noteq> CHR ''.''"
  by (auto dest!: show_int_chars simp: is_digit_def)

lemma int_of_py_int_eq: "py_int_eq j i \<Longrightarrow> int_of j = Inr i"
proof (cases j)
  case (JFloat r)
  assume eq: "py_int_eq j i"
  show ?thesis
  proof (cases "r = show_int i @ ''.0''")
    case True
    then have "takeWhile (\<lambda>c. c \<noteq> CHR ''.'') r = show_int i"
      using show_int_no_point [of _ i] by (simp add: takeWhile_append2)
    with JFloat show ?thesis by (simp add: int_of_def py_int_show)
  next
    case False
    with eq JFloat have "i = 0" "r = ''-0.0''" by (simp_all add: py_int_eq_def)
    with JFloat show ?thesis by (simp add: int_of_def py_int_def dec_digit_def)
  qed
qed (simp_all add: py_int_eq_def int_of_def)

lemma anchor_body_Inr:
  assumes "anchor_body env row now = Inr a"
  shows "\<exists>n h. int_of (jget row ''seq'') = Inr n \<and> jget a ''seq'' = JInt n \<and>
    jget a ''row_sha256'' = JStr (py_str (jget row ''row_sha256'')) \<and> jget a ''venue'' = JStr supported_venue \<and>
    has_key a ''seq'' \<and> has_key a ''row_sha256'' \<and> has_key a ''venue'' \<and> is_obj a \<and> se_anchor_ok env a \<and>
    hash_or_none (se_H env) (drop_key ''anchor_sha256'' a) = Some h \<and> jget a ''anchor_sha256'' = JStr h"
  using assms
  by (auto simp: anchor_body_def bindR_Inr_iff jindex_Inr_iff Let_def hash_or_none_def split: if_split_asm)

text \<open>An anchor written for the tip vouches for the chain.\<close>

lemma anchored_tip_vouches:
  assumes rows: "chain_fits env 0 JNull None [] rows" "rows \<noteq> []" "list_all is_obj rows"
    and w: "stage_ledger w = Log rows" "stage_anchor w = Json_File a"
    and a: "anchor_body env (last rows) now = Inr a"
  shows "vouched env w rows a" "\<not> ss_anchor_behind (tip_status rows a)"
proof -
  from anchor_body_Inr [OF a] obtain n h where f:
    "int_of (jget (last rows) ''seq'') = Inr n" "jget a ''seq'' = JInt n"
    "jget a ''row_sha256'' = JStr (py_str (jget (last rows) ''row_sha256''))"
    "jget a ''venue'' = JStr supported_venue" "has_key a ''seq''" "has_key a ''row_sha256''"
    "has_key a ''venue''" "is_obj a" "se_anchor_ok env a"
    "hash_or_none (se_H env) (drop_key ''anchor_sha256'' a) = Some h" "jget a ''anchor_sha256'' = JStr h"
    by blast
  from rows obtain rs r where rs: "rows = rs @ [r]" by (metis rev_exhaust)
  with rows(1) have r: "has_key r ''seq''" "py_int_eq (jget r ''seq'') (int (length rs))"
    "\<exists>k. jget r ''row_sha256'' = JStr k"
    by (auto simp: chain_fits_snoc row_fits_def)
  from r(3) obtain k where k: "jget r ''row_sha256'' = JStr k" by blast
  then have hk: "has_key r ''row_sha256''" by (intro jget_not_null_has_key) simp
  have n: "n = int (length rs)" "num_of (jget r ''seq'') = Inr (int (length rs))"
    using f(1) int_of_py_int_eq [OF r(2)] num_of_py_int_eq [OF r(2)] by (simp_all add: rs)
  have "read_anchor env w = Inr (Some a)"
    using f w(2) by (simp add: read_anchor_def Let_def jindex_def has_key_def jget_def items_def
        split: option.splits json.splits)
  moreover have "anchor_problem rows (Some a) = Inr None"
  proof -
    have j: "jindex r ''seq'' = Inr (jget r ''seq'')" "jindex a ''seq'' = Inr (JInt n)"
      "jindex r ''row_sha256'' = Inr (JStr k)" "jindex a ''row_sha256'' = Inr (JStr k)"
      using r(1) f k hk by (simp_all add: jindex_Inr_iff rs py_str_def)
    have "py_nth_json rows (JInt n) = Inr r"
      using n by (simp add: py_nth_json_def py_nth_def Let_def rs)
    then show ?thesis
      using j n by (simp add: anchor_problem_def rs num_of_def)
  qed
  ultimately show "vouched env w rows a" using rows w by (simp add: vouched_def read_ledger_iff)
  show "\<not> ss_anchor_behind (tip_status rows a)"
    using n f(2) by (simp add: tip_status_def rs num_of_def)
qed

text \<open>
  Re-anchoring moves no row: the ledger stays as it was, a refused or idle run writes nothing, a
  machine that read a valid stage reads the same stage after it, in sync, and any stage read after
  it is that of the ledger's own tip.
\<close>

theorem sync_keeps_the_stage:
  assumes "sync_anchor env now w = (x, w')"
  shows "stage_ledger w' = stage_ledger w \<and>
    ((\<exists>t f. x = Inr (Re_Anchored t f)) \<or> w' = w) \<and>
    (if ss_valid (resolve_stage env aw now' w)
     then ss_stage (resolve_stage env aw now' w') = ss_stage (resolve_stage env aw now' w) \<and>
       (w' \<noteq> w \<longrightarrow> \<not> ss_anchor_behind (resolve_stage env aw now' w'))
     else ss_stage (resolve_stage env aw now' w') = ''READ_ONLY'' \<or>
       (\<exists>rows row. stage_ledger w = Log (rows @ [row]) \<and>
          jget (jget row ''record'') ''stage'' = JStr (ss_stage (resolve_stage env aw now' w'))))"
  using sync_anchor_cases [OF assms]
proof (elim disjE exE conjE)
  assume w: "w' = w"
  have "ss_stage (resolve_stage env aw now' w) = ''READ_ONLY''" if "\<not> ss_valid (resolve_stage env aw now' w)"
    using that resolve_above_valid by blast
  with w show ?thesis by simp
next
  fix rows anchor a p
  assume x: "x = Inr (Re_Anchored (jget (last rows) ''seq'') (jget anchor ''seq''))"
    and r: "read_ledger env w = Inr rows" "rows \<noteq> []" and a: "anchor_body env (last rows) now = Inr a"
    and w': "w' = w\<lparr>stage_anchor := Json_File a\<rparr>"
  from r have chain: "stage_ledger w = Log rows" "list_all is_obj rows" "chain_fits env 0 JNull None [] rows"
    by (auto simp: read_ledger_iff)
  note after = anchored_tip_vouches [OF chain(3) r(2) chain(2), of w' a now]
  show ?thesis
  proof (cases "ss_valid (resolve_stage env aw now' w)")
    case True
    from resolve_valid [OF this] obtain rows' b where v: "vouched env w rows' b" "has_key (last rows') ''record''"
      "record_defect env aw now' (jget (last rows') ''record'') = Inr None"
      "resolve_stage env aw now' w = tip_status rows' b" by blast
    with chain(1) vouched_rows [OF v(1)] have "rows' = rows" by simp
    with v after a w' chain(1) resolve_valid_conv [of env w' rows a aw now'] x True show ?thesis by simp
  next
    case False
    obtain rs row where rs: "rows = rs @ [row]" using r(2) by (metis rev_exhaust)
    with chain(1) w' have "stage_ledger w' = Log (rs @ [row])" by simp
    from tip_decides_stage [OF this, of env aw now'] False rs chain(1) w' x show ?thesis by auto
  qed
qed

lemma sync_step:
  "sync_anchor sample_stage_env ''2026-10-01T11:00:00Z''
     (shadow_stage\<lparr>stage_anchor := Json_File paper_anchor\<rparr>) =
   (Inr (Re_Anchored (JInt 1) (JInt 0)), shadow_stage)"
  by code_simp

theorem sync_keeps_the_stage_witness:
  "let w = shadow_stage\<lparr>stage_anchor := Json_File paper_anchor\<rparr>; w' = shadow_stage;
       x = Inr (Re_Anchored (JInt 1) (JInt 0)) :: sync_result res;
       aw = spent_store; env = sample_stage_env; now' = ''2026-10-01T12:00:00Z'' in
   stage_ledger w' = stage_ledger w \<and>
    ((\<exists>t f. x = Inr (Re_Anchored t f)) \<or> w' = w) \<and>
    (if ss_valid (resolve_stage env aw now' w)
     then ss_stage (resolve_stage env aw now' w') = ss_stage (resolve_stage env aw now' w) \<and>
       (w' \<noteq> w \<longrightarrow> \<not> ss_anchor_behind (resolve_stage env aw now' w'))
     else ss_stage (resolve_stage env aw now' w') = ''READ_ONLY'' \<or>
       (\<exists>rows row. stage_ledger w = Log (rows @ [row]) \<and>
          jget (jget row ''record'') ''stage'' = JStr (ss_stage (resolve_stage env aw now' w'))))"
  unfolding Let_def by (rule sync_keeps_the_stage [OF sync_step])

section \<open>The confirmation\<close>

lemma on_approvals_eq: "on_approvals f w = (x, w') \<longleftrightarrow>
    (\<exists>a. f (dw_approvals w) = (x, a) \<and> w' = w\<lparr>dw_approvals := a\<rparr>)"
  by (auto simp: on_approvals_def split: prod.splits)

lemma on_stage_eq: "on_stage f w = (x, w') \<longleftrightarrow> (\<exists>s. f (dw_stage w) = (x, s) \<and> w' = w\<lparr>dw_stage := s\<rparr>)"
  by (auto simp: on_stage_def split: prod.splits)

lemma get_approval_appended:
  assumes "get_approval w i = Inr (Some p)" "approval_key c = approval_key p" "is_obj c"
  shows "get_approval (w\<lparr>approval_rows := append_rows [c] (approval_rows w)\<rparr>) i = Inr (Some c)"
proof -
  note g = get_approval_Inr [OF assms(1)]
  from g(1) latest_by_in [of approval_key _ i p] have key: "approval_key p = Some i" by metis
  from g(2) obtain rows where rows: "append_rows [c] (approval_rows w) = Log (rows @ [c])"
    "rows = store_rows (approval_rows w)"
    by (cases "approval_rows w") (auto simp: append_rows_def store_rows_def)
  with g key assms show ?thesis
    by (simp add: get_approval_def current_approvals_def read_rows_def latest_step_def)
qed

text \<open>The spend either leaves everything, or the approval is spent before the first write.\<close>

lemma spend_and_write_cases:
  assumes "spend_and_write aenv env now i d r w = (x, w')"
  shows "(\<exists>e. x = Inl e) \<and> w' = w \<or>
    (\<exists>a c y s. get_approval (dw_approvals w) i = Inr (Some a) \<and>
       build_consumed_record aenv a d now (consumption_ref (py_str (jget r ''stage_id''))) = Inr c \<and>
       append_stage_record env r (dw_stage w) = (y, s) \<and>
       w' = w\<lparr>dw_approvals := (dw_approvals w)\<lparr>approval_rows :=
              append_rows [c] (approval_rows (dw_approvals w))\<rparr>, dw_stage := s\<rparr> \<and>
       ((\<exists>ws. y = Inr ws \<and> x = Inr ws) \<or>
        (\<exists>e. y = Inl e) \<and> (x = Inl (Refused ''EXECUTION_STAGE_WRITE_FAILED_AFTER_SPEND'') \<or>
           (\<exists>k. x = Inl (PyError k)))))"
proof -
  let ?ref = "consumption_ref (py_str (jget r ''stage_id''))"
  obtain y aw where sp: "spend_approval aenv (dw_approvals w) i d now ?ref = (y, aw)" by fastforce
  show ?thesis
  proof (cases y)
    case (Inl e)
    with spend_cases [OF sp] sp assms show ?thesis
      by (auto simp: spend_and_write_def on_approvals_def)
  next
    case (Inr c)
    with spend_cases [OF sp] obtain a where a: "get_approval (dw_approvals w) i = Inr (Some a)"
      "build_consumed_record aenv a d now ?ref = Inr c"
      "aw = (dw_approvals w)\<lparr>approval_rows := append_rows [c] (approval_rows (dw_approvals w))\<rparr>" by auto
    obtain z s where ap: "append_stage_record env r (dw_stage w) = (z, s)" by fastforce
    with sp Inr assms a have "w' = w\<lparr>dw_approvals := aw, dw_stage := s\<rparr>"
      "x = (case z of Inr ws \<Rightarrow> Inr ws
        | Inl e \<Rightarrow> Inl (case e of Refused _ \<Rightarrow> Refused ''EXECUTION_STAGE_WRITE_FAILED_AFTER_SPEND''
            | PyError k \<Rightarrow> if k = ''OSError'' then Refused ''EXECUTION_STAGE_WRITE_FAILED_AFTER_SPEND''
                else PyError k))"
      by (auto simp: spend_and_write_def on_approvals_def on_stage_def split: sum.split_asm)
    with a ap show ?thesis by (cases z) (auto split: exn.splits)
  qed
qed

lemma transition_event_error: "transition_event H r before now = Inl e \<Longrightarrow> \<exists>c. e = PyError c"
  by (auto simp: transition_event_def stamped_event_def sha256_record_def Let_def bindR_Inl_iff
      split: if_split_asm)

lemma run_confirm_cases:
  assumes "run_confirm aenv env cycles control now i seen w = (x, w')"
  shows "(\<exists>e. x = Inl e) \<and> w' = w \<or>
    (\<exists>approval d content before r y w1.
       stage_grant env control now i seen = Inr (approval, d, content) \<and> \<not> dw_lock_busy w \<and>
       stage_preflight env cycles now i approval content w = Inr (before, r) \<and>
       spend_and_write aenv env now i d r w = (y, w1) \<and>
       dw_approvals w' = dw_approvals w1 \<and> dw_stage w' = dw_stage w1 \<and>
       ((\<exists>e. y = Inl e \<and> x = Inl e \<and> w' = w1) \<or>
        (\<exists>ws. y = Inr ws \<and> ((\<exists>c. x = Inl (PyError c)) \<or>
            (\<exists>more. x = Inr (r, resolve_door env now w', ws @ more))))))"
proof (cases "stage_grant env control now i seen")
  case (Inl e)
  with assms show ?thesis by (auto simp: run_confirm_def)
next
  case (Inr g)
  obtain approval d content where g: "g = (approval, d, content)" by (cases g)
  show ?thesis
  proof (cases "dw_lock_busy w \<or> (\<exists>e. stage_preflight env cycles now i approval content w = Inl e)")
    case True
    with assms Inr g show ?thesis
      by (cases "dw_lock_busy w") (auto simp: run_confirm_def stage_lock_guard_def)
  next
    case False
    then obtain before r where f: "\<not> dw_lock_busy w"
      "stage_preflight env cycles now i approval content w = Inr (before, r)"
      by (cases "stage_preflight env cycles now i approval content w") auto
    obtain y w1 where sw: "spend_and_write aenv env now i d r w = (y, w1)" by fastforce
    have tail: "bindW (y, w1) (\<lambda>warnings w. bindW (transition_event (se_H env) r before now, w) (\<lambda>event w.
        bindW (ledger_event event w) (\<lambda>more w. (Inr (r, resolve_door env now w, warnings @ more), w)))) = (x, w')"
      using assms Inr g f sw by (simp add: run_confirm_def stage_lock_guard_def)
    have "dw_approvals w' = dw_approvals w1 \<and> dw_stage w' = dw_stage w1 \<and>
       ((\<exists>e. y = Inl e \<and> x = Inl e \<and> w' = w1) \<or>
        (\<exists>ws. y = Inr ws \<and> ((\<exists>c. x = Inl (PyError c)) \<or>
            (\<exists>more. x = Inr (r, resolve_door env now w', ws @ more)))))"
      using tail
      by (cases y; cases "transition_event (se_H env) r before now")
         (auto simp: ledger_event_def resolve_door_def dest: transition_event_error split: if_split_asm)
    with Inr g f sw show ?thesis by blast
  qed
qed

text \<open>
  A refused confirmation spends nothing: whatever refusal the door gives, other than the one that says
  the write failed after the spend, the approvals, the stage files and the control ledger are as
  they were.
\<close>

theorem refused_confirm_changes_nothing:
  assumes "run_confirm aenv env cycles control now i seen w = (Inl (Refused c), w')"
    and "c \<noteq> ''EXECUTION_STAGE_WRITE_FAILED_AFTER_SPEND''"
  shows "w' = w"
  using run_confirm_cases [OF assms(1)]
proof (elim disjE exE conjE)
  fix approval d content before r y w1 e
  assume "spend_and_write aenv env now i d r w = (y, w1)" "y = Inl e" "Inl (Refused c) = Inl e" "w' = w1"
  with spend_and_write_cases [of aenv env now i d r w y w1] assms(2) show ?thesis by auto
qed simp_all

lemma spent_latest: "get_approval spent_store ''approval_1'' = Inr (Some grant_consumed)"
  "jget grant_consumed ''status'' = JStr ''CONSUMED''"
  by code_simp+

lemma second_confirm:
  "run_confirm sample_env sample_stage_env No_Log active_default ''2026-10-01T10:06:00Z'' ''approval_1''
     door_before door_after = (Inl (Refused ''ALREADY_CONSUMED''), door_after)"
  by (simp add: run_confirm_def confirm_parts stage_lock_guard_def stage_preflight_def door_after_def spent_latest)

theorem refused_confirm_changes_nothing_witness: "door_after = door_after"
  by (rule refused_confirm_changes_nothing [OF second_confirm]) simp

text \<open>
  No transition without its approval: if a confirmation changed anything on the stage's disk, then under
  the lock the approval was APPROVED, its CONSUMED row is the approval store's new last row, that
  row names the record's stage id, and an effect that fails after it is reported as such.
\<close>

theorem no_stage_without_spend:
  assumes "run_confirm aenv env cycles control now i seen w = (x, w')" "dw_stage w' \<noteq> dw_stage w"
  shows "\<exists>a c r approval content before. get_approval (dw_approvals w) i = Inr (Some a) \<and>
    jget a ''status'' = JStr ''APPROVED'' \<and> jget c ''status'' = JStr ''CONSUMED'' \<and>
    stage_preflight env cycles now i approval content w = Inr (before, r) \<and>
    jget (jget c ''consumption'') ''consumption_ref'' = JStr (consumption_ref (py_str (jget r ''stage_id''))) \<and>
    approval_rows (dw_approvals w') = append_rows [c] (approval_rows (dw_approvals w))"
proof -
  from run_confirm_cases [OF assms(1)] assms(2) obtain approval d content before r y w1 where
    p: "stage_preflight env cycles now i approval content w = Inr (before, r)"
    and sw: "spend_and_write aenv env now i d r w = (y, w1)"
    and same: "dw_approvals w' = dw_approvals w1" "dw_stage w' = dw_stage w1" by blast
  from spend_and_write_cases [OF sw] same assms(2) obtain a c where
    a: "get_approval (dw_approvals w) i = Inr (Some a)"
    "build_consumed_record aenv a d now (consumption_ref (py_str (jget r ''stage_id''))) = Inr c"
    "dw_approvals w1 = (dw_approvals w)\<lparr>approval_rows := append_rows [c] (approval_rows (dw_approvals w))\<rparr>"
    by auto
  have "approval_rows (dw_approvals w') = append_rows [c] (approval_rows (dw_approvals w))"
    using a(3) same by simp
  with build_consumed_row [OF a(2)] a(1) p show ?thesis
    unfolding approval_status_def by blast
qed

theorem no_stage_without_spend_witness:
  "\<exists>a c r approval content before. get_approval (dw_approvals door_before) ''approval_1'' = Inr (Some a) \<and>
    jget a ''status'' = JStr ''APPROVED'' \<and> jget c ''status'' = JStr ''CONSUMED'' \<and>
    stage_preflight sample_stage_env No_Log ''2026-10-01T10:06:00Z'' ''approval_1'' approval content door_before =
      Inr (before, r) \<and>
    jget (jget c ''consumption'') ''consumption_ref'' = JStr (consumption_ref (py_str (jget r ''stage_id''))) \<and>
    approval_rows (dw_approvals door_after) = append_rows [c] (approval_rows (dw_approvals door_before))"
  by (rule no_stage_without_spend [OF confirm_step])
     (simp add: door_after_def paper_stage_def empty_stage_def)

lemma approval_of_confirm:
  assumes "run_confirm aenv env cycles control now i seen w = (Inr out, w')"
  shows "\<exists>c. get_approval (dw_approvals w') i = Inr (Some c) \<and> jget c ''status'' = JStr ''CONSUMED''"
proof -
  from run_confirm_cases [OF assms] obtain d r ws w1 where
    sw: "spend_and_write aenv env now i d r w = (Inr ws, w1)" and same: "dw_approvals w' = dw_approvals w1"
    by auto
  from spend_and_write_cases [OF sw] obtain a c where
    a: "get_approval (dw_approvals w) i = Inr (Some a)"
    and c: "build_consumed_record aenv a d now (consumption_ref (py_str (jget r ''stage_id''))) = Inr c"
    and w1: "dw_approvals w1 = (dw_approvals w)\<lparr>approval_rows :=
        append_rows [c] (approval_rows (dw_approvals w))\<rparr>" by auto
  note b = build_consumed_row [OF c]
  from get_approval_appended [OF a b(3,5)] same w1 b(2) show ?thesis
    by (auto simp: approval_status_def)
qed

text \<open>
  One grant, one transition: after a confirmation has succeeded, no later confirmation of the same
  approval succeeds, whatever it saw before it took the lock, and it changes nothing.
\<close>

theorem confirm_wins_once:
  assumes "run_confirm aenv env cycles control now i seen w = (Inr out, w1)"
  shows "\<exists>e. run_confirm aenv' env' cycles' control' now' i seen' w1 = (Inl e, w1)"
proof -
  from approval_of_confirm [OF assms] obtain c where
    c: "get_approval (dw_approvals w1) i = Inr (Some c)" "jget c ''status'' = JStr ''CONSUMED''" by blast
  then have "stage_preflight env' cycles' now' i approval content w1 = Inl (Refused ''ALREADY_CONSUMED'')"
    for approval content by (simp add: stage_preflight_def)
  with run_confirm_cases [of aenv' env' cycles' control' now' i seen' w1] show ?thesis
    by (cases "run_confirm aenv' env' cycles' control' now' i seen' w1") fastforce
qed

theorem confirm_wins_once_witness:
  "\<exists>e. run_confirm sample_env sample_stage_env No_Log active_default ''2026-10-01T10:06:00Z'' ''approval_1''
     door_before door_after = (Inl e, door_after)"
  by (rule confirm_wins_once [OF confirm_step])

end
