(* ===== verification/Stage_Agreement.thy ===== *)
theory Stage_Agreement
  imports Stage_Door_Safety
begin

text \<open>
  The door and the reader agree: the record a successful confirmation wrote is one the machine reads
  as valid, at the approved stage.  The lemmas follow the record through the plan, the schema, the
  chain and the witness check.
\<close>

section \<open>What a status says of the ledger\<close>

lemma ladder_stage_Some: "ladder_stage j = Some s \<longleftrightarrow> j = JStr s \<and> s \<in> set ladder"
  by (auto simp: ladder_stage_def split: json.splits)

lemma from_record_fields [simp]:
  "ss_recorded (from_record r v why) = ladder_stage (jget r ''stage'')"
  "ss_valid (from_record r v why) = v" "ss_reason (from_record r v why) = why"
  by (simp_all add: from_record_def Let_def)

lemma bare_status_fields [simp]: "ss_recorded (bare_status c p) = None" "ss_reason (bare_status c p) = Some c"
  by (simp_all add: bare_status_def)

lemma read_only_status_fields [simp]:
  "ss_recorded (read_only_status c (Some r) p) = ladder_stage (jget r ''stage'')"
  "ss_recorded (read_only_status c None p) = None" "ss_reason (read_only_status c v p) = Some c"
  by (simp_all add: read_only_status_def split: option.split)

lemma tip_status_recorded [simp]:
  "ss_recorded (tip_status rows a) = ladder_stage (jget (jget (last rows) ''record'') ''stage'')"
  by (simp add: tip_status_def)

lemma read_anchor_refusal: "read_anchor env w = Inl (Refused c) \<Longrightarrow> c = ''EXECUTION_STAGE_ANCHOR_TAMPERED''"
  by (auto simp: read_anchor_def Let_def jindex_def bindR_Inl_iff
      split: control_file.split_asm if_split_asm option.split_asm)

lemma anchor_problem_codes:
  "anchor_problem rows a = Inr (Some c) \<Longrightarrow> c \<in> {''EXECUTION_STAGE_ANCHOR_MISSING'',
     ''EXECUTION_STAGE_ROLLED_BACK'', ''EXECUTION_STAGE_ANCHOR_BEHIND''}"
  by (auto simp: anchor_problem_def bindR_Inr_iff split: option.split_asm if_split_asm)

lemma witness_reason_codes:
  "witness_reason H aw r = Inr (Some c) \<Longrightarrow> c \<in> {''EXECUTION_STAGE_WITNESS_MISMATCH'',
     ''EXECUTION_STAGE_APPROVAL_NOT_CONSUMED'', ''EXECUTION_STAGE_APPROVAL_UNREADABLE''}"
  by (auto simp: witness_reason_def Let_def bindR_Inr_iff
      split: if_split_asm sum.split_asm option.split_asm)

lemma record_defect_rebindable:
  assumes "record_defect env aw now r = Inr (Some c)" "c \<in> set rebindable_reasons"
  shows "jget r ''stage'' \<noteq> JStr ''READ_ONLY''"
  using assms witness_reason_codes [of "se_H env" aw r c]
  by (auto simp: record_defect_def rebindable_reasons_def bindR_Inr_iff jindex_Inr_iff
      split: if_split_asm json.split_asm option.split_asm)

lemma resolve_core_shape:
  assumes "resolve_core env aw now w = Inr st" "read_ledger env w = Inr rows" "rows \<noteq> []"
  shows "ss_recorded st = ladder_stage (jget (jget (last rows) ''record'') ''stage'') \<and>
    (ss_valid st \<or> (\<exists>c. ss_reason st = Some c \<and> (c = ''EXECUTION_STAGE_ANCHOR_TAMPERED'' \<or>
       (\<exists>a. anchor_problem rows a = Inr (Some c)) \<or>
       record_defect env aw now (jget (last rows) ''record'') = Inr (Some c))))"
proof -
  from assms obtain r where r: "has_key (last rows) ''record''" "r = jget (last rows) ''record''"
    "jindex (last rows) ''record'' = Inr r"
    by (auto simp: resolve_core_def bindR_Inr_iff jindex_Inr_iff)
  show ?thesis
  proof (cases "read_anchor env w")
    case (Inl e)
    with assms r show ?thesis by (cases e) (auto simp: resolve_core_def dest: read_anchor_refusal)
  next
    case (Inr a)
    with assms r obtain p where p: "anchor_problem rows a = Inr p"
      by (auto simp: resolve_core_def bindR_Inr_iff)
    show ?thesis
    proof (cases p)
      case (Some c)
      with assms r Inr p show ?thesis by (auto simp: resolve_core_def)
    next
      case None
      with assms r Inr p obtain d where d: "record_defect env aw now r = Inr d"
        by (auto simp: resolve_core_def bindR_Inr_iff)
      with None assms r Inr p show ?thesis by (cases d) (auto simp: resolve_core_def bindR_Inr_iff)
    qed
  qed
qed

lemma resolve_shape:
  assumes "ss_recorded (resolve_stage env aw now w) = Some s" "read_ledger env w = Inr rows" "rows \<noteq> []"
  shows "jget (jget (last rows) ''record'') ''stage'' = JStr s" "s \<in> set ladder"
    "rebindable (resolve_stage env aw now w) \<Longrightarrow> s \<noteq> ''READ_ONLY''"
proof -
  from assms(1) have core: "resolve_core env aw now w = Inr (resolve_stage env aw now w)"
    by (auto simp: resolve_stage_def split: sum.splits)
  note shape = resolve_core_shape [OF core assms(2,3)]
  with assms(1) show stage: "jget (jget (last rows) ''record'') ''stage'' = JStr s" and "s \<in> set ladder"
    by (simp_all add: ladder_stage_Some)
  assume "rebindable (resolve_stage env aw now w)"
  then obtain c where c: "\<not> ss_valid (resolve_stage env aw now w)"
    "ss_reason (resolve_stage env aw now w) = Some c" "c \<in> set rebindable_reasons"
    by (auto simp: rebindable_def split: option.split_asm)
  with shape anchor_problem_codes [of rows _ c] have
    "record_defect env aw now (jget (last rows) ''record'') = Inr (Some c)"
    by (auto simp: rebindable_reasons_def)
  from record_defect_rebindable [OF this c(3)] stage show "s \<noteq> ''READ_ONLY''" by auto
qed

lemma recorded_needs_ledger:
  assumes "ss_recorded (resolve_stage env aw now w) = Some s"
  shows "read_ledger env w = Inr [] \<or> (\<exists>rows. read_ledger env w = Inr rows \<and> rows \<noteq> [])"
  using assms
  by (cases "read_ledger env w")
     (auto simp: resolve_stage_def resolve_core_def split: sum.split_asm exn.split_asm)

lemma no_rows_not_usable:
  assumes "read_ledger env w = Inr []"
  shows "\<not> stage_binding (resolve_stage env aw now w)" "\<not> rebindable (resolve_stage env aw now w)"
  using assms
  by (auto simp: resolve_stage_def resolve_core_def stage_binding_def rebindable_def rebindable_reasons_def)

lemma binding_recorded:
  assumes "stage_binding (resolve_stage env aw now w)"
  shows "\<exists>s. ss_recorded (resolve_stage env aw now w) = Some s \<and> s \<noteq> ''READ_ONLY'' \<and> s \<in> set ladder"
proof -
  from assms have up: "ss_valid (resolve_stage env aw now w)" "ss_stage (resolve_stage env aw now w) \<noteq> ''READ_ONLY''"
    by (auto simp: stage_binding_def)
  from resolve_valid [OF up(1)] obtain rows a where st: "resolve_stage env aw now w = tip_status rows a" by blast
  with up(2) show ?thesis
    using from_record_stage [of "jget (last rows) ''record''" True None] by (simp add: ladder_stage_Some)
qed

section \<open>The record of an approved transition\<close>

lemma stated_truthy: "stated v \<Longrightarrow> truthy v"
  by (auto simp: stated_def strip_def lstrip_def rstrip_def split: json.split_asm)

lemma py_eq_obj: "py_eq (JObj kvs) j \<Longrightarrow> is_obj j"
  by (cases j) (auto simp: py_eq_def)

lemma obj_items: "is_obj j \<Longrightarrow> JObj (items j) = j"
  by (cases j) (simp_all add: is_obj_def)

lemma approved_record:
  assumes "record_from_approved env cycles content st i fp now = Inr r"
  shows "\<exists>tk frm replaced target sid version safety h.
    choose_transition st target (evidence_of content ''attestation'') = Inr (tk, frm, replaced) \<and>
    target \<in> set ladder \<and> jget content ''to_stage'' = JStr target \<and>
    jget content ''transition'' = JStr tk \<and> jget content ''from_stage'' = opt_or_none_stage frm \<and>
    jget content ''venue'' = JStr supported_venue \<and>
    jget content ''policy_version'' = JStr version \<and> jget content ''policy_safety_sha256'' = JStr safety \<and>
    safety_identity (se_H env) (se_policy env) = Inr (Some (version, safety)) \<and>
    (target = ''LIVE_AUTONOMOUS'' \<longrightarrow> truthy (evidence_of content ''testnet_cycle_id'')) \<and>
    (tk = ''BOOTSTRAP'' \<longrightarrow> truthy (evidence_of content ''attestation'')) \<and>
    stage_id_for (se_H env) content = Inr sid \<and> verified_record env r = Inr r \<and>
    is_obj (jget content ''evidence'') \<and>
    r = jset ''record_sha256'' (JStr h) (approved_body content sid i fp now)"
proof -
  from record_from_approved_Inr [OF assms] obtain replanned version safety sid a where
    pol: "safety_identity (se_H env) (se_policy env) = Inr (Some (version, safety))"
      "jget content ''policy_version'' = JStr version" "jget content ''policy_safety_sha256'' = JStr safety"
    and a: "ask_target a = py_str (jget content ''to_stage'')"
      "ask_cycle a = evidence_of content ''testnet_cycle_id''"
      "ask_attestation a = evidence_of content ''attestation''"
    and plan: "plan_transition env cycles st a = Inr replanned" and eq: "py_eq replanned content"
    and sid: "stage_id_for (se_H env) content = Inr sid"
    and fin: "finish_record env (approved_body content sid i fp now) = Inr r" by blast
  from plan_transition_content [OF plan] obtain tk frm replaced cycle where
    t: "ask_target a \<in> set ladder"
    and c: "choose_transition st (ask_target a) (ask_attestation a) = Inr (tk, frm, replaced)"
    and live: "if ask_target a = ''LIVE_AUTONOMOUS''
      then live_entry_evidence (se_H env) cycles (ask_cycle a) = Inr cycle else cycle = []"
    and e: "\<exists>kvs. jget replanned ''evidence'' = JObj kvs"
    and p: "jget replanned ''to_stage'' = JStr (ask_target a)" "jget replanned ''transition'' = JStr tk"
      "jget replanned ''venue'' = JStr supported_venue" "jget replanned ''from_stage'' = opt_or_none_stage frm"
    by auto
  note same = py_eq_jget [OF eq]
  have content: "jget content ''to_stage'' = JStr (ask_target a)" "jget content ''transition'' = JStr tk"
    "jget content ''venue'' = JStr supported_venue" "jget content ''from_stage'' = opt_or_none_stage frm"
    using same [of "''to_stage''"] same [of "''transition''"] same [of "''venue''"] same [of "''from_stage''"]
    by (simp_all add: p opt_or_none_stage_def)
  have obj: "is_obj (jget content ''evidence'')" using e same [of "''evidence''"] py_eq_obj by auto
  have ev: "ask_target a = ''LIVE_AUTONOMOUS'' \<longrightarrow> truthy (evidence_of content ''testnet_cycle_id'')"
    using live a(2) by (auto simp: live_entry_evidence_def stated_truthy split: if_split_asm)
  have att: "tk = ''BOOTSTRAP'' \<longrightarrow> truthy (evidence_of content ''attestation'')"
    using choose_transition_cases [OF c] a(3) by (auto simp: stated_truthy split: if_split_asm)
  have "''record_sha256'' \<notin> fst ` set (items (approved_body content sid i fp now))"
    by (auto simp: approved_body_def)
  from finish_record_Inr [OF _ this, of env r] fin obtain h where
    "verified_record env r = Inr r" "r = jset ''record_sha256'' (JStr h) (approved_body content sid i fp now)"
    by (auto simp: approved_body_def)
  with c [unfolded a(3)] t content pol ev att sid obj show ?thesis by blast
qed

lemma approved_body_fields:
  assumes "r = jset ''record_sha256'' (JStr h) (approved_body content sid i fp now)"
  shows "jget r ''stage_id'' = JStr sid" "jget r ''venue'' = jget content ''venue''"
    "jget r ''stage'' = jget content ''to_stage''"
    "jget r ''previous_stage'' = (if jget content ''from_stage'' = JStr ''NONE'' then JNull
       else jget content ''from_stage'')"
    "jget r ''transition'' = jget content ''transition''" "jget r ''effective_from'' = JStr now"
    "jget r ''registered_by'' = jget content ''registered_by''" "jget r ''reason'' = jget content ''reason''"
    "jget r ''approval_id'' = JStr i" "jget r ''action_fingerprint'' = JStr fp"
    "jget r ''witness_stage_id'' = JStr sid" "jget r ''policy_version'' = jget content ''policy_version''"
    "jget r ''policy_safety_sha256'' = jget content ''policy_safety_sha256''"
    "jget r ''evidence'' = JObj (items (jget content ''evidence''))" "has_key r ''stage''"
    "has_key r ''effective_from''" "has_key r ''policy_version''" "has_key r ''policy_safety_sha256''"
  by (simp_all add: assms approved_body_def)

lemma index_of_ladder: "s \<in> set ladder \<Longrightarrow> \<exists>n. index_of s ladder = Some n"
  by (auto simp: ladder_def)

lemma opt_or_none_stage_ladder: "s \<in> set ladder \<Longrightarrow> opt_or_none_stage (Some s) = JStr s \<and> s \<noteq> ''NONE''"
  by (auto simp: opt_or_none_stage_def ladder_def)

lemma ladder_stage_JStr [simp]: "ladder_stage (JStr s) = (if s \<in> set ladder then Some s else None)"
  by (simp add: ladder_stage_def)

lemma approved_transition_consistent:
  assumes rfa: "record_from_approved env cycles content (resolve_stage env aw now w) i fp now = Inr r"
  shows "transition_consistent r"
proof -
  let ?st = "resolve_stage env aw now w"
  from approved_record [OF rfa] obtain tk frm replaced target sid version safety h where
    c: "choose_transition ?st target (evidence_of content ''attestation'') = Inr (tk, frm, replaced)"
    and t: "target \<in> set ladder" "jget content ''to_stage'' = JStr target"
    and f: "jget content ''transition'' = JStr tk" "jget content ''from_stage'' = opt_or_none_stage frm"
      "jget content ''policy_version'' = JStr version" "jget content ''policy_safety_sha256'' = JStr safety"
    and live: "target = ''LIVE_AUTONOMOUS'' \<longrightarrow> truthy (evidence_of content ''testnet_cycle_id'')"
    and att: "tk = ''BOOTSTRAP'' \<longrightarrow> truthy (evidence_of content ''attestation'')"
    and r: "r = jset ''record_sha256'' (JStr h) (approved_body content sid i fp now)"
    by blast
  note rf = approved_body_fields [OF r]
  have ev: "evidence_of r k = evidence_of content k" for k by (simp add: evidence_of_def rf)
  have own: "witness_fields r = [JStr i, JStr fp, JStr sid]" by (simp add: witness_fields_def rf)
  note common = transition_consistent_def Let_def rf f t own ev ladder_stage_JStr
  show ?thesis
  proof (cases "stage_binding ?st")
    case True
    with choose_transition_cases [OF c] obtain s k where
      climb: "tk = ''CLIMB''" "frm = Some s" "ss_recorded ?st = Some s"
        "stage_rank s = Inr k" "stage_rank target = Inr (k + 1)" by auto
    from binding_recorded [OF True] climb(3) have s: "s \<noteq> ''READ_ONLY''" "s \<in> set ladder" by auto
    from opt_or_none_stage_ladder [OF s(2)] have o: "opt_or_none_stage (Some s) = JStr s" "s \<noteq> ''NONE''" by simp_all
    show ?thesis using climb s o live
      by (simp add: common next_rank_def stage_rank_Inr)
  next
    case False
    with choose_transition_cases [OF c] consider
      (rebind) "tk = ''REBIND''" "rebindable ?st" "ss_recorded ?st = Some target" "frm = Some target"
    | (boot) "tk = ''BOOTSTRAP''" "target \<in> set bootstrap_stages" "frm = None" by auto
    then show ?thesis
    proof cases
      case rebind
      from recorded_needs_ledger [OF rebind(3)] no_rows_not_usable(2) rebind(2) obtain rows where
        "read_ledger env w = Inr rows" "rows \<noteq> []" by blast
      from resolve_shape(3) [OF rebind(3) this rebind(2)] have "target \<noteq> ''READ_ONLY''" .
      with opt_or_none_stage_ladder [OF t(1)] rebind live t show ?thesis
        by (simp add: common)
    next
      case boot
      with att t show ?thesis by (simp add: common opt_or_none_stage_def)
    qed
  qed
qed

section \<open>The witness of the record\<close>

lemma consumed_fields:
  assumes "build_consumed_record env a d at ref = Inr c"
  shows "jget c ''approved_action_snapshot'' = jget a ''approved_action_snapshot''"
    "jget c ''action_fingerprint'' = jget a ''action_fingerprint''" "jget c ''approver'' = jget a ''approver''"
  using assms by (auto simp: build_consumed_record_def bindR_Inr_iff Let_def)

lemma approved_witness:
  assumes rfa: "record_from_approved env cycles content st i fp now = Inr r"
    and got: "get_approval aw i = Inr (Some c)" "jget c ''status'' = JStr ''CONSUMED''" "verified_thomas c"
    and fp: "jget c ''action_fingerprint'' = JStr fp"
      "compute_action_fingerprint (se_H env) (jget c ''approved_action_snapshot'') = Inr fp"
    and ref: "jget (jget c ''consumption'') ''consumption_ref'' = JStr (consumption_ref (py_str (jget r ''stage_id'')))"
      "jget (jget c ''consumption'') ''consumed_at'' = JStr now"
    and snap: "is_obj (jget c ''approved_action_snapshot'')"
      "content = JObj (items (jget (jget c ''approved_action_snapshot'') ''normalized_parameters''))"
      "jget (jget c ''approved_action_snapshot'') ''permission_scope'' = JStr stage_scope"
      "jget (jget c ''approved_action_snapshot'') ''target_ref'' = JStr (stage_target content)"
    and tk: "jget content ''transition'' \<noteq> JStr ''DEMOTE''"
  shows "witness_reason (se_H env) aw r = Inr None"
proof -
  let ?np = "jget (jget c ''approved_action_snapshot'') ''normalized_parameters''"
  from approved_record [OF rfa] obtain tk frm replaced target sid version safety h where
    t: "target \<in> set ladder" "jget content ''to_stage'' = JStr target"
    and f: "jget content ''transition'' = JStr tk" "jget content ''from_stage'' = opt_or_none_stage frm"
    and sid: "stage_id_for (se_H env) content = Inr sid" and e: "is_obj (jget content ''evidence'')"
    and r: "r = jset ''record_sha256'' (JStr h) (approved_body content sid i fp now)"
    by blast
  note rf = approved_body_fields [OF r]
  have "jget ?np ''to_stage'' = JStr target" using t(2) snap(2) by simp
  then have "is_obj ?np" by (cases ?np) (auto simp: jget_def items_def)
  then have np: "content = ?np" using snap(2) by (auto simp: is_obj_iff)
  have "snapshot_content (se_H env) r (jget c ''approved_action_snapshot'') = Inr (Some content)"
    using snap(1,3,4) fp(2) np \<open>is_obj ?np\<close> t sid by (simp add: snapshot_content_def Let_def rf)
  moreover have "spent_for r c"
    using got fp ref by (simp add: spent_for_def verified_thomas_def rf)
  moreover have "content_matches r content c"
  proof -
    have "opt_or_none_stage frm = JStr ''NONE'' \<or> truthy (opt_or_none_stage frm)"
      by (auto simp: opt_or_none_stage_def split: option.splits)
    moreover have "py_eq (JObj (items (jget content ''evidence''))) (jget content ''evidence'')"
      by (simp add: obj_items [OF e])
    ultimately show ?thesis
      using ref f by (auto simp: content_matches_def content_bound_fields_def rf)
  qed
  ultimately show ?thesis
    using got tk f by (simp add: witness_reason_def Let_def rf)
qed

section \<open>The chain takes the record\<close>

lemma chosen_not_demote:
  "choose_transition st target att = Inr (tk, frm, replaced) \<Longrightarrow> tk \<noteq> ''DEMOTE''"
  using choose_transition_cases [of st target att tk frm replaced] by (auto split: if_split_asm)

lemma approved_continues:
  assumes rfa: "record_from_approved env cycles content (resolve_stage env aw now w) i fp now = Inr r"
    and rows: "read_ledger env w = Inr rows" "rows \<noteq> []"
  shows "continues (Some (jget (last rows) ''record'')) r"
proof -
  from approved_record [OF rfa] obtain tk frm replaced target sid h where
    c: "choose_transition (resolve_stage env aw now w) target (evidence_of content ''attestation'') =
      Inr (tk, frm, replaced)"
    and f: "jget content ''transition'' = JStr tk" "jget content ''from_stage'' = opt_or_none_stage frm"
    and r: "r = jset ''record_sha256'' (JStr h) (approved_body content sid i fp now)"
    by blast
  note rf = approved_body_fields [OF r]
  have "tk = ''BOOTSTRAP'' \<or> (\<exists>s. frm = Some s \<and> ss_recorded (resolve_stage env aw now w) = Some s)"
    using choose_transition_cases [OF c] by (auto split: if_split_asm)
  then show ?thesis
  proof (elim disjE exE conjE)
    fix s
    assume s: "frm = Some s" "ss_recorded (resolve_stage env aw now w) = Some s"
    from resolve_shape(1,2) [OF s(2) rows] opt_or_none_stage_ladder [of s] s(1) show ?thesis
      by (simp add: continues_def rf f)
  qed (simp add: continues_def rf f)
qed

lemma anchor_then_mirror_clean:
  assumes "anchor_then_mirror env row r w = (Inr [], w')"
  shows "\<exists>a. anchor_body env row (py_str (jget r ''registered_at'')) = Inr a \<and> stage_anchor w' = Json_File a"
  using assms
  by (auto simp: anchor_then_mirror_def warned_def write_anchor_def put_mirror_def bindW_def
      split: sum.split_asm if_split_asm prod.split_asm)

text \<open>A clean append of a record that fits leaves a chain its anchor vouches for.\<close>

lemma clean_append_vouched:
  assumes ap: "append_stage_record env r w = (Inr [], w')"
    and v: "verified_record env r = Inr r"
    and cont: "\<And>rows. read_ledger env w = Inr rows \<Longrightarrow> rows \<noteq> [] \<Longrightarrow>
        continues (Some (jget (last rows) ''record'')) r"
    and new: "\<And>rows a. read_ledger env w = Inr rows \<Longrightarrow> jget r ''transition'' \<noteq> JStr ''DEMOTE'' \<Longrightarrow>
        jget r ''approval_id'' = JStr a \<Longrightarrow> \<forall>row \<in> set rows. row_approval row \<noteq> Some a"
  shows "\<exists>rows row a. vouched env w' (rows @ [row]) a \<and> jget row ''record'' = r \<and> has_key row ''record'' \<and>
    \<not> ss_anchor_behind (tip_status (rows @ [row]) a)"
proof -
  from append_leaves [OF ap] obtain chain row w2 where
    chain: "chain_to_extend env w = Inr chain" and nr: "next_row env (base_rows chain) r = Inr row"
    and led: "stage_ledger w' = Log (base_rows chain @ [row])"
    and am: "anchor_then_mirror env row r w2 = (Inr [], w')" by auto
  let ?rows = "base_rows chain"
  note f = next_row_fields [OF nr]
  have old: "?rows = [] \<or> read_ledger env w = Inr ?rows \<and> ?rows \<noteq> []"
    using chain_to_extend_Some [of env w "?rows"] chain by (cases chain) auto
  then have fits: "chain_fits env 0 JNull None [] ?rows" "list_all is_obj ?rows"
    by (auto simp: read_ledger_iff)
  have "continues (tip_record None ?rows) r"
    using old cont by (cases "?rows = []") (auto simp: tip_record_def continues_def)
  moreover have "\<forall>x \<in> set ?rows. row_approval x \<noteq> Some a" if "row_approval row = Some a" for a
    using that old new [of ?rows a] f(7)
    by (auto simp: row_approval_def Let_def str_or_none_Some split: if_split_asm)
  ultimately have "chain_fits env 0 JNull None [] (?rows @ [row])"
    using appended_row_fits [OF fits(1) nr v] by blast
  moreover have "list_all is_obj (?rows @ [row])" using fits f(1) by simp
  moreover from anchor_then_mirror_clean [OF am] obtain a where
    "anchor_body env (last (?rows @ [row])) (py_str (jget r ''registered_at'')) = Inr a"
    "stage_anchor w' = Json_File a" by auto
  ultimately show ?thesis
    using anchored_tip_vouches [of env "?rows @ [row]" w' a] led f(6,7) by blast
qed

section \<open>The agreement\<close>

lemma stage_grant_Inr:
  assumes "stage_grant env control now i seen = Inr (a, d, content)"
  shows "\<exists>fp snapshot. get_approval (dw_approvals seen) i = Inr (Some a) \<and>
    snapshot = jget a ''approved_action_snapshot'' \<and>
    compute_action_fingerprint (se_H env) snapshot = Inr fp \<and> jget a ''action_fingerprint'' = JStr fp \<and>
    jget snapshot ''permission_scope'' = JStr stage_scope \<and> is_obj snapshot \<and>
    content = JObj (items (jget snapshot ''normalized_parameters''))"
proof -
  from assms obtain snapshot where
    v: "validate_spendable_approval (se_H env) (dw_approvals seen) i now control stage_scope = Inr (a, d, snapshot)"
    and c: "content = JObj (items (jget snapshot ''normalized_parameters''))"
    by (auto simp: stage_grant_def bindR_Inr_iff)
  from v obtain fp where f: "get_approval (dw_approvals seen) i = Inr (Some a)"
    "snapshot = jget a ''approved_action_snapshot''"
    "compute_action_fingerprint (se_H env) snapshot = Inr fp" "jget a ''action_fingerprint'' = JStr fp"
    "jget snapshot ''permission_scope'' = JStr stage_scope"
    by (auto simp: validate_spendable_approval_def bindR_Inr_iff jindex_Inr_iff)
  from f(3) have "is_obj snapshot"
    by (auto simp: compute_action_fingerprint_def normalize_fingerprint_payload_def bindR_Inr_iff Let_def
        split: if_split_asm)
  with f c show ?thesis by blast
qed

lemma approved_record_binds:
  assumes rfa: "record_from_approved env cycles content (resolve_stage env aw now w) i fp now = Inr r"
    and wit: "witness_reason (se_H env) aw' r = Inr None"
  shows "record_defect env aw' now r = Inr None"
    "\<exists>s. jget r ''stage'' = JStr s \<and> ss_stage (from_record r True None) = s"
proof -
  from approved_record [OF rfa] obtain target sid version safety h where
    t: "target \<in> set ladder" "jget content ''to_stage'' = JStr target"
    and f: "jget content ''venue'' = JStr supported_venue" "jget content ''policy_version'' = JStr version"
      "jget content ''policy_safety_sha256'' = JStr safety"
      "safety_identity (se_H env) (se_policy env) = Inr (Some (version, safety))"
    and r: "r = jset ''record_sha256'' (JStr h) (approved_body content sid i fp now)"
    by blast
  note rf = approved_body_fields [OF r]
  have j: "jindex r ''effective_from'' = Inr (JStr now)" "jindex r ''stage'' = Inr (JStr target)"
    "jindex r ''policy_version'' = Inr (JStr version)" "jindex r ''policy_safety_sha256'' = Inr (JStr safety)"
    by (simp_all add: jindex_Inr_iff rf t f)
  show "record_defect env aw' now r = Inr None"
    using approved_transition_consistent [OF rfa] wit j f
    by (simp add: record_defect_def policy_defect_def rf(2))
  have "target \<noteq> []" using t(1) by (auto simp: ladder_def)
  with t show "\<exists>s. jget r ''stage'' = JStr s \<and> ss_stage (from_record r True None) = s"
    by (simp add: from_record_def Let_def rf)
qed

lemma confirm_facts:
  assumes run: "run_confirm aenv env cycles control now i seen w = (Inr (r, st, []), w')"
    and same: "get_approval (dw_approvals seen) i = get_approval (dw_approvals w) i"
    and store: "store_ok (dw_approvals w)"
  obtains a d content fp c where
    "get_approval (dw_approvals w) i = Inr (Some a)"
    "compute_action_fingerprint (se_H env) (jget a ''approved_action_snapshot'') = Inr fp"
    "jget a ''action_fingerprint'' = JStr fp"
    "jget (jget a ''approved_action_snapshot'') ''permission_scope'' = JStr stage_scope"
    "is_obj (jget a ''approved_action_snapshot'')"
    "content = JObj (items (jget (jget a ''approved_action_snapshot'') ''normalized_parameters''))"
    "record_from_approved env cycles content (resolve_stage env (dw_approvals w) now (dw_stage w)) i fp now = Inr r"
    "build_consumed_record aenv a d now (consumption_ref (py_str (jget r ''stage_id''))) = Inr c"
    "get_approval (dw_approvals w') i = Inr (Some c)" "verified_thomas c"
    "append_stage_record env r (dw_stage w) = (Inr [], dw_stage w')" "st = resolve_door env now w'"
proof -
  let ?aw = "dw_approvals w"
  from run_confirm_cases [OF run] obtain approval d content before ws w1 more where
    g: "stage_grant env control now i seen = Inr (approval, d, content)"
    and p: "stage_preflight env cycles now i approval content w = Inr (before, r)"
    and sw: "spend_and_write aenv env now i d r w = (Inr ws, w1)"
    and w': "dw_approvals w' = dw_approvals w1" "dw_stage w' = dw_stage w1"
    and st: "st = resolve_door env now w'" "ws @ more = []"
    by auto
  from stage_grant_Inr [OF g] same obtain fp where a: "get_approval ?aw i = Inr (Some approval)"
    "compute_action_fingerprint (se_H env) (jget approval ''approved_action_snapshot'') = Inr fp"
    "jget approval ''action_fingerprint'' = JStr fp"
    "jget (jget approval ''approved_action_snapshot'') ''permission_scope'' = JStr stage_scope"
    "is_obj (jget approval ''approved_action_snapshot'')"
    "content = JObj (items (jget (jget approval ''approved_action_snapshot'') ''normalized_parameters''))"
    by auto
  from p a(3) have rfa: "record_from_approved env cycles content (resolve_stage env ?aw now (dw_stage w)) i fp
      now = Inr r" by (auto simp: stage_preflight_def resolve_door_def bindR_Inr_iff Let_def)
  from spend_and_write_cases [OF sw] a(1) st(2) obtain c where
    c: "build_consumed_record aenv approval d now (consumption_ref (py_str (jget r ''stage_id''))) = Inr c"
    and ap: "append_stage_record env r (dw_stage w) = (Inr [], dw_stage w1)"
    and w1: "dw_approvals w1 = ?aw\<lparr>approval_rows := append_rows [c] (approval_rows ?aw)\<rparr>"
    by auto
  note cr = build_consumed_row [OF c]
  have got: "get_approval (dw_approvals w') i = Inr (Some c)"
    using get_approval_appended [OF a(1) cr(3,5)] w' w1 by simp
  from get_approval_Inr(1) [OF a(1)] latest_by_in [of approval_key _ i approval]
  have "approval \<in> set (store_rows (approval_rows ?aw))" by metis
  with store cr(1,4) have "verified_thomas c" by (auto simp: store_ok_def)
  with that [OF a rfa c got] ap w' st(1) show thesis by simp
qed

lemma granted_store_ok: "store_ok granted_store"
proof -
  have keys: "approval_key grant_request = Some ''approval_1''" "approval_key grant_approved = Some ''approval_1''"
    "approval_status grant_request = JStr ''PENDING''" "approval_status grant_approved = JStr ''APPROVED''"
    "is_obj grant_request" "is_obj grant_approved" "verified_thomas grant_approved"
    by code_simp+
  have "approval_history [grant_request]"
    using open_row [of approval_key approval_status approval_initial approval_allowed "[]" grant_request "''approval_1''"]
      keys empty_history [of approval_key approval_status approval_initial approval_allowed]
    by (simp add: approval_initial_def)
  with move_row [of approval_key approval_status approval_initial approval_allowed "[grant_request]"
      grant_approved "''approval_1''" grant_request] keys have "approval_history [grant_request, grant_approved]"
    by (simp add: approval_allowed_def latest_by_def latest_step_def)
  with keys show ?thesis by (simp add: store_ok_def granted_store_def store_rows_def)
qed



end
