(* ===== verification/Stage_History.thy ===== *)
theory Stage_History
  imports Stage_Agreement
begin

text \<open>
  Runs of the stage's door: confirmations, demotions, re-anchorings, and the asks, answers and
  spends of the approval store in between, with any of the disk writes failing.  The invariant is
  that every row of the ledger that spends an approval names one the store holds as CONSUMED.
\<close>

definition spent_in :: "approval_world \<Rightarrow> string \<Rightarrow> bool" where
  "spent_in aw a = (case latest_by approval_key (store_rows (approval_rows aw)) a of
     None \<Rightarrow> False | Some c \<Rightarrow> approval_status c = JStr ''CONSUMED'')"

definition grants_spent :: "approval_world \<Rightarrow> event_file \<Rightarrow> bool" where
  "grants_spent aw ledger = (\<forall>row \<in> set (store_rows ledger).
     case row_approval row of None \<Rightarrow> True | Some a \<Rightarrow> spent_in aw a)"

definition door_ok :: "door_world \<Rightarrow> bool" where
  "door_ok w = (store_ok (dw_approvals w) \<and> grants_spent (dw_approvals w) (stage_ledger (dw_stage w)))"

text \<open>What other processes and the disk may do between two runs of the door.\<close>

definition same_store :: "door_world \<Rightarrow> door_world \<Rightarrow> bool" where
  "same_store w w' = (dw_approvals w' = dw_approvals w \<and>
     stage_ledger (dw_stage w') = stage_ledger (dw_stage w) \<and>
     stage_anchor (dw_stage w') = stage_anchor (dw_stage w))"

inductive door_run :: "approval_env \<Rightarrow> stage_env \<Rightarrow> door_world \<Rightarrow> bool" for aenv env where
  run_begin: "store_ok (dw_approvals w) \<Longrightarrow> stage_ledger (dw_stage w) = No_Log \<Longrightarrow> door_run aenv env w"
| run_weather: "door_run aenv env w \<Longrightarrow> same_store w w' \<Longrightarrow> door_run aenv env w'"
| run_store: "door_run aenv env w \<Longrightarrow> approval_run aenv (dw_approvals w) a \<Longrightarrow>
    door_run aenv env (w\<lparr>dw_approvals := a\<rparr>)"
| run_confirmed: "door_run aenv env w \<Longrightarrow> run_confirm aenv env cycles control now i seen w = (x, w') \<Longrightarrow>
    door_run aenv env w'"
| run_demoted: "door_run aenv env w \<Longrightarrow> run_demote env now target by_whom why w = (y, w') \<Longrightarrow>
    door_run aenv env w'"
| run_synced: "door_run aenv env w \<Longrightarrow> run_sync_anchor env now w = (z, w') \<Longrightarrow> door_run aenv env w'"

lemma spent_persists:
  assumes "spent_in aw a" "store_rows (approval_rows aw') = store_rows (approval_rows aw) @ ys" "store_ok aw'"
  shows "spent_in aw' a"
proof -
  from assms(1) obtain c where c: "latest_by approval_key (store_rows (approval_rows aw)) a = Some c"
    "approval_status c = JStr ''CONSUMED''" by (auto simp: spent_in_def split: option.split_asm)
  from assms(2,3) have "approval_history (store_rows (approval_rows aw) @ ys)" by (simp add: store_ok_def)
  from ap.terminal_final [OF this c(1)] c assms(2) show ?thesis
    by (simp add: spent_in_def approval_terminal_def)
qed

lemma grants_persist:
  "grants_spent aw led \<Longrightarrow> store_rows (approval_rows aw') = store_rows (approval_rows aw) @ ys \<Longrightarrow>
   store_ok aw' \<Longrightarrow> grants_spent aw' led"
  unfolding grants_spent_def by (auto split: option.splits dest: spent_persists)

lemma append_record_grants:
  assumes "append_stage_record env r s = (x, s')" "grants_spent aw (stage_ledger s)"
    and "\<And>a. jget r ''transition'' \<noteq> JStr ''DEMOTE'' \<Longrightarrow> jget r ''approval_id'' = JStr a \<Longrightarrow> spent_in aw a"
  shows "grants_spent aw (stage_ledger s')"
  using append_leaves [OF assms(1)]
proof (elim disjE exE conjE)
  fix chain row
  assume chain: "chain_to_extend env s = Inr chain" and nr: "next_row env (base_rows chain) r = Inr row"
    and led: "stage_ledger s' = Log (base_rows chain @ [row])"
  have "base_rows chain = [] \<or> store_rows (stage_ledger s) = base_rows chain"
    using chain_to_extend_Some(1,2) [of env s "base_rows chain"] chain
    by (cases chain) (auto simp: read_ledger_iff store_rows_def)
  with assms(2) have "\<forall>row \<in> set (base_rows chain). case row_approval row of None \<Rightarrow> True | Some a \<Rightarrow> spent_in aw a"
    by (auto simp: grants_spent_def)
  moreover have "case row_approval row of None \<Rightarrow> True | Some a \<Rightarrow> spent_in aw a"
    using assms(3) next_row_fields(7) [OF nr]
    by (auto simp: row_approval_def Let_def str_or_none_Some split: option.splits)
  ultimately show ?thesis by (simp add: grants_spent_def led store_rows_def)
qed (use assms(2) in \<open>auto simp: grants_spent_def store_rows_def\<close>)

lemma confirm_keeps_door:
  assumes "run_confirm aenv env cycles control now i seen w = (x, w')" "door_ok w"
  shows "door_ok w'"
  using run_confirm_cases [OF assms(1)]
proof (elim disjE)
  assume "\<exists>approval d content before r y w1.
       stage_grant env control now i seen = Inr (approval, d, content) \<and> \<not> dw_lock_busy w \<and>
       stage_preflight env cycles now i approval content w = Inr (before, r) \<and>
       spend_and_write aenv env now i d r w = (y, w1) \<and>
       dw_approvals w' = dw_approvals w1 \<and> dw_stage w' = dw_stage w1 \<and>
       ((\<exists>e. y = Inl e \<and> x = Inl e \<and> w' = w1) \<or>
        (\<exists>ws. y = Inr ws \<and> ((\<exists>c. x = Inl (PyError c)) \<or>
            (\<exists>more. x = Inr (r, resolve_door env now w', ws @ more)))))"
  then obtain approval d content before r y w1 where
    p: "stage_preflight env cycles now i approval content w = Inr (before, r)"
    and sw: "spend_and_write aenv env now i d r w = (y, w1)"
    and same: "dw_approvals w' = dw_approvals w1" "dw_stage w' = dw_stage w1" by blast
  from p obtain st fp where "record_from_approved env cycles content st i fp now = Inr r"
    by (auto simp: stage_preflight_def bindR_Inr_iff Let_def)
  from approved_record [OF this] obtain sid h where
    r: "r = jset ''record_sha256'' (JStr h) (approved_body content sid i fp now)" by blast
  from spend_and_write_cases [OF sw] consider (same) "w1 = w"
    | (spent) a c z s where "get_approval (dw_approvals w) i = Inr (Some a)"
      "build_consumed_record aenv a d now (consumption_ref (py_str (jget r ''stage_id''))) = Inr c"
      "append_stage_record env r (dw_stage w) = (z, s)"
      "w1 = w\<lparr>dw_approvals := dw_approvals w
           \<lparr>approval_rows := append_rows [c] (approval_rows (dw_approvals w))\<rparr>, dw_stage := s\<rparr>"
    by blast
  then show ?thesis
  proof cases
    case same
    with \<open>dw_approvals w' = dw_approvals w1\<close> \<open>dw_stage w' = dw_stage w1\<close> assms(2) show ?thesis
      by (simp add: door_ok_def)
  next
    case (spent a c z s)
    note a = spent(1) and c = spent(2) and ap = spent(3) and w1 = spent(4)
    let ?aw = "(dw_approvals w)\<lparr>approval_rows := append_rows [c] (approval_rows (dw_approvals w))\<rparr>"
    note b = build_consumed_row [OF c]
    note g = get_approval_Inr [OF a]
    from latest_by_in [of approval_key _ i a] g(1) have k: "approval_key a = Some i"
      "a \<in> set (store_rows (approval_rows (dw_approvals w)))" by metis+
    from assms(2) k(2) b(1,4) have vt: "verified_thomas c"
      by (auto simp: door_ok_def store_ok_def)
    have ok: "store_ok ?aw"
      using store_ok_move [of "dw_approvals w" c i a] assms(2) g b k vt
      by (simp add: door_ok_def approval_allowed_def)
    have rows: "store_rows (approval_rows ?aw) = store_rows (approval_rows (dw_approvals w)) @ [c]"
      using store_rows_append [OF g(2)] by simp
    have "spent_in ?aw i" using rows b k by (simp add: spent_in_def latest_step_def)
    moreover have "jget r ''approval_id'' = JStr i" by (simp add: r approved_body_def)
    moreover have "grants_spent ?aw (stage_ledger (dw_stage w))"
      using grants_persist [OF _ rows ok] assms(2) by (simp add: door_ok_def)
    ultimately have "grants_spent ?aw (stage_ledger s)"
      using append_record_grants [OF ap] by auto
    with ok same w1 show ?thesis by (simp add: door_ok_def)
  qed
qed (use assms(2) in simp)

lemma demote_transition: "demote_record env st target by_whom why now = Inr r \<Longrightarrow>
    jget r ''transition'' = JStr ''DEMOTE''"
  by (auto simp: demote_record_def demote_to_floor_def demote_to_rung_def demote_body_def finish_record_def
      Let_def bindR_Inr_iff split: if_split_asm option.split_asm)

lemma demote_keeps_door:
  assumes "run_demote env now target by_whom why w = (y, w')" "door_ok w"
  shows "door_ok w'"
proof -
  have "dw_approvals w' = dw_approvals w \<and> (dw_stage w' = dw_stage w \<or>
      (\<exists>r z. jget r ''transition'' = JStr ''DEMOTE'' \<and> append_stage_record env r (dw_stage w) = (z, dw_stage w')))"
  proof (cases "demote_record env (resolve_door env now w) target by_whom why now")
    case (Inl e)
    with assms(1) show ?thesis
      by (auto simp: run_demote_def bindW_def Let_def foreign_root_guard_def stage_lock_guard_def ensure_def
          split: if_split_asm)
  next
    case (Inr r)
    obtain z s where ap: "append_stage_record env r (dw_stage w) = (z, s)" by fastforce
    with Inr assms(1) demote_transition [OF Inr] show ?thesis
      by (auto simp: run_demote_def bindW_def Let_def foreign_root_guard_def stage_lock_guard_def ensure_def
          on_stage_def ledger_event_def split: if_split_asm sum.split_asm)
  qed
  with assms(2) append_record_grants [of env _ "dw_stage w" _ "dw_stage w'" "dw_approvals w"] show ?thesis
    by (auto simp: door_ok_def)
qed

lemma sync_keeps_door:
  assumes "run_sync_anchor env now w = (z, w')" "door_ok w"
  shows "door_ok w'"
proof -
  obtain y s where "sync_anchor env now (dw_stage w) = (y, s)" by fastforce
  with sync_anchor_cases [OF this] assms show ?thesis
    by (auto simp: run_sync_anchor_def bindW_def foreign_root_guard_def stage_lock_guard_def ensure_def
        on_stage_def door_ok_def split: if_split_asm sum.split_asm)
qed

lemma door_run_ok: "door_run aenv env w \<Longrightarrow> door_ok w"
proof (induction rule: door_run.induct)
  case (run_begin w)
  then show ?case by (simp add: door_ok_def grants_spent_def store_rows_def)
next
  case (run_weather w w')
  then show ?case by (simp add: door_ok_def same_store_def)
next
  case (run_store w a)
  from run_extends [OF run_store.hyps(2)] obtain ys where
    "store_rows (approval_rows a) = store_rows (approval_rows (dw_approvals w)) @ ys" by blast
  with run_store grants_persist [of "dw_approvals w" "stage_ledger (dw_stage w)" a ys]
    run_keeps_store [OF run_store.hyps(2)] show ?case by (simp add: door_ok_def)
qed (blast intro: confirm_keeps_door demote_keeps_door sync_keeps_door)+

section \<open>Properties\<close>

lemma store_latest:
  "store_ok aw \<Longrightarrow> latest_by approval_key (store_rows (approval_rows aw)) a = Some c \<Longrightarrow>
   approval_status c = JStr ''CONSUMED'' \<Longrightarrow> verified_thomas c"
  using latest_by_in [of approval_key "store_rows (approval_rows aw)" a c] by (auto simp: store_ok_def)


lemma sample_door_run: "door_run sample_env sample_stage_env door_after"
proof -
  have "door_run sample_env sample_stage_env door_before"
    by (rule run_begin) (simp_all add: granted_store_ok empty_stage_def)
  then show ?thesis by (rule run_confirmed [OF _ confirm_step])
qed


end
