(* ===== verification/Deploy_Files.thy ===== *)
theory Deploy_Files
  imports Logs Timeutil
begin

text \<open>
  The deploy runner's records (\<open>runtime/mvp_runtime/deploy_runner/private_files.py\<close>) and the
  world the privileged actor works in.

  A record file is its rows, or something the actor must not read.  Everything outside the actor
  happens at a tick: reading the clock, opening and appending to a file, running a command, asking
  whether the clock is synchronised.  Each takes the next tick's outcome from the environment, so a
  theorem that holds for every environment holds for every failing disk, every crash between two
  writes, every answer of the container daemon and every clock.
\<close>

section \<open>Closed forms\<close>

definition hex_char :: "char \<Rightarrow> bool" where
  "hex_char c = (c \<in> set ''0123456789abcdef'')"

definition base32_char :: "char \<Rightarrow> bool" where
  "base32_char c = (c \<in> set ''abcdefghijklmnopqrstuvwxyz234567'')"

definition token_char :: "char \<Rightarrow> bool" where
  "token_char c = (c \<in> set ''ABCDEFGHIJKLMNOPQRSTUVWXYZabcdefghijklmnopqrstuvwxyz0123456789._:-'')"

text \<open>A regular expression of the form \<open>^<prefix>[<class>]{n}\Z\<close>.\<close>

definition tagged :: "string \<Rightarrow> (char \<Rightarrow> bool) \<Rightarrow> nat \<Rightarrow> string \<Rightarrow> bool" where
  "tagged tag ok n s = (take (length tag) s = tag \<and> length s = length tag + n \<and>
     list_all ok (drop (length tag) s))"

definition sha256_form :: "string \<Rightarrow> bool" where
  "sha256_form s = tagged ''sha256:'' hex_char 64 s"

definition commit_form :: "string \<Rightarrow> bool" where
  "commit_form s = tagged [] hex_char 40 s"

definition token_form :: "nat \<Rightarrow> string \<Rightarrow> bool" where
  "token_form n s = (1 \<le> length s \<and> length s \<le> n \<and> list_all token_char s)"

definition str_form :: "(string \<Rightarrow> bool) \<Rightarrow> json \<Rightarrow> bool" where
  "str_form ok j = (case j of JStr s \<Rightarrow> ok s | _ \<Rightarrow> False)"

text \<open>A schema's \<open>integer\<close> admits the floats without a fraction.\<close>

definition integral_float :: "string \<Rightarrow> bool" where
  "integral_float r = (endswith r ''.0'' \<or> (\<exists>i < length r. take 2 (drop i r) = ''e+''))"

definition json_integer :: "json \<Rightarrow> bool" where
  "json_integer j = (case j of JInt i \<Rightarrow> True | JFloat r \<Rightarrow> integral_float r | _ \<Rightarrow> False)"

definition json_positive :: "json \<Rightarrow> bool" where
  "json_positive j = (case j of JInt i \<Rightarrow> 1 \<le> i
     | JFloat r \<Rightarrow> integral_float r \<and> hd r \<noteq> CHR ''-'' \<and> r \<noteq> ''0.0'' | _ \<Rightarrow> False)"

text \<open>\<open>additionalProperties: false\<close> with every property required.\<close>

definition exact_keys :: "string list \<Rightarrow> json \<Rightarrow> bool" where
  "exact_keys ks j = (is_obj j \<and> list_all (has_key j) ks \<and> list_all (\<lambda>kv. fst kv \<in> set ks) (items j))"

section \<open>A file of rows\<close>

text \<open>
  \<open>Torn_File rows\<close> ends in a line that is not a row: \<open>parse_rows\<close> reads a file whole or not at
  all.  The rows before the torn line are still on the disk.
\<close>

datatype record_file = Absent_File | Unsafe_File | Torn_File "json list" | Record_Rows "json list"

text \<open>
  What one operation on a record file meets.  A failed append is cut back to where it began; when
  that fails too the row stays, whole or in part.  A killed process leaves the same three fates.
\<close>

datatype fate = Lost | Torn | Landed

datatype io = Io_Ok | Io_Unread | Io_Fails fate | Io_Dies fate

definition killed :: exn where
  "killed = PyError ''SIGKILL''"

fun left_by :: "fate \<Rightarrow> json list \<Rightarrow> json \<Rightarrow> record_file" where
  "left_by Lost rows row = Record_Rows rows"
| "left_by Torn rows row = Torn_File rows"
| "left_by Landed rows row = Record_Rows (rows @ [row])"

definition append_row :: "string \<Rightarrow> io \<Rightarrow> json list \<Rightarrow> json \<Rightarrow> unit res \<times> record_file" where
  "append_row code outcome rows row = (case outcome of
       Io_Fails f \<Rightarrow> (Inl (Refused code), left_by f rows row)
     | Io_Dies f \<Rightarrow> (Inl killed, left_by f rows row)
     | _ \<Rightarrow> (Inr (), Record_Rows (rows @ [row])))"

text \<open>
  \<open>open_private\<close>, \<open>lock_exclusive\<close>, \<open>read_all\<close> and \<open>parse_rows\<close>: the rows, or the code the caller
  named for what went wrong.  A file \<open>O_CREAT\<close> would make is an empty one.
\<close>

definition read_record :: "string \<Rightarrow> string \<Rightarrow> io \<Rightarrow> record_file \<Rightarrow> json list res" where
  "read_record code parse_code outcome f =
     (if outcome = Io_Unread then Inl (Refused code)
      else case f of Absent_File \<Rightarrow> Inr [] | Unsafe_File \<Rightarrow> Inl (Refused code)
        | Torn_File _ \<Rightarrow> Inl (Refused parse_code) | Record_Rows rows \<Rightarrow> Inr rows)"

text \<open>
  One operation under the file's lock: read the rows, judge them, append the row the judgement
  asks for.
\<close>

definition locked_op ::
  "string \<Rightarrow> string \<Rightarrow> string \<Rightarrow> (json list \<Rightarrow> ('a \<times> json option) res) \<Rightarrow> io \<Rightarrow> record_file \<Rightarrow>
   'a res \<times> record_file" where
  "locked_op code parse_code write_code judge outcome f =
     (case bindR (read_record code parse_code outcome f) (\<lambda>rows. bindR (judge rows) (\<lambda>v. Inr (rows, v))) of
        Inl e \<Rightarrow> (Inl e, f)
      | Inr (rows, x, None) \<Rightarrow> (Inr x, f)
      | Inr (rows, x, Some row) \<Rightarrow>
          (case append_row write_code outcome rows row of
             (Inl e, f') \<Rightarrow> (Inl e, f') | (Inr _, f') \<Rightarrow> (Inr x, f')))"

text \<open>The rows on the disk, read or not.\<close>

fun rows_on_disk :: "record_file \<Rightarrow> json list" where
  "rows_on_disk (Record_Rows rows) = rows"
| "rows_on_disk (Torn_File rows) = rows"
| "rows_on_disk _ = []"

lemma read_record_Inr:
  "read_record c p outcome f = Inr rows \<Longrightarrow>
   rows = rows_on_disk f \<and> outcome \<noteq> Io_Unread \<and> (f = Absent_File \<or> f = Record_Rows rows)"
  by (auto simp: read_record_def split: if_splits record_file.splits)

lemma read_record_clean [simp]: "read_record c p Io_Ok (Record_Rows rows) = Inr rows"
  "read_record c p Io_Ok Absent_File = Inr []"
  by (simp_all add: read_record_def)

lemma read_record_refuses: "read_record c p outcome f = Inl e \<Longrightarrow> e \<in> {Refused c, Refused p}"
  by (auto simp: read_record_def split: if_splits record_file.splits)

lemma append_row_Inr:
  "append_row c outcome rows row = (Inr u, f) \<Longrightarrow> f = Record_Rows (rows @ [row])"
  by (auto simp: append_row_def split: io.splits)

lemma append_row_rows:
  "append_row c outcome rows row = (r, f) \<Longrightarrow> rows_on_disk f \<in> {rows, rows @ [row]}"
proof -
  have "rows_on_disk (left_by x rows row) \<in> {rows, rows @ [row]}" for x
    by (cases x) simp_all
  then show "append_row c outcome rows row = (r, f) \<Longrightarrow> rows_on_disk f \<in> {rows, rows @ [row]}"
    by (auto simp: append_row_def split: io.splits)
qed

text \<open>What an operation may do to its file: leave it, or add the one row its judgement named.\<close>

lemma locked_op_cases:
  assumes "locked_op c p wc judge outcome f = (r, f')"
  obtains (same) "f' = f"
  | (added) x row where "read_record c p outcome f = Inr (rows_on_disk f)"
      "judge (rows_on_disk f) = Inr (x, Some row)"
      "rows_on_disk f' \<in> {rows_on_disk f, rows_on_disk f @ [row]}"
      "\<And>y. r = Inr y \<Longrightarrow> y = x \<and> f' = Record_Rows (rows_on_disk f @ [row])"
proof (cases "bindR (read_record c p outcome f) (\<lambda>rows. bindR (judge rows) (\<lambda>v. Inr (rows, v)))")
  case (Inl e)
  with assms same show ?thesis by (simp add: locked_op_def)
next
  case (Inr v)
  then obtain rows x d where v: "v = (rows, x, d)" "read_record c p outcome f = Inr rows" "judge rows = Inr (x, d)"
    by (auto simp: bindR_Inr_iff)
  note rows = read_record_Inr [OF v(2)]
  show ?thesis
  proof (cases d)
    case None
    with assms Inr v same show ?thesis by (simp add: locked_op_def)
  next
    case (Some row)
    obtain a f2 where ap: "append_row wc outcome rows row = (a, f2)" by fastforce
    with assms Inr v Some have r: "f' = f2" "r = (case a of Inl e \<Rightarrow> Inl e | Inr _ \<Rightarrow> Inr x)"
      by (auto simp: locked_op_def split: sum.splits)
    show ?thesis
    proof (rule added [of x row])
      show "read_record c p outcome f = Inr (rows_on_disk f)" "judge (rows_on_disk f) = Inr (x, Some row)"
        using v rows Some by simp_all
      show "rows_on_disk f' \<in> {rows_on_disk f, rows_on_disk f @ [row]}"
        using append_row_rows [OF ap] r rows by simp
      show "y = x \<and> f' = Record_Rows (rows_on_disk f @ [row])" if "r = Inr y" for y
        using that r ap rows by (cases a) (auto dest: append_row_Inr)
    qed
  qed
qed

lemma locked_op_Inr:
  assumes "locked_op c p wc judge outcome f = (Inr x, f')"
  shows "\<exists>d. judge (rows_on_disk f) = Inr (x, d) \<and> read_record c p outcome f = Inr (rows_on_disk f) \<and>
    f' = (case d of None \<Rightarrow> f | Some row \<Rightarrow> Record_Rows (rows_on_disk f @ [row]))"
proof -
  from assms obtain rows d where v: "read_record c p outcome f = Inr rows" "judge rows = Inr (x, d)"
    "f' = (case d of None \<Rightarrow> f | Some row \<Rightarrow> Record_Rows (rows @ [row]))"
    by (auto simp: locked_op_def bindR_def split: sum.splits option.splits prod.splits dest: append_row_Inr)
  with read_record_Inr [OF v(1)] show ?thesis by auto
qed

lemma locked_op_grows:
  "locked_op c p wc judge outcome f = (r, f') \<Longrightarrow> \<exists>more. rows_on_disk f' = rows_on_disk f @ more"
  by (erule locked_op_cases) auto

section \<open>Waiting for the lock\<close>

text \<open>
  \<open>lock_exclusive\<close> asks for the lock, looks at the clock and sleeps, until it has the lock or the deadline
  has passed.  \<open>attempt n\<close> is the answer to the n-th attempt, \<open>clock n\<close> the reading after it, in microseconds.
\<close>

datatype lock_try = Got_It | Held_Elsewhere | Lock_Error

definition lock_timeout :: int where
  "lock_timeout = 5000000"

definition lock_poll :: int where
  "lock_poll = 20000"

partial_function (option) poll_lock ::
  "(nat \<Rightarrow> lock_try) \<Rightarrow> (nat \<Rightarrow> int) \<Rightarrow> int \<Rightarrow> string \<Rightarrow> nat \<Rightarrow> (unit res \<times> nat) option" where
  "poll_lock attempt clock deadline code n = (case attempt n of
       Got_It \<Rightarrow> Some (Inr (), n)
     | Lock_Error \<Rightarrow> Some (Inl (Refused code), n)
     | Held_Elsewhere \<Rightarrow> if deadline \<le> clock n then Some (Inl (Refused code), n)
         else poll_lock attempt clock deadline code (Suc n))"

definition lock_exclusive ::
  "(nat \<Rightarrow> lock_try) \<Rightarrow> (nat \<Rightarrow> int) \<Rightarrow> int \<Rightarrow> int \<Rightarrow> string \<Rightarrow> (unit res \<times> nat) option" where
  "lock_exclusive attempt clock start timeout code = poll_lock attempt clock (start + timeout) code 0"

section \<open>Refusals the callers rename\<close>

text \<open>\<open>except RunnerRefused: raise RunnerRefused(code)\<close>: any other exception passes.\<close>

definition rename_refusal :: "string \<Rightarrow> 'a res \<Rightarrow> 'a res" where
  "rename_refusal code m = (case m of Inl (Refused _) \<Rightarrow> Inl (Refused code) | _ \<Rightarrow> m)"

lemma rename_refusal_Inr [simp]: "rename_refusal c m = Inr x \<longleftrightarrow> m = Inr x"
  by (auto simp: rename_refusal_def split: sum.splits exn.splits)

end
