(* ===== verification/Deploy_Records.thy ===== *)
theory Deploy_Records
  imports Deploy_Files
begin

text \<open>
  The actor's records and what it may do to each: the request states
  (\<open>deploy_runner/request_state.py\<close>), the consumption store (\<open>consumption.py\<close>), the effect audit
  (\<open>audit_chain.py\<close>), the latch (\<open>latch.py\<close>) and the clock record (\<open>startup.py\<close>).
\<close>

section \<open>The world of the actor\<close>

text \<open>\<open>TimePolicy\<close>, as configured: every value a JSON value until \<open>check_time_policy\<close> has passed.\<close>

record time_policy =
  tp_max_lifetime :: json
  tp_issue_skew :: json
  tp_deadlines :: "(string \<times> json) list"
  tp_clock_jump :: json
  tp_backstep :: json

record runner_place =
  rp_project :: string
  rp_host_label :: string
  rp_profile :: string

record trust_material =
  tm_signers :: string
  tm_revoked :: string
  tm_sha256 :: string

text \<open>\<open>SshKeygenVerifier.verify\<close> reads the exit status of \<open>ssh-keygen\<close> and nothing else.\<close>

datatype verdict = Verified | Bad_Signature | No_Verifier

datatype answer = Exited int string | Timed_Out | Not_Started | Actor_Dies

text \<open>
  The environment: what is outside the repository or outside the actor, by the tick it is asked at.
  Walls and monotonic readings are in microseconds.
\<close>

record runner_env =
  re_H :: "string \<Rightarrow> string"
  re_io :: "nat \<Rightarrow> io"
  re_wall :: "nat \<Rightarrow> int"
  re_mono :: "nat \<Rightarrow> int"
  re_sync :: "nat \<Rightarrow> bool"
  re_answer :: "nat \<Rightarrow> string list \<Rightarrow> answer"
  re_latch_id :: "nat \<Rightarrow> string"
  re_trust :: "nat \<Rightarrow> trust_material res"
  re_revoked :: "nat \<Rightarrow> string list res"
  re_verifier :: "nat \<Rightarrow> string \<Rightarrow> string \<Rightarrow> trust_material \<Rightarrow> verdict"
  re_loads :: "string \<Rightarrow> json option"
  re_audit_ok :: "json \<Rightarrow> bool"
  re_latch_ok :: "json \<Rightarrow> bool"
  re_approval_ok :: "json \<Rightarrow> bool"
  re_install_sha :: string
  re_place :: runner_place
  re_policy :: time_policy
  re_docker :: string
  re_git :: string
  re_trees :: string
  re_inspect_min :: int

text \<open>A file with one record: the latch and the clock record.\<close>

datatype one_record = No_Record | Unsafe_Record | Broken_Record | Holds json

text \<open>
  The actor's directory, its own memory, and the commands it started, each with the id of the request
  it was started for.
\<close>

record runner_world =
  rw_requests :: record_file
  rw_store :: record_file
  rw_audit :: record_file
  rw_latch :: one_record
  rw_clock :: one_record
  rw_tick :: nat
  rw_commands :: "(json \<times> string list) list"
  rw_latched :: bool
  rw_clock_trusted :: bool
  rw_store_id :: json
  rw_last_inspect :: "int option"
  rw_anchor_wall :: int
  rw_anchor_mono :: int

definition next_tick :: "runner_world \<Rightarrow> runner_world" where
  "next_tick w = w\<lparr>rw_tick := Suc (rw_tick w)\<rparr>"

definition wall_now :: "runner_env \<Rightarrow> runner_world \<Rightarrow> int res \<times> runner_world" where
  "wall_now env w = (Inr (re_wall env (rw_tick w)), next_tick w)"

definition mono_now :: "runner_env \<Rightarrow> runner_world \<Rightarrow> int res \<times> runner_world" where
  "mono_now env w = (Inr (re_mono env (rw_tick w)), next_tick w)"

definition stamp :: "int \<Rightarrow> string" where
  "stamp now = format_iso (now div 1000000)"

section \<open>Request states\<close>

definition CLAIMED :: string where "CLAIMED = ''claimed''"
definition COMPLETED :: string where "COMPLETED = ''completed''"
definition REFUSED_BEFORE_CONSUME :: string where "REFUSED_BEFORE_CONSUME = ''refused_before_consume''"
definition UNKNOWN :: string where "UNKNOWN = ''unknown''"
definition PARTIAL :: string where "PARTIAL = ''partial''"

lemmas state_defs = CLAIMED_def COMPLETED_def REFUSED_BEFORE_CONSUME_def UNKNOWN_def PARTIAL_def

definition terminal_states :: "string list" where
  "terminal_states = [COMPLETED, REFUSED_BEFORE_CONSUME, UNKNOWN, PARTIAL]"

definition replayable_states :: "string list" where
  "replayable_states = [COMPLETED, REFUSED_BEFORE_CONSUME]"

definition runner_error :: exn where
  "runner_error = Refused ''RUNNER_ERROR''"

text \<open>\<open>deploy_request_state.v0.1\<close>, the schema of a row.\<close>

definition request_row_ok :: "json \<Rightarrow> bool" where
  "request_row_ok row =
     (exact_keys [''request_id'', ''request_sha256'', ''state'', ''recorded_at'', ''result''] row \<and>
      str_form (token_form 128) (jget row ''request_id'') \<and>
      str_form sha256_form (jget row ''request_sha256'') \<and>
      str_form (\<lambda>s. s \<in> set (CLAIMED # terminal_states)) (jget row ''state'') \<and>
      str_form fixed_utc (jget row ''recorded_at'') \<and>
      (if str_form (\<lambda>s. s \<in> {CLAIMED, UNKNOWN, PARTIAL}) (jget row ''state'')
       then jget row ''result'' = JNull else is_obj (jget row ''result'')))"

definition request_row :: "string \<Rightarrow> string \<Rightarrow> string \<Rightarrow> string \<Rightarrow> json \<Rightarrow> json" where
  "request_row request_id request_sha256 state now result = JObj
     [(''request_id'', JStr request_id), (''request_sha256'', JStr request_sha256),
      (''state'', JStr state), (''recorded_at'', JStr now), (''result'', result)]"

definition request_key :: "json \<Rightarrow> string option" where
  "request_key row = str_or_none (jget row ''request_id'')"

definition request_status :: "json \<Rightarrow> json" where
  "request_status row = jget row ''state''"

definition requests_latest :: "json list \<Rightarrow> (string \<Rightarrow> json option) res" where
  "requests_latest rows = (if list_all request_row_ok rows then Inr (latest_by request_key rows)
     else Inl runner_error)"

definition begin_judge ::
  "string \<Rightarrow> string \<Rightarrow> string \<Rightarrow> json list \<Rightarrow> (json \<times> json option) res" where
  "begin_judge request_id request_sha256 now rows =
     bindR (requests_latest rows) (\<lambda>latest. case latest request_id of
       None \<Rightarrow> (let row = request_row request_id request_sha256 CLAIMED now JNull in
         if request_row_ok row then Inr (JNull, Some row) else Inl runner_error)
     | Some prior \<Rightarrow>
         if jget prior ''request_sha256'' \<noteq> JStr request_sha256 then Inl (Refused ''REQUEST_ID_REUSED'')
         else if jget prior ''state'' = JStr CLAIMED then Inl (Refused ''REQUEST_IN_FLIGHT'')
         else if jget prior ''state'' \<in> set (map JStr replayable_states) then Inr (jget prior ''result'', None)
         else Inl (Refused (if jget prior ''state'' = JStr UNKNOWN then ''EFFECT_STATE_UNKNOWN''
                            else ''FAILED_EFFECT_PARTIAL'')))"

definition finish_judge ::
  "string \<Rightarrow> string \<Rightarrow> string \<Rightarrow> string \<Rightarrow> json \<Rightarrow> json list \<Rightarrow> (unit \<times> json option) res" where
  "finish_judge request_id request_sha256 state now result rows =
     bindR (requests_latest rows) (\<lambda>latest. case latest request_id of
       None \<Rightarrow> Inl runner_error
     | Some prior \<Rightarrow>
         if jget prior ''state'' \<noteq> JStr CLAIMED \<or> jget prior ''request_sha256'' \<noteq> JStr request_sha256
         then Inl runner_error
         else let row = request_row request_id request_sha256 state now result in
           if request_row_ok row then Inr ((), Some row) else Inl runner_error)"

definition unknown_judge :: "string \<Rightarrow> string \<Rightarrow> json list \<Rightarrow> (unit \<times> json option) res" where
  "unknown_judge request_id now rows =
     bindR (requests_latest rows) (\<lambda>latest. case latest request_id of
       None \<Rightarrow> Inl runner_error
     | Some prior \<Rightarrow>
         if jget prior ''state'' \<noteq> JStr CLAIMED then Inl runner_error
         else let row = jset ''request_sha256'' (jget prior ''request_sha256'')
             (request_row request_id [] UNKNOWN now JNull) in
           if request_row_ok row then Inr ((), Some row) else Inl runner_error)"

definition requests_op ::
  "runner_env \<Rightarrow> (json list \<Rightarrow> ('a \<times> json option) res) \<Rightarrow> runner_world \<Rightarrow> 'a res \<times> runner_world" where
  "requests_op env judge w =
     (case locked_op ''RUNNER_ERROR'' ''RUNNER_ERROR'' ''RUNNER_ERROR'' judge (re_io env (rw_tick w))
        (rw_requests w) of (r, f) \<Rightarrow> (r, (next_tick w)\<lparr>rw_requests := f\<rparr>))"

definition begin_request ::
  "runner_env \<Rightarrow> string \<Rightarrow> string \<Rightarrow> string \<Rightarrow> runner_world \<Rightarrow> json res \<times> runner_world" where
  "begin_request env request_id request_sha256 now w =
     requests_op env (begin_judge request_id request_sha256 now) w"

definition finish_request ::
  "runner_env \<Rightarrow> string \<Rightarrow> string \<Rightarrow> string \<Rightarrow> string \<Rightarrow> json \<Rightarrow> runner_world \<Rightarrow>
   unit res \<times> runner_world" where
  "finish_request env request_id request_sha256 state now result w =
     (if state \<notin> set terminal_states then (Inl runner_error, w)
      else requests_op env (finish_judge request_id request_sha256 state now result) w)"

definition mark_unknown ::
  "runner_env \<Rightarrow> string \<Rightarrow> string \<Rightarrow> runner_world \<Rightarrow> unit res \<times> runner_world" where
  "mark_unknown env request_id now w = requests_op env (unknown_judge request_id now) w"

text \<open>\<open>latest()\<close> and the order its dictionary is walked in: the ids by their first row.\<close>

definition request_ids :: "json list \<Rightarrow> string list" where
  "request_ids rows = dict_fromkeys (concat (map (\<lambda>row. case request_key row of None \<Rightarrow> [] | Some k \<Rightarrow> [k]) rows))"

definition latest_requests ::
  "runner_env \<Rightarrow> runner_world \<Rightarrow> ((string \<times> json) list) res \<times> runner_world" where
  "latest_requests env w = requests_op env (\<lambda>rows. bindR (requests_latest rows) (\<lambda>latest.
     Inr (concat (map (\<lambda>k. case latest k of None \<Rightarrow> [] | Some row \<Rightarrow> [(k, row)]) (request_ids rows)), None))) w"

section \<open>The consumption store\<close>

definition consumption_hash :: "(string \<Rightarrow> string) \<Rightarrow> json \<Rightarrow> string res" where
  "consumption_hash H row = sha256_value H (drop_key ''row_sha256'' row)"

text \<open>
  \<open>deploy_consumption_row.v0.1\<close>.  The four recovery types the schema also lists are not
  implemented by the runner: a row of one is \<open>STORE_CHAIN_BROKEN\<close> whether or not it has their form.
\<close>

definition genesis_ok :: "json \<Rightarrow> bool" where
  "genesis_ok row =
     (exact_keys [''type'', ''seq'', ''prev_sha256'', ''row_sha256'', ''store_id'', ''install_sha'', ''created_at''] row \<and>
      py_int_eq (jget row ''seq'') 0 \<and> (\<forall>b. jget row ''seq'' \<noteq> JBool b) \<and> jget row ''prev_sha256'' = JNull \<and>
      str_form sha256_form (jget row ''row_sha256'') \<and>
      str_form (tagged [] hex_char 32) (jget row ''store_id'') \<and>
      str_form commit_form (jget row ''install_sha'') \<and> str_form fixed_utc (jget row ''created_at''))"

definition approved_actions :: "string list" where
  "approved_actions = [''prepare_candidate'', ''validate_candidate'', ''promote'', ''rollback'']"

definition spent_row_ok :: "json \<Rightarrow> bool" where
  "spent_row_ok row =
     (exact_keys [''type'', ''seq'', ''prev_sha256'', ''row_sha256'', ''approval_id'', ''nonce'',
        ''approval_sha256'', ''action'', ''request_id'', ''consumed_at''] row \<and>
      json_positive (jget row ''seq'') \<and> str_form sha256_form (jget row ''prev_sha256'') \<and>
      str_form sha256_form (jget row ''row_sha256'') \<and>
      str_form (tagged ''dap_'' base32_char 26) (jget row ''approval_id'') \<and>
      str_form (tagged [] hex_char 32) (jget row ''nonce'') \<and>
      str_form sha256_form (jget row ''approval_sha256'') \<and>
      str_form (\<lambda>s. s \<in> set approved_actions) (jget row ''action'') \<and>
      str_form (token_form 128) (jget row ''request_id'') \<and> str_form fixed_utc (jget row ''consumed_at''))"

definition consumption_row_ok :: "json \<Rightarrow> bool" where
  "consumption_row_ok row =
     (jget row ''type'' = JStr ''GENESIS'' \<and> genesis_ok row \<or>
      jget row ''type'' = JStr ''APPROVAL'' \<and> spent_row_ok row)"

definition chain_broken :: "'a res" where
  "chain_broken = Inl (Refused ''STORE_CHAIN_BROKEN'')"

text \<open>The loop of \<open>verify_rows\<close>; the two sets it fills are lists, newest first.\<close>

fun verify_from ::
  "(string \<Rightarrow> string) \<Rightarrow> int \<Rightarrow> json \<Rightarrow> json list \<Rightarrow> json list \<Rightarrow> json list \<Rightarrow> (json list \<times> json list) res" where
  "verify_from H index previous ids nonces [] = Inr (ids, nonces)"
| "verify_from H index previous ids nonces (row # rows) =
     (if \<not> consumption_row_ok row then chain_broken
      else let genesis = (jget row ''type'' = JStr ''GENESIS'') in
      if (index = 0) \<noteq> genesis then chain_broken
      else if \<not> py_int_eq (jget row ''seq'') index then chain_broken
      else bindR (consumption_hash H row) (\<lambda>h.
        if jget row ''row_sha256'' \<noteq> JStr h then chain_broken
        else if jget row ''prev_sha256'' \<noteq> previous then chain_broken
        else if genesis then verify_from H (index + 1) (jget row ''row_sha256'') ids nonces rows
        else if jget row ''approval_id'' \<in> set ids \<or> jget row ''nonce'' \<in> set nonces then chain_broken
        else verify_from H (index + 1) (jget row ''row_sha256'')
               (jget row ''approval_id'' # ids) (jget row ''nonce'' # nonces) rows))"

record store_state =
  st_store_id :: json
  st_rows :: "json list"
  st_approval_ids :: "json list"
  st_nonces :: "json list"

definition verify_rows :: "(string \<Rightarrow> string) \<Rightarrow> json option \<Rightarrow> json list \<Rightarrow> store_state res" where
  "verify_rows H expected rows =
     (if rows = [] \<or> jget (hd rows) ''type'' \<noteq> JStr ''GENESIS'' then Inl (Refused ''STORE_GENESIS_MISSING'')
      else bindR (verify_from H 0 JNull [] [] rows) (\<lambda>(ids, nonces).
        let store_id = jget (hd rows) ''store_id'' in
        if expected \<noteq> None \<and> Some store_id \<noteq> expected then Inl (Refused ''STORE_ID_MISMATCH'')
        else Inr \<lparr>st_store_id = store_id, st_rows = rows, st_approval_ids = ids, st_nonces = nonces\<rparr>))"

definition genesis_row :: "(string \<Rightarrow> string) \<Rightarrow> string \<Rightarrow> string \<Rightarrow> string \<Rightarrow> json res" where
  "genesis_row H store_id install_sha created_at =
     (let row = JObj [(''type'', JStr ''GENESIS''), (''seq'', JInt 0), (''prev_sha256'', JNull),
        (''store_id'', JStr store_id), (''install_sha'', JStr install_sha), (''created_at'', JStr created_at)]
      in bindR (consumption_hash H row) (\<lambda>h. Inr (jset ''row_sha256'' (JStr h) row)))"

record verified_approval =
  va_approval_id :: json
  va_nonce :: json
  va_action :: string
  va_approval_sha256 :: string
  va_trust_sha256 :: string
  va_target :: json
  va_issued_at :: int
  va_expires_at :: int

text \<open>\<open>last["seq"] + 1\<close>: in a verified store an \<open>int\<close>, since a float has no hash.\<close>

definition plus_one :: "json \<Rightarrow> json res" where
  "plus_one j = (case j of JInt i \<Rightarrow> Inr (JInt (i + 1)) | _ \<Rightarrow> Inl (PyError ''TypeError''))"

definition consumed_row ::
  "(string \<Rightarrow> string) \<Rightarrow> verified_approval \<Rightarrow> string \<Rightarrow> string \<Rightarrow> json \<Rightarrow> json res" where
  "consumed_row H approval request_id now tip =
     bindR (plus_one (jget tip ''seq'')) (\<lambda>seq.
     let row = JObj [(''type'', JStr ''APPROVAL''), (''seq'', seq), (''prev_sha256'', jget tip ''row_sha256''),
        (''approval_id'', va_approval_id approval), (''nonce'', va_nonce approval),
        (''approval_sha256'', JStr (va_approval_sha256 approval)), (''action'', JStr (va_action approval)),
        (''request_id'', JStr request_id), (''consumed_at'', JStr now)] in
     bindR (consumption_hash H row) (\<lambda>h. Inr (jset ''row_sha256'' (JStr h) row)))"

definition consume_judge ::
  "(string \<Rightarrow> string) \<Rightarrow> verified_approval \<Rightarrow> string \<Rightarrow> string \<Rightarrow> json \<Rightarrow> json list \<Rightarrow>
   (json \<times> json option) res" where
  "consume_judge H approval request_id now store_id rows =
     bindR (rename_refusal ''CONSUMPTION_STORE_UNAVAILABLE'' (verify_rows H (Some store_id) rows)) (\<lambda>state.
     if va_approval_id approval \<in> set (st_approval_ids state) \<or> va_nonce approval \<in> set (st_nonces state)
     then Inl (Refused ''APPROVAL_ALREADY_CONSUMED'')
     else bindR (consumed_row H approval request_id now (last (st_rows state))) (\<lambda>row.
     if consumption_row_ok row then Inr (row, Some row) else Inl (Refused ''CONSUMPTION_WRITE_FAILED'')))"

definition consume ::
  "runner_env \<Rightarrow> verified_approval \<Rightarrow> string \<Rightarrow> string \<Rightarrow> runner_world \<Rightarrow> json res \<times> runner_world" where
  "consume env approval request_id now w =
     (if rw_store w = Absent_File then (Inl (Refused ''CONSUMPTION_STORE_UNAVAILABLE''), next_tick w)
      else case locked_op ''CONSUMPTION_STORE_UNAVAILABLE'' ''CONSUMPTION_STORE_UNAVAILABLE''
          ''CONSUMPTION_WRITE_FAILED'' (consume_judge (re_H env) approval request_id now (rw_store_id w))
          (re_io env (rw_tick w)) (rw_store w) of
        (r, f) \<Rightarrow> (r, (next_tick w)\<lparr>rw_store := f\<rparr>))"

definition read_store ::
  "runner_env \<Rightarrow> json option \<Rightarrow> runner_world \<Rightarrow> store_state res \<times> runner_world" where
  "read_store env expected w =
     (if rw_store w = Absent_File then Inl (Refused ''STORE_GENESIS_MISSING'')
      else bindR (read_record ''CONSUMPTION_STORE_UNAVAILABLE'' ''STORE_CHAIN_BROKEN'' (re_io env (rw_tick w))
        (rw_store w)) (verify_rows (re_H env) expected), next_tick w)"

section \<open>The effect audit\<close>

definition audit_fields :: "string list" where
  "audit_fields = [''request_id'', ''action'', ''caller_uid'', ''client_id'', ''gate_intake_seq'', ''approval_ref'',
     ''trust_config_sha256'', ''signer_key_fingerprint'', ''target'', ''reason_code'', ''latch_id'',
     ''store_id'', ''consumption_seq'', ''consumption_row_sha256'']"

definition audit_terminal_states :: "string list" where
  "audit_terminal_states = [''COMPLETED'', ''FAILED_NOT_STARTED'', ''FAILED_EFFECT_PARTIAL'',
     ''EFFECT_STATE_UNKNOWN'', ''RECONCILED_UNKNOWN'']"

definition audit_unresolved_states :: "string list" where
  "audit_unresolved_states = [''FAILED_EFFECT_PARTIAL'', ''EFFECT_STATE_UNKNOWN'', ''RECONCILED_UNKNOWN'']"

definition event_hash :: "(string \<Rightarrow> string) \<Rightarrow> json \<Rightarrow> string res" where
  "event_hash H row = sha256_value H (drop_key ''event_sha256'' row)"

definition audit_broken :: "'a res" where
  "audit_broken = Inl (Refused ''AUDIT_CHAIN_BROKEN'')"

fun verify_audit_from :: "runner_env \<Rightarrow> int \<Rightarrow> json \<Rightarrow> json list \<Rightarrow> unit res" where
  "verify_audit_from env index previous [] = Inr ()"
| "verify_audit_from env index previous (row # rows) =
     (if \<not> re_audit_ok env row \<or> \<not> py_int_eq (jget row ''seq'') index \<or>
         jget row ''previous_event_sha256'' \<noteq> previous then audit_broken
      else bindR (event_hash (re_H env) row) (\<lambda>h.
        if jget row ''event_sha256'' \<noteq> JStr h then audit_broken
        else verify_audit_from env (index + 1) (jget row ''event_sha256'') rows))"

definition verify_audit :: "runner_env \<Rightarrow> json list \<Rightarrow> json list res" where
  "verify_audit env rows = bindR (verify_audit_from env 1 JNull rows) (\<lambda>_. Inr rows)"

definition field_value :: "(string \<times> json) list \<Rightarrow> string \<Rightarrow> json" where
  "field_value named name = jget (JObj named) name"

definition audit_row ::
  "runner_env \<Rightarrow> string \<Rightarrow> string \<Rightarrow> string \<Rightarrow> (string \<times> json) list \<Rightarrow> json list \<Rightarrow> json res" where
  "audit_row env execution_state validation_result now named rows =
     (let previous = tip_hash ''event_sha256'' JNull rows;
          seq = JInt (int (length rows) + 1);
          row = map (\<lambda>name. (name, field_value named name)) audit_fields @
            [(''seq'', seq), (''recorded_at'', JStr now), (''generation'', JInt 1),
             (''execution_state'', JStr execution_state), (''validation_result'', JStr validation_result),
             (''runner_install_sha'', JStr (re_install_sha env)), (''previous_event_sha256'', previous)] in
      bindR (short_id (re_H env) ''dae'' (JObj [(''seq'', seq), (''previous'', previous), (''at'', JStr now)]))
        (\<lambda>event_id. let row = row @ [(''event_id'', JStr event_id)] in
      bindR (event_hash (re_H env) (JObj row)) (\<lambda>h. Inr (JObj (row @ [(''event_sha256'', JStr h)])))))"

definition audit_judge ::
  "runner_env \<Rightarrow> string \<Rightarrow> string \<Rightarrow> string \<Rightarrow> (string \<times> json) list \<Rightarrow> json list \<Rightarrow>
   (json \<times> json option) res" where
  "audit_judge env execution_state validation_result now named rows =
     bindR (rename_refusal ''AUDIT_WRITE_FAILED'' (verify_audit env rows)) (\<lambda>rows.
     bindR (audit_row env execution_state validation_result now named rows) (\<lambda>row.
     if re_audit_ok env row then Inr (row, Some row) else Inl (Refused ''AUDIT_WRITE_FAILED'')))"

definition audit_append ::
  "runner_env \<Rightarrow> string \<Rightarrow> string \<Rightarrow> string \<Rightarrow> (string \<times> json) list \<Rightarrow> runner_world \<Rightarrow>
   json res \<times> runner_world" where
  "audit_append env execution_state validation_result now named w =
     (if \<not> list_all (\<lambda>kv. fst kv \<in> set audit_fields) named then (Inl (Refused ''AUDIT_WRITE_FAILED''), w)
      else case locked_op ''AUDIT_WRITE_FAILED'' ''AUDIT_WRITE_FAILED'' ''AUDIT_WRITE_FAILED''
          (audit_judge env execution_state validation_result now named) (re_io env (rw_tick w)) (rw_audit w) of
        (r, f) \<Rightarrow> (r, (next_tick w)\<lparr>rw_audit := f\<rparr>))"

definition read_audit :: "runner_env \<Rightarrow> runner_world \<Rightarrow> json list res \<times> runner_world" where
  "read_audit env w =
     (bindR (read_record ''AUDIT_CHAIN_BROKEN'' ''AUDIT_CHAIN_BROKEN'' (re_io env (rw_tick w)) (rw_audit w))
        (verify_audit env), next_tick w)"

section \<open>The latch\<close>

definition blocked :: exn where
  "blocked = Refused ''RUNNER_STARTUP_BLOCKED''"

definition read_latch :: "runner_env \<Rightarrow> runner_world \<Rightarrow> json option res \<times> runner_world" where
  "read_latch env w =
     (if re_io env (rw_tick w) = Io_Unread then Inl blocked
      else case rw_latch w of No_Record \<Rightarrow> Inr None | Unsafe_Record \<Rightarrow> Inl blocked | Broken_Record \<Rightarrow> Inl blocked
        | Holds r \<Rightarrow> if re_latch_ok env r then Inr (Some r) else Inl blocked, next_tick w)"

definition latch_record :: "runner_env \<Rightarrow> string \<Rightarrow> json \<Rightarrow> string \<Rightarrow> runner_world \<Rightarrow> json" where
  "latch_record env reason_code request_id now w = JObj
     [(''latch_id'', JStr (re_latch_id env (rw_tick w))), (''reason_code'', JStr reason_code),
      (''request_id'', request_id), (''created_at'', JStr now)]"

text \<open>
  \<open>O_CREAT | O_EXCL\<close>, then one write: a failed write leaves the new file without its record.
\<close>

definition set_latch ::
  "runner_env \<Rightarrow> string \<Rightarrow> json \<Rightarrow> string \<Rightarrow> runner_world \<Rightarrow> json res \<times> runner_world" where
  "set_latch env reason_code request_id now w =
     (let r = latch_record env reason_code request_id now w in
      if \<not> re_latch_ok env r then (Inl blocked, w)
      else if re_io env (rw_tick w) = Io_Unread then (Inl blocked, next_tick w)
      else if rw_latch w \<noteq> No_Record then
        bindW (read_latch env (next_tick w)) (\<lambda>existing w. (case existing of None \<Rightarrow> Inl blocked | Some l \<Rightarrow> Inr l, w))
      else case re_io env (rw_tick w) of
          Io_Fails f \<Rightarrow> (Inl blocked, (next_tick w)\<lparr>rw_latch := (if f = Landed then Holds r else Broken_Record)\<rparr>)
        | Io_Dies f \<Rightarrow> (Inl killed, (next_tick w)\<lparr>rw_latch :=
            (case f of Lost \<Rightarrow> No_Record | Torn \<Rightarrow> Broken_Record | Landed \<Rightarrow> Holds r)\<rparr>)
        | _ \<Rightarrow> (Inr r, (next_tick w)\<lparr>rw_latch := Holds r\<rparr>))"

section \<open>The clock record\<close>

definition clock_record_ok :: "json \<Rightarrow> bool" where
  "clock_record_ok j = (exact_keys [''last_seen_wall''] j \<and> str_form fixed_utc (jget j ''last_seen_wall''))"

text \<open>\<open>parse_utc_second\<close>: the instant in seconds.\<close>

definition parse_utc_second :: "json \<Rightarrow> int res" where
  "parse_utc_second value = (case value of
       JStr s \<Rightarrow> if fixed_utc s then recode ''APPROVAL_MALFORMED'' (parse_iso s)
         else Inl (Refused ''APPROVAL_MALFORMED'')
     | _ \<Rightarrow> Inl (Refused ''APPROVAL_MALFORMED''))"

definition read_last_seen :: "runner_env \<Rightarrow> runner_world \<Rightarrow> int option res \<times> runner_world" where
  "read_last_seen env w =
     (if re_io env (rw_tick w) = Io_Unread then Inl blocked
      else case rw_clock w of No_Record \<Rightarrow> Inr None | Unsafe_Record \<Rightarrow> Inl blocked | Broken_Record \<Rightarrow> Inl blocked
        | Holds r \<Rightarrow> if clock_record_ok r then bindR (parse_utc_second (jget r ''last_seen_wall'')) (\<lambda>t. Inr (Some t))
            else Inl blocked, next_tick w)"

definition write_last_seen :: "runner_env \<Rightarrow> string \<Rightarrow> runner_world \<Rightarrow> unit res \<times> runner_world" where
  "write_last_seen env now w =
     (let r = JObj [(''last_seen_wall'', JStr now)] in
      if \<not> clock_record_ok r then (Inl blocked, w)
      else case re_io env (rw_tick w) of
          Io_Ok \<Rightarrow> (Inr (), (next_tick w)\<lparr>rw_clock := Holds r\<rparr>)
        | Io_Unread \<Rightarrow> (Inl blocked, next_tick w)
        | Io_Fails f \<Rightarrow> (Inl blocked, if f = Landed then (next_tick w)\<lparr>rw_clock := Holds r\<rparr> else next_tick w)
        | Io_Dies f \<Rightarrow> (Inl killed, if f = Landed then (next_tick w)\<lparr>rw_clock := Holds r\<rparr> else next_tick w))"

end
