(* ===== verification/Deploy_Verify.thy ===== *)
theory Deploy_Verify
  imports Deploy_Records
begin

text \<open>
  What a deploy request and its approval must be before anything is spent: the time rules
  (\<open>deploy_runner/clock.py\<close>), the carriers of a signed document (\<open>canonical.py\<close>), the closed
  arguments of each action and the verification of an approval (\<open>approval_verify.py\<close>), and the
  codes a reply may carry (\<open>reasons.py\<close>).

  \<open>ssh-keygen\<close> and the strict JSON reader (\<open>json.loads\<close> with its hooks) are parameters of the
  environment.
\<close>

section \<open>Reply codes\<close>

definition generic_code :: string where
  "generic_code = ''RUNNER_ERROR''"

definition response_codes :: "string list" where
  "response_codes = [''MALFORMED_REQUEST'', ''FRAME_TOO_LARGE'', ''PEER_NOT_PERMITTED'', ''CREDENTIALS_UNAVAILABLE'',
     ''VERB_NOT_PERMITTED'', ''ARGUMENT_NOT_ACCEPTED'', ''ARGUMENT_INVALID'', ''REQUEST_ID_REQUIRED'',
     ''REQUEST_ID_REUSED'', ''REQUEST_IN_FLIGHT'', ''RUNNER_BUSY'', ''INSPECT_RATE_LIMITED'', ''ACTOR_UNAVAILABLE'',
     ''ACTOR_REPLY_INVALID'', ''ACTOR_PEER_NOT_PERMITTED'', ''APPROVAL_REQUIRED'', ''APPROVAL_MALFORMED'',
     ''APPROVAL_FIELD_MISSING'', ''APPROVAL_UNKNOWN_FIELD'', ''APPROVAL_SCHEMA_UNSUPPORTED'',
     ''APPROVAL_NOT_CANONICAL'', ''SIGNATURE_INVALID'', ''VERIFIER_UNAVAILABLE'', ''TRUST_CONFIG_UNAVAILABLE'',
     ''TRUST_CONFIG_INSECURE'', ''TRUST_ANCHOR_MISMATCH'', ''TRUST_CONFIG_UNAUTHORIZED_CHANGE'',
     ''APPROVAL_NOT_YET_VALID'', ''APPROVAL_EXPIRED'', ''APPROVAL_LIFETIME_EXCEEDS_POLICY'',
     ''APPROVAL_TOO_SHORT_FOR_ACTION'', ''APPROVAL_BEFORE_CUTOFF'', ''APPROVAL_ACTION_MISMATCH'',
     ''APPROVAL_ENVIRONMENT_MISMATCH'', ''APPROVAL_BINDING_MISMATCH'', ''APPROVAL_REVOKED'',
     ''REVOCATION_LIST_UNAVAILABLE'', ''APPROVAL_ALREADY_CONSUMED'', ''CONSUMPTION_STORE_UNAVAILABLE'',
     ''CONSUMPTION_WRITE_FAILED'', ''CLOCK_UNTRUSTED'', ''TREE_UNAVAILABLE'', ''TREE_NOT_CLEAN'',
     ''TREE_NOT_ORIGIN_MAIN'', ''ORIGIN_FETCH_FAILED'', ''IMAGE_STATE_UNAVAILABLE'',
     ''RUNNING_IMAGES_INCONSISTENT'', ''TAG_ALREADY_EXISTS'', ''COMPOSE_PROJECT_MISMATCH'',
     ''ROLLBACK_POINT_MISSING'', ''OPERATION_BLOCKED_BY_POLICY'', ''DOCKER_COMMAND_FAILED'', ''DOCKER_TIMEOUT'',
     ''BUILD_FAILED'', ''DEADLINE_EXCEEDED'', ''POST_CHECK_FAILED'', ''FAILED_EFFECT_PARTIAL'',
     ''EFFECT_STATE_UNKNOWN'', ''RUNNER_STARTUP_BLOCKED'', ''RUNNER_LATCHED'', ''INSTANCE_LOCK_HELD'',
     ''RUNNER_ENVIRONMENT_MISMATCH'', ''AUDIT_WRITE_FAILED'', ''REPLY_SCHEMA_INVALID'', generic_code]"

definition response_code :: "string \<Rightarrow> string" where
  "response_code code = (if code \<in> set response_codes then code else generic_code)"

section \<open>Time\<close>

text \<open>The seconds of a policy value; \<open>check_time_policy\<close> admits only an \<open>int\<close>.\<close>

definition secs :: "json \<Rightarrow> int" where
  "secs j = (case j of JInt i \<Rightarrow> i | _ \<Rightarrow> 0)"

definition micro :: int where
  "micro = 1000000"

definition positive_int :: "json \<Rightarrow> bool" where
  "positive_int j = (case j of JInt i \<Rightarrow> 0 < i | _ \<Rightarrow> False)"

definition check_time_policy :: "time_policy \<Rightarrow> unit res" where
  "check_time_policy p =
     (if tp_deadlines p = [] \<or> \<not> list_all positive_int
         ([tp_max_lifetime p, tp_issue_skew p, tp_clock_jump p, tp_backstep p] @ map snd (tp_deadlines p))
      then Inl blocked
      else if \<not> list_all (\<lambda>d. secs (snd d) \<le> secs (tp_max_lifetime p)) (tp_deadlines p) then Inl blocked
      else Inr ())"

text \<open>The last argument is the wall clock last seen; the actor passes none.\<close>

definition check_clock ::
  "time_policy \<Rightarrow> int \<Rightarrow> int \<Rightarrow> int \<Rightarrow> int \<Rightarrow> int option \<Rightarrow> bool \<Rightarrow> unit res" where
  "check_clock p anchor_wall anchor_mono now_wall now_mono last_seen sync_confirmed =
     (if \<not> sync_confirmed then Inl (Refused ''CLOCK_UNTRUSTED'')
      else if (case last_seen of None \<Rightarrow> False | Some t \<Rightarrow> now_wall < t - secs (tp_backstep p) * micro)
      then Inl (Refused ''CLOCK_UNTRUSTED'')
      else let wall_elapsed = now_wall - anchor_wall; mono_elapsed = now_mono - anchor_mono in
        if mono_elapsed < 0 \<or> \<bar>wall_elapsed - mono_elapsed\<bar> > secs (tp_clock_jump p) * micro
        then Inl (Refused ''CLOCK_UNTRUSTED'') else Inr ())"

text \<open>\<open>issued_at\<close>, \<open>expires_at\<close> and \<open>cutoff_at\<close> are whole seconds, \<open>now\<close> is in microseconds.\<close>

definition check_approval_window ::
  "time_policy \<Rightarrow> string \<Rightarrow> int \<Rightarrow> int \<Rightarrow> int \<Rightarrow> int option \<Rightarrow> unit res" where
  "check_approval_window p action issued_at expires_at now cutoff_at =
     (case map_of (tp_deadlines p) action of
        None \<Rightarrow> Inl (Refused ''VERB_NOT_PERMITTED'')
      | Some d \<Rightarrow>
          if expires_at \<le> issued_at \<or> expires_at - issued_at > secs (tp_max_lifetime p)
          then Inl (Refused ''APPROVAL_LIFETIME_EXCEEDS_POLICY'')
          else if (case cutoff_at of None \<Rightarrow> False | Some c \<Rightarrow> issued_at < c)
          then Inl (Refused ''APPROVAL_BEFORE_CUTOFF'')
          else if issued_at * micro > now + secs (tp_issue_skew p) * micro
          then Inl (Refused ''APPROVAL_NOT_YET_VALID'')
          else if now \<ge> expires_at * micro then Inl (Refused ''APPROVAL_EXPIRED'')
          else if now + secs d * micro > expires_at * micro
          then Inl (Refused ''APPROVAL_TOO_SHORT_FOR_ACTION'')
          else Inr ())"

section \<open>The carriers\<close>

definition malformed :: exn where
  "malformed = Refused ''APPROVAL_MALFORMED''"

definition max_document_bytes :: nat where
  "max_document_bytes = 2048"

definition max_signature_bytes :: nat where
  "max_signature_bytes = 4096"

definition b64_alphabet :: string where
  "b64_alphabet = ''ABCDEFGHIJKLMNOPQRSTUVWXYZabcdefghijklmnopqrstuvwxyz0123456789+/''"

fun index_of :: "char \<Rightarrow> string \<Rightarrow> nat" where
  "index_of c [] = 0"
| "index_of c (d # ds) = (if c = d then 0 else Suc (index_of c ds))"

fun b64_bytes :: "nat list \<Rightarrow> string" where
  "b64_bytes (a # b # c # d # rest) =
     char_of (a * 4 + b div 16) # char_of (b mod 16 * 16 + c div 4) # char_of (c mod 4 * 64 + d) # b64_bytes rest"
| "b64_bytes [a, b, c] = [char_of (a * 4 + b div 16), char_of (b mod 16 * 16 + c div 4)]"
| "b64_bytes [a, b] = [char_of (a * 4 + b div 16)]"
| "b64_bytes _ = []"

text \<open>\<open>base64.b64decode(text, validate=True)\<close> on a text \<open>_B64\<close> matches.\<close>

definition b64decode :: "string \<Rightarrow> string option" where
  "b64decode text =
     (let chars = takeWhile (\<lambda>c. c \<noteq> CHR ''='') text;
          pads = length text - length chars;
          r = length chars mod 4;
          missing = (if r = 0 then 0 else if r = 1 then 3 else 4 - r) in
      if missing \<le> pads then Some (b64_bytes (map (\<lambda>c. index_of c b64_alphabet) chars)) else None)"

definition b64_form :: "string \<Rightarrow> bool" where
  "b64_form text =
     (let chars = takeWhile (\<lambda>c. c \<noteq> CHR ''='') text; pads = drop (length chars) text in
      chars \<noteq> [] \<and> list_all (\<lambda>c. c \<in> set b64_alphabet) chars \<and> length pads \<le> 2 \<and> list_all (\<lambda>c. c = CHR ''='') pads)"

definition decode_document_b64 :: "json \<Rightarrow> string res" where
  "decode_document_b64 text = (case text of
       JStr s \<Rightarrow>
         if s = [] \<or> length s > max_document_bytes * 4 div 3 + 4 then Inl malformed
         else if \<not> b64_form s then Inl malformed
         else (case b64decode s of None \<Rightarrow> Inl malformed
           | Some raw \<Rightarrow> if raw = [] \<or> length raw > max_document_bytes then Inl malformed else Inr raw)
     | _ \<Rightarrow> Inl malformed)"

definition is_ascii :: "string \<Rightarrow> bool" where
  "is_ascii s = list_all (\<lambda>c. (of_char c :: nat) < 128) s"

definition newline :: char where
  "newline = CHR 0x0A"

fun lines_from :: "string \<Rightarrow> string \<Rightarrow> string list" where
  "lines_from acc [] = [rev acc]"
| "lines_from acc (c # cs) = (if c = newline then rev acc # lines_from [] cs else lines_from (c # acc) cs)"

definition split_lines :: "string \<Rightarrow> string list" where
  "split_lines s = lines_from [] s"

text \<open>\<open>_SIGNATURE\<close>: the armoured lines of an SSH signature, with or without a last newline.\<close>

definition signature_form :: "string \<Rightarrow> bool" where
  "signature_form s =
     (let ls = split_lines s; ls = (if last ls = [] then butlast ls else ls) in
      3 \<le> length ls \<and> hd ls = ''-----BEGIN SSH SIGNATURE-----'' \<and> last ls = ''-----END SSH SIGNATURE-----'' \<and>
      list_all (\<lambda>l. l \<noteq> [] \<and> length l \<le> 76 \<and> list_all (\<lambda>c. c \<in> set (CHR ''='' # b64_alphabet)) l)
        (butlast (tl ls)))"

definition check_signature_text :: "json \<Rightarrow> string res" where
  "check_signature_text text = (case text of
       JStr s \<Rightarrow> if length s > max_signature_bytes \<or> \<not> is_ascii s then Inl malformed
         else if \<not> signature_form s then Inl malformed else Inr s
     | _ \<Rightarrow> Inl malformed)"

definition parse_strict :: "(string \<Rightarrow> json option) \<Rightarrow> string \<Rightarrow> json res" where
  "parse_strict loads raw =
     (if raw = [] \<or> length raw > max_document_bytes \<or> \<not> is_ascii raw then Inl malformed
      else case loads raw of None \<Rightarrow> Inl malformed
        | Some value \<Rightarrow> if is_obj value then Inr value else Inl malformed)"

definition require_canonical :: "string \<Rightarrow> json \<Rightarrow> unit res" where
  "require_canonical raw value =
     bindR (recode ''APPROVAL_MALFORMED'' (canonical_bytes value)) (\<lambda>encoded.
     if encoded \<noteq> raw then Inl (Refused ''APPROVAL_NOT_CANONICAL'') else Inr ())"

section \<open>The arguments of an action\<close>

definition args_by_action :: "(string \<times> string list) list" where
  "args_by_action =
     [(''inspect_candidate'', [''pr'']),
      (''prepare_candidate'', [''pr'', ''git_commit_sha'']),
      (''validate_candidate'', [''pr'', ''git_commit_sha'', ''candidate_image_id'']),
      (''promote'', [''pr'', ''git_commit_sha'', ''candidate_image_id'', ''rollback_image_id'']),
      (''rollback'', [''pr'', ''candidate_image_id'', ''rollback_image_id''])]"

definition is_sha :: "json \<Rightarrow> bool" where
  "is_sha v = str_form commit_form v"

definition is_image_id :: "json \<Rightarrow> bool" where
  "is_image_id v = str_form sha256_form v"

definition is_pr :: "json \<Rightarrow> bool" where
  "is_pr v = (case v of JInt i \<Rightarrow> 1 \<le> i \<and> i \<le> 999999 | _ \<Rightarrow> False)"

definition check_args :: "json \<Rightarrow> json \<Rightarrow> json res" where
  "check_args action args =
     (case bindR (need ''VERB_NOT_PERMITTED'' (str_or_none action)) (\<lambda>a.
         need ''VERB_NOT_PERMITTED'' (map_of args_by_action a)) of
        Inl e \<Rightarrow> Inl e
      | Inr allowed \<Rightarrow>
          if \<not> is_obj args then Inl (Refused ''ARGUMENT_INVALID'')
          else if \<not> list_all (\<lambda>kv. fst kv \<in> set allowed) (items args) then Inl (Refused ''ARGUMENT_NOT_ACCEPTED'')
          else if \<not> list_all (has_key args) allowed then Inl (Refused ''ARGUMENT_INVALID'')
          else if \<not> is_pr (jget args ''pr'') then Inl (Refused ''ARGUMENT_INVALID'')
          else if has_key args ''git_commit_sha'' \<and> \<not> is_sha (jget args ''git_commit_sha'')
          then Inl (Refused ''ARGUMENT_INVALID'')
          else if \<not> list_all (\<lambda>k. has_key args k \<longrightarrow> is_image_id (jget args k))
              [''candidate_image_id'', ''rollback_image_id''] then Inl (Refused ''ARGUMENT_INVALID'')
          else Inr args)"

section \<open>The approval document\<close>

definition approval_schema_id :: string where
  "approval_schema_id = ''thomas.deploy_approval.v1''"

definition top_keys :: "string list" where
  "top_keys = [''schema'', ''approval_id'', ''nonce'', ''action'', ''environment'', ''target'', ''issued_at'',
     ''expires_at'', ''signature_namespace'']"

definition environment_keys :: "string list" where
  "environment_keys = [''project'', ''host_label'', ''profile'']"

definition target_keys :: "string list" where
  "target_keys = [''pr'', ''git_commit_sha'', ''candidate_tag'', ''candidate_image_id'', ''rollback_tag'',
     ''rollback_image_id'']"

fun check_sections :: "(string list \<times> json) list \<Rightarrow> unit res" where
  "check_sections [] = Inr ()"
| "check_sections ((keys, value) # rest) =
     (if \<not> is_obj value
      then Inl (Refused (if value = JNull then ''APPROVAL_FIELD_MISSING'' else ''APPROVAL_MALFORMED''))
      else if \<not> list_all (\<lambda>kv. fst kv \<in> set keys) (items value) then Inl (Refused ''APPROVAL_UNKNOWN_FIELD'')
      else if \<not> list_all (has_key value) keys then Inl (Refused ''APPROVAL_FIELD_MISSING'')
      else check_sections rest)"

definition check_structure :: "(json \<Rightarrow> bool) \<Rightarrow> json \<Rightarrow> unit res" where
  "check_structure schema_ok document =
     (if \<not> has_key document ''schema'' then Inl (Refused ''APPROVAL_FIELD_MISSING'')
      else if jget document ''schema'' \<noteq> JStr approval_schema_id
      then Inl (Refused ''APPROVAL_SCHEMA_UNSUPPORTED'')
      else bindR (check_sections [(top_keys, document), (environment_keys, jget document ''environment''),
          (target_keys, jget document ''target'')]) (\<lambda>_.
        if schema_ok document then Inr () else Inl malformed))"

definition mismatch :: exn where
  "mismatch = Refused ''APPROVAL_BINDING_MISMATCH''"

text \<open>The PR number as the f-string writes it: an \<open>int\<close>, since a canonical document has no floats.\<close>

definition pr_text :: "json \<Rightarrow> string" where
  "pr_text j = (case j of JInt i \<Rightarrow> show_int i | _ \<Rightarrow> [])"

definition check_requested_binding :: "json \<Rightarrow> json \<Rightarrow> unit res" where
  "check_requested_binding args target =
     (let pr = pr_text (jget target ''pr'') in
      if jget target ''candidate_tag'' \<noteq> JStr (''candidate-'' @ pr) \<or>
         jget target ''rollback_tag'' \<noteq> JStr (''rollback-pre-'' @ pr) then Inl mismatch
      else if \<not> list_all (\<lambda>kv. py_eq (jget target (fst kv)) (snd kv)) (items args) then Inl mismatch
      else Inr ())"

text \<open>
  The signature is checked on the bytes as they arrived; only then are they parsed.  \<open>verifier\<close> is
  the call of \<open>ssh-keygen\<close> with the trust material.
\<close>

definition verify_deploy_approval ::
  "runner_env \<Rightarrow> (string \<Rightarrow> string \<Rightarrow> verdict) \<Rightarrow> string \<Rightarrow> json \<Rightarrow> json \<Rightarrow> json \<Rightarrow> trust_material \<Rightarrow>
   string list \<Rightarrow> int \<Rightarrow> verified_approval res" where
  "verify_deploy_approval env verifier action args document_b64 signature trust revoked now =
     (if action \<notin> set approved_actions
      then Inl (Refused (if map_of args_by_action action = None then ''VERB_NOT_PERMITTED'' else ''ARGUMENT_NOT_ACCEPTED''))
      else bindR (check_args (JStr action) args) (\<lambda>request.
      if document_b64 = JNull \<or> signature = JNull then Inl (Refused ''APPROVAL_REQUIRED'')
      else bindR (decode_document_b64 document_b64) (\<lambda>raw.
      bindR (check_signature_text signature) (\<lambda>sig.
      bindR (case verifier raw sig of Verified \<Rightarrow> Inr () | Bad_Signature \<Rightarrow> Inl (Refused ''SIGNATURE_INVALID'')
        | No_Verifier \<Rightarrow> Inl (Refused ''VERIFIER_UNAVAILABLE'')) (\<lambda>_.
      bindR (parse_strict (re_loads env) raw) (\<lambda>document.
      bindR (check_structure (re_approval_ok env) document) (\<lambda>_.
      bindR (require_canonical raw document) (\<lambda>_.
      if jget document ''action'' \<noteq> JStr action then Inl (Refused ''APPROVAL_ACTION_MISMATCH'')
      else let place = jget document ''environment'' in
      if jget place ''project'' \<noteq> JStr (rp_project (re_place env)) \<or>
         jget place ''host_label'' \<noteq> JStr (rp_host_label (re_place env)) \<or>
         jget place ''profile'' \<noteq> JStr (rp_profile (re_place env))
      then Inl (Refused ''APPROVAL_ENVIRONMENT_MISMATCH'')
      else bindR (parse_utc_second (jget document ''issued_at'')) (\<lambda>issued_at.
      bindR (parse_utc_second (jget document ''expires_at'')) (\<lambda>expires_at.
      bindR (check_approval_window (re_policy env) action issued_at expires_at now None) (\<lambda>_.
      if jget document ''approval_id'' \<in> set (map JStr revoked) then Inl (Refused ''APPROVAL_REVOKED'')
      else bindR (check_requested_binding request (jget document ''target'')) (\<lambda>_.
      Inr \<lparr>va_approval_id = jget document ''approval_id'', va_nonce = jget document ''nonce'', va_action = action,
        va_approval_sha256 = ''sha256:'' @ re_H env raw, va_trust_sha256 = tm_sha256 trust,
        va_target = jget document ''target'', va_issued_at = issued_at, va_expires_at = expires_at\<rparr>))))))))))))"

text \<open>A measurement that was not taken is \<open>None\<close>, and never equal.\<close>

definition measured_as :: "string option \<Rightarrow> json \<Rightarrow> bool" where
  "measured_as m v = (case m of None \<Rightarrow> False | Some s \<Rightarrow> s \<noteq> [] \<and> JStr s = v)"

definition check_measured_binding ::
  "verified_approval \<Rightarrow> string option \<Rightarrow> string option \<Rightarrow> string option \<Rightarrow> string option \<Rightarrow>
   string option \<Rightarrow> unit res" where
  "check_measured_binding approval head main running candidate rollback =
     (let target = va_target approval; action = va_action approval in
      if action \<noteq> ''rollback'' \<and>
         \<not> (measured_as head (jget target ''git_commit_sha'') \<and> head = main) then Inl mismatch
      else if action = ''prepare_candidate'' then
        (if measured_as running (jget target ''rollback_image_id'') then Inr () else Inl mismatch)
      else if \<not> measured_as candidate (jget target ''candidate_image_id'') then Inl mismatch
      else if action \<in> {''promote'', ''rollback'', ''validate_candidate''} \<and>
         \<not> measured_as rollback (jget target ''rollback_image_id'') then Inl mismatch
      else if action = ''rollback'' \<and> of_opt running \<noteq> jget target ''candidate_image_id'' then Inl mismatch
      else Inr ())"

end
