(* ===== verification/Deploy_Carrier.thy ===== *)
theory Deploy_Carrier
  imports Deploy_Verify
begin

text \<open>
  The base64 carrier of a signed document (\<open>deploy_runner/canonical.py\<close>): what an encoder writes,
  \<open>decode_document_b64\<close> reads back byte for byte.
\<close>

section \<open>An encoder\<close>

fun b64_sextets :: "nat list \<Rightarrow> nat list" where
  "b64_sextets (a # b # c # rest) =
     a div 4 # (a mod 4 * 16 + b div 16) # (b mod 16 * 4 + c div 64) # c mod 64 # b64_sextets rest"
| "b64_sextets [a, b] = [a div 4, a mod 4 * 16 + b div 16, b mod 16 * 4]"
| "b64_sextets [a] = [a div 4, a mod 4 * 16]"
| "b64_sextets [] = []"

definition b64encode :: "string \<Rightarrow> string" where
  "b64encode raw = (let ss = b64_sextets (map of_char raw) in
     map (nth b64_alphabet) ss @ replicate ((4 - length ss mod 4) mod 4) CHR ''='')"

section \<open>The round trip\<close>

lemma alphabet_index: "n < 64 \<Longrightarrow> index_of (b64_alphabet ! n) b64_alphabet = n"
proof -
  have "list_all (\<lambda>n. index_of (b64_alphabet ! n) b64_alphabet = n) [0..<64]" by code_simp
  then show "n < 64 \<Longrightarrow> index_of (b64_alphabet ! n) b64_alphabet = n" by (simp add: list_all_iff)
qed

lemma alphabet_char: "n < 64 \<Longrightarrow> b64_alphabet ! n \<in> set b64_alphabet"
proof -
  have "length b64_alphabet = 64" by code_simp
  then show "n < 64 \<Longrightarrow> b64_alphabet ! n \<in> set b64_alphabet" by simp
qed

lemma alphabet_no_pad: "CHR ''='' \<notin> set b64_alphabet"
  by (simp add: b64_alphabet_def)

lemma sextets_bound: "list_all (\<lambda>b. b < 256) bs \<Longrightarrow> list_all (\<lambda>n. n < 64) (b64_sextets bs)"
  by (induction bs rule: b64_sextets.induct) auto

lemma sextets_length: "length (b64_sextets bs) mod 4 \<noteq> 1 \<and> 3 * length (b64_sextets bs) \<le> 4 * length bs + 2"
  by (induction bs rule: b64_sextets.induct) auto

lemma sextets_nonempty: "bs \<noteq> [] \<Longrightarrow> b64_sextets bs \<noteq> []"
  by (cases bs rule: b64_sextets.cases) auto

lemma bytes_of_sextets: "list_all (\<lambda>b. b < 256) bs \<Longrightarrow> b64_bytes (b64_sextets bs) = map char_of bs"
proof (induction bs rule: b64_sextets.induct)
  case (1 a b c rest)
  then have "a div 4 * 4 + (a mod 4 * 16 + b div 16) div 16 = a"
    "(a mod 4 * 16 + b div 16) mod 16 * 16 + (b mod 16 * 4 + c div 64) div 4 = b"
    "(b mod 16 * 4 + c div 64) mod 4 * 64 + c mod 64 = c" by auto
  with 1 show ?case by simp
next
  case (2 a b)
  then have "a div 4 * 4 + (a mod 4 * 16 + b div 16) div 16 = a"
    "(a mod 4 * 16 + b div 16) mod 16 * 16 + b mod 16 * 4 div 4 = b" by auto
  then show ?case by simp
next
  case (3 a)
  then have "a div 4 * 4 + a mod 4 * 16 div 16 = a" by auto
  then show ?case by simp
qed simp

lemma encoded_parts:
  assumes ss: "ss = b64_sextets (map of_char raw)"
  shows "takeWhile (\<lambda>c. c \<noteq> CHR ''='') (b64encode raw) = map (nth b64_alphabet) ss"
    and "list_all (\<lambda>n. n < 64) ss" and "length (b64encode raw) = length ss + (4 - length ss mod 4) mod 4"
proof -
  have bytes: "list_all (\<lambda>b. b < 256) (map (of_char :: char \<Rightarrow> nat) raw)" by (simp add: list_all_iff)
  from sextets_bound [OF this] show bound: "list_all (\<lambda>n. n < 64) ss" by (simp add: ss)
  have "c \<noteq> CHR ''=''" if "c \<in> set (map (nth b64_alphabet) ss)" for c
    using that bound alphabet_char alphabet_no_pad by (force simp: list_all_iff)
  then show "takeWhile (\<lambda>c. c \<noteq> CHR ''='') (b64encode raw) = map (nth b64_alphabet) ss"
    by (simp add: b64encode_def Let_def ss [symmetric] takeWhile_append takeWhile_replicate)
  show "length (b64encode raw) = length ss + (4 - length ss mod 4) mod 4"
    by (simp add: b64encode_def Let_def ss [symmetric])
qed

lemma pads_count: "(l :: nat) mod 4 \<noteq> 1 \<Longrightarrow>
    (if l mod 4 = 0 then 0 else if l mod 4 = 1 then 3 else 4 - l mod 4) = (4 - l mod 4) mod 4 \<and> (4 - l mod 4) mod 4 \<le> 2"
proof -
  assume "l mod 4 \<noteq> 1"
  then have "l mod 4 \<in> {0, 2, 3}" by auto
  then show ?thesis by auto
qed

lemma b64decode_encode: "b64decode (b64encode raw) = Some raw"
proof -
  define ss where ss: "ss = b64_sextets (map of_char raw)"
  note p = encoded_parts [OF ss] and q = sextets_length [of "map of_char raw", folded ss]
  have index: "map (\<lambda>c. index_of c b64_alphabet) (map (nth b64_alphabet) ss) = ss"
    using p(2) by (simp add: map_idI list_all_iff alphabet_index)
  have "b64_bytes ss = map char_of (map (of_char :: char \<Rightarrow> nat) raw)" unfolding ss by (rule bytes_of_sextets) (simp add: list_all_iff)
  then have "b64_bytes ss = raw" by (simp add: o_def)
  with index pads_count [of "length ss"] q show ?thesis
    by (simp add: b64decode_def Let_def p(1,3) del: map_map)
qed

lemma b64_form_encode: "raw \<noteq> [] \<Longrightarrow> b64_form (b64encode raw)"
proof -
  assume "raw \<noteq> []"
  define ss where ss: "ss = b64_sextets (map of_char raw)"
  note p = encoded_parts [OF ss] and q = sextets_length [of "map of_char raw", folded ss]
  have ne: "ss \<noteq> []" using sextets_nonempty [of "map of_char raw"] \<open>raw \<noteq> []\<close> by (simp add: ss)
  have rest: "drop (length ss) (b64encode raw) = replicate ((4 - length ss mod 4) mod 4) CHR ''=''"
    by (simp add: b64encode_def Let_def ss [symmetric])
  have "list_all (\<lambda>c. c \<in> set b64_alphabet) (map (nth b64_alphabet) ss)"
    using p(2) by (simp add: list_all_iff alphabet_char)
  with ne rest pads_count [of "length ss"] q show ?thesis
    by (simp add: b64_form_def Let_def p(1) list_all_iff del: length_drop)
qed

text \<open>
  Every document of at most 2048 bytes survives its base64 carrier: what an encoder wrote is decoded to
  the same bytes.
\<close>

lemma carrier_round_trip:
  assumes "raw \<noteq> []" "length raw \<le> max_document_bytes"
  shows "decode_document_b64 (JStr (b64encode raw)) = Inr raw"
proof -
  define ss where ss: "ss = b64_sextets (map of_char raw)"
  note p = encoded_parts [OF ss] and q = sextets_length [of "map of_char raw", folded ss]
  have "length (b64encode raw) \<le> max_document_bytes * 4 div 3 + 4"
    using q pads_count [of "length ss"] assms(2) by (simp add: p(3) max_document_bytes_def)
  moreover have "b64encode raw \<noteq> []" using b64_form_encode [OF assms(1)] by (auto simp: b64_form_def)
  ultimately show ?thesis
    using b64_form_encode [OF assms(1)] assms by (simp add: decode_document_b64_def b64decode_encode)
qed

end
