(* ===== verification/Deploy_Startup.thy ===== *)
theory Deploy_Startup
  imports Deploy_Verify
begin

text \<open>
  The actor's startup check (\<open>deploy_runner/startup.py\<close>) and the start of the actor
  (\<open>serve.py: build_actor\<close>): before it listens, every record must agree, or it refuses or starts
  latched.
\<close>

section \<open>The cross-check\<close>

definition approval_rows :: "json list \<Rightarrow> json list" where
  "approval_rows rows = filter (\<lambda>r. jget r ''type'' = JStr ''APPROVAL'') rows"

definition spent_pairs :: "json list \<Rightarrow> (json \<times> json) list" where
  "spent_pairs rows = map (\<lambda>r. (jget r ''seq'', jget r ''row_sha256'')) (approval_rows rows)"

definition in_state :: "string \<Rightarrow> json \<Rightarrow> bool" where
  "in_state s r = (jget r ''execution_state'' = JStr s)"

fun name_consumed ::
  "(json \<times> json) list \<Rightarrow> (json \<times> json) list \<Rightarrow> json list \<Rightarrow> (json \<times> json) list option" where
  "name_consumed approvals named [] = Some named"
| "name_consumed approvals named (r # rs) =
     (let seq = jget r ''consumption_seq''; sha = jget r ''consumption_row_sha256'' in
      if seq = JNull \<or> seq \<in> fst ` set named \<or>
         (case map_of approvals seq of None \<Rightarrow> JNull | Some h \<Rightarrow> h) \<noteq> sha then None
      else name_consumed approvals ((seq, sha) # named) rs)"

definition cross_check :: "json list \<Rightarrow> json list \<Rightarrow> bool" where
  "cross_check store_rows audit_rows =
     (let approvals = spent_pairs store_rows in
      case name_consumed approvals [] (filter (in_state ''CONSUMED'') audit_rows) of
        None \<Rightarrow> False
      | Some named \<Rightarrow> list_all (\<lambda>p. p \<in> set approvals) named \<and> list_all (\<lambda>p. p \<in> set named) approvals)"

section \<open>Unfinished work and unresolved effects\<close>

definition ends_request :: "json \<Rightarrow> json \<Rightarrow> bool" where
  "ends_request request_id r = (jget r ''request_id'' = request_id \<and>
     jget r ''execution_state'' \<in> set (map JStr audit_terminal_states))"

definition consumed_unfinished :: "json list \<Rightarrow> json list" where
  "consumed_unfinished audit_rows =
     filter (\<lambda>i. \<not> list_ex (ends_request i) audit_rows)
       (map (\<lambda>r. jget r ''request_id'') (filter (in_state ''CONSUMED'') audit_rows))"

fun mark_claimed ::
  "runner_env \<Rightarrow> string \<Rightarrow> (string \<times> json) list \<Rightarrow> runner_world \<Rightarrow> json list res \<times> runner_world" where
  "mark_claimed env now [] w = (Inr [], w)"
| "mark_claimed env now ((i, row) # rest) w =
     (if jget row ''state'' = JStr CLAIMED
      then bindW (mark_unknown env i now w) (\<lambda>_ w.
           bindW (mark_claimed env now rest w) (\<lambda>more w. (Inr (JStr i # more), w)))
      else mark_claimed env now rest w)"

text \<open>\<open>sorted(set(...))\<close>: a mix of \<open>None\<close> and \<open>str\<close> has no order.\<close>

definition sorted_ids :: "json list \<Rightarrow> json list res" where
  "sorted_ids ids =
     (let distinct_ids = dict_fromkeys ids in
      if list_all is_str distinct_ids
      then Inr (map JStr (sort (map (\<lambda>j. case j of JStr s \<Rightarrow> s | _ \<Rightarrow> []) distinct_ids)))
      else if length distinct_ids = 1 then Inr distinct_ids else Inl (PyError ''TypeError''))"

fun note_unknown ::
  "runner_env \<Rightarrow> string \<Rightarrow> json \<Rightarrow> json list \<Rightarrow> runner_world \<Rightarrow> json list res \<times> runner_world" where
  "note_unknown env now store_id [] w = (Inr [], w)"
| "note_unknown env now store_id (i # is) w =
     bindW (audit_append env ''RECONCILED_UNKNOWN'' ''NOT_REQUIRED'' now
       [(''request_id'', i), (''reason_code'', JStr ''RECONCILED_UNKNOWN''), (''store_id'', store_id)] w) (\<lambda>_ w.
     bindW (note_unknown env now store_id is w) (\<lambda>more w.
       (Inr (JObj [(''request_id'', i), (''execution_state'', JStr ''RECONCILED_UNKNOWN'')] # more), w)))"

definition unresolved :: "json list \<Rightarrow> bool" where
  "unresolved audit_rows =
     (let resolved = map (\<lambda>r. jget r ''request_id'') (filter (in_state ''LATCH_RESOLVED'') audit_rows) in
      list_ex (\<lambda>r. jget r ''execution_state'' \<in> set (map JStr audit_unresolved_states) \<and>
        jget r ''request_id'' \<notin> set resolved) audit_rows)"

section \<open>The startup check\<close>

record startup_result =
  sr_store_id :: json
  sr_latched :: bool
  sr_clock_trusted :: bool
  sr_reasons :: "json list"
  sr_latch :: "json option"

definition recorded_store_id :: "json list \<Rightarrow> json option" where
  "recorded_store_id audit_rows =
     (let starts = filter (\<lambda>r. in_state ''RUNNER_START'' r \<and> truthy (jget r ''store_id'')) audit_rows in
      if starts = [] then None else Some (jget (last starts) ''store_id''))"

text \<open>The audit as step 1 finds it: its rows and whether it is sound.\<close>

definition startup_audit :: "runner_env \<Rightarrow> runner_world \<Rightarrow> (json list \<times> bool) res \<times> runner_world" where
  "startup_audit env w = (case read_audit env w of
       (Inr rows, w) \<Rightarrow> (Inr (rows, True), w)
     | (Inl (Refused _), w) \<Rightarrow> (Inr ([], False), w)
     | (Inl e, w) \<Rightarrow> (Inl e, w))"

definition startup_store ::
  "runner_env \<Rightarrow> string \<Rightarrow> string \<Rightarrow> json \<Rightarrow> json list \<Rightarrow> bool \<Rightarrow> runner_world \<Rightarrow>
   store_state res \<times> runner_world" where
  "startup_store env now expected trust_sha audit_rows audit_ok w =
     (let recorded = recorded_store_id audit_rows;
          wanted = (if expected \<noteq> [] then Some (JStr expected) else recorded) in
      case (if expected \<noteq> [] \<and> recorded \<noteq> None \<and> recorded \<noteq> Some (JStr expected)
            then (Inl (Refused ''STORE_ID_MISMATCH''), w) else read_store env wanted w) of
        (Inl (Refused code), w) \<Rightarrow>
          if audit_ok
          then bindW (audit_append env ''RUNNER_START'' ''REFUSED'' now
            [(''reason_code'', JStr code), (''trust_config_sha256'', trust_sha)] w) (\<lambda>_ w. (Inl blocked, w))
          else (Inl blocked, w)
      | other \<Rightarrow> other)"

definition startup_reasons ::
  "runner_env \<Rightarrow> string \<Rightarrow> store_state \<Rightarrow> json list \<Rightarrow> bool \<Rightarrow> runner_world \<Rightarrow>
   string list res \<times> runner_world" where
  "startup_reasons env now store audit_rows audit_ok w =
     (if \<not> audit_ok then (Inr [''AUDIT_CHAIN_BROKEN''], w)
      else let crossed = (if cross_check (st_rows store) audit_rows then [] else [''RECONCILIATION_MISMATCH'']) in
        bindW (latest_requests env w) (\<lambda>requests w.
        bindW (mark_claimed env now requests w) (\<lambda>claimed w.
        bindW (sorted_ids (consumed_unfinished audit_rows @ claimed), w) (\<lambda>unfinished w.
        bindW (note_unknown env now (st_store_id store) unfinished w) (\<lambda>noted w.
        (Inr (crossed @ (if unresolved (audit_rows @ noted) then [''RECONCILED_UNKNOWN''] else [])), w))))))"

text \<open>Steps 5 and 6: the latch in force.\<close>

definition startup_latch ::
  "runner_env \<Rightarrow> string \<Rightarrow> store_state \<Rightarrow> string list \<Rightarrow> bool \<Rightarrow> runner_world \<Rightarrow>
   (json list \<times> json option) res \<times> runner_world" where
  "startup_latch env now store reasons audit_ok w =
     bindW (read_latch env w) (\<lambda>existing w. case existing of
       Some l \<Rightarrow> (Inr (map JStr reasons @ [jget l ''reason_code''], Some l), w)
     | None \<Rightarrow>
         if reasons = [] then (Inr ([], None), w)
         else bindW (set_latch env (hd reasons) JNull now w) (\<lambda>l w.
           if audit_ok
           then bindW (audit_append env ''LATCH_SET'' ''NOT_REQUIRED'' now
             [(''reason_code'', JStr (hd reasons)), (''latch_id'', jget l ''latch_id''),
              (''store_id'', st_store_id store)] w) (\<lambda>_ w. (Inr (map JStr reasons, Some l), w))
           else (Inr (map JStr reasons, Some l), w)))"

definition startup_clock :: "runner_env \<Rightarrow> int \<Rightarrow> runner_world \<Rightarrow> bool res \<times> runner_world" where
  "startup_clock env now w =
     bindW (read_last_seen env w) (\<lambda>last_seen w.
     let trusted = (case last_seen of None \<Rightarrow> True
         | Some t \<Rightarrow> now \<ge> (t - secs (tp_backstep (re_policy env))) * micro);
       newer = (case last_seen of None \<Rightarrow> True | Some t \<Rightarrow> now > t * micro) in
     if trusted \<and> newer then bindW (write_last_seen env (stamp now) w) (\<lambda>_ w. (Inr trusted, w))
     else (Inr trusted, w))"

definition reconcile ::
  "runner_env \<Rightarrow> string \<Rightarrow> json \<Rightarrow> int \<Rightarrow> runner_world \<Rightarrow> startup_result res \<times> runner_world" where
  "reconcile env expected trust_sha now w =
     bindW (startup_audit env w) (\<lambda>(audit_rows, audit_ok) w.
     bindW (startup_store env (stamp now) expected trust_sha audit_rows audit_ok w) (\<lambda>store w.
     bindW (startup_reasons env (stamp now) store audit_rows audit_ok w) (\<lambda>reasons w.
     bindW (startup_latch env (stamp now) store reasons audit_ok w) (\<lambda>(all_reasons, latch) w.
     bindW (startup_clock env now w) (\<lambda>trusted w.
     let result = \<lparr>sr_store_id = st_store_id store, sr_latched = (all_reasons \<noteq> []), sr_clock_trusted = trusted,
       sr_reasons = all_reasons, sr_latch = latch\<rparr> in
     if audit_ok
     then bindW (audit_append env ''RUNNER_START'' ''NOT_REQUIRED'' (stamp now)
       [(''store_id'', st_store_id store), (''trust_config_sha256'', trust_sha),
        (''latch_id'', (case latch of None \<Rightarrow> JNull | Some l \<Rightarrow> if truthy l then jget l ''latch_id'' else JNull)),
        (''reason_code'', if trusted then JNull else JStr ''CLOCK_UNTRUSTED'')] w) (\<lambda>_ w. (Inr result, w))
     else (Inr result, w))))))"

section \<open>The start of the actor\<close>

definition load_trust :: "runner_env \<Rightarrow> runner_world \<Rightarrow> trust_material res \<times> runner_world" where
  "load_trust env w = (re_trust env (rw_tick w), next_tick w)"

definition acquire_instance_lock :: "runner_env \<Rightarrow> runner_world \<Rightarrow> unit res \<times> runner_world" where
  "acquire_instance_lock env w =
     (if re_io env (rw_tick w) = Io_Unread then Inl (Refused ''INSTANCE_LOCK_HELD'') else Inr (), next_tick w)"

text \<open>
  \<open>build_actor\<close> and \<open>Actor.__init__\<close>: a new process, whose memory is what the startup check found.
\<close>

definition start_actor :: "runner_env \<Rightarrow> string \<Rightarrow> runner_world \<Rightarrow> startup_result res \<times> runner_world" where
  "start_actor env store_id w =
     bindW (check_time_policy (re_policy env), w) (\<lambda>_ w.
     bindW (load_trust env w) (\<lambda>trust w.
     bindW (acquire_instance_lock env w) (\<lambda>_ w.
     bindW (wall_now env w) (\<lambda>now w.
     bindW (reconcile env store_id (JStr (tm_sha256 trust)) now w) (\<lambda>result w.
     bindW (wall_now env w) (\<lambda>wall w.
     bindW (mono_now env w) (\<lambda>mono w.
     (Inr result, w\<lparr>rw_latched := sr_latched result, rw_clock_trusted := sr_clock_trusted result,
        rw_store_id := sr_store_id result, rw_last_inspect := None, rw_anchor_wall := wall,
        rw_anchor_mono := mono\<rparr>))))))))"

end
