(* ===== verification/Deploy_Actor.thy ===== *)
theory Deploy_Actor
  imports Deploy_Startup Control
begin

text \<open>
  The privileged actor (\<open>deploy_runner/actor.py\<close>), the closed set of commands it can run
  (\<open>docker_argv.py\<close>) and the way it runs them (\<open>commands.py\<close>).

  A message is handled in one piece: the record files are locked one operation at a time and the
  operation lock admits one effect at a time, and two messages handled side by side are not modelled
  finer than that.
\<close>

section \<open>Command templates\<close>

definition image_repository :: string where
  "image_repository = ''thomas-agent-runtime''"

definition runtime_containers :: "string list" where
  "runtime_containers = [''thomas-operator'', ''thomas-scheduler'', ''thomas-scheduler-maint'',
     ''thomas-pipeline-worker'']"

definition container_format :: string where
  "container_format = ''{{.Image}} {{.State.Status}} {{if .State.Health}}{{.State.Health.Status}}{{else}}none{{end}} '' @
     ''{{index .Config.Labels '' @ [CHR 0x22] @ ''com.docker.compose.project'' @ [CHR 0x22] @ ''}}''"

definition image_format :: string where
  "image_format = ''{{.Id}}''"

definition argument_invalid :: exn where
  "argument_invalid = Refused ''ARGUMENT_INVALID''"

definition pr_number :: "json \<Rightarrow> int res" where
  "pr_number pr = (if is_pr pr then Inr (secs pr) else Inl argument_invalid)"

definition candidate_ref :: "json \<Rightarrow> string res" where
  "candidate_ref pr = bindR (pr_number pr) (\<lambda>n. Inr (image_repository @ '':candidate-'' @ show_int n))"

definition rollback_ref :: "json \<Rightarrow> string res" where
  "rollback_ref pr = bindR (pr_number pr) (\<lambda>n. Inr (image_repository @ '':rollback-pre-'' @ show_int n))"

definition latest_ref :: string where
  "latest_ref = image_repository @ '':latest''"

definition tree_path :: "string \<Rightarrow> json \<Rightarrow> string res" where
  "tree_path root pr = (if take 1 root \<noteq> ''/'' then Inl argument_invalid
     else bindR (pr_number pr) (\<lambda>n. Inr (root @ (if root = ''/'' then [] else ''/'') @ show_int n)))"

definition container_inspect :: "string \<Rightarrow> string \<Rightarrow> string list res" where
  "container_inspect docker name = (if name \<notin> set runtime_containers then Inl argument_invalid
     else Inr [docker, ''container'', ''inspect'', ''--format'', container_format, name])"

text \<open>\<open>candidate-[1-9][0-9]{0,5}\<close>\<close>

definition numbered :: "string \<Rightarrow> string \<Rightarrow> bool" where
  "numbered tag s = (let n = drop (length tag) s in take (length tag) s = tag \<and> n \<noteq> [] \<and> length n \<le> 6 \<and>
     hd n \<noteq> CHR ''0'' \<and> list_all is_digit n)"

definition image_inspect :: "string \<Rightarrow> string \<Rightarrow> string list res" where
  "image_inspect docker ref =
     (if ref = latest_ref \<or> numbered (image_repository @ '':candidate-'') ref \<or>
         numbered (image_repository @ '':rollback-pre-'') ref \<or> sha256_form ref
      then Inr [docker, ''image'', ''inspect'', ''--format'', image_format, ref] else Inl argument_invalid)"

definition tag_rollback_point :: "string \<Rightarrow> string \<Rightarrow> json \<Rightarrow> string list res" where
  "tag_rollback_point docker image_id pr =
     (if \<not> sha256_form image_id then Inl argument_invalid
      else bindR (rollback_ref pr) (\<lambda>ref. Inr [docker, ''image'', ''tag'', image_id, ref]))"

definition build_candidate :: "string \<Rightarrow> string \<Rightarrow> json \<Rightarrow> string list res" where
  "build_candidate docker root pr =
     bindR (candidate_ref pr) (\<lambda>ref. bindR (tree_path root pr) (\<lambda>tree.
     Inr [docker, ''image'', ''build'', ''--pull=false'', ''--tag'', ref, tree]))"

definition git_head :: "string \<Rightarrow> string \<Rightarrow> json \<Rightarrow> string list res" where
  "git_head git root pr = bindR (tree_path root pr) (\<lambda>tree. Inr [git, ''-C'', tree, ''rev-parse'', ''HEAD''])"

definition git_origin_main :: "string \<Rightarrow> string \<Rightarrow> json \<Rightarrow> string list res" where
  "git_origin_main git root pr =
     bindR (tree_path root pr) (\<lambda>tree. Inr [git, ''-C'', tree, ''rev-parse'', ''refs/remotes/origin/main''])"

definition git_status :: "string \<Rightarrow> string \<Rightarrow> json \<Rightarrow> string list res" where
  "git_status git root pr =
     bindR (tree_path root pr) (\<lambda>tree. Inr [git, ''-C'', tree, ''status'', ''--porcelain'', ''--untracked-files=all''])"

section \<open>Running a command\<close>

text \<open>A command that was started is on the trace, whatever it answers.\<close>

definition started :: "json \<Rightarrow> string list \<Rightarrow> runner_world \<Rightarrow> runner_world" where
  "started request_id argv w = w\<lparr>rw_commands := rw_commands w @ [(request_id, argv)]\<rparr>"

definition run_argv ::
  "runner_env \<Rightarrow> json \<Rightarrow> string list \<Rightarrow> runner_world \<Rightarrow> (int \<times> string) res \<times> runner_world" where
  "run_argv env request_id argv w =
     (let v = started request_id argv (next_tick w) in
      case re_answer env (rw_tick w) argv of
        Exited code out \<Rightarrow> (Inr (code, out), v)
      | Timed_Out \<Rightarrow> (Inl (Refused ''DOCKER_TIMEOUT''), v)
      | Not_Started \<Rightarrow> (Inl (Refused ''IMAGE_STATE_UNAVAILABLE''), next_tick w)
      | Actor_Dies \<Rightarrow> (Inl killed, v))"

definition run_cmd ::
  "runner_env \<Rightarrow> json \<Rightarrow> string list res \<Rightarrow> runner_world \<Rightarrow> (int \<times> string) res \<times> runner_world" where
  "run_cmd env request_id template w = bindW (template, w) (run_argv env request_id)"

section \<open>Measuring\<close>

definition image_id ::
  "runner_env \<Rightarrow> json \<Rightarrow> string res \<Rightarrow> runner_world \<Rightarrow> string option res \<times> runner_world" where
  "image_id env request_id ref w =
     bindW (run_cmd env request_id (bindR ref (image_inspect (re_docker env))) w) (\<lambda>(code, out) w.
     if code \<noteq> 0 then (Inr None, w)
     else if sha256_form (strip out) then (Inr (Some (strip out)), w)
     else (Inl (Refused ''IMAGE_STATE_UNAVAILABLE''), w))"

fun split_on :: "char \<Rightarrow> string \<Rightarrow> string \<Rightarrow> string list" where
  "split_on c acc [] = [rev acc]"
| "split_on c acc (x # xs) = (if x = c then rev acc # split_on c [] xs else split_on c (x # acc) xs)"

definition rstrip_newlines :: "string \<Rightarrow> string" where
  "rstrip_newlines s = rev (dropWhile (\<lambda>c. c = newline) (rev s))"

definition container_states :: "string list" where
  "container_states = [''running'', ''exited'', ''restarting'', ''paused'', ''created'', ''dead'']"

definition health_states :: "string list" where
  "health_states = [''healthy'', ''unhealthy'', ''starting'', ''none'']"

text \<open>One container's answer: its img, its state and its health, or the code to refuse with.\<close>

definition parse_container :: "string \<Rightarrow> string \<Rightarrow> (string \<times> string \<times> string) res" where
  "parse_container project out = (case split_on (CHR '' '') [] (rstrip_newlines out) of
       [img, state, health, owner] \<Rightarrow>
         if \<not> sha256_form img \<or> state \<notin> set container_states \<or> health \<notin> set health_states
         then Inl (Refused ''IMAGE_STATE_UNAVAILABLE'')
         else if owner \<noteq> project then Inl (Refused ''COMPOSE_PROJECT_MISMATCH'')
         else Inr (img, state, health)
     | _ \<Rightarrow> Inl (Refused ''IMAGE_STATE_UNAVAILABLE''))"

fun measure_containers ::
  "runner_env \<Rightarrow> json \<Rightarrow> string list \<Rightarrow> runner_world \<Rightarrow>
   (string \<times> (string \<times> string \<times> string) option) list res \<times> runner_world" where
  "measure_containers env request_id [] w = (Inr [], w)"
| "measure_containers env request_id (name # names) w =
     bindW (run_cmd env request_id (container_inspect (re_docker env) name) w) (\<lambda>(code, out) w.
     bindW (if code \<noteq> 0 then Inr None
            else bindR (parse_container (rp_project (re_place env)) out) (\<lambda>c. Inr (Some c)), w) (\<lambda>c w.
     bindW (measure_containers env request_id names w) (\<lambda>rest w. (Inr ((name, c) # rest), w))))"

record measurement =
  ms_containers :: "(string \<times> (string \<times> string \<times> string) option) list"
  ms_latest :: string
  ms_candidate :: "string option"
  ms_rollback :: "string option"

definition measure_images ::
  "runner_env \<Rightarrow> json \<Rightarrow> json \<Rightarrow> runner_world \<Rightarrow> measurement res \<times> runner_world" where
  "measure_images env request_id pr w =
     bindW (measure_containers env request_id runtime_containers w) (\<lambda>containers w.
     bindW (image_id env request_id (Inr latest_ref) w) (\<lambda>latest w.
     case latest of None \<Rightarrow> (Inl (Refused ''IMAGE_STATE_UNAVAILABLE''), w)
     | Some l \<Rightarrow>
       bindW (image_id env request_id (candidate_ref pr) w) (\<lambda>candidate w.
       bindW (image_id env request_id (rollback_ref pr) w) (\<lambda>rollback w.
       (Inr \<lparr>ms_containers = containers, ms_latest = l, ms_candidate = candidate, ms_rollback = rollback\<rparr>, w)))))"

text \<open>The dictionary \<open>{"running", "tags", "containers"}\<close> an inspection answers with.\<close>

definition measured_items :: "measurement \<Rightarrow> (string \<times> json) list" where
  "measured_items m =
     [(''running'', JObj (map (\<lambda>(name, c). (name, case c of None \<Rightarrow> JNull | Some (img, _, _) \<Rightarrow> JStr img))
        (ms_containers m))),
      (''tags'', JObj [(''latest'', JStr (ms_latest m)), (''candidate'', of_opt (ms_candidate m)),
        (''rollback_pre'', of_opt (ms_rollback m))]),
      (''containers'', JArr (concat (map (\<lambda>(name, c). case c of None \<Rightarrow> []
          | Some (_, state, health) \<Rightarrow> [JObj [(''name'', JStr name), (''state'', JStr state),
              (''health'', JStr health)]]) (ms_containers m))))]"

definition measure_tree ::
  "runner_env \<Rightarrow> json \<Rightarrow> json \<Rightarrow> runner_world \<Rightarrow> (string \<times> string) res \<times> runner_world" where
  "measure_tree env request_id pr w =
     bindW (run_cmd env request_id (git_status (re_git env) (re_trees env) pr) w) (\<lambda>(code, status) w.
     if code \<noteq> 0 then (Inl (Refused ''TREE_UNAVAILABLE''), w)
     else if strip status \<noteq> [] then (Inl (Refused ''TREE_NOT_CLEAN''), w)
     else bindW (run_cmd env request_id (git_head (re_git env) (re_trees env) pr) w) (\<lambda>(code_h, head) w.
     bindW (run_cmd env request_id (git_origin_main (re_git env) (re_trees env) pr) w) (\<lambda>(code_m, main) w.
     let head = strip head; main = strip main in
     if code_h \<noteq> 0 \<or> code_m \<noteq> 0 \<or> \<not> commit_form head \<or> \<not> commit_form main
     then (Inl (Refused ''TREE_UNAVAILABLE''), w)
     else if head \<noteq> main then (Inl (Refused ''TREE_NOT_ORIGIN_MAIN''), w)
     else (Inr (head, main), w))))"

text \<open>The one img the four services run, if they run one.\<close>

definition the_running_image :: "measurement \<Rightarrow> string res" where
  "the_running_image m =
     (let images = dict_fromkeys (map (\<lambda>(_, c). case c of None \<Rightarrow> None | Some (img, _, _) \<Rightarrow> Some img)
        (ms_containers m)) in
      case images of [Some img] \<Rightarrow> Inr img | _ \<Rightarrow> Inl (Refused ''RUNNING_IMAGES_INCONSISTENT''))"

section \<open>Replies\<close>

definition echo :: "json \<Rightarrow> json" where
  "echo message = (let r = jget message ''request_id'' in
     if is_obj message \<and> str_form (token_form 128) r then r else JNull)"

definition actor_refusal :: "string \<Rightarrow> json \<Rightarrow> string option \<Rightarrow> json option \<Rightarrow> json" where
  "actor_refusal code message state data =
     (let rc = response_code code;
          reply = [(''ok'', JBool False), (''reason_code'', JStr rc), (''state'', of_opt state),
            (''replayed'', JBool False), (''request_id'', echo message)] in
      case data of Some d \<Rightarrow> JObj (if rc = ''FAILED_EFFECT_PARTIAL'' then reply @ [(''data'', d)] else reply)
      | None \<Rightarrow> JObj reply)"

definition actor_ok :: "json \<Rightarrow> json \<Rightarrow> string option \<Rightarrow> json" where
  "actor_ok message data state = JObj
     [(''ok'', JBool True), (''request_id'', jget message ''request_id''), (''state'', of_opt state),
      (''data'', data), (''replayed'', JBool False)]"

text \<open>\<open>try: ... except RunnerRefused as exc: return f(exc.reason_code)\<close>\<close>

definition on_refusal ::
  "'a res \<times> runner_world \<Rightarrow> (string \<Rightarrow> runner_world \<Rightarrow> 'b res \<times> runner_world) \<Rightarrow>
   ('a \<Rightarrow> runner_world \<Rightarrow> 'b res \<times> runner_world) \<Rightarrow> 'b res \<times> runner_world" where
  "on_refusal m f g = (case m of
       (Inr x, w) \<Rightarrow> g x w | (Inl (Refused c), w) \<Rightarrow> f c w | (Inl e, w) \<Rightarrow> (Inl e, w))"

section \<open>Endings\<close>

definition refuse_before_consume ::
  "runner_env \<Rightarrow> json \<Rightarrow> (string \<times> json) list \<Rightarrow> string \<Rightarrow> string \<Rightarrow> runner_world \<Rightarrow>
   json res \<times> runner_world" where
  "refuse_before_consume env message base fingerprint code w =
     bindW (wall_now env w) (\<lambda>now w.
     let reply = actor_refusal code message (Some REFUSED_BEFORE_CONSUME) None in
     bindW (audit_append env ''REFUSED'' ''REFUSED'' (stamp now)
       (base @ [(''reason_code'', jget reply ''reason_code'')]) w) (\<lambda>_ w.
     bindW (finish_request env (py_str (jget message ''request_id'')) fingerprint REFUSED_BEFORE_CONSUME (stamp now)
       reply w) (\<lambda>_ w. (Inr reply, w))))"

definition effect_ids :: "json \<Rightarrow> json \<Rightarrow> json \<Rightarrow> json \<Rightarrow> json" where
  "effect_ids pr head candidate rollback = JObj
     [(''pr'', pr), (''git_commit_sha'', head), (''candidate_image_id'', candidate), (''rollback_image_id'', rollback)]"

text \<open>
  What an ending after the spend reports: the request's state, the code, the audit state, the latch's
  code and the ids.  \<open>measured\<close> is \<open>None\<close> when nothing was started (\<open>known_absent\<close>).
\<close>

definition spend_verdict ::
  "string \<Rightarrow> json \<Rightarrow> json \<Rightarrow> measurement option option \<Rightarrow> string \<times> string \<times> string \<times> string \<times> json option" where
  "spend_verdict cause pr head measured = (case measured of
       None \<Rightarrow> (UNKNOWN, cause, ''FAILED_NOT_STARTED'', ''RECONCILIATION_MISMATCH'', None)
     | Some None \<Rightarrow> (UNKNOWN, ''EFFECT_STATE_UNKNOWN'', ''EFFECT_STATE_UNKNOWN'', ''EFFECT_STATE_UNKNOWN'', None)
     | Some (Some m) \<Rightarrow> (PARTIAL, ''FAILED_EFFECT_PARTIAL'', ''FAILED_EFFECT_PARTIAL'', ''FAILED_EFFECT_PARTIAL'',
         Some (effect_ids pr head (of_opt (ms_candidate m)) (of_opt (ms_rollback m)))))"

definition latch_and_finish ::
  "runner_env \<Rightarrow> json \<Rightarrow> (string \<times> json) list \<Rightarrow> string \<Rightarrow> string \<Rightarrow> string \<Rightarrow>
   string \<times> string \<times> string \<times> string \<times> json option \<Rightarrow> runner_world \<Rightarrow> json res \<times> runner_world" where
  "latch_and_finish env message signed fingerprint cause now verdict w =
     (case verdict of (state, code, audit_state, latch_code, data) \<Rightarrow>
      let request_id = jget message ''request_id'' in
      bindW (on_refusal (audit_append env audit_state ''PASS'' now
          (signed @ [(''reason_code'', JStr cause), (''target'', case data of None \<Rightarrow> JNull | Some d \<Rightarrow> d)])
          (w\<lparr>rw_latched := True\<rparr>))
        (\<lambda>_ w. (Inr (UNKNOWN, ''EFFECT_STATE_UNKNOWN'', None), w)) (\<lambda>_ w. (Inr (state, code, data), w)))
      (\<lambda>(state, code, data) w.
      bindW (on_refusal (bindW (set_latch env latch_code request_id now w) (\<lambda>l w.
          audit_append env ''LATCH_SET'' ''NOT_REQUIRED'' now
            [(''reason_code'', jget l ''reason_code''), (''latch_id'', jget l ''latch_id''),
             (''request_id'', request_id), (''store_id'', rw_store_id w)] w))
        (\<lambda>_ w. (Inr (), w)) (\<lambda>_ w. (Inr (), w)))
      (\<lambda>_ w.
      bindW (on_refusal (finish_request env (py_str request_id) fingerprint state now JNull w)
        (\<lambda>_ w. (Inr (), w)) (\<lambda>_ w. (Inr (), w)))
      (\<lambda>_ w. (Inr (actor_refusal code message (Some state) data), w)))))"

text \<open>\<open>_fail_after_spend\<close>, when nothing was started and when something was.\<close>

definition fail_not_started ::
  "runner_env \<Rightarrow> json \<Rightarrow> (string \<times> json) list \<Rightarrow> string \<Rightarrow> string \<Rightarrow> runner_world \<Rightarrow>
   json res \<times> runner_world" where
  "fail_not_started env message signed fingerprint cause w =
     bindW (wall_now env w) (\<lambda>now w.
     latch_and_finish env message signed fingerprint cause (stamp now) (spend_verdict cause JNull JNull None) w)"

definition fail_after_effect ::
  "runner_env \<Rightarrow> json \<Rightarrow> (string \<times> json) list \<Rightarrow> string \<Rightarrow> string \<Rightarrow> json \<Rightarrow> string \<Rightarrow> runner_world \<Rightarrow>
   json res \<times> runner_world" where
  "fail_after_effect env message signed fingerprint cause pr head w =
     bindW (wall_now env w) (\<lambda>now w.
     bindW (on_refusal (measure_images env (jget message ''request_id'') pr w)
        (\<lambda>_ w. (Inr None, w)) (\<lambda>m w. (Inr (Some m), w))) (\<lambda>measured w.
     latch_and_finish env message signed fingerprint cause (stamp now)
       (spend_verdict cause pr (JStr head) (Some measured)) w))"

section \<open>The effect\<close>

text \<open>Time left before the deadline; none left is \<open>DEADLINE_EXCEEDED\<close>.\<close>

definition time_left :: "runner_env \<Rightarrow> int \<Rightarrow> runner_world \<Rightarrow> unit res \<times> runner_world" where
  "time_left env deadline w = bindW (mono_now env w) (\<lambda>now w.
     (if deadline - now \<le> 0 then Inl (Refused ''DEADLINE_EXCEEDED'') else Inr (), w))"

text \<open>The two commands with an effect, and the check that follows.\<close>

definition effect_commands ::
  "runner_env \<Rightarrow> json \<Rightarrow> json \<Rightarrow> string \<Rightarrow> int \<Rightarrow> runner_world \<Rightarrow> string res \<times> runner_world" where
  "effect_commands env request_id pr running deadline w =
     bindW (time_left env deadline w) (\<lambda>_ w.
     bindW (run_cmd env request_id (tag_rollback_point (re_docker env) running pr) w) (\<lambda>(code, _) w.
     if code \<noteq> 0 then (Inl (Refused ''DOCKER_COMMAND_FAILED''), w)
     else bindW (time_left env deadline w) (\<lambda>_ w.
     bindW (run_cmd env request_id (build_candidate (re_docker env) (re_trees env) pr) w) (\<lambda>(code, _) w.
     if code \<noteq> 0 then (Inl (Refused ''BUILD_FAILED''), w)
     else bindW (image_id env request_id (candidate_ref pr) w) (\<lambda>candidate w.
     case candidate of None \<Rightarrow> (Inl (Refused ''POST_CHECK_FAILED''), w) | Some c \<Rightarrow> (Inr c, w))))))"

definition act ::
  "runner_env \<Rightarrow> json \<Rightarrow> (string \<times> json) list \<Rightarrow> string \<Rightarrow> json \<Rightarrow> string \<Rightarrow> string \<Rightarrow> runner_world \<Rightarrow>
   json res \<times> runner_world" where
  "act env message signed fingerprint pr head running w =
     bindW (mono_now env w) (\<lambda>start w.
     let deadline = start + secs (jget (JObj (tp_deadlines (re_policy env))) ''prepare_candidate'') * micro;
         request_id = jget message ''request_id'' in
     bindW (wall_now env w) (\<lambda>now w.
     on_refusal (audit_append env ''EXECUTING'' ''PASS'' (stamp now)
         (signed @ [(''target'', effect_ids pr (JStr head) JNull (JStr running))]) w)
       (\<lambda>_ w. fail_not_started env message signed fingerprint ''AUDIT_WRITE_FAILED'' w)
       (\<lambda>_ w.
     on_refusal (effect_commands env request_id pr running deadline w)
       (\<lambda>cause w. fail_after_effect env message signed fingerprint cause pr head w)
       (\<lambda>candidate w.
     let data = JObj [(''pr'', pr), (''git_commit_sha'', JStr head), (''rollback_image_id'', JStr running),
           (''candidate_image_id'', JStr candidate)];
         reply = actor_ok message data (Some COMPLETED) in
     bindW (wall_now env w) (\<lambda>now w.
     on_refusal (audit_append env ''COMPLETED'' ''PASS'' (stamp now)
         (signed @ [(''target'', effect_ids pr (JStr head) (JStr candidate) (JStr running))]) w)
       (\<lambda>_ w. fail_after_effect env message signed fingerprint ''AUDIT_WRITE_FAILED'' pr head w)
       (\<lambda>_ w.
     bindW (wall_now env w) (\<lambda>now w.
     bindW (finish_request env (py_str request_id) fingerprint COMPLETED (stamp now) reply w) (\<lambda>_ w.
     (Inr reply, w)))))))))"

section \<open>Preparing a candidate\<close>

definition load_revoked :: "runner_env \<Rightarrow> runner_world \<Rightarrow> string list res \<times> runner_world" where
  "load_revoked env w = (re_revoked env (rw_tick w), next_tick w)"

definition verify_message ::
  "runner_env \<Rightarrow> json \<Rightarrow> json \<Rightarrow> runner_world \<Rightarrow> verified_approval res \<times> runner_world" where
  "verify_message env message args w =
     bindW (load_trust env w) (\<lambda>trust w.
     bindW (load_revoked env w) (\<lambda>revoked w.
     bindW (wall_now env w) (\<lambda>now w.
     (verify_deploy_approval env (\<lambda>raw sig. re_verifier env (rw_tick w) raw sig trust) ''prepare_candidate'' args
        (jget message ''approval_document_b64'') (jget message ''approval_signature'') trust revoked now,
      next_tick w))))"

definition clock_check :: "runner_env \<Rightarrow> runner_world \<Rightarrow> unit res \<times> runner_world" where
  "clock_check env w =
     bindW (wall_now env w) (\<lambda>now_wall w.
     bindW (mono_now env w) (\<lambda>now_mono w.
     (check_clock (re_policy env) (rw_anchor_wall w) (rw_anchor_mono w) now_wall now_mono None
        (re_sync env (rw_tick w) \<and> rw_clock_trusted w), next_tick w)))"

definition operation_lock :: "runner_env \<Rightarrow> runner_world \<Rightarrow> unit res \<times> runner_world" where
  "operation_lock env w =
     (if re_io env (rw_tick w) = Io_Unread then Inl (Refused ''RUNNER_BUSY'') else Inr (), next_tick w)"

text \<open>Everything that is measured before the spend: the head of the tree and the running image.\<close>

definition measure_target ::
  "runner_env \<Rightarrow> json \<Rightarrow> json \<Rightarrow> verified_approval \<Rightarrow> runner_world \<Rightarrow>
   (string \<times> string) res \<times> runner_world" where
  "measure_target env request_id pr approval w =
     bindW (operation_lock env w) (\<lambda>_ w.
     bindW (measure_tree env request_id pr w) (\<lambda>(head, main) w.
     bindW (measure_images env request_id pr w) (\<lambda>m w.
     bindW (the_running_image m, w) (\<lambda>running w.
     if ms_candidate m \<noteq> None \<or> ms_rollback m \<noteq> None then (Inl (Refused ''TAG_ALREADY_EXISTS''), w)
     else bindW (check_measured_binding approval (Some head) (Some main) (Some running) None None, w) (\<lambda>_ w.
     (Inr (head, running), w))))))"

definition signer_principal :: string where
  "signer_principal = ''thomas-deploy-approver''"

definition signed_base :: "(string \<times> json) list \<Rightarrow> verified_approval \<Rightarrow> (string \<times> json) list" where
  "signed_base base approval = base @
     [(''approval_ref'', JObj [(''approval_id'', va_approval_id approval),
        (''approval_sha256'', JStr (va_approval_sha256 approval)), (''signer_principal'', JStr signer_principal)]),
      (''trust_config_sha256'', JStr (va_trust_sha256 approval))]"

text \<open>Spend, write CONSUMED, act.\<close>

definition spend_and_act ::
  "runner_env \<Rightarrow> json \<Rightarrow> (string \<times> json) list \<Rightarrow> string \<Rightarrow> json \<Rightarrow> verified_approval \<Rightarrow> string \<Rightarrow>
   string \<Rightarrow> runner_world \<Rightarrow> json res \<times> runner_world" where
  "spend_and_act env message signed fingerprint pr approval head running w =
     bindW (wall_now env w) (\<lambda>now w.
     on_refusal (consume env approval (py_str (jget message ''request_id'')) (stamp now) w)
       (\<lambda>code w. refuse_before_consume env message signed fingerprint code w)
       (\<lambda>row w.
     on_refusal (audit_append env ''CONSUMED'' ''PASS'' (stamp now)
         (signed @ [(''target'', effect_ids pr (JStr head) JNull (JStr running)),
           (''consumption_seq'', jget row ''seq''), (''consumption_row_sha256'', jget row ''row_sha256'')]) w)
       (\<lambda>_ w. fail_not_started env message signed fingerprint ''AUDIT_WRITE_FAILED'' w)
       (\<lambda>_ w. act env message signed fingerprint pr head running w)))"

definition prepare ::
  "runner_env \<Rightarrow> json \<Rightarrow> json \<Rightarrow> (string \<times> json) list \<Rightarrow> string \<Rightarrow> runner_world \<Rightarrow>
   json res \<times> runner_world" where
  "prepare env message args base fingerprint w =
     (let pr = jget args ''pr''; request_id = jget message ''request_id'' in
      on_refusal (bindW (verify_message env message args w) (\<lambda>approval w.
          bindW (clock_check env w) (\<lambda>_ w. (Inr approval, w))))
        (\<lambda>code w. refuse_before_consume env message base fingerprint code w)
        (\<lambda>approval w.
      let signed = signed_base base approval in
      on_refusal (measure_target env request_id pr approval w)
        (\<lambda>code w. refuse_before_consume env message signed fingerprint code w)
        (\<lambda>(head, running) w. spend_and_act env message signed fingerprint pr approval head running w)))"

section \<open>Inspecting\<close>

definition inspect ::
  "runner_env \<Rightarrow> json \<Rightarrow> json \<Rightarrow> (string \<times> json) list \<Rightarrow> int \<Rightarrow> runner_world \<Rightarrow>
   json res \<times> runner_world" where
  "inspect env message args base now w =
     bindW (mono_now env w) (\<lambda>mono w.
     if (case rw_last_inspect w of None \<Rightarrow> False | Some t \<Rightarrow> mono - t < re_inspect_min env)
     then bindW (audit_append env ''INSPECT'' ''REFUSED'' (stamp now)
       (base @ [(''reason_code'', JStr ''INSPECT_RATE_LIMITED'')]) w) (\<lambda>_ w.
       (Inr (actor_refusal ''INSPECT_RATE_LIMITED'' message None None), w))
     else on_refusal (measure_images env (jget message ''request_id'') (jget args ''pr'')
         (w\<lparr>rw_last_inspect := Some mono\<rparr>))
       (\<lambda>code w. bindW (audit_append env ''INSPECT'' ''NOT_REQUIRED'' (stamp now)
          (base @ [(''reason_code'', JStr code)]) w) (\<lambda>_ w. (Inr (actor_refusal code message None None), w)))
       (\<lambda>m w. bindW (audit_append env ''INSPECT'' ''NOT_REQUIRED'' (stamp now) base w) (\<lambda>_ w.
          (Inr (actor_ok message (JObj ((''pr'', jget args ''pr'') # measured_items m @
             [(''measured_at'', JStr (stamp now))])) None), w))))"

section \<open>The entry\<close>

definition policy_blocked_verbs :: "string list" where
  "policy_blocked_verbs = [''validate_candidate'', ''promote'', ''rollback'']"

definition operational_verbs_enabled :: "string list" where
  "operational_verbs_enabled = []"

text \<open>\<open>deploy_actor_request.v0.1\<close>, the schema of a message.\<close>

definition optional :: "(json \<Rightarrow> bool) \<Rightarrow> string \<Rightarrow> json \<Rightarrow> bool" where
  "optional ok k j = (has_key j k \<longrightarrow> ok (jget j k))"

definition message_args_ok :: "json \<Rightarrow> bool" where
  "message_args_ok args =
     (is_obj args \<and>
      list_all (\<lambda>kv. fst kv \<in> {''pr'', ''git_commit_sha'', ''candidate_image_id'', ''rollback_image_id''}) (items args) \<and>
      optional (\<lambda>v. is_pr v \<or> (case v of JFloat r \<Rightarrow> json_positive v \<and> length r \<le> 8 | _ \<Rightarrow> False)) ''pr'' args \<and>
      optional (str_form commit_form) ''git_commit_sha'' args \<and>
      optional (str_form sha256_form) ''candidate_image_id'' args \<and>
      optional (str_form sha256_form) ''rollback_image_id'' args)"

definition message_ok :: "json \<Rightarrow> bool" where
  "message_ok m =
     (is_obj m \<and> list_all (has_key m) [''schema'', ''request_id'', ''verb'', ''args'', ''gate_intake_seq''] \<and>
      list_all (\<lambda>kv. fst kv \<in> {''schema'', ''request_id'', ''verb'', ''args'', ''gate_intake_seq'',
        ''approval_document_b64'', ''approval_signature''}) (items m) \<and>
      jget m ''schema'' = JStr ''thomas.actor_request.v1'' \<and>
      (jget m ''request_id'' = JNull \<or> str_form (token_form 128) (jget m ''request_id'')) \<and>
      str_form (\<lambda>v. v \<in> fst ` set args_by_action) (jget m ''verb'') \<and> message_args_ok (jget m ''args'') \<and>
      optional (str_form (\<lambda>s. 1 \<le> length s \<and> length s \<le> 2734)) ''approval_document_b64'' m \<and>
      optional (str_form (\<lambda>s. 1 \<le> length s \<and> length s \<le> 4096)) ''approval_signature'' m \<and>
      json_positive (jget m ''gate_intake_seq''))"

definition begin_state :: "string \<Rightarrow> string option" where
  "begin_state code = map_of [(''REQUEST_IN_FLIGHT'', CLAIMED), (''EFFECT_STATE_UNKNOWN'', UNKNOWN),
     (''FAILED_EFFECT_PARTIAL'', PARTIAL)] code"

definition look_at_latch :: "runner_env \<Rightarrow> runner_world \<Rightarrow> bool res \<times> runner_world" where
  "look_at_latch env w = (if rw_latched w then (Inr True, w)
     else bindW (on_refusal (read_latch env w) (\<lambda>_ w. (Inr True, w)) (\<lambda>l w. (Inr (l \<noteq> None), w)))
       (\<lambda>l w. (Inr l, w\<lparr>rw_latched := l\<rparr>)))"

definition claim_and_prepare ::
  "runner_env \<Rightarrow> json \<Rightarrow> json \<Rightarrow> (string \<times> json) list \<Rightarrow> int \<Rightarrow> runner_world \<Rightarrow>
   json res \<times> runner_world" where
  "claim_and_prepare env message args base now w =
     bindW (sha256_value (re_H env) (drop_key ''gate_intake_seq'' message), w) (\<lambda>fingerprint w.
     if jget message ''request_id'' = JNull then (Inl (Refused ''REQUEST_ID_REQUIRED''), w)
     else on_refusal (begin_request env (py_str (jget message ''request_id'')) fingerprint (stamp now) w)
       (\<lambda>code w. (Inr (actor_refusal code message (begin_state code) None), w))
       (\<lambda>replay w. if replay \<noteq> JNull then (Inr (jset ''replayed'' (JBool True) replay), w)
         else bindW (audit_append env ''RECEIVED'' ''NOT_REQUIRED'' (stamp now) base w) (\<lambda>_ w.
           prepare env message args base fingerprint w)))"

definition handle_message ::
  "runner_env \<Rightarrow> json \<Rightarrow> json \<Rightarrow> runner_world \<Rightarrow> json res \<times> runner_world" where
  "handle_message env message peer_uid w =
     bindW (look_at_latch env w) (\<lambda>latched w.
     if latched then (Inl (Refused ''RUNNER_LATCHED''), w)
     else if \<not> is_obj message \<or> \<not> message_ok message then (Inl (Refused ''MALFORMED_REQUEST''), w)
     else bindW (check_args (jget message ''verb'') (jget message ''args''), w) (\<lambda>args w.
     bindW (wall_now env w) (\<lambda>now w.
     let verb = py_str (jget message ''verb'');
         base = [(''request_id'', jget message ''request_id''), (''action'', JStr verb), (''caller_uid'', peer_uid),
           (''client_id'', JNull), (''gate_intake_seq'', jget message ''gate_intake_seq''),
           (''store_id'', rw_store_id w)] in
     if verb \<in> set policy_blocked_verbs \<and> verb \<notin> set operational_verbs_enabled
     then bindW (audit_append env ''REFUSED'' ''REFUSED'' (stamp now)
       (base @ [(''reason_code'', JStr ''OPERATION_BLOCKED_BY_POLICY'')]) w) (\<lambda>_ w.
       (Inl (Refused ''OPERATION_BLOCKED_BY_POLICY''), w))
     else if verb = ''inspect_candidate'' then
       if has_key message ''approval_document_b64'' \<or> has_key message ''approval_signature''
       then (Inl (Refused ''ARGUMENT_NOT_ACCEPTED''), w)
       else inspect env message args base now w
     else claim_and_prepare env message args base now w)))"

text \<open>A refusal is a reply; any other exception leaves the actor.\<close>

definition handle :: "runner_env \<Rightarrow> json \<Rightarrow> json \<Rightarrow> runner_world \<Rightarrow> json res \<times> runner_world" where
  "handle env message peer_uid w =
     on_refusal (handle_message env message peer_uid w)
       (\<lambda>code w. (Inr (actor_refusal code message None None), w)) (\<lambda>reply w. (Inr reply, w))"

end
