(* ===== verification/Deploy_Facts.thy ===== *)
theory Deploy_Facts
  imports Deploy_Actor
begin

text \<open>
  What one message can change.  A relation between the world before and after that is reflexive
  and transitive composes along the actor's sequencing; the locale states that once, and each relation
  the properties rest on is an interpretation of it.
\<close>

section \<open>Composition\<close>

locale step_relation =
  fixes R :: "runner_world \<Rightarrow> runner_world \<Rightarrow> bool"
  assumes refl: "R w w"
    and trans: "R u v \<Longrightarrow> R v w \<Longrightarrow> R u w"
begin

lemma bindW_steps:
  assumes "R w (snd m)" "\<And>x v. m = (Inr x, v) \<Longrightarrow> R v (snd (f x v))"
  shows "R w (snd (bindW m f))"
proof (cases m)
  case (Pair r v)
  with assms trans [of w v] show ?thesis by (cases r) auto
qed

lemma on_refusal_steps:
  assumes "R w (snd m)" "\<And>c v. m = (Inl (Refused c), v) \<Longrightarrow> R v (snd (f c v))"
    "\<And>x v. m = (Inr x, v) \<Longrightarrow> R v (snd (g x v))"
  shows "R w (snd (on_refusal m f g))"
proof (cases m)
  case (Pair r v)
  with assms trans [of w v] show ?thesis
    by (auto simp: on_refusal_def split: sum.splits exn.splits)
qed

lemma bindW_pair_steps:
  assumes "R w (snd m)" "\<And>a b v. m = (Inr (a, b), v) \<Longrightarrow> R v (snd (f a b v))"
  shows "R w (snd (bindW m (case_prod f)))"
  using assms by (intro bindW_steps) auto

lemma on_refusal_pair_steps:
  assumes "R w (snd m)" "\<And>c v. m = (Inl (Refused c), v) \<Longrightarrow> R v (snd (f c v))"
    "\<And>a b v. m = (Inr (a, b), v) \<Longrightarrow> R v (snd (g a b v))"
  shows "R w (snd (on_refusal m f (case_prod g)))"
  using assms by (intro on_refusal_steps) auto

text \<open>At the end of a handler: \<open>P\<close> of what it returns, knowing that all before kept \<open>R\<close>.\<close>

lemma bindW_end:
  assumes "R w v" "R v (snd m)" "\<And>e u. R w u \<Longrightarrow> P (Inl e, u)"
    and "\<And>x u. m = (Inr x, u) \<Longrightarrow> R w u \<Longrightarrow> P (f x u)"
  shows "P (bindW m f)"
proof (cases m)
  case (Pair r u)
  with assms trans [of w v u] show ?thesis by (cases r) auto
qed

lemma on_refusal_end:
  assumes "R w v" "R v (snd m)" "\<And>e u. R w u \<Longrightarrow> P (Inl e, u)"
    and "\<And>c u. m = (Inl (Refused c), u) \<Longrightarrow> R w u \<Longrightarrow> P (f c u)"
    and "\<And>x u. m = (Inr x, u) \<Longrightarrow> R w u \<Longrightarrow> P (g x u)"
  shows "P (on_refusal m f g)"
proof (cases m)
  case (Pair r u)
  with assms trans [of w v u] show ?thesis by (auto simp: on_refusal_def split: sum.splits exn.splits)
qed

lemma if_steps: "(b \<Longrightarrow> R w (snd x)) \<Longrightarrow> (\<not> b \<Longrightarrow> R w (snd y)) \<Longrightarrow> R w (snd (if b then x else y))"
  by simp

lemma run_cmd_steps:
  assumes "\<And>argv. template = Inr argv \<Longrightarrow> R w (snd (run_argv env i argv w))"
  shows "R w (snd (run_cmd env i template w))"
  using assms refl by (cases template) (simp_all add: run_cmd_def)

lemma image_id_steps:
  assumes "\<And>argv. bindR ref (image_inspect (re_docker env)) = Inr argv \<Longrightarrow> R w (snd (run_argv env i argv w))"
  shows "R w (snd (image_id env i ref w))"
  unfolding image_id_def
  by (rule bindW_steps, rule run_cmd_steps, erule assms) (simp add: refl split: prod.splits)

end

text \<open>The commands that only look.\<close>

definition inspects :: "runner_env \<Rightarrow> string list \<Rightarrow> bool" where
  "inspects env argv = ((\<exists>name \<in> set runtime_containers. container_inspect (re_docker env) name = Inr argv) \<or>
     (\<exists>ref. image_inspect (re_docker env) ref = Inr argv) \<or>
     (\<exists>pr. git_status (re_git env) (re_trees env) pr = Inr argv \<or> git_head (re_git env) (re_trees env) pr = Inr argv \<or>
       git_origin_main (re_git env) (re_trees env) pr = Inr argv))"

locale measuring = step_relation +
  fixes env :: runner_env
  assumes inspection: "inspects env argv \<Longrightarrow> R w (snd (run_argv env i argv w))"
begin

lemma image_id_measures: "R w (snd (image_id env i ref w))"
  by (rule image_id_steps, rule inspection) (auto simp: bindR_Inr_iff inspects_def)

lemma measure_containers_steps:
  "set names \<subseteq> set runtime_containers \<Longrightarrow> R w (snd (measure_containers env i names w))"
proof (induction names arbitrary: w)
  case Nil
  then show ?case by (simp add: refl)
next
  case (Cons name names)
  then have n: "name \<in> set runtime_containers" by simp
  show ?case
    unfolding measure_containers.simps
    by (intro bindW_steps bindW_pair_steps run_cmd_steps inspection Cons.IH)
      (use Cons.prems in \<open>auto simp: inspects_def refl\<close>)
qed

lemma measure_images_steps: "R w (snd (measure_images env i pr w))"
  unfolding measure_images_def
  by (intro bindW_steps measure_containers_steps order_refl)
     (auto simp: refl split: option.splits intro!: bindW_steps image_id_measures)

lemma measure_tree_steps: "R w (snd (measure_tree env i pr w))"
  unfolding measure_tree_def
  by (intro bindW_pair_steps run_cmd_steps inspection if_steps) (auto simp: inspects_def refl Let_def)

end

section \<open>Operations that spend nothing and build nothing\<close>

locale quiet_ops = measuring +
  assumes tick: "R w (next_tick w)"
    and requests: "rows_on_disk f = rows_on_disk (rw_requests w) @ added \<Longrightarrow> R w ((next_tick w)\<lparr>rw_requests := f\<rparr>)"
    and audit: "es \<noteq> ''LATCH_RESOLVED'' \<Longrightarrow> R w (snd (audit_append env es vr now named w))"
    and latch: "R w (snd (set_latch env code i now w))"
    and memory: "(rw_latched w \<Longrightarrow> b) \<Longrightarrow> R w (w\<lparr>rw_latched := b\<rparr>)" "R w (w\<lparr>rw_last_inspect := t\<rparr>)"
begin

lemma ticks [simp]:
  "R w (snd (wall_now env w))" "R w (snd (mono_now env w))" "R w (snd (read_latch env w))"
  "R w (snd (load_trust env w))" "R w (snd (load_revoked env w))" "R w (snd (operation_lock env w))"
  "R w (snd (read_audit env w))" "R w (snd (read_store env x w))" "R w (snd (read_last_seen env w))"
  "R w (snd (acquire_instance_lock env w))"
  by (simp_all add: wall_now_def mono_now_def read_latch_def load_trust_def load_revoked_def operation_lock_def
      read_audit_def read_store_def read_last_seen_def acquire_instance_lock_def tick)

lemma requests_op_steps: "R w (snd (requests_op env judge w))"
  by (auto simp: requests_op_def intro: requests dest!: locked_op_grows split: prod.splits)

lemma request_ops:
  "R w (snd (begin_request env i fp now w))" "R w (snd (finish_request env i fp s now result w))"
  "R w (snd (mark_unknown env i now w))" "R w (snd (latest_requests env w))"
  by (simp_all add: requests_op_steps refl begin_request_def finish_request_def mark_unknown_def latest_requests_def)

lemmas quiet_steps = bindW_steps bindW_pair_steps on_refusal_steps on_refusal_pair_steps if_steps ticks request_ops
  audit latch memory measure_images_steps measure_tree_steps

lemma refuse_steps: "R w (snd (refuse_before_consume env message base fp code w))"
  unfolding refuse_before_consume_def Let_def by (intro quiet_steps) (simp_all add: refl)

lemma latch_and_finish_steps:
  "R w (snd (latch_and_finish env message signed fp cause now (spend_verdict cause' pr head measured) w))"
proof -
  obtain s c a l d where v: "spend_verdict cause' pr head measured = (s, c, a, l, d)"
    by (cases "spend_verdict cause' pr head measured") auto
  then have "a \<noteq> ''LATCH_RESOLVED''" by (auto simp: spend_verdict_def split: option.splits)
  then have "R w (snd (audit_append env a vr now named (w\<lparr>rw_latched := True\<rparr>)))" for vr named
    by (intro trans [OF memory(1) audit]) simp_all
  then show ?thesis
    unfolding latch_and_finish_def v prod.case Let_def
    by (intro quiet_steps) (auto simp: refl intro!: quiet_steps)
qed

lemma fail_steps:
  "R w (snd (fail_not_started env message signed fp cause w))"
  "R w (snd (fail_after_effect env message signed fp cause pr head w))"
  unfolding fail_not_started_def fail_after_effect_def
  by (intro quiet_steps latch_and_finish_steps; simp add: refl)+

lemma verify_message_steps: "R w (snd (verify_message env message args w))"
  unfolding verify_message_def by (intro quiet_steps) (simp add: tick)

lemma clock_check_steps: "R w (snd (clock_check env w))"
  unfolding clock_check_def by (intro quiet_steps) (simp add: tick)

lemma measure_target_steps: "R w (snd (measure_target env i pr approval w))"
  unfolding measure_target_def by (intro quiet_steps) (auto simp: refl intro!: quiet_steps)

lemma inspect_steps: "R w (snd (inspect env message args base now w))"
proof -
  have "R w (snd (measure_images env i pr (w\<lparr>rw_last_inspect := t\<rparr>)))" for i pr t w
    by (rule trans [OF memory(2) measure_images_steps])
  then show ?thesis
    unfolding inspect_def by (intro quiet_steps) (simp_all add: refl)
qed

lemma look_at_latch_steps: "R w (snd (look_at_latch env w))"
proof (cases "rw_latched w")
  case False
  have kept: "R w ((next_tick w)\<lparr>rw_latched := b\<rparr>)" for b
    using trans [OF tick memory(1) [of "next_tick w"]] False by (simp add: next_tick_def)
  from False show ?thesis
    by (auto simp: look_at_latch_def on_refusal_def bindW_def read_latch_def kept tick
        split: prod.split sum.split exn.split)
qed (simp add: look_at_latch_def refl)

lemma prepare_end:
  assumes quiet: "\<And>r u. R w u \<Longrightarrow> P (r, u)"
    and spend: "\<And>approval head running t u x v.
      verify_message env message args t = (Inr approval, u) \<Longrightarrow> R w t \<Longrightarrow>
      clock_check env u = (Inr (), x) \<Longrightarrow>
      measure_target env (jget message ''request_id'') (jget args ''pr'') approval x = (Inr (head, running), v) \<Longrightarrow>
      R w v \<Longrightarrow>
      P (spend_and_act env message (signed_base base approval) fp (jget args ''pr'') approval head running v)"
  shows "P (prepare env message args base fp w)"
proof -
  have refusals: "P (refuse_before_consume env message b fp code u)" if "R w u" for b code u
    using refuse_steps [of u message b fp code] quiet trans [OF that] by (metis prod.collapse)
  show ?thesis
    unfolding prepare_def Let_def
  proof (rule on_refusal_end [where w = w and v = w])
    show "R w (snd (bindW (verify_message env message args w)
        (\<lambda>approval w. bindW (clock_check env w) (\<lambda>_ w. (Inr approval, w)))))"
      by (intro bindW_steps verify_message_steps clock_check_steps) (simp add: refl)
  next
    fix approval u
    assume "bindW (verify_message env message args w)
        (\<lambda>approval w. bindW (clock_check env w) (\<lambda>_ w. (Inr approval, w))) = (Inr approval, u)"
      and u: "R w u"
    then obtain t where v: "verify_message env message args w = (Inr approval, t)" "clock_check env t = (Inr (), u)"
      by (auto simp: bindW_Inr_iff)
    show "P (on_refusal (measure_target env (jget message ''request_id'') (jget args ''pr'') approval u)
        (\<lambda>code w. refuse_before_consume env message (signed_base base approval) fp code w)
        (\<lambda>(head, running) w.
            spend_and_act env message (signed_base base approval) fp (jget args ''pr'') approval head running w))"
      by (rule on_refusal_end [OF u measure_target_steps])
        (auto intro!: quiet refusals spend [OF v(1) refl v(2)])
  qed (auto intro: quiet refusals refl)
qed

lemma claim_end:
  assumes quiet: "\<And>r u. R w u \<Longrightarrow> P (r, u)"
    and spend: "\<And>fp s u approval head running t x v.
      jget message ''request_id'' \<noteq> JNull \<Longrightarrow>
      sha256_value (re_H env) (drop_key ''gate_intake_seq'' message) = Inr fp \<Longrightarrow>
      begin_request env (py_str (jget message ''request_id'')) fp (stamp now) w = (Inr JNull, s) \<Longrightarrow> R w s \<Longrightarrow>
      verify_message env message args t = (Inr approval, u) \<Longrightarrow> R s t \<Longrightarrow>
      clock_check env u = (Inr (), x) \<Longrightarrow>
      measure_target env (jget message ''request_id'') (jget args ''pr'') approval x = (Inr (head, running), v) \<Longrightarrow>
      R s v \<Longrightarrow>
      P (spend_and_act env message (signed_base base approval) fp (jget args ''pr'') approval head running v)"
  shows "P (claim_and_prepare env message args base now w)"
proof -
  let ?opened = "\<lambda>fp. begin_request env (py_str (jget message ''request_id'')) fp (stamp now) w"
  have claimed: "P (bindW (audit_append env ''RECEIVED'' ''NOT_REQUIRED'' (stamp now) base s)
      (\<lambda>_ w. prepare env message args base fp w))"
    if b: "?opened fp = (Inr JNull, s)" and n: "jget message ''request_id'' \<noteq> JNull"
      and fp: "sha256_value (re_H env) (drop_key ''gate_intake_seq'' message) = Inr fp" for fp s
  proof -
    have s: "R w s" using request_ops(1) [of w "py_str (jget message ''request_id'')" fp "stamp now"] b by simp
    have from_s: "P (r, u)" if "R s u" for r u
      using quiet trans [OF s that] by blast
    show ?thesis
    proof (rule bindW_end [where w = s and v = s])
      fix row u
      assume u: "R s u"
      show "P (prepare env message args base fp u)"
      proof (rule prepare_end)
        show "P (r, v)" if "R u v" for r v using from_s trans [OF u that] .
      next
        fix approval head running t x z v
        assume "verify_message env message args t = (Inr approval, x)" "R u t" "clock_check env x = (Inr (), z)"
          "measure_target env (jget message ''request_id'') (jget args ''pr'') approval z = (Inr (head, running), v)"
          "R u v"
        from spend [OF n fp b s this(1) trans [OF u this(2)] this(3,4) trans [OF u this(5)]]
        show "P (spend_and_act env message (signed_base base approval) fp (jget args ''pr'') approval head running v)" .
      qed
    qed (auto intro: refl audit from_s)
  qed
  show ?thesis
    unfolding claim_and_prepare_def
  proof (rule bindW_end [where w = w and v = w])
    fix fp u
    assume "(sha256_value (re_H env) (drop_key ''gate_intake_seq'' message), w) = (Inr fp, u)"
    then have fp: "sha256_value (re_H env) (drop_key ''gate_intake_seq'' message) = Inr fp" and u: "u = w" by auto
    show "P (if jget message ''request_id'' = JNull then (Inl (Refused ''REQUEST_ID_REQUIRED''), u)
       else on_refusal (begin_request env (py_str (jget message ''request_id'')) fp (stamp now) u)
         (\<lambda>code w. (Inr (actor_refusal code message (begin_state code) None), w))
         (\<lambda>replay w. if replay \<noteq> JNull then (Inr (jset ''replayed'' (JBool True) replay), w)
           else bindW (audit_append env ''RECEIVED'' ''NOT_REQUIRED'' (stamp now) base w) (\<lambda>_ w.
             prepare env message args base fp w)))"
    proof (cases "jget message ''request_id'' = JNull")
      case True
      then show ?thesis by (simp add: u quiet refl)
    next
      case False
      have "P (on_refusal (begin_request env (py_str (jget message ''request_id'')) fp (stamp now) w)
         (\<lambda>code w. (Inr (actor_refusal code message (begin_state code) None), w))
         (\<lambda>replay w. if replay \<noteq> JNull then (Inr (jset ''replayed'' (JBool True) replay), w)
           else bindW (audit_append env ''RECEIVED'' ''NOT_REQUIRED'' (stamp now) base w) (\<lambda>_ w.
             prepare env message args base fp w)))"
      proof (rule on_refusal_end [OF refl request_ops(1)])
        fix replay v
        assume "begin_request env (py_str (jget message ''request_id'')) fp (stamp now) w = (Inr replay, v)" "R w v"
        with claimed [OF _ False fp] quiet
        show "P (if replay \<noteq> JNull then (Inr (jset ''replayed'' (JBool True) replay), v)
          else bindW (audit_append env ''RECEIVED'' ''NOT_REQUIRED'' (stamp now) base v) (\<lambda>_ w.
             prepare env message args base fp w))" by simp
      qed (simp_all add: quiet)
      with False show ?thesis by (simp add: u)
    qed
  qed (auto simp: refl intro: quiet)
qed

lemma claim_steps_quiet:
  "sha256_value (re_H env) (drop_key ''gate_intake_seq'' message) = Inl e \<Longrightarrow>
   R w (snd (claim_and_prepare env message args base now w))"
  by (simp add: claim_and_prepare_def refl)

lemma action_names:
  "fst ` set args_by_action = insert ''inspect_candidate'' (insert ''prepare_candidate'' (set policy_blocked_verbs))"
  by code_simp

lemma message_verb:
  assumes "message_ok message"
  obtains verb where "jget message ''verb'' = JStr verb" "verb \<in> fst ` set args_by_action"
proof -
  from assms have "str_form (\<lambda>v. v \<in> fst ` set args_by_action) (jget message ''verb'')"
    by (simp only: message_ok_def)
  with that show thesis by (cases "jget message ''verb''") (simp_all add: str_form_def)
qed

text \<open>A message: everything but the spend and what follows it keeps \<open>R\<close>.\<close>

lemma handle_message_end:
  assumes quiet: "\<And>r u. R w u \<Longrightarrow> P (r, u)"
    and spend: "\<And>args base now fp q s u approval head running t x v.
      \<not> rw_latched q \<Longrightarrow> message_ok message \<Longrightarrow> jget message ''verb'' = JStr ''prepare_candidate'' \<Longrightarrow>
      check_args (JStr ''prepare_candidate'') (jget message ''args'') = Inr args \<Longrightarrow>
      base = [(''request_id'', jget message ''request_id''), (''action'', JStr ''prepare_candidate''),
        (''caller_uid'', peer), (''client_id'', JNull), (''gate_intake_seq'', jget message ''gate_intake_seq''),
        (''store_id'', rw_store_id q)] \<Longrightarrow>
      jget message ''request_id'' \<noteq> JNull \<Longrightarrow>
      sha256_value (re_H env) (drop_key ''gate_intake_seq'' message) = Inr fp \<Longrightarrow>
      R w q \<Longrightarrow> begin_request env (py_str (jget message ''request_id'')) fp (stamp now) q = (Inr JNull, s) \<Longrightarrow>
      R w s \<Longrightarrow> verify_message env message args t = (Inr approval, u) \<Longrightarrow> R s t \<Longrightarrow>
      clock_check env u = (Inr (), x) \<Longrightarrow>
      measure_target env (jget message ''request_id'') (jget args ''pr'') approval x = (Inr (head, running), v) \<Longrightarrow>
      R s v \<Longrightarrow>
      P (spend_and_act env message (signed_base base approval) fp (jget args ''pr'') approval head running v)"
  shows "P (handle_message env message peer w)"
  unfolding handle_message_def Let_def
proof (rule bindW_end [where w = w and v = w])
  fix latched q
  assume lk: "look_at_latch env w = (Inr latched, q)" and q: "R w q"
  have from_q: "P (r, v)" if "R q v" for r v using quiet trans [OF q that] by blast
  let ?verb = "py_str (jget message ''verb'')"
  let ?base = "\<lambda>u. [(''request_id'', jget message ''request_id''), (''action'', JStr ?verb), (''caller_uid'', peer),
      (''client_id'', JNull), (''gate_intake_seq'', jget message ''gate_intake_seq''), (''store_id'', rw_store_id u)]"
  have body: "P (if ?verb \<in> set policy_blocked_verbs \<and> ?verb \<notin> set operational_verbs_enabled
     then bindW (audit_append env ''REFUSED'' ''REFUSED'' (stamp now)
       (?base u @ [(''reason_code'', JStr ''OPERATION_BLOCKED_BY_POLICY'')]) u) (\<lambda>_ w.
       (Inl (Refused ''OPERATION_BLOCKED_BY_POLICY''), w))
     else if ?verb = ''inspect_candidate'' then
       if has_key message ''approval_document_b64'' \<or> has_key message ''approval_signature''
       then (Inl (Refused ''ARGUMENT_NOT_ACCEPTED''), u)
       else inspect env message args (?base u) now u
     else claim_and_prepare env message args (?base u) now u)"
    if latched: "\<not> latched" and ok: "message_ok message"
      and args: "check_args (jget message ''verb'') (jget message ''args'') = Inr args"
      and u: "u = next_tick q" for args now u
  proof -
    have qu: "R q u" by (simp add: u tick)
    have from_u: "P (r, v)" if "R u v" for r v using from_q trans [OF qu that] .
    from ok obtain verb where verb: "jget message ''verb'' = JStr verb" "verb \<in> fst ` set args_by_action"
      by (rule message_verb)
    have not_latched: "\<not> rw_latched u"
      using lk latched by (auto simp: u next_tick_def look_at_latch_def bindW_Inr_iff split: if_splits)
    from verb(2) consider "verb \<in> set policy_blocked_verbs" | "verb = ''inspect_candidate''"
      | "verb = ''prepare_candidate''" "verb \<notin> set policy_blocked_verbs"
      unfolding action_names by blast
    then show ?thesis
    proof cases
      case 1
      have "P (bindW (audit_append env ''REFUSED'' ''REFUSED'' (stamp now) named u)
          (\<lambda>_ w. (Inl (Refused ''OPERATION_BLOCKED_BY_POLICY''), w)))" for named
        by (rule bindW_end [where w = u and v = u]) (auto intro: refl audit from_u)
      with 1 show ?thesis by (simp add: verb(1) operational_verbs_enabled_def)
    next
      case 2
      have "P (inspect env message args (?base u) now u)"
        using from_u [OF inspect_steps] by (metis prod.collapse)
      with 2 show ?thesis by (simp add: verb(1) policy_blocked_verbs_def from_u refl)
    next
      case 3
      have "P (claim_and_prepare env message args (?base u) now u)"
      proof (rule claim_end)
        show "P (r, v)" if "R u v" for r v using from_u that .
        fix fp s x approval head running t z v
        assume c: "jget message ''request_id'' \<noteq> JNull"
          "sha256_value (re_H env) (drop_key ''gate_intake_seq'' message) = Inr fp"
          "begin_request env (py_str (jget message ''request_id'')) fp (stamp now) u = (Inr JNull, s)" "R u s"
          "verify_message env message args t = (Inr approval, x)" "R s t" "clock_check env x = (Inr (), z)"
          "measure_target env (jget message ''request_id'') (jget args ''pr'') approval z = (Inr (head, running), v)"
          "R s v"
        have a: "check_args (JStr ''prepare_candidate'') (jget message ''args'') = Inr args"
          and b: "?base u = [(''request_id'', jget message ''request_id''), (''action'', JStr ''prepare_candidate''),
        (''caller_uid'', peer), (''client_id'', JNull), (''gate_intake_seq'', jget message ''gate_intake_seq''),
        (''store_id'', rw_store_id u)]"
          using args verb(1) 3(1) by simp_all
        show "P (spend_and_act env message (signed_base (?base u) approval) fp (jget args ''pr'') approval head running v)"
          using verb(1) 3(1)
          by (intro spend [OF not_latched ok _ a b c(1,2) trans [OF q qu] c(3) _ c(5,6,7,8,9)])
            (auto intro: trans [OF q] trans [OF qu] c(4))
      qed
      with 3 show ?thesis by (simp add: verb(1) policy_blocked_verbs_def)
    qed
  qed
  show "P (if latched then (Inl (Refused ''RUNNER_LATCHED''), q)
     else if \<not> is_obj message \<or> \<not> message_ok message then (Inl (Refused ''MALFORMED_REQUEST''), q)
     else bindW (check_args (jget message ''verb'') (jget message ''args''), q) (\<lambda>args w.
     bindW (wall_now env w) (\<lambda>now w.
     if ?verb \<in> set policy_blocked_verbs \<and> ?verb \<notin> set operational_verbs_enabled
     then bindW (audit_append env ''REFUSED'' ''REFUSED'' (stamp now)
       (?base w @ [(''reason_code'', JStr ''OPERATION_BLOCKED_BY_POLICY'')]) w) (\<lambda>_ w.
       (Inl (Refused ''OPERATION_BLOCKED_BY_POLICY''), w))
     else if ?verb = ''inspect_candidate'' then
       if has_key message ''approval_document_b64'' \<or> has_key message ''approval_signature''
       then (Inl (Refused ''ARGUMENT_NOT_ACCEPTED''), w)
       else inspect env message args (?base w) now w
     else claim_and_prepare env message args (?base w) now w)))"
    using body by (cases "check_args (jget message ''verb'') (jget message ''args'')")
      (auto simp: wall_now_def intro: from_q refl)
qed (auto intro: refl look_at_latch_steps quiet)

end

section \<open>Operations that spend and build\<close>

locale effect_ops = quiet_ops +
  assumes tagging: "tag_rollback_point (re_docker env) running pr = Inr argv \<Longrightarrow> R w (snd (run_argv env j argv w))"
    and building: "build_candidate (re_docker env) (re_trees env) pr = Inr argv \<Longrightarrow> R w (snd (run_argv env j argv w))"
begin

lemma time_left_steps: "R w (snd (time_left env deadline w))"
  unfolding time_left_def by (intro quiet_steps) (simp add: refl)

lemma effect_commands_steps: "R w (snd (effect_commands env i pr running deadline w))"
  unfolding effect_commands_def
  by (intro quiet_steps time_left_steps run_cmd_steps tagging building image_id_measures)
    (auto simp: refl split: option.splits)

lemma act_steps: "R w (snd (act env message signed fp pr head running w))"
  unfolding act_def Let_def
  by (intro quiet_steps effect_commands_steps fail_steps) (simp_all add: refl)

end

locale all_ops = effect_ops +
  assumes consume: "R w (snd (consume env approval i now w))"
begin

lemma spend_and_act_steps: "R w (snd (spend_and_act env message signed fp pr approval head running w))"
  unfolding spend_and_act_def
  by (intro quiet_steps consume act_steps fail_steps refuse_steps) simp

lemma handle_steps: "R w (snd (handle env message peer w))"
proof -
  have "R w (snd (handle_message env message peer w))"
    by (rule handle_message_end [where P = "\<lambda>m. R w (snd m)"])
      (auto intro: trans spend_and_act_steps)
  then show ?thesis unfolding handle_def by (intro on_refusal_steps) (simp_all add: refl)
qed

end

section \<open>The start\<close>

locale startup_ops = quiet_ops +
  assumes clock_file: "R w (w\<lparr>rw_clock := c\<rparr>)"
    and restart: "R w (w\<lparr>rw_latched := l, rw_clock_trusted := k, rw_store_id := i, rw_last_inspect := None,
        rw_anchor_wall := a, rw_anchor_mono := m\<rparr>)"
begin

lemma write_last_seen_steps: "R w (snd (write_last_seen env now w))"
  using trans [OF tick clock_file] tick refl by (auto simp: write_last_seen_def Let_def split: io.splits)

lemma mark_claimed_steps: "R w (snd (mark_claimed env now rows w))"
proof (induction rows arbitrary: w)
  case (Cons row rows)
  then show ?case by (cases row) (auto simp: refl intro!: quiet_steps)
qed (simp add: refl)

lemma note_unknown_steps: "R w (snd (note_unknown env now sid is w))"
  by (induction "is" arbitrary: w) (auto simp: refl intro!: quiet_steps)

lemma startup_audit_steps: "R w (snd (startup_audit env w))"
proof -
  obtain r v where r: "read_audit env w = (r, v)" by fastforce
  with ticks(7) [of w] have "R w v" by simp
  with r show ?thesis by (cases r) (auto simp: startup_audit_def split: exn.splits)
qed

lemma startup_store_steps: "R w (snd (startup_store env now expected sha rows b w))"
proof -
  have ends: "R v (snd (bindW (audit_append env ''RUNNER_START'' vr now named v) (\<lambda>_ w. (Inl blocked :: store_state res, w))))" for vr named v
    by (intro quiet_steps) (simp_all add: refl)
  have refused: "R w (snd (case m of (Inl (Refused code), w) \<Rightarrow>
        if b then bindW (audit_append env ''RUNNER_START'' ''REFUSED'' now
            [(''reason_code'', JStr code), (''trust_config_sha256'', sha)] w) (\<lambda>_ w. (Inl blocked, w))
        else (Inl blocked, w)
      | other \<Rightarrow> other))" if "R w (snd m)" for m :: "store_state res \<times> runner_world"
  proof -
    obtain r v where m: "m = (r, v)" by fastforce
    with that have "R w v" by simp
    then have "R w (snd (bindW (audit_append env ''RUNNER_START'' vr now named v) (\<lambda>_ w. (Inl blocked :: store_state res, w))))" for vr named
      using trans ends by blast
    with m \<open>R w v\<close> show ?thesis by (cases r) (simp_all split: exn.split)
  qed
  show ?thesis
    unfolding startup_store_def Let_def by (intro refused if_steps ticks) (simp add: refl)
qed

lemma reconcile_steps: "R w (snd (reconcile env expected sha now w))"
  unfolding reconcile_def startup_reasons_def startup_latch_def startup_clock_def Let_def
  by (intro quiet_steps startup_audit_steps startup_store_steps)
    (auto simp: refl split: option.splits
      intro!: quiet_steps mark_claimed_steps note_unknown_steps write_last_seen_steps)

lemma start_actor_steps: "R w (snd (start_actor env sid w))"
  unfolding start_actor_def
  by (intro quiet_steps reconcile_steps) (auto simp: refl intro: restart)

end

end
