(* ===== verification/Deploy_Accounts.thy ===== *)
theory Deploy_Accounts
  imports Deploy_Facts
begin

text \<open>
  What is spent and what is built: an approval pays for one request, a request is claimed once, and
  no command with an effect runs that is not paid for.
\<close>

section \<open>The store read row by row\<close>

definition spent :: "string \<Rightarrow> json list \<Rightarrow> json list" where
  "spent name rows = map (\<lambda>r. jget r name) (approval_rows rows)"

lemma approval_rows_simps [simp]:
  "approval_rows [] = []"
  "approval_rows (r # rows) = (if jget r ''type'' = JStr ''APPROVAL'' then r # approval_rows rows else approval_rows rows)"
  "approval_rows (rows @ rows') = approval_rows rows @ approval_rows rows'"
  by (simp_all add: approval_rows_def)

lemma spent_simps [simp]:
  "spent f [] = []"
  "spent f (r # rows) = (if jget r ''type'' = JStr ''APPROVAL'' then jget r f # spent f rows else spent f rows)"
  "spent f (rows @ rows') = spent f rows @ spent f rows'"
  by (simp_all add: spent_def)

lemma genesis_not_approval: "jget r ''type'' = JStr ''GENESIS'' \<Longrightarrow> jget r ''type'' \<noteq> JStr ''APPROVAL''"
  by simp

lemma chain_broken_not_Inr [simp]: "chain_broken \<noteq> Inr x" "Inr x \<noteq> chain_broken"
  by (simp_all add: chain_broken_def)

lemma verify_from_spent:
  assumes "verify_from H i p ids nonces rows = Inr (ids', nonces')" "distinct ids" "distinct nonces"
  shows "set ids' = set ids \<union> set (spent ''approval_id'' rows) \<and> set nonces' = set nonces \<union> set (spent ''nonce'' rows) \<and>
    distinct ids' \<and> distinct nonces' \<and>
    distinct (spent ''approval_id'' rows) \<and> distinct (spent ''nonce'' rows) \<and>
    set ids \<inter> set (spent ''approval_id'' rows) = {} \<and> set nonces \<inter> set (spent ''nonce'' rows) = {}"
  using assms
proof (induction rows arbitrary: i p ids nonces)
  case Nil
  then show ?case by simp
next
  case (Cons row rows)
  from Cons.prems(1) obtain h where h: "consumption_hash H row = Inr h"
    by (auto simp: Let_def bindR_Inr_iff split: if_splits)
  show ?case
  proof (cases "jget row ''type'' = JStr ''GENESIS''")
    case True
    with Cons.prems(1) h have "verify_from H (i + 1) (jget row ''row_sha256'') ids nonces rows = Inr (ids', nonces')"
      by (simp add: Let_def split: if_split_asm)
    from Cons.IH [OF this Cons.prems(2,3)] True show ?thesis by simp
  next
    case False
    with Cons.prems(1) h
    have rest: "verify_from H (i + 1) (jget row ''row_sha256'') (jget row ''approval_id'' # ids)
        (jget row ''nonce'' # nonces) rows = Inr (ids', nonces')"
      and new: "jget row ''approval_id'' \<notin> set ids" "jget row ''nonce'' \<notin> set nonces" "consumption_row_ok row"
      by (simp_all add: Let_def split: if_split_asm)
    from new(3) False have "jget row ''type'' = JStr ''APPROVAL''" by (simp add: consumption_row_ok_def)
    with Cons.IH [OF rest] new Cons.prems(2,3) show ?thesis by auto
  qed
qed

lemma verify_rows_Inr:
  assumes "verify_rows H expected rows = Inr st"
  shows "rows \<noteq> [] \<and> st_rows st = rows \<and> set (st_approval_ids st) = set (spent ''approval_id'' rows) \<and>
    set (st_nonces st) = set (spent ''nonce'' rows) \<and>
    distinct (spent ''approval_id'' rows) \<and> distinct (spent ''nonce'' rows) \<and>
    verify_from H 0 JNull [] [] rows = Inr (st_approval_ids st, st_nonces st) \<and>
    st_store_id st = jget (hd rows) ''store_id'' \<and> (expected = None \<or> expected = Some (st_store_id st))"
proof -
  from assms obtain ids nonces where v: "verify_from H 0 JNull [] [] rows = Inr (ids, nonces)"
    and st: "st = \<lparr>st_store_id = jget (hd rows) ''store_id'', st_rows = rows, st_approval_ids = ids, st_nonces = nonces\<rparr>"
    and ex: "rows \<noteq> []" "expected = None \<or> expected = Some (jget (hd rows) ''store_id'')"
    by (auto simp: verify_rows_def bindR_Inr_iff Let_def split: if_splits)
  from verify_from_spent [OF v] v st ex show ?thesis by auto
qed

section \<open>Spending\<close>

lemma consumed_row_fields:
  assumes "consumed_row H approval i now tip = Inr row"
  shows "jget row ''type'' = JStr ''APPROVAL''" "jget row ''approval_id'' = va_approval_id approval"
    "jget row ''nonce'' = va_nonce approval" "jget row ''request_id'' = JStr i"
    "jget row ''prev_sha256'' = jget tip ''row_sha256''"
    "\<exists>n. jget tip ''seq'' = JInt n \<and> jget row ''seq'' = JInt (n + 1)"
    "\<exists>h. jget row ''row_sha256'' = JStr h \<and> consumption_hash H row = Inr h"
proof -
  let ?r = "\<lambda>seq. JObj [(''type'', JStr ''APPROVAL''), (''seq'', seq),
        (''prev_sha256'', jget tip ''row_sha256''), (''approval_id'', va_approval_id approval),
        (''nonce'', va_nonce approval), (''approval_sha256'', JStr (va_approval_sha256 approval)),
        (''action'', JStr (va_action approval)), (''request_id'', JStr i), (''consumed_at'', JStr now)]"
  from assms obtain seq h where s: "plus_one (jget tip ''seq'') = Inr seq"
    and h: "consumption_hash H (?r seq) = Inr h" and row: "row = jset ''row_sha256'' (JStr h) (?r seq)"
    by (auto simp: consumed_row_def bindR_Inr_iff Let_def)
  show "jget row ''type'' = JStr ''APPROVAL''" "jget row ''approval_id'' = va_approval_id approval"
    "jget row ''nonce'' = va_nonce approval" "jget row ''request_id'' = JStr i"
    "jget row ''prev_sha256'' = jget tip ''row_sha256''" by (simp_all add: row)
  from s show "\<exists>n. jget tip ''seq'' = JInt n \<and> jget row ''seq'' = JInt (n + 1)"
    by (auto simp: row plus_one_def split: json.splits)
  have "drop_key ''row_sha256'' row = drop_key ''row_sha256'' (?r seq)"
    by (simp add: row drop_key_def jset_def without_key_def)
  with h show "\<exists>h. jget row ''row_sha256'' = JStr h \<and> consumption_hash H row = Inr h"
    by (auto simp: row consumption_hash_def)
qed

text \<open>The judgement of a spend: the whole store verified, the approval fresh, one row to add.\<close>

definition fresh_spend :: "runner_env \<Rightarrow> verified_approval \<Rightarrow> string \<Rightarrow> json list \<Rightarrow> json \<Rightarrow> bool" where
  "fresh_spend env approval i rows row =
     (distinct (spent ''approval_id'' rows) \<and> distinct (spent ''nonce'' rows) \<and>
      va_approval_id approval \<notin> set (spent ''approval_id'' rows) \<and> va_nonce approval \<notin> set (spent ''nonce'' rows) \<and>
      jget row ''type'' = JStr ''APPROVAL'' \<and> jget row ''approval_id'' = va_approval_id approval \<and>
      jget row ''nonce'' = va_nonce approval \<and> jget row ''request_id'' = JStr i)"

lemma consume_judge_Inr:
  assumes "consume_judge H approval i now sid rows = Inr (x, d)"
  shows "\<exists>st. verify_rows H (Some sid) rows = Inr st \<and> va_approval_id approval \<notin> set (st_approval_ids st) \<and>
    va_nonce approval \<notin> set (st_nonces st) \<and> consumed_row H approval i now (last rows) = Inr x \<and>
    consumption_row_ok x \<and> d = Some x"
proof -
  from assms obtain st where "verify_rows H (Some sid) rows = Inr st"
    "va_approval_id approval \<notin> set (st_approval_ids st)" "va_nonce approval \<notin> set (st_nonces st)"
    "consumed_row H approval i now (last (st_rows st)) = Inr x" "consumption_row_ok x" "d = Some x"
    by (auto simp: consume_judge_def bindR_Inr_iff split: if_splits)
  with verify_rows_Inr [of H "Some sid" rows st] show ?thesis by auto
qed

lemma consume_judge_fresh:
  assumes "consume_judge (re_H env) approval i now sid rows = Inr (x, Some row)"
  shows "fresh_spend env approval i rows row"
proof -
  from consume_judge_Inr [OF assms] obtain st where v: "verify_rows (re_H env) (Some sid) rows = Inr st"
    and f: "va_approval_id approval \<notin> set (st_approval_ids st)" "va_nonce approval \<notin> set (st_nonces st)"
    and c: "consumed_row (re_H env) approval i now (last rows) = Inr row"
    by auto
  from verify_rows_Inr [OF v] f consumed_row_fields [OF c] show ?thesis by (simp add: fresh_spend_def)
qed

lemma consume_cases:
  assumes "consume env approval i now w = (r, v)"
  obtains (same) e where "r = Inl e" "v = next_tick w"
  | (added) row f where "v = (next_tick w)\<lparr>rw_store := f\<rparr>" "fresh_spend env approval i (rows_on_disk (rw_store w)) row"
      "rows_on_disk f \<in> {rows_on_disk (rw_store w), rows_on_disk (rw_store w) @ [row]}"
      "\<And>y. r = Inr y \<Longrightarrow> y = row \<and> f = Record_Rows (rows_on_disk (rw_store w) @ [row])"
proof (cases "rw_store w = Absent_File")
  case True
  with assms same show ?thesis by (auto simp: consume_def)
next
  case False
  let ?judge = "consume_judge (re_H env) approval i now (rw_store_id w)"
  from False assms obtain f where op: "locked_op ''CONSUMPTION_STORE_UNAVAILABLE'' ''CONSUMPTION_STORE_UNAVAILABLE''
      ''CONSUMPTION_WRITE_FAILED'' ?judge (re_io env (rw_tick w)) (rw_store w) = (r, f)"
    and v: "v = (next_tick w)\<lparr>rw_store := f\<rparr>"
    by (auto simp: consume_def split: prod.splits)
  from op show ?thesis
  proof (cases rule: locked_op_cases)
    case same': same
    show ?thesis
    proof (cases r)
      case (Inl e)
      with same [of e] v same' show ?thesis by (simp add: next_tick_def)
    next
      case (Inr x)
      from locked_op_Inr [OF op [unfolded Inr]] obtain d where "?judge (rows_on_disk (rw_store w)) = Inr (x, d)"
        "f = (case d of None \<Rightarrow> rw_store w | Some row \<Rightarrow> Record_Rows (rows_on_disk (rw_store w) @ [row]))" by blast
      with consume_judge_Inr have "f = Record_Rows (rows_on_disk (rw_store w) @ [x])" by fastforce
      with same' have "rows_on_disk (rw_store w) = rows_on_disk (rw_store w) @ [x]" by (metis rows_on_disk.simps(1))
      then show ?thesis by simp
    qed
  next
    case (added x row)
    have "y = row \<and> f = Record_Rows (rows_on_disk (rw_store w) @ [row])" if "r = Inr y" for y
      using added(4) [OF that] consume_judge_Inr [OF added(2)] by auto
    with that(2) [OF v consume_judge_fresh [OF added(2)] added(3)] show ?thesis by blast
  qed
qed

section \<open>Claiming\<close>

definition claims :: "runner_world \<Rightarrow> string set" where
  "claims w = {i. \<exists>r \<in> set (rows_on_disk (rw_requests w)). request_key r = Some i}"

lemma result_not_null: "request_row_ok r \<Longrightarrow> jget r ''state'' \<in> set (map JStr replayable_states) \<Longrightarrow> jget r ''result'' \<noteq> JNull"
  by (auto simp: request_row_ok_def replayable_states_def state_defs str_form_def)

lemma begin_claims:
  assumes "begin_request env i fp now w = (Inr JNull, v)"
  shows "i \<notin> claims w \<and> i \<in> claims v \<and> rw_store v = rw_store w \<and> rw_commands v = rw_commands w"
proof -
  from assms obtain f where op: "locked_op ''RUNNER_ERROR'' ''RUNNER_ERROR'' ''RUNNER_ERROR'' (begin_judge i fp now)
      (re_io env (rw_tick w)) (rw_requests w) = (Inr JNull, f)" and v: "v = (next_tick w)\<lparr>rw_requests := f\<rparr>"
    by (auto simp: begin_request_def requests_op_def split: prod.splits)
  let ?rows = "rows_on_disk (rw_requests w)"
  from locked_op_Inr [OF op] obtain d where j: "begin_judge i fp now ?rows = Inr (JNull, d)"
    and f: "f = (case d of None \<Rightarrow> rw_requests w | Some row \<Rightarrow> Record_Rows (?rows @ [row]))" by blast
  from j have ok: "list_all request_row_ok ?rows" by (auto simp: begin_judge_def requests_latest_def split: if_splits)
  have new: "latest_by request_key ?rows i = None"
  proof (rule ccontr)
    assume "latest_by request_key ?rows i \<noteq> None"
    then obtain r where r: "latest_by request_key ?rows i = Some r" by blast
    from latest_by_in [OF r] ok have "request_row_ok r" by (simp add: list_all_iff)
    with j r ok result_not_null [of r] show False
      by (auto simp: begin_judge_def requests_latest_def split: if_split_asm)
  qed
  with j ok have d: "d = Some (request_row i fp CLAIMED now JNull)"
    by (auto simp: begin_judge_def requests_latest_def Let_def split: if_splits)
  have "request_key (request_row i fp CLAIMED now JNull) = Some i" by (simp add: request_key_def request_row_def)
  with new d f v show ?thesis by (auto simp: claims_def latest_by_None next_tick_def)
qed

end
