(* ===== verification/Deploy_Spend.thy ===== *)
theory Deploy_Spend
  imports Deploy_Accounts
begin

text \<open>
  The runs of the runner: any messages, any restarts, and the latch file deleted by hand, under any
  environment.  In every run the accounts hold.
\<close>

section \<open>The commands with an effect\<close>

definition effect_argv :: "string list \<Rightarrow> bool" where
  "effect_argv argv = (take 2 (drop 1 argv) \<in> {[''image'', ''tag''], [''image'', ''build'']})"

definition effects :: "runner_world \<Rightarrow> (json \<times> string list) list" where
  "effects w = filter (\<lambda>c. effect_argv (snd c)) (rw_commands w)"

lemma inspects_no_effect: "inspects env argv \<Longrightarrow> \<not> effect_argv argv"
  by (auto simp: inspects_def container_inspect_def image_inspect_def git_status_def git_head_def git_origin_main_def
      bindR_Inr_iff effect_argv_def split: if_splits)

lemma tag_effect: "tag_rollback_point docker img pr = Inr argv \<Longrightarrow> effect_argv argv \<and> take 2 (drop 1 argv) = [''image'', ''tag'']"
  by (auto simp: tag_rollback_point_def bindR_Inr_iff effect_argv_def split: if_splits)

lemma build_effect: "build_candidate docker root pr = Inr argv \<Longrightarrow> effect_argv argv \<and> take 2 (drop 1 argv) = [''image'', ''build'']"
  by (auto simp: build_candidate_def bindR_Inr_iff effect_argv_def)

lemma run_argv_world:
  "snd (run_argv env i argv w) = next_tick w \<or> snd (run_argv env i argv w) = started i argv (next_tick w)"
  by (auto simp: run_argv_def Let_def split: answer.splits)

lemma world_simps [simp]:
  "rw_store (next_tick w) = rw_store w" "rw_requests (next_tick w) = rw_requests w"
  "rw_audit (next_tick w) = rw_audit w" "rw_commands (next_tick w) = rw_commands w"
  "rw_latched (next_tick w) = rw_latched w" "effects (next_tick w) = effects w"
  "rw_store (started i argv w) = rw_store w" "rw_requests (started i argv w) = rw_requests w"
  "rw_audit (started i argv w) = rw_audit w" "rw_latched (started i argv w) = rw_latched w"
  "rw_commands (started i argv w) = rw_commands w @ [(i, argv)]"
  by (simp_all add: next_tick_def started_def effects_def)

lemma effects_started [simp]:
  "effects (started i argv w) = effects w @ (if effect_argv argv then [(i, argv)] else [])"
  by (simp add: effects_def)

lemma audit_append_world:
  "audit_append env es vr now named w = (r, v) \<Longrightarrow>
   v = w \<or> (\<exists>f. v = (next_tick w)\<lparr>rw_audit := f\<rparr> \<and>
     (\<exists>added. rows_on_disk f = rows_on_disk (rw_audit w) @ added \<and> (\<forall>a \<in> set added. in_state es a)))"
proof -
  assume a: "audit_append env es vr now named w = (r, v)"
  show ?thesis
  proof (cases "list_all (\<lambda>kv. fst kv \<in> set audit_fields) named")
    case True
    with a obtain f where f: "locked_op ''AUDIT_WRITE_FAILED'' ''AUDIT_WRITE_FAILED'' ''AUDIT_WRITE_FAILED''
        (audit_judge env es vr now named) (re_io env (rw_tick w)) (rw_audit w) = (r, f)"
      and v: "v = (next_tick w)\<lparr>rw_audit := f\<rparr>"
      by (auto simp: audit_append_def split: prod.splits)
    from f have "\<exists>added. rows_on_disk f = rows_on_disk (rw_audit w) @ added \<and> (\<forall>a \<in> set added. in_state es a)"
    proof (cases rule: locked_op_cases)
      case (added x row)
      then have "audit_row env es vr now named (rows_on_disk (rw_audit w)) = Inr row"
        by (auto simp: audit_judge_def verify_audit_def bindR_Inr_iff split: if_splits)
      then have "in_state es row"
        by (auto simp: audit_row_def Let_def bindR_Inr_iff in_state_def jget_def audit_fields_def)
      with added show ?thesis by auto
    qed auto
    with v show ?thesis by blast
  qed (use a in \<open>simp add: audit_append_def\<close>)
qed

lemma read_latch_world [simp]: "snd (read_latch env w) = next_tick w"
  by (simp add: read_latch_def)

lemma set_latch_world:
  "v = snd (set_latch env code i now w) \<Longrightarrow> v = w\<lparr>rw_tick := rw_tick v, rw_latch := rw_latch v\<rparr>"
  by (auto simp: set_latch_def Let_def next_tick_def read_latch_def bindW_def split: io.splits prod.splits sum.splits)

section \<open>What keeps the accounts\<close>

definition requests_grow :: "runner_world \<Rightarrow> runner_world \<Rightarrow> bool" where
  "requests_grow w w' = (\<exists>added. rows_on_disk (rw_requests w') = rows_on_disk (rw_requests w) @ added)"

lemma requests_grow_claims: "requests_grow w w' \<Longrightarrow> claims w \<subseteq> claims w'"
  by (auto simp: requests_grow_def claims_def)

definition quiet :: "runner_world \<Rightarrow> runner_world \<Rightarrow> bool" where
  "quiet w w' = (rw_store w' = rw_store w \<and> effects w' = effects w \<and> requests_grow w w')"

lemma requests_grow_refl: "rw_requests w' = rw_requests w \<Longrightarrow> requests_grow w w'"
  by (simp add: requests_grow_def)

lemma quiet_memory:
  "rw_store w' = rw_store w \<Longrightarrow> rw_commands w' = rw_commands w \<Longrightarrow> rw_requests w' = rw_requests w \<Longrightarrow> quiet w w'"
  by (simp add: quiet_def effects_def requests_grow_refl)

interpretation quiet: startup_ops quiet env for env
proof
  show "quiet w w" for w by (simp add: quiet_memory)
  show "quiet u w" if "quiet u v" "quiet v w" for u v w
    using that by (auto simp: quiet_def requests_grow_def)
  show "quiet w (snd (run_argv env i argv w))" if "inspects env argv" for i argv w
    using run_argv_world [of env i argv w] inspects_no_effect [OF that]
    by (auto simp: quiet_def intro: requests_grow_refl)
  show "quiet w (next_tick w)" for w by (simp add: quiet_memory)
  show "quiet w ((next_tick w)\<lparr>rw_requests := f\<rparr>)"
    if "rows_on_disk f = rows_on_disk (rw_requests w) @ added" for f w added
    using that by (simp add: quiet_def requests_grow_def effects_def)
  show "quiet w (snd (audit_append env es vr now named w))" for es vr now named w
    using audit_append_world [of env es vr now named w]
    by (cases "audit_append env es vr now named w") (auto intro!: quiet_memory)
  show "quiet w (snd (set_latch env code i now w))" for code i now w
    by (subst set_latch_world [OF HOL.refl]) (simp add: quiet_memory)
qed (auto intro!: quiet_memory)

definition store_kept :: "runner_world \<Rightarrow> runner_world \<Rightarrow> bool" where
  "store_kept w w' = (rw_store w' = rw_store w \<and> requests_grow w w')"

lemma quiet_store_kept: "quiet w w' \<Longrightarrow> store_kept w w'"
  by (simp add: quiet_def store_kept_def)

interpretation store_kept: effect_ops store_kept env for env
proof
  show "store_kept w (snd (run_argv env i argv w))" for w i argv
    using run_argv_world [of env i argv w] by (auto simp: store_kept_def intro: requests_grow_refl)
  then show "store_kept w (snd (run_argv env i argv w))" for w i argv .
  then show "store_kept w (snd (run_argv env i argv w))" for w i argv .
  show "store_kept u w" if "store_kept u v" "store_kept v w" for u v w
    using that by (auto simp: store_kept_def requests_grow_def)
qed (use quiet.refl quiet.tick quiet.requests quiet.audit quiet.latch quiet.memory in \<open>auto intro: quiet_store_kept\<close>)

section \<open>What follows a spend\<close>

text \<open>The effects of one request: at most its tag and its build, in that order.\<close>

definition paid_effects :: "json \<Rightarrow> (json \<times> string list) list \<Rightarrow> bool" where
  "paid_effects i es = (distinct es \<and> length es \<le> 2 \<and> (\<forall>e \<in> set es. fst e = i))"

lemma paid_effects_Nil [simp]: "paid_effects i []"
  by (simp add: paid_effects_def)

lemma run_cmd_effects:
  assumes "run_cmd env i template w = (r, v)"
  shows "effects v = effects w \<or> (\<exists>argv. template = Inr argv \<and> effects v = effects w @ [(i, argv)])"
  using assms run_argv_world [of env i "projr template" w]
  by (cases template) (auto simp: run_cmd_def split: if_splits)

lemma effect_commands_effects:
  assumes "effect_commands env i pr running deadline w = (r, v)"
  shows "\<exists>es. effects v = effects w @ es \<and> paid_effects i es"
proof -
  let ?Q = "\<lambda>t :: string res \<times> runner_world. \<exists>es. effects (snd t) = effects w @ es \<and> paid_effects i es"
  have after: "?Q t" if "effects (snd t) = effects w @ es" "paid_effects i es" for t es
    using that by blast
  have left: "effects (snd (time_left env deadline u)) = effects u" for u
    by (simp add: time_left_def mono_now_def)
  have build: "?Q (bindW (time_left env deadline u) (\<lambda>_ w.
     bindW (run_cmd env i (build_candidate (re_docker env) (re_trees env) pr) w) (\<lambda>(code, _) w.
     if code \<noteq> 0 then (Inl (Refused ''BUILD_FAILED''), w)
     else bindW (image_id env i (candidate_ref pr) w) (\<lambda>candidate w.
     case candidate of None \<Rightarrow> (Inl (Refused ''POST_CHECK_FAILED''), w) | Some c \<Rightarrow> (Inr c, w)))))"
    if u: "effects u = effects w @ es" "es = [] \<or> es = [(i, a)] \<and> take 2 (drop 1 a) = [''image'', ''tag'']" for u es a
  proof -
    obtain l x where l: "time_left env deadline u = (l, x)" "effects x = effects w @ es"
      using left [of u] u(1) by (cases "time_left env deadline u") simp
    obtain b y where b: "run_cmd env i (build_candidate (re_docker env) (re_trees env) pr) x = (b, y)" by fastforce
    have "\<exists>es. effects y = effects w @ es \<and> paid_effects i es"
      using run_cmd_effects [OF b] l(2) u(2) build_effect [of "re_docker env" "re_trees env" pr]
      by (auto simp: paid_effects_def)
    then obtain es' where y: "effects y = effects w @ es'" "paid_effects i es'" by blast
    have "effects (snd (image_id env i (candidate_ref pr) y)) = effects w @ es'"
      using quiet.image_id_measures [of y env i "candidate_ref pr"] y by (simp add: quiet_def)
    with l b y u show ?thesis
      by (cases l; cases b)
        (auto simp: bindW_def paid_effects_def intro!: after split: prod.splits sum.splits option.splits)
  qed
  obtain l x where l: "time_left env deadline w = (l, x)" "effects x = effects w"
    using left [of w] by (cases "time_left env deadline w") simp
  obtain b y where b: "run_cmd env i (tag_rollback_point (re_docker env) running pr) x = (b, y)" by fastforce
  from run_cmd_effects [OF b] l(2) tag_effect [of "re_docker env" running pr] obtain es a where
    y: "effects y = effects w @ es" "es = [] \<or> es = [(i, a)] \<and> take 2 (drop 1 a) = [''image'', ''tag'']" by auto
  then have ok: "paid_effects i es" by (auto simp: paid_effects_def)
  have "?Q (effect_commands env i pr running deadline w)"
  proof (cases l)
    case (Inl e)
    with l after [of "(Inl e, x)" "[]"] show ?thesis by (simp add: effect_commands_def)
  next
    case (Inr u)
    show ?thesis
    proof (cases b)
      case (Inl e)
      with l b Inr after [OF _ ok, of "(Inl e, y)"] y show ?thesis by (simp add: effect_commands_def)
    next
      case (Inr c)
      with l b \<open>l = Inr u\<close> build [OF y] after [OF _ ok, of "(Inl (Refused ''DOCKER_COMMAND_FAILED''), y)"] y(1)
      show ?thesis by (cases c) (simp add: effect_commands_def)
    qed
  qed
  with assms show ?thesis by simp
qed

lemma act_effects:
  "\<exists>es. effects (snd (act env message signed fp pr head running w)) = effects w @ es \<and>
     paid_effects (jget message ''request_id'') es"
proof -
  let ?i = "jget message ''request_id''"
  define Q where "Q t = (\<exists>es. effects (snd t) = effects w @ es \<and> paid_effects ?i es)"
    for t :: "json res \<times> runner_world"
  have q: "Q t" if "quiet w u" "quiet u (snd t)" for t u
    using that unfolding Q_def quiet_def by (intro exI [of _ "[]"]) simp
  have refused: "Q (Inl e, u)" if "quiet w u" for e u
    using q [OF that] by (simp add: quiet.refl)
  have paid: "Q (on_refusal (effect_commands env ?i pr running deadline u) f g)"
    if u: "quiet w u" and f: "\<And>c v. quiet v (snd (f c v))" and g: "\<And>x v. quiet v (snd (g x v))" for deadline u f g
  proof -
    obtain r v where r: "effect_commands env ?i pr running deadline u = (r, v)" by fastforce
    from effect_commands_effects [OF r] u obtain es where es: "effects v = effects w @ es" "paid_effects ?i es"
      by (auto simp: quiet_def)
    have "quiet v (snd (on_refusal (r, v) f g))"
      using f g by (auto simp: on_refusal_def quiet.refl split: sum.splits exn.splits)
    with es r show ?thesis by (auto simp: Q_def quiet_def)
  qed
  have "Q (act env message signed fp pr head running w)"
    unfolding act_def Let_def
    apply (rule quiet.bindW_end [OF quiet.refl quiet.ticks(2)], erule refused)
    apply (rule quiet.bindW_end [where w = w, OF _ quiet.ticks(1)], assumption, erule refused)
    apply (rule quiet.on_refusal_end [where w = w, OF _ quiet.audit], assumption, simp, erule refused)
     apply (erule q, rule quiet.fail_steps)
    apply (erule paid, rule quiet.fail_steps)
    apply (intro quiet.quiet_steps quiet.fail_steps; simp add: quiet.refl)
    done
  then show ?thesis by (simp add: Q_def)
qed

section \<open>Spending\<close>

text \<open>
  One spend: nothing landed and nothing was built, or one fresh row landed for this request and then at
  most its two effects were started.
\<close>

definition spend_outcome :: "runner_env \<Rightarrow> verified_approval \<Rightarrow> string \<Rightarrow> runner_world \<Rightarrow> runner_world \<Rightarrow> bool" where
  "spend_outcome env approval i w w' =
     (requests_grow w w' \<and>
      (rows_on_disk (rw_store w') = rows_on_disk (rw_store w) \<and> effects w' = effects w \<or>
       (\<exists>row es. fresh_spend env approval i (rows_on_disk (rw_store w)) row \<and>
         rows_on_disk (rw_store w') = rows_on_disk (rw_store w) @ [row] \<and>
         effects w' = effects w @ es \<and> paid_effects (JStr i) es)))"

lemma spend_and_act_outcome:
  assumes i: "jget message ''request_id'' = JStr i"
  shows "spend_outcome env approval i w (snd (spend_and_act env message signed fp pr approval head running w))"
proof -
  let ?spend = "\<lambda>now. consume env approval i (stamp now) (next_tick w)"
  let ?after = "\<lambda>now row w. on_refusal (audit_append env ''CONSUMED'' ''PASS'' (stamp now)
         (signed @ [(''target'', effect_ids pr (JStr head) JNull (JStr running)),
           (''consumption_seq'', jget row ''seq''), (''consumption_row_sha256'', jget row ''row_sha256'')]) w)
       (\<lambda>_ w. fail_not_started env message signed fp ''AUDIT_WRITE_FAILED'' w)
       (\<lambda>_ w. act env message signed fp pr head running w)"
  define now where "now = re_wall env (rw_tick w)"
  obtain r v where r: "?spend now = (r, v)" by fastforce
  have whole: "spend_and_act env message signed fp pr approval head running w =
      on_refusal (r, v) (\<lambda>code w. refuse_before_consume env message signed fp code w) (?after now)"
    using r by (simp add: spend_and_act_def wall_now_def now_def i)
  have kept: "store_kept u (snd (?after now row u))" for row u
    by (intro store_kept.quiet_steps store_kept.act_steps store_kept.fail_steps) simp
  have refuse: "quiet v (snd (refuse_before_consume env message signed fp code v))" for code
    by (rule quiet.refuse_steps)
  have after: "\<exists>es. effects (snd (?after now row u)) = effects u @ es \<and> paid_effects (JStr i) es" for row u
  proof -
    obtain a x where a: "audit_append env ''CONSUMED'' ''PASS'' (stamp now)
         (signed @ [(''target'', effect_ids pr (JStr head) JNull (JStr running)),
           (''consumption_seq'', jget row ''seq''), (''consumption_row_sha256'', jget row ''row_sha256'')]) u = (a, x)"
      by fastforce
    from audit_append_world [OF this] have ux: "effects x = effects u" by (auto simp: effects_def)
    have "effects (snd (fail_not_started env message signed fp c x)) = effects u" for c
      using quiet.fail_steps(1) [of x env message signed fp c] ux by (simp add: quiet_def)
    with ux act_effects [of env message signed fp pr head running x] i a show ?thesis
      by (auto simp: on_refusal_def intro: exI [of _ "[]"] split: sum.splits exn.splits)
  qed
  from r show ?thesis
  proof (cases rule: consume_cases)
    case (same e)
    have "quiet v (snd (on_refusal (r, v) (\<lambda>code w. refuse_before_consume env message signed fp code w) (?after now)))"
      using refuse same by (auto simp: on_refusal_def quiet.refl split: sum.splits exn.splits)
    with whole same show ?thesis by (simp add: spend_outcome_def quiet_def requests_grow_def)
  next
    case (added row f)
    show ?thesis
    proof (cases r)
      case (Inl e)
      have "quiet v (snd (on_refusal (r, v) (\<lambda>code w. refuse_before_consume env message signed fp code w) (?after now)))"
        using refuse Inl by (auto simp: on_refusal_def quiet.refl split: exn.splits)
      with whole added(1,2,3) show ?thesis
        by (auto simp: spend_outcome_def quiet_def requests_grow_def effects_def intro: exI [of _ "[]"])
    next
      case (Inr y)
      from added(4) [OF Inr] have y: "y = row" "f = Record_Rows (rows_on_disk (rw_store (next_tick w)) @ [row])" by auto
      from kept [where row = row and u = v] after [where row = row and u = v] whole Inr y added(1,2) show ?thesis
        by (auto simp: spend_outcome_def store_kept_def requests_grow_def on_refusal_def effects_def)
    qed
  qed
qed

end
