(* ===== verification/Deploy_Runs.thy ===== *)
theory Deploy_Runs
  imports Deploy_Spend
begin

text \<open>
  The accounts in every run: what one message does to them, and the invariant the runs keep.
\<close>

section \<open>One message\<close>

lemma message_request_id:
  assumes "message_ok message" "jget message ''request_id'' \<noteq> JNull"
  obtains i where "jget message ''request_id'' = JStr i"
proof -
  from assms have "str_form (token_form 128) (jget message ''request_id'')" by (simp add: message_ok_def)
  with that show thesis by (cases "jget message ''request_id''") (simp_all add: str_form_def)
qed

lemma handle_snd: "snd (handle env message peer w) = snd (handle_message env message peer w)"
  by (cases "handle_message env message peer w") (auto simp: handle_def on_refusal_def split: sum.splits exn.splits)

text \<open>A message claims a new id and spends for it, or leaves the accounts alone.\<close>

definition claimed_spend :: "runner_env \<Rightarrow> json \<Rightarrow> runner_world \<Rightarrow> runner_world \<Rightarrow> bool" where
  "claimed_spend env message w w' = (\<exists>i approval v. jget message ''request_id'' = JStr i \<and> i \<notin> claims w \<and>
     i \<in> claims v \<and> quiet w v \<and> spend_outcome env approval i v w')"

lemma handle_outcome:
  "quiet w (snd (handle env message peer w)) \<or> claimed_spend env message w (snd (handle env message peer w))"
proof -
  let ?P = "\<lambda>t :: json res \<times> runner_world. quiet w (snd t) \<or> claimed_spend env message w (snd t)"
  have "?P (handle_message env message peer w)"
  proof (rule quiet.handle_message_end)
    fix args base now fp q s u approval head running t x y v
    assume ok: "message_ok message" "jget message ''request_id'' \<noteq> JNull"
      and b: "quiet w q" "begin_request env (py_str (jget message ''request_id'')) fp (stamp now) q = (Inr JNull, s)"
      and v: "quiet w s" "quiet s v"
    from message_request_id [OF ok] obtain i where i: "jget message ''request_id'' = JStr i" .
    from begin_claims [OF b(2)] i have c: "i \<notin> claims q" "i \<in> claims s" by simp_all
    have "i \<notin> claims w" "i \<in> claims v"
      using c b(1) v(2) requests_grow_claims [of w q] requests_grow_claims [of s v] by (auto simp: quiet_def)
    with spend_and_act_outcome [OF i] quiet.trans [OF v] i
    show "?P (spend_and_act env message (signed_base base approval) fp (jget args ''pr'') approval head running v)"
      unfolding claimed_spend_def by blast
  qed simp
  then show ?thesis by (simp add: handle_snd)
qed

section \<open>The accounts\<close>

definition accounts_ok :: "runner_world \<Rightarrow> bool" where
  "accounts_ok w =
     (let rows = rows_on_disk (rw_store w) in
      distinct (spent ''approval_id'' rows) \<and> distinct (spent ''nonce'' rows) \<and> distinct (spent ''request_id'' rows) \<and>
      set (spent ''request_id'' rows) \<subseteq> JStr ` claims w \<and>
      fst ` set (effects w) \<subseteq> set (spent ''request_id'' rows) \<and> distinct (effects w))"

lemma named_claims: "requests_grow w w' \<Longrightarrow> names \<subseteq> JStr ` claims w \<Longrightarrow> names \<subseteq> JStr ` claims w'"
  using image_mono [OF requests_grow_claims, of w w' JStr] by blast

lemma accounts_quiet: "quiet w w' \<Longrightarrow> accounts_ok w \<Longrightarrow> accounts_ok w'"
  using named_claims [of w w' "set (spent ''request_id'' (rows_on_disk (rw_store w)))"]
  by (simp add: accounts_ok_def Let_def quiet_def)

lemma accounts_spend:
  assumes "spend_outcome env approval i w w'" "accounts_ok w" "i \<in> claims w"
    and new: "JStr i \<notin> set (spent ''request_id'' (rows_on_disk (rw_store w)))"
  shows "accounts_ok w'"
proof -
  let ?rows = "rows_on_disk (rw_store w)"
  have grow: "requests_grow w w'" using assms(1) by (simp add: spend_outcome_def)
  from assms(1) consider "rows_on_disk (rw_store w') = ?rows" "effects w' = effects w"
    | row es where "fresh_spend env approval i ?rows row" "rows_on_disk (rw_store w') = ?rows @ [row]"
      "effects w' = effects w @ es" "paid_effects (JStr i) es"
    by (auto simp: spend_outcome_def)
  then show ?thesis
  proof cases
    case 1
    with assms(2) named_claims [OF grow] show ?thesis by (simp add: accounts_ok_def Let_def)
  next
    case 2
    from assms(2) new have old: "\<And>e. e \<in> set (effects w) \<Longrightarrow> fst e \<noteq> JStr i" by (auto simp: accounts_ok_def Let_def)
    with 2(4) have "set (effects w) \<inter> set es = {}" by (auto simp: paid_effects_def)
    moreover have "JStr i \<in> JStr ` claims w'" using assms(3) requests_grow_claims [OF grow] by blast
    ultimately show ?thesis
      using 2 assms(2) new named_claims [OF grow]
      by (auto simp: accounts_ok_def Let_def fresh_spend_def paid_effects_def)
  qed
qed

lemma accounts_message: "accounts_ok w \<Longrightarrow> accounts_ok (snd (handle env message peer w))"
proof -
  assume ok: "accounts_ok w"
  from handle_outcome [of w env message peer] show ?thesis
  proof
    assume "claimed_spend env message w (snd (handle env message peer w))"
    then obtain i approval v where v: "i \<notin> claims w" "i \<in> claims v" "quiet w v"
      "spend_outcome env approval i v (snd (handle env message peer w))" by (auto simp: claimed_spend_def)
    have "JStr i \<notin> set (spent ''request_id'' (rows_on_disk (rw_store v)))"
      using ok v(1,3) by (auto simp: accounts_ok_def Let_def quiet_def)
    from accounts_spend [OF v(4) accounts_quiet [OF v(3) ok] v(2) this] show ?thesis .
  qed (use ok accounts_quiet in blast)
qed

section \<open>Runs\<close>

text \<open>
  A fresh install, any messages, any restarts of the actor (a crash included: the environment decides
  where), and the latch file removed by hand.
\<close>

definition fresh_install :: "runner_world \<Rightarrow> bool" where
  "fresh_install w = (approval_rows (rows_on_disk (rw_store w)) = [] \<and>
     rows_on_disk (rw_audit w) = [] \<and> rw_commands w = [])"

inductive runner_run :: "runner_env \<Rightarrow> runner_world \<Rightarrow> bool" for env where
  installed: "fresh_install w \<Longrightarrow> runner_run env w"
| message: "runner_run env w \<Longrightarrow> runner_run env (snd (handle env m peer w))"
| restart: "runner_run env w \<Longrightarrow> runner_run env (snd (start_actor env store_id w))"
| latch_removed: "runner_run env w \<Longrightarrow> runner_run env (w\<lparr>rw_latch := No_Record\<rparr>)"

lemma runner_accounts: "runner_run env w \<Longrightarrow> accounts_ok w"
proof (induction rule: runner_run.induct)
  case (installed w)
  then show ?case by (simp add: accounts_ok_def Let_def fresh_install_def spent_def effects_def)
next
  case (message w m peer)
  then show ?case by (simp add: accounts_message)
next
  case (restart w store_id)
  then show ?case using accounts_quiet quiet.start_actor_steps by blast
next
  case (latch_removed w)
  then show ?case using accounts_quiet [of w "w\<lparr>rw_latch := No_Record\<rparr>"] by (simp add: quiet_memory)
qed

end
