(* ===== verification/Deploy_Latch.thy ===== *)
theory Deploy_Latch
  imports Deploy_Runs
begin

text \<open>
  What the actor never takes back: a latch in memory, the audit's rows, and the shape of the
  commands it runs.
\<close>

section \<open>The latch in memory\<close>

definition latch_kept :: "runner_world \<Rightarrow> runner_world \<Rightarrow> bool" where
  "latch_kept w w' = (rw_latched w \<longrightarrow> rw_latched w')"

lemma consume_world:
  "\<exists>f. snd (consume env approval i now w) = (next_tick w)\<lparr>rw_store := f\<rparr>"
proof -
  have "next_tick w = (next_tick w)\<lparr>rw_store := rw_store w\<rparr>" by (simp add: next_tick_def)
  then have "\<exists>f. next_tick w = (next_tick w)\<lparr>rw_store := f\<rparr>" by blast
  then show ?thesis by (auto simp: consume_def split: prod.splits)
qed

interpretation latch_kept: all_ops latch_kept env for env
proof
  have run: "latch_kept w (snd (run_argv env i argv w))" for w i argv
    using run_argv_world [of env i argv w] by (auto simp: latch_kept_def)
  then show "latch_kept w (snd (run_argv env i argv w))" for w i argv .
  from run show "latch_kept w (snd (run_argv env i argv w))" for w i argv .
  from run show "latch_kept w (snd (run_argv env i argv w))" for w i argv .
  show "latch_kept w (snd (audit_append env es vr now named w))" for es vr now named w
    using audit_append_world [of env es vr now named w]
    by (cases "audit_append env es vr now named w") (auto simp: latch_kept_def next_tick_def)
  show "latch_kept w (snd (set_latch env code i now w))" for code i now w
    by (subst set_latch_world [OF HOL.refl]) (simp add: latch_kept_def)
  show "latch_kept w (snd (consume env approval i now w))" for approval i now w
    using consume_world [of env approval i now w] by (auto simp: latch_kept_def next_tick_def)
qed (auto simp: latch_kept_def next_tick_def)

lemma latch_and_finish_latches: "rw_latched (snd (latch_and_finish env message signed fp cause now
    (spend_verdict cause' pr head measured) w))"
proof -
  have same: "latch_and_finish env message signed fp cause now v w =
      latch_and_finish env message signed fp cause now v (w\<lparr>rw_latched := True\<rparr>)" for v
    by (simp add: latch_and_finish_def)
  have "latch_kept (w\<lparr>rw_latched := True\<rparr>) (snd (latch_and_finish env message signed fp cause now
      (spend_verdict cause' pr head measured) (w\<lparr>rw_latched := True\<rparr>)))"
    by (rule latch_kept.latch_and_finish_steps)
  then show ?thesis by (subst same) (simp add: latch_kept_def)
qed

lemma fail_latches:
  assumes "fail_not_started env message signed fp cause w = (Inr r, v) \<or>
    fail_after_effect env message signed fp cause pr head w = (Inr r, v)"
  shows "rw_latched v"
proof -
  have latched: "rw_latched x"
    if "latch_and_finish env message signed fp cause now (spend_verdict c pr head m) u = (a, x)" for now c pr head m u a x
    using latch_and_finish_latches [of env message signed fp cause now c pr head m u] that by simp
  from assms show ?thesis
    by (auto simp: fail_not_started_def fail_after_effect_def bindW_Inr_iff intro: latched)
qed

text \<open>A latched actor refuses every message and changes nothing.\<close>

lemma latched_refuses:
  "rw_latched w \<Longrightarrow> handle env message peer w = (Inr (actor_refusal ''RUNNER_LATCHED'' message None None), w)"
  by (simp add: handle_def handle_message_def look_at_latch_def on_refusal_def)

text \<open>
  How an effect can end: as a success, in a latch, or, when only the last row of the request could not
  be written, in \<open>RUNNER_ERROR\<close>.
\<close>

lemma on_refusal_rule:
  assumes "\<And>e u. (\<forall>c. e \<noteq> Refused c) \<Longrightarrow> Q (Inl e, u)" "\<And>c u. m = (Inl (Refused c), u) \<Longrightarrow> Q (f c u)"
    "\<And>x u. m = (Inr x, u) \<Longrightarrow> Q (g x u)"
  shows "Q (on_refusal m f g)"
  using assms by (cases m) (auto simp: on_refusal_def split: sum.split exn.split)

lemma bindW_rule:
  assumes "\<And>e u. m = (Inl e, u) \<Longrightarrow> Q (Inl e, u)" "\<And>x u. m = (Inr x, u) \<Longrightarrow> Q (f x u)"
  shows "Q (bindW m f)"
  using assms by (cases m) (auto simp: bindW_def split: sum.split)

lemma swallowed:
  assumes "on_refusal m (\<lambda>_ w. (Inr x, w)) (\<lambda>_ w. (Inr y, w)) = (Inl e, u)"
  shows "e \<noteq> Refused c"
  using assms by (cases m) (auto simp: on_refusal_def split: sum.splits exn.splits)

lemma latch_and_finish_no_refusal: "fst (latch_and_finish env message signed fp cause now verdict w) \<noteq> Inl (Refused c)"
proof -
  define Q where "Q t = (\<forall>c. fst t \<noteq> Inl (Refused c))" for t :: "json res \<times> runner_world"
  obtain a b d e g where v: "verdict = (a, b, d, e, g)" by (cases verdict) auto
  have "Q (latch_and_finish env message signed fp cause now verdict w)"
    unfolding latch_and_finish_def v prod.case Let_def case_prod_beta
    by (intro bindW_rule [where Q = Q]) (auto simp: Q_def dest: swallowed)
  then show ?thesis by (auto simp: Q_def)
qed

lemma fail_no_refusal:
  "fst (fail_not_started env message signed fp cause w) \<noteq> Inl (Refused c)"
  "fst (fail_after_effect env message signed fp cause pr head w) \<noteq> Inl (Refused c)"
  by (auto simp: fail_not_started_def fail_after_effect_def wall_now_def on_refusal_def bindW_def
      latch_and_finish_no_refusal split: prod.split sum.split exn.split)

lemma finish_refusal:
  assumes "finish_request env i fp s now result w = (Inl (Refused c), v)"
  shows "c = ''RUNNER_ERROR''"
proof -
  have judge: "finish_judge i fp s now result rows = Inl e \<Longrightarrow> e = runner_error" for rows e
    by (auto simp: finish_judge_def requests_latest_def bindR_Inl_iff Let_def split: if_splits option.splits)
  have app: "append_row ''RUNNER_ERROR'' outcome rows row = (Inl (Refused c), f) \<Longrightarrow> c = ''RUNNER_ERROR''" for outcome rows row f
    by (auto simp: append_row_def killed_def split: io.splits)
  from assms show ?thesis
    by (auto simp: finish_request_def requests_op_def locked_op_def bindR_Inl_iff runner_error_def
        split: if_splits prod.splits sum.splits option.splits
        dest!: judge app read_record_refuses)
qed

lemma act_ends:
  assumes "act env message signed fp pr head running w = (r, v)"
  shows "(\<exists>reply. r = Inr reply \<and> (rw_latched v \<or> jget reply ''ok'' = JBool True)) \<or>
    (\<exists>e. r = Inl e \<and> (e = runner_error \<or> (\<forall>c. e \<noteq> Refused c)))"
proof -
  define Q where "Q t = ((\<exists>reply. fst t = Inr reply \<and> (rw_latched (snd t) \<or> jget reply ''ok'' = JBool True)) \<or>
      (\<exists>e. fst t = Inl e \<and> (e = runner_error \<or> (\<forall>c. e \<noteq> Refused c))))"
    for t :: "json res \<times> runner_world"
  have error: "Q (Inl e, u)" if "\<forall>c. e \<noteq> Refused c" for e u using that by (simp add: Q_def)
  have fail: "Q (fail_not_started env message signed fp cause u)" "Q (fail_after_effect env message signed fp cause pr head u)"
    for cause u
  proof -
    have "Q t" if "t = fail_not_started env message signed fp cause u \<or> t = fail_after_effect env message signed fp cause pr head u" for t
    proof (cases t)
      case (Pair a x)
      show ?thesis
      proof (cases a)
        case (Inl e)
        from that fail_no_refusal have "fst t \<noteq> Inl (Refused c)" for c by blast
        with Pair Inl show ?thesis by (simp add: Q_def)
      next
        case (Inr reply)
        with that Pair fail_latches [of env message signed fp cause u reply x pr head]
        show ?thesis by (auto simp: Q_def)
      qed
    qed
    then show "Q (fail_not_started env message signed fp cause u)"
      "Q (fail_after_effect env message signed fp cause pr head u)" by blast+
  qed
  have finished: "Q (bindW (finish_request env i fp s now reply u) (\<lambda>_ w. (Inr reply, w)))"
    if "jget reply ''ok'' = JBool True" for i s now reply u
  proof (rule bindW_rule)
    fix e x
    assume "finish_request env i fp s now reply u = (Inl e, x)"
    then show "Q (Inl e, x)" using finish_refusal by (cases e) (auto simp: Q_def runner_error_def)
  qed (simp add: Q_def that)
  have "Q (act env message signed fp pr head running w)"
    unfolding act_def Let_def wall_now_def mono_now_def bindW_simps
    by (intro on_refusal_rule [where Q = Q] error fail finished) (simp_all add: actor_ok_def)
  with assms show ?thesis by (simp add: Q_def)
qed

end
