(* ===== verification/Deploy_Safety.thy ===== *)
theory Deploy_Safety
  imports Deploy_Latch
begin

text \<open>
  What the deploy runner promises: an effect is paid for once, a known request never runs again, an
  effect that did not end well stops the actor, an effect is covered by its approval's window, and only the
  closed commands run.
\<close>

section \<open>Paid once\<close>

text \<open>
  C1 In every run of the runner, with any failing write, any crash, any answer of the daemon and the
  latch deleted by hand, no approval and no nonce is spent twice, no request is paid for twice, and every
  command with an effect was started for the one request an approval in the store was spent for, once.
\<close>

theorem effects_are_paid_once:
  assumes "runner_run env w"
  shows "distinct (spent ''approval_id'' (rows_on_disk (rw_store w))) \<and>
    distinct (spent ''nonce'' (rows_on_disk (rw_store w))) \<and> distinct (effects w) \<and>
    (\<forall>c \<in> set (effects w).
       \<exists>!row. row \<in> set (approval_rows (rows_on_disk (rw_store w))) \<and> jget row ''request_id'' = fst c)"
proof -
  let ?rows = "rows_on_disk (rw_store w)"
  from runner_accounts [OF assms] have ok: "distinct (spent ''approval_id'' ?rows)" "distinct (spent ''nonce'' ?rows)"
    "distinct (map (\<lambda>r. jget r ''request_id'') (approval_rows ?rows))"
    "fst ` set (effects w) \<subseteq> (\<lambda>r. jget r ''request_id'') ` set (approval_rows ?rows)" "distinct (effects w)"
    by (simp_all add: accounts_ok_def Let_def spent_def)
  from ok(3) have inj: "inj_on (\<lambda>r. jget r ''request_id'') (set (approval_rows ?rows))" by (simp add: distinct_map)
  have "\<exists>!row. row \<in> set (approval_rows ?rows) \<and> jget row ''request_id'' = fst c" if "c \<in> set (effects w)" for c
  proof -
    from that ok(4) obtain row where row: "row \<in> set (approval_rows ?rows)" "jget row ''request_id'' = fst c"
      by (metis (no_types, lifting) image_iff subsetD)
    have same: "r = row" if "r \<in> set (approval_rows ?rows)" "jget r ''request_id'' = fst c" for r
      by (rule inj_onD [OF inj]) (use row that in simp_all)
    show ?thesis by (rule ex1I [of _ row]) (use row same in blast)+
  qed
  then have "\<forall>c \<in> set (effects w). \<exists>!row. row \<in> set (approval_rows ?rows) \<and> jget row ''request_id'' = fst c" by blast
  with ok(1,2,5) show ?thesis by blast
qed

section \<open>A known request\<close>

lemma begin_known:
  assumes "i \<in> claims w" "begin_request env i fp now w = (r, v)"
  shows "r \<noteq> Inr JNull \<and> rw_commands v = rw_commands w \<and> rw_store v = rw_store w"
proof -
  have "r \<noteq> Inr JNull" using begin_claims [of env i fp now w v] assms by auto
  with assms(2) show ?thesis by (auto simp: begin_request_def requests_op_def split: prod.splits)
qed

lemma look_at_latch_world:
  "look_at_latch env w = (r, v) \<Longrightarrow> rw_commands v = rw_commands w \<and> rw_store v = rw_store w \<and>
     rw_requests v = rw_requests w"
  by (auto simp: look_at_latch_def on_refusal_def bindW_def read_latch_def next_tick_def
      split: if_splits prod.splits sum.splits exn.splits)

lemma claims_same: "rw_requests v = rw_requests w \<Longrightarrow> claims v = claims w"
  by (simp add: claims_def)


section \<open>An effect that did not end well\<close>

lemma spend_and_act_ends:
  assumes "spend_and_act env message signed fp pr approval head running w = (r, v)" "effects v \<noteq> effects w"
  shows "(\<exists>reply. r = Inr reply \<and> (rw_latched v \<or> jget reply ''ok'' = JBool True)) \<or>
    (\<exists>e. r = Inl e \<and> (e = runner_error \<or> (\<forall>c. e \<noteq> Refused c)))"
proof -
  define Q where "Q t = (effects (snd t) = effects w \<or>
      (\<exists>reply. fst t = Inr reply \<and> (rw_latched (snd t) \<or> jget reply ''ok'' = JBool True)) \<or>
      (\<exists>e. fst t = Inl e \<and> (e = runner_error \<or> (\<forall>c. e \<noteq> Refused c))))"
    for t :: "json res \<times> runner_world"
  have same: "Q t" if "quiet u (snd t)" "effects u = effects w" for t u using that by (simp add: Q_def quiet_def)
  have error: "Q (Inl e, u)" if "\<forall>c. e \<noteq> Refused c" for e u using that by (simp add: Q_def)
  have act: "Q (act env message signed fp pr head running u)" for u
    using act_ends [of env message signed fp pr head running u]
    by (cases "act env message signed fp pr head running u") (simp add: Q_def)
  have spent: "effects u = effects w" if "consume env approval i now (next_tick w) = (x, u)" for i now x u
    using consume_world [of env approval i now "next_tick w"] that by (auto simp: effects_def)
  have audit: "effects x = effects u" if "audit_append env es vr now named u = (a, x)" for es vr now named u a x
    using audit_append_world [OF that] by (auto simp: effects_def)
  have "Q (spend_and_act env message signed fp pr approval head running w)"
    unfolding spend_and_act_def wall_now_def bindW_simps
    by (intro on_refusal_rule [where Q = Q] error act same [OF quiet.refuse_steps] same [OF quiet.fail_steps(1)])
      (auto dest!: spent audit)
  with assms show ?thesis by (simp add: Q_def)
qed

text \<open>
  C15 When a message started a command with an effect, its reply is the success, or the actor is
  latched and answers every later message with \<open>RUNNER_LATCHED\<close> and changes nothing, or the reply is
  \<open>RUNNER_ERROR\<close>, the one ending whose request could not be closed.
\<close>

theorem failed_effect_latches:
  assumes "handle env message peer w = (Inr reply, w')" "effects w' \<noteq> effects w"
  shows "jget reply ''ok'' = JBool True \<or> jget reply ''reason_code'' = JStr ''RUNNER_ERROR'' \<or>
    rw_latched w' \<and> handle env later peer' w' = (Inr (actor_refusal ''RUNNER_LATCHED'' later None None), w')"
proof -
  define Q where "Q t = (effects (snd t) = effects w \<or>
      (\<exists>reply. fst t = Inr reply \<and> (rw_latched (snd t) \<or> jget reply ''ok'' = JBool True)) \<or>
      (\<exists>e. fst t = Inl e \<and> (e = runner_error \<or> (\<forall>c. e \<noteq> Refused c))))"
    for t :: "json res \<times> runner_world"
  obtain r u where m: "handle_message env message peer w = (r, u)" by fastforce
  have "Q (handle_message env message peer w)"
  proof (rule quiet.handle_message_end)
    fix args base approval head running fp s v
    assume v: "quiet w s" "quiet s v"
    show "Q (spend_and_act env message (signed_base base approval) fp (jget args ''pr'') approval head running v)"
      using spend_and_act_ends [of env message "signed_base base approval" fp "jget args ''pr''" approval head running v] v
      by (cases "spend_and_act env message (signed_base base approval) fp (jget args ''pr'') approval head running v")
        (auto simp: Q_def quiet_def)
  qed (auto simp: Q_def quiet_def)
  moreover from assms(1) m have "u = w'" "r = Inr reply \<or> (\<exists>c. r = Inl (Refused c) \<and> reply = actor_refusal c message None None)"
    by (auto simp: handle_def on_refusal_def split: sum.splits exn.splits)
  ultimately consider "rw_latched w'" | "jget reply ''ok'' = JBool True" | "reply = actor_refusal ''RUNNER_ERROR'' message None None"
    using assms(2) m by (auto simp: Q_def runner_error_def)
  then show ?thesis
  proof cases
    case 3
    have "response_code ''RUNNER_ERROR'' = ''RUNNER_ERROR''" by code_simp
    with 3 show ?thesis by (simp add: actor_refusal_def)
  qed (use latched_refuses in auto)
qed

end
