(* ===== verification/Deploy_Bounds.thy ===== *)
theory Deploy_Bounds
  imports Deploy_Safety
begin

text \<open>
  What bounds an effect: the window of the signed approval that was spent for it, the closed set of
  commands, and the time a caller waits for a record's lock.
\<close>

section \<open>What a verified approval says\<close>

lemma window_Inr:
  assumes "check_approval_window p action issued expires now cutoff = Inr ()"
  shows "\<exists>d. map_of (tp_deadlines p) action = Some d \<and> now + secs d * micro \<le> expires * micro \<and>
    expires - issued \<le> secs (tp_max_lifetime p) \<and> issued * micro \<le> now + secs (tp_issue_skew p) * micro \<and>
    now < expires * micro \<and> issued < expires"
  using assms by (auto simp: check_approval_window_def split: option.splits if_splits)

text \<open>The document behind a verified approval.\<close>

definition vouches ::
  "runner_env \<Rightarrow> (string \<Rightarrow> string \<Rightarrow> verdict) \<Rightarrow> string \<Rightarrow> json \<Rightarrow> int \<Rightarrow> verified_approval \<Rightarrow> json \<Rightarrow> bool" where
  "vouches env verifier action args now approval doc =
     (\<exists>raw sig issued expires d.
        verifier raw sig = Verified \<and> re_loads env raw = Some doc \<and> canonical_bytes doc = Inr raw \<and>
        jget doc ''action'' = JStr action \<and> va_approval_id approval = jget doc ''approval_id'' \<and>
        va_nonce approval = jget doc ''nonce'' \<and> va_action approval = action \<and>
        va_target approval = jget doc ''target'' \<and>
        jget (jget doc ''environment'') ''project'' = JStr (rp_project (re_place env)) \<and>
        jget (jget doc ''environment'') ''host_label'' = JStr (rp_host_label (re_place env)) \<and>
        list_all (\<lambda>kv. py_eq (jget (jget doc ''target'') (fst kv)) (snd kv)) (items args) \<and>
        parse_utc_second (jget doc ''issued_at'') = Inr issued \<and>
        parse_utc_second (jget doc ''expires_at'') = Inr expires \<and>
        map_of (tp_deadlines (re_policy env)) action = Some d \<and>
        now + secs d * micro \<le> expires * micro \<and> expires - issued \<le> secs (tp_max_lifetime (re_policy env)) \<and>
        issued * micro \<le> now + secs (tp_issue_skew (re_policy env)) * micro)"

lemma parse_strict_Inr: "parse_strict loads raw = Inr doc \<Longrightarrow> loads raw = Some doc"
  by (auto simp: parse_strict_def split: if_splits option.splits)

lemma require_canonical_Inr: "require_canonical raw doc = Inr () \<Longrightarrow> canonical_bytes doc = Inr raw"
  by (auto simp: require_canonical_def bindR_Inr_iff split: if_splits)

lemma verify_deploy_approval_Inr:
  assumes "verify_deploy_approval env verifier action args b64 signature trust revoked now = Inr approval"
  shows "\<exists>doc. vouches env verifier action args now approval doc"
proof -
  from assms obtain request raw sig doc issued expires where
    v: "check_args (JStr action) args = Inr request" "verifier raw sig = Verified"
      "parse_strict (re_loads env) raw = Inr doc" "require_canonical raw doc = Inr ()"
    and d: "jget doc ''action'' = JStr action"
      "jget (jget doc ''environment'') ''project'' = JStr (rp_project (re_place env))"
      "jget (jget doc ''environment'') ''host_label'' = JStr (rp_host_label (re_place env))"
      "parse_utc_second (jget doc ''issued_at'') = Inr issued" "parse_utc_second (jget doc ''expires_at'') = Inr expires"
    and w: "check_approval_window (re_policy env) action issued expires now None = Inr ()"
      "check_requested_binding request (jget doc ''target'') = Inr ()"
    and a: "va_approval_id approval = jget doc ''approval_id''" "va_nonce approval = jget doc ''nonce''"
      "va_action approval = action" "va_target approval = jget doc ''target''"
    by (auto simp: verify_deploy_approval_def bindR_Inr_iff Let_def split: if_splits verdict.splits)
  have "request = args" using v(1) by (auto simp: check_args_def split: sum.splits if_splits)
  with w(2) have "list_all (\<lambda>kv. py_eq (jget (jget doc ''target'') (fst kv)) (snd kv)) (items args)"
    by (auto simp: check_requested_binding_def Let_def split: if_splits)
  with v(2) parse_strict_Inr [OF v(3)] require_canonical_Inr [OF v(4)] d window_Inr [OF w(1)] a show ?thesis
    unfolding vouches_def by blast
qed

lemma verify_message_Inr:
  assumes "verify_message env message args t = (Inr approval, u)"
  shows "\<exists>k trust doc. rw_tick t \<le> k \<and> k < rw_tick u \<and>
    vouches env (\<lambda>raw sig. re_verifier env (Suc k) raw sig trust) ''prepare_candidate'' args (re_wall env k) approval doc"
proof -
  from assms obtain trust revoked where
    "verify_deploy_approval env (\<lambda>raw sig. re_verifier env (Suc (Suc (Suc (rw_tick t)))) raw sig trust) ''prepare_candidate''
       args (jget message ''approval_document_b64'') (jget message ''approval_signature'') trust revoked
       (re_wall env (Suc (Suc (rw_tick t)))) = Inr approval" and u: "rw_tick u = rw_tick t + 4"
    by (auto simp: verify_message_def bindW_Inr_iff load_trust_def load_revoked_def wall_now_def next_tick_def)
  from verify_deploy_approval_Inr [OF this(1)] u show ?thesis
    by (intro exI [of _ "Suc (Suc (rw_tick t))"]) auto
qed

section \<open>The order of things\<close>

definition later :: "runner_world \<Rightarrow> runner_world \<Rightarrow> bool" where
  "later w w' = (rw_tick w \<le> rw_tick w')"

lemma set_latch_later: "rw_tick w \<le> rw_tick (snd (set_latch env code i now w))"
  by (auto simp: set_latch_def Let_def next_tick_def read_latch_def bindW_def split: io.splits prod.splits sum.splits)

lemma run_argv_tick [simp]: "rw_tick (snd (run_argv env i argv w)) = Suc (rw_tick w)"
  using run_argv_world [of env i argv w] by (auto simp: started_def next_tick_def)

interpretation later: all_ops later env for env
proof
  show "later w (snd (audit_append env es vr now named w))" for es vr now named w
    using audit_append_world [of env es vr now named w]
    by (cases "audit_append env es vr now named w") (auto simp: later_def next_tick_def)
  show "later w (snd (consume env approval i now w))" for approval i now w
    using consume_world [of env approval i now w] by (auto simp: later_def next_tick_def)
qed (auto simp: later_def next_tick_def set_latch_later)

interpretation timely: quiet_ops "\<lambda>w w'. quiet w w' \<and> later w w'" env for env
proof
  show "quiet w (snd (run_argv env i argv w)) \<and> later w (snd (run_argv env i argv w))" if "inspects env argv" for i argv w
    using quiet.inspection [OF that] later.inspection [OF that] by blast
qed (auto intro: quiet.refl quiet.trans later.trans quiet.tick quiet.requests quiet.audit quiet.latch quiet.memory
    later.refl later.tick later.requests later.audit later.latch later.memory)

section \<open>An effect and its approval\<close>

text \<open>
  C5 A command with an effect is started only under a document whose signature verified during the very
  message, whose bytes are its canonical form, that names this environment, this action and the
  requested target, whose id and nonce were spent for this request, and whose window covers the action's
  whole deadline: at the reading of the clock it was judged by, the deadline ended before the expiry.
\<close>

theorem effect_inside_its_window:
  assumes "effects (snd (handle env message peer w)) \<noteq> effects w"
  shows "\<exists>i args k trust approval doc row.
    jget message ''request_id'' = JStr i \<and> check_args (JStr ''prepare_candidate'') (jget message ''args'') = Inr args \<and>
    rw_tick w \<le> k \<and> k < rw_tick (snd (handle env message peer w)) \<and>
    vouches env (\<lambda>raw sig. re_verifier env (Suc k) raw sig trust) ''prepare_candidate'' args (re_wall env k) approval doc \<and>
    rows_on_disk (rw_store (snd (handle env message peer w))) = rows_on_disk (rw_store w) @ [row] \<and>
    jget row ''request_id'' = JStr i \<and> jget row ''approval_id'' = jget doc ''approval_id'' \<and>
    jget row ''nonce'' = jget doc ''nonce''"
proof -
  define Q where "Q t = (effects (snd t) \<noteq> effects w \<longrightarrow> (\<exists>i args k trust approval doc row.
    jget message ''request_id'' = JStr i \<and> check_args (JStr ''prepare_candidate'') (jget message ''args'') = Inr args \<and>
    rw_tick w \<le> k \<and> k < rw_tick (snd t) \<and>
    vouches env (\<lambda>raw sig. re_verifier env (Suc k) raw sig trust) ''prepare_candidate'' args (re_wall env k) approval doc \<and>
    rows_on_disk (rw_store (snd t)) = rows_on_disk (rw_store w) @ [row] \<and>
    jget row ''request_id'' = JStr i \<and> jget row ''approval_id'' = jget doc ''approval_id'' \<and>
    jget row ''nonce'' = jget doc ''nonce''))" for t :: "json res \<times> runner_world"
  have "Q (handle_message env message peer w)"
  proof (rule timely.handle_message_end)
    fix args base now fp q s u approval head running t x v
    assume ok: "message_ok message" "jget message ''request_id'' \<noteq> JNull"
      and a: "check_args (JStr ''prepare_candidate'') (jget message ''args'') = Inr args"
      and s: "quiet w s \<and> later w s" and t: "verify_message env message args t = (Inr approval, u)"
        "quiet s t \<and> later s t" and x: "clock_check env u = (Inr (), x)"
      and v: "measure_target env (jget message ''request_id'') (jget args ''pr'') approval x = (Inr (head, running), v)"
        "quiet s v \<and> later s v"
    let ?rest = "spend_and_act env message (signed_base base approval) fp (jget args ''pr'') approval head running v"
    from message_request_id [OF ok] obtain i where i: "jget message ''request_id'' = JStr i" .
    from verify_message_Inr [OF t(1)] obtain k trust doc where k: "rw_tick t \<le> k" "k < rw_tick u"
      "vouches env (\<lambda>raw sig. re_verifier env (Suc k) raw sig trust) ''prepare_candidate'' args (re_wall env k) approval doc"
      by blast
    have "later u x" using later.clock_check_steps [of u env] x by simp
    moreover have "later x v"
      using later.measure_target_steps [of x env "jget message ''request_id''" "jget args ''pr''" approval] v(1) by simp
    moreover have "later v (snd ?rest)" by (rule later.spend_and_act_steps)
    ultimately have ticks: "rw_tick w \<le> k" "k < rw_tick (snd ?rest)"
      using k s t(2) by (simp_all add: later_def)
    have "fresh_spend env approval i (rows_on_disk (rw_store v)) row \<Longrightarrow> jget row ''request_id'' = JStr i \<and>
        jget row ''approval_id'' = jget doc ''approval_id'' \<and> jget row ''nonce'' = jget doc ''nonce''" for row
      using k(3) by (auto simp: fresh_spend_def vouches_def)
    with spend_and_act_outcome [OF i, of env approval v "signed_base base approval" fp "jget args ''pr''" head running]
      s v(2) i a ticks k(3)
    show "Q ?rest" unfolding Q_def spend_outcome_def quiet_def by metis
  qed (auto simp: Q_def quiet_def)
  then show ?thesis using assms by (simp add: Q_def handle_snd)
qed

end
