(* ===== verification/Deploy_Commands.thy ===== *)
theory Deploy_Commands
  imports Deploy_Bounds
begin

text \<open>
  The closed set of commands, and the wait for a record's lock.
\<close>

section \<open>The commands of every run\<close>

definition numbered_pr :: "int \<Rightarrow> bool" where
  "numbered_pr n = (1 \<le> n \<and> n \<le> 999999)"

definition tree_of :: "runner_env \<Rightarrow> int \<Rightarrow> string" where
  "tree_of env n = re_trees env @ (if re_trees env = ''/'' then [] else ''/'') @ show_int n"

definition image_name :: "string \<Rightarrow> bool" where
  "image_name ref = (ref = ''thomas-agent-runtime:latest'' \<or> numbered ''thomas-agent-runtime:candidate-'' ref \<or>
     numbered ''thomas-agent-runtime:rollback-pre-'' ref \<or> sha256_form ref)"

definition closed_argv :: "runner_env \<Rightarrow> string list \<Rightarrow> bool" where
  "closed_argv env argv =
     ((\<exists>name \<in> set runtime_containers.
         argv = [re_docker env, ''container'', ''inspect'', ''--format'', container_format, name]) \<or>
      (\<exists>ref. image_name ref \<and> argv = [re_docker env, ''image'', ''inspect'', ''--format'', image_format, ref]) \<or>
      (\<exists>img n. sha256_form img \<and> numbered_pr n \<and>
         argv = [re_docker env, ''image'', ''tag'', img, ''thomas-agent-runtime:rollback-pre-'' @ show_int n]) \<or>
      (\<exists>n. numbered_pr n \<and> argv = [re_docker env, ''image'', ''build'', ''--pull=false'', ''--tag'',
         ''thomas-agent-runtime:candidate-'' @ show_int n, tree_of env n]) \<or>
      (\<exists>n what. numbered_pr n \<and> argv = [re_git env, ''-C'', tree_of env n] @ what \<and>
         what \<in> {[''rev-parse'', ''HEAD''], [''rev-parse'', ''refs/remotes/origin/main''],
           [''status'', ''--porcelain'', ''--untracked-files=all'']}))"

lemma pr_number_Inr: "pr_number pr = Inr n \<Longrightarrow> numbered_pr n"
  by (auto simp: pr_number_def is_pr_def numbered_pr_def secs_def split: if_splits json.splits)

lemma tree_path_Inr: "tree_path (re_trees env) pr = Inr tree \<Longrightarrow> \<exists>n. numbered_pr n \<and> tree = tree_of env n"
  by (auto simp: tree_path_def bindR_Inr_iff tree_of_def dest!: pr_number_Inr split: if_splits)

lemma inspects_closed: "inspects env argv \<Longrightarrow> closed_argv env argv"
  by (auto simp: inspects_def closed_argv_def container_inspect_def image_inspect_def git_status_def git_head_def
      git_origin_main_def bindR_Inr_iff image_name_def latest_ref_def image_repository_def
      dest!: tree_path_Inr split: if_splits)

lemma tag_closed: "tag_rollback_point (re_docker env) img pr = Inr argv \<Longrightarrow> closed_argv env argv"
  by (auto simp: tag_rollback_point_def closed_argv_def rollback_ref_def bindR_Inr_iff image_repository_def
      dest!: pr_number_Inr split: if_splits)

lemma build_closed: "build_candidate (re_docker env) (re_trees env) pr = Inr argv \<Longrightarrow> closed_argv env argv"
proof -
  assume "build_candidate (re_docker env) (re_trees env) pr = Inr argv"
  then obtain n tree where n: "pr_number pr = Inr n" "tree_path (re_trees env) pr = Inr tree"
    "argv = [re_docker env, ''image'', ''build'', ''--pull=false'', ''--tag'',
       ''thomas-agent-runtime:candidate-'' @ show_int n, tree]"
    by (auto simp: build_candidate_def candidate_ref_def bindR_Inr_iff image_repository_def)
  then have "tree = tree_of env n" by (auto simp: tree_path_def tree_of_def split: if_splits)
  with n pr_number_Inr [OF n(1)] show ?thesis by (auto simp: closed_argv_def)
qed

definition runs_closed :: "runner_env \<Rightarrow> runner_world \<Rightarrow> runner_world \<Rightarrow> bool" where
  "runs_closed env w w' =
     ((\<forall>c \<in> set (rw_commands w). closed_argv env (snd c)) \<longrightarrow> (\<forall>c \<in> set (rw_commands w'). closed_argv env (snd c)))"

lemma runs_closed_same: "rw_commands w' = rw_commands w \<Longrightarrow> runs_closed env w w'"
  by (simp add: runs_closed_def)

lemma run_argv_closed: "closed_argv env argv \<Longrightarrow> runs_closed env w (snd (run_argv env i argv w))"
  using run_argv_world [of env i argv w] by (auto simp: runs_closed_def)

interpretation closed_start: startup_ops "runs_closed env" env for env
proof
  show "runs_closed env u w" if "runs_closed env u v" "runs_closed env v w" for u v w
    using that by (simp add: runs_closed_def)
  show "runs_closed env w (snd (audit_append env es vr now named w))" for es vr now named w
    using audit_append_world [of env es vr now named w]
    by (cases "audit_append env es vr now named w") (auto intro!: runs_closed_same)
  show "runs_closed env w (snd (set_latch env code i now w))" for code i now w
    by (subst set_latch_world [OF HOL.refl]) (simp add: runs_closed_same)
qed (auto intro!: runs_closed_same run_argv_closed inspects_closed)

interpretation closed: all_ops "runs_closed env" env for env
proof
  show "runs_closed env w (snd (consume env approval i now w))" for approval i now w
    using consume_world [of env approval i now w] by (auto intro!: runs_closed_same)
qed (auto intro!: run_argv_closed intro: tag_closed build_closed)

text \<open>
  C17 Every command the actor starts in any run is one of the closed templates: an inspection of one
  of the four containers or of one of the runner's own image names, the tagging of a measured image id,
  the build of the runner's own tree, or one of three git reads of that tree; the only part a request
  shapes is a PR number between 1 and 999999.
\<close>

theorem commands_are_closed:
  assumes "runner_run env w" "c \<in> set (rw_commands w)"
  shows "closed_argv env (snd c)"
proof -
  from assms(1) have "\<forall>c \<in> set (rw_commands w). closed_argv env (snd c)"
  proof (induction rule: runner_run.induct)
    case (message w m peer)
    then show ?case using closed.handle_steps [of env w m peer] by (simp add: runs_closed_def)
  next
    case (restart w store_id)
    then show ?case using closed_start.start_actor_steps [of env w store_id] by (simp add: runs_closed_def)
  qed (simp_all add: fresh_install_def)
  with assms(2) show ?thesis by blast
qed

section \<open>The wait for a lock\<close>

lemma poll_lock_returns:
  assumes moves: "\<And>n. clock n + lock_poll \<le> clock (Suc n)"
    and left: "start + timeout \<le> clock n + int m * lock_poll"
  shows "\<exists>r k. poll_lock attempt clock (start + timeout) code n = Some (r, k) \<and> n \<le> k \<and> k \<le> n + m \<and>
    (r = Inr () \<longleftrightarrow> attempt k = Got_It) \<and> r \<in> {Inr (), Inl (Refused code)} \<and> (\<forall>j. n \<le> j \<and> j < k \<longrightarrow> attempt j = Held_Elsewhere)"
  using left
proof (induction m arbitrary: n)
  case 0
  then show ?case by (subst poll_lock.simps) (auto split: lock_try.splits)
next
  case (Suc m)
  show ?case
  proof (cases "attempt n = Held_Elsewhere \<and> \<not> start + timeout \<le> clock n")
    case True
    have "start + timeout \<le> clock (Suc n) + int m * lock_poll"
      using Suc.prems moves [of n] by (simp add: algebra_simps)
    from Suc.IH [OF this] obtain r k where k: "poll_lock attempt clock (start + timeout) code (Suc n) = Some (r, k)"
      "Suc n \<le> k" "k \<le> Suc n + m" "(r = Inr () \<longleftrightarrow> attempt k = Got_It)" "r \<in> {Inr (), Inl (Refused code)}"
      "\<forall>j. Suc n \<le> j \<and> j < k \<longrightarrow> attempt j = Held_Elsewhere" by blast
    have "\<forall>j. n \<le> j \<and> j < k \<longrightarrow> attempt j = Held_Elsewhere"
      using k(6) True by (metis Suc_leI le_neq_implies_less)
    with k True show ?thesis by (subst poll_lock.simps) auto
  next
    case False
    then show ?thesis by (subst poll_lock.simps) (auto split: lock_try.splits)
  qed
qed

text \<open>
  C40 The wait for a record's lock ends: when the clock moves on by the poll interval between attempts, a
  caller gets an answer after at most 250 retries, the lock exactly when the last attempt got it, and
  before that attempt every other had found the lock held elsewhere.
\<close>

theorem lock_wait_ends:
  assumes "\<And>n. clock n + lock_poll \<le> clock (Suc n)" "start \<le> clock 0"
  shows "\<exists>r k. lock_exclusive attempt clock start lock_timeout code = Some (r, k) \<and> k \<le> 250 \<and>
    (r = Inr () \<longleftrightarrow> attempt k = Got_It) \<and> r \<in> {Inr (), Inl (Refused code)} \<and> (\<forall>j < k. attempt j = Held_Elsewhere)"
  using poll_lock_returns [of clock start lock_timeout 0 250 attempt code] assms
  by (simp add: lock_exclusive_def lock_timeout_def lock_poll_def)

theorem lock_wait_ends_witness:
  "\<exists>r k. lock_exclusive (\<lambda>n. if n = 3 then Got_It else Held_Elsewhere) (\<lambda>n. int n * 20000) 0 lock_timeout
      ''RUNNER_BUSY'' = Some (r, k) \<and> k \<le> 250 \<and>
    (r = Inr () \<longleftrightarrow> (if k = 3 then Got_It else Held_Elsewhere) = Got_It) \<and>
    r \<in> {Inr (), Inl (Refused ''RUNNER_BUSY'')} \<and> (\<forall>j < k. (if j = 3 then Got_It else Held_Elsewhere) = Held_Elsewhere)"
  by (rule lock_wait_ends) (simp_all add: lock_poll_def)

end
