(* ===== verification/Deploy_Store.thy ===== *)
theory Deploy_Store
  imports Deploy_Commands
begin

text \<open>
  The consumption store and the effect audit as hash chains, and that what a spend writes is what the
  next read accepts.
\<close>

section \<open>Two chains\<close>

definition stored_hash :: "string res \<Rightarrow> string option" where
  "stored_hash r = (case r of Inl _ \<Rightarrow> None | Inr h \<Rightarrow> Some h)"

lemma stored_hash_Some [simp]: "stored_hash r = Some h \<longleftrightarrow> r = Inr h"
  by (cases r) (simp_all add: stored_hash_def)

interpretation consumption_chain: hash_chain "''prev_sha256''" "''row_sha256''"
  "\<lambda>r. stored_hash (consumption_hash H r)" "collision H" for H
proof
  fix a b h
  assume h: "stored_hash (consumption_hash H a) = Some h" "stored_hash (consumption_hash H b) = Some h"
    and wf: "wf_json a" "wf_json b"
  then have "sha256_value H (drop_key ''row_sha256'' a) = Inr h" "sha256_value H (drop_key ''row_sha256'' b) = Inr h"
    by (simp_all add: consumption_hash_def)
  from sha256_value_binds [OF this wf_json_drop_key [OF wf(1)] wf_json_drop_key [OF wf(2)]]
  show "py_eq (drop_key ''row_sha256'' a) (drop_key ''row_sha256'' b) \<or> collision H" .
qed simp_all

interpretation audit_chain: hash_chain "''previous_event_sha256''" "''event_sha256''"
  "\<lambda>r. stored_hash (event_hash H r)" "collision H" for H
proof
  fix a b h
  assume h: "stored_hash (event_hash H a) = Some h" "stored_hash (event_hash H b) = Some h"
    and wf: "wf_json a" "wf_json b"
  then have "sha256_value H (drop_key ''event_sha256'' a) = Inr h" "sha256_value H (drop_key ''event_sha256'' b) = Inr h"
    by (simp_all add: event_hash_def)
  from sha256_value_binds [OF this wf_json_drop_key [OF wf(1)] wf_json_drop_key [OF wf(2)]]
  show "py_eq (drop_key ''event_sha256'' a) (drop_key ''event_sha256'' b) \<or> collision H" .
qed simp_all

lemma verify_from_linked:
  "verify_from H i p ids nonces rows = Inr v \<Longrightarrow>
   linked ''prev_sha256'' ''row_sha256'' (\<lambda>r. stored_hash (consumption_hash H r)) i p rows"
proof (induction H i p ids nonces rows rule: verify_from.induct)
  case (1 H index previous ids nonces)
  then show ?case by simp
next
  case (2 H index previous ids nonces row rows)
  from 2(3) obtain h where h: "consumption_hash H row = Inr h" "jget row ''row_sha256'' = JStr h"
    "py_int_eq (jget row ''seq'') index" "jget row ''prev_sha256'' = previous"
    by (auto simp: Let_def bindR_Inr_iff split: if_splits)
  have "\<exists>ids nonces. verify_from H (index + 1) (jget row ''row_sha256'') ids nonces rows = Inr v \<and>
      linked ''prev_sha256'' ''row_sha256'' (\<lambda>r. stored_hash (consumption_hash H r)) (index + 1) (jget row ''row_sha256'') rows"
    using 2 h by (fastforce simp: Let_def split: if_split_asm)
  with h show ?case by simp
qed

lemma verify_audit_linked:
  "verify_audit_from env i p rows = Inr v \<Longrightarrow>
   linked ''previous_event_sha256'' ''event_sha256'' (\<lambda>r. stored_hash (event_hash (re_H env) r)) i p rows"
  by (induction env i p rows rule: verify_audit_from.induct)
    (auto simp: Let_def bindR_Inr_iff audit_broken_def split: if_splits)

text \<open>
  An edit, a removal, an insertion or a reordering that leaves the last row's hash alone is a collision.
\<close>

lemma verified_stores_agree:
  assumes "verify_rows H e xs = Inr s" "verify_rows H e' ys = Inr t"
    and "\<forall>r \<in> set xs. wf_json r" "\<forall>r \<in> set ys. wf_json r"
    and "jget (last xs) ''row_sha256'' = jget (last ys) ''row_sha256''"
  shows "collision H \<or> list_all2 (same_row ''row_sha256'') xs ys"
proof -
  note v = verify_rows_Inr [OF assms(1)] and v' = verify_rows_Inr [OF assms(2)]
  from v v' assms(5) show ?thesis
    by (intro consumption_chain.tip_determines [OF verify_from_linked verify_from_linked assms(3,4)])
      (auto simp: tip_hash_def)
qed

lemma verified_audits_agree:
  assumes "verify_audit env xs = Inr u" "verify_audit env ys = Inr v" "xs \<noteq> []" "ys \<noteq> []"
    and "\<forall>r \<in> set xs. wf_json r" "\<forall>r \<in> set ys. wf_json r"
    and "jget (last xs) ''event_sha256'' = jget (last ys) ''event_sha256''"
  shows "collision (re_H env) \<or> list_all2 (same_row ''event_sha256'') xs ys"
  using assms
  by (intro audit_chain.tip_determines [OF verify_audit_linked verify_audit_linked])
    (auto simp: tip_hash_def verify_audit_def bindR_Inr_iff)

section \<open>A spend and the read that follows\<close>

lemma verify_from_append:
  "verify_from H i p ids nonces (xs @ ys) = bindR (verify_from H i p ids nonces xs) (\<lambda>(ids, nonces).
     verify_from H (i + int (length xs)) (tip_hash ''row_sha256'' p xs) ids nonces ys)"
proof (induction xs arbitrary: i p ids nonces)
  case Nil
  then show ?case by (simp add: tip_hash_def)
next
  case (Cons x xs)
  have len: "i + int (length (x # xs)) = i + 1 + int (length xs)" by simp
  have tip: "tip_hash ''row_sha256'' p (x # xs) = tip_hash ''row_sha256'' (jget x ''row_sha256'') xs"
    by (simp add: tip_hash_def)
  show ?case
    unfolding append_Cons len tip verify_from.simps Let_def Cons.IH
    by (cases "consumption_hash H x") (simp_all add: chain_broken_def)
qed

lemma store_extends:
  assumes v: "verify_rows H (Some sid) rows = Inr st" and row: "consumed_row H approval i now (last rows) = Inr row"
    and ok: "consumption_row_ok row"
    and new: "va_approval_id approval \<notin> set (st_approval_ids st)" "va_nonce approval \<notin> set (st_nonces st)"
  shows "verify_rows H (Some sid) (rows @ [row]) = Inr \<lparr>st_store_id = st_store_id st, st_rows = rows @ [row],
    st_approval_ids = va_approval_id approval # st_approval_ids st, st_nonces = va_nonce approval # st_nonces st\<rparr>"
proof -
  note f = consumed_row_fields [OF row] and s = verify_rows_Inr [OF v]
  then have ne: "rows \<noteq> []" and chain: "verify_from H 0 JNull [] [] rows = Inr (st_approval_ids st, st_nonces st)"
    by simp_all
  obtain n where n: "jget (last rows) ''seq'' = JInt n" "jget row ''seq'' = JInt (n + 1)" using f(6) by blast
  from linked_nth_seq [OF verify_from_linked [OF chain], of "length rows - 1"] ne n(1)
  have "n = int (length rows - 1)" by (simp add: last_conv_nth)
  with ne have seq: "n + 1 = int (length rows)" by (cases rows) auto
  obtain h where "jget row ''row_sha256'' = JStr h" "consumption_hash H row = Inr h" using f(7) by blast
  with chain f n(2) seq ok new ne
  have "verify_from H 0 JNull [] [] (rows @ [row]) =
      Inr (va_approval_id approval # st_approval_ids st, va_nonce approval # st_nonces st)"
    by (simp add: verify_from_append tip_hash_def)
  with ne s v show ?thesis by (auto simp: verify_rows_def Let_def split: if_splits)
qed

text \<open>
  A store an approval was just spent in verifies again as a whole, with the row, its id and its nonce in
  it; and as long as the store is this one, a second spend of the same id or the same nonce, for whatever
  request, is refused as already consumed and writes nothing.
\<close>

theorem spent_store_reads_back:
  assumes "consume env approval i now w = (Inr row, v)"
  shows "(\<exists>st. verify_rows (re_H env) (Some (rw_store_id w)) (rows_on_disk (rw_store v)) = Inr st \<and>
      last (st_rows st) = row \<and> va_approval_id approval \<in> set (st_approval_ids st) \<and>
      va_nonce approval \<in> set (st_nonces st)) \<and>
    (rw_store x = rw_store v \<longrightarrow> rw_store_id x = rw_store_id w \<longrightarrow> re_io env (rw_tick x) = Io_Ok \<longrightarrow>
      va_approval_id other = va_approval_id approval \<or> va_nonce other = va_nonce approval \<longrightarrow>
      consume env other j day x = (Inl (Refused ''APPROVAL_ALREADY_CONSUMED''), next_tick x))"
proof -
  let ?rows = "rows_on_disk (rw_store w)"
  from assms obtain f where op: "locked_op ''CONSUMPTION_STORE_UNAVAILABLE'' ''CONSUMPTION_STORE_UNAVAILABLE''
      ''CONSUMPTION_WRITE_FAILED'' (consume_judge (re_H env) approval i now (rw_store_id w))
      (re_io env (rw_tick w)) (rw_store w) = (Inr row, f)" and v: "v = (next_tick w)\<lparr>rw_store := f\<rparr>"
    by (auto simp: consume_def split: prod.splits if_splits)
  from locked_op_Inr [OF op] obtain d where j: "consume_judge (re_H env) approval i now (rw_store_id w) ?rows = Inr (row, d)"
    "f = (case d of None \<Rightarrow> rw_store w | Some row \<Rightarrow> Record_Rows (?rows @ [row]))" by blast
  from consume_judge_Inr [OF j(1)] obtain st where st: "verify_rows (re_H env) (Some (rw_store_id w)) ?rows = Inr st"
    "consumed_row (re_H env) approval i now (last ?rows) = Inr row" "consumption_row_ok row"
    "va_approval_id approval \<notin> set (st_approval_ids st)" "va_nonce approval \<notin> set (st_nonces st)" "d = Some row" by blast
  let ?st = "\<lparr>st_store_id = st_store_id st, st_rows = ?rows @ [row],
    st_approval_ids = va_approval_id approval # st_approval_ids st, st_nonces = va_nonce approval # st_nonces st\<rparr>"
  from store_extends [OF st(1,2,3,4,5)] have reads: "verify_rows (re_H env) (Some (rw_store_id w)) (?rows @ [row]) = Inr ?st" .
  have store: "rw_store v = Record_Rows (?rows @ [row])" using v j(2) st(6) by simp
  have "consume env other j day x = (Inl (Refused ''APPROVAL_ALREADY_CONSUMED''), next_tick x)"
    if "rw_store x = rw_store v" "rw_store_id x = rw_store_id w" "re_io env (rw_tick x) = Io_Ok"
      "va_approval_id other = va_approval_id approval \<or> va_nonce other = va_nonce approval"
  proof -
    have "consume_judge (re_H env) other j day (rw_store_id w) (?rows @ [row]) = Inl (Refused ''APPROVAL_ALREADY_CONSUMED'')"
      using reads that(4) by (auto simp: consume_judge_def rename_refusal_def)
    with that store have "consume env other j day x =
        (Inl (Refused ''APPROVAL_ALREADY_CONSUMED''), (next_tick x)\<lparr>rw_store := rw_store x\<rparr>)"
      by (simp add: consume_def locked_op_def)
    then show ?thesis by (simp add: next_tick_def)
  qed
  with reads store show ?thesis by auto
qed

end
