(* ===== verification/Deploy_Restart.thy ===== *)
theory Deploy_Restart
  imports Deploy_Store
begin

text \<open>
  The start of the actor (\<open>deploy_runner/startup.py\<close>, \<open>serve.py\<close>): it comes up unlatched only when
  every record agrees, and an effect whose outcome is not known latches every start there will ever be.
\<close>

section \<open>The audit only grows\<close>

definition audit_grows :: "runner_world \<Rightarrow> runner_world \<Rightarrow> bool" where
  "audit_grows w w' = (\<exists>more. rows_on_disk (rw_audit w') = rows_on_disk (rw_audit w) @ more \<and>
     (\<forall>a \<in> set more. \<not> in_state ''LATCH_RESOLVED'' a))"

lemma audit_grows_same: "rw_audit w' = rw_audit w \<Longrightarrow> audit_grows w w'"
  by (simp add: audit_grows_def)

lemma audit_grows_trans: "audit_grows u v \<Longrightarrow> audit_grows v w \<Longrightarrow> audit_grows u w"
  by (fastforce simp: audit_grows_def)

lemma audit_append_grows:
  assumes "es \<noteq> ''LATCH_RESOLVED''"
  shows "audit_grows w (snd (audit_append env es vr now named w))"
proof (cases "audit_append env es vr now named w")
  case (Pair r v)
  from audit_append_world [OF this] assms Pair show ?thesis
    by (auto simp: audit_grows_def in_state_def)
qed

lemma set_latch_audit: "audit_grows w (snd (set_latch env code i now w))"
  by (subst set_latch_world [OF HOL.refl]) (simp add: audit_grows_same)

lemma run_argv_audit: "audit_grows w (snd (run_argv env i argv w))"
  using run_argv_world [of env i argv w] by (auto intro: audit_grows_same)

interpretation audit_grows: all_ops audit_grows env for env
proof
  show "audit_grows w (snd (consume env approval i now w))" for approval i now w
    using consume_world [of env approval i now w] by (auto intro!: audit_grows_same)
qed (auto intro: audit_grows_same audit_grows_trans audit_append_grows set_latch_audit run_argv_audit)

interpretation audit_grows_start: startup_ops audit_grows env for env
proof
qed (auto intro: audit_grows_same)

section \<open>An unlatched start\<close>

lemma startup_audit_Inr:
  assumes "startup_audit env w = (Inr (rows, ok), v)"
  shows "v = next_tick w \<and> (ok \<longrightarrow> rows = rows_on_disk (rw_audit w) \<and> verify_audit env rows = Inr rows)"
proof -
  have "rows = rows_on_disk (rw_audit w) \<and> verify_audit env rows = Inr rows" if "read_audit env w = (Inr rows, v)" for rows v
    using that by (auto simp: read_audit_def bindR_Inr_iff verify_audit_def dest!: read_record_Inr)
  moreover have "snd (read_audit env w) = next_tick w" by (simp add: read_audit_def)
  ultimately show ?thesis
    using assms by (cases "read_audit env w") (auto simp: startup_audit_def split: sum.splits exn.splits)
qed

lemma startup_store_Inr:
  assumes "startup_store env now expected sha rows ok w = (Inr st, v)"
  shows "v = next_tick w \<and> (\<exists>wanted. verify_rows (re_H env) wanted (rows_on_disk (rw_store w)) = Inr st)"
proof -
  have ends: "bindW (audit_append env s r now named u) (\<lambda>_ w. (Inl blocked, w)) \<noteq> (Inr st, v)" for s r named u
    by (simp add: bindW_Inr_iff)
  from assms obtain wanted where "read_store env wanted w = (Inr st, v)"
    by (auto simp: startup_store_def Let_def ends split: if_splits sum.splits prod.splits exn.splits)
  then show ?thesis
    by (auto simp: read_store_def bindR_Inr_iff split: if_splits dest!: read_record_Inr)
qed

definition lifted :: "json list \<Rightarrow> json set" where
  "lifted rows = (\<lambda>r. jget r ''request_id'') ` {r \<in> set rows. in_state ''LATCH_RESOLVED'' r}"

lemma resolved_unresolved:
  "\<not> unresolved rows \<longleftrightarrow> (\<forall>r \<in> set rows. jget r ''execution_state'' \<in> set (map JStr audit_unresolved_states) \<longrightarrow>
     jget r ''request_id'' \<in> lifted rows)"
  by (auto simp: unresolved_def Let_def lifted_def list_ex_iff)

lemma lifted_append [simp]: "lifted (xs @ ys) = lifted xs \<union> lifted ys"
  by (auto simp: lifted_def)

lemma note_unknown_noted:
  "note_unknown env now sid is w = (Inr noted, v) \<Longrightarrow>
   noted = map (\<lambda>i. JObj [(''request_id'', i), (''execution_state'', JStr ''RECONCILED_UNKNOWN'')]) is"
  by (induction "is" arbitrary: w noted v) (auto simp: bindW_Inr_iff)

lemma noted_lifted: "lifted (map (\<lambda>i. JObj [(''request_id'', i), (''execution_state'', JStr ''RECONCILED_UNKNOWN'')]) is) = {}"
  by (auto simp: lifted_def in_state_def)

lemma mark_claimed_ids:
  "mark_claimed env now rows w = (Inr ids, v) \<Longrightarrow>
   set ids = {JStr i |i row. (i, row) \<in> set rows \<and> jget row ''state'' = JStr CLAIMED}"
proof (induction rows arbitrary: w ids v)
  case (Cons row rows)
  then show ?case by (cases row) (fastforce simp: bindW_Inr_iff split: if_splits)
qed simp

lemma sorted_ids_set: "sorted_ids ids = Inr xs \<Longrightarrow> set xs = set ids"
proof -
  have "(\<lambda>j. JStr (case j of JStr s \<Rightarrow> s | _ \<Rightarrow> [])) ` A = A" if "\<forall>j \<in> A. is_str j" for A
    using that by (force simp: is_str_def image_iff split: json.splits)
  then show "sorted_ids ids = Inr xs \<Longrightarrow> set xs = set ids"
    by (auto simp: sorted_ids_def Let_def list_all_iff image_image split: if_splits)
qed

lemma latest_requests_Inr:
  assumes "latest_requests env w = (Inr reqs, v)"
  shows "\<exists>latest. requests_latest (rows_on_disk (rw_requests w)) = Inr latest \<and>
    (\<forall>i row. latest i = Some row \<longrightarrow> (i, row) \<in> set reqs)"
proof -
  let ?rows = "rows_on_disk (rw_requests w)"
  from assms obtain f where "locked_op ''RUNNER_ERROR'' ''RUNNER_ERROR'' ''RUNNER_ERROR''
      (\<lambda>rows. bindR (requests_latest rows) (\<lambda>latest.
        Inr (concat (map (\<lambda>k. case latest k of None \<Rightarrow> [] | Some row \<Rightarrow> [(k, row)]) (request_ids rows)), None)))
      (re_io env (rw_tick w)) (rw_requests w) = (Inr reqs, f)"
    by (auto simp: latest_requests_def requests_op_def split: prod.splits)
  from locked_op_Inr [OF this] obtain latest where l: "requests_latest ?rows = Inr latest"
    "reqs = concat (map (\<lambda>k. case latest k of None \<Rightarrow> [] | Some row \<Rightarrow> [(k, row)]) (request_ids ?rows))"
    by (auto simp: bindR_Inr_iff)
  from l(1) have latest: "latest = latest_by request_key ?rows" by (simp add: requests_latest_def split: if_splits)
  have "(i, row) \<in> set reqs" if i: "latest i = Some row" for i row
  proof -
    from i latest latest_by_in [of request_key ?rows i row] have "row \<in> set ?rows" "request_key row = Some i" by auto
    then have "i \<in> set (request_ids ?rows)" by (force simp: request_ids_def)
    with l(2) i show ?thesis by force
  qed
  with l(1) show ?thesis by blast
qed

lemma unlatched_reasons:
  assumes "startup_reasons env now store rows ok w = (Inr [], v)"
  shows "ok \<and> cross_check (st_rows store) rows \<and> \<not> unresolved rows \<and> set (consumed_unfinished rows) \<subseteq> lifted rows \<and>
    (\<exists>latest. requests_latest (rows_on_disk (rw_requests w)) = Inr latest \<and>
      (\<forall>i row. latest i = Some row \<longrightarrow> jget row ''state'' = JStr CLAIMED \<longrightarrow> JStr i \<in> lifted rows))"
proof -
  from assms have ok: ok by (auto simp: startup_reasons_def split: if_splits)
  from assms ok obtain reqs u claimed x unfinished noted y z where r: "cross_check (st_rows store) rows"
    "latest_requests env w = (Inr reqs, u)" "mark_claimed env now reqs u = (Inr claimed, x)"
    "sorted_ids (consumed_unfinished rows @ claimed) = Inr unfinished"
    "note_unknown env now (st_store_id store) unfinished y = (Inr noted, z)" "\<not> unresolved (rows @ noted)"
    by (auto simp: startup_reasons_def Let_def bindW_Inr_iff split: if_splits)
  let ?noted = "map (\<lambda>i. JObj [(''request_id'', i), (''execution_state'', JStr ''RECONCILED_UNKNOWN'')]) unfinished"
  have noted: "noted = ?noted" by (rule note_unknown_noted [OF r(5)])
  from r(6) have old: "\<not> unresolved rows"
    by (simp only: resolved_unresolved lifted_append noted noted_lifted) simp
  have lift: "i \<in> lifted rows" if "i \<in> set unfinished" for i
  proof -
    let ?row = "JObj [(''request_id'', i), (''execution_state'', JStr ''RECONCILED_UNKNOWN'')]"
    have "?row \<in> set (rows @ noted)" using that by (simp add: noted)
    moreover have "jget ?row ''execution_state'' \<in> set (map JStr audit_unresolved_states)"
      by (simp add: audit_unresolved_states_def)
    ultimately have "jget ?row ''request_id'' \<in> lifted (rows @ noted)" using r(6) by (simp only: resolved_unresolved)
    then show ?thesis by (simp add: noted noted_lifted)
  qed
  have "set unfinished = set (consumed_unfinished rows) \<union> set claimed" using sorted_ids_set [OF r(4)] by simp
  with lift mark_claimed_ids [OF r(3)] latest_requests_Inr [OF r(2)] ok r(1) old show ?thesis by blast
qed

lemma requests_op_latch: "requests_op env judge w = (r, v) \<Longrightarrow> rw_latch v = rw_latch w"
  by (auto simp: requests_op_def next_tick_def split: prod.splits)

lemma mark_claimed_latch: "mark_claimed env now rows w = (r, v) \<Longrightarrow> rw_latch v = rw_latch w"
proof (induction rows arbitrary: w r v)
  case (Cons row rows)
  then show ?case
    by (cases row)
      (fastforce simp: bindW_def mark_unknown_def split: if_splits prod.splits sum.splits dest: requests_op_latch)
qed simp

lemma note_unknown_latch: "note_unknown env now sid is w = (r, v) \<Longrightarrow> rw_latch v = rw_latch w"
proof (induction "is" arbitrary: w r v)
  case (Cons i "is")
  then show ?case
    by (fastforce simp: bindW_def next_tick_def split: prod.splits sum.splits dest: audit_append_world)
qed simp

lemma startup_reasons_latch:
  "startup_reasons env now store rows ok w = (Inr reasons, v) \<Longrightarrow> rw_latch v = rw_latch w"
  by (auto simp: startup_reasons_def Let_def bindW_Inr_iff latest_requests_def split: if_splits
      dest!: requests_op_latch mark_claimed_latch note_unknown_latch)

lemma startup_latch_Inr:
  assumes "startup_latch env now store reasons ok w = (Inr (all_reasons, l), v)" "all_reasons = []"
  shows "reasons = [] \<and> rw_latch w = No_Record"
  using assms
  by (auto simp: startup_latch_def bindW_Inr_iff read_latch_def split: option.splits if_splits one_record.splits)

text \<open>What an unlatched start found: the audit and the store as they are on the disk.\<close>

lemma unlatched_reconcile:
  assumes r: "reconcile env expected sha now w = (Inr res, v)" and unlatched: "\<not> sr_latched res"
  shows "rw_latch w = No_Record \<and> (\<exists>st wanted. verify_rows (re_H env) wanted (rows_on_disk (rw_store w)) = Inr st \<and>
    (let rows = rows_on_disk (rw_audit w) in
      verify_audit env rows = Inr rows \<and> cross_check (st_rows st) rows \<and> \<not> unresolved rows \<and>
      set (consumed_unfinished rows) \<subseteq> lifted rows \<and>
      (\<exists>latest. requests_latest (rows_on_disk (rw_requests w)) = Inr latest \<and>
        (\<forall>i row. latest i = Some row \<longrightarrow> jget row ''state'' = JStr CLAIMED \<longrightarrow> JStr i \<in> lifted rows))))"
proof -
  from r obtain rows ok u st x reasons y all_reasons l z where
    a: "startup_audit env w = (Inr (rows, ok), u)"
    and s: "startup_store env (stamp now) expected sha rows ok u = (Inr st, x)"
    and rs: "startup_reasons env (stamp now) st rows ok x = (Inr reasons, y)"
    and l: "startup_latch env (stamp now) st reasons ok y = (Inr (all_reasons, l), z)"
    and res: "sr_latched res = (all_reasons \<noteq> [])"
    by (auto simp: reconcile_def bindW_Inr_iff Let_def split: if_splits)
  from l res unlatched have none: "reasons = []" "rw_latch y = No_Record" by (auto dest!: startup_latch_Inr)
  note a' = startup_audit_Inr [OF a] and s' = startup_store_Inr [OF s]
  from unlatched_reasons [of env "stamp now" st rows ok x y] rs none
  have f: "ok" "cross_check (st_rows st) rows" "\<not> unresolved rows" "set (consumed_unfinished rows) \<subseteq> lifted rows"
    "\<exists>latest. requests_latest (rows_on_disk (rw_requests x)) = Inr latest \<and>
      (\<forall>i row. latest i = Some row \<longrightarrow> jget row ''state'' = JStr CLAIMED \<longrightarrow> JStr i \<in> lifted rows)" by simp_all
  have "rw_latch y = rw_latch x" using rs by (rule startup_reasons_latch)
  with a' s' f none(2) show ?thesis by (auto simp: Let_def next_tick_def)
qed

lemma start_actor_Inr:
  assumes "start_actor env sid w = (Inr res, w')"
  shows "\<exists>sha now n v. reconcile env sid sha now (w\<lparr>rw_tick := n\<rparr>) = (Inr res, v) \<and> rw_latched w' = sr_latched res"
proof -
  from assms obtain trust :: trust_material and now x where
    "reconcile env sid (JStr (tm_sha256 trust)) now (next_tick (next_tick (next_tick w))) = (Inr res, x)"
    "rw_latched w' = sr_latched res"
    by (auto simp: start_actor_def bindW_Inr_iff load_trust_def acquire_instance_lock_def wall_now_def mono_now_def)
  then have "reconcile env sid (JStr (tm_sha256 trust)) now (w\<lparr>rw_tick := Suc (Suc (Suc (rw_tick w)))\<rparr>) = (Inr res, x)"
    by (simp add: next_tick_def)
  with \<open>rw_latched w' = sr_latched res\<close> show ?thesis by blast
qed

text \<open>
  The actor comes up unlatched only when there is no LATCH file and every record agrees: the audit and the
  store are whole chains, each spend has exactly its CONSUMED row, no effect is unresolved, no consumed request
  is unfinished and no request is still claimed, save what a resolution row of the audit names.
\<close>

theorem unlatched_start_agrees:
  assumes "start_actor env sid w = (Inr res, w')" "\<not> sr_latched res"
  shows "rw_latch w = No_Record \<and> (\<exists>st wanted. verify_rows (re_H env) wanted (rows_on_disk (rw_store w)) = Inr st \<and>
    (let rows = rows_on_disk (rw_audit w) in
      verify_audit env rows = Inr rows \<and> cross_check (st_rows st) rows \<and> \<not> unresolved rows \<and>
      set (consumed_unfinished rows) \<subseteq> lifted rows \<and>
      (\<exists>latest. requests_latest (rows_on_disk (rw_requests w)) = Inr latest \<and>
        (\<forall>i row. latest i = Some row \<longrightarrow> jget row ''state'' = JStr CLAIMED \<longrightarrow> JStr i \<in> lifted rows))))"
proof -
  from start_actor_Inr [OF assms(1)] obtain sha now n v
    where "reconcile env sid sha now (w\<lparr>rw_tick := n\<rparr>) = (Inr res, v)" by blast
  from unlatched_reconcile [OF this assms(2)] show ?thesis by simp
qed

section \<open>An unresolved effect\<close>

lemma run_never_lifts: "runner_run env w \<Longrightarrow> lifted (rows_on_disk (rw_audit w)) = {}"
proof (induction rule: runner_run.induct)
  case (message w m peer)
  with audit_grows.handle_steps [of w env m peer] show ?case by (auto simp: audit_grows_def lifted_def)
next
  case (restart w store_id)
  with audit_grows_start.start_actor_steps [of w env store_id] show ?case by (auto simp: audit_grows_def lifted_def)
qed (simp_all add: fresh_install_def lifted_def)

text \<open>
  C7 In every run, an effect the audit calls partial, unknown or reconciled as unknown latches every later start
  for good, the LATCH file deleted or not: the actor that comes up answers every message with
  \<open>RUNNER_LATCHED\<close> and changes nothing.
\<close>

theorem unresolved_effect_latches_every_start:
  assumes "runner_run env w" "row \<in> set (rows_on_disk (rw_audit w))"
    and "jget row ''execution_state'' \<in> set (map JStr audit_unresolved_states)"
    and "start_actor env sid w = (Inr res, w')"
  shows "sr_latched res \<and> handle env message peer w' = (Inr (actor_refusal ''RUNNER_LATCHED'' message None None), w')"
proof -
  have "sr_latched res"
  proof (rule ccontr)
    assume "\<not> sr_latched res"
    from start_actor_Inr [OF assms(4)] obtain sha now n v
      where "reconcile env sid sha now (w\<lparr>rw_tick := n\<rparr>) = (Inr res, v)" by blast
    from unlatched_reconcile [OF this \<open>\<not> sr_latched res\<close>] have "\<not> unresolved (rows_on_disk (rw_audit w))" by (auto simp: Let_def)
    with assms(2,3) run_never_lifts [OF assms(1)] show False by (auto simp: resolved_unresolved)
  qed
  with start_actor_Inr [OF assms(4)] latched_refuses show ?thesis by auto
qed

end
