(* ===== verification/Deploy_Audit.thy ===== *)
theory Deploy_Audit
  imports Deploy_Restart
begin

text \<open>
  The effect audit (\<open>deploy_runner/audit_chain.py\<close>): what an append writes is what the next read
  accepts, and an append with clean fields succeeds when the disk takes it.
\<close>

section \<open>One more row\<close>

lemma verify_audit_append:
  "verify_audit_from env i p (xs @ ys) = bindR (verify_audit_from env i p xs) (\<lambda>_.
     verify_audit_from env (i + int (length xs)) (tip_hash ''event_sha256'' p xs) ys)"
proof (induction xs arbitrary: i p)
  case Nil
  then show ?case by (simp add: tip_hash_def)
next
  case (Cons x xs)
  have len: "i + int (length (x # xs)) = i + 1 + int (length xs)" by simp
  have tip: "tip_hash ''event_sha256'' p (x # xs) = tip_hash ''event_sha256'' (jget x ''event_sha256'') xs"
    by (simp add: tip_hash_def)
  show ?case
    unfolding append_Cons len tip verify_audit_from.simps Cons.IH
    by (cases "event_hash (re_H env) x") (simp_all add: audit_broken_def)
qed

definition audit_body ::
  "runner_env \<Rightarrow> string \<Rightarrow> string \<Rightarrow> string \<Rightarrow> (string \<times> json) list \<Rightarrow> json list \<Rightarrow> (string \<times> json) list" where
  "audit_body env execution_state validation_result now named rows =
     map (\<lambda>name. (name, field_value named name)) audit_fields @
       [(''seq'', JInt (int (length rows) + 1)), (''recorded_at'', JStr now), (''generation'', JInt 1),
        (''execution_state'', JStr execution_state), (''validation_result'', JStr validation_result),
        (''runner_install_sha'', JStr (re_install_sha env)),
        (''previous_event_sha256'', tip_hash ''event_sha256'' JNull rows)]"

lemma audit_row_body:
  assumes "audit_row env es vr now named rows = Inr row"
  shows "\<exists>i h. row = JObj (audit_body env es vr now named rows @ [(''event_id'', JStr i), (''event_sha256'', JStr h)]) \<and>
    event_hash (re_H env) (JObj (audit_body env es vr now named rows @ [(''event_id'', JStr i)])) = Inr h"
  using assms by (auto simp: audit_row_def audit_body_def Let_def bindR_Inr_iff)

lemma audit_keys: "''event_sha256'' \<notin> fst ` set (audit_body env es vr now named rows)"
  by (auto simp: audit_body_def audit_fields_def)

lemma map_of_named: "map_of (map (\<lambda>n. (n, g n)) ks) f = (if f \<in> set ks then Some (g f) else None)"
  by (induction ks) auto

lemma other_names:
  "''execution_state'' \<notin> set audit_fields" "''seq'' \<notin> set audit_fields" "''previous_event_sha256'' \<notin> set audit_fields"
  "''event_sha256'' \<notin> set audit_fields"
  by (simp_all add: audit_fields_def)

lemma body_fields:
  "jget (JObj (audit_body env es vr now named rows @ xs)) ''execution_state'' = JStr es"
  "jget (JObj (audit_body env es vr now named rows @ xs)) ''seq'' = JInt (int (length rows) + 1)"
  "jget (JObj (audit_body env es vr now named rows @ xs)) ''previous_event_sha256'' = tip_hash ''event_sha256'' JNull rows"
  "f \<in> set audit_fields \<Longrightarrow> jget (JObj (audit_body env es vr now named rows @ xs)) f = field_value named f"
  by (simp_all add: jget_def items_def audit_body_def map_add_def map_of_named other_names)

lemma appended_hash:
  assumes "row = JObj (audit_body env es vr now named rows @ [(''event_id'', i), (''event_sha256'', JStr h)])"
  shows "jget row ''event_sha256'' = JStr h"
    and "event_hash H row = event_hash H (JObj (audit_body env es vr now named rows @ [(''event_id'', i)]))"
proof -
  let ?b = "audit_body env es vr now named rows"
  have kept: "without_key ''event_sha256'' ?b = ?b"
    using audit_keys [of env es vr now named rows] by (force simp: without_key_def filter_id_conv)
  have none: "map_of ?b ''event_sha256'' = None"
    using audit_keys [of env es vr now named rows] by (simp add: map_of_eq_None_iff)
  then show "jget row ''event_sha256'' = JStr h" by (simp add: assms jget_def items_def map_add_def)
  have "drop_key ''event_sha256'' row = JObj (?b @ [(''event_id'', i)])"
    "drop_key ''event_sha256'' (JObj (?b @ [(''event_id'', i)])) = JObj (?b @ [(''event_id'', i)])"
    using kept by (simp_all add: assms drop_key_def items_def without_key_def)
  then show "event_hash H row = event_hash H (JObj (?b @ [(''event_id'', i)]))" by (simp add: event_hash_def)
qed

lemma audit_extends:
  assumes v: "verify_audit env rows = Inr rows" and row: "audit_row env es vr now named rows = Inr row"
    and ok: "re_audit_ok env row"
  shows "verify_audit env (rows @ [row]) = Inr (rows @ [row]) \<and> in_state es row \<and>
    (\<forall>f \<in> set audit_fields. jget row f = field_value named f)"
proof -
  from audit_row_body [OF row] obtain i h where r:
    "row = JObj (audit_body env es vr now named rows @ [(''event_id'', JStr i), (''event_sha256'', JStr h)])"
    "event_hash (re_H env) (JObj (audit_body env es vr now named rows @ [(''event_id'', JStr i)])) = Inr h" by blast
  have fields: "jget row ''execution_state'' = JStr es" "jget row ''seq'' = JInt (int (length rows) + 1)"
    "jget row ''previous_event_sha256'' = tip_hash ''event_sha256'' JNull rows"
    "\<forall>f \<in> set audit_fields. jget row f = field_value named f"
    unfolding r(1) by (simp_all add: body_fields)
  from appended_hash [OF r(1)] r(2) have hash: "event_hash (re_H env) row = Inr h" "jget row ''event_sha256'' = JStr h"
    by simp_all
  from v have "verify_audit_from env 1 JNull rows = Inr ()" by (simp add: verify_audit_def bindR_Inr_iff)
  with fields hash ok show ?thesis
    by (simp add: verify_audit_def verify_audit_append in_state_def add.commute)
qed

section \<open>An append that succeeds\<close>

definition clean_fields :: "(string \<times> json) list \<Rightarrow> bool" where
  "clean_fields named = (list_all (\<lambda>kv. fst kv \<in> set audit_fields) named \<and>
     \<not> has_secret_key (JObj named) \<and> \<not> has_float (JObj named))"

definition audit_sound :: "runner_env \<Rightarrow> runner_world \<Rightarrow> bool" where
  "audit_sound env w = (rw_audit w \<in> {Absent_File, Record_Rows (rows_on_disk (rw_audit w))} \<and>
     verify_audit env (rows_on_disk (rw_audit w)) = Inr (rows_on_disk (rw_audit w)))"

lemma verified_tip:
  assumes "verify_audit env rows = Inr x"
  shows "tip_hash ''event_sha256'' JNull rows = JNull \<or> (\<exists>h. tip_hash ''event_sha256'' JNull rows = JStr h)"
proof (cases rows rule: rev_cases)
  case (snoc xs y)
  with assms have "verify_audit_from env (1 + int (length xs)) (tip_hash ''event_sha256'' JNull xs) [y] = Inr ()"
    by (auto simp: verify_audit_def bindR_Inr_iff verify_audit_append)
  then show ?thesis
    by (auto simp: tip_hash_def snoc bindR_Inr_iff audit_broken_def split: if_splits)
qed (simp add: tip_hash_def)

lemma field_value_in: "field_value named f = JNull \<or> (f, field_value named f) \<in> set named"
  by (auto simp: field_value_def jget_def items_def split: option.split dest: map_of_SomeD)

lemma audit_names_plain:
  "list_all (\<lambda>n. \<not> secret_key n) (audit_fields @ [''seq'', ''recorded_at'', ''generation'', ''execution_state'',
     ''validation_result'', ''runner_install_sha'', ''previous_event_sha256'', ''event_id''])"
  "\<not> has_secret_key (JObj [(''seq'', JInt n), (''previous'', JNull), (''at'', JStr now)])"
  "\<not> has_secret_key (JObj [(''seq'', JInt n), (''previous'', JStr h), (''at'', JStr now)])"
  by code_simp+

lemma clean_body:
  assumes "clean_fields named" "verify_audit env rows = Inr x"
  shows "\<not> has_secret_key (JObj (audit_body env es vr now named rows @ [(''event_id'', JStr i)]))"
    and "\<not> has_float (JObj (audit_body env es vr now named rows @ [(''event_id'', JStr i)]))"
proof -
  note tip = verified_tip [OF assms(2)]
  have "\<not> has_secret_key (field_value named f) \<and> \<not> has_float (field_value named f)" for f
    using assms(1) field_value_in [of named f] by (fastforce simp: clean_fields_def)
  with tip audit_names_plain(1)
  show "\<not> has_secret_key (JObj (audit_body env es vr now named rows @ [(''event_id'', JStr i)]))"
    "\<not> has_float (JObj (audit_body env es vr now named rows @ [(''event_id'', JStr i)]))"
    by (auto simp: audit_body_def list_all_iff)
qed

lemma clean_audit_row:
  assumes "clean_fields named" "verify_audit env rows = Inr x"
  shows "\<exists>row. audit_row env es vr now named rows = Inr row \<and> is_obj row"
proof -
  note tip = verified_tip [OF assms(2)]
  let ?j = "JObj [(''seq'', JInt (int (length rows) + 1)), (''previous'', tip_hash ''event_sha256'' JNull rows), (''at'', JStr now)]"
  from tip audit_names_plain(2,3) have "\<not> has_secret_key ?j" "\<not> has_float ?j" by auto
  then obtain i where i: "short_id (re_H env) ''dae'' ?j = Inr i" by (simp add: short_id_def canonical_bytes_def)
  let ?b = "audit_body env es vr now named rows @ [(''event_id'', JStr i)]"
  have "drop_key ''event_sha256'' (JObj ?b) = JObj ?b"
    using audit_keys [of env es vr now named rows] by (force simp: drop_key_def items_def without_key_def filter_id_conv)
  with clean_body [OF assms] obtain h where "event_hash (re_H env) (JObj ?b) = Inr h"
    by (auto simp: event_hash_def sha256_value_def canonical_bytes_def)
  with i show ?thesis by (simp add: audit_row_def audit_body_def Let_def is_obj_def)
qed

text \<open>An append to a sound audit, on a disk that takes it.\<close>

lemma audit_append_succeeds:
  assumes "audit_sound env w" "re_io env (rw_tick w) = Io_Ok" "clean_fields named" "\<And>r. is_obj r \<Longrightarrow> re_audit_ok env r"
  obtains row v where "audit_append env es vr now named w = (Inr row, v)"
    "v = (next_tick w)\<lparr>rw_audit := Record_Rows (rows_on_disk (rw_audit w) @ [row])\<rparr>" "in_state es row"
    "\<And>f. f \<in> set audit_fields \<Longrightarrow> jget row f = field_value named f" "audit_sound env v"
proof -
  let ?rows = "rows_on_disk (rw_audit w)"
  from assms(1) have v: "verify_audit env ?rows = Inr ?rows" and
    on_disk: "rw_audit w \<in> {Absent_File, Record_Rows ?rows}" by (simp_all add: audit_sound_def)
  from clean_audit_row [OF assms(3) v] obtain row where row: "audit_row env es vr now named ?rows = Inr row" "is_obj row"
    by blast
  note x = audit_extends [OF v row(1) assms(4) [OF row(2)]]
  have read: "read_record c p Io_Ok (rw_audit w) = Inr ?rows" for c p using on_disk by (cases "rw_audit w") auto
  have landed: "audit_append env es vr now named w = (Inr row, (next_tick w)\<lparr>rw_audit := Record_Rows (?rows @ [row])\<rparr>)"
    using assms v row read
    by (simp add: audit_append_def clean_fields_def locked_op_def audit_judge_def append_row_def rename_refusal_def)
  from x show thesis by (intro that [OF landed HOL.refl]) (simp_all add: audit_sound_def)
qed

end
