(* ===== verification/Deploy_Sample.thy ===== *)
theory Deploy_Sample
  imports Deploy_Carrier Deploy_Audit
begin

text \<open>
  One machine and one message: a fresh install, an approval for PR 7, a daemon that refuses to tag.
  Every hash is the same, so the concrete rows stay readable.
\<close>

definition sample_digest :: string where
  "sample_digest = ''0000000000000000000000000000000000000000000000000000000000000000''"

definition sample_image :: string where
  "sample_image = ''sha256:aaaaaaaaaaaaaaaaaaaaaaaaaaaaaaaaaaaaaaaaaaaaaaaaaaaaaaaaaaaaaaaa''"

definition sample_head :: string where
  "sample_head = ''bbbbbbbbbbbbbbbbbbbbbbbbbbbbbbbbbbbbbbbb''"

definition sample_document :: json where
  "sample_document = JObj
     [(''action'', JStr ''prepare_candidate''), (''approval_id'', JStr ''dap_aaaaaaaaaaaaaaaaaaaaaaaaaa''),
      (''environment'', JObj [(''host_label'', JStr ''h''), (''profile'', JStr ''p''), (''project'', JStr ''thomas'')]),
      (''expires_at'', JStr ''2026-10-01T11:00:00Z''), (''issued_at'', JStr ''2026-10-01T10:00:00Z''),
      (''nonce'', JStr ''11111111111111111111111111111111''), (''schema'', JStr ''thomas.deploy_approval.v1''),
      (''signature_namespace'', JStr ''thomas-deploy''),
      (''target'', JObj [(''candidate_image_id'', JNull), (''candidate_tag'', JStr ''candidate-7''),
        (''git_commit_sha'', JStr sample_head), (''pr'', JInt 7), (''rollback_image_id'', JStr sample_image),
        (''rollback_tag'', JStr ''rollback-pre-7'')])]"

definition sample_trust :: trust_material where
  "sample_trust = \<lparr>tm_signers = ''s'', tm_revoked = ''r'', tm_sha256 = ''sha256:'' @ sample_digest\<rparr>"

definition sample_now :: int where
  "sample_now = 63926445900000000"

text \<open>The daemon and git: the tree is clean, the four services run the image, the tags do not exist.\<close>

definition sample_answer :: "string list \<Rightarrow> answer" where
  "sample_answer argv = (let verb = nth argv 1 in
     if verb = ''container'' then Exited 0 (sample_image @ '' running healthy thomas'')
     else if verb = ''image'' then
       (if nth argv 2 = ''inspect'' \<and> last argv = latest_ref then Exited 0 sample_image else Exited 1 [])
     else if nth argv 3 = ''status'' then Exited 0 [] else Exited 0 sample_head)"

definition sample_env_at :: "(nat \<Rightarrow> io) \<Rightarrow> (string list \<Rightarrow> answer) \<Rightarrow> runner_env" where
  "sample_env_at disk replies = \<lparr>re_H = (\<lambda>_. sample_digest), re_io = disk, re_wall = (\<lambda>_. sample_now),
     re_mono = (\<lambda>_. 0), re_sync = (\<lambda>_. True), re_answer = (\<lambda>_. replies), re_latch_id = (\<lambda>_. ''latch''),
     re_trust = (\<lambda>_. Inr sample_trust), re_revoked = (\<lambda>_. Inr []), re_verifier = (\<lambda>_ _ _ _. Verified),
     re_loads = (\<lambda>_. Some sample_document), re_audit_ok = is_obj, re_latch_ok = is_obj, re_approval_ok = is_obj,
     re_install_sha = sample_head, re_place = \<lparr>rp_project = ''thomas'', rp_host_label = ''h'', rp_profile = ''p''\<rparr>,
     re_policy = \<lparr>tp_max_lifetime = JInt 7200, tp_issue_skew = JInt 60, tp_deadlines = [(''prepare_candidate'', JInt 1800)],
       tp_clock_jump = JInt 5, tp_backstep = JInt 5\<rparr>,
     re_docker = ''/d'', re_git = ''/g'', re_trees = ''/t'', re_inspect_min = 1000000\<rparr>"

definition sample_runner :: runner_env where
  "sample_runner = sample_env_at (\<lambda>_. Io_Ok) sample_answer"

definition sample_store_id :: string where
  "sample_store_id = ''22222222222222222222222222222222''"

definition sample_genesis :: json where
  "sample_genesis = JObj [(''type'', JStr ''GENESIS''), (''seq'', JInt 0), (''prev_sha256'', JNull),
     (''store_id'', JStr sample_store_id), (''install_sha'', JStr sample_head),
     (''created_at'', JStr ''2026-10-01T09:00:00Z''), (''row_sha256'', JStr (''sha256:'' @ sample_digest))]"

definition sample_install :: runner_world where
  "sample_install = \<lparr>rw_requests = Absent_File, rw_store = Record_Rows [sample_genesis], rw_audit = Absent_File,
     rw_latch = No_Record, rw_clock = No_Record, rw_tick = 0, rw_commands = [], rw_latched = False,
     rw_clock_trusted = True, rw_store_id = JStr sample_store_id, rw_last_inspect = None,
     rw_anchor_wall = sample_now, rw_anchor_mono = 0\<rparr>"

definition sample_message :: "string \<Rightarrow> json" where
  "sample_message b = JObj
     [(''schema'', JStr ''thomas.actor_request.v1''), (''request_id'', JStr ''r1''), (''verb'', JStr ''prepare_candidate''),
      (''args'', JObj [(''pr'', JInt 7), (''git_commit_sha'', JStr sample_head)]), (''gate_intake_seq'', JInt 1),
      (''approval_document_b64'', JStr b), (''approval_signature'', JStr (''-----BEGIN SSH SIGNATURE-----'' @ [newline] @ ''AAAA'' @ [newline] @ ''-----END SSH SIGNATURE-----''))]"


definition sample_b64 :: string where
  "sample_b64 = b64encode (canonical_text sample_document)"

definition sample_args :: json where
  "sample_args = JObj [(''pr'', JInt 7), (''git_commit_sha'', JStr sample_head)]"

definition sample_base :: "(string \<times> json) list" where
  "sample_base = [(''request_id'', JStr ''r1''), (''action'', JStr ''prepare_candidate''), (''caller_uid'', JInt 0),
     (''client_id'', JNull), (''gate_intake_seq'', JInt 1), (''store_id'', JStr sample_store_id)]"

definition sample_fp :: string where
  "sample_fp = ''sha256:'' @ sample_digest"

definition sample_stamp :: string where
  "sample_stamp = ''2026-10-01T10:05:00Z''"

definition sample_claimed :: runner_world where
  "sample_claimed = sample_install\<lparr>rw_tick := 3,
     rw_requests := Record_Rows [request_row ''r1'' sample_fp CLAIMED sample_stamp JNull]\<rparr>"

definition sample_approval :: verified_approval where
  "sample_approval = \<lparr>va_approval_id = JStr ''dap_aaaaaaaaaaaaaaaaaaaaaaaaaa'',
     va_nonce = JStr ''11111111111111111111111111111111'', va_action = ''prepare_candidate'',
     va_approval_sha256 = ''sha256:'' @ sample_digest, va_trust_sha256 = ''sha256:'' @ sample_digest,
     va_target = jget sample_document ''target'', va_issued_at = 63926445600, va_expires_at = 63926449200\<rparr>"

definition sample_spent :: json where
  "sample_spent = JObj [(''type'', JStr ''APPROVAL''), (''seq'', JInt 1), (''prev_sha256'', JStr (''sha256:'' @ sample_digest)),
     (''approval_id'', va_approval_id sample_approval), (''nonce'', va_nonce sample_approval),
     (''approval_sha256'', JStr (''sha256:'' @ sample_digest)), (''action'', JStr ''prepare_candidate''),
     (''request_id'', JStr ''r1''), (''consumed_at'', JStr sample_stamp), (''row_sha256'', JStr (''sha256:'' @ sample_digest))]"

section \<open>The message, step by step\<close>

lemma sample_sel [simp]:
  "re_io (sample_env_at disk replies) = disk" "re_wall (sample_env_at disk replies) n = sample_now"
  "re_mono (sample_env_at disk replies) n = 0" "re_audit_ok (sample_env_at disk replies) = is_obj"
  "re_answer (sample_env_at disk replies) n = replies" "re_latch_ok (sample_env_at disk replies) = is_obj"
  "re_H (sample_env_at disk replies) = (\<lambda>_. sample_digest)" "re_sync (sample_env_at disk replies) n"
  "re_trust (sample_env_at disk replies) n = Inr sample_trust" "re_revoked (sample_env_at disk replies) n = Inr []"
  "re_verifier (sample_env_at disk replies) n raw sig trust = Verified"
  "re_loads (sample_env_at disk replies) raw = Some sample_document" "re_approval_ok (sample_env_at disk replies) = is_obj"
  "re_docker (sample_env_at disk replies) = ''/d''" "re_git (sample_env_at disk replies) = ''/g''"
  "re_trees (sample_env_at disk replies) = ''/t''"
  by (simp_all add: sample_env_at_def)

lemma sample_stamp [simp]: "stamp sample_now = sample_stamp"
  by code_simp

lemma sample_begin:
  "begin_request (sample_env_at (\<lambda>_. Io_Ok) replies) ''r1'' sample_fp sample_stamp (next_tick (next_tick sample_install)) =
     (Inr JNull, sample_claimed)"
  by code_simp

lemma sample_fingerprint:
  "sha256_value (re_H (sample_env_at disk replies)) (drop_key ''gate_intake_seq'' (sample_message b)) = Inr sample_fp"
  by code_simp

lemma sample_message_fields:
  "jget (sample_message b) ''request_id'' = JStr ''r1''" "jget (sample_message b) ''verb'' = JStr ''prepare_candidate''"
  "jget (sample_message b) ''args'' = sample_args" "jget (sample_message b) ''gate_intake_seq'' = JInt 1"
  "jget (sample_message b) ''approval_document_b64'' = JStr b" "is_obj (sample_message b)"
  "check_args (JStr ''prepare_candidate'') sample_args = Inr sample_args"
  by code_simp+

lemma sample_message_ok: "1 \<le> length b \<Longrightarrow> length b \<le> 2734 \<Longrightarrow> message_ok (sample_message b)"
proof -
  have keys: "list_all (has_key (sample_message b)) [''schema'', ''request_id'', ''verb'', ''args'', ''gate_intake_seq'']"
    "list_all (\<lambda>kv. fst kv \<in> {''schema'', ''request_id'', ''verb'', ''args'', ''gate_intake_seq'',
        ''approval_document_b64'', ''approval_signature''}) (items (sample_message b))" for b
    by (simp_all add: sample_message_def has_key_def)
  have rest: "jget (sample_message b) ''schema'' = JStr ''thomas.actor_request.v1''"
    "str_form (token_form 128) (JStr ''r1'')" "str_form (\<lambda>v. v \<in> fst ` set args_by_action) (JStr ''prepare_candidate'')"
    "message_args_ok sample_args" "json_positive (JInt 1)"
    "optional (str_form (\<lambda>s. 1 \<le> length s \<and> length s \<le> 4096)) ''approval_signature'' (sample_message b)" for b
    by code_simp+
  assume "1 \<le> length b" "length b \<le> 2734"
  then have "optional (str_form (\<lambda>s. 1 \<le> length s \<and> length s \<le> 2734)) ''approval_document_b64'' (sample_message b)"
    by (simp add: optional_def sample_message_fields str_form_def)
  with keys rest show ?thesis by (simp only: message_ok_def sample_message_fields) simp
qed

text \<open>The document: its text is short and plain, and it survives its carrier.\<close>

lemma sample_text:
  "length (canonical_text sample_document) = 592" "is_ascii (canonical_text sample_document)"
  "canonical_bytes sample_document = Inr (canonical_text sample_document)"
  by code_simp+

lemma sample_decoded: "decode_document_b64 (JStr sample_b64) = Inr (canonical_text sample_document)"
  unfolding sample_b64_def by (rule carrier_round_trip) (use sample_text(1) in \<open>auto simp: max_document_bytes_def\<close>)

lemma sample_b64_length: "1 \<le> length sample_b64" "length sample_b64 \<le> 2734"
proof -
  have "b64_sextets (map of_char (canonical_text sample_document)) \<noteq> []"
    by (rule sextets_nonempty) (use sample_text(1) in auto)
  then show "1 \<le> length sample_b64" by (cases "b64_sextets (map of_char (canonical_text sample_document))")
    (auto simp: sample_b64_def encoded_parts(3) [OF HOL.refl])
  have pads: "(4 - l mod 4) mod 4 \<le> (3 :: nat)" for l :: nat using mod_less_divisor [of 4 "4 - l mod 4"] by linarith
  from sextets_length [of "map of_char (canonical_text sample_document)"] sample_text(1)
  have "length (b64_sextets (map of_char (canonical_text sample_document))) \<le> 790" by simp
  with pads [of "length (b64_sextets (map of_char (canonical_text sample_document)))"]
  show "length sample_b64 \<le> 2734" unfolding sample_b64_def encoded_parts(3) [OF HOL.refl] by linarith
qed

lemma sample_document_checks:
  "check_structure is_obj sample_document = Inr ()" "is_obj sample_document"
  "jget sample_document ''action'' = JStr ''prepare_candidate''"
  "parse_utc_second (jget sample_document ''issued_at'') = Inr 63926445600"
  "parse_utc_second (jget sample_document ''expires_at'') = Inr 63926449200"
  "check_requested_binding sample_args (jget sample_document ''target'') = Inr ()"
  "jget sample_document ''approval_id'' = va_approval_id sample_approval"
  "jget sample_document ''nonce'' = va_nonce sample_approval"
  "check_approval_window (re_policy (sample_env_at disk replies)) ''prepare_candidate'' 63926445600 63926449200 sample_now None = Inr ()"
  "(let place = jget sample_document ''environment'' in
      jget place ''project'' = JStr (rp_project (re_place (sample_env_at disk replies))) \<and>
      jget place ''host_label'' = JStr (rp_host_label (re_place (sample_env_at disk replies))) \<and>
      jget place ''profile'' = JStr (rp_profile (re_place (sample_env_at disk replies))))"
  by code_simp+

lemma sample_signature:
  "check_signature_text (jget (sample_message b) ''approval_signature'') =
     Inr (''-----BEGIN SSH SIGNATURE-----'' @ [newline] @ ''AAAA'' @ [newline] @ ''-----END SSH SIGNATURE-----'')"
  "jget (sample_message b) ''approval_signature'' \<noteq> JNull"
  by code_simp+

lemma sample_parsed: "parse_strict (re_loads (sample_env_at disk replies)) (canonical_text sample_document) = Inr sample_document"
  using sample_text sample_document_checks(2) by (auto simp: parse_strict_def max_document_bytes_def)

lemma sample_canonical: "require_canonical (canonical_text sample_document) sample_document = Inr ()"
  by (simp add: require_canonical_def sample_text)

lemma sample_verify:
  "verify_message (sample_env_at disk replies) (sample_message sample_b64) sample_args w =
     (Inr sample_approval, next_tick (next_tick (next_tick (next_tick w))))"
  using sample_document_checks
  by (simp add: verify_message_def load_trust_def load_revoked_def wall_now_def verify_deploy_approval_def Let_def
      approved_actions_def sample_message_fields sample_decoded sample_signature sample_parsed sample_canonical)
    (simp add: sample_approval_def sample_trust_def)

lemma sample_clock:
  "rw_anchor_wall w = sample_now \<Longrightarrow> rw_anchor_mono w = 0 \<Longrightarrow> rw_clock_trusted w \<Longrightarrow>
   clock_check (sample_env_at disk replies) w = (Inr (), next_tick (next_tick (next_tick w)))"
  by (simp add: clock_check_def wall_now_def mono_now_def check_clock_def next_tick_def sample_env_at_def secs_def micro_def)

section \<open>Looking\<close>

definition looked :: "runner_world \<Rightarrow> runner_world \<Rightarrow> bool" where
  "looked w v = (v = w\<lparr>rw_tick := rw_tick v, rw_commands := rw_commands v\<rparr> \<and> effects v = effects w)"

interpretation looked: measuring looked env for env
proof
  show "looked w w" for w by (simp add: looked_def)
  show "looked u w" if "looked u v" "looked v w" for u v w
    using that by (cases u; cases v; cases w) (simp add: looked_def effects_def)
  show "looked w (snd (run_argv env i argv w))" if "inspects env argv" for w i argv
    using run_argv_world [of env i argv w] inspects_no_effect [OF that]
    by (cases w) (auto simp: looked_def next_tick_def started_def effects_def)
qed

lemma looked_tick: "looked w (next_tick w)"
  by (cases w) (simp add: looked_def next_tick_def effects_def)

lemma looked_target: "looked w (snd (measure_target env i pr approval w))"
  unfolding measure_target_def
  by (intro looked.bindW_steps looked.bindW_pair_steps looked.if_steps looked.measure_tree_steps looked.measure_images_steps)
    (auto simp: operation_lock_def looked_tick looked.refl)

lemma sample_run:
  "sample_answer argv = Exited c out \<Longrightarrow>
   run_cmd (sample_env_at disk sample_answer) i (Inr argv) w = (Inr (c, out), started i argv (next_tick w))"
  by (simp add: run_cmd_def run_argv_def Let_def)

lemma sample_git:
  "git_status ''/g'' ''/t'' (JInt 7) = Inr [''/g'', ''-C'', ''/t/7'', ''status'', ''--porcelain'', ''--untracked-files=all'']"
  "git_head ''/g'' ''/t'' (JInt 7) = Inr [''/g'', ''-C'', ''/t/7'', ''rev-parse'', ''HEAD'']"
  "git_origin_main ''/g'' ''/t'' (JInt 7) = Inr [''/g'', ''-C'', ''/t/7'', ''rev-parse'', ''refs/remotes/origin/main'']"
  "sample_answer [''/g'', ''-C'', ''/t/7'', ''status'', ''--porcelain'', ''--untracked-files=all''] = Exited 0 []"
  "sample_answer [''/g'', ''-C'', ''/t/7'', ''rev-parse'', ''HEAD''] = Exited 0 sample_head"
  "sample_answer [''/g'', ''-C'', ''/t/7'', ''rev-parse'', ''refs/remotes/origin/main''] = Exited 0 sample_head"
  "strip [] = []" "strip sample_head = sample_head" "commit_form sample_head"
  by code_simp+

lemma sample_tree:
  "\<exists>v. measure_tree (sample_env_at disk sample_answer) i (JInt 7) w = (Inr (sample_head, sample_head), v)"
  by (simp add: measure_tree_def sample_run [OF sample_git(4)] sample_run [OF sample_git(5)]
      sample_run [OF sample_git(6)] sample_git Let_def)

lemma sample_docker:
  "image_inspect ''/d'' latest_ref = Inr [''/d'', ''image'', ''inspect'', ''--format'', image_format, latest_ref]"
  "bindR (candidate_ref (JInt 7)) (image_inspect ''/d'') = Inr [''/d'', ''image'', ''inspect'', ''--format'', image_format, ''thomas-agent-runtime:candidate-7'']"
  "bindR (rollback_ref (JInt 7)) (image_inspect ''/d'') = Inr [''/d'', ''image'', ''inspect'', ''--format'', image_format, ''thomas-agent-runtime:rollback-pre-7'']"
  "sample_answer [''/d'', ''image'', ''inspect'', ''--format'', image_format, latest_ref] = Exited 0 sample_image"
  "sample_answer [''/d'', ''image'', ''inspect'', ''--format'', image_format, ''thomas-agent-runtime:candidate-7''] = Exited 1 []"
  "sample_answer [''/d'', ''image'', ''inspect'', ''--format'', image_format, ''thomas-agent-runtime:rollback-pre-7''] = Exited 1 []"
  "strip sample_image = sample_image" "sha256_form sample_image"
  by code_simp+

lemma sample_images:
  "\<exists>v. image_id (sample_env_at disk sample_answer) i (Inr latest_ref) w = (Inr (Some sample_image), v)"
  "\<exists>v. image_id (sample_env_at disk sample_answer) i (candidate_ref (JInt 7)) w = (Inr None, v)"
  "\<exists>v. image_id (sample_env_at disk sample_answer) i (rollback_ref (JInt 7)) w = (Inr None, v)"
  by (simp_all add: image_id_def sample_docker sample_run [OF sample_docker(4)]
      sample_run [OF sample_docker(5)] sample_run [OF sample_docker(6)])

lemma sample_container:
  "parse_container ''thomas'' (sample_image @ '' running healthy thomas'') = Inr (sample_image, ''running'', ''healthy'')"
  by code_simp

lemma sample_containers:
  "set names \<subseteq> set runtime_containers \<Longrightarrow> \<exists>v. measure_containers (sample_env_at disk sample_answer) i names w =
     (Inr (map (\<lambda>n. (n, Some (sample_image, ''running'', ''healthy''))) names), v)"
proof (induction names arbitrary: w)
  case (Cons name names)
  let ?argv = "[''/d'', ''container'', ''inspect'', ''--format'', container_format, name]"
  from Cons.prems have inspected: "container_inspect ''/d'' name = Inr ?argv" by (simp add: container_inspect_def)
  have "sample_answer ?argv = Exited 0 (sample_image @ '' running healthy thomas'')" by (simp add: sample_answer_def)
  then have run: "run_cmd (sample_env_at disk sample_answer) i (container_inspect ''/d'' name) w =
      (Inr (0, sample_image @ '' running healthy thomas''), started i ?argv (next_tick w))" unfolding inspected by (rule sample_run)
  have place: "rp_project (re_place (sample_env_at disk sample_answer)) = ''thomas''" by (simp add: sample_env_at_def)
  from Cons.IH [of "started i ?argv (next_tick w)"] Cons.prems run show ?case
    by (auto simp: place sample_container)
qed simp

definition sample_measurement :: measurement where
  "sample_measurement = \<lparr>ms_containers = map (\<lambda>n. (n, Some (sample_image, ''running'', ''healthy''))) runtime_containers,
     ms_latest = sample_image, ms_candidate = None, ms_rollback = None\<rparr>"

lemma sample_remeasured:
  "\<exists>v. measure_images (sample_env_at disk sample_answer) i (JInt 7) w = (Inr sample_measurement, v)"
proof -
  obtain v where v: "measure_containers (sample_env_at disk sample_answer) i runtime_containers w =
     (Inr (map (\<lambda>n. (n, Some (sample_image, ''running'', ''healthy''))) runtime_containers), v)"
    using sample_containers by blast
  obtain u where u: "image_id (sample_env_at disk sample_answer) i (Inr latest_ref) v = (Inr (Some sample_image), u)"
    using sample_images(1) by blast
  obtain x where x: "image_id (sample_env_at disk sample_answer) i (candidate_ref (JInt 7)) u = (Inr None, x)"
    using sample_images(2) by blast
  obtain y where y: "image_id (sample_env_at disk sample_answer) i (rollback_ref (JInt 7)) x = (Inr None, y)"
    using sample_images(3) by blast
  from v u x y show ?thesis by (simp add: measure_images_def sample_measurement_def)
qed

lemma sample_agrees:
  "the_running_image sample_measurement = Inr sample_image"
  "check_measured_binding sample_approval (Some sample_head) (Some sample_head) (Some sample_image) None None = Inr ()"
  "ms_candidate sample_measurement = None" "ms_rollback sample_measurement = None"
  by code_simp+

lemma sample_measured:
  assumes "disk (rw_tick w) \<noteq> Io_Unread"
  obtains v where "measure_target (sample_env_at disk sample_answer) i (JInt 7) sample_approval w =
    (Inr (sample_head, sample_image), v)" "looked w v"
proof -
  have lock: "operation_lock (sample_env_at disk sample_answer) w = (Inr (), next_tick w)"
    using assms by (simp add: operation_lock_def)
  obtain u where u: "measure_tree (sample_env_at disk sample_answer) i (JInt 7) (next_tick w) = (Inr (sample_head, sample_head), u)"
    using sample_tree by blast
  obtain v where v: "measure_images (sample_env_at disk sample_answer) i (JInt 7) u = (Inr sample_measurement, v)"
    using sample_remeasured by blast
  from lock u v have "measure_target (sample_env_at disk sample_answer) i (JInt 7) sample_approval w =
      (Inr (sample_head, sample_image), v)" by (simp add: measure_target_def sample_agrees)
  with looked_target [of w "sample_env_at disk sample_answer" i "JInt 7" sample_approval] that show thesis by simp
qed

end
