(* ===== verification/Deploy_Sample_Run.thy ===== *)
theory Deploy_Sample_Run
  imports Deploy_Sample
begin

text \<open>
  The sample message from its first check to its ending: the approval is spent, the daemon refuses to
  tag, and the actor latches.
\<close>

section \<open>The operations of the message\<close>

lemma sample_audit:
  assumes "audit_sound (sample_env_at (\<lambda>_. Io_Ok) replies) w" "clean_fields named"
  obtains row v where "audit_append (sample_env_at (\<lambda>_. Io_Ok) replies) es vr now named w = (Inr row, v)"
    "v = (next_tick w)\<lparr>rw_audit := Record_Rows (rows_on_disk (rw_audit w) @ [row])\<rparr>" "in_state es row"
    "\<And>f. f \<in> set audit_fields \<Longrightarrow> jget row f = field_value named f" "audit_sound (sample_env_at (\<lambda>_. Io_Ok) replies) v"
  using audit_append_succeeds [OF assms(1) _ assms(2)] by (metis sample_sel(1,4))

lemma sound_cong: "rw_audit v = rw_audit w \<Longrightarrow> audit_sound env w \<Longrightarrow> audit_sound env v"
  by (simp add: audit_sound_def)

lemma sample_judged:
  "consume_judge (\<lambda>_. sample_digest) sample_approval ''r1'' sample_stamp (JStr sample_store_id) [sample_genesis] =
     Inr (sample_spent, Some sample_spent)"
  by code_simp

lemma sample_consume:
  assumes "rw_store w = Record_Rows [sample_genesis]" "rw_store_id w = JStr sample_store_id"
  shows "consume (sample_env_at (\<lambda>_. Io_Ok) replies) sample_approval ''r1'' sample_stamp w =
    (Inr sample_spent, (next_tick w)\<lparr>rw_store := Record_Rows [sample_genesis, sample_spent]\<rparr>)"
  using assms by (simp add: consume_def locked_op_def sample_judged append_row_def)

lemma sample_finished:
  "finish_judge ''r1'' sample_fp PARTIAL sample_stamp JNull [request_row ''r1'' sample_fp CLAIMED sample_stamp JNull] =
     Inr ((), Some (request_row ''r1'' sample_fp PARTIAL sample_stamp JNull))"
  "PARTIAL \<in> set terminal_states"
  by code_simp+

lemma sample_finish:
  assumes "rw_requests w = Record_Rows [request_row ''r1'' sample_fp CLAIMED sample_stamp JNull]"
  shows "finish_request (sample_env_at (\<lambda>_. Io_Ok) replies) ''r1'' sample_fp PARTIAL sample_stamp JNull w =
    (Inr (), (next_tick w)\<lparr>rw_requests := Record_Rows [request_row ''r1'' sample_fp CLAIMED sample_stamp JNull,
       request_row ''r1'' sample_fp PARTIAL sample_stamp JNull]\<rparr>)"
  using assms sample_finished(2)
  by (simp add: finish_request_def requests_op_def locked_op_def sample_finished append_row_def)

lemma sample_tag:
  "tag_rollback_point ''/d'' sample_image (JInt 7) =
     Inr [''/d'', ''image'', ''tag'', sample_image, ''thomas-agent-runtime:rollback-pre-7'']"
  "sample_answer [''/d'', ''image'', ''tag'', sample_image, ''thomas-agent-runtime:rollback-pre-7''] = Exited 1 []"
  by code_simp+

definition sample_tag_argv :: "string list" where
  "sample_tag_argv = [''/d'', ''image'', ''tag'', sample_image, ''thomas-agent-runtime:rollback-pre-7'']"

lemma sample_effect:
  assumes "0 < deadline"
  shows "effect_commands sample_runner i (JInt 7) sample_image deadline w =
    (Inl (Refused ''DOCKER_COMMAND_FAILED''), started i sample_tag_argv (next_tick (next_tick w)))"
  using assms sample_run [OF sample_tag(2), of "\<lambda>_. Io_Ok" i]
  by (simp add: effect_commands_def time_left_def mono_now_def sample_runner_def sample_tag(1) sample_tag_argv_def)

lemma sample_effects: "effects (started i sample_tag_argv w) = effects w @ [(i, sample_tag_argv)]"
  by (simp add: effects_def started_def sample_tag_argv_def effect_argv_def)

section \<open>The fields it writes are clean\<close>

definition sample_signed :: "(string \<times> json) list" where
  "sample_signed = signed_base sample_base sample_approval"

lemma sample_clean:
  "clean_fields sample_base"
  "clean_fields (sample_signed @ [(''target'', effect_ids (JInt 7) (JStr sample_head) JNull (JStr sample_image)),
     (''consumption_seq'', jget sample_spent ''seq''), (''consumption_row_sha256'', jget sample_spent ''row_sha256'')])"
  "clean_fields (sample_signed @ [(''target'', effect_ids (JInt 7) (JStr sample_head) JNull (JStr sample_image))])"
  "clean_fields (sample_signed @ [(''reason_code'', JStr ''DOCKER_COMMAND_FAILED''),
     (''target'', effect_ids (JInt 7) (JStr sample_head) JNull JNull)])"
  "clean_fields [(''reason_code'', JStr ''FAILED_EFFECT_PARTIAL''), (''latch_id'', JStr ''latch''),
     (''request_id'', JStr ''r1''), (''store_id'', JStr sample_store_id)]"
  by code_simp+

section \<open>The message\<close>

lemma sample_look: "look_at_latch sample_runner sample_install = (Inr False, next_tick sample_install)"
  by code_simp

text \<open>Up to the verification: claimed and received.\<close>

lemma sample_prepared:
  obtains row v where "handle_message sample_runner (sample_message sample_b64) (JInt 0) sample_install =
      prepare sample_runner (sample_message sample_b64) sample_args sample_base sample_fp v"
    "v = (next_tick sample_claimed)\<lparr>rw_audit := Record_Rows [row]\<rparr>" "in_state ''RECEIVED'' row" "audit_sound sample_runner v"
proof -
  have "audit_sound sample_runner sample_claimed"
    by (simp add: audit_sound_def sample_claimed_def sample_install_def verify_audit_def)
  from sample_audit [OF this [unfolded sample_runner_def] sample_clean(1), of "''RECEIVED''" "''NOT_REQUIRED''" sample_stamp]
  obtain row v where a: "audit_append sample_runner ''RECEIVED'' ''NOT_REQUIRED'' sample_stamp sample_base sample_claimed = (Inr row, v)"
    "v = (next_tick sample_claimed)\<lparr>rw_audit := Record_Rows (rows_on_disk (rw_audit sample_claimed) @ [row])\<rparr>"
    "in_state ''RECEIVED'' row" "audit_sound sample_runner v"
    unfolding sample_runner_def by metis
  have none: "rows_on_disk (rw_audit sample_claimed) = []" by (simp add: sample_claimed_def sample_install_def)
  have verbs: "''prepare_candidate'' \<notin> set policy_blocked_verbs" by code_simp
  have base: "[(''request_id'', JStr ''r1''), (''action'', JStr ''prepare_candidate''), (''caller_uid'', JInt 0),
      (''client_id'', JNull), (''gate_intake_seq'', JInt 1), (''store_id'', rw_store_id (next_tick (next_tick sample_install)))] = sample_base"
    by (simp add: sample_base_def next_tick_def sample_install_def)
  have "wall_now sample_runner (next_tick sample_install) = (Inr sample_now, next_tick (next_tick sample_install))"
    by (simp add: wall_now_def sample_runner_def)
  with sample_message_ok [OF sample_b64_length] a(1) verbs sample_fingerprint [of "\<lambda>_. Io_Ok" sample_answer sample_b64]
    sample_begin [of sample_answer]
  have "handle_message sample_runner (sample_message sample_b64) (JInt 0) sample_install =
      prepare sample_runner (sample_message sample_b64) sample_args sample_base sample_fp v"
    by (simp add: handle_message_def sample_look [unfolded sample_runner_def] sample_message_fields Let_def claim_and_prepare_def on_refusal_def
        base sample_runner_def)
  from that [OF this] a none show thesis by simp
qed

text \<open>From the verification to the effect: verified, measured, spent, recorded.\<close>

lemma sample_acted:
  assumes w: "rw_store w = Record_Rows [sample_genesis]" "rw_store_id w = JStr sample_store_id" "rw_anchor_wall w = sample_now"
    "rw_anchor_mono w = 0" "rw_clock_trusted w" "audit_sound sample_runner w"
  obtains consumed v where "prepare sample_runner (sample_message sample_b64) sample_args sample_base sample_fp w =
      act sample_runner (sample_message sample_b64) sample_signed sample_fp (JInt 7) sample_head sample_image v"
    "rw_store v = Record_Rows [sample_genesis, sample_spent]" "rw_store_id v = rw_store_id w" "rw_requests v = rw_requests w"
    "rw_latch v = rw_latch w" "rw_latched v = rw_latched w" "effects v = effects w" "audit_sound sample_runner v"
    "rows_on_disk (rw_audit v) = rows_on_disk (rw_audit w) @ [consumed]" "in_state ''CONSUMED'' consumed"
proof -
  let ?env = "sample_env_at (\<lambda>_. Io_Ok) sample_answer"
  define x where "x = next_tick (next_tick (next_tick (next_tick (next_tick (next_tick (next_tick w))))))"
  have x: "rw_store x = rw_store w" "rw_store_id x = rw_store_id w" "rw_requests x = rw_requests w" "rw_audit x = rw_audit w"
    "rw_latch x = rw_latch w" "rw_latched x = rw_latched w" "effects x = effects w" by (simp_all add: x_def next_tick_def effects_def)
  have checked: "clock_check ?env (next_tick (next_tick (next_tick (next_tick w)))) = (Inr (), x)"
    unfolding x_def by (rule sample_clock) (simp_all add: w next_tick_def)
  obtain y where y: "measure_target ?env (JStr ''r1'') (JInt 7) sample_approval x = (Inr (sample_head, sample_image), y)" "looked x y"
    by (rule sample_measured [of "\<lambda>_. Io_Ok" x "JStr ''r1''"]) auto
  have y': "y = x\<lparr>rw_tick := rw_tick y, rw_commands := rw_commands y\<rparr>" "effects y = effects x"
    using y(2) by (simp_all add: looked_def)
  have yw: "rw_store y = rw_store w" "rw_store_id y = rw_store_id w" "rw_requests y = rw_requests w" "rw_audit y = rw_audit w"
    "rw_latch y = rw_latch w" "rw_latched y = rw_latched w"
    by (subst y'(1); simp add: x)+
  define z where "z = (next_tick (next_tick y))\<lparr>rw_store := Record_Rows [sample_genesis, sample_spent]\<rparr>"
  have consumed: "consume ?env sample_approval ''r1'' sample_stamp (next_tick y) = (Inr sample_spent, z)"
    unfolding z_def by (rule sample_consume) (simp_all add: next_tick_def yw w)
  have z: "rw_store_id z = rw_store_id w" "rw_requests z = rw_requests w" "rw_audit z = rw_audit w" "rw_latch z = rw_latch w"
    "rw_latched z = rw_latched w" "effects z = effects w"
    using yw y'(2) x(7) by (simp_all add: z_def next_tick_def effects_def)
  from sound_cong [OF z(3) w(6)] have "audit_sound ?env z" by (simp add: sample_runner_def)
  from sample_audit [OF this sample_clean(2), of "''CONSUMED''" "''PASS''" sample_stamp] obtain row v where a:
    "audit_append ?env ''CONSUMED'' ''PASS'' sample_stamp (sample_signed @
      [(''target'', effect_ids (JInt 7) (JStr sample_head) JNull (JStr sample_image)),
       (''consumption_seq'', jget sample_spent ''seq''), (''consumption_row_sha256'', jget sample_spent ''row_sha256'')]) z = (Inr row, v)"
    "v = (next_tick z)\<lparr>rw_audit := Record_Rows (rows_on_disk (rw_audit z) @ [row])\<rparr>"
    "in_state ''CONSUMED'' row" "audit_sound ?env v" by metis
  have pr: "jget sample_args ''pr'' = JInt 7" by code_simp
  have "wall_now ?env y = (Inr sample_now, next_tick y)" by (simp add: wall_now_def)
  with checked y(1) consumed a(1) pr
  have "prepare ?env (sample_message sample_b64) sample_args sample_base sample_fp w =
      act ?env (sample_message sample_b64) sample_signed sample_fp (JInt 7) sample_head sample_image v"
    by (simp add: prepare_def Let_def sample_verify on_refusal_def sample_message_fields spend_and_act_def
        sample_signed_def [symmetric])
  from that [of v row] this a z show thesis by (simp add: sample_runner_def next_tick_def effects_def z_def)
qed

text \<open>The ending: the effect is partial, the actor latches, the request is closed.\<close>

lemma sample_latched:
  assumes w: "rw_store_id w = JStr sample_store_id" "rw_latch w = No_Record" "audit_sound sample_runner w"
    "rw_requests w = Record_Rows [request_row ''r1'' sample_fp CLAIMED sample_stamp JNull]"
  obtains reply partial v where "latch_and_finish sample_runner (sample_message sample_b64) sample_signed sample_fp
      ''DOCKER_COMMAND_FAILED'' sample_stamp (spend_verdict ''DOCKER_COMMAND_FAILED'' (JInt 7) (JStr sample_head)
        (Some (Some sample_measurement))) w = (Inr reply, v)"
    "rw_latched v" "rw_store v = rw_store w" "effects v = effects w" "in_state ''FAILED_EFFECT_PARTIAL'' partial"
    "\<exists>set'. rows_on_disk (rw_audit v) = rows_on_disk (rw_audit w) @ [partial, set'] \<and> in_state ''LATCH_SET'' set'"
    "audit_sound sample_runner v"
    "rw_requests v = Record_Rows [request_row ''r1'' sample_fp CLAIMED sample_stamp JNull, request_row ''r1'' sample_fp PARTIAL sample_stamp JNull]"
proof -
  let ?env = "sample_env_at (\<lambda>_. Io_Ok) sample_answer"
  let ?w = "w\<lparr>rw_latched := True\<rparr>"
  from sound_cong [of ?w w] w(3) have "audit_sound ?env ?w" by (simp add: sample_runner_def)
  from sample_audit [OF this sample_clean(4), of "''FAILED_EFFECT_PARTIAL''" "''PASS''" sample_stamp] obtain row x where a:
    "audit_append ?env ''FAILED_EFFECT_PARTIAL'' ''PASS'' sample_stamp (sample_signed @
      [(''reason_code'', JStr ''DOCKER_COMMAND_FAILED''), (''target'', effect_ids (JInt 7) (JStr sample_head) JNull JNull)]) ?w = (Inr row, x)"
    "x = (next_tick ?w)\<lparr>rw_audit := Record_Rows (rows_on_disk (rw_audit ?w) @ [row])\<rparr>"
    "in_state ''FAILED_EFFECT_PARTIAL'' row" "audit_sound ?env x" by metis
  define l where "l = JObj [(''latch_id'', JStr ''latch''), (''reason_code'', JStr ''FAILED_EFFECT_PARTIAL''),
      (''request_id'', JStr ''r1''), (''created_at'', JStr sample_stamp)]"
  have lid: "re_latch_id ?env n = ''latch''" for n by (simp add: sample_env_at_def)
  define y where "y = (next_tick x)\<lparr>rw_latch := Holds l\<rparr>"
  have set: "set_latch ?env ''FAILED_EFFECT_PARTIAL'' (JStr ''r1'') sample_stamp x = (Inr l, y)"
    using w(2) by (simp add: set_latch_def Let_def latch_record_def lid l_def [symmetric] y_def a(2) next_tick_def)
      (simp add: l_def)
  have ly: "jget l ''reason_code'' = JStr ''FAILED_EFFECT_PARTIAL''" "jget l ''latch_id'' = JStr ''latch''"
    "rw_store_id y = JStr sample_store_id"
    using w(1) by (simp_all add: l_def y_def a(2) next_tick_def)
  have "rw_audit y = rw_audit x" by (simp add: y_def next_tick_def)
  from sound_cong [OF this a(4)] have "audit_sound ?env y" .
  from sample_audit [OF this sample_clean(5), of "''LATCH_SET''" "''NOT_REQUIRED''" sample_stamp] obtain row' z where b:
    "audit_append ?env ''LATCH_SET'' ''NOT_REQUIRED'' sample_stamp [(''reason_code'', JStr ''FAILED_EFFECT_PARTIAL''),
      (''latch_id'', JStr ''latch''), (''request_id'', JStr ''r1''), (''store_id'', JStr sample_store_id)] y = (Inr row', z)"
    "z = (next_tick y)\<lparr>rw_audit := Record_Rows (rows_on_disk (rw_audit y) @ [row'])\<rparr>" "in_state ''LATCH_SET'' row'" "audit_sound ?env z"
    by metis
  define v where "v = (next_tick z)\<lparr>rw_requests := Record_Rows [request_row ''r1'' sample_fp CLAIMED sample_stamp JNull,
       request_row ''r1'' sample_fp PARTIAL sample_stamp JNull]\<rparr>"
  have fin: "finish_request ?env ''r1'' sample_fp PARTIAL sample_stamp JNull z = (Inr (), v)"
    unfolding v_def by (rule sample_finish) (use w(4) in \<open>simp add: b(2) y_def a(2) next_tick_def\<close>)
  let ?ids = "effect_ids (JInt 7) (JStr sample_head) JNull JNull"
  have none: "of_opt None = JNull" by (simp add: of_opt_def)
  have "latch_and_finish ?env (sample_message sample_b64) sample_signed sample_fp ''DOCKER_COMMAND_FAILED'' sample_stamp
      (spend_verdict ''DOCKER_COMMAND_FAILED'' (JInt 7) (JStr sample_head) (Some (Some sample_measurement))) w =
      (Inr (actor_refusal ''FAILED_EFFECT_PARTIAL'' (sample_message sample_b64) (Some PARTIAL) (Some ?ids)), v)"
    using a(1) set b(1) fin ly
    by (simp add: latch_and_finish_def spend_verdict_def sample_agrees none sample_message_fields on_refusal_def)
  from that [of _ v row] this a(2,3) b(2,3,4) show thesis
    by (simp add: sample_runner_def v_def y_def next_tick_def effects_def audit_sound_def)
qed

lemma sample_failed:
  assumes w: "rw_store_id w = JStr sample_store_id" "rw_latch w = No_Record" "audit_sound sample_runner w"
    "rw_requests w = Record_Rows [request_row ''r1'' sample_fp CLAIMED sample_stamp JNull]"
  obtains reply executing partial v where "act sample_runner (sample_message sample_b64) sample_signed sample_fp (JInt 7)
      sample_head sample_image w = (Inr reply, v)"
    "rw_latched v" "rw_store v = rw_store w" "effects v = effects w @ [(JStr ''r1'', sample_tag_argv)]"
    "in_state ''FAILED_EFFECT_PARTIAL'' partial"
    "\<exists>set'. rows_on_disk (rw_audit v) = rows_on_disk (rw_audit w) @ [executing, partial, set'] \<and> in_state ''LATCH_SET'' set'"
    "in_state ''EXECUTING'' executing" "audit_sound sample_runner v"
proof -
  let ?env = "sample_env_at (\<lambda>_. Io_Ok) sample_answer"
  define x where "x = next_tick (next_tick w)"
  have x: "rw_store_id x = rw_store_id w" "rw_latch x = rw_latch w" "rw_requests x = rw_requests w" "rw_audit x = rw_audit w"
    "rw_store x = rw_store w" "effects x = effects w" by (simp_all add: x_def next_tick_def effects_def)
  from sound_cong [OF x(4) w(3)] have "audit_sound ?env x" by (simp add: sample_runner_def)
  from sample_audit [OF this sample_clean(3), of "''EXECUTING''" "''PASS''" sample_stamp] obtain row y where a:
    "audit_append ?env ''EXECUTING'' ''PASS'' sample_stamp (sample_signed @
      [(''target'', effect_ids (JInt 7) (JStr sample_head) JNull (JStr sample_image))]) x = (Inr row, y)"
    "y = (next_tick x)\<lparr>rw_audit := Record_Rows (rows_on_disk (rw_audit x) @ [row])\<rparr>"
    "in_state ''EXECUTING'' row" "audit_sound ?env y" by metis
  have deadline: "0 < secs (jget (JObj (tp_deadlines (re_policy sample_runner))) ''prepare_candidate'') * micro" by code_simp
  define z where "z = started (JStr ''r1'') sample_tag_argv (next_tick (next_tick y))"
  have tagged: "effect_commands ?env (JStr ''r1'') (JInt 7) sample_image
      (secs (jget (JObj (tp_deadlines (re_policy ?env))) ''prepare_candidate'') * micro) y = (Inl (Refused ''DOCKER_COMMAND_FAILED''), z)"
    using sample_effect [OF deadline, of "JStr ''r1''" y] by (simp add: z_def sample_runner_def)
  obtain u where u: "measure_images ?env (JStr ''r1'') (JInt 7) (next_tick z) = (Inr sample_measurement, u)"
    using sample_remeasured by blast
  have "looked (next_tick z) u" using looked.measure_images_steps [of "next_tick z" ?env "JStr ''r1''" "JInt 7"] u by simp
  then have u': "u = (next_tick z)\<lparr>rw_tick := rw_tick u, rw_commands := rw_commands u\<rparr>" "effects u = effects (next_tick z)"
    by (simp_all add: looked_def)
  have eff: "effects u = effects w @ [(JStr ''r1'', sample_tag_argv)]"
    using u'(2) a(2) by (simp add: z_def effects_def x_def next_tick_def started_def) (simp add: sample_tag_argv_def effect_argv_def)
  have us: "rw_store_id u = rw_store_id w" "rw_latch u = rw_latch w" "rw_requests u = rw_requests w" "rw_store u = rw_store w"
    "rw_audit u = rw_audit y"
    by (subst u'(1); simp add: z_def started_def next_tick_def a(2) x)+
  from sound_cong [OF us(5) a(4)] have "audit_sound sample_runner u" by (simp add: sample_runner_def)
  from sample_latched [of u, unfolded us(1-3), OF w(1,2) this w(4)] obtain reply partial v where e:
    "latch_and_finish sample_runner (sample_message sample_b64) sample_signed sample_fp
      ''DOCKER_COMMAND_FAILED'' sample_stamp (spend_verdict ''DOCKER_COMMAND_FAILED'' (JInt 7) (JStr sample_head)
        (Some (Some sample_measurement))) u = (Inr reply, v)"
    "rw_latched v" "rw_store v = rw_store u" "effects v = effects u" "in_state ''FAILED_EFFECT_PARTIAL'' partial"
    "\<exists>set'. rows_on_disk (rw_audit v) = rows_on_disk (rw_audit u) @ [partial, set'] \<and> in_state ''LATCH_SET'' set'"
    "audit_sound sample_runner v" by metis
  have "wall_now ?env (next_tick w) = (Inr sample_now, x)" "mono_now ?env w = (Inr 0, next_tick w)"
    "wall_now ?env z = (Inr sample_now, next_tick z)" by (simp_all add: wall_now_def mono_now_def x_def)
  with a(1) tagged u e(1)
  have "act ?env (sample_message sample_b64) sample_signed sample_fp (JInt 7) sample_head sample_image w = (Inr reply, v)"
    by (simp add: act_def Let_def sample_message_fields on_refusal_def fail_after_effect_def sample_runner_def)
  moreover have "\<exists>set'. rows_on_disk (rw_audit v) = rows_on_disk (rw_audit w) @ [row, partial, set'] \<and> in_state ''LATCH_SET'' set'"
    using e(6) us(5) a(2) x(4) by auto
  ultimately show thesis
    using that [of reply v partial row] e(2,3,4,5,7) us(4) eff a(3) by (simp add: sample_runner_def)
qed

text \<open>The whole message: what it answers and what it leaves.\<close>

lemma sample_handled:
  obtains reply received consumed executing partial w where
    "handle sample_runner (sample_message sample_b64) (JInt 0) sample_install = (Inr reply, w)"
    "rw_latched w" "rw_store w = Record_Rows [sample_genesis, sample_spent]" "effects w = [(JStr ''r1'', sample_tag_argv)]"
    "in_state ''FAILED_EFFECT_PARTIAL'' partial"
    "\<exists>set'. rows_on_disk (rw_audit w) = [received, consumed, executing, partial, set'] \<and> in_state ''LATCH_SET'' set'"
proof -
  obtain received v where v: "handle_message sample_runner (sample_message sample_b64) (JInt 0) sample_install =
      prepare sample_runner (sample_message sample_b64) sample_args sample_base sample_fp v"
    "v = (next_tick sample_claimed)\<lparr>rw_audit := Record_Rows [received]\<rparr>" "audit_sound sample_runner v"
    using sample_prepared by metis
  have start: "rw_store v = Record_Rows [sample_genesis]" "rw_store_id v = JStr sample_store_id" "rw_anchor_wall v = sample_now"
    "rw_anchor_mono v = 0" "rw_clock_trusted v" "rw_latch v = No_Record" "effects v = []"
    "rw_requests v = Record_Rows [request_row ''r1'' sample_fp CLAIMED sample_stamp JNull]" "rows_on_disk (rw_audit v) = [received]"
    by (simp_all add: v(2) next_tick_def sample_claimed_def sample_install_def effects_def)
  obtain consumed u where u: "prepare sample_runner (sample_message sample_b64) sample_args sample_base sample_fp v =
      act sample_runner (sample_message sample_b64) sample_signed sample_fp (JInt 7) sample_head sample_image u"
    "rw_store u = Record_Rows [sample_genesis, sample_spent]" "rw_store_id u = rw_store_id v" "rw_requests u = rw_requests v"
    "rw_latch u = rw_latch v" "effects u = effects v" "audit_sound sample_runner u"
    "rows_on_disk (rw_audit u) = rows_on_disk (rw_audit v) @ [consumed]"
    using sample_acted [OF start(1-5) v(3)] by metis
  have before: "rw_store_id u = JStr sample_store_id" "rw_latch u = No_Record"
    "rw_requests u = Record_Rows [request_row ''r1'' sample_fp CLAIMED sample_stamp JNull]" using u(3-5) start by simp_all
  obtain reply executing partial w where w: "act sample_runner (sample_message sample_b64) sample_signed sample_fp (JInt 7)
      sample_head sample_image u = (Inr reply, w)" "rw_latched w" "rw_store w = rw_store u"
    "effects w = effects u @ [(JStr ''r1'', sample_tag_argv)]" "in_state ''FAILED_EFFECT_PARTIAL'' partial"
    "\<exists>set'. rows_on_disk (rw_audit w) = rows_on_disk (rw_audit u) @ [executing, partial, set'] \<and> in_state ''LATCH_SET'' set'"
    using sample_failed [OF before(1,2) u(7) before(3)] by metis
  from v(1) u(1) w(1) have "handle sample_runner (sample_message sample_b64) (JInt 0) sample_install = (Inr reply, w)"
    by (simp add: handle_def on_refusal_def)
  from that [OF this w(2)] w(3-6) u(2,6,8) start(7,9) show thesis by simp
qed

definition sample_after :: runner_world where
  "sample_after = snd (handle sample_runner (sample_message sample_b64) (JInt 0) sample_install)"

lemma sample_after:
  "\<exists>reply. handle sample_runner (sample_message sample_b64) (JInt 0) sample_install = (Inr reply, sample_after)"
  "rw_latched sample_after" "rw_store sample_after = Record_Rows [sample_genesis, sample_spent]"
  "effects sample_after = [(JStr ''r1'', sample_tag_argv)]"
  "\<exists>r \<in> set (rows_on_disk (rw_audit sample_after)). in_state ''FAILED_EFFECT_PARTIAL'' r"
proof -
  obtain reply received consumed executing partial w where w:
    "handle sample_runner (sample_message sample_b64) (JInt 0) sample_install = (Inr reply, w)"
    "rw_latched w" "rw_store w = Record_Rows [sample_genesis, sample_spent]" "effects w = [(JStr ''r1'', sample_tag_argv)]"
    "in_state ''FAILED_EFFECT_PARTIAL'' partial"
    "\<exists>set'. rows_on_disk (rw_audit w) = [received, consumed, executing, partial, set'] \<and> in_state ''LATCH_SET'' set'"
    using sample_handled by metis
  from w(1) have "sample_after = w" by (simp add: sample_after_def)
  with w show "\<exists>reply. handle sample_runner (sample_message sample_b64) (JInt 0) sample_install = (Inr reply, sample_after)"
    "rw_latched sample_after" "rw_store sample_after = Record_Rows [sample_genesis, sample_spent]"
    "effects sample_after = [(JStr ''r1'', sample_tag_argv)]"
    "\<exists>r \<in> set (rows_on_disk (rw_audit sample_after)). in_state ''FAILED_EFFECT_PARTIAL'' r" by auto
qed

lemma sample_run_reached: "runner_run sample_runner sample_after"
proof -
  have "runner_run sample_runner sample_install"
    by (rule runner_run.installed) (simp add: fresh_install_def sample_install_def sample_genesis_def approval_rows_def)
  then show ?thesis unfolding sample_after_def by (rule runner_run.message)
qed

end
