(* ===== verification/Deploy_Witnesses.thy ===== *)
theory Deploy_Witnesses
  imports Deploy_Sample_Run
begin

text \<open>
  The runner's properties at the sample machine: each hypothesis holds there.
\<close>

lemma sample_idle: "effects sample_install = []"
  by (simp add: effects_def sample_install_def)

theorem effects_are_paid_once_witness:
  "effects sample_after = [(JStr ''r1'', sample_tag_argv)] \<and>
   (\<exists>!row. row \<in> set (approval_rows [sample_genesis, sample_spent]) \<and> jget row ''request_id'' = JStr ''r1'')"
  using effects_are_paid_once [OF sample_run_reached] by (simp add: sample_after)

theorem failed_effect_latches_witness:
  "\<exists>reply. handle sample_runner (sample_message sample_b64) (JInt 0) sample_install = (Inr reply, sample_after) \<and>
    (jget reply ''ok'' = JBool True \<or> jget reply ''reason_code'' = JStr ''RUNNER_ERROR'' \<or>
     rw_latched sample_after \<and> handle sample_runner (JObj []) (JInt 0) sample_after =
       (Inr (actor_refusal ''RUNNER_LATCHED'' (JObj []) None None), sample_after))"
proof -
  obtain reply where r: "handle sample_runner (sample_message sample_b64) (JInt 0) sample_install = (Inr reply, sample_after)"
    using sample_after(1) by blast
  have "effects sample_after \<noteq> effects sample_install" by (simp add: sample_after sample_idle)
  from failed_effect_latches [OF r this] r show ?thesis by blast
qed

theorem effect_inside_its_window_witness:
  "\<exists>i args k trust approval doc row.
    jget (sample_message sample_b64) ''request_id'' = JStr i \<and>
    check_args (JStr ''prepare_candidate'') (jget (sample_message sample_b64) ''args'') = Inr args \<and>
    rw_tick sample_install \<le> k \<and> k < rw_tick sample_after \<and>
    vouches sample_runner (\<lambda>raw sig. re_verifier sample_runner (Suc k) raw sig trust) ''prepare_candidate'' args
      (re_wall sample_runner k) approval doc \<and>
    rows_on_disk (rw_store sample_after) = rows_on_disk (rw_store sample_install) @ [row] \<and>
    jget row ''request_id'' = JStr i \<and> jget row ''approval_id'' = jget doc ''approval_id'' \<and>
    jget row ''nonce'' = jget doc ''nonce''"
proof -
  have "effects (snd (handle sample_runner (sample_message sample_b64) (JInt 0) sample_install)) \<noteq> effects sample_install"
    unfolding sample_after_def [symmetric] by (simp add: sample_after sample_idle)
  from effect_inside_its_window [OF this] show ?thesis unfolding sample_after_def .
qed

theorem commands_are_closed_witness:
  "(JStr ''r1'', sample_tag_argv) \<in> set (rw_commands sample_after) \<and> closed_argv sample_runner sample_tag_argv"
proof -
  have "(JStr ''r1'', sample_tag_argv) \<in> set (effects sample_after)" by (simp add: sample_after)
  then have "(JStr ''r1'', sample_tag_argv) \<in> set (rw_commands sample_after)" by (simp add: effects_def)
  with commands_are_closed [OF sample_run_reached this] show ?thesis by simp
qed

theorem spent_store_reads_back_witness:
  "\<exists>st. verify_rows (\<lambda>_. sample_digest) (Some (JStr sample_store_id)) [sample_genesis, sample_spent] = Inr st \<and>
    last (st_rows st) = sample_spent \<and> va_approval_id sample_approval \<in> set (st_approval_ids st) \<and>
    va_nonce sample_approval \<in> set (st_nonces st)"
proof -
  have "consume sample_runner sample_approval ''r1'' sample_stamp sample_install =
      (Inr sample_spent, (next_tick sample_install)\<lparr>rw_store := Record_Rows [sample_genesis, sample_spent]\<rparr>)"
    unfolding sample_runner_def by (rule sample_consume) (simp_all add: sample_install_def)
  from conjunct1 [OF spent_store_reads_back [OF this]] show ?thesis by (simp add: sample_runner_def sample_install_def)
qed


section \<open>Starts\<close>

definition sample_started :: startup_result where
  "sample_started = \<lparr>sr_store_id = JStr sample_store_id, sr_latched = False, sr_clock_trusted = True,
     sr_reasons = [], sr_latch = None\<rparr>"

lemma sample_start: "fst (start_actor sample_runner sample_store_id sample_install) = Inr sample_started"
  by code_simp

theorem unlatched_start_agrees_witness:
  "\<exists>w'. start_actor sample_runner sample_store_id sample_install = (Inr sample_started, w') \<and>
    rw_latch sample_install = No_Record \<and> verify_audit sample_runner [] = Inr [] \<and> \<not> unresolved []"
proof -
  obtain w' where w': "start_actor sample_runner sample_store_id sample_install = (Inr sample_started, w')"
    using sample_start by (cases "start_actor sample_runner sample_store_id sample_install") simp
  have "\<not> sr_latched sample_started" by (simp add: sample_started_def)
  from unlatched_start_agrees [OF w' this] w' show ?thesis by (auto simp: Let_def sample_install_def)
qed

text \<open>A claim a crash left behind, found by a start that cannot read the latch.\<close>

definition interrupted_env :: runner_env where
  "interrupted_env = sample_env_at (\<lambda>n. if n = 8 then Io_Unread else Io_Ok) sample_answer"

definition interrupted_install :: runner_world where
  "interrupted_install = sample_install\<lparr>rw_requests :=
     Record_Rows [request_row ''r1'' sample_fp CLAIMED ''2026-10-01T09:00:00Z'' JNull]\<rparr>"

definition interrupted_rows :: "json list" where
  "interrupted_rows = rows_on_disk (rw_audit (snd (start_actor interrupted_env sample_store_id interrupted_install)))"

lemma interrupted_state:
  "map (\<lambda>r. (jget r ''execution_state'', jget r ''request_id'')) interrupted_rows = [(JStr ''RECONCILED_UNKNOWN'', JStr ''r1'')]"
  by code_simp

lemma interrupted_restart:
  "(case fst (start_actor interrupted_env sample_store_id (snd (start_actor interrupted_env sample_store_id interrupted_install))) of
      Inl _ \<Rightarrow> False | Inr r \<Rightarrow> sr_latched r)"
  by code_simp

theorem unresolved_effect_latches_every_start_witness:
  "\<exists>res w'. start_actor interrupted_env sample_store_id
      (snd (start_actor interrupted_env sample_store_id interrupted_install)) = (Inr res, w') \<and> sr_latched res \<and>
    handle interrupted_env (sample_message sample_b64) (JInt 0) w' =
      (Inr (actor_refusal ''RUNNER_LATCHED'' (sample_message sample_b64) None None), w')"
proof -
  let ?w = "snd (start_actor interrupted_env sample_store_id interrupted_install)"
  have "runner_run interrupted_env interrupted_install"
    by (rule runner_run.installed)
      (simp add: fresh_install_def interrupted_install_def sample_install_def sample_genesis_def approval_rows_def)
  then have run: "runner_run interrupted_env ?w" by (rule runner_run.restart)
  from interrupted_state obtain row where row: "row \<in> set (rows_on_disk (rw_audit ?w))"
    "jget row ''execution_state'' = JStr ''RECONCILED_UNKNOWN''"
    unfolding interrupted_rows_def by (cases "rows_on_disk (rw_audit ?w)") auto
  then have "jget row ''execution_state'' \<in> set (map JStr audit_unresolved_states)" by (simp add: audit_unresolved_states_def)
  moreover obtain res w' where w': "start_actor interrupted_env sample_store_id ?w = (Inr res, w')"
    using interrupted_restart by (cases "start_actor interrupted_env sample_store_id ?w") (auto split: sum.splits)
  ultimately show ?thesis using unresolved_effect_latches_every_start [OF run row(1) _ w'] w' by blast
qed

text \<open>A sequence number of 1.0 passes the message's schema and leaves \<open>handle\<close> as an exception, the request claimed.\<close>

definition float_message :: json where
  "float_message = JObj
     [(''schema'', JStr ''thomas.actor_request.v1''), (''request_id'', JStr ''r1''), (''verb'', JStr ''prepare_candidate''),
      (''args'', JObj [(''pr'', JInt 7), (''git_commit_sha'', JStr sample_head)]), (''gate_intake_seq'', JFloat ''1.0'')]"

lemma float_sequence_raises:
  "(let (answer, w) = handle sample_runner float_message (JInt 0) sample_install in
     answer = Inl (PyError ''IntegrityError'') \<and> rw_audit w = Absent_File \<and>
     rw_requests w = Record_Rows [request_row ''r1'' sample_fp CLAIMED sample_stamp JNull])"
  by code_simp

end
