(* ===== verification/Json_Text.thy ===== *)
theory Json_Text
  imports Integrity
begin

text \<open>
  The text of a stored row: \<open>json.dumps(obj, ensure_ascii=False, sort_keys=True)\<close>, and
  \<open>json.loads\<close> on code points below 256.  A number with a point or an exponent is a
  \<open>JFloat\<close> of its own text.  The parser returns the value and the rest of the text.
\<close>

section \<open>Writing\<close>

fun dump :: "json \<Rightarrow> string"
  and dump_arr :: "json list \<Rightarrow> string"
  and dump_obj :: "(string \<times> json) list \<Rightarrow> string" where
  "dump JNull = ''null''"
| "dump (JBool b) = (if b then ''true'' else ''false'')"
| "dump (JInt i) = show_int i"
| "dump (JFloat r) = r"
| "dump (JStr s) = quote s"
| "dump (JArr []) = ''[]''"
| "dump (JArr (x # xs)) = CHR ''['' # dump x @ dump_arr xs"
| "dump (JObj []) = ''{}''"
| "dump (JObj ((k, v) # kvs)) = CHR ''{'' # quote k @ '': '' @ dump v @ dump_obj kvs"
| "dump_arr [] = '']''"
| "dump_arr (x # xs) = '', '' @ dump x @ dump_arr xs"
| "dump_obj [] = ''}''"
| "dump_obj ((k, v) # kvs) = '', '' @ quote k @ '': '' @ dump v @ dump_obj kvs"

definition dumps :: "json \<Rightarrow> string" where
  "dumps j = dump (canon j)"

section \<open>Reading\<close>

definition json_ws :: "char \<Rightarrow> bool" where
  "json_ws c = (c \<in> {CHR '' '', CHR 0x09, CHR 0x0A, CHR 0x0D})"

definition skip :: "string \<Rightarrow> string" where
  "skip s = dropWhile json_ws s"

definition json_hex :: "char \<Rightarrow> bool" where
  "json_hex c = (let n = of_char c :: nat in
     (48 \<le> n \<and> n \<le> 57) \<or> (65 \<le> n \<and> n \<le> 70) \<or> (97 \<le> n \<and> n \<le> 102))"

definition hex_value :: "char \<Rightarrow> nat" where
  "hex_value c = (let n = of_char c :: nat in if n \<le> 57 then n - 48 else if n \<le> 70 then n - 55 else n - 87)"

text \<open>The four digits after \<open>\u\<close>; a code point of 256 or more is outside the model.\<close>

definition parse_hex4 :: "string \<Rightarrow> (char \<times> string) option" where
  "parse_hex4 s = (let ds = take 4 s; v = foldl (\<lambda>a c. 16 * a + hex_value c) 0 ds in
     if length ds = 4 \<and> list_all json_hex ds \<and> v < 256 then Some (char_of v, drop 4 s) else None)"

definition parse_escape :: "string \<Rightarrow> (char \<times> string) option" where
  "parse_escape s = (case s of [] \<Rightarrow> None | e # r \<Rightarrow>
     if e = CHR ''u'' then parse_hex4 r
     else map_option (\<lambda>c. (c, r)) (map_of [(CHR 0x22, CHR 0x22), (CHR 0x5C, CHR 0x5C), (CHR ''/'', CHR ''/''),
       (CHR ''b'', CHR 0x08), (CHR ''f'', CHR 0x0C), (CHR ''n'', CHR 0x0A), (CHR ''r'', CHR 0x0D),
       (CHR ''t'', CHR 0x09)] e))"

lemma parse_escape_shorter: "parse_escape s = Some (c, r) \<Longrightarrow> length r < length s"
  by (auto simp: parse_escape_def parse_hex4_def Let_def split: list.splits if_splits)

text \<open>A string after its opening quote; control characters are refused (\<open>strict=True\<close>).\<close>

function parse_chars :: "string \<Rightarrow> (string \<times> string) option" where
  "parse_chars s = (case s of [] \<Rightarrow> None | c # s' \<Rightarrow>
     if c = CHR 0x22 then Some ([], s')
     else if c = CHR 0x5C then
       (case parse_escape s' of None \<Rightarrow> None
        | Some (d, r) \<Rightarrow> map_option (\<lambda>(t, u). (d # t, u)) (parse_chars r))
     else if (of_char c :: nat) < 32 then None
     else map_option (\<lambda>(t, u). (c # t, u)) (parse_chars s'))"
  by pat_completeness auto
termination by (relation "measure length") (auto dest: parse_escape_shorter)

declare parse_chars.simps [simp del]

text \<open>\<open>(-?(?:0|[1-9]\d*))(\.\d+)?([eE][-+]?\d+)?\<close>\<close>

definition parse_fraction :: "string \<Rightarrow> string \<times> string" where
  "parse_fraction s = (if s \<noteq> [] \<and> hd s = CHR ''.'' \<and> takeWhile is_digit (tl s) \<noteq> []
     then (hd s # takeWhile is_digit (tl s), dropWhile is_digit (tl s)) else ([], s))"

definition parse_exponent :: "string \<Rightarrow> string \<times> string" where
  "parse_exponent s =
     (let sign = (if tl s \<noteq> [] \<and> hd (tl s) \<in> {CHR ''+'', CHR ''-''} then [hd (tl s)] else []);
          ds = drop (length sign) (tl s) in
      if s \<noteq> [] \<and> hd s \<in> {CHR ''e'', CHR ''E''} \<and> takeWhile is_digit ds \<noteq> []
      then (hd s # sign @ takeWhile is_digit ds, dropWhile is_digit ds) else ([], s))"

definition parse_unsigned :: "string \<Rightarrow> (string \<times> string \<times> string) option" where
  "parse_unsigned s =
     (let run = takeWhile is_digit s;
          ds = (if run \<noteq> [] \<and> hd run = CHR ''0'' then take 1 run else run);
          (frac, r) = parse_fraction (drop (length ds) s); (ex, r') = parse_exponent r in
      if ds = [] then None else Some (ds, frac @ ex, r'))"

definition parse_number :: "string \<Rightarrow> (json \<times> string) option" where
  "parse_number s =
     (let negative = (s \<noteq> [] \<and> hd s = CHR ''-'') in
      case parse_unsigned (if negative then tl s else s) of None \<Rightarrow> None
      | Some (ds, part, r) \<Rightarrow>
          if part = [] then Some (JInt ((if negative then -1 else 1) * int (digits_val 0 ds)), r)
          else Some (JFloat ((if negative then ''-'' else []) @ ds @ part), r))"

definition parse_word :: "string \<Rightarrow> (json \<times> string) option" where
  "parse_word s =
     map_option (\<lambda>(w, j). (j, drop (length w) s))
       (find (\<lambda>(w, j). startswith s w) [(''null'', JNull), (''true'', JBool True), (''false'', JBool False),
          (''NaN'', JFloat ''NaN''), (''Infinity'', JFloat ''Infinity''), (''-Infinity'', JFloat ''-Infinity'')])"

text \<open>\<open>dict(pairs)\<close>: a repeated key keeps its first place and its last value.\<close>

definition dict_of :: "(string \<times> json) list \<Rightarrow> (string \<times> json) list" where
  "dict_of kvs = foldl (\<lambda>d kv. AList.update (fst kv) (snd kv) d) [] kvs"

text \<open>
  A value, the rest of an array after its first element, the rest of an object after its
  opening brace.  Every nested call stands at least one character further on, so the
  length of the text is fuel enough (\<open>loads_iff\<close> of \<open>Json_Fuel\<close>).
\<close>

fun parse_value :: "nat \<Rightarrow> string \<Rightarrow> (json \<times> string) option"
  and parse_elems :: "nat \<Rightarrow> string \<Rightarrow> (json list \<times> string) option"
  and parse_pairs :: "nat \<Rightarrow> string \<Rightarrow> ((string \<times> json) list \<times> string) option" where
  "parse_value 0 s = None"
| "parse_value (Suc n) s = (case s of [] \<Rightarrow> None | c # r \<Rightarrow>
     if c = CHR 0x22 then map_option (\<lambda>(t, u). (JStr t, u)) (parse_chars r)
     else if c = CHR ''['' then
       (case skip r of [] \<Rightarrow> None | d # u \<Rightarrow>
          if d = CHR '']'' then Some (JArr [], u)
          else map_option (\<lambda>(xs, u). (JArr xs, u)) (parse_elems n (skip r)))
     else if c = CHR ''{'' then
       (case skip r of [] \<Rightarrow> None | d # u \<Rightarrow>
          if d = CHR ''}'' then Some (JObj [], u)
          else map_option (\<lambda>(kvs, u). (JObj (dict_of kvs), u)) (parse_pairs n (skip r)))
     else case parse_word s of Some a \<Rightarrow> Some a | None \<Rightarrow> parse_number s)"
| "parse_elems 0 s = None"
| "parse_elems (Suc n) s = (case parse_value n s of None \<Rightarrow> None | Some (x, r) \<Rightarrow>
     (case skip r of [] \<Rightarrow> None | d # u \<Rightarrow>
        if d = CHR '']'' then Some ([x], u)
        else if d = CHR '','' then map_option (\<lambda>(xs, u). (x # xs, u)) (parse_elems n (skip u))
        else None))"
| "parse_pairs 0 s = None"
| "parse_pairs (Suc n) s = (case s of [] \<Rightarrow> None | q # t \<Rightarrow>
     if q \<noteq> CHR 0x22 then None
     else case parse_chars t of None \<Rightarrow> None | Some (k, r) \<Rightarrow>
       (case skip r of [] \<Rightarrow> None | c # r' \<Rightarrow>
          if c \<noteq> CHR '':'' then None
          else case parse_value n (skip r') of None \<Rightarrow> None | Some (v, u) \<Rightarrow>
            (case skip u of [] \<Rightarrow> None | d # z \<Rightarrow>
               if d = CHR ''}'' then Some ([(k, v)], z)
               else if d = CHR '','' then map_option (\<lambda>(kvs, z). ((k, v) # kvs, z)) (parse_pairs n (skip z))
               else None)))"

definition loads :: "string \<Rightarrow> json option" where
  "loads s = (case parse_value (length s) (skip s) of
     Some (j, r) \<Rightarrow> if skip r = [] then Some j else None | None \<Rightarrow> None)"

section \<open>What was written is read back\<close>

lemma skip_simps [simp]: "skip [] = []" "json_ws c \<Longrightarrow> skip (c # s) = skip s" "\<not> json_ws c \<Longrightarrow> skip (c # s) = c # s"
  by (simp_all add: skip_def)

lemma json_ws_simps [simp]: "json_ws CHR '' ''" "json_ws CHR 0x0A" "\<not> json_ws CHR '',''" "\<not> json_ws CHR '']''"
  "\<not> json_ws CHR ''}''" "\<not> json_ws CHR '':''" "\<not> json_ws CHR 0x22" "\<not> json_ws CHR ''[''" "\<not> json_ws CHR ''{''"
  by (simp_all add: json_ws_def)

lemma hex_digit_read: "m < 16 \<Longrightarrow> json_hex (hex_digit m) \<and> hex_value (hex_digit m) = m"
  unfolding json_hex_def hex_value_def hex_digit_def
  by (simp add: less_Suc_eq numeral_eq_Suc) (elim disjE; simp)

lemma four_read: "take 4 (a # b # c # d # s) = [a, b, c, d]" "drop 4 (a # b # c # d # s) = s"
  by (simp_all add: numeral_eq_Suc)

lemma parse_hex4_low:
  assumes "m < 16" "n < 16"
  shows "parse_hex4 (CHR ''0'' # CHR ''0'' # hex_digit m # hex_digit n # s) = Some (char_of (16 * m + n), s)"
proof -
  have z: "json_hex CHR ''0''" "hex_value CHR ''0'' = 0" by (simp_all add: json_hex_def hex_value_def)
  have "16 * m + n < 256" using assms by linarith
  with z hex_digit_read [OF assms(1)] hex_digit_read [OF assms(2)] show ?thesis
    unfolding parse_hex4_def four_read by simp
qed

lemma parse_chars_plain:
  "32 \<le> (of_char c :: nat) \<Longrightarrow> c \<noteq> CHR 0x22 \<Longrightarrow> c \<noteq> CHR 0x5C \<Longrightarrow>
   parse_chars (c # s) = map_option (\<lambda>(t, u). (c # t, u)) (parse_chars s)"
  by (subst parse_chars.simps) simp

lemma parse_chars_escape:
  "parse_escape r = Some (d, s) \<Longrightarrow> parse_chars (CHR 0x5C # r) = map_option (\<lambda>(t, u). (d # t, u)) (parse_chars s)"
  by (subst parse_chars.simps) simp

lemma parse_chars_end: "parse_chars (CHR 0x22 # s) = Some ([], s)"
  by (subst parse_chars.simps) simp

lemma parse_esc:
  "parse_chars (esc c @ s) = map_option (\<lambda>(t, u). (c # t, u)) (parse_chars s)"
proof -
  let ?n = "of_char c :: nat"
  have eq: "of_char c = (of_char d :: nat) \<Longrightarrow> c = d" for d by (rule char_by_code)
  consider "c \<in> {CHR 0x22, CHR 0x5C, CHR 0x0A, CHR 0x0D, CHR 0x09, CHR 0x08, CHR 0x0C}"
    | "?n < 32" "?n \<notin> {34, 92, 10, 13, 9, 8, 12}"
    | "?n \<ge> 32" "?n \<noteq> 34" "?n \<noteq> 92"
    using eq [of "CHR 0x22"] eq [of "CHR 0x5C"] eq [of "CHR 0x0A"] eq [of "CHR 0x0D"] eq [of "CHR 0x09"]
      eq [of "CHR 0x08"] eq [of "CHR 0x0C"] by fastforce
  then show ?thesis
  proof cases
    case 1
    then have "\<exists>e. esc c = [CHR 0x5C, e] \<and> parse_escape (e # s) = Some (c, s)"
      by (elim insertE) (simp_all add: esc_def parse_escape_def)
    then show ?thesis using parse_chars_escape by auto
  next
    case 2
    have low: "?n div 16 < 16" "?n mod 16 < 16" using 2 by linarith+
    from parse_hex4_low [OF this]
    have "parse_escape (CHR ''u'' # CHR ''0'' # CHR ''0'' # hex_digit (?n div 16) # hex_digit (?n mod 16) # s) = Some (c, s)"
      by (simp add: parse_escape_def)
    moreover have "esc c @ s = CHR 0x5C # CHR ''u'' # CHR ''0'' # CHR ''0'' # hex_digit (?n div 16) # hex_digit (?n mod 16) # s"
      using 2 by (simp add: esc_def Let_def)
    ultimately show ?thesis using parse_chars_escape by simp
  next
    case 3
    then have "c \<noteq> CHR 0x22" "c \<noteq> CHR 0x5C" "esc c = [c]" by (auto simp: esc_def Let_def)
    with 3 show ?thesis by (simp add: parse_chars_plain)
  qed
qed

lemma parse_esc_string: "parse_chars (esc_string s @ r) = Some (s, r)"
  by (induction s) (simp_all add: parse_esc parse_chars_end)

definition ends_number :: "string \<Rightarrow> bool" where
  "ends_number r = (r = [] \<or> (\<not> is_digit (hd r) \<and> hd r \<notin> set ''.eE''))"

lemma show_nat_zero_hd: "hd (show_nat n) = CHR ''0'' \<Longrightarrow> show_nat n = ''0''"
proof (induction n rule: show_nat.induct)
  case (1 n)
  show ?case
  proof (cases "n < 10")
    case True
    with 1(2) have "(48 + n) mod 256 = (48 :: nat)"
      by (subst (asm) show_nat.simps) (auto dest: arg_cong [where f = "of_char :: char \<Rightarrow> nat"] simp: of_char_of)
    with True have "n = 0" by simp
    moreover have "show_nat 0 = ''0''" by code_simp
    ultimately show ?thesis by simp
  next
    case False
    with 1(2) have "hd (show_nat (n div 10)) = CHR ''0''"
      by (subst (asm) show_nat.simps) (simp add: show_nat_ne)
    from 1(1) [OF False this] have "digits_val 0 (show_nat (n div 10)) = 0" by (simp add: digits_val.simps)
    with False show ?thesis by (simp add: digits_val_show_nat)
  qed
qed

lemma take_digits: "ends_number r \<Longrightarrow> takeWhile is_digit (show_nat n @ r) = show_nat n"
  using show_nat_digits [of n] by (cases r) (auto simp: ends_number_def takeWhile_append2)

lemma ends_number_rest: "ends_number r \<Longrightarrow> parse_fraction r = ([], r) \<and> parse_exponent r = ([], r)"
  by (auto simp: parse_fraction_def parse_exponent_def ends_number_def Let_def)

lemma is_digit_zero: "is_digit CHR ''0''"
  by (simp add: is_digit_def)

lemma parse_unsigned_show:
  assumes r: "ends_number r"
  shows "parse_unsigned (show_nat n @ r) = Some (show_nat n, [], r)"
proof (cases "hd (show_nat n) = CHR ''0''")
  case True
  then have z: "show_nat n = ''0''" by (rule show_nat_zero_hd)
  from take_digits [OF r, of n] have "takeWhile is_digit (CHR ''0'' # r) = ''0''" by (simp only: z append.simps)
  then show ?thesis by (simp add: z parse_unsigned_def ends_number_rest [OF r] is_digit_zero Let_def)
next
  case False
  then show ?thesis using show_nat_ne [of n]
    by (simp add: parse_unsigned_def take_digits [OF r] ends_number_rest [OF r] Let_def)
qed

lemma parse_number_show: "ends_number r \<Longrightarrow> parse_number (show_int i @ r) = Some (JInt i, r)"
proof -
  assume r: "ends_number r"
  have digit: "hd (show_nat n @ r) \<noteq> CHR ''-''" for n
    using hd_show_nat [of n] show_nat_ne [of n] by (auto simp: is_digit_def)
  show ?thesis
  proof (cases "i < 0")
    case True
    with parse_unsigned_show [OF r, of "nat (- i)"] show ?thesis
      by (simp add: parse_number_def show_int_def digits_val_show_nat)
  next
    case False
    with parse_unsigned_show [OF r, of "nat i"] digit [of "nat i"] show ?thesis
      by (simp add: parse_number_def show_int_def digits_val_show_nat)
  qed
qed

lemma parse_word_show: "parse_word (show_int i @ r) = None"
proof -
  have digit: "parse_word (c # s) = None \<and> parse_word (CHR ''-'' # c # s) = None" if "is_digit c" for c s
  proof -
    from that have "c \<noteq> CHR ''n''" "c \<noteq> CHR ''t''" "c \<noteq> CHR ''f''" "c \<noteq> CHR ''N''" "c \<noteq> CHR ''I''" "c \<noteq> CHR ''-''"
      by (auto simp: is_digit_def)
    then show ?thesis by (simp add: parse_word_def)
  qed
  obtain c t where c: "show_nat (nat \<bar>i\<bar>) = c # t" "is_digit c"
    using hd_show_nat [of "nat \<bar>i\<bar>"] show_nat_ne [of "nat \<bar>i\<bar>"] by (cases "show_nat (nat \<bar>i\<bar>)") auto
  then have "show_int i @ r = (if i < 0 then CHR ''-'' # c # t @ r else c # t @ r)" by (auto simp: show_int_def)
  with digit [OF c(2)] show ?thesis by simp
qed

text \<open>The first character of a value's text, and what may follow it.\<close>

fun storable :: "json \<Rightarrow> bool" where
  "storable (JFloat r) = False"
| "storable (JArr xs) = (\<forall>x \<in> set xs. storable x)"
| "storable (JObj kvs) = (distinct (map fst kvs) \<and> (\<forall>kv \<in> set kvs. storable (snd kv)))"
| "storable _ = True"

lemma dict_of_distinct: "distinct (map fst kvs) \<Longrightarrow> dict_of kvs = kvs"
  by (induction kvs rule: rev_induct) (auto simp: dict_of_def update_fresh)

lemma ends_number_simps [simp]: "ends_number []" "ends_number (CHR '','' # r)" "ends_number (CHR '']'' # r)"
  "ends_number (CHR ''}'' # r)" "ends_number (CHR 0x0A # r)"
  by (simp_all add: ends_number_def is_digit_def)

lemma ends_number_dump [simp]: "ends_number (dump_arr xs @ r)" "ends_number (dump_obj kvs @ r)"
  by (cases xs; simp) (cases kvs rule: dump_obj.cases; simp)

lemma dump_head:
  "storable j \<Longrightarrow> \<exists>c t. dump j = c # t \<and> 32 < (of_char c :: nat) \<and> c \<notin> set '']},:''"
proof (induction j)
  case (JInt i)
  obtain c t where c: "show_int i = c # t" using show_int_ne [of i] by (cases "show_int i") auto
  with show_int_chars [of c i] show ?case by (auto simp: is_digit_def)
next
  case (JArr xs)
  then show ?case by (cases xs) auto
next
  case (JObj kvs)
  then show ?case by (cases kvs) auto
qed (auto simp: quote_def)

lemma json_ws_low: "32 < (of_char c :: nat) \<Longrightarrow> \<not> json_ws c"
  by (auto simp: json_ws_def)

definition reads :: "json \<Rightarrow> bool" where
  "reads j = (storable j \<and> (\<forall>n r. ends_number r \<longrightarrow> length (dump j) \<le> n \<longrightarrow> parse_value n (dump j @ r) = Some (j, r)))"

lemma reads_Some: "reads j \<Longrightarrow> ends_number r \<Longrightarrow> length (dump j) \<le> n \<Longrightarrow> parse_value n (dump j @ r) = Some (j, r)"
  by (simp add: reads_def)

lemma skip_dump: "storable j \<Longrightarrow> skip (dump j @ r) = dump j @ r"
  using dump_head [of j] json_ws_low by fastforce

lemma dump_arr_step:
  assumes "reads x0" "length (dump x0 @ dump_arr xs) \<le> n"
    and rest: "\<And>x ys m. xs = x # ys \<Longrightarrow> storable x \<and>
      (length (dump x @ dump_arr ys) \<le> m \<longrightarrow> parse_elems m (dump x @ dump_arr ys @ r) = Some (xs, r))"
  shows "parse_elems n (dump x0 @ dump_arr xs @ r) = Some (x0 # xs, r)"
proof -
  have "0 < length (dump_arr xs)" by (cases xs) auto
  with assms(2) have "n = Suc (n - 1)" "length (dump x0) \<le> n - 1" unfolding length_append by linarith+
  then obtain m where m: "n = Suc m" "length (dump x0) \<le> m" by blast
  from reads_Some [OF assms(1) _ m(2)] have v: "parse_value m (dump x0 @ dump_arr xs @ r) = Some (x0, dump_arr xs @ r)" by simp
  show ?thesis
  proof (cases xs)
    case Nil
    with v m(1) show ?thesis by simp
  next
    case (Cons x ys)
    with assms(2) m(1) have "length (dump x @ dump_arr ys) \<le> m" by simp
    with rest [OF Cons, of m] have "storable x" "parse_elems m (dump x @ dump_arr ys @ r) = Some (xs, r)" by simp_all
    with v m(1) Cons show ?thesis by (simp add: skip_dump)
  qed
qed

lemma dump_obj_step:
  assumes "reads v0" "length (quote k0 @ '': '' @ dump v0 @ dump_obj kvs) \<le> n"
    and rest: "\<And>k v mvs m. kvs = (k, v) # mvs \<Longrightarrow> length (quote k @ '': '' @ dump v @ dump_obj mvs) \<le> m \<Longrightarrow>
      parse_pairs m (quote k @ '': '' @ dump v @ dump_obj mvs @ r) = Some (kvs, r)"
  shows "parse_pairs n (quote k0 @ '': '' @ dump v0 @ dump_obj kvs @ r) = Some ((k0, v0) # kvs, r)"
proof -
  from assms(2) obtain m where m: "n = Suc m" "length (dump v0) \<le> m" by (cases n) auto
  from assms(1) have st: "storable v0" by (simp add: reads_def)
  from reads_Some [OF assms(1) _ m(2)] have v: "parse_value m (dump v0 @ dump_obj kvs @ r) = Some (v0, dump_obj kvs @ r)" by simp
  show ?thesis
  proof (cases kvs)
    case Nil
    with v m(1) st show ?thesis by (simp add: quote_def parse_esc_string skip_dump)
  next
    case (Cons kv mvs)
    obtain k w where kv: "kv = (k, w)" by (cases kv)
    with assms(2) m(1) Cons have "length (quote k @ '': '' @ dump w @ dump_obj mvs) \<le> m" by simp
    from rest [OF _ this] Cons kv have "parse_pairs m (quote k @ '': '' @ dump w @ dump_obj mvs @ r) = Some (kvs, r)" by simp
    with v m(1) Cons kv st show ?thesis by (simp add: quote_def parse_esc_string skip_dump)
  qed
qed

lemma parse_dump_all:
  "storable j \<Longrightarrow> reads j"
  "\<forall>x \<in> set xs. storable x \<Longrightarrow> \<forall>x \<in> set xs. reads x"
  "\<forall>kv \<in> set (kvs :: (string \<times> json) list). storable (snd kv) \<Longrightarrow> \<forall>kv \<in> set kvs. reads (snd kv)"
proof (induction j and xs and kvs rule: dump_dump_arr_dump_obj.induct)
  case (3 i)
  have "parse_value n (show_int i @ r) = Some (JInt i, r)" if "ends_number r" "length (show_int i) \<le> n" for n r
  proof -
    from that obtain m where m: "n = Suc m" using show_int_ne [of i] by (cases n) auto
    obtain c t where c: "show_int i = c # t" using show_int_ne [of i] by (cases "show_int i") auto
    with show_int_chars [of c i] have "c \<noteq> CHR 0x22" "c \<noteq> CHR ''[''" "c \<noteq> CHR ''{''" by (auto simp: is_digit_def)
    with c m parse_word_show [of i r] parse_number_show [OF that(1), of i] show ?thesis by simp
  qed
  then show ?case by (simp add: reads_def)
next
  case (7 x xs)
  then have all: "\<forall>y \<in> set (x # xs). reads y" by simp
  have elems: "\<forall>y \<in> set (z # zs). reads y \<Longrightarrow> length (dump z @ dump_arr zs) \<le> m \<Longrightarrow>
      parse_elems m (dump z @ dump_arr zs @ r) = Some (z # zs, r)" for z zs m r
  proof (induction zs arbitrary: z m)
    case Nil
    then show ?case by (intro dump_arr_step) auto
  next
    case (Cons w ws)
    show ?case
    proof (rule dump_arr_step)
      show "reads z" "length (dump z @ dump_arr (w # ws)) \<le> m" using Cons.prems by auto
      show "storable y \<and> (length (dump y @ dump_arr ys) \<le> k \<longrightarrow> parse_elems k (dump y @ dump_arr ys @ r) = Some (w # ws, r))"
        if "w # ws = y # ys" for y ys k
        using that Cons by (auto simp: reads_def)
    qed
  qed
  have "parse_value n (dump (JArr (x # xs)) @ r) = Some (JArr (x # xs), r)"
    if "length (dump (JArr (x # xs))) \<le> n" for n r
  proof -
    from that obtain m where m: "n = Suc m" "length (dump x @ dump_arr xs) \<le> m" by (cases n) auto
    from all have st: "storable x" by (simp add: reads_def)
    from dump_head [OF st] obtain c t where "dump x = c # t" "c \<noteq> CHR '']''" by auto
    with m elems [OF all m(2)] skip_dump [OF st, of "dump_arr xs @ r"] show ?thesis by simp
  qed
  with 7 show ?case by (simp add: reads_def)
next
  case (9 k v kvs)
  then have all: "\<forall>kv \<in> set ((k, v) # kvs). reads (snd kv)" by simp
  have pairs: "\<forall>kv \<in> set ((l, w) # ms). reads (snd kv) \<Longrightarrow> length (quote l @ '': '' @ dump w @ dump_obj ms) \<le> m \<Longrightarrow>
      parse_pairs m (quote l @ '': '' @ dump w @ dump_obj ms @ r) = Some ((l, w) # ms, r)" for l w ms m r
  proof (induction ms arbitrary: l w m)
    case Nil
    then show ?case by (intro dump_obj_step) auto
  next
    case (Cons kv ms)
    show ?case
    proof (rule dump_obj_step)
      show "reads w" "length (quote l @ '': '' @ dump w @ dump_obj (kv # ms)) \<le> m" using Cons.prems by auto
      show "parse_pairs n (quote k' @ '': '' @ dump v' @ dump_obj mvs @ r) = Some (kv # ms, r)"
        if "kv # ms = (k', v') # mvs" "length (quote k' @ '': '' @ dump v' @ dump_obj mvs) \<le> n" for k' v' mvs n
        using that Cons by auto
    qed
  qed
  have "parse_value n (dump (JObj ((k, v) # kvs)) @ r) = Some (JObj ((k, v) # kvs), r)"
    if "length (dump (JObj ((k, v) # kvs))) \<le> n" for n r
  proof -
    from that obtain m where m: "n = Suc m" "length (quote k @ '': '' @ dump v @ dump_obj kvs) \<le> m" by (cases n) auto
    from 9(3) have "dict_of ((k, v) # kvs) = (k, v) # kvs" by (intro dict_of_distinct) simp
    with m pairs [OF all m(2)] show ?thesis by (simp add: quote_def)
  qed
  with 9 show ?case by (simp add: reads_def)
qed (auto simp: reads_def parse_word_def quote_def parse_esc_string dest!: Suc_le_D)

lemma loads_dump:
  assumes "storable j" "\<forall>c \<in> set s. json_ws c"
  shows "loads (dump j @ s) = Some j"
proof -
  have skips: "skip s = []" using assms(2) by (simp add: skip_def)
  have "s = [] \<or> json_ws (hd s)" using assms(2) by (cases s) auto
  then have "ends_number s" by (auto simp: ends_number_def is_digit_def json_ws_def)
  from reads_Some [OF parse_dump_all(1) [OF assms(1)] this, of "length (dump j @ s)"]
  have "parse_value (length (dump j @ s)) (dump j @ s) = Some (j, s)" by simp
  with skips show ?thesis by (simp only: loads_def skip_dump [OF assms(1)]) simp
qed

lemma storable_canon: "storable j \<Longrightarrow> storable (canon j)"
proof (induction j rule: canon.induct)
  case (2 kvs)
  have names: "distinct (map fst (sort_key fst ms)) = distinct (map fst ms)" for ms :: "(string \<times> json) list"
    by (simp add: distinct_map)
  have "fst \<circ> (\<lambda>kv :: string \<times> json. (fst kv, canon (snd kv))) = fst" by auto
  with 2 names [of "map (\<lambda>kv. (fst kv, canon (snd kv))) kvs"] show ?case by auto
qed auto

lemma loads_dumps: "storable j \<Longrightarrow> loads (dumps j @ [CHR 0x0A]) = Some (canon j)"
  unfolding dumps_def by (rule loads_dump) (simp_all add: storable_canon json_ws_def)

lemma json_hex_newline: "\<not> json_hex CHR 0x0A"
  by (simp add: json_hex_def)

lemma esc_no_newline: "CHR 0x0A \<notin> set (esc c)"
proof -
  have "CHR 0x0A \<noteq> hex_digit m" if "m < 16" for m
    using hex_digit_read [OF that] by (metis json_hex_newline)
  then show ?thesis by (auto simp: esc_def Let_def)
qed

lemma quote_no_newline: "CHR 0x0A \<notin> set (quote s)"
proof -
  have "CHR 0x0A \<notin> set (esc_string s)" by (induction s) (auto simp: esc_no_newline)
  then show ?thesis by (simp add: quote_def)
qed

lemma dump_no_newline:
  "storable j \<Longrightarrow> CHR 0x0A \<notin> set (dump j)"
  "\<forall>x \<in> set xs. storable x \<Longrightarrow> CHR 0x0A \<notin> set (dump_arr xs)"
  "\<forall>kv \<in> set (kvs :: (string \<times> json) list). storable (snd kv) \<Longrightarrow> CHR 0x0A \<notin> set (dump_obj kvs)"
  by (induction j and xs and kvs rule: dump_dump_arr_dump_obj.induct)
     (auto simp: quote_no_newline dest: show_int_chars, auto simp: is_digit_def dest!: show_int_chars)

end
