(* ===== verification/Json_Fuel.thy ===== *)
theory Json_Fuel
  imports Json_Text
begin

text \<open>The fuel of \<open>parse_value\<close> never decides a result: what some fuel parses, the length of the text parses.\<close>

lemma skip_length: "length (skip s) \<le> length s"
  by (simp add: skip_def length_dropWhile_le)

lemma parse_chars_shorter: "parse_chars s = Some (t, r) \<Longrightarrow> length r < length s"
proof (induction s arbitrary: t r rule: parse_chars.induct)
  case (1 s)
  note parse_chars.simps [of s, simp]
  from 1 show ?case
    by (fastforce split: list.splits if_splits option.splits dest: parse_escape_shorter)
qed

lemma startswith_length: "startswith s p \<Longrightarrow> length p \<le> length s"
  by (induction s p rule: startswith.induct) simp_all

lemma parse_word_shorter: "parse_word s = Some (j, r) \<Longrightarrow> length r < length s"
  by (auto simp: parse_word_def dest!: startswith_length split: if_splits)

lemma parse_tails: "length (snd (parse_fraction s)) \<le> length s" "length (snd (parse_exponent s)) \<le> length s"
  using length_dropWhile_le [of is_digit "tl s"]
    length_dropWhile_le [of is_digit "drop (length (if tl s \<noteq> [] \<and> hd (tl s) \<in> {CHR ''+'', CHR ''-''} then [hd (tl s)] else [])) (tl s)"]
  by (auto simp: parse_fraction_def parse_exponent_def Let_def)

lemma parse_unsigned_shorter:
  assumes "parse_unsigned s = Some (ds, part, r)" shows "length r < length s"
proof -
  define run where "run = takeWhile is_digit s"
  define zs where "zs = (if run \<noteq> [] \<and> hd run = CHR ''0'' then take 1 run else run)"
  obtain frac u where f: "parse_fraction (drop (length zs) s) = (frac, u)" by fastforce
  obtain ex v where e: "parse_exponent u = (ex, v)" by fastforce
  from assms f e have "zs \<noteq> []" "r = v"
    by (auto simp: parse_unsigned_def Let_def run_def zs_def split: if_splits)
  moreover from this have "s \<noteq> []" by (auto simp: zs_def run_def split: if_splits)
  moreover have "length v \<le> length u" "length u \<le> length (drop (length zs) s)"
    using parse_tails(2) [of u] parse_tails(1) [of "drop (length zs) s"] e f by simp_all
  ultimately show ?thesis by (cases zs; cases s) auto
qed

lemma parse_number_shorter: "parse_number s = Some (j, r) \<Longrightarrow> length r < length s"
  by (auto simp: parse_number_def Let_def split: option.splits if_splits dest!: parse_unsigned_shorter)

definition enough :: "(nat \<Rightarrow> string \<Rightarrow> ('a \<times> string) option) \<Rightarrow> nat \<Rightarrow> string \<Rightarrow> bool" where
  "enough p n s = (\<forall>x r. p n s = Some (x, r) \<longrightarrow> length r < length s \<and>
     (\<forall>m. length s \<le> m + length r \<longrightarrow> p m s = Some (x, r)))"

lemma parse_elems_enough:
  assumes v: "\<And>s. enough parse_value n s" and e: "\<And>s. enough parse_elems n s"
  shows "enough parse_elems (Suc n) s"
  unfolding enough_def
proof (intro allI impI)
  fix xs r assume p: "parse_elems (Suc n) s = Some (xs, r)"
  then obtain x a d u where x: "parse_value n s = Some (x, a)" "skip a = d # u"
    by (auto split: option.splits list.splits)
  have a: "length a < length s" "\<And>m. length s \<le> m + length a \<Longrightarrow> parse_value m s = Some (x, a)"
    using v [of s] x by (auto simp: enough_def)
  have u: "length u < length a" using skip_length [of a] x by simp
  show "length r < length s \<and> (\<forall>m. length s \<le> m + length r \<longrightarrow> parse_elems m s = Some (xs, r))"
  proof (cases "d = CHR '']''")
    case True
    with p x have [simp]: "xs = [x]" "r = u" by auto
    have "parse_elems m s = Some (xs, r)" if "length s \<le> m + length r" for m
    proof (cases m)
      case (Suc k)
      with that u have "parse_value k s = Some (x, a)" by (intro a(2)) simp
      with Suc x True show ?thesis by simp
    qed (use that a u in simp)
    with a u show ?thesis by simp
  next
    case False
    with p x obtain ys where ys: "d = CHR '',''" "parse_elems n (skip u) = Some (ys, r)" "xs = x # ys"
      by (auto split: if_splits)
    have b: "length r < length (skip u)"
        "\<And>m. length (skip u) \<le> m + length r \<Longrightarrow> parse_elems m (skip u) = Some (ys, r)"
      using e [of "skip u"] ys by (auto simp: enough_def)
    note l = skip_length [of u]
    have "parse_elems m s = Some (xs, r)" if "length s \<le> m + length r" for m
    proof (cases m)
      case (Suc k)
      with that u b l have "parse_value k s = Some (x, a)" by (intro a(2)) simp
      moreover from Suc that u a(1) l have "parse_elems k (skip u) = Some (ys, r)" by (intro b(2)) simp
      ultimately show ?thesis using Suc x ys by simp
    qed (use that a u b l in simp)
    with a u b l show ?thesis by simp
  qed
qed

lemma parse_pairs_enough:
  assumes v: "\<And>s. enough parse_value n s" and e: "\<And>s. enough parse_pairs n s"
  shows "enough parse_pairs (Suc n) s"
  unfolding enough_def
proof (intro allI impI)
  fix xs r assume p: "parse_pairs (Suc n) s = Some (xs, r)"
  then obtain t k a b x c d u where s: "s = CHR 0x22 # t" "parse_chars t = Some (k, a)" "skip a = CHR '':'' # b"
      and x: "parse_value n (skip b) = Some (x, c)" "skip c = d # u"
    by (auto split: option.splits list.splits if_splits)
  have c: "length c < length (skip b)" "\<And>m. length (skip b) \<le> m + length c \<Longrightarrow> parse_value m (skip b) = Some (x, c)"
    using v [of "skip b"] x by (auto simp: enough_def)
  have u: "length u < length c" "length (skip b) \<le> length b" "length b < length a" "length a < length t"
    using skip_length [of c] skip_length [of b] skip_length [of a] x s parse_chars_shorter [OF s(2)] by simp_all
  show "length r < length s \<and> (\<forall>m. length s \<le> m + length r \<longrightarrow> parse_pairs m s = Some (xs, r))"
  proof (cases "d = CHR ''}''")
    case True
    with p s x have [simp]: "xs = [(k, x)]" "r = u" by auto
    have "parse_pairs m s = Some (xs, r)" if "length s \<le> m + length r" for m
    proof (cases m)
      case (Suc i)
      with that u s have "parse_value i (skip b) = Some (x, c)" by (intro c(2)) simp
      with Suc s x True show ?thesis by simp
    qed (use that c u s in simp)
    with c u s show ?thesis by simp
  next
    case False
    with p s x obtain ys where ys: "d = CHR '',''" "parse_pairs n (skip u) = Some (ys, r)" "xs = (k, x) # ys"
      by (auto split: if_splits)
    have b: "length r < length (skip u)"
        "\<And>m. length (skip u) \<le> m + length r \<Longrightarrow> parse_pairs m (skip u) = Some (ys, r)"
      using e [of "skip u"] ys by (auto simp: enough_def)
    note l = skip_length [of u]
    have "parse_pairs m s = Some (xs, r)" if "length s \<le> m + length r" for m
    proof (cases m)
      case (Suc i)
      with that u s b l have "parse_value i (skip b) = Some (x, c)" by (intro c(2)) simp
      moreover from Suc that u s c(1) l have "parse_pairs i (skip u) = Some (ys, r)" by (intro b(2)) simp
      ultimately show ?thesis using Suc s x ys by simp
    qed (use that c u s b l in simp)
    with c u s b l show ?thesis by simp
  qed
qed

lemma enoughI:
  assumes "\<And>x r. p n s = Some (x, r) \<Longrightarrow> length r < length s"
    and "\<And>x r k. p n s = Some (x, r) \<Longrightarrow> length s \<le> Suc (k + length r) \<Longrightarrow> p (Suc k) s = Some (x, r)"
  shows "enough p n s"
  unfolding enough_def
proof (intro allI impI conjI)
  fix x r m assume a: "p n s = Some (x, r)" "length s \<le> m + length r"
  then show "p m s = Some (x, r)" using assms by (cases m) auto
qed (rule assms)

lemma enough_same:
  "(\<And>m. p (Suc m) s = z) \<Longrightarrow> (\<And>x r. z = Some (x, r) \<Longrightarrow> length r < length s) \<Longrightarrow> enough p (Suc n) s"
  by (intro enoughI) auto

lemma enough_inner:
  assumes q: "enough q n t" and t: "length t < length s"
    and step: "\<And>m. p (Suc m) s = map_option (\<lambda>(x, r). (f x, r)) (q m t)"
  shows "enough p (Suc n) s"
proof (rule enoughI)
  fix x r assume "p (Suc n) s = Some (x, r)"
  then obtain y where y: "q n t = Some (y, r)" "x = f y" by (auto simp: step)
  then show "length r < length s" using q t by (fastforce simp: enough_def)
next
  fix x r k assume "p (Suc n) s = Some (x, r)" and k: "length s \<le> Suc (k + length r)"
  then obtain y where y: "q n t = Some (y, r)" "x = f y" by (auto simp: step)
  moreover have "length t \<le> k + length r" using k t by simp
  ultimately have "q k t = Some (y, r)" using q by (simp add: enough_def)
  then show "p (Suc k) s = Some (x, r)" using y by (simp add: step)
qed

lemma enough_value_step:
  assumes e: "\<And>s. enough parse_elems n s" and p: "\<And>s. enough parse_pairs n s"
  shows "enough parse_value (Suc n) s"
proof (cases s)
  case Nil
  then show ?thesis by (intro enough_same [where z = None]) auto
next
  case (Cons c u)
  have l: "length (skip u) < length s" using Cons skip_length [of u] by simp
  show ?thesis
  proof (cases "c = CHR 0x22")
    case True
    with Cons show ?thesis by (intro enough_same [where z = "parse_value 1 s"]) (auto dest: parse_chars_shorter)
  next
    case string: False
    show ?thesis
    proof (cases "c \<in> {CHR ''['', CHR ''{''} \<and> skip u \<noteq> [] \<and> hd (skip u) \<noteq> (if c = CHR ''['' then CHR '']'' else CHR ''}'')")
      case True
      then obtain d v where d: "skip u = d # v" by (cases "skip u") auto
      show ?thesis
      proof (cases "c = CHR ''[''")
        case array: True
        with Cons d True show ?thesis by (intro enough_inner [OF e l, of _ JArr]) simp
      next
        case False
        with Cons d True show ?thesis by (intro enough_inner [OF p l, of _ "\<lambda>kvs. JObj (dict_of kvs)"]) simp
      qed
    next
      case False
      show ?thesis
        by (rule enough_same [where z = "parse_value 1 s"])
           (use False string Cons l parse_word_shorter [of s] parse_number_shorter [of s] in
             \<open>auto split: list.splits option.splits if_splits\<close>)
    qed
  qed
qed

lemma parse_enough: "enough parse_value n s \<and> enough parse_elems n s \<and> enough parse_pairs n s"
proof (induction n arbitrary: s)
  case (Suc n)
  then show ?case by (intro conjI enough_value_step parse_elems_enough parse_pairs_enough) auto
qed (simp add: enough_def)

lemma loads_fuel: "parse_value n (skip s) = Some (j, r) \<Longrightarrow> parse_value (length s) (skip s) = Some (j, r)"
  using parse_enough [of n "skip s"] skip_length [of s] by (auto simp: enough_def)

text \<open>So a larger allowance reads no text that \<open>loads\<close> refuses.\<close>

lemma loads_iff: "loads s = Some j \<longleftrightarrow> (\<exists>n r. parse_value n (skip s) = Some (j, r) \<and> skip r = [])"
  using loads_fuel by (fastforce simp: loads_def split: option.splits if_splits)

end
