(* ===== verification/Jsonl.thy ===== *)
theory Jsonl
  imports Json_Text
begin

text \<open>
  The append-only JSONL files of the local stores (\<open>runtime/mvp_runtime/jsonl.py\<close>): one
  object per line, the full read, the read of the tail, and the cursor that parses only what
  was appended since its last read.

  A file is its identity (device and inode) and its text, one character per code point.  A
  reader that meets an unfinished last line looks at the file again: \<open>looks n\<close> is the text
  it finds at its \<open>n\<close>th look.
\<close>

datatype stored = Missing | Denied | Stored (identity: nat) (content: string)

abbreviation newline_char :: char where
  "newline_char \<equiv> CHR 0x0A"

section \<open>Lines\<close>

text \<open>Iterating over a file opened in binary mode: every line keeps its newline.\<close>

fun file_lines :: "string \<Rightarrow> string list" where
  "file_lines [] = []"
| "file_lines (c # s) =
     (if c = newline_char then [c] # file_lines s
      else case file_lines s of [] \<Rightarrow> [[c]] | l # ls \<Rightarrow> (c # l) # ls)"

definition finished_line :: "string \<Rightarrow> bool" where
  "finished_line l = (l \<noteq> [] \<and> last l = newline_char)"

text \<open>\<open>bytes.strip()\<close> leaves nothing.\<close>

definition bytes_ws :: "char \<Rightarrow> bool" where
  "bytes_ws c = (let n = of_char c :: nat in (9 \<le> n \<and> n \<le> 13) \<or> n = 32)"

definition blank_line :: "string \<Rightarrow> bool" where
  "blank_line l = list_all bytes_ws l"

section \<open>Writing\<close>

text \<open>
  What became of a write: all of it, a prefix and then an error, or the file was never opened.
\<close>

datatype write_fate = Written | Cut nat | Not_Opened

definition row_text :: "json \<Rightarrow> string" where
  "row_text row = dumps row @ [newline_char]"

definition append_lines :: "string \<Rightarrow> write_fate \<Rightarrow> nat \<Rightarrow> json list \<Rightarrow> stored \<Rightarrow> unit res \<times> stored" where
  "append_lines code fate fresh rows f =
     (let text = concat (map row_text rows);
          grown = (\<lambda>t. case f of Stored i s \<Rightarrow> Stored i (s @ t) | Missing \<Rightarrow> Stored fresh t | Denied \<Rightarrow> Denied) in
      if f = Denied then (Inl (Refused code), f)
      else case fate of
        Written \<Rightarrow> (Inr (), grown text)
      | Cut n \<Rightarrow> (Inl (Refused code), grown (take n text))
      | Not_Opened \<Rightarrow> (Inl (Refused code), f))"

text \<open>\<open>write_objects\<close>: a temporary file replaces the old one, or the old one stays.\<close>

definition write_objects :: "string \<Rightarrow> write_fate \<Rightarrow> nat \<Rightarrow> json list \<Rightarrow> stored \<Rightarrow> unit res \<times> stored" where
  "write_objects code fate fresh rows f =
     (if fate = Written then (Inr (), Stored fresh (concat (map row_text rows))) else (Inl (Refused code), f))"

section \<open>The full read\<close>

definition tail_polls :: nat where
  "tail_polls = 100"

definition first_line :: "string \<Rightarrow> string" where
  "first_line s = (case file_lines s of [] \<Rightarrow> [] | l # _ \<Rightarrow> l)"

fun await_line :: "(nat \<Rightarrow> string) \<Rightarrow> nat \<Rightarrow> nat \<Rightarrow> string \<Rightarrow> string option" where
  "await_line looks 0 start line = None"
| "await_line looks (Suc k) start line =
     (let now = looks (tail_polls - Suc k) in
      if length now = start + length line then await_line looks k start line
      else let line' = first_line (drop start now) in
        if finished_line line' then Some line' else await_line looks k start line')"

definition finished_tail :: "string \<Rightarrow> (nat \<Rightarrow> string) \<Rightarrow> nat \<Rightarrow> string \<Rightarrow> (json \<times> nat) res" where
  "finished_tail code looks start line =
     (case await_line looks tail_polls start line of None \<Rightarrow> Inl (Refused code)
      | Some l \<Rightarrow> (case loads l of None \<Rightarrow> Inl (Refused code) | Some j \<Rightarrow> Inr (j, start + length l)))"

text \<open>The prescreen: a whole line that holds none of the tokens is not parsed.\<close>

definition contains :: "string \<Rightarrow> string \<Rightarrow> bool" where
  "contains s t = list_ex (\<lambda>n. startswith (drop n s) t) [0..<Suc (length s)]"

definition count_char :: "char \<Rightarrow> string \<Rightarrow> nat" where
  "count_char c s = length (filter (\<lambda>x. x = c) s)"

definition screened_out :: "string list option \<Rightarrow> string \<Rightarrow> bool" where
  "screened_out tokens line = (case tokens of None \<Rightarrow> False | Some ts \<Rightarrow>
     \<not> list_ex (contains line) ts \<and> startswith line ''{'' \<and> finished_line line \<and>
     (let bare = rev (dropWhile bytes_ws (rev line)) in bare \<noteq> [] \<and> last bare = CHR ''}'') \<and>
     count_char CHR ''{'' line = count_char CHR ''}'' line)"

text \<open>
  The generator: what it has yielded, and the exception that ended it.  A line that does not
  parse ends the read, at once when it has its newline, after the wait when it has not.
\<close>

fun yield_lines ::
  "string \<Rightarrow> (nat \<Rightarrow> string) \<Rightarrow> string list option \<Rightarrow> nat \<Rightarrow> nat \<Rightarrow> string list \<Rightarrow> (nat \<times> json) list \<times> exn option" where
  "yield_lines code looks tokens n off [] = ([], None)"
| "yield_lines code looks tokens n off (l # ls) =
     (if screened_out tokens l \<or> blank_line l then yield_lines code looks tokens (n + 1) (off + length l) ls
      else case loads l of
        Some j \<Rightarrow> (let (rows, e) = yield_lines code looks tokens (n + 1) (off + length l) ls in ((n, j) # rows, e))
      | None \<Rightarrow>
          if finished_line l then ([], Some (Refused code))
          else case finished_tail code looks off l of Inl e \<Rightarrow> ([], Some e) | Inr (j, _) \<Rightarrow> ([(n, j)], None))"

definition iter_numbered ::
  "string \<Rightarrow> (nat \<Rightarrow> string) \<Rightarrow> string list option \<Rightarrow> stored \<Rightarrow> (nat \<times> json) list \<times> exn option" where
  "iter_numbered code looks tokens f = (case f of Missing \<Rightarrow> ([], None) | Denied \<Rightarrow> ([], Some (Refused code))
     | Stored _ s \<Rightarrow> yield_lines code looks tokens 1 0 (file_lines s))"

definition iter_objects ::
  "string \<Rightarrow> (nat \<Rightarrow> string) \<Rightarrow> string list option \<Rightarrow> stored \<Rightarrow> json list \<times> exn option" where
  "iter_objects code looks tokens f = apfst (map snd) (iter_numbered code looks tokens f)"

definition read_objects :: "string \<Rightarrow> (nat \<Rightarrow> string) \<Rightarrow> stored \<Rightarrow> json list res" where
  "read_objects code looks f =
     (case iter_objects code looks None f of (rows, None) \<Rightarrow> Inr rows | (_, Some e) \<Rightarrow> Inl e)"

section \<open>The read of the tail\<close>

definition tail_chunk :: nat where
  "tail_chunk = 64 * 1024"

function tail_buffer :: "string \<Rightarrow> nat \<Rightarrow> nat \<Rightarrow> string \<Rightarrow> nat \<times> string" where
  "tail_buffer s limit pos buf =
     (if 0 < pos \<and> count_char newline_char buf \<le> limit + 1
      then let step = min tail_chunk pos in tail_buffer s limit (pos - step) (take step (drop (pos - step) s) @ buf)
      else (pos, buf))"
  by pat_completeness auto
termination by (relation "measure (\<lambda>(_, _, pos, _). pos)") (auto simp: tail_chunk_def)

declare tail_buffer.simps [simp del]

text \<open>\<open>buf[: buf.rfind(b"\n") + 1]\<close> and \<open>buf.split(b"\n")\<close>.\<close>

definition up_to_newline :: "string \<Rightarrow> string" where
  "up_to_newline buf = rev (dropWhile (\<lambda>c. c \<noteq> newline_char) (rev buf))"

fun split_newline :: "string \<Rightarrow> string list" where
  "split_newline [] = [[]]"
| "split_newline (c # s) =
     (if c = newline_char then [] # split_newline s
      else case split_newline s of [] \<Rightarrow> [[c]] | l # ls \<Rightarrow> (c # l) # ls)"

fun parse_tail :: "string \<Rightarrow> string list \<Rightarrow> json list res" where
  "parse_tail code [] = Inr []"
| "parse_tail code (l # ls) = (case loads l of None \<Rightarrow> Inl (Refused code) | Some j \<Rightarrow>
     if \<not> is_obj j then Inl (Refused code) else bindR (parse_tail code ls) (\<lambda>js. Inr (j # js)))"

definition last_n :: "nat \<Rightarrow> 'a list \<Rightarrow> 'a list" where
  "last_n n xs = drop (length xs - n) xs"

definition tail_objects :: "string \<Rightarrow> nat \<Rightarrow> stored \<Rightarrow> json list res" where
  "tail_objects code limit f = (case f of Missing \<Rightarrow> Inr []
     | Denied \<Rightarrow> if limit = 0 then Inr [] else Inl (Refused code)
     | Stored _ s \<Rightarrow>
         if limit = 0 then Inr [] else
         let (pos, buf) = tail_buffer s limit (length s) [];
             complete = (if finished_line buf then buf else up_to_newline buf);
             lines = filter (\<lambda>l. \<not> blank_line l) (split_newline complete);
             lines = (if 0 < pos \<and> lines \<noteq> [] then tl lines else lines) in
         parse_tail code (last_n limit lines))"

definition count_lines :: "string \<Rightarrow> stored \<Rightarrow> nat res" where
  "count_lines code f = (case f of Missing \<Rightarrow> Inr 0 | Denied \<Rightarrow> Inl (Refused code)
     | Stored _ s \<Rightarrow> Inr (count_char newline_char s))"

section \<open>The cursor\<close>

record cursor =
  ac_offset :: nat
  ac_lineno :: nat
  ac_identity :: "nat option"

definition new_cursor :: cursor where
  "new_cursor = \<lparr>ac_offset = 0, ac_lineno = 0, ac_identity = None\<rparr>"

fun cursor_lines :: "string \<Rightarrow> (nat \<Rightarrow> string) \<Rightarrow> nat \<Rightarrow> nat \<Rightarrow> string list \<Rightarrow> (json list \<times> nat \<times> nat) res" where
  "cursor_lines code looks n off [] = Inr ([], off, n)"
| "cursor_lines code looks n off (l # ls) =
     (if blank_line l then cursor_lines code looks (n + 1) (off + length l) ls
      else case loads l of
        Some j \<Rightarrow> bindR (cursor_lines code looks (n + 1) (off + length l) ls) (\<lambda>(rows, z). Inr (j # rows, z))
      | None \<Rightarrow>
          if finished_line l then Inl (Refused code)
          else bindR (finished_tail code looks off l) (\<lambda>(j, stop). Inr ([j], stop, n + 1)))"

definition read_new :: "string \<Rightarrow> (nat \<Rightarrow> string) \<Rightarrow> stored \<Rightarrow> cursor \<Rightarrow> (bool \<times> json list) res \<times> cursor" where
  "read_new code looks f c = (case f of
     Missing \<Rightarrow> (Inr (0 < ac_offset c \<or> ac_identity c \<noteq> None, []), new_cursor)
   | Denied \<Rightarrow> (Inl (Refused code), c)
   | Stored ident s \<Rightarrow>
       let restarted = (ac_identity c \<noteq> None \<and> (ac_identity c \<noteq> Some ident \<or> length s < ac_offset c));
           (off, n) = (if restarted \<or> ac_identity c = None then (0, 0) else (ac_offset c, ac_lineno c)) in
       case cursor_lines code looks n off (file_lines (drop off s)) of
         Inl e \<Rightarrow> (Inl e, c)
       | Inr (rows, off', n') \<Rightarrow>
           (Inr (restarted, rows), \<lparr>ac_offset = off', ac_lineno = n', ac_identity = Some ident\<rparr>))"

section \<open>One locked operation\<close>

text \<open>
  What surrounds one locked operation: whether the lock was had, what other processes did to the
  file before it was, the file's looks, and what became of the write.
\<close>

record file_io =
  io_lock :: bool
  io_others :: "stored \<Rightarrow> stored"
  io_looks :: "nat \<Rightarrow> string"
  io_fate :: write_fate
  io_fresh :: nat

end
