(* ===== verification/Jsonl_Facts.thy ===== *)
theory Jsonl_Facts
  imports Jsonl
begin

text \<open>
  The three readers of a JSONL file agree.  A file whose every line has its newline is
  \<open>whole\<close>; \<open>rows_of\<close> is what its lines hold.
\<close>

section \<open>Lines\<close>

definition whole :: "string \<Rightarrow> bool" where
  "whole s = (s = [] \<or> last s = newline_char)"

lemma concat_file_lines [simp]: "concat (file_lines s) = s"
  by (induction s) (auto split: list.splits)

lemma file_lines_append: "whole a \<Longrightarrow> file_lines (a @ b) = file_lines a @ file_lines b"
proof (induction a)
  case (Cons c a)
  show ?case
  proof (cases "a = []")
    case True
    with Cons.prems show ?thesis by (simp add: whole_def)
  next
    case False
    with Cons have split: "file_lines (a @ b) = file_lines a @ file_lines b" by (simp add: whole_def)
    have "file_lines a \<noteq> []" using False concat_file_lines [of a] by (cases "file_lines a") auto
    with split show ?thesis by (auto split: list.splits)
  qed
qed simp

lemma file_lines_line: "newline_char \<notin> set l \<Longrightarrow> file_lines (l @ [newline_char]) = [l @ [newline_char]]"
  by (induction l) auto

lemma finished_lines: "whole s \<Longrightarrow> \<forall>l \<in> set (file_lines s). finished_line l"
proof (induction s)
  case (Cons c s)
  show ?case
  proof (cases "s = []")
    case True
    with Cons.prems show ?thesis by (simp add: whole_def finished_line_def)
  next
    case False
    with Cons have "\<forall>l \<in> set (file_lines s). finished_line l" by (simp add: whole_def)
    moreover have "file_lines s \<noteq> []" using False concat_file_lines [of s] by (cases "file_lines s") auto
    ultimately show ?thesis by (auto simp: finished_line_def split: list.splits)
  qed
qed simp

lemma whole_append: "whole b \<Longrightarrow> whole a \<Longrightarrow> whole (a @ b)"
  by (cases b rule: rev_cases) (auto simp: whole_def)

lemma whole_rows: "whole (concat (map row_text rows))"
  by (induction rows) (auto simp: whole_def row_text_def)

fun rows_of :: "string list \<Rightarrow> json list option" where
  "rows_of [] = Some []"
| "rows_of (l # ls) = (if blank_line l then rows_of ls
     else case loads l of None \<Rightarrow> None | Some j \<Rightarrow> map_option (Cons j) (rows_of ls))"

lemma rows_of_append:
  "rows_of (xs @ ys) = (case rows_of xs of None \<Rightarrow> None | Some a \<Rightarrow> map_option (append a) (rows_of ys))"
  by (induction xs; cases "rows_of ys") (auto split: option.splits)

lemma yield_lines_rows:
  assumes "\<forall>l \<in> set ls. finished_line l"
  shows "(case yield_lines code looks None n off ls of (rows, None) \<Rightarrow> Inr (map snd rows) | (_, Some e) \<Rightarrow> Inl e) =
    (case rows_of ls of None \<Rightarrow> Inl (Refused code) | Some rows \<Rightarrow> Inr rows)"
  using assms
proof (induction ls arbitrary: n off)
  case (Cons l ls)
  have IH: "(case yield_lines code looks None (n + 1) (off + length l) ls of (rows, None) \<Rightarrow> Inr (map snd rows) | (_, Some e) \<Rightarrow> Inl e) =
    (case rows_of ls of None \<Rightarrow> Inl (Refused code) | Some rows \<Rightarrow> Inr rows)" using Cons by simp
  then show ?case using Cons.prems
    by (auto simp: screened_out_def split: option.splits prod.splits)
qed simp

lemma read_objects_whole:
  "whole s \<Longrightarrow> read_objects code looks (Stored i s) =
     (case rows_of (file_lines s) of None \<Rightarrow> Inl (Refused code) | Some rows \<Rightarrow> Inr rows)"
  using yield_lines_rows [OF finished_lines, of s code looks 1 0]
  by (auto simp: read_objects_def iter_objects_def iter_numbered_def apfst_def map_prod_def
      split: option.splits prod.splits)

lemma cursor_lines_rows:
  "\<forall>l \<in> set ls. finished_line l \<Longrightarrow> cursor_lines code looks n off ls =
     (case rows_of ls of None \<Rightarrow> Inl (Refused code)
      | Some rows \<Rightarrow> Inr (rows, off + length (concat ls), n + length ls))"
  by (induction ls arbitrary: n off) (auto split: option.splits)

section \<open>What was appended is read back\<close>

lemma row_text_line: "storable r \<Longrightarrow> file_lines (row_text r) = [row_text r]"
  by (simp add: row_text_def dumps_def file_lines_line dump_no_newline storable_canon)

lemma row_text_read: "storable r \<Longrightarrow> \<not> blank_line (row_text r) \<and> loads (row_text r) = Some (canon r)"
  using dump_head [OF storable_canon, of r] loads_dumps [of r]
  by (auto simp: row_text_def dumps_def blank_line_def bytes_ws_def)

lemma rows_of_text:
  "\<forall>r \<in> set rows. storable r \<Longrightarrow>
   file_lines (concat (map row_text rows)) = map row_text rows \<and> rows_of (map row_text rows) = Some (map canon rows)"
proof (induction rows)
  case (Cons r rows)
  have "whole (row_text r)" by (simp add: whole_def row_text_def)
  with Cons row_text_line [of r] row_text_read [of r] show ?case by (simp add: file_lines_append)
qed simp

definition whole_file :: "stored \<Rightarrow> bool" where
  "whole_file f = (case f of Stored _ s \<Rightarrow> whole s | _ \<Rightarrow> True)"


section \<open>The cursor reads what a full read reads\<close>

text \<open>
  A reader that keeps a cursor, and what it has built: the rows of its reads, dropped when a read
  says it restarted.  Between two reads, whole lines are appended, or the file disappears, or
  another file takes its place, one with an identity the cursor does not hold.
\<close>

definition folded :: "json list \<Rightarrow> bool \<times> json list \<Rightarrow> json list" where
  "folded acc r = (if fst r then [] else acc) @ snd r"

inductive followed :: "string \<Rightarrow> (nat \<Rightarrow> string) \<Rightarrow> stored \<Rightarrow> cursor \<Rightarrow> json list \<Rightarrow> bool" for code looks where
  opened: "whole_file f \<Longrightarrow> followed code looks f new_cursor []"
| grown: "followed code looks (Stored i s) c acc \<Longrightarrow> whole t \<Longrightarrow> followed code looks (Stored i (s @ t)) c acc"
| gone: "followed code looks f c acc \<Longrightarrow> followed code looks Missing c acc"
| replaced: "followed code looks f c acc \<Longrightarrow> whole s \<Longrightarrow> ac_identity c \<noteq> Some i \<Longrightarrow>
    followed code looks (Stored i s) c acc"
| read_ok: "followed code looks f c acc \<Longrightarrow> read_new code looks f c = (Inr r, c') \<Longrightarrow>
    followed code looks f c' (folded acc r)"
| read_refused: "followed code looks f c acc \<Longrightarrow> read_new code looks f c = (Inl e, c') \<Longrightarrow>
    followed code looks f c' acc"
| forgotten: "followed code looks f c acc \<Longrightarrow> followed code looks f new_cursor []"

definition in_step :: "stored \<Rightarrow> cursor \<Rightarrow> json list \<Rightarrow> bool" where
  "in_step f c acc = (whole_file f \<and> (case ac_identity c of None \<Rightarrow> ac_offset c = 0 \<and> acc = []
     | Some i \<Rightarrow> (\<forall>s. f = Stored i s \<longrightarrow> (\<exists>a b. s = a @ b \<and> whole a \<and> ac_offset c = length a \<and>
         rows_of (file_lines a) = Some acc))))"

lemma whole_suffix: "whole (a @ b) \<Longrightarrow> whole b"
  by (cases b rule: rev_cases) (auto simp: whole_def)

lemma read_new_in_step:
  assumes "in_step f c acc"
  shows "map_sum id (folded acc) (fst (read_new code looks f c)) = read_objects code looks f"
    and "read_new code looks f c = (Inr r, c') \<Longrightarrow> in_step f c' (folded acc r)"
    and "read_new code looks f c = (Inl e, c') \<Longrightarrow> c' = c"
proof -
  have "map_sum id (folded acc) (fst (read_new code looks f c)) = read_objects code looks f \<and>
    (\<forall>r c'. read_new code looks f c = (Inr r, c') \<longrightarrow> in_step f c' (folded acc r)) \<and>
    (\<forall>e c'. read_new code looks f c = (Inl e, c') \<longrightarrow> c' = c)"
  proof (cases f)
    case Missing
    with assms show ?thesis
      by (auto simp: read_new_def read_objects_def iter_objects_def iter_numbered_def folded_def in_step_def
          new_cursor_def whole_file_def split: option.splits)
  next
    case Denied
    then show ?thesis by (simp add: read_new_def read_objects_def iter_objects_def iter_numbered_def)
  next
    case (Stored i s)
    with assms have s: "whole s" by (simp add: in_step_def whole_file_def)
    define restarted where "restarted = (ac_identity c \<noteq> None \<and> (ac_identity c \<noteq> Some i \<or> length s < ac_offset c))"
    define off where "off = (if restarted \<or> ac_identity c = None then 0 else ac_offset c)"
    define n where "n = (if restarted \<or> ac_identity c = None then 0 else ac_lineno c)"
    define base where "base = (if restarted then [] else acc)"
    have "\<exists>a. s = a @ drop off s \<and> whole a \<and> off = length a \<and> rows_of (file_lines a) = Some base"
    proof (cases "restarted \<or> ac_identity c = None")
      case True
      with assms show ?thesis by (auto simp: off_def base_def in_step_def whole_def)
    next
      case False
      then have "ac_identity c = Some i" "\<not> restarted" by (auto simp: restarted_def)
      with assms Stored show ?thesis by (auto simp: in_step_def off_def base_def)
    qed
    then obtain a where a: "s = a @ drop off s" "whole a" "off = length a" "rows_of (file_lines a) = Some base" by blast
    have rest: "whole (drop off s)" using s a(1) whole_suffix by metis
    have all: "rows_of (file_lines s) = map_option (append base) (rows_of (file_lines (drop off s)))"
      by (subst a(1)) (simp add: file_lines_append [OF a(2)] rows_of_append a(4))
    have len: "off + length (drop off s) = length s" using a(1,3) by (metis length_append)
    have read: "read_new code looks f c = (case rows_of (file_lines (drop off s)) of None \<Rightarrow> (Inl (Refused code), c)
        | Some rows \<Rightarrow> (Inr (restarted, rows), \<lparr>ac_offset = length s, ac_lineno = n + length (file_lines (drop off s)),
            ac_identity = Some i\<rparr>))"
      using Stored cursor_lines_rows [OF finished_lines [OF rest], of code looks n off] len
      by (auto simp: read_new_def restarted_def off_def n_def Let_def split: option.splits)
    show ?thesis
    proof (cases "rows_of (file_lines (drop off s))")
      case None
      with read all Stored s show ?thesis by (simp add: read_objects_whole)
    next
      case (Some rows)
      with all have "rows_of (file_lines s) = Some (base @ rows)" by simp
      moreover from this have "in_step f \<lparr>ac_offset = length s, ac_lineno = n + length (file_lines (drop off s)),
          ac_identity = Some i\<rparr> (base @ rows)" using Stored s by (auto simp: in_step_def whole_file_def)
      ultimately show ?thesis using read Some Stored s by (simp add: read_objects_whole folded_def base_def)
    qed
  qed
  then show "map_sum id (folded acc) (fst (read_new code looks f c)) = read_objects code looks f"
    "read_new code looks f c = (Inr r, c') \<Longrightarrow> in_step f c' (folded acc r)"
    "read_new code looks f c = (Inl e, c') \<Longrightarrow> c' = c" by auto
qed

lemma in_step_new: "whole_file f \<Longrightarrow> in_step f new_cursor []"
  by (simp add: in_step_def new_cursor_def)

lemma in_step_whole: "in_step f c acc \<Longrightarrow> whole_file f"
  by (simp add: in_step_def)

lemma followed_in_step: "followed code looks f c acc \<Longrightarrow> in_step f c acc"
proof (induction rule: followed.induct)
  case (grown i s c acc t)
  then have "whole_file (Stored i (s @ t))" by (simp add: in_step_def whole_file_def whole_append)
  with grown(3) show ?case by (fastforce simp: in_step_def split: option.splits)
next
  case (gone f c acc)
  then show ?case by (auto simp: in_step_def whole_file_def split: option.splits)
next
  case (replaced f c acc s i)
  then show ?case by (auto simp: in_step_def whole_file_def split: option.splits)
next
  case (read_ok f c acc r c')
  then show ?case using read_new_in_step(2) by blast
next
  case (read_refused f c acc e c')
  then show ?case using read_new_in_step(3) by blast
qed (auto intro: in_step_new in_step_whole)


section \<open>The tail is the end of the full read\<close>

lemma tail_buffer_suffix:
  "tail_buffer s limit pos buf = (p, b) \<Longrightarrow> buf = drop pos s \<Longrightarrow> pos \<le> length s \<Longrightarrow>
   b = drop p s \<and> (p = 0 \<or> limit + 1 < count_char newline_char b)"
proof (induction s limit pos buf rule: tail_buffer.induct)
  case (1 s limit pos buf)
  show ?case
  proof (cases "0 < pos \<and> count_char newline_char buf \<le> limit + 1")
    case True
    define step where "step = min tail_chunk pos"
    have "take step (drop (pos - step) s) @ drop step (drop (pos - step) s) = drop (pos - step) s"
      by (rule append_take_drop_id)
    then have "take step (drop (pos - step) s) @ drop pos s = drop (pos - step) s"
      by (simp add: step_def)
    with 1(3) have cut: "take step (drop (pos - step) s) @ buf = drop (pos - step) s" by simp
    from True 1(2) have next_round: "tail_buffer s limit (pos - step) (take step (drop (pos - step) s) @ buf) = (p, b)"
      by (subst (asm) tail_buffer.simps) (simp add: step_def Let_def)
    from 1(4) have "pos - step \<le> length s" by simp
    from 1(1) [OF True step_def next_round cut this] show ?thesis .
  next
    case False
    with 1(2) have "p = pos" "b = buf" by (simp_all add: tail_buffer.simps [of s limit pos buf] split: if_splits)
    with False 1(3) show ?thesis by auto
  qed
qed

lemma split_newline_line:
  "newline_char \<notin> set l \<Longrightarrow> split_newline (l @ newline_char # s) = l # split_newline s"
  by (induction l) auto

lemma count_line: "newline_char \<notin> set u \<Longrightarrow> count_char newline_char (u @ newline_char # s) = Suc (count_char newline_char s)"
  by (induction u) (auto simp: count_char_def)

lemma split_rows:
  "\<forall>r \<in> set rows. storable r \<Longrightarrow> split_newline (concat (map row_text rows)) = map dumps rows @ [[]]"
  by (induction rows) (simp_all add: row_text_def split_newline_line dumps_def dump_no_newline storable_canon)

lemma count_rows:
  "\<forall>r \<in> set rows. storable r \<Longrightarrow> count_char newline_char (concat (map row_text rows)) = length rows"
proof (induction rows)
  case (Cons r rows)
  have "newline_char \<notin> set (dumps r)" using Cons.prems by (simp add: dumps_def dump_no_newline storable_canon)
  with Cons show ?case by (simp add: row_text_def count_line)
qed (simp add: count_char_def)

lemma dumps_not_blank: "storable r \<Longrightarrow> \<not> blank_line (dumps r)"
  using row_text_read [of r] by (auto simp: row_text_def blank_line_def bytes_ws_def)

lemma filter_rows: "\<forall>r \<in> set rows. storable r \<Longrightarrow> filter (\<lambda>l. \<not> blank_line l) (map dumps rows) = map dumps rows"
  by (auto simp: filter_id_conv dumps_not_blank)

text \<open>A suffix of such a file starts inside a line or at one.\<close>

lemma suffix_of_rows:
  assumes "\<forall>r \<in> set rows. storable r"
  obtains t before after where "rows = before @ after" "drop pos (concat (map row_text rows)) = t @ concat (map row_text after)"
    "t = [] \<or> (\<exists>u. t = u @ [newline_char] \<and> newline_char \<notin> set u)"
proof -
  have "\<exists>t before after. rows = before @ after \<and> drop pos (concat (map row_text rows)) = t @ concat (map row_text after) \<and>
    (t = [] \<or> (\<exists>u. t = u @ [newline_char] \<and> newline_char \<notin> set u))"
    using assms
  proof (induction rows arbitrary: pos)
    case (Cons r rows)
    show ?case
    proof (cases "pos \<le> length (dumps r)")
      case True
      have "newline_char \<notin> set (drop pos (dumps r))"
        using Cons.prems dump_no_newline(1) [OF storable_canon, of r] by (auto simp: dumps_def dest: in_set_dropD)
      with True have "r # rows = [r] @ rows \<and> drop pos (concat (map row_text (r # rows))) =
          (drop pos (dumps r) @ [newline_char]) @ concat (map row_text rows) \<and> newline_char \<notin> set (drop pos (dumps r))"
        by (simp add: row_text_def)
      then show ?thesis by blast
    next
      case False
      from Cons.IH [of "pos - length (row_text r)"] Cons.prems obtain t before after where
        "rows = before @ after" "drop (pos - length (row_text r)) (concat (map row_text rows)) = t @ concat (map row_text after)"
        "t = [] \<or> (\<exists>u. t = u @ [newline_char] \<and> newline_char \<notin> set u)" by auto
      moreover from this(1) have "r # rows = (r # before) @ after" by simp
      moreover have "drop pos (concat (map row_text (r # rows))) = drop (pos - length (row_text r)) (concat (map row_text rows))"
        using False by simp (simp add: row_text_def)
      ultimately show ?thesis by metis
    qed
  qed simp
  with that show thesis by blast
qed

lemma last_n_suffix: "n \<le> length ys \<Longrightarrow> last_n n (xs @ ys) = last_n n ys"
  by (simp add: last_n_def)

lemma parse_tail_rows:
  "\<forall>r \<in> set rows. storable r \<and> is_obj r \<Longrightarrow> parse_tail code (map dumps rows) = Inr (map canon rows)"
proof (induction rows)
  case (Cons r rows)
  have "loads (dumps r) = Some (canon r)" unfolding dumps_def
    using loads_dump [OF storable_canon, of r "[]"] Cons.prems by simp
  moreover have "is_obj (canon r)" using Cons.prems by (auto simp: is_obj_iff)
  ultimately show ?case using Cons by simp
qed simp

text \<open>
  The bounded read from the end of a file of stored rows returns the last \<open>n\<close> of them, wherever
  its 64 KiB chunks cut the lines.
\<close>

theorem tail_is_the_end_of_the_file:
  assumes "\<forall>r \<in> set rows. storable r \<and> is_obj r"
  shows "tail_objects code n (Stored i (concat (map row_text rows))) = Inr (last_n n (map canon rows))"
proof (cases "n = 0")
  case True
  then show ?thesis by (simp add: tail_objects_def last_n_def)
next
  case False
  let ?s = "concat (map row_text rows)"
  have st: "\<forall>r \<in> set rows. storable r" using assms by simp
  obtain pos buf where b: "tail_buffer ?s n (length ?s) [] = (pos, buf)" by fastforce
  have buf: "buf = drop pos ?s" "pos = 0 \<or> n + 1 < count_char newline_char buf"
    using tail_buffer_suffix [OF b] by auto
  obtain t before after where sp: "rows = before @ after" "buf = t @ concat (map row_text after)"
    "t = [] \<or> (\<exists>u. t = u @ [newline_char] \<and> newline_char \<notin> set u)"
    using suffix_of_rows [OF st, of pos] buf(1) by metis
  have sta: "\<forall>r \<in> set after. storable r" using st sp(1) by simp
  have "whole buf" using whole_rows [of rows] buf(1) whole_suffix append_take_drop_id by metis
  then have complete: "(if finished_line buf then buf else up_to_newline buf) = buf"
    by (auto simp: whole_def finished_line_def up_to_newline_def)
  have blank: "blank_line []" by (simp add: blank_line_def)
  define lines where "lines = filter (\<lambda>l. \<not> blank_line l) (split_newline buf)"
  have "\<exists>ks. (if 0 < pos \<and> lines \<noteq> [] then tl lines else lines) = map dumps ks \<and>
      (\<exists>ls. rows = ls @ ks) \<and> (n \<le> length ks \<or> ks = rows)"
  proof (cases "pos = 0")
    case True
    with buf(1) have "lines = map dumps rows"
      by (simp add: lines_def split_rows [OF st] filter_rows [OF st] blank)
    with True show ?thesis by auto
  next
    case False
    with buf(2) have many: "n + 1 < count_char newline_char buf" by simp
    show ?thesis
    proof (cases "\<exists>u. t = u @ [newline_char] \<and> newline_char \<notin> set u \<and> \<not> blank_line u")
      case True
      then obtain u where u: "t = u @ [newline_char]" "newline_char \<notin> set u" "\<not> blank_line u" by blast
      then have "count_char newline_char buf = Suc (length after)"
        using count_rows [OF sta] sp(2) by (simp add: count_line)
      moreover have "lines = u # map dumps after"
        using u sp(2) by (simp add: lines_def split_newline_line split_rows [OF sta] filter_rows [OF sta] blank)
      ultimately show ?thesis using many False sp(1) by auto
    next
      case other: False
      have "lines = map dumps after" "count_char newline_char buf \<le> Suc (length after)"
        using other sp(2,3) count_rows [OF sta]
        by (auto simp: lines_def split_newline_line split_rows [OF sta] filter_rows [OF sta] blank count_line)
      moreover from this many have "n < length after" by simp
      ultimately show ?thesis using False sp(1) by (intro exI [of _ "tl after"]) (cases after; auto)
    qed
  qed
  then obtain ks ls where k: "(if 0 < pos \<and> lines \<noteq> [] then tl lines else lines) = map dumps ks" "rows = ls @ ks"
    "n \<le> length ks \<or> ks = rows" by blast
  then have "last_n n (map dumps ks) = map dumps (last_n n rows)"
    by (auto simp: last_n_suffix) (simp_all add: last_n_def drop_map)
  moreover have "\<forall>r \<in> set (last_n n rows). storable r \<and> is_obj r" using assms by (auto simp: last_n_def dest: in_set_dropD)
  moreover have "map canon (last_n n rows) = last_n n (map canon rows)" by (simp add: last_n_def drop_map)
  ultimately show ?thesis using False b
    by (simp add: tail_objects_def Let_def split del: if_split)
       (simp only: complete lines_def [symmetric] k(1) parse_tail_rows)
qed

end
