(* ===== verification/Jsonl_Sample.thy ===== *)
theory Jsonl_Sample
  imports Jsonl_Facts
begin

text \<open>The three readers on a small file.\<close>

definition small_row :: json where
  "small_row = JObj [(''b'', JInt 2), (''a'', JStr ''x'')]"

definition small_file :: stored where
  "small_file = Stored 3 (row_text small_row)"

lemma small_whole: "whole_file small_file"
  by (simp add: small_file_def whole_file_def whole_def row_text_def)

lemma small_read: "read_objects ''E'' (\<lambda>_. []) small_file = Inr [canon small_row]"
  using rows_of_text [of "[small_row]"] small_whole
  by (simp add: small_file_def read_objects_whole whole_file_def small_row_def)



lemma tail_is_the_end_of_the_file_witness:
  "tail_objects ''E'' 1 (Stored 3 (concat (map row_text [JObj [], small_row]))) = Inr [canon small_row]"
  using tail_is_the_end_of_the_file [of "[JObj [], small_row]" "''E''" 1 3]
  by (simp add: small_row_def last_n_def)

text \<open>
  A row whose newline never landed is a row to both readers.  The next append completes its line with a
  second row: the long-lived reader reads that row, and a full read refuses the line.
\<close>

lemma unterminated_row_parts_the_readers:
  "(let torn = Stored 3 ''{}''; grown = snd (append_lines ''W'' Written 9 [JObj []] torn);
        (first, c) = read_new ''E'' (\<lambda>_. []) torn new_cursor in
      first = Inr (False, [JObj []]) \<and> fst (read_new ''E'' (\<lambda>_. []) grown c) = Inr (False, [JObj []]) \<and>
      read_objects ''E'' (\<lambda>_. []) grown = Inl (Refused ''E''))"
  by code_simp

end
