(* ===== verification/Task_Registry.thy ===== *)
theory Task_Registry
  imports Jsonl_Facts Control Deploy_Files "HOL-Library.Product_Lexorder"
begin

text \<open>
  The task registry (\<open>runtime/mvp_runtime/task_registry.py\<close>): the ledger of what was asked
  and how it ended, which is also the queue.  An entry is a record, a row of the file is its
  JSON.  A process holds one \<open>registry\<close>, the state it has folded from the rows it has read.
\<close>

section \<open>Entries\<close>

definition QUEUED :: string where "QUEUED = ''QUEUED''"
definition RUNNING :: string where "RUNNING = ''RUNNING''"
definition DELIVERED :: string where "DELIVERED = ''DELIVERED''"
definition FAILED :: string where "FAILED = ''FAILED''"
definition BLOCKED :: string where "BLOCKED = ''BLOCKED''"
definition CANCELLED :: string where "CANCELLED = ''CANCELLED''"

lemmas status_defs = QUEUED_def RUNNING_def DELIVERED_def FAILED_def BLOCKED_def CANCELLED_def

definition terminal_statuses :: "string list" where
  "terminal_statuses = [DELIVERED, FAILED, BLOCKED, CANCELLED]"

definition allowed_transitions :: "(string \<times> string list) list" where
  "allowed_transitions = [(QUEUED, [RUNNING, CANCELLED]), (RUNNING, [DELIVERED, FAILED, BLOCKED]),
     (DELIVERED, []), (FAILED, []), (BLOCKED, []), (CANCELLED, [])]"

definition origins :: "string list" where
  "origins = [''TELEGRAM'', ''CLI'', ''SCHEDULER'', ''FRONTDESK'', ''AGENT'', ''WORKFLOW'']"

definition operator_origins :: "string list" where
  "operator_origins = [''TELEGRAM'', ''FRONTDESK'']"

definition scheduler_origins :: "string list" where
  "scheduler_origins = [''SCHEDULER'']"

definition worker_origins :: "string list" where
  "worker_origins = [''AGENT'']"

definition manager_origins :: "string list" where
  "manager_origins = [''WORKFLOW'']"

definition flag_names :: "string list" where
  "flag_names = [''important'', ''independent_validation'', ''revise'', ''write_output'']"

definition queue_depth_limit :: nat where
  "queue_depth_limit = 20"

definition request_kinds :: "string list" where
  "request_kinds = [''analysis'', ''research'', ''translation'', ''content'', ''development'']"

record task_entry =
  te_id :: string
  te_text :: string
  te_origin :: string
  te_requester :: string
  te_flags :: "(string \<times> bool) list"
  te_status :: string
  te_submitted_at :: string
  te_kind :: "string option"
  te_started_at :: "string option"
  te_finished_at :: "string option"
  te_task_id :: "string option"
  te_trace_id :: "string option"
  te_result_ref :: "string option"
  te_reason :: "string option"
  te_attempt :: "string option"

definition flag_of :: "(string \<times> bool) list \<Rightarrow> string \<Rightarrow> bool" where
  "flag_of flags name = (map_of flags name = Some True)"

definition as_record :: "task_entry \<Rightarrow> json" where
  "as_record e = JObj
     [(''schema_version'', JStr ''task_registry_entry.v0.4''), (''registry_entry_id'', JStr (te_id e)),
      (''request_text'', JStr (te_text e)), (''origin'', JStr (te_origin e)), (''requester_id'', JStr (te_requester e)),
      (''flags'', JObj (map (\<lambda>name. (name, JBool (flag_of (te_flags e) name))) flag_names)),
      (''request_kind'', of_opt (te_kind e)), (''status'', JStr (te_status e)),
      (''submitted_at'', JStr (te_submitted_at e)), (''started_at'', of_opt (te_started_at e)),
      (''finished_at'', of_opt (te_finished_at e)), (''task_id'', of_opt (te_task_id e)),
      (''trace_id'', of_opt (te_trace_id e)), (''result_ref'', of_opt (te_result_ref e)),
      (''last_reason_code'', of_opt (te_reason e)), (''attempt_id'', of_opt (te_attempt e))]"

definition opt_str :: "json \<Rightarrow> string option" where
  "opt_str v = (if v = JNull then None else Some (py_str v))"

text \<open>
  \<open>from_record\<close>: a missing key is a refusal.  The \<open>flags\<close> of a row are asked with \<open>.get\<close>; a list
  or a string there raises an \<open>AttributeError\<close>, which the handler does not name.
\<close>

definition required_str :: "json \<Rightarrow> string \<Rightarrow> string res" where
  "required_str r k = (if has_key r k then Inr (py_str (jget r k)) else Inl (Refused ''REGISTRY_RECORD_INVALID''))"

definition read_flags :: "json \<Rightarrow> (string \<times> bool) list res" where
  "read_flags r =
     (let flags = (if truthy (jget r ''flags'') then jget r ''flags'' else JObj []) in
      if \<not> is_obj flags then Inl (PyError ''AttributeError'')
      else Inr (map (\<lambda>name. (name, truthy (jget flags name))) flag_names))"

definition from_record :: "json \<Rightarrow> task_entry res" where
  "from_record r =
     bindR (required_str r ''registry_entry_id'') (\<lambda>i.
     bindR (required_str r ''status'') (\<lambda>status.
     bindR (required_str r ''request_text'') (\<lambda>text.
     bindR (required_str r ''origin'') (\<lambda>origin.
     bindR (required_str r ''requester_id'') (\<lambda>requester.
     bindR (read_flags r) (\<lambda>flags.
     bindR (required_str r ''submitted_at'') (\<lambda>submitted.
     if map_of allowed_transitions status = None then Inl (Refused ''REGISTRY_RECORD_INVALID'')
     else Inr \<lparr>te_id = i, te_text = text, te_origin = origin, te_requester = requester, te_flags = flags,
       te_status = status, te_submitted_at = submitted, te_kind = opt_str (jget r ''request_kind''),
       te_started_at = opt_str (jget r ''started_at''), te_finished_at = opt_str (jget r ''finished_at''),
       te_task_id = opt_str (jget r ''task_id''), te_trace_id = opt_str (jget r ''trace_id''),
       te_result_ref = opt_str (jget r ''result_ref''), te_reason = opt_str (jget r ''last_reason_code''),
       te_attempt = opt_str (jget r ''attempt_id'')\<rparr>)))))))"

definition is_terminal :: "task_entry \<Rightarrow> bool" where
  "is_terminal e = (te_status e \<in> set terminal_statuses)"

text \<open>The row's schema; a \<open>$\<close> of a pattern also stands before one final newline.\<close>

definition dollar :: "(string \<Rightarrow> bool) \<Rightarrow> string \<Rightarrow> bool" where
  "dollar ok s = (ok s \<or> (s \<noteq> [] \<and> last s = newline_char \<and> ok (butlast s)))"

definition null_or :: "(string \<Rightarrow> bool) \<Rightarrow> json \<Rightarrow> bool" where
  "null_or ok j = (j = JNull \<or> str_form ok j)"

definition run_id_form :: "string \<Rightarrow> string \<Rightarrow> bool" where
  "run_id_form tag s = (take (length tag) s = tag \<and> length tag < length s \<and>
     list_all (\<lambda>c. token_char c \<and> c \<noteq> CHR '':'') (drop (length tag) s))"

definition entry_row_ok :: "json \<Rightarrow> bool" where
  "entry_row_ok r =
     (exact_keys [''schema_version'', ''registry_entry_id'', ''request_text'', ''origin'', ''requester_id'', ''flags'',
        ''status'', ''submitted_at'', ''started_at'', ''finished_at'', ''task_id'', ''trace_id'', ''result_ref'',
        ''last_reason_code'', ''request_kind'', ''attempt_id''] r \<and>
      jget r ''schema_version'' = JStr ''task_registry_entry.v0.4'' \<and>
      str_form (dollar (tagged ''treg_'' hex_char 20)) (jget r ''registry_entry_id'') \<and>
      str_form (\<lambda>s. s \<noteq> []) (jget r ''request_text'') \<and> str_form (\<lambda>s. s \<in> set origins) (jget r ''origin'') \<and>
      str_form (\<lambda>s. s \<noteq> []) (jget r ''requester_id'') \<and>
      exact_keys flag_names (jget r ''flags'') \<and>
      list_all (\<lambda>n. jget (jget r ''flags'') n \<in> {JBool True, JBool False}) flag_names \<and>
      str_form (\<lambda>s. s \<in> fst ` set allowed_transitions) (jget r ''status'') \<and>
      str_form (dollar fixed_utc) (jget r ''submitted_at'') \<and> null_or (dollar fixed_utc) (jget r ''started_at'') \<and>
      null_or (dollar fixed_utc) (jget r ''finished_at'') \<and>
      null_or (dollar (run_id_form ''task_'')) (jget r ''task_id'') \<and>
      null_or (dollar (run_id_form ''trace_'')) (jget r ''trace_id'') \<and>
      null_or (\<lambda>s. s \<noteq> []) (jget r ''result_ref'') \<and> null_or (\<lambda>s. s \<noteq> []) (jget r ''last_reason_code'') \<and>
      null_or (\<lambda>s. s \<noteq> []) (jget r ''request_kind'') \<and>
      null_or (dollar (tagged ''wfa_'' hex_char 20)) (jget r ''attempt_id''))"

section \<open>A new entry\<close>

definition stripped :: "json \<Rightarrow> string" where
  "stripped v = (case v of JStr s \<Rightarrow> strip s | _ \<Rightarrow> [])"

definition build_entry ::
  "(string \<Rightarrow> string) \<Rightarrow> json \<Rightarrow> string \<Rightarrow> json \<Rightarrow> string \<Rightarrow> (string \<times> json) list \<Rightarrow> json \<Rightarrow> string \<Rightarrow> json \<Rightarrow> task_entry res" where
  "build_entry H request_text origin requester_id now supplied request_kind status attempt_id =
     (let text = stripped request_text; requester = stripped requester_id;
          kind = (if stripped request_kind = [] then None else Some (stripped request_kind));
          attempt = (if stripped attempt_id = [] then None else Some (stripped attempt_id)) in
      bindR (ensure (text \<noteq> []) ''EMPTY_REQUEST'') (\<lambda>_.
      bindR (ensure (origin \<in> set origins) ''UNKNOWN_ORIGIN'') (\<lambda>_.
      bindR (ensure (requester \<noteq> []) ''MISSING_REQUESTER'') (\<lambda>_.
      bindR (ensure (status \<in> {QUEUED, RUNNING}) ''INVALID_INITIAL_STATUS'') (\<lambda>_.
      bindR (ensure (list_all (\<lambda>kv. fst kv \<in> set flag_names) supplied) ''UNKNOWN_FLAG'') (\<lambda>_.
      bindR (ensure (kind = None \<or> the kind \<in> set request_kinds) ''UNKNOWN_REQUEST_KIND'') (\<lambda>_.
      bindR (ensure (attempt = None \<or> origin = ''WORKFLOW'') ''UNKNOWN_ORIGIN'') (\<lambda>_.
      bindR (ensure (origin \<noteq> ''WORKFLOW'' \<or> attempt \<noteq> None) ''MISSING_REQUESTER'') (\<lambda>_.
      bindR (short_id H ''treg'' (JObj ([(''request'', JStr text), (''origin'', JStr origin),
          (''requester_id'', JStr requester), (''submitted_at'', JStr now)] @
          (case attempt of None \<Rightarrow> [] | Some a \<Rightarrow> [(''attempt_id'', JStr a)])))) (\<lambda>i.
      Inr \<lparr>te_id = i, te_text = text, te_origin = origin, te_requester = requester,
        te_flags = map (\<lambda>name. (name, truthy (jget (JObj supplied) name))) flag_names,
        te_status = status, te_submitted_at = now, te_kind = kind,
        te_started_at = (if status = RUNNING then Some now else None), te_finished_at = None, te_task_id = None,
        te_trace_id = None, te_result_ref = None, te_reason = None, te_attempt = attempt\<rparr>))))))))))"

definition assert_transition :: "string \<Rightarrow> string \<Rightarrow> unit res" where
  "assert_transition current target =
     ensure (target \<in> set (case map_of allowed_transitions current of None \<Rightarrow> [] | Some ts \<Rightarrow> ts)) ''TRANSITION_INVALID''"

section \<open>The folded state\<close>

record registry =
  rg_cursor :: cursor
  rg_rows_seen :: nat
  rg_latest_rows :: "(string \<times> json) list"
  rg_arrival :: "(string \<times> nat) list"
  rg_entries :: "(string \<times> task_entry) list"
  rg_ordered :: "task_entry list option"

definition new_registry :: registry where
  "new_registry = \<lparr>rg_cursor = new_cursor, rg_rows_seen = 0, rg_latest_rows = [], rg_arrival = [],
     rg_entries = [], rg_ordered = None\<rparr>"

definition row_id :: "json \<Rightarrow> string option" where
  "row_id row = (if is_obj row then str_or_none (jget row ''registry_entry_id'') else None)"

definition note_row ::
  "(string \<times> json) list \<times> nat \<times> (string \<times> nat) list \<Rightarrow> json \<Rightarrow> (string \<times> json) list \<times> nat \<times> (string \<times> nat) list" where
  "note_row st row = (case st of (changed, seen, arrival) \<Rightarrow> (case row_id row of
       None \<Rightarrow> (changed, seen + 1, arrival)
     | Some i \<Rightarrow> (AList.update i row changed, seen + 1,
         if map_of arrival i = None then AList.update i seen arrival else arrival)))"

fun build_all :: "(string \<times> json) list \<Rightarrow> (string \<times> task_entry) list res" where
  "build_all [] = Inr []"
| "build_all ((i, row) # rest) =
     bindR (from_record row) (\<lambda>e. bindR (build_all rest) (\<lambda>es. Inr ((i, e) # es)))"

definition updated :: "('k \<times> 'v) list \<Rightarrow> ('k \<times> 'v) list \<Rightarrow> ('k \<times> 'v) list" where
  "updated news m = foldl (\<lambda>d kv. AList.update (fst kv) (snd kv) d) m news"

text \<open>
  \<open>_refresh_locked\<close>.  A refusal of \<open>from_record\<close> forgets everything; any other exception leaves the
  cursor, the row count and the arrivals moved on and the entries as they were.
\<close>

definition refresh :: "(nat \<Rightarrow> string) \<Rightarrow> stored \<Rightarrow> registry \<Rightarrow> unit res \<times> registry" where
  "refresh looks f rg = (case read_new ''REGISTRY_UNREADABLE'' looks f (rg_cursor rg) of
     (Inl e, c) \<Rightarrow> (Inl e, rg\<lparr>rg_cursor := c\<rparr>)
   | (Inr (restarted, rows), c) \<Rightarrow>
       let rg = (if restarted then new_registry else rg)\<lparr>rg_cursor := c\<rparr> in
       if rows = [] then (Inr (), rg) else
       let (changed, seen, arrival) = foldl note_row ([], rg_rows_seen rg, rg_arrival rg) rows;
           rg = rg\<lparr>rg_rows_seen := seen, rg_arrival := arrival\<rparr> in
       case build_all changed of
         Inl (Refused code) \<Rightarrow> (Inl (Refused code), new_registry)
       | Inl e \<Rightarrow> (Inl e, rg)
       | Inr built \<Rightarrow> (Inr (), rg\<lparr>rg_latest_rows := updated changed (rg_latest_rows rg),
           rg_entries := updated built (rg_entries rg), rg_ordered := None\<rparr>))"

definition arrival_of :: "registry \<Rightarrow> string \<Rightarrow> nat" where
  "arrival_of rg i = (case map_of (rg_arrival rg) i of None \<Rightarrow> 0 | Some n \<Rightarrow> n)"

definition in_order :: "registry \<Rightarrow> task_entry list" where
  "in_order rg = sort_key (\<lambda>e. (te_submitted_at e, arrival_of rg (te_id e))) (map snd (rg_entries rg))"

section \<open>The store\<close>

record task_desk =
  td_file :: stored
  td_store :: registry

definition locked :: "file_io \<Rightarrow> (task_desk \<Rightarrow> 'a res \<times> task_desk) \<Rightarrow> task_desk \<Rightarrow> 'a res \<times> task_desk" where
  "locked io body w = (if io_lock io then body (w\<lparr>td_file := io_others io (td_file w)\<rparr>)
     else (Inl (Refused ''REGISTRY_WRITE_FAILED''), w))"

definition refresh_locked :: "file_io \<Rightarrow> task_desk \<Rightarrow> unit res \<times> task_desk" where
  "refresh_locked io w = (let (r, rg) = refresh (io_looks io) (td_file w) (td_store w) in (r, w\<lparr>td_store := rg\<rparr>))"

definition latest_locked :: "file_io \<Rightarrow> task_desk \<Rightarrow> task_entry list res \<times> task_desk" where
  "latest_locked io w = bindW (refresh_locked io w) (\<lambda>_ w.
     let rg = td_store w; ordered = (case rg_ordered rg of None \<Rightarrow> in_order rg | Some es \<Rightarrow> es) in
     (Inr ordered, w\<lparr>td_store := rg\<lparr>rg_ordered := Some ordered\<rparr>\<rparr>))"

definition append_entry :: "file_io \<Rightarrow> task_entry \<Rightarrow> task_desk \<Rightarrow> unit res \<times> task_desk" where
  "append_entry io e w =
     (if \<not> entry_row_ok (as_record e) then (Inl (Refused ''REGISTRY_RECORD_INVALID''), w)
      else let (r, f) = append_lines ''REGISTRY_WRITE_FAILED'' (io_fate io) (io_fresh io) [as_record e] (td_file w) in
        (r, w\<lparr>td_file := f\<rparr>))"

definition latest_entries :: "file_io \<Rightarrow> task_desk \<Rightarrow> task_entry list res \<times> task_desk" where
  "latest_entries io w = locked io (\<lambda>w. bindW (latest_locked io w) (\<lambda>es w. (Inr (rev es), w))) w"

definition queued_count :: "file_io \<Rightarrow> task_desk \<Rightarrow> nat res \<times> task_desk" where
  "queued_count io w = bindW (latest_entries io w) (\<lambda>es w. (Inr (length (filter (\<lambda>e. te_status e = QUEUED) es)), w))"

definition claim_next_queued :: "file_io \<Rightarrow> string \<Rightarrow> task_desk \<Rightarrow> task_entry option res \<times> task_desk" where
  "claim_next_queued io now w = locked io (\<lambda>w.
     bindW (latest_locked io w) (\<lambda>es w.
     case find (\<lambda>e. te_status e = QUEUED) es of None \<Rightarrow> (Inr None, w)
     | Some e \<Rightarrow> let claimed = e\<lparr>te_status := RUNNING, te_started_at := Some now\<rparr> in
         bindW (append_entry io claimed w) (\<lambda>_ w. (Inr (Some claimed), w)))) w"

definition submit :: "file_io \<Rightarrow> task_entry \<Rightarrow> task_desk \<Rightarrow> task_entry res \<times> task_desk" where
  "submit io e w = bindW (locked io (append_entry io e) w) (\<lambda>_ w. (Inr e, w))"

definition submit_within_depth :: "file_io \<Rightarrow> task_entry \<Rightarrow> nat \<Rightarrow> task_desk \<Rightarrow> nat res \<times> task_desk" where
  "submit_within_depth io e limit w = locked io (\<lambda>w.
     bindW (latest_locked io w) (\<lambda>es w.
     let depth = length (filter (\<lambda>q. te_status q = QUEUED) es) in
     if limit \<le> depth then (Inl (Refused ''QUEUE_FULL''), w)
     else bindW (append_entry io e w) (\<lambda>_ w. (Inr depth, w)))) w"

text \<open>What a transition may fill in; what it does not know keeps what was recorded.\<close>

record outcome =
  oc_task_id :: "string option"
  oc_trace_id :: "string option"
  oc_result_ref :: "string option"
  oc_reason :: "string option"

definition filled :: "'a option \<Rightarrow> 'a option \<Rightarrow> 'a option" where
  "filled new old = (if new = None then old else new)"

definition moved :: "task_entry \<Rightarrow> string \<Rightarrow> string \<Rightarrow> outcome \<Rightarrow> task_entry" where
  "moved e target now oc = e\<lparr>te_status := target,
     te_started_at := (if target = RUNNING then Some now else te_started_at e),
     te_finished_at := (if target \<in> set terminal_statuses then Some now else te_finished_at e),
     te_task_id := filled (oc_task_id oc) (te_task_id e), te_trace_id := filled (oc_trace_id oc) (te_trace_id e),
     te_result_ref := filled (oc_result_ref oc) (te_result_ref e), te_reason := oc_reason oc\<rparr>"

definition current_locked :: "file_io \<Rightarrow> string \<Rightarrow> task_desk \<Rightarrow> task_entry res \<times> task_desk" where
  "current_locked io i w = bindW (refresh_locked io w) (\<lambda>_ w.
     (need ''ENTRY_NOT_FOUND'' (map_of (rg_entries (td_store w)) i), w))"

definition transition :: "file_io \<Rightarrow> string \<Rightarrow> string \<Rightarrow> string \<Rightarrow> outcome \<Rightarrow> task_desk \<Rightarrow> task_entry res \<times> task_desk" where
  "transition io i target now oc w = locked io (\<lambda>w.
     bindW (current_locked io i w) (\<lambda>current w.
     bindW (assert_transition (te_status current) target, w) (\<lambda>_ w.
     let e = moved current target now oc in
     bindW (append_entry io e w) (\<lambda>_ w. (Inr e, w))))) w"

section \<open>Looking an entry up\<close>

definition find_entry :: "file_io \<Rightarrow> json \<Rightarrow> task_desk \<Rightarrow> task_entry option res \<times> task_desk" where
  "find_entry io entry_id w =
     (let needle = stripped entry_id in
      if needle = [] then (Inr None, w) else
      bindW (latest_entries io w) (\<lambda>es w.
      let exact = filter (\<lambda>e. te_id e = needle) es;
          by_run = (if startswith needle ''task_'' \<or> startswith needle ''trace_''
            then filter (\<lambda>e. te_task_id e = Some needle \<or> te_trace_id e = Some needle) es else []);
          matches = filter (\<lambda>e. startswith (te_id e) needle) es in
      if exact \<noteq> [] then (Inr (Some (hd exact)), w)
      else if 1 < length by_run then (Inl (Refused ''AMBIGUOUS_ENTRY_ID''), w)
      else if by_run \<noteq> [] then (Inr (Some (hd by_run)), w)
      else if 1 < length matches then (Inl (Refused ''AMBIGUOUS_ENTRY_ID''), w)
      else (Inr (if matches = [] then None else Some (hd matches)), w)))"

definition find_by_attempt :: "file_io \<Rightarrow> json \<Rightarrow> task_desk \<Rightarrow> task_entry option res \<times> task_desk" where
  "find_by_attempt io attempt_id w =
     (if stripped attempt_id = [] then (Inr None, w) else
      bindW (latest_entries io w) (\<lambda>es w. (Inr (find (\<lambda>e. te_attempt e = Some (stripped attempt_id)) es), w)))"

section \<open>Opening, closing, reconciling\<close>

definition no_outcome :: outcome where
  "no_outcome = \<lparr>oc_task_id = None, oc_trace_id = None, oc_result_ref = None, oc_reason = None\<rparr>"

definition abandoned :: outcome where
  "abandoned = no_outcome\<lparr>oc_reason := Some ''RUN_ABANDONED''\<rparr>"

fun close_all :: "(nat \<Rightarrow> file_io) \<Rightarrow> string \<Rightarrow> task_entry list \<Rightarrow> nat \<Rightarrow> task_desk \<Rightarrow> task_entry list res \<times> task_desk" where
  "close_all ios now [] n w = (Inr [], w)"
| "close_all ios now (e # es) n w =
     bindW (transition (ios n) (te_id e) FAILED now abandoned w) (\<lambda>x w.
     bindW (close_all ios now es (n + 1) w) (\<lambda>xs w. (Inr (x # xs), w)))"

definition reconcile_stale_running ::
  "(nat \<Rightarrow> file_io) \<Rightarrow> string \<Rightarrow> string list \<Rightarrow> task_desk \<Rightarrow> task_entry list res \<times> task_desk" where
  "reconcile_stale_running ios now owned w =
     bindW (latest_entries (ios 0) w) (\<lambda>es w.
     close_all ios now (filter (\<lambda>e. te_status e = RUNNING \<and> te_origin e \<in> set owned) es) 1 w)"

definition enqueue ::
  "file_io \<Rightarrow> (string \<Rightarrow> string) \<Rightarrow> json \<Rightarrow> string \<Rightarrow> json \<Rightarrow> string \<Rightarrow> (string \<times> json) list \<Rightarrow> json \<Rightarrow> task_desk \<Rightarrow>
   (task_entry \<times> nat) res \<times> task_desk" where
  "enqueue io H request_text origin requester_id now flags request_kind w =
     bindW (build_entry H request_text origin requester_id now flags request_kind QUEUED JNull, w) (\<lambda>e w.
     bindW (submit_within_depth io e queue_depth_limit w) (\<lambda>depth w. (Inr (e, depth + 1), w)))"

text \<open>The best-effort seam: a refusal (\<open>TaskRegistryBlocked\<close>, \<open>PersistenceError\<close>) is swallowed.\<close>

definition best_effort :: "'a \<Rightarrow> 'a res \<times> task_desk \<Rightarrow> 'a res \<times> task_desk" where
  "best_effort dflt m = (case m of (Inl (Refused _), w) \<Rightarrow> (Inr dflt, w) | _ \<Rightarrow> m)"

definition record_submission ::
  "file_io \<Rightarrow> (string \<Rightarrow> string) \<Rightarrow> json \<Rightarrow> string \<Rightarrow> json \<Rightarrow> string \<Rightarrow> (string \<times> json) list \<Rightarrow> json \<Rightarrow> json \<Rightarrow> task_desk \<Rightarrow>
   task_entry option res \<times> task_desk" where
  "record_submission io H request_text origin requester_id now flags request_kind attempt_id w =
     best_effort None
       (bindW (build_entry H request_text origin requester_id now flags request_kind RUNNING attempt_id, w) (\<lambda>e w.
        bindW (submit io e w) (\<lambda>e w. (Inr (Some e), w))))"

definition close_entry ::
  "file_io \<Rightarrow> task_entry option \<Rightarrow> string \<Rightarrow> string \<Rightarrow> outcome \<Rightarrow> task_desk \<Rightarrow> unit res \<times> task_desk" where
  "close_entry io entry status now oc w = (case entry of None \<Rightarrow> (Inr (), w)
     | Some e \<Rightarrow> best_effort () (bindW (transition io (te_id e) status now oc w) (\<lambda>_ w. (Inr (), w))))"

end
