(* ===== verification/Registry_Facts.thy ===== *)
theory Registry_Facts
  imports Task_Registry
begin

text \<open>
  What a process has folded is what the file says.  \<open>registry_view\<close> reads the whole file at once;
  \<open>folded_from\<close> relates a registry to the rows it has read, and every operation keeps it.
\<close>

section \<open>Dictionaries built in two parts\<close>

lemma update_swap:
  "k \<in> fst ` set m \<Longrightarrow> k \<noteq> j \<Longrightarrow> AList.update k v (AList.update j w m) = AList.update j w (AList.update k v m)"
  by (induction m) auto

lemma updated_Nil [simp]: "updated [] m = m"
  by (simp add: updated_def)

lemma updated_Cons [simp]: "updated ((k, v) # ns) m = updated ns (AList.update k v m)"
  by (simp add: updated_def)

lemma updated_snoc: "updated (ns @ [(k, v)]) m = AList.update k v (updated ns m)"
  by (simp add: updated_def)

lemma dom_updated: "fst ` set (updated ns m) = fst ` set ns \<union> fst ` set m"
proof (induction ns arbitrary: m)
  case (Cons n ns)
  then show ?case by (cases n) (simp add: dom_update)
qed simp

lemma update_updated:
  "k \<in> fst ` set m \<Longrightarrow> k \<notin> fst ` set ns \<Longrightarrow> AList.update k v (updated ns m) = updated ns (AList.update k v m)"
proof (induction ns arbitrary: m)
  case (Cons n ns)
  obtain j w where n: "n = (j, w)" by (cases n)
  have "k \<in> fst ` set (AList.update j w m)" using Cons.prems(1) by (simp add: dom_update)
  with Cons n update_swap [of k m j v w] show ?case by simp
qed simp

lemma update_twice: "AList.update k v (AList.update k w m) = AList.update k v m"
  by (induction m) auto

lemma updated_update:
  "distinct (map fst ns) \<Longrightarrow> updated (AList.update k v ns) m = AList.update k v (updated ns m)"
proof (induction ns arbitrary: m)
  case (Cons n ns)
  obtain j w where n: "n = (j, w)" by (cases n)
  show ?case
  proof (cases "j = k")
    case True
    have "AList.update k v (updated ns (AList.update k w m)) = updated ns (AList.update k v (AList.update k w m))"
      using Cons.prems n True by (intro update_updated) (auto simp: dom_update)
    with True n show ?thesis by (simp add: update_twice)
  next
    case False
    with Cons n show ?thesis by simp
  qed
qed simp

section \<open>The fold\<close>

definition keep_latest :: "(string \<times> json) list \<Rightarrow> json \<Rightarrow> (string \<times> json) list" where
  "keep_latest d row = (case row_id row of None \<Rightarrow> d | Some i \<Rightarrow> AList.update i row d)"

definition latest_rows :: "json list \<Rightarrow> (string \<times> json) list" where
  "latest_rows rows = foldl keep_latest [] rows"

definition note_arrival :: "nat \<times> (string \<times> nat) list \<Rightarrow> json \<Rightarrow> nat \<times> (string \<times> nat) list" where
  "note_arrival st row = (fst st + 1, case row_id row of None \<Rightarrow> snd st
     | Some i \<Rightarrow> if map_of (snd st) i = None then AList.update i (fst st) (snd st) else snd st)"

definition arrivals :: "json list \<Rightarrow> (string \<times> nat) list" where
  "arrivals rows = snd (foldl note_arrival (0, []) rows)"

lemma note_row_parts:
  "foldl note_row (d, n, a) rows = (foldl keep_latest d rows, foldl note_arrival (n, a) rows)"
  by (induction rows arbitrary: d n a) (auto simp: note_row_def keep_latest_def note_arrival_def split: option.splits)

lemma fst_note_arrival: "fst (foldl note_arrival st rows) = fst st + length rows"
  by (induction rows arbitrary: st) (auto simp: note_arrival_def)

lemma distinct_latest: "distinct (map fst d) \<Longrightarrow> distinct (map fst (foldl keep_latest d rows))"
  by (induction rows arbitrary: d) (auto simp: keep_latest_def distinct_update split: option.splits)

lemma keep_latest_updated: "foldl keep_latest d rows = updated (foldl keep_latest [] rows) d"
proof (induction rows rule: rev_induct)
  case (snoc row rows)
  have "distinct (map fst (foldl keep_latest [] rows))" by (rule distinct_latest) simp
  with snoc show ?case by (auto simp: keep_latest_def [of _ row] updated_update split: option.splits)
qed simp

lemma latest_rows_append: "latest_rows (xs @ ys) = updated (latest_rows ys) (latest_rows xs)"
  by (simp add: latest_rows_def keep_latest_updated [of "foldl keep_latest [] xs"])

lemma arrivals_append: "foldl note_arrival (length xs, arrivals xs) ys = (length (xs @ ys), arrivals (xs @ ys))"
proof -
  have "foldl note_arrival (0, []) xs = (length xs, arrivals xs)"
    using fst_note_arrival [of "(0, [])" xs] by (simp add: arrivals_def prod_eq_iff)
  then have "foldl note_arrival (length xs, arrivals xs) ys = foldl note_arrival (0, []) (xs @ ys)" by simp
  moreover from this have "snd (foldl note_arrival (length xs, arrivals xs) ys) = arrivals (xs @ ys)"
    by (simp add: arrivals_def)
  ultimately show ?thesis using fst_note_arrival [of "(0, [])" "xs @ ys"] by (simp add: prod_eq_iff)
qed

text \<open>Entries are built of the latest rows; without an \<open>AttributeError\<close> there is one refusal.\<close>

definition plain_row :: "json \<Rightarrow> bool" where
  "plain_row row = (truthy (jget row ''flags'') \<longrightarrow> is_obj (jget row ''flags''))"

abbreviation invalid_row :: exn where
  "invalid_row \<equiv> Refused ''REGISTRY_RECORD_INVALID''"

lemma from_record_error: "plain_row r \<Longrightarrow> from_record r = Inl e \<Longrightarrow> e = invalid_row"
  by (auto simp: from_record_def bindR_Inl_iff required_str_def read_flags_def plain_row_def Let_def split: if_splits)

lemma build_all_error: "\<forall>kv \<in> set d. plain_row (snd kv) \<Longrightarrow> build_all d = Inl e \<Longrightarrow> e = invalid_row"
  by (induction d rule: build_all.induct) (auto simp: bindR_Inl_iff dest: from_record_error)

lemma build_all_keys: "build_all d = Inr es \<Longrightarrow> map fst es = map fst d"
  by (induction d arbitrary: es rule: build_all.induct) (auto simp: bindR_Inr_iff)

lemma build_all_update:
  "build_all d = Inr es \<Longrightarrow> build_all (AList.update i r d) =
     bindR (from_record r) (\<lambda>e. Inr (AList.update i e es))"
proof (induction d arbitrary: es rule: build_all.induct)
  case (2 j row rest)
  then obtain e fs where "from_record row = Inr e" "build_all rest = Inr fs" "es = (j, e) # fs"
    by (auto simp: bindR_Inr_iff)
  with 2 show ?case by (cases "from_record r") auto
qed simp

lemma build_all_updated:
  "build_all d = Inr es \<Longrightarrow> build_all ns = Inr fs \<Longrightarrow> build_all (updated ns d) = Inr (updated fs es)"
proof (induction ns arbitrary: d es fs)
  case (Cons n ns)
  obtain i r where n: "n = (i, r)" by (cases n)
  with Cons.prems obtain e gs where "from_record r = Inr e" "build_all ns = Inr gs" "fs = (i, e) # gs"
    by (auto simp: bindR_Inr_iff)
  with Cons n build_all_update [OF Cons.prems(1), of i r] show ?case by simp
qed simp

lemma build_all_Inr: "(\<exists>es. build_all d = Inr es) \<longleftrightarrow> (\<forall>kv \<in> set d. \<exists>e. from_record (snd kv) = Inr e)"
  by (induction d rule: build_all.induct) (auto simp: bindR_Inr_iff)

lemma in_updated: "kv \<in> set ns \<Longrightarrow> distinct (map fst ns) \<Longrightarrow> kv \<in> set (updated ns m)"
proof (induction ns arbitrary: m)
  case (Cons n ns)
  obtain i r where n: "n = (i, r)" by (cases n)
  show ?case
  proof (cases "kv = n")
    case True
    have "map_of (updated ns (AList.update i r m)) i = Some r" if "i \<notin> fst ` set ns" for m
      using that by (induction ns arbitrary: m rule: rev_induct) (auto simp: updated_def update_conv')
    with True n Cons.prems show ?thesis by (auto intro: map_of_SomeD)
  next
    case False
    with Cons n show ?thesis by auto
  qed
qed simp

lemma build_all_updated_error:
  assumes "build_all ns = Inl e" "distinct (map fst ns)" "\<forall>kv \<in> set (updated ns d). plain_row (snd kv)"
  shows "build_all (updated ns d) = Inl invalid_row"
proof -
  from assms(1) have "\<not> (\<forall>kv \<in> set ns. \<exists>e. from_record (snd kv) = Inr e)" using build_all_Inr [of ns] by auto
  then obtain kv where "kv \<in> set ns" "\<nexists>e. from_record (snd kv) = Inr e" by blast
  with in_updated [OF _ assms(2), of kv d] have "\<nexists>es. build_all (updated ns d) = Inr es"
    unfolding build_all_Inr by blast
  then obtain x where "build_all (updated ns d) = Inl x" by (cases "build_all (updated ns d)") auto
  with build_all_error [OF assms(3)] show ?thesis by simp
qed

section \<open>A registry and the file\<close>

text \<open>The whole file read at once: the entries, and where each id first appeared.\<close>

definition registry_view :: "(nat \<Rightarrow> string) \<Rightarrow> stored \<Rightarrow> ((string \<times> task_entry) list \<times> (string \<times> nat) list) res" where
  "registry_view looks f = bindR (read_objects ''REGISTRY_UNREADABLE'' looks f) (\<lambda>rows.
     bindR (build_all (latest_rows rows)) (\<lambda>es. Inr (es, arrivals rows)))"

definition view_order :: "(string \<times> task_entry) list \<times> (string \<times> nat) list \<Rightarrow> task_entry list" where
  "view_order v = sort_key (\<lambda>e. (te_submitted_at e, case map_of (snd v) (te_id e) of None \<Rightarrow> 0 | Some n \<Rightarrow> n))
     (map snd (fst v))"

definition plain_file :: "(nat \<Rightarrow> string) \<Rightarrow> stored \<Rightarrow> bool" where
  "plain_file looks f = (case read_objects ''REGISTRY_UNREADABLE'' looks f of Inl _ \<Rightarrow> True
     | Inr rows \<Rightarrow> list_all plain_row rows)"

definition folded_from :: "stored \<Rightarrow> registry \<Rightarrow> json list \<Rightarrow> bool" where
  "folded_from f rg rows = (in_step f (rg_cursor rg) rows \<and> rg_rows_seen rg = length rows \<and>
     rg_latest_rows rg = latest_rows rows \<and> rg_arrival rg = arrivals rows \<and>
     build_all (latest_rows rows) = Inr (rg_entries rg) \<and>
     (rg_ordered rg = None \<or> rg_ordered rg = Some (in_order rg)))"

lemma view_order_in_order: "view_order (rg_entries rg, rg_arrival rg) = in_order rg"
  by (simp add: view_order_def in_order_def arrival_of_def)

lemma set_update: "set (AList.update k v m) \<subseteq> insert (k, v) (set m)"
  by (induction m) auto

lemma latest_rows_in: "kv \<in> set (latest_rows rows) \<Longrightarrow> snd kv \<in> set rows \<and> row_id (snd kv) = Some (fst kv)"
proof (induction rows arbitrary: kv rule: rev_induct)
  case (snoc row rows)
  then show ?case
    by (cases kv) (auto simp: latest_rows_def keep_latest_def [of _ row] distinct_latest
        dest!: subsetD [OF set_update] split: option.splits)
qed (simp add: latest_rows_def)

lemma empty_folds [simp]: "latest_rows [] = []" "arrivals [] = []"
  by (simp_all add: latest_rows_def arrivals_def)

lemma folded_new: "whole_file f \<Longrightarrow> folded_from f new_registry []"
  by (simp add: folded_from_def new_registry_def in_step_new)

lemma folded_whole: "folded_from f rg rows \<Longrightarrow> whole_file f"
  unfolding folded_from_def using in_step_whole by blast

definition refreshed :: "(nat \<Rightarrow> string) \<Rightarrow> stored \<Rightarrow> unit res \<Rightarrow> registry \<Rightarrow> bool" where
  "refreshed looks f r rg = (case registry_view looks f of
     Inl e \<Rightarrow> r = Inl e \<and> (\<exists>rows. folded_from f rg rows)
   | Inr (es, arr) \<Rightarrow> r = Inr () \<and> rg_entries rg = es \<and> rg_arrival rg = arr \<and>
       (\<exists>rows. folded_from f rg rows \<and> read_objects ''REGISTRY_UNREADABLE'' looks f = Inr rows))"

lemma refresh_read:
  assumes base: "folded_from f base acc" and step: "in_step f c (acc @ new)" and new: "new \<noteq> []"
    and read: "read_objects ''REGISTRY_UNREADABLE'' looks f = Inr (acc @ new)" and plain: "plain_file looks f"
    and r: "r = (case build_all (latest_rows new) of
       Inl (Refused code) \<Rightarrow> (Inl (Refused code), new_registry)
     | Inl e \<Rightarrow> (Inl e, base\<lparr>rg_cursor := c, rg_rows_seen := length (acc @ new), rg_arrival := arrivals (acc @ new)\<rparr>)
     | Inr built \<Rightarrow> (Inr (), base\<lparr>rg_cursor := c, rg_rows_seen := length (acc @ new), rg_arrival := arrivals (acc @ new),
         rg_latest_rows := updated (latest_rows new) (rg_latest_rows base),
         rg_entries := updated built (rg_entries base), rg_ordered := None\<rparr>))"
  shows "refreshed looks f (fst r) (snd r)"
proof (cases "build_all (latest_rows new)")
  case (Inl e)
  have d: "distinct (map fst (latest_rows new))" unfolding latest_rows_def by (rule distinct_latest) simp
  have all: "\<forall>kv \<in> set (latest_rows (acc @ new)). plain_row (snd kv)"
    using plain read latest_rows_in [of _ "acc @ new"] by (auto simp: plain_file_def list_all_iff)
  have "\<forall>kv \<in> set (latest_rows new). plain_row (snd kv)"
    using all in_updated [OF _ d] unfolding latest_rows_append by blast
  with Inl have "e = invalid_row" using build_all_error by blast
  moreover have "build_all (latest_rows (acc @ new)) = Inl invalid_row"
    using build_all_updated_error [OF Inl d] all by (simp add: latest_rows_append)
  ultimately show ?thesis using Inl r read folded_new [OF folded_whole [OF base]]
    by (auto simp: refreshed_def registry_view_def)
next
  case (Inr built)
  from base have "build_all (latest_rows acc) = Inr (rg_entries base)" "rg_latest_rows base = latest_rows acc"
    by (simp_all add: folded_from_def)
  with build_all_updated [OF _ Inr] have "build_all (latest_rows (acc @ new)) = Inr (updated built (rg_entries base))"
    by (simp add: latest_rows_append)
  with Inr r read step \<open>rg_latest_rows base = latest_rows acc\<close> show ?thesis
    by (auto simp: refreshed_def registry_view_def folded_from_def latest_rows_append)
qed

lemma refresh_folded:
  assumes f: "folded_from f rg acc" and plain: "plain_file looks f"
  shows "refreshed looks f (fst (refresh looks f rg)) (snd (refresh looks f rg))"
proof -
  have step: "in_step f (rg_cursor rg) acc" using f by (simp add: folded_from_def)
  note facts = read_new_in_step [OF step, where code = "''REGISTRY_UNREADABLE''" and looks = looks]
  obtain a c where rd: "read_new ''REGISTRY_UNREADABLE'' looks f (rg_cursor rg) = (a, c)" by fastforce
  show ?thesis
  proof (cases a)
    case (Inl e)
    with rd facts(3) have "c = rg_cursor rg" by simp
    with rd Inl have "refresh looks f rg = (Inl e, rg)" by (simp add: refresh_def)
    moreover from facts(1) rd Inl have "read_objects ''REGISTRY_UNREADABLE'' looks f = Inl e" by simp
    then have "registry_view looks f = Inl e" by (simp add: registry_view_def)
    ultimately show ?thesis using f by (simp add: refreshed_def) blast
  next
    case (Inr res)
    obtain restarted new where res: "res = (restarted, new)" by (cases res)
    define base where "base = (if restarted then new_registry else rg)"
    define seen where "seen = (if restarted then [] else acc)"
    have fb: "folded_from f base seen" using f folded_new [OF folded_whole [OF f]] by (simp add: base_def seen_def)
    have sn: "in_step f c (seen @ new)" using facts(2) [of res c] rd Inr by (simp add: folded_def res seen_def)
    have ro: "read_objects ''REGISTRY_UNREADABLE'' looks f = Inr (seen @ new)"
      using facts(1) rd Inr by (simp add: folded_def res seen_def)
    show ?thesis
    proof (cases "new = []")
      case True
      then have "refresh looks f rg = (Inr (), base\<lparr>rg_cursor := c\<rparr>)"
        using rd Inr res by (simp add: refresh_def base_def Let_def)
      with fb sn ro True show ?thesis
        by (auto simp: refreshed_def registry_view_def folded_from_def in_order_def arrival_of_def)
    next
      case False
      have noted: "foldl note_row ([], rg_rows_seen base, rg_arrival base) new =
          (latest_rows new, length (seen @ new), arrivals (seen @ new))"
        using fb arrivals_append [of seen new] by (simp add: note_row_parts folded_from_def latest_rows_def)
      show ?thesis
        by (rule refresh_read [OF fb sn False ro plain])
           (use rd Inr res False noted in \<open>simp add: refresh_def base_def [symmetric] Let_def split: sum.splits exn.splits\<close>)
    qed
  qed
qed

text \<open>A process that has followed the file for a long time answers as one that starts now.\<close>

lemma latest_locked_view:
  assumes f: "folded_from (td_file w) (td_store w) acc" and plain: "plain_file (io_looks io) (td_file w)"
  shows "fst (latest_locked io w) = bindR (registry_view (io_looks io) (td_file w)) (\<lambda>v. Inr (view_order v))"
    "td_file (snd (latest_locked io w)) = td_file w"
    "\<exists>rows. folded_from (td_file w) (td_store (snd (latest_locked io w))) rows \<and>
      (\<forall>es. fst (latest_locked io w) = Inr es \<longrightarrow> read_objects ''REGISTRY_UNREADABLE'' (io_looks io) (td_file w) = Inr rows)"
proof -
  obtain r rg where rf: "refresh (io_looks io) (td_file w) (td_store w) = (r, rg)" by fastforce
  with refresh_folded [OF f plain] have ok: "refreshed (io_looks io) (td_file w) r rg" by simp
  have "fst (latest_locked io w) = bindR (registry_view (io_looks io) (td_file w)) (\<lambda>v. Inr (view_order v)) \<and>
    td_file (snd (latest_locked io w)) = td_file w \<and>
    (\<exists>rows. folded_from (td_file w) (td_store (snd (latest_locked io w))) rows \<and>
      (\<forall>es. fst (latest_locked io w) = Inr es \<longrightarrow> read_objects ''REGISTRY_UNREADABLE'' (io_looks io) (td_file w) = Inr rows))"
  proof (cases "registry_view (io_looks io) (td_file w)")
    case (Inl e)
    with ok obtain rows where "r = Inl e" "folded_from (td_file w) rg rows" by (auto simp: refreshed_def)
    with rf Inl show ?thesis by (auto simp: latest_locked_def refresh_locked_def)
  next
    case (Inr v)
    obtain es arr where v: "v = (es, arr)" by (cases v)
    with ok Inr obtain rows where rg: "r = Inr ()" "rg_entries rg = es" "rg_arrival rg = arr" "folded_from (td_file w) rg rows"
      "read_objects ''REGISTRY_UNREADABLE'' (io_looks io) (td_file w) = Inr rows" by (auto simp: refreshed_def)
    then have ord: "(case rg_ordered rg of None \<Rightarrow> in_order rg | Some es \<Rightarrow> es) = view_order v"
      using view_order_in_order [of rg] v by (auto simp: folded_from_def)
    have "folded_from (td_file w) (rg\<lparr>rg_ordered := Some (in_order rg)\<rparr>) rows"
      using rg(4) by (simp add: folded_from_def in_order_def arrival_of_def)
    moreover have "in_order rg = view_order v" using view_order_in_order [of rg] v rg by simp
    ultimately show ?thesis using rf rg(1,5) ord Inr
      by (auto simp: latest_locked_def refresh_locked_def Let_def cong: option.case_cong)
  qed
  then show "fst (latest_locked io w) = bindR (registry_view (io_looks io) (td_file w)) (\<lambda>v. Inr (view_order v))"
    "td_file (snd (latest_locked io w)) = td_file w"
    "\<exists>rows. folded_from (td_file w) (td_store (snd (latest_locked io w))) rows \<and>
      (\<forall>es. fst (latest_locked io w) = Inr es \<longrightarrow> read_objects ''REGISTRY_UNREADABLE'' (io_looks io) (td_file w) = Inr rows)"
    by blast+
qed

end
