(* ===== verification/Registry_Runs.thy ===== *)
theory Registry_Runs
  imports Registry_Facts
begin

text \<open>
  The processes that share one registry file, and what each operation does to it.  \<open>holds f es\<close>:
  the file is the rows of the entries \<open>es\<close>, in the order they were written.
\<close>

section \<open>A row and its entry\<close>

definition norm_entry :: "task_entry \<Rightarrow> task_entry" where
  "norm_entry e = e\<lparr>te_flags := map (\<lambda>name. (name, flag_of (te_flags e) name)) flag_names\<rparr>"

lemma norm_entry_simps [simp]:
  "te_id (norm_entry e) = te_id e" "te_status (norm_entry e) = te_status e"
  "te_submitted_at (norm_entry e) = te_submitted_at e" "te_origin (norm_entry e) = te_origin e"
  "te_attempt (norm_entry e) = te_attempt e"
  by (simp_all add: norm_entry_def)

lemma storable_record [simp]: "storable (as_record e)"
  by (auto simp: as_record_def of_opt_def flag_names_def split: option.splits)

lemma canon_leaf [simp]: "canon (of_opt v) = of_opt v"
  by (cases v) simp_all

lemma record_fields:
  "jget (canon (as_record e)) ''registry_entry_id'' = JStr (te_id e)"
  "jget (canon (as_record e)) ''status'' = JStr (te_status e)"
  "jget (canon (as_record e)) ''request_text'' = JStr (te_text e)"
  "jget (canon (as_record e)) ''origin'' = JStr (te_origin e)"
  "jget (canon (as_record e)) ''requester_id'' = JStr (te_requester e)"
  "jget (canon (as_record e)) ''submitted_at'' = JStr (te_submitted_at e)"
  "jget (canon (as_record e)) ''request_kind'' = of_opt (te_kind e)"
  "jget (canon (as_record e)) ''started_at'' = of_opt (te_started_at e)"
  "jget (canon (as_record e)) ''finished_at'' = of_opt (te_finished_at e)"
  "jget (canon (as_record e)) ''task_id'' = of_opt (te_task_id e)"
  "jget (canon (as_record e)) ''trace_id'' = of_opt (te_trace_id e)"
  "jget (canon (as_record e)) ''result_ref'' = of_opt (te_result_ref e)"
  "jget (canon (as_record e)) ''last_reason_code'' = of_opt (te_reason e)"
  "jget (canon (as_record e)) ''attempt_id'' = of_opt (te_attempt e)"
  "jget (canon (as_record e)) ''flags'' =
     canon (JObj (map (\<lambda>name. (name, JBool (flag_of (te_flags e) name))) flag_names))"
  by (simp_all add: jget_canon del: canon.simps) (simp_all add: as_record_def del: canon.simps(2))

lemma is_obj_canon: "is_obj (canon j) = is_obj j"
  by (cases j) simp_all

lemma is_obj_record [simp]: "is_obj (as_record e)"
  by (simp add: as_record_def)

lemma row_id_record [simp]: "row_id (canon (as_record e)) = Some (te_id e)"
  by (simp add: row_id_def record_fields is_obj_canon)

lemma opt_str_of_opt [simp]: "opt_str (of_opt v) = v"
  by (cases v) (simp_all add: opt_str_def)

lemma has_key_jget: "jget j k \<noteq> JNull \<Longrightarrow> has_key j k"
  by (auto simp: jget_def has_key_def split: option.splits)

lemma required_record: "jget r k = JStr s \<Longrightarrow> required_str r k = Inr s"
  by (simp add: required_str_def has_key_jget)

lemma read_flags_record: "read_flags (canon (as_record e)) = Inr (te_flags (norm_entry e))"
proof -
  let ?fs = "JObj (map (\<lambda>name. (name, JBool (flag_of (te_flags e) name))) flag_names)"
  have "truthy (canon ?fs)" by (simp add: flag_names_def truthy_def)
  moreover have "truthy (jget (canon ?fs) n) = flag_of (te_flags e) n" if "n \<in> set flag_names" for n
    using that by (auto simp: jget_canon flag_names_def simp del: canon.simps(2))
  ultimately show ?thesis by (auto simp: read_flags_def record_fields Let_def norm_entry_def is_obj_canon simp del: canon.simps(2))
qed

lemma plain_record [simp]: "plain_row (canon (as_record e))"
  by (simp add: plain_row_def record_fields is_obj_canon del: canon.simps)

lemma from_record_as_record:
  "map_of allowed_transitions (te_status e) \<noteq> None \<Longrightarrow> from_record (canon (as_record e)) = Inr (norm_entry e)"
  using required_record [OF record_fields(1), of e] required_record [OF record_fields(2), of e]
    required_record [OF record_fields(3), of e] required_record [OF record_fields(4), of e]
    required_record [OF record_fields(5), of e] required_record [OF record_fields(6), of e]
  by (simp add: from_record_def read_flags_record record_fields norm_entry_def)

section \<open>A file of entries\<close>

definition entry_text :: "task_entry list \<Rightarrow> string" where
  "entry_text es = concat (map (row_text \<circ> as_record) es)"

definition holds :: "stored \<Rightarrow> task_entry list \<Rightarrow> bool" where
  "holds f es = ((case f of Missing \<Rightarrow> es = [] | Denied \<Rightarrow> False | Stored _ s \<Rightarrow> s = entry_text es) \<and>
     (\<forall>e \<in> set es. map_of allowed_transitions (te_status e) \<noteq> None))"

definition entry_rows :: "task_entry list \<Rightarrow> json list" where
  "entry_rows es = map (canon \<circ> as_record) es"

lemma entry_rows_text: "rows_of (file_lines (entry_text es)) = Some (entry_rows es)"
  using rows_of_text [of "map as_record es"] by (simp add: entry_text_def entry_rows_def comp_def)

lemma whole_entries [simp]: "whole (entry_text es)"
  using whole_rows [of "map as_record es"] by (simp add: entry_text_def comp_def)

lemma holds_whole: "holds f es \<Longrightarrow> whole_file f"
  by (auto simp: holds_def whole_file_def split: stored.splits)

lemma holds_read: "holds f es \<Longrightarrow> read_objects code looks f = Inr (entry_rows es)"
proof (cases f)
  case Missing
  then show "holds f es \<Longrightarrow> ?thesis"
    by (simp add: holds_def entry_rows_def read_objects_def iter_objects_def iter_numbered_def)
next
  case (Stored i s)
  then show "holds f es \<Longrightarrow> ?thesis" by (simp add: holds_def read_objects_whole entry_rows_text)
qed (simp add: holds_def)

lemma holds_plain: "holds f es \<Longrightarrow> plain_file looks f"
  by (simp add: plain_file_def holds_read entry_rows_def list_all_iff)

text \<open>The latest entry of each id, in the order the ids first appeared.\<close>

definition latest_entry :: "task_entry list \<Rightarrow> (string \<times> task_entry) list" where
  "latest_entry es = foldl (\<lambda>d e. AList.update (te_id e) (norm_entry e) d) [] es"

lemma latest_entry_snoc: "latest_entry (es @ [e]) = AList.update (te_id e) (norm_entry e) (latest_entry es)"
  by (simp add: latest_entry_def)

lemma latest_entry_by:
  "map_of (latest_entry es) i = map_option norm_entry (latest_by (\<lambda>e. Some (te_id e)) es i)"
  by (induction es rule: rev_induct)
     (auto simp: latest_entry_def update_conv' latest_step_def)

lemma distinct_latest_entry: "distinct (map fst (latest_entry es))"
  by (induction es rule: rev_induct) (simp_all add: latest_entry_def distinct_update)

lemma latest_entry_id: "(i, e) \<in> set (latest_entry es) \<Longrightarrow> te_id e = i"
  by (induction es arbitrary: i e rule: rev_induct)
     (auto simp: latest_entry_def dest!: subsetD [OF set_update])

lemma build_entries:
  "\<forall>e \<in> set es. map_of allowed_transitions (te_status e) \<noteq> None \<Longrightarrow>
   build_all (latest_rows (entry_rows es)) = Inr (latest_entry es)"
proof (induction es rule: rev_induct)
  case (snoc e es)
  then have "build_all (latest_rows (entry_rows es)) = Inr (latest_entry es)" by simp
  from build_all_update [OF this, of "te_id e" "canon (as_record e)"] snoc.prems from_record_as_record [of e]
  show ?case by (simp add: entry_rows_def latest_rows_def keep_latest_def [of _ "canon (as_record e)"] latest_entry_snoc)
qed (simp add: entry_rows_def latest_entry_def)

lemma holds_view: "holds f es \<Longrightarrow> registry_view looks f = Inr (latest_entry es, arrivals (entry_rows es))"
  using build_entries [of es] by (simp add: registry_view_def holds_read holds_def)

definition queue_order :: "task_entry list \<Rightarrow> task_entry list" where
  "queue_order es = view_order (latest_entry es, arrivals (entry_rows es))"

lemma set_queue_order: "set (queue_order es) = snd ` set (latest_entry es)"
  by (simp add: queue_order_def view_order_def)

section \<open>Operations\<close>

datatype task_op = Look | Claim string | Submit_Row task_entry | Submit_Queued task_entry nat
  | Move string string string outcome

fun run_op :: "file_io \<Rightarrow> task_op \<Rightarrow> task_desk \<Rightarrow> task_desk" where
  "run_op io Look w = snd (latest_entries io w)"
| "run_op io (Claim now) w = snd (claim_next_queued io now w)"
| "run_op io (Submit_Row e) w = snd (submit io e w)"
| "run_op io (Submit_Queued e limit) w = snd (submit_within_depth io e limit w)"
| "run_op io (Move i target now oc) w = snd (transition io i target now oc w)"

text \<open>
  A step's surroundings: other processes take steps of their own, and a write lands whole or the
  file could not be opened.
\<close>

definition undisturbed :: "file_io \<Rightarrow> bool" where
  "undisturbed io = (io_others io = id \<and> io_fate io \<in> {Written, Not_Opened})"

definition opens :: "stored \<Rightarrow> task_op \<Rightarrow> bool" where
  "opens f op = (\<forall>e. (op = Submit_Row e \<or> (\<exists>n. op = Submit_Queued e n)) \<longrightarrow>
     te_status e \<in> {QUEUED, RUNNING} \<and>
     (\<forall>rows. read_objects ''REGISTRY_UNREADABLE'' (\<lambda>_. []) f = Inr rows \<longrightarrow>
       (\<forall>r \<in> set rows. row_id r \<noteq> Some (te_id e))))"

text \<open>
  Any number of processes over one file.  Each keeps its own folded state, starts when it likes and
  starts again; \<open>ok\<close> says which operations are taken.
\<close>

inductive registry_run :: "(task_op \<Rightarrow> bool) \<Rightarrow> stored \<Rightarrow> (nat \<Rightarrow> registry) \<Rightarrow> bool" for ok where
  nothing_yet: "registry_run ok Missing (\<lambda>_. new_registry)"
| starts: "registry_run ok f stores \<Longrightarrow> registry_run ok f (stores(p := new_registry))"
| steps: "registry_run ok f stores \<Longrightarrow> ok op \<Longrightarrow> opens f op \<Longrightarrow> undisturbed io \<Longrightarrow>
    run_op io op \<lparr>td_file = f, td_store = stores p\<rparr> = w \<Longrightarrow>
    registry_run ok (td_file w) (stores(p := td_store w))"

text \<open>What one operation may write.\<close>

definition lawful :: "task_entry list \<Rightarrow> task_entry \<Rightarrow> bool" where
  "lawful es x = ((te_status x \<in> {QUEUED, RUNNING} \<and> te_id x \<notin> te_id ` set es) \<or>
     (\<exists>q ts. map_of (latest_entry es) (te_id x) = Some q \<and> map_of allowed_transitions (te_status q) = Some ts \<and>
        te_status x \<in> set ts))"

definition folded_world :: "task_desk \<Rightarrow> bool" where
  "folded_world w = ((\<exists>rows. folded_from (td_file w) (td_store w) rows) \<and>
     (td_file w = Missing \<longrightarrow> ac_identity (rg_cursor (td_store w)) = None))"

text \<open>A file that grew by whole rows, or was made by its first write.\<close>

definition grows :: "stored \<Rightarrow> stored \<Rightarrow> bool" where
  "grows f g = (f = g \<or> (\<exists>i s t. f = Stored i s \<and> g = Stored i (s @ t) \<and> whole t) \<or>
     (f = Missing \<and> (\<exists>i t. g = Stored i t \<and> whole t)))"

lemma in_step_grown:
  "in_step (Stored i s) c acc \<Longrightarrow> whole t \<Longrightarrow> in_step (Stored i (s @ t)) c acc"
proof -
  assume a: "in_step (Stored i s) c acc" "whole t"
  then have "whole_file (Stored i (s @ t))" by (simp add: in_step_def whole_file_def whole_append)
  with a show ?thesis by (fastforce simp: in_step_def split: option.splits)
qed

lemma folded_grown:
  assumes "folded_from f rg rows" "grows f g" "f = Missing \<Longrightarrow> ac_identity (rg_cursor rg) = None"
  shows "folded_from g rg rows"
proof (cases "f = g")
  case False
  with assms(2) consider i s t where "f = Stored i s" "g = Stored i (s @ t)" "whole t"
    | i t where "f = Missing" "g = Stored i t" "whole t" by (auto simp: grows_def)
  then show ?thesis
  proof cases
    case 1
    with assms(1) in_step_grown show ?thesis by (simp add: folded_from_def)
  next
    case 2
    with assms show ?thesis by (auto simp: folded_from_def in_step_def whole_file_def)
  qed
qed (use assms in simp)

lemma append_entry_holds:
  assumes "holds (td_file w) es" "map_of allowed_transitions (te_status e) \<noteq> None" "io_fate io \<in> {Written, Not_Opened}"
    and "append_entry io e w = (r, w')"
  shows "td_store w' = td_store w \<and> grows (td_file w) (td_file w') \<and>
    (if r = Inr () then holds (td_file w') (es @ [e]) else w' = w)"
proof -
  have line: "whole (row_text (as_record e))" by (simp add: whole_def row_text_def)
  show ?thesis
  proof (cases "td_file w")
    case Missing
    with assms line show ?thesis
      by (auto simp: append_entry_def append_lines_def holds_def grows_def entry_text_def split: if_splits)
  next
    case Denied
    with assms(1) show ?thesis by (simp add: holds_def)
  next
    case (Stored i s)
    with assms line show ?thesis
      by (auto simp: append_entry_def append_lines_def holds_def grows_def entry_text_def split: if_splits)
  qed
qed

lemma refresh_missing: "ac_identity (rg_cursor (snd (refresh looks Missing rg))) = None"
  by (simp add: refresh_def read_new_def new_cursor_def Let_def)

lemma folded_world_grown:
  "folded_world w \<Longrightarrow> td_store v = td_store w \<Longrightarrow> grows (td_file w) (td_file v) \<Longrightarrow> folded_world v"
  using folded_grown [of "td_file w" "td_store w" _ "td_file v"]
  by (auto simp: folded_world_def grows_def)

lemma latest_locked_entries:
  assumes "holds (td_file w) es" "folded_world w"
  obtains v where "latest_locked io w = (Inr (queue_order es), v)" "td_file v = td_file w" "folded_world v"
proof -
  from assms(2) obtain acc where acc: "folded_from (td_file w) (td_store w) acc" by (auto simp: folded_world_def)
  note view = latest_locked_view [OF acc holds_plain [OF assms(1)], where io = io]
  have "fst (latest_locked io w) = Inr (queue_order es)"
    using view(1) holds_view [OF assms(1)] by (simp add: queue_order_def)
  moreover have "td_file w = Missing \<Longrightarrow> ac_identity (rg_cursor (td_store (snd (latest_locked io w)))) = None"
    using refresh_missing [of "io_looks io" "td_store w"]
    by (auto simp: latest_locked_def refresh_locked_def bindW_def Let_def split: prod.splits sum.splits)
  ultimately show thesis using that [of "snd (latest_locked io w)"] view(2,3)
    by (auto simp: folded_world_def prod_eq_iff)
qed

lemma current_locked_entries:
  assumes "holds (td_file w) es" "folded_world w"
  obtains v where "current_locked io i w = (need ''ENTRY_NOT_FOUND'' (map_of (latest_entry es) i), v)"
    "td_file v = td_file w" "folded_world v"
proof -
  from assms(2) obtain acc where acc: "folded_from (td_file w) (td_store w) acc" by (auto simp: folded_world_def)
  obtain r rg where rf: "refresh (io_looks io) (td_file w) (td_store w) = (r, rg)" by fastforce
  from refresh_folded [OF acc holds_plain [OF assms(1)], of "io_looks io"] rf holds_view [OF assms(1), of "io_looks io"]
  have ok: "r = Inr ()" "rg_entries rg = latest_entry es" "\<exists>rows. folded_from (td_file w) rg rows"
    by (auto simp: refreshed_def)
  have "td_file w = Missing \<Longrightarrow> ac_identity (rg_cursor rg) = None"
    using refresh_missing [of "io_looks io" "td_store w"] rf by simp
  with that [of "w\<lparr>td_store := rg\<rparr>"] ok rf show thesis
    by (auto simp: current_locked_def refresh_locked_def folded_world_def)
qed

text \<open>An operation writes nothing, or one lawful entry that satisfies \<open>P\<close>.\<close>

definition advanced :: "(task_entry \<Rightarrow> bool) \<Rightarrow> task_entry list \<Rightarrow> task_desk \<Rightarrow> task_desk \<Rightarrow> bool" where
  "advanced P es w v = (folded_world v \<and> grows (td_file w) (td_file v) \<and>
     (holds (td_file v) es \<or> (\<exists>x. P x \<and> lawful es x \<and> holds (td_file v) (es @ [x]))))"

lemma advanced_still:
  "holds (td_file w) es \<Longrightarrow> td_file v = td_file w \<Longrightarrow> folded_world v \<Longrightarrow> advanced P es w v"
  by (simp add: advanced_def grows_def)

lemma advanced_append:
  assumes "holds (td_file w) es" "td_file u = td_file w" "folded_world u" "io_fate io \<in> {Written, Not_Opened}"
    and "lawful es x" "append_entry io x u = (r, v)" "P x"
  shows "advanced P es w v" "r = Inr () \<Longrightarrow> holds (td_file v) (es @ [x])"
proof -
  have "map_of allowed_transitions (te_status x) \<noteq> None" using assms(5)
    by (auto simp: lawful_def allowed_transitions_def status_defs split: if_splits)
  from append_entry_holds [OF _ this assms(4,6)] assms(1,2)
  have "td_store v = td_store u" "grows (td_file u) (td_file v)"
    "if r = Inr () then holds (td_file v) (es @ [x]) else v = u" by auto
  with assms folded_world_grown [of u v] show "advanced P es w v" "r = Inr () \<Longrightarrow> holds (td_file v) (es @ [x])"
    by (auto simp: advanced_def split: if_splits)
qed

lemma latest_member:
  assumes "e \<in> set (queue_order es)"
  shows "map_of (latest_entry es) (te_id e) = Some e"
proof -
  from assms obtain i where i: "(i, e) \<in> set (latest_entry es)" by (auto simp: set_queue_order)
  with latest_entry_id [OF i] distinct_latest_entry show ?thesis by (simp add: map_of_is_SomeI)
qed

lemma locked_undisturbed:
  "undisturbed io \<Longrightarrow> locked io body w = (if io_lock io then body w else (Inl (Refused ''REGISTRY_WRITE_FAILED''), w))"
  by (simp add: locked_def undisturbed_def)

text \<open>The claim, in detail.\<close>

definition claimed_of :: "task_entry \<Rightarrow> string \<Rightarrow> task_entry" where
  "claimed_of q now = q\<lparr>te_status := RUNNING, te_started_at := Some now\<rparr>"

lemma claim_effect:
  assumes w: "holds (td_file w) es" "folded_world w" and io: "undisturbed io"
    and run: "claim_next_queued io now w = (r, v)"
  shows "advanced (\<lambda>x. te_status x = RUNNING) es w v"
    and "r = Inr None \<Longrightarrow> find (\<lambda>e. te_status e = QUEUED) (queue_order es) = None \<and> td_file v = td_file w"
    and "r = Inr (Some c) \<Longrightarrow> \<exists>q. find (\<lambda>e. te_status e = QUEUED) (queue_order es) = Some q \<and>
      c = claimed_of q now \<and> holds (td_file v) (es @ [c])"
proof -
  have "advanced (\<lambda>x. te_status x = RUNNING) es w v \<and> (r = Inr None \<longrightarrow> find (\<lambda>e. te_status e = QUEUED) (queue_order es) = None \<and> td_file v = td_file w) \<and>
    (\<forall>c. r = Inr (Some c) \<longrightarrow> (\<exists>q. find (\<lambda>e. te_status e = QUEUED) (queue_order es) = Some q \<and>
      c = claimed_of q now \<and> holds (td_file v) (es @ [c])))"
  proof (cases "io_lock io")
    case False
    with run io w show ?thesis by (auto simp: claim_next_queued_def locked_undisturbed advanced_still)
  next
    case True
    obtain u where u: "latest_locked io w = (Inr (queue_order es), u)" "td_file u = td_file w" "folded_world u"
      using latest_locked_entries [OF w] by metis
    show ?thesis
    proof (cases "find (\<lambda>e. te_status e = QUEUED) (queue_order es)")
      case None
      with run True io u w show ?thesis by (auto simp: claim_next_queued_def locked_undisturbed advanced_still)
    next
      case (Some q)
      then have q: "te_status q = QUEUED" "q \<in> set (queue_order es)" by (auto simp: find_Some_iff)
      from latest_member [OF q(2)] q(1) have law: "lawful es (claimed_of q now)"
        by (simp add: lawful_def claimed_of_def allowed_transitions_def)
      obtain s v' where a: "append_entry io (claimed_of q now) u = (s, v')" by fastforce
      have fate: "io_fate io \<in> {Written, Not_Opened}" using io by (simp add: undisturbed_def)
      from run True io u Some a have "v = v'" "r = (case s of Inl e \<Rightarrow> Inl e | Inr _ \<Rightarrow> Inr (Some (claimed_of q now)))"
        by (auto simp: claim_next_queued_def locked_undisturbed claimed_of_def [symmetric] bindW_def Let_def split: sum.splits)
      moreover have "te_status (claimed_of q now) = RUNNING" by (simp add: claimed_of_def)
      ultimately show ?thesis using advanced_append [OF w(1) u(2,3) fate law a] Some by (auto split: sum.splits)
    qed
  qed
  then show "advanced (\<lambda>x. te_status x = RUNNING) es w v"
    "r = Inr None \<Longrightarrow> find (\<lambda>e. te_status e = QUEUED) (queue_order es) = None \<and> td_file v = td_file w"
    "r = Inr (Some c) \<Longrightarrow> \<exists>q. find (\<lambda>e. te_status e = QUEUED) (queue_order es) = Some q \<and>
      c = claimed_of q now \<and> holds (td_file v) (es @ [c])" by auto
qed

lemma submit_effect:
  assumes w: "holds (td_file w) es" "folded_world w" and io: "undisturbed io" and law: "lawful es e"
    and run: "submit io e w = (r, v)"
  shows "advanced (\<lambda>x. x = e) es w v"
proof (cases "io_lock io")
  case False
  with run io w show ?thesis by (auto simp: submit_def locked_undisturbed advanced_still)
next
  case True
  obtain s u where a: "append_entry io e w = (s, u)" by fastforce
  have "io_fate io \<in> {Written, Not_Opened}" using io by (simp add: undisturbed_def)
  from advanced_append(1) [OF w(1) HOL.refl w(2) this law a, where P = "\<lambda>x. x = e"] run True io a show ?thesis
    by (cases s) (auto simp: submit_def locked_undisturbed)
qed

definition waiting :: "task_entry list \<Rightarrow> nat" where
  "waiting es = length (filter (\<lambda>q. te_status q = QUEUED) (queue_order es))"

lemma submit_within_effect:
  assumes w: "holds (td_file w) es" "folded_world w" and io: "undisturbed io" and law: "lawful es e"
    and run: "submit_within_depth io e limit w = (r, v)"
  shows "advanced (\<lambda>x. x = e) es w v" "td_file v = td_file w \<or> waiting es < limit"
proof -
  have "advanced (\<lambda>x. x = e) es w v \<and> (td_file v = td_file w \<or> waiting es < limit)"
  proof (cases "io_lock io")
    case False
    with run io w show ?thesis by (auto simp: submit_within_depth_def locked_undisturbed advanced_still)
  next
    case True
    obtain u where u: "latest_locked io w = (Inr (queue_order es), u)" "td_file u = td_file w" "folded_world u"
      using latest_locked_entries [OF w] by metis
    show ?thesis
    proof (cases "limit \<le> waiting es")
      case full: True
      with run True io u w show ?thesis
        by (auto simp: submit_within_depth_def locked_undisturbed advanced_still waiting_def Let_def)
    next
      case False
      obtain s v' where a: "append_entry io e u = (s, v')" by fastforce
      have fate: "io_fate io \<in> {Written, Not_Opened}" using io by (simp add: undisturbed_def)
      from run True io u False a have "v = v'"
        by (auto simp: submit_within_depth_def locked_undisturbed waiting_def bindW_def Let_def split: sum.splits)
      with advanced_append(1) [OF w(1) u(2,3) fate law a, where P = "\<lambda>x. x = e"] False show ?thesis by simp
    qed
  qed
  then show "advanced (\<lambda>x. x = e) es w v" "td_file v = td_file w \<or> waiting es < limit" by simp_all
qed

lemma transition_effect:
  assumes w: "holds (td_file w) es" "folded_world w" and io: "undisturbed io"
    and run: "transition io i target now oc w = (r, v)"
  shows "advanced (\<lambda>x. te_status x = target \<and> target \<noteq> QUEUED) es w v"
    and "r = Inr x \<Longrightarrow> \<exists>q. map_of (latest_entry es) i = Some q \<and> x = moved q target now oc \<and> te_id q = i \<and>
      assert_transition (te_status q) target = Inr () \<and> holds (td_file v) (es @ [x])"
proof -
  have "advanced (\<lambda>x. te_status x = target \<and> target \<noteq> QUEUED) es w v \<and> (\<forall>x. r = Inr x \<longrightarrow> (\<exists>q. map_of (latest_entry es) i = Some q \<and> x = moved q target now oc \<and>
      te_id q = i \<and> assert_transition (te_status q) target = Inr () \<and> holds (td_file v) (es @ [x])))"
  proof (cases "io_lock io")
    case False
    with run io w show ?thesis by (auto simp: transition_def locked_undisturbed advanced_still)
  next
    case True
    obtain u where u: "current_locked io i w = (need ''ENTRY_NOT_FOUND'' (map_of (latest_entry es) i), u)"
      "td_file u = td_file w" "folded_world u" using current_locked_entries [OF w] by metis
    show ?thesis
    proof (cases "\<exists>q. map_of (latest_entry es) i = Some q \<and> assert_transition (te_status q) target = Inr ()")
      case False
      have "\<exists>e. transition io i target now oc w = (Inl e, u)"
      proof (cases "map_of (latest_entry es) i")
        case None
        with True io u(1) show ?thesis by (simp add: transition_def locked_undisturbed)
      next
        case (Some q)
        with False obtain e where "assert_transition (te_status q) target = Inl e"
          by (cases "assert_transition (te_status q) target") auto
        with Some True io u(1) show ?thesis by (simp add: transition_def locked_undisturbed)
      qed
      with run u w show ?thesis by (auto simp: advanced_still)
    next
      case ok: True
      then obtain q where q: "map_of (latest_entry es) i = Some q" "assert_transition (te_status q) target = Inr ()" by blast
      then have id: "te_id q = i" using latest_entry_id map_of_SomeD by fast
      with q have law: "lawful es (moved q target now oc)"
        by (auto simp: lawful_def moved_def assert_transition_def split: option.splits)
      obtain s v' where a: "append_entry io (moved q target now oc) u = (s, v')" by fastforce
      have fate: "io_fate io \<in> {Written, Not_Opened}" using io by (simp add: undisturbed_def)
      from run True io u q a have "v = v'" "r = (case s of Inl e \<Rightarrow> Inl e | Inr _ \<Rightarrow> Inr (moved q target now oc))"
        by (auto simp: transition_def locked_undisturbed bindW_def Let_def split: sum.splits)
      moreover have "te_status (moved q target now oc) = target \<and> target \<noteq> QUEUED" using q(2)
        by (auto simp: moved_def assert_transition_def allowed_transitions_def status_defs split: if_splits)
      ultimately show ?thesis using advanced_append [OF w(1) u(2,3) fate law a] q id by (auto split: sum.splits)
    qed
  qed
  then show "advanced (\<lambda>x. te_status x = target \<and> target \<noteq> QUEUED) es w v"
    "r = Inr x \<Longrightarrow> \<exists>q. map_of (latest_entry es) i = Some q \<and> x = moved q target now oc \<and> te_id q = i \<and>
      assert_transition (te_status q) target = Inr () \<and> holds (td_file v) (es @ [x])" by auto
qed

lemma opens_lawful:
  "holds f es \<Longrightarrow> opens f op \<Longrightarrow> op = Submit_Row e \<or> op = Submit_Queued e n \<Longrightarrow> lawful es e"
  using holds_read [of f es "''REGISTRY_UNREADABLE''" "\<lambda>_. []"]
  by (fastforce simp: opens_def lawful_def entry_rows_def)

fun writes :: "task_op \<Rightarrow> task_entry \<Rightarrow> bool" where
  "writes Look x = False"
| "writes (Claim now) x = (te_status x = RUNNING)"
| "writes (Submit_Row e) x = (x = e)"
| "writes (Submit_Queued e n) x = (x = e)"
| "writes (Move i target now oc) x = (te_status x = target \<and> target \<noteq> QUEUED)"

lemma run_op_advances:
  assumes w: "holds (td_file w) es" "folded_world w" and io: "undisturbed io" and o: "opens (td_file w) op"
  shows "advanced (writes op) es w (run_op io op w)"
proof (cases op)
  case Look
  show ?thesis
  proof (cases "io_lock io")
    case True
    obtain u where "latest_locked io w = (Inr (queue_order es), u)" "td_file u = td_file w" "folded_world u"
      using latest_locked_entries [OF w] by metis
    with True Look io w show ?thesis by (auto simp: latest_entries_def locked_undisturbed advanced_still)
  next
    case False
    with Look io w show ?thesis by (auto simp: latest_entries_def locked_undisturbed advanced_still)
  qed
next
  case (Claim now)
  then have "writes op = (\<lambda>x. te_status x = RUNNING)" by auto
  with Claim claim_effect(1) [OF w io, of now] show ?thesis by (metis run_op.simps(2) prod.collapse)
next
  case (Submit_Row e)
  then have "writes op = (\<lambda>x. x = e)" by auto
  with Submit_Row submit_effect [OF w io] opens_lawful [OF w(1) o] show ?thesis by (metis run_op.simps(3) prod.collapse)
next
  case (Submit_Queued e n)
  then have "writes op = (\<lambda>x. x = e)" by auto
  with Submit_Queued submit_within_effect(1) [OF w io] opens_lawful [OF w(1) o] show ?thesis
    by (metis run_op.simps(4) prod.collapse)
next
  case (Move i target now oc)
  then have "writes op = (\<lambda>x. te_status x = target \<and> target \<noteq> QUEUED)" by auto
  with Move transition_effect(1) [OF w io, of i target now oc] show ?thesis by (metis run_op.simps(5) prod.collapse)
qed

section \<open>Every run\<close>

inductive lawful_history :: "task_entry list \<Rightarrow> bool" where
  no_rows: "lawful_history []"
| a_row: "lawful_history es \<Longrightarrow> lawful es x \<Longrightarrow> lawful_history (es @ [x])"

lemma folded_world_new: "whole_file f \<Longrightarrow> folded_world \<lparr>td_file = f, td_store = new_registry\<rparr>"
  by (auto simp: folded_world_def new_registry_def new_cursor_def intro: folded_new [unfolded new_registry_def new_cursor_def])

lemma folded_world_same: "folded_world \<lparr>td_file = td_file w, td_store = td_store w\<rparr> = folded_world w"
  by (simp add: folded_world_def)

lemma run_invariant:
  "registry_run ok f stores \<Longrightarrow>
   \<exists>es. holds f es \<and> lawful_history es \<and> (\<forall>p. folded_world \<lparr>td_file = f, td_store = stores p\<rparr>)"
proof (induction rule: registry_run.induct)
  case nothing_yet
  have "holds Missing []" by (simp add: holds_def)
  with folded_world_new [OF holds_whole [OF this]] show ?case using no_rows by blast
next
  case (starts f stores p)
  then show ?case using folded_world_new holds_whole by (metis fun_upd_apply)
next
  case (steps f stores op io p w)
  then obtain es where es: "holds f es" "lawful_history es" "\<And>p. folded_world \<lparr>td_file = f, td_store = stores p\<rparr>" by blast
  have "advanced (writes op) es \<lparr>td_file = f, td_store = stores p\<rparr> w"
    using run_op_advances [of "\<lparr>td_file = f, td_store = stores p\<rparr>" es io op] es(1,3) steps by simp
  then have adv: "folded_world w" "grows f (td_file w)"
    "holds (td_file w) es \<or> (\<exists>x. lawful es x \<and> holds (td_file w) (es @ [x]))"
    unfolding advanced_def by auto
  have "folded_world \<lparr>td_file = td_file w, td_store = (stores(p := td_store w)) q\<rparr>" for q
    using adv(1,2) folded_world_same [of w] folded_world_grown [OF es(3) [of q], of "\<lparr>td_file = td_file w, td_store = stores q\<rparr>"] by simp
  with adv(3) es(2) show ?case using a_row by blast
qed

text \<open>Statuses climb.\<close>

definition status_rank :: "string \<Rightarrow> nat" where
  "status_rank s = (if s = QUEUED then 0 else if s = RUNNING then 1 else 2)"

lemma allowed_climbs:
  "map_of allowed_transitions s = Some ts \<Longrightarrow> t \<in> set ts \<Longrightarrow> status_rank s < status_rank t"
  by (auto simp: allowed_transitions_def status_rank_def status_defs split: if_splits)

lemma latest_entry_last:
  "map_of (latest_entry es) i = Some q \<Longrightarrow> j < length es \<Longrightarrow> te_id (es ! j) = i \<Longrightarrow>
   lawful_history es \<Longrightarrow> status_rank (te_status (es ! j)) \<le> status_rank (te_status q)"
proof (induction es arbitrary: q j rule: rev_induct)
  case (snoc x es)
  from snoc.prems(4) have hist: "lawful_history es" "lawful es x" by (auto elim: lawful_history.cases)
  show ?case
  proof (cases "te_id x = i")
    case True
    with snoc.prems(1) have "q = norm_entry x" by (simp add: latest_entry_snoc update_conv')
    then have q: "te_status q = te_status x" by simp
    show ?thesis
    proof (cases "j = length es")
      case False
      with snoc.prems have j: "j < length es" "te_id (es ! j) = i" by (auto simp: nth_append)
      then have "te_id x \<in> te_id ` set es" using True by (metis image_eqI nth_mem)
      with hist(2) obtain p ts where p: "map_of (latest_entry es) i = Some p"
        "map_of allowed_transitions (te_status p) = Some ts" "te_status x \<in> set ts" using True by (auto simp: lawful_def)
      from snoc.IH [OF p(1) j hist(1)] allowed_climbs [OF p(2,3)] j q show ?thesis by (simp add: nth_append)
    qed (use q in \<open>simp add: nth_append\<close>)
  next
    case False
    with snoc.prems have "map_of (latest_entry es) i = Some q" "j < length es" "te_id (es ! j) = i"
      by (auto simp: latest_entry_snoc update_conv' nth_append less_Suc_eq split: if_splits)
    with snoc.IH hist(1) show ?thesis by (simp add: nth_append)
  qed
qed simp

lemma lawful_climbs:
  "lawful_history es \<Longrightarrow> i < j \<Longrightarrow> j < length es \<Longrightarrow> te_id (es ! i) = te_id (es ! j) \<Longrightarrow>
   status_rank (te_status (es ! i)) < status_rank (te_status (es ! j))"
proof (induction es arbitrary: i j rule: rev_induct)
  case (snoc x es)
  from snoc.prems(1) have hist: "lawful_history es" "lawful es x" by (auto elim: lawful_history.cases)
  show ?case
  proof (cases "j = length es")
    case True
    with snoc.prems have i: "i < length es" "te_id (es ! i) = te_id x" by (auto simp: nth_append)
    then have "te_id x \<in> te_id ` set es" by (metis image_eqI nth_mem)
    with hist(2) obtain p ts where p: "map_of (latest_entry es) (te_id x) = Some p"
      "map_of allowed_transitions (te_status p) = Some ts" "te_status x \<in> set ts" by (auto simp: lawful_def)
    from latest_entry_last [OF p(1) i hist(1)] allowed_climbs [OF p(2,3)] True i show ?thesis by (simp add: nth_append)
  next
    case False
    with snoc hist show ?thesis by (simp add: nth_append)
  qed
qed simp

end
