(* ===== verification/Registry_Safety.thy ===== *)
theory Registry_Safety
  imports Registry_Runs
begin

text \<open>What the task registry promises, over every run of its processes.\<close>

section \<open>The lifecycle only moves forward\<close>

definition row_rank :: "json \<Rightarrow> nat" where
  "row_rank r = status_rank (py_str (jget r ''status''))"


section \<open>The claim is first in, first out\<close>

definition place :: "(string \<times> task_entry) list \<times> (string \<times> nat) list \<Rightarrow> task_entry \<Rightarrow> string \<times> nat" where
  "place v e = (te_submitted_at e, case map_of (snd v) (te_id e) of None \<Rightarrow> 0 | Some n \<Rightarrow> n)"

lemma sort_key_find:
  "find P (sort_key k xs) = Some q \<Longrightarrow> x \<in> set xs \<Longrightarrow> P x \<Longrightarrow> q \<in> set xs \<and> P q \<and> k q \<le> k x"
proof -
  assume f: "find P (sort_key k xs) = Some q" and x: "x \<in> set xs" "P x"
  then obtain n where n: "n < length (sort_key k xs)" "P (sort_key k xs ! n)" "q = sort_key k xs ! n"
    "\<forall>i < n. \<not> P (sort_key k xs ! i)" by (auto simp: find_Some_iff)
  have "x \<in> set (sort_key k xs)" using x by simp
  then obtain m where m: "m < length (sort_key k xs)" "sort_key k xs ! m = x" by (auto simp only: in_set_conv_nth)
  with n x have "n \<le> m" by (metis not_le)
  moreover have "sorted (map k (sort_key k xs))" by simp
  ultimately have "k (sort_key k xs ! n) \<le> k (sort_key k xs ! m)"
    using m(1) n(1) by (metis (no_types, lifting) length_map nth_map sorted_nth_mono)
  moreover have "q \<in> set (sort_key k xs)" using n nth_mem by blast
  ultimately show ?thesis using n(2,3) m by simp
qed

text \<open>
  C18 A claim takes a QUEUED entry that no QUEUED entry precedes, in the order of submission and
  then of arrival in the file, and appends it as RUNNING; it finds nothing only when none waits.
\<close>

theorem claim_is_first_in_first_out:
  assumes run: "registry_run ok f stores" and io: "undisturbed io"
    and claim: "claim_next_queued io now \<lparr>td_file = f, td_store = stores p\<rparr> = (Inr r, w)"
  shows "\<exists>v rows. registry_view looks f = Inr v \<and> read_objects code looks f = Inr rows \<and>
    (case r of None \<Rightarrow> td_file w = f \<and> (\<forall>x \<in> snd ` set (fst v). te_status x \<noteq> QUEUED)
     | Some c \<Rightarrow> \<exists>q \<in> snd ` set (fst v). te_status q = QUEUED \<and> c = claimed_of q now \<and>
         (\<forall>x \<in> snd ` set (fst v). te_status x = QUEUED \<longrightarrow> place v q \<le> place v x) \<and>
         read_objects code looks (td_file w) = Inr (rows @ [canon (as_record c)]))"
proof -
  obtain es where es: "holds f es" "folded_world \<lparr>td_file = f, td_store = stores p\<rparr>" using run_invariant [OF run] by blast
  define v where "v = (latest_entry es, arrivals (entry_rows es))"
  have order: "queue_order es = sort_key (place v) (map snd (latest_entry es))"
    by (simp add: queue_order_def view_order_def place_def [abs_def] v_def)
  note effect = claim_effect [OF _ es(2) io claim, of es, simplified, OF es(1)]
  have "case r of None \<Rightarrow> td_file w = f \<and> (\<forall>x \<in> snd ` set (fst v). te_status x \<noteq> QUEUED)
     | Some c \<Rightarrow> \<exists>q \<in> snd ` set (fst v). te_status q = QUEUED \<and> c = claimed_of q now \<and>
         (\<forall>x \<in> snd ` set (fst v). te_status x = QUEUED \<longrightarrow> place v q \<le> place v x) \<and>
         read_objects code looks (td_file w) = Inr (entry_rows es @ [canon (as_record c)])"
  proof (cases r)
    case None
    with effect(2) show ?thesis by (auto simp: find_None_iff set_queue_order v_def)
  next
    case (Some c)
    then obtain q where q: "find (\<lambda>e. te_status e = QUEUED) (queue_order es) = Some q" "c = claimed_of q now"
      "holds (td_file w) (es @ [c])" using effect(3) by blast
    then have mem: "q \<in> set (queue_order es)" "te_status q = QUEUED" by (auto simp: find_Some_iff)
    have "place v q \<le> place v x" if "x \<in> set (map snd (latest_entry es))" "te_status x = QUEUED" for x
      using sort_key_find [OF q(1) [unfolded order] that] by simp
    moreover have "q \<in> snd ` set (fst v)" using mem(1) by (simp add: v_def set_queue_order)
    moreover have "read_objects code looks (td_file w) = Inr (entry_rows es @ [canon (as_record c)])"
      using holds_read [OF q(3)] by (simp add: entry_rows_def)
    ultimately show ?thesis unfolding Some option.case using mem(2) q(2) by (intro bexI [of _ q]) (auto simp: v_def)
  qed
  moreover have "registry_view looks f = Inr v" by (simp add: v_def holds_view [OF es(1)])
  ultimately show ?thesis using holds_read [OF es(1)] by blast
qed

section \<open>The queue is bounded\<close>

text \<open>The two ways the runtime submits: \<open>record_submission\<close> opens RUNNING, \<open>enqueue\<close> counts first.\<close>

fun as_submitted :: "task_op \<Rightarrow> bool" where
  "as_submitted (Submit_Row e) = (te_status e = RUNNING)"
| "as_submitted (Submit_Queued e limit) = (limit = queue_depth_limit)"
| "as_submitted _ = True"

lemma count_update:
  "length (filter P (map snd (AList.update k v m))) \<le> length (filter P (map snd m)) + (if P v then 1 else 0)"
  by (induction m) auto

lemma waiting_latest: "waiting es = length (filter (\<lambda>q. te_status q = QUEUED) (map snd (latest_entry es)))"
proof -
  show ?thesis by (simp add: waiting_def queue_order_def view_order_def filter_sort)
qed

lemma waiting_snoc: "waiting (es @ [x]) \<le> waiting es + (if te_status x = QUEUED then 1 else 0)"
  using count_update [of "\<lambda>q. te_status q = QUEUED" "te_id x" "norm_entry x" "latest_entry es"]
  by (simp add: waiting_latest latest_entry_snoc)

lemma waiting_bounded:
  "registry_run as_submitted f stores \<Longrightarrow>
   \<exists>es. holds f es \<and> (\<forall>p. folded_world \<lparr>td_file = f, td_store = stores p\<rparr>) \<and> waiting es \<le> queue_depth_limit"
proof (induction rule: registry_run.induct)
  case nothing_yet
  have "holds Missing []" by (simp add: holds_def)
  moreover have "waiting [] \<le> queue_depth_limit" by (simp add: waiting_latest latest_entry_def)
  ultimately show ?case using folded_world_new [OF holds_whole] by blast
next
  case (starts f stores p)
  then show ?case using folded_world_new holds_whole by (metis fun_upd_apply)
next
  case (steps f stores op io p w)
  then obtain es where es: "holds f es" "\<And>p. folded_world \<lparr>td_file = f, td_store = stores p\<rparr>"
    "waiting es \<le> queue_depth_limit" by blast
  let ?w = "\<lparr>td_file = f, td_store = stores p\<rparr>"
  have adv: "advanced (writes op) es ?w w"
    using run_op_advances [of ?w es io op] es(1,2) steps by simp
  have worlds: "folded_world \<lparr>td_file = td_file w, td_store = (stores(p := td_store w)) q\<rparr>" for q
    using adv folded_world_same [of w] folded_world_grown [OF es(2) [of q], of "\<lparr>td_file = td_file w, td_store = stores q\<rparr>"]
    by (simp add: advanced_def)
  have "\<exists>es'. holds (td_file w) es' \<and> waiting es' \<le> queue_depth_limit"
  proof (cases "holds (td_file w) es")
    case False
    with adv obtain x where x: "writes op x" "lawful es x" "holds (td_file w) (es @ [x])" by (auto simp: advanced_def)
    have "waiting es + (if te_status x = QUEUED then 1 else 0) \<le> queue_depth_limit"
    proof (cases "te_status x = QUEUED")
      case True
      with x(1) steps.hyps(2) have op: "op = Submit_Queued x queue_depth_limit"
        by (cases op) (auto simp: status_defs)
      from submit_within_effect(2) [of ?w es io x queue_depth_limit, OF _ es(2) steps.hyps(4) x(2)]
      have "td_file w = f \<or> waiting es < queue_depth_limit"
        using es(1) op steps.hyps(5) by (cases "submit_within_depth io x queue_depth_limit ?w") auto
      with True False es(1) show ?thesis by auto
    qed (use es(3) in simp)
    with waiting_snoc [of es x] x(3) show ?thesis using order_trans by blast
  qed (use es(3) in blast)
  with worlds show ?case by blast
qed

text \<open>
  C28 When every QUEUED row comes from \<open>enqueue\<close>, no more than twenty entries ever wait, whatever the
  processes do at the same time.
\<close>

theorem queue_never_exceeds_its_limit:
  assumes "registry_run as_submitted f stores"
  shows "\<exists>v. registry_view looks f = Inr v \<and>
    length (filter (\<lambda>e. te_status e = QUEUED) (map snd (fst v))) \<le> 20"
proof -
  obtain es where "holds f es" "waiting es \<le> queue_depth_limit" using waiting_bounded [OF assms] by blast
  then show ?thesis using holds_view [of f es looks] by (simp add: waiting_latest queue_depth_limit_def)
qed

section \<open>A restart closes its own\<close>

definition stranded :: "string list \<Rightarrow> task_entry \<Rightarrow> bool" where
  "stranded owned e = (te_status e = RUNNING \<and> te_origin e \<in> set owned)"

definition reconciled :: "string list \<Rightarrow> string \<Rightarrow> task_entry \<Rightarrow> task_entry" where
  "reconciled owned now e = (if stranded owned e then moved e FAILED now abandoned else e)"

lemma norm_norm: "norm_entry (norm_entry e) = norm_entry e"
  by (simp add: norm_entry_def flag_of_def flag_names_def)

lemma latest_entry_norm: "map_of (latest_entry es) i = Some e \<Longrightarrow> norm_entry e = e \<and> te_id e = i"
proof
  assume e: "map_of (latest_entry es) i = Some e"
  then show "norm_entry e = e" by (auto simp: latest_entry_by norm_norm)
  from e show "te_id e = i" by (rule latest_entry_id [OF map_of_SomeD])
qed

lemma norm_moved: "norm_entry (moved e target now oc) = moved (norm_entry e) target now oc"
  by (simp add: norm_entry_def moved_def)

lemma close_all_effect:
  assumes "holds (td_file w) es" "folded_world w" "\<And>n. undisturbed (ios n)"
    and "\<forall>x \<in> set xs. map_of (latest_entry es) (te_id x) = Some x" "distinct (map te_id xs)"
    and "close_all ios now xs n w = (Inr ys, v)"
  shows "ys = map (\<lambda>e. moved e FAILED now abandoned) xs \<and> (\<exists>es'. holds (td_file v) es' \<and>
    (\<forall>i. map_of (latest_entry es') i = (if i \<in> te_id ` set xs
       then map_option (\<lambda>e. moved e FAILED now abandoned) (map_of (latest_entry es) i) else map_of (latest_entry es) i)))"
  using assms
proof (induction xs arbitrary: w es n ys)
  case (Cons x xs)
  obtain r u where t: "transition (ios n) (te_id x) FAILED now abandoned w = (r, u)" by fastforce
  with Cons.prems(6) obtain z where r: "r = Inr z" by (cases r) auto
  from transition_effect(2) [OF Cons.prems(1,2,3) t r] Cons.prems(4) have z: "z = moved x FAILED now abandoned"
    "holds (td_file u) (es @ [z])" by auto
  from transition_effect(1) [OF Cons.prems(1,2,3) t] have fw: "folded_world u" by (simp add: advanced_def)
  from Cons.prems(6) t r obtain zs where zs: "close_all ios now xs (n + 1) u = (Inr zs, v)" "ys = z # zs"
    by (auto simp: bindW_Inr_iff)
  have norm: "norm_entry z = z" "te_id z = te_id x"
  proof -
    have "norm_entry x = x" using latest_entry_norm Cons.prems(4) by force
    then show "norm_entry z = z" by (simp add: z(1) norm_moved)
    show "te_id z = te_id x" by (simp add: z(1) moved_def)
  qed
  have latest: "map_of (latest_entry (es @ [z])) i = (if i = te_id x then Some z else map_of (latest_entry es) i)" for i
    using norm by (simp add: latest_entry_snoc update_conv')
  have "\<forall>y \<in> set xs. map_of (latest_entry (es @ [z])) (te_id y) = Some y"
  proof
    fix y
    assume y: "y \<in> set xs"
    with Cons.prems(5) have "te_id y \<noteq> te_id x" by (metis distinct.simps(2) image_eqI list.map(2) list.set_map)
    with y Cons.prems(4) show "map_of (latest_entry (es @ [z])) (te_id y) = Some y" by (simp add: latest)
  qed
  from Cons.IH [OF z(2) fw Cons.prems(3) this _ zs(1)] Cons.prems(5) obtain es' where es':
    "zs = map (\<lambda>e. moved e FAILED now abandoned) xs" "holds (td_file v) es'"
    "\<And>i. map_of (latest_entry es') i = (if i \<in> te_id ` set xs
       then map_option (\<lambda>e. moved e FAILED now abandoned) (map_of (latest_entry (es @ [z])) i)
       else map_of (latest_entry (es @ [z])) i)" by auto
  have "map_of (latest_entry es') i = (if i \<in> te_id ` set (x # xs)
       then map_option (\<lambda>e. moved e FAILED now abandoned) (map_of (latest_entry es) i) else map_of (latest_entry es) i)" for i
  proof (cases "i = te_id x")
    case True
    with Cons.prems(5) have "i \<notin> te_id ` set xs" by simp
    moreover have "map_of (latest_entry es) i = Some x" using Cons.prems(4) True by simp
    ultimately show ?thesis using True by (simp add: es'(3) latest) (simp add: z(1))
  next
    case False
    then show ?thesis by (simp add: es'(3) latest)
  qed
  with es'(1,2) zs(2) z(1) show ?case by auto
qed auto

text \<open>
  C29 A startup that reconciles the origins it owns moves each RUNNING entry of those origins to
  FAILED with RUN_ABANDONED and touches no other entry, another service's RUNNING ones included.
\<close>

theorem reconcile_closes_its_own:
  assumes run: "registry_run ok f stores" and io: "\<And>n. undisturbed (ios n)"
    and rec: "reconcile_stale_running ios now owned \<lparr>td_file = f, td_store = stores p\<rparr> = (Inr closed, w)"
  shows "\<exists>before after. registry_view looks f = Inr before \<and> registry_view looks (td_file w) = Inr after \<and>
    (\<forall>i. map_of (fst after) i = map_option (reconciled owned now) (map_of (fst before) i))"
proof -
  obtain es where es: "holds f es" "folded_world \<lparr>td_file = f, td_store = stores p\<rparr>" using run_invariant [OF run] by blast
  let ?w = "\<lparr>td_file = f, td_store = stores p\<rparr>"
  have lock: "io_lock (ios 0)" using rec io [of 0]
    by (auto simp: reconcile_stale_running_def latest_entries_def locked_undisturbed split: if_splits)
  obtain u where u: "latest_locked (ios 0) ?w = (Inr (queue_order es), u)" "td_file u = f" "folded_world u"
    using latest_locked_entries [of ?w es "ios 0"] es by (metis task_desk.select_convs(1))
  define xs where "xs = filter (stranded owned) (rev (queue_order es))"
  have stranded: "(\<lambda>e. te_status e = RUNNING \<and> te_origin e \<in> set owned) = stranded owned"
    by (auto simp: stranded_def)
  have close: "close_all ios now xs 1 u = (Inr closed, w)"
    using rec u(1) lock io [of 0]
    by (simp add: reconcile_stale_running_def latest_entries_def locked_undisturbed stranded xs_def)
  have all: "\<forall>x \<in> set xs. map_of (latest_entry es) (te_id x) = Some x" using latest_member by (auto simp: xs_def)
  have "distinct (map te_id (map snd (latest_entry es)))"
  proof -
    have "map te_id (map snd (latest_entry es)) = map fst (latest_entry es)" using latest_entry_id by auto
    with distinct_latest_entry show ?thesis by metis
  qed
  moreover have "distinct (map te_id L) \<Longrightarrow> distinct (map te_id (sort_key k L))" for L and k :: "task_entry \<Rightarrow> string \<times> nat"
    by (simp add: distinct_map)
  ultimately have "distinct (map te_id (queue_order es))" unfolding queue_order_def view_order_def fst_conv by blast
  then have "distinct (map te_id xs)" by (simp add: xs_def distinct_map_filter rev_map [symmetric] rev_filter [symmetric])
  from close_all_effect [OF _ u(3) io all this close] es(1) u(2) obtain es' where es': "holds (td_file w) es'"
    "\<And>i. map_of (latest_entry es') i = (if i \<in> te_id ` set xs
       then map_option (\<lambda>e. moved e FAILED now abandoned) (map_of (latest_entry es) i) else map_of (latest_entry es) i)" by auto
  have "map_of (latest_entry es') i = map_option (reconciled owned now) (map_of (latest_entry es) i)" for i
  proof (cases "map_of (latest_entry es) i")
    case (Some e)
    then have "e \<in> set (queue_order es)" using map_of_SomeD by (force simp: set_queue_order)
    moreover have "te_id e = i" using latest_entry_norm [OF Some] by simp
    moreover have "x = e" if "x \<in> set xs" "te_id x = i" for x
      using all that Some by (metis option.inject)
    moreover have "x \<in> set xs \<longleftrightarrow> x \<in> set (queue_order es) \<and> stranded owned x" for x by (auto simp: xs_def)
    ultimately have "i \<in> te_id ` set xs \<longleftrightarrow> stranded owned e" by blast
    with Some show ?thesis by (simp add: es'(2) reconciled_def)
  qed (simp add: es'(2))
  with holds_view [OF es(1), of looks] holds_view [OF es'(1), of looks] show ?thesis by auto
qed

section \<open>A process that has followed the file reads it as a new one would\<close>

text \<open>
  One process, and a file that others append whole lines to, remove, or replace by a file whose
  identity its cursor does not hold.  It looks when no row's \<open>flags\<close> is a list, a number or a string.
\<close>

inductive follows :: "stored \<Rightarrow> registry \<Rightarrow> bool" where
  opened: "whole_file f \<Longrightarrow> follows f new_registry"
| grown: "follows (Stored i s) rg \<Longrightarrow> whole t \<Longrightarrow> follows (Stored i (s @ t)) rg"
| gone: "follows f rg \<Longrightarrow> follows Missing rg"
| replaced: "follows f rg \<Longrightarrow> whole s \<Longrightarrow> ac_identity (rg_cursor rg) \<noteq> Some i \<Longrightarrow> follows (Stored i s) rg"
| looked: "follows f rg \<Longrightarrow> plain_file (io_looks io) f \<Longrightarrow>
    latest_locked io \<lparr>td_file = f, td_store = rg\<rparr> = (r, w) \<Longrightarrow> follows f (td_store w)"

lemma follows_folded: "follows f rg \<Longrightarrow> \<exists>rows. folded_from f rg rows"
proof (induction rule: follows.induct)
  case (opened f)
  then show ?case using folded_new by blast
next
  case (grown i s rg t)
  then show ?case using in_step_grown by (fastforce simp: folded_from_def)
next
  case (gone f rg)
  then show ?case by (fastforce simp: folded_from_def in_step_def whole_file_def split: option.splits)
next
  case (replaced f rg s i)
  then show ?case by (fastforce simp: folded_from_def in_step_def whole_file_def split: option.splits)
next
  case (looked f rg io r w)
  then obtain rows where "folded_from f rg rows" by blast
  with latest_locked_view(3) [of "\<lparr>td_file = f, td_store = rg\<rparr>" rows io] looked show ?case by auto
qed


end
