(* ===== verification/Registry_Sample.thy ===== *)
theory Registry_Sample
  imports Registry_Safety
begin

text \<open>One registry file, two processes: a request is queued, claimed and closed.\<close>

definition flat_hash :: "string \<Rightarrow> string" where
  "flat_hash _ = replicate 64 (CHR ''0'')"

definition calm :: file_io where
  "calm = \<lparr>io_lock = True, io_others = id, io_looks = (\<lambda>_. []), io_fate = Written, io_fresh = 7\<rparr>"

definition asked_at :: string where
  "asked_at = ''2026-10-01T10:00:00Z''"

definition sample_entry :: task_entry where
  "sample_entry = \<lparr>te_id = ''treg_00000000000000000000'', te_text = ''compare'', te_origin = ''TELEGRAM'',
     te_requester = ''thomas'', te_flags = map (\<lambda>n. (n, False)) flag_names, te_status = QUEUED,
     te_submitted_at = asked_at, te_kind = None, te_started_at = None, te_finished_at = None, te_task_id = None,
     te_trace_id = None, te_result_ref = None, te_reason = None, te_attempt = None\<rparr>"

lemma sample_built:
  "build_entry flat_hash (JStr '' compare '') ''TELEGRAM'' (JStr ''thomas'') asked_at [] JNull QUEUED JNull = Inr sample_entry"
  by code_simp

definition queued_file :: stored where
  "queued_file = Stored 7 (row_text (as_record sample_entry))"

lemma calm_undisturbed [simp]: "undisturbed calm" "io_lock calm"
  by (simp_all add: undisturbed_def calm_def)

lemma sample_row_ok: "entry_row_ok (as_record sample_entry)"
  "entry_row_ok (as_record (claimed_of sample_entry ''2026-10-01T10:00:01Z''))"
  by code_simp+

lemma queued_holds: "holds queued_file [sample_entry]"
  by (simp add: holds_def queued_file_def entry_text_def sample_entry_def allowed_transitions_def)

lemma sample_order: "queue_order [] = []" "queue_order [sample_entry] = [sample_entry]"
  by code_simp+

definition nothing_desk :: task_desk where
  "nothing_desk = \<lparr>td_file = Missing, td_store = new_registry\<rparr>"

lemma sample_queued:
  obtains rg where "submit_within_depth calm sample_entry 20 nothing_desk = (Inr 0, \<lparr>td_file = queued_file, td_store = rg\<rparr>)"
proof -
  have "holds (td_file nothing_desk) []" "folded_world nothing_desk"
    using folded_world_new [of Missing] by (simp_all add: nothing_desk_def holds_def whole_file_def)
  from latest_locked_entries [OF this, of calm] obtain u where
    u: "latest_locked calm nothing_desk = (Inr [], u)" "td_file u = Missing"
    by (metis nothing_desk_def sample_order(1) task_desk.select_convs(1))
  have "append_entry calm sample_entry u = (Inr (), \<lparr>td_file = queued_file, td_store = td_store u\<rparr>)"
    using u(2) sample_row_ok by (simp add: append_entry_def append_lines_def calm_def queued_file_def task_desk.splits)
  with u(1) that [of "td_store u"] show thesis
    by (simp add: submit_within_depth_def locked_undisturbed Let_def)
qed

definition claimed_desk :: task_desk where
  "claimed_desk = snd (claim_next_queued calm ''2026-10-01T10:00:01Z'' \<lparr>td_file = queued_file, td_store = new_registry\<rparr>)"

lemma sample_claimed:
  "claim_next_queued calm ''2026-10-01T10:00:01Z'' \<lparr>td_file = queued_file, td_store = new_registry\<rparr> =
     (Inr (Some (claimed_of sample_entry ''2026-10-01T10:00:01Z'')), claimed_desk)"
proof -
  let ?w = "\<lparr>td_file = queued_file, td_store = new_registry\<rparr>"
  have w: "holds (td_file ?w) [sample_entry]" "folded_world ?w"
    using folded_world_new [OF holds_whole [OF queued_holds]] queued_holds by simp_all
  obtain u where u: "latest_locked calm ?w = (Inr [sample_entry], u)" "td_file u = queued_file"
    using latest_locked_entries [OF w, of calm] sample_order(2) by (metis task_desk.select_convs(1))
  have st: "te_status sample_entry = QUEUED" by (simp add: sample_entry_def)
  have "\<exists>v. append_entry calm (claimed_of sample_entry ''2026-10-01T10:00:01Z'') u = (Inr (), v)"
    using u(2) sample_row_ok(2) by (simp add: append_entry_def append_lines_def calm_def queued_file_def)
  then obtain v where "append_entry calm (claimed_of sample_entry ''2026-10-01T10:00:01Z'') u = (Inr (), v)" by blast
  with u(1) st show ?thesis
    by (simp add: claimed_desk_def claim_next_queued_def locked_undisturbed Let_def claimed_of_def)
qed

lemma claimed_holds: "holds (td_file claimed_desk) [sample_entry, claimed_of sample_entry ''2026-10-01T10:00:01Z'']"
proof -
  let ?w = "\<lparr>td_file = queued_file, td_store = new_registry\<rparr>"
  have w: "holds (td_file ?w) [sample_entry]" "folded_world ?w"
    using folded_world_new [OF holds_whole [OF queued_holds]] queued_holds by simp_all
  from claim_effect(3) [OF w calm_undisturbed(1) sample_claimed HOL.refl] show ?thesis by auto
qed

text \<open>The runs.\<close>

lemma sample_run_queued: "registry_run as_submitted queued_file (\<lambda>_. new_registry)"
proof -
  obtain rg where q: "submit_within_depth calm sample_entry 20 nothing_desk = (Inr 0, \<lparr>td_file = queued_file, td_store = rg\<rparr>)"
    using sample_queued by metis
  have "opens Missing (Submit_Queued sample_entry 20)"
    by (simp add: opens_def sample_entry_def read_objects_def iter_objects_def iter_numbered_def)
  from registry_run.steps [OF registry_run.nothing_yet _ this calm_undisturbed(1), where p = 0 and ok = as_submitted, OF _ HOL.refl] q
  have "registry_run as_submitted queued_file ((\<lambda>_. new_registry)(0 := rg))"
    by (simp add: queue_depth_limit_def nothing_desk_def)
  from registry_run.starts [OF this, of 0] show ?thesis by (simp add: fun_upd_idem)
qed

lemma sample_run_claimed: "registry_run as_submitted (td_file claimed_desk) ((\<lambda>_. new_registry)(1 := td_store claimed_desk))"
proof -
  have "opens queued_file (Claim ''2026-10-01T10:00:01Z'')" by (simp add: opens_def)
  from registry_run.steps [OF sample_run_queued _ this calm_undisturbed(1), where p = 1, OF _ HOL.refl] show ?thesis
    by (simp add: claimed_desk_def)
qed

lemma sample_claimed_desk: "claimed_desk = \<lparr>td_file = td_file claimed_desk, td_store = ((\<lambda>_. new_registry)(1 := td_store claimed_desk)) 1\<rparr>"
  by simp

section \<open>The properties at work\<close>


lemma claim_is_first_in_first_out_witness:
  "\<exists>v. registry_view (\<lambda>_. []) queued_file = Inr v \<and> (\<exists>q \<in> snd ` set (fst v). te_status q = QUEUED \<and>
     claimed_of sample_entry ''2026-10-01T10:00:01Z'' = claimed_of q ''2026-10-01T10:00:01Z'')"
  using claim_is_first_in_first_out [OF sample_run_queued calm_undisturbed(1) sample_claimed, of "\<lambda>_. []" "''E''"] by auto

lemma queue_never_exceeds_its_limit_witness:
  "\<exists>v. registry_view (\<lambda>_. []) queued_file = Inr v \<and> length (filter (\<lambda>e. te_status e = QUEUED) (map snd (fst v))) = 1"
proof -
  from queue_never_exceeds_its_limit [OF sample_run_queued, of "\<lambda>_. []"] obtain v where
    v: "registry_view (\<lambda>_. []) queued_file = Inr v" by blast
  with holds_view [OF queued_holds, of "\<lambda>_. []"] have "fst v = [(te_id sample_entry, norm_entry sample_entry)]"
    by (auto simp: latest_entry_def)
  with v show ?thesis by (simp add: sample_entry_def)
qed

lemma append_lands:
  "entry_row_ok (as_record e) \<Longrightarrow> td_file u = Stored i t \<Longrightarrow> \<exists>v. append_entry calm e u = (Inr (), v)"
  by (simp add: append_entry_def append_lines_def calm_def)

definition closed_entry :: task_entry where
  "closed_entry = moved (claimed_of sample_entry ''2026-10-01T10:00:01Z'') FAILED ''2026-10-01T11:00:00Z'' abandoned"

lemma sample_reconciled:
  "\<exists>w. reconcile_stale_running (\<lambda>_. calm) ''2026-10-01T11:00:00Z'' operator_origins
     \<lparr>td_file = td_file claimed_desk, td_store = new_registry\<rparr> = (Inr [closed_entry], w)"
proof -
  let ?c = "claimed_of sample_entry ''2026-10-01T10:00:01Z''"
  let ?w = "\<lparr>td_file = td_file claimed_desk, td_store = new_registry\<rparr>"
  have w: "holds (td_file ?w) [sample_entry, ?c]" "folded_world ?w"
    using folded_world_new [OF holds_whole [OF claimed_holds]] claimed_holds by simp_all
  have facts: "queue_order [sample_entry, ?c] = [?c]" "map_of (latest_entry [sample_entry, ?c]) (te_id ?c) = Some ?c"
    "te_status ?c = RUNNING" "te_origin ?c \<in> set operator_origins" "entry_row_ok (as_record closed_entry)"
    "assert_transition (te_status ?c) FAILED = Inr ()" by code_simp+
  obtain u where u: "latest_locked calm ?w = (Inr [?c], u)" "td_file u = td_file claimed_desk" "folded_world u"
    using latest_locked_entries [OF w, of calm] facts(1) by (metis task_desk.select_convs(1))
  have hu: "holds (td_file u) [sample_entry, ?c]" using u(2) claimed_holds by simp
  obtain x where x: "current_locked calm (te_id ?c) u = (Inr ?c, x)" "td_file x = td_file u"
    using current_locked_entries [OF hu u(3), of calm "te_id ?c"] facts(2) by (metis need_simps(2))
  have "\<exists>i t. td_file x = Stored i t" using hu x(2) by (cases "td_file u") (auto simp: holds_def)
  with append_lands [OF facts(5)] obtain v where v: "append_entry calm closed_entry x = (Inr (), v)" by blast
  have "transition calm (te_id ?c) FAILED ''2026-10-01T11:00:00Z'' abandoned u = (Inr closed_entry, v)"
    using x v facts(6) by (simp add: transition_def locked_undisturbed closed_entry_def [symmetric] Let_def)
  with u(1) facts(3,4) show ?thesis
    by (simp add: reconcile_stale_running_def latest_entries_def locked_undisturbed)
qed

lemma reconcile_closes_its_own_witness:
  "\<exists>w after. reconcile_stale_running (\<lambda>_. calm) ''2026-10-01T11:00:00Z'' operator_origins
       \<lparr>td_file = td_file claimed_desk, td_store = new_registry\<rparr> = (Inr [closed_entry], w) \<and>
     registry_view (\<lambda>_. []) (td_file w) = Inr after \<and>
     map_option te_status (map_of (fst after) (te_id sample_entry)) = Some FAILED"
proof -
  let ?c = "claimed_of sample_entry ''2026-10-01T10:00:01Z''"
  obtain w where w: "reconcile_stale_running (\<lambda>_. calm) ''2026-10-01T11:00:00Z'' operator_origins
      \<lparr>td_file = td_file claimed_desk, td_store = ((\<lambda>_. new_registry)(1 := td_store claimed_desk)) (0 :: nat)\<rparr> = (Inr [closed_entry], w)"
    using sample_reconciled by auto
  from reconcile_closes_its_own [OF sample_run_claimed _ w, of "\<lambda>_. []"] obtain before after where
    v: "registry_view (\<lambda>_. []) (td_file claimed_desk) = Inr before" "registry_view (\<lambda>_. []) (td_file w) = Inr after"
    "\<And>i. map_of (fst after) i = map_option (reconciled operator_origins ''2026-10-01T11:00:00Z'') (map_of (fst before) i)"
    by auto
  have "map_of (latest_entry [sample_entry, ?c]) (te_id sample_entry) = Some ?c"
    "te_status (reconciled operator_origins ''2026-10-01T11:00:00Z'' ?c) = FAILED" by code_simp+
  with v(1,3) holds_view [OF claimed_holds, of "\<lambda>_. []"]
  have "map_option te_status (map_of (fst after) (te_id sample_entry)) = Some FAILED" by auto
  moreover have "reconcile_stale_running (\<lambda>_. calm) ''2026-10-01T11:00:00Z'' operator_origins
      \<lparr>td_file = td_file claimed_desk, td_store = new_registry\<rparr> = (Inr [closed_entry], w)" using w by simp
  ultimately show ?thesis using v(2) by blast
qed

lemma refresh_identity: "refresh looks (Stored i s) rg = (Inr (), rg') \<Longrightarrow> ac_identity (rg_cursor rg') = Some i"
  by (auto simp: refresh_def read_new_def Let_def split: sum.splits prod.splits exn.splits if_splits)


section \<open>Where the registry departs from its word\<close>

text \<open>
  The id of a submission is made of its text, origin, requester and second.  The same request in the
  same second, its first copy already RUNNING, is accepted and appended under the same id: the latest
  row is QUEUED again, and the next claim runs it a second time.
\<close>

lemma resubmission_reopens_a_running_entry:
  "\<exists>w. submit_within_depth calm sample_entry 20 \<lparr>td_file = td_file claimed_desk, td_store = new_registry\<rparr> = (Inr 0, w) \<and>
     holds (td_file w) [sample_entry, claimed_of sample_entry ''2026-10-01T10:00:01Z'', sample_entry] \<and>
     (\<exists>v. registry_view (\<lambda>_. []) (td_file w) = Inr v \<and>
       map_option te_status (map_of (fst v) (te_id sample_entry)) = Some QUEUED)"
proof -
  let ?c = "claimed_of sample_entry ''2026-10-01T10:00:01Z''"
  let ?w = "\<lparr>td_file = td_file claimed_desk, td_store = new_registry\<rparr>"
  have w: "holds (td_file ?w) [sample_entry, ?c]" "folded_world ?w"
    using folded_world_new [OF holds_whole [OF claimed_holds]] claimed_holds by simp_all
  have facts: "queue_order [sample_entry, ?c] = [?c]" "te_status ?c \<noteq> QUEUED"
    "map_of allowed_transitions (te_status sample_entry) \<noteq> None"
    "map_option te_status (map_of (latest_entry [sample_entry, ?c, sample_entry]) (te_id sample_entry)) = Some QUEUED"
    by code_simp+
  obtain u where u: "latest_locked calm ?w = (Inr [?c], u)" "td_file u = td_file claimed_desk"
    using latest_locked_entries [OF w, of calm] facts(1) by (metis task_desk.select_convs(1))
  have hu: "holds (td_file u) [sample_entry, ?c]" using u(2) claimed_holds by simp
  then have "\<exists>i t. td_file u = Stored i t" by (cases "td_file u") (auto simp: holds_def)
  with append_lands [OF sample_row_ok(1)] obtain v where v: "append_entry calm sample_entry u = (Inr (), v)" by blast
  from append_entry_holds [OF hu facts(3) _ v] have hv: "holds (td_file v) [sample_entry, ?c, sample_entry]"
    by (simp add: calm_def)
  have "submit_within_depth calm sample_entry 20 ?w = (Inr 0, v)"
    using u(1) v facts(2) by (simp add: submit_within_depth_def locked_undisturbed Let_def)
  with hv holds_view [OF hv, of "\<lambda>_. []"] facts(4) show ?thesis by auto
qed

text \<open>
  A row whose \<open>flags\<close> is a list raises an \<open>AttributeError\<close>, which \<open>from_record\<close> and the refresh do not
  catch: the cursor has moved on, and the next read lists the registry without it.
\<close>

definition listed_flags :: json where
  "listed_flags = JObj [(''registry_entry_id'', JStr ''a''), (''status'', JStr QUEUED), (''request_text'', JStr ''t''),
     (''origin'', JStr ''CLI''), (''requester_id'', JStr ''r''), (''flags'', JArr [JInt 1]), (''submitted_at'', JStr ''s'')]"

lemma skipped_after_an_attribute_error:
  "(let w = \<lparr>td_file = Stored 7 (row_text listed_flags), td_store = new_registry\<rparr>;
        (first, w) = latest_entries calm w; (second, w) = latest_entries calm w in
      first = Inl (PyError ''AttributeError'') \<and> second = Inr [])"
  by code_simp

end
