(* ===== verification/Schedule.thy ===== *)
theory Schedule
  imports Jsonl_Facts Control_Commands Timeutil
begin

text \<open>
  Schedules (\<open>runtime/mvp_runtime/scheduler.py\<close>): what is due when, and the store that several
  processes share.  A change reads the whole file and replaces it, under the store's lock.
\<close>

section \<open>Kinds and lanes\<close>

definition kind_factory :: string where "kind_factory = ''crypto_factory''"

definition risk_kinds :: "string list" where
  "risk_kinds = [''crypto_pipeline'', ''crypto_breaker_watch'', ''crypto_route_watch'']"

definition maintenance_kinds :: "string list" where
  "maintenance_kinds =
     [''analysis_task'', ''memory_prune'', ''crypto_factory'', ''crypto_report'', ''crypto_propose'',
      ''crypto_data_review'', ''ledger_rotate'', ''candle_archive'', ''crypto_null_control'',
      ''crypto_forward_cohort'', ''holdings_refresh'', ''management_report'', ''blog_verify'',
      ''blog_analyze'', ''blog_kw_replay'', ''blog_feedback'', ''blog_kw_direct'', ''blog_slot'',
      ''blog_instruction'', ''blog_watch'']"

definition schedule_kinds :: "string list" where
  "schedule_kinds =
     [''analysis_task'', ''memory_prune'', ''crypto_pipeline'', ''crypto_factory'', ''crypto_report'',
      ''crypto_propose'', ''crypto_data_review'', ''ledger_rotate'', ''crypto_breaker_watch'',
      ''crypto_route_watch'', ''candle_archive'', ''crypto_null_control'', ''crypto_forward_cohort'',
      ''holdings_refresh'', ''management_report'', ''blog_verify'', ''blog_analyze'', ''blog_kw_replay'',
      ''blog_feedback'', ''blog_kw_direct'', ''blog_slot'', ''blog_instruction'', ''blog_watch'']"

text \<open>A lane's kinds; \<open>None\<close> is every kind.\<close>

definition lane_kinds :: "string \<Rightarrow> string list option res" where
  "lane_kinds lane = (if lane = ''all'' then Inr None
     else if lane = ''risk'' then Inr (Some risk_kinds)
     else if lane = ''maintenance'' then Inr (Some maintenance_kinds)
     else Inl (Refused ''SCHEDULER_UNKNOWN_LANE''))"

section \<open>\<open>int()\<close>\<close>

text \<open>
  A number with a point or an exponent is the double nearest to it, which \<open>int()\<close> truncates:
  \<open>m * 10^e\<close>, rounded to 53 bits with ties to even.
\<close>

definition round_even :: "int \<Rightarrow> int \<Rightarrow> int" where
  "round_even p q = (let n = p div q; r = p mod q in
     if 2 * r < q \<or> (2 * r = q \<and> even n) then n else n + 1)"

function bit_length :: "int \<Rightarrow> nat" where
  "bit_length n = (if n \<le> 0 then 0 else Suc (bit_length (n div 2)))"
  by pat_completeness auto
termination by (relation "measure nat") auto

declare bit_length.simps [simp del]

definition double_trunc :: "int \<Rightarrow> int \<Rightarrow> int res" where
  "double_trunc m e =
     (let (p, q) = (if 0 \<le> e then (m * 10 ^ nat e, 1) else (m, 10 ^ nat (- e))); w = p div q; b = bit_length w in
      if w = 0 then Inr (if (2 ^ 54 - 1) * q \<le> 2 ^ 54 * p then 1 else 0)
      else let n = round_even (p * 2 ^ 53) (q * 2 ^ b) * 2 ^ b div 2 ^ 53 in
        if 2 ^ 1024 \<le> n then Inl (PyError ''OverflowError'') else Inr n)"

definition float_int :: "string \<Rightarrow> int res" where
  "float_int s =
     (let neg = (s \<noteq> [] \<and> hd s = CHR ''-''); u = (if neg then tl s else s); ds = takeWhile is_digit u;
          (frac, r) = parse_fraction (dropWhile is_digit u); (ex, r') = parse_exponent r;
          e = (case py_int (drop 1 ex) of Some n \<Rightarrow> n | None \<Rightarrow> 0) in
      if u = ''NaN'' then Inl (PyError ''ValueError'')
      else if u = ''Infinity'' then Inl (PyError ''OverflowError'')
      else bindR (double_trunc (int (digits_val 0 (ds @ drop 1 frac))) (e - int (length (drop 1 frac)))) (\<lambda>n.
        Inr (if neg then - n else n)))"

definition int_value :: "json \<Rightarrow> int res" where
  "int_value v = (case v of JInt n \<Rightarrow> Inr n | JBool b \<Rightarrow> Inr (if b then 1 else 0)
     | JStr s \<Rightarrow> (case py_int (strip s) of Some n \<Rightarrow> Inr n | None \<Rightarrow> Inl (PyError ''ValueError''))
     | JFloat r \<Rightarrow> float_int r
     | _ \<Rightarrow> Inl (PyError ''TypeError''))"

section \<open>A schedule\<close>

record schedule =
  sc_id :: string
  sc_kind :: string
  sc_request :: string
  sc_interval :: int
  sc_enabled :: bool
  sc_created_by :: string
  sc_created_at :: string
  sc_next_run_at :: string
  sc_reason :: string
  sc_last_run_at :: json
  sc_last_status :: json
  sc_expires_at :: "string option"

definition schedule_record :: "schedule \<Rightarrow> json" where
  "schedule_record s = JObj
     ([(''record_type'', JStr ''schedule.v0''), (''schedule_id'', JStr (sc_id s)), (''kind'', JStr (sc_kind s)),
       (''request'', JStr (sc_request s)), (''interval_seconds'', JInt (sc_interval s)),
       (''enabled'', JBool (sc_enabled s)), (''created_by'', JStr (sc_created_by s)),
       (''created_at'', JStr (sc_created_at s)), (''next_run_at'', JStr (sc_next_run_at s)),
       (''reason'', JStr (sc_reason s)), (''last_run_at'', sc_last_run_at s), (''last_status'', sc_last_status s)] @
      (case sc_expires_at s of None \<Rightarrow> [] | Some t \<Rightarrow> [(''expires_at'', JStr t)]))"

text \<open>
  \<open>from_record\<close>.  A missing key, a row that is no object and an \<open>int()\<close> that raises \<open>TypeError\<close> or
  \<open>ValueError\<close> are the refusal; an \<open>OverflowError\<close> of \<open>int()\<close> is neither and leaves the function.
\<close>

definition record_invalid :: "'a res" where
  "record_invalid = Inl (Refused ''SCHEDULE_RECORD_INVALID'')"

definition utc_string :: "json \<Rightarrow> bool" where
  "utc_string j = (case j of JStr s \<Rightarrow> fixed_utc s | _ \<Rightarrow> False)"

definition schedule_of :: "json \<Rightarrow> schedule res" where
  "schedule_of r =
     (if \<not> has_key r ''schedule_id'' \<or> \<not> has_key r ''kind'' \<or> \<not> has_key r ''interval_seconds'' then record_invalid
      else case int_value (jget r ''interval_seconds'') of
        Inl (PyError name) \<Rightarrow> if name \<in> {''TypeError'', ''ValueError''} then record_invalid else Inl (PyError name)
      | Inl e \<Rightarrow> Inl e
      | Inr interval \<Rightarrow>
          let next = jget r ''next_run_at''; expires = jget r ''expires_at'' in
          if \<not> has_key r ''next_run_at'' \<or> \<not> utc_string next then record_invalid
          else if expires \<noteq> JNull \<and> \<not> utc_string expires then record_invalid
          else Inr \<lparr>sc_id = py_str (jget r ''schedule_id''), sc_kind = py_str (jget r ''kind''),
            sc_request = str_default r ''request'' [], sc_interval = interval,
            sc_enabled = (if has_key r ''enabled'' then truthy (jget r ''enabled'') else True),
            sc_created_by = str_default r ''created_by'' ''unknown'', sc_created_at = str_default r ''created_at'' [],
            sc_next_run_at = py_str next, sc_reason = str_default r ''reason'' [],
            sc_last_run_at = jget r ''last_run_at'', sc_last_status = jget r ''last_status'',
            sc_expires_at = (if expires = JNull then None else Some (py_str expires))\<rparr>)"

section \<open>The grid\<close>

definition next_occurrence :: "string \<Rightarrow> int \<Rightarrow> string \<Rightarrow> string res" where
  "next_occurrence due_at interval now =
     bindR (parse_iso due_at) (\<lambda>anchor.
     bindR (parse_iso now) (\<lambda>t.
     if interval = 0 then Inl (PyError ''ZeroDivisionError'')
     else bindR (checked (anchor + max 1 ((t - anchor) div interval + 1) * interval)) (\<lambda>u. Inr (format_iso u))))"

definition min_interval_seconds :: int where
  "min_interval_seconds = 60"

definition build_schedule ::
  "(string \<Rightarrow> string) \<Rightarrow> string \<Rightarrow> json \<Rightarrow> json \<Rightarrow> json \<Rightarrow> string \<Rightarrow> string \<Rightarrow> bool \<Rightarrow> json \<Rightarrow> schedule res" where
  "build_schedule H k request interval_seconds created_by now reason enabled expires_at =
     (let req = (case request of JStr s \<Rightarrow> strip s | _ \<Rightarrow> []);
          creator = (case created_by of JStr s \<Rightarrow> s | _ \<Rightarrow> []) in
      bindR (ensure (k \<in> set schedule_kinds) ''UNKNOWN_KIND'') (\<lambda>_.
      case interval_seconds of JInt interval \<Rightarrow>
        bindR (ensure (min_interval_seconds \<le> interval) ''INVALID_INTERVAL'') (\<lambda>_.
        bindR (ensure (k \<noteq> ''analysis_task'' \<or> req \<noteq> []) ''MISSING_REQUEST'') (\<lambda>_.
        bindR (ensure (expires_at = JNull \<or> utc_string expires_at) ''INVALID_EXPIRY'') (\<lambda>_.
        bindR (ensure (strip creator \<noteq> []) ''MISSING_CREATOR'') (\<lambda>_.
        bindR (short_id H ''schedule'' (JObj [(''kind'', JStr k), (''request'', JStr req), (''interval'', JInt interval),
          (''created_by'', JStr creator), (''created_at'', JStr now)])) (\<lambda>i.
        bindR (plus_seconds now interval) (\<lambda>next.
        Inr \<lparr>sc_id = i, sc_kind = k, sc_request = req, sc_interval = interval, sc_enabled = enabled,
          sc_created_by = strip creator, sc_created_at = now, sc_next_run_at = next, sc_reason = reason,
          sc_last_run_at = JNull, sc_last_status = JNull,
          sc_expires_at = (if expires_at = JNull then None else Some (py_str expires_at))\<rparr>))))))
      | _ \<Rightarrow> Inl (Refused ''INVALID_INTERVAL'')))"

section \<open>The store\<close>

fun schedules_of :: "json list \<Rightarrow> schedule list res" where
  "schedules_of [] = Inr []"
| "schedules_of (r # rs) = bindR (schedule_of r) (\<lambda>s. bindR (schedules_of rs) (\<lambda>ss. Inr (s # ss)))"

definition list_schedules :: "(nat \<Rightarrow> string) \<Rightarrow> stored \<Rightarrow> schedule list res" where
  "list_schedules looks f = bindR (read_objects ''SCHEDULES_UNREADABLE'' looks f) schedules_of"

definition save_schedules :: "file_io \<Rightarrow> schedule list \<Rightarrow> stored \<Rightarrow> unit res \<times> stored" where
  "save_schedules io ss f =
     write_objects ''SCHEDULES_WRITE_FAILED'' (io_fate io) (io_fresh io) (map schedule_record ss) f"

text \<open>The lock, the read under it, and the change: a result and, when it writes, the new rows.\<close>

definition with_schedules ::
  "file_io \<Rightarrow> (schedule list \<Rightarrow> ('a \<times> schedule list option) res) \<Rightarrow> stored \<Rightarrow> 'a res \<times> stored" where
  "with_schedules io change f =
     (if \<not> io_lock io then (Inl (Refused ''SCHEDULES_WRITE_FAILED''), f)
      else let f = io_others io f in
        case bindR (list_schedules (io_looks io) f) change of
          Inl e \<Rightarrow> (Inl e, f)
        | Inr (x, None) \<Rightarrow> (Inr x, f)
        | Inr (x, Some ss) \<Rightarrow> bindW (save_schedules io ss f) (\<lambda>_ f. (Inr x, f)))"

definition add_schedule :: "file_io \<Rightarrow> schedule \<Rightarrow> stored \<Rightarrow> unit res \<times> stored" where
  "add_schedule io s = with_schedules io (\<lambda>ss. Inr ((), Some (ss @ [s])))"

definition add_checked ::
  "file_io \<Rightarrow> schedule \<Rightarrow> (schedule list \<Rightarrow> 'r list) \<Rightarrow> stored \<Rightarrow> 'r list res \<times> stored" where
  "add_checked io s check = with_schedules io (\<lambda>ss.
     Inr (check ss, if check ss = [] then Some (ss @ [s]) else None))"

definition named :: "string \<Rightarrow> schedule list \<Rightarrow> schedule option" where
  "named i ss = find (\<lambda>s. sc_id s = i) ss"

definition enabled_as :: "string \<Rightarrow> bool \<Rightarrow> schedule list \<Rightarrow> schedule list" where
  "enabled_as i b ss = map (\<lambda>s. if sc_id s = i then s\<lparr>sc_enabled := b\<rparr> else s) ss"

definition set_enabled_checked ::
  "file_io \<Rightarrow> string \<Rightarrow> bool \<Rightarrow> (schedule list \<Rightarrow> 'r list) \<Rightarrow> stored \<Rightarrow> (schedule option \<times> 'r list) res \<times> stored" where
  "set_enabled_checked io i b check = with_schedules io (\<lambda>ss. case named i ss of
       None \<Rightarrow> Inr ((None, []), None)
     | Some previous \<Rightarrow> Inr ((Some previous, check ss), if check ss = [] then Some (enabled_as i b ss) else None))"

definition remove_schedule :: "file_io \<Rightarrow> string \<Rightarrow> stored \<Rightarrow> schedule option res \<times> stored" where
  "remove_schedule io i = with_schedules io (\<lambda>ss. case named i ss of
       None \<Rightarrow> Inr (None, None)
     | Some removed \<Rightarrow> Inr (Some removed, Some (filter (\<lambda>s. sc_id s \<noteq> i) ss)))"

text \<open>\<open>set_enabled\<close> returns the last row of the id, as it was.\<close>

definition set_enabled :: "file_io \<Rightarrow> string \<Rightarrow> bool \<Rightarrow> stored \<Rightarrow> schedule option res \<times> stored" where
  "set_enabled io i b = with_schedules io (\<lambda>ss. case named i (rev ss) of
       None \<Rightarrow> Inr (None, None)
     | Some previous \<Rightarrow> Inr (Some previous, Some (enabled_as i b ss)))"

text \<open>A change of the first row of an id.\<close>

fun on_first :: "string \<Rightarrow> (schedule \<Rightarrow> schedule) \<Rightarrow> schedule list \<Rightarrow> schedule list" where
  "on_first i g [] = []"
| "on_first i g (s # ss) = (if sc_id s = i then g s # ss else s # on_first i g ss)"

definition claim_due :: "file_io \<Rightarrow> string \<Rightarrow> string \<Rightarrow> stored \<Rightarrow> schedule option res \<times> stored" where
  "claim_due io i now = with_schedules io (\<lambda>ss. case named i ss of
       None \<Rightarrow> Inr (None, None)
     | Some s \<Rightarrow>
         if \<not> (sc_enabled s \<and> sc_next_run_at s \<le> now) then Inr (None, None)
         else bindR (next_occurrence (sc_next_run_at s) (sc_interval s) now) (\<lambda>next.
           Inr (Some s, Some (on_first i (\<lambda>s. s\<lparr>sc_next_run_at := next\<rparr>) ss))))"

definition record_result :: "file_io \<Rightarrow> string \<Rightarrow> string \<Rightarrow> string \<Rightarrow> stored \<Rightarrow> unit res \<times> stored" where
  "record_result io i last_run_at last_status = with_schedules io (\<lambda>ss.
     Inr ((), if named i ss = None then None
       else Some (on_first i (\<lambda>s. s\<lparr>sc_last_run_at := JStr last_run_at, sc_last_status := JStr last_status\<rparr>) ss)))"

text \<open>Enabled schedules more than one interval behind: the process was not running.\<close>

fun overdue_of :: "int \<Rightarrow> schedule list \<Rightarrow> (schedule \<times> int) list res" where
  "overdue_of t [] = Inr []"
| "overdue_of t (s # ss) = (if \<not> sc_enabled s then overdue_of t ss
     else bindR (parse_iso (sc_next_run_at s)) (\<lambda>due. bindR (overdue_of t ss) (\<lambda>late.
       Inr (if sc_interval s < t - due then (s, t - due) # late else late))))"

definition overdue_schedules :: "schedule list \<Rightarrow> string \<Rightarrow> (schedule \<times> int) list res" where
  "overdue_schedules ss now =
     bindR (parse_iso now) (\<lambda>t. bindR (overdue_of t ss) (\<lambda>late. Inr (sort_key (\<lambda>x. - snd x) late)))"

end
