(* ===== verification/Scheduler.thy ===== *)
theory Scheduler
  imports Schedule
begin

text \<open>
  The tick (\<open>run_due\<close> of \<open>runtime/mvp_runtime/scheduler.py\<close>): which due schedules one pass fires, skips or
  defers, what it records of each, and the scan that finds the runs a dead process left open.

  A world is the store's file, the events of the scheduler ledger, the notices given and the calls made of
  \<open>_execute\<close>; a counter numbers the operations.  At each the environment says what surrounded it: the state
  of the store's lock and what others wrote, the control state, the clock, what the fire did.
\<close>

section \<open>Events\<close>

definition started_action :: string where "started_action = ''started''"
definition abandoned_action :: string where "abandoned_action = ''abandoned''"
definition deferred :: string where "deferred = ''deferred''"

definition terminal_actions :: "string list" where
  "terminal_actions = [''fired'', ''failed'', abandoned_action]"

definition mutation_actions :: "string list" where
  "mutation_actions = [''created'', ''enabled'', ''disabled'', ''removed'', ''expired'']"

definition schedule_run_id :: "(string \<Rightarrow> string) \<Rightarrow> schedule \<Rightarrow> string \<Rightarrow> string res" where
  "schedule_run_id H s claimed_at =
     short_id H ''srun'' (JObj [(''schedule_id'', JStr (sc_id s)), (''claimed_at'', JStr claimed_at)])"

definition scheduler_event ::
  "(string \<Rightarrow> string) \<Rightarrow> string \<Rightarrow> schedule \<Rightarrow> string \<Rightarrow> string \<Rightarrow> string option \<Rightarrow> (string \<times> json) list \<Rightarrow> json res" where
  "scheduler_event H action s now status run_id extra = stamped_event H ''scheduler_event.v0''
     ([(''action'', JStr action), (''schedule_id'', JStr (sc_id s)), (''kind'', JStr (sc_kind s)),
       (''status'', JStr status), (''created_at'', JStr now)] @ extra @
      (case run_id of None \<Rightarrow> [] | Some r \<Rightarrow> [(''schedule_run_id'', JStr r)]))"

definition mutation_event ::
  "(string \<Rightarrow> string) \<Rightarrow> string \<Rightarrow> schedule \<Rightarrow> string \<Rightarrow> bool option \<Rightarrow> json res" where
  "mutation_event H action s now previously_enabled =
     (if action \<notin> set mutation_actions then Inl (Refused ''SCHEDULER_EVENT_INVALID'')
      else scheduler_event H action s now
        (case map_of [(''enabled'', ''enabled''), (''disabled'', ''disabled''), (''removed'', ''removed''),
            (''expired'', ''disabled'')] action of
           Some st \<Rightarrow> st | None \<Rightarrow> if sc_enabled s then ''enabled'' else ''disabled'') None
        ([(''request'', JStr (sc_request s)), (''reason'', JStr (sc_reason s))] @
         (case previously_enabled of None \<Rightarrow> [] | Some b \<Rightarrow> [(''previously_enabled'', JBool b)]) @
         (if action = ''removed'' then [(''last_run_at'', sc_last_run_at s), (''last_status'', sc_last_status s)] else [])))"

definition abandoned_event :: "(string \<Rightarrow> string) \<Rightarrow> json \<Rightarrow> string \<Rightarrow> json res" where
  "abandoned_event H opened now = stamped_event H ''scheduler_event.v0''
     [(''action'', JStr abandoned_action), (''schedule_id'', jget opened ''schedule_id''),
      (''kind'', jget opened ''kind''), (''status'', JStr ''abandoned_mid_run''), (''created_at'', JStr now),
      (''schedule_run_id'', jget opened ''schedule_run_id''), (''started_at'', jget opened ''created_at'')]"

text \<open>The scan: the first \<open>started\<close> event of each run, and the runs that have a terminal event.\<close>

definition run_of :: "json \<Rightarrow> string option" where
  "run_of e = (case jget e ''schedule_run_id'' of JStr r \<Rightarrow> if r = [] then None else Some r | _ \<Rightarrow> None)"

definition pair_event :: "string list \<times> (string \<times> json) list \<Rightarrow> json \<Rightarrow> string list \<times> (string \<times> json) list" where
  "pair_event st e = (case st of (terminal, opened) \<Rightarrow> (case run_of e of None \<Rightarrow> (terminal, opened)
     | Some r \<Rightarrow>
         if jget e ''action'' = JStr started_action
         then (terminal, if map_of opened r = None then opened @ [(r, e)] else opened)
         else if jget e ''action'' \<in> set (map JStr terminal_actions) then (r # terminal, opened)
         else (terminal, opened)))"

definition abandoned_of :: "json list \<Rightarrow> json list" where
  "abandoned_of events = (case foldl pair_event ([], []) events of (terminal, opened) \<Rightarrow>
     map snd (filter (\<lambda>(r, e). r \<notin> set terminal) opened))"

text \<open>\<open>action in TERMINAL_ACTIONS\<close> hashes the action: a list or a dictionary raises.\<close>

definition find_abandoned_runs :: "json list \<Rightarrow> json list res" where
  "find_abandoned_runs events =
     (if list_ex (\<lambda>e. run_of e \<noteq> None \<and> unhashable (jget e ''action'')) events then Inl (PyError ''TypeError'')
      else Inr (abandoned_of events))"

section \<open>The pass\<close>

text \<open>
  What a fire did: a status, a refusal of the runtime, another exception, or the end of the process (an
  exit that no handler catches).
\<close>

datatype fire = Returned string | Fire_Refused string | Fire_Raised string | Process_Ended string

record child_end =
  ch_schedule :: schedule
  ch_fired :: bool
  ch_status :: string
  ch_run_id :: string
  ch_duration :: int

record tick_env =
  te_io :: "nat \<Rightarrow> file_io"
  te_control :: "nat \<Rightarrow> control_world"
  te_elapsed_us :: "nat \<Rightarrow> nat"
  te_busy :: "nat \<Rightarrow> bool"
  te_fire :: "nat \<Rightarrow> fire"
  te_append :: "nat \<Rightarrow> bool"
  te_readable :: "nat \<Rightarrow> bool"
  te_collected :: "child_end list"

record tally =
  tl_fired :: nat
  tl_skipped :: nat
  tl_failed :: nat
  tl_deferred :: nat
  tl_spawned :: nat

definition no_tally :: tally where
  "no_tally = \<lparr>tl_fired = 0, tl_skipped = 0, tl_failed = 0, tl_deferred = 0, tl_spawned = 0\<rparr>"

record tick_world =
  tw_file :: stored
  tw_events :: "json list"
  tw_fires :: "(schedule \<times> string \<times> nat) list"
  tw_notices :: "(string \<times> bool) list"
  tw_tally :: tally
  tw_results :: "(string \<times> string \<times> string) list"
  tw_tick :: nat

text \<open>The call: the hash, the time, whether there is a ledger and a notifier, the lane's kinds.\<close>

record pass_args =
  pa_hash :: "string \<Rightarrow> string"
  pa_now :: string
  pa_ledger :: bool
  pa_notifier :: bool
  pa_kinds :: "string list option"

definition ticked :: "tick_world \<Rightarrow> tick_world" where
  "ticked w = w\<lparr>tw_tick := Suc (tw_tick w)\<rparr>"

definition on_store :: "tick_env \<Rightarrow> (file_io \<Rightarrow> stored \<Rightarrow> 'a res \<times> stored) \<Rightarrow> tick_world \<Rightarrow> 'a res \<times> tick_world" where
  "on_store env op w = (let (r, f) = op (te_io env (tw_tick w)) (tw_file w) in (r, ticked (w\<lparr>tw_file := f\<rparr>)))"

definition append_event :: "tick_env \<Rightarrow> pass_args \<Rightarrow> json res \<Rightarrow> tick_world \<Rightarrow> unit res \<times> tick_world" where
  "append_event env a event w =
     (if \<not> pa_ledger a then (Inr (), w)
      else case event of Inl e \<Rightarrow> (Inl e, w)
      | Inr j \<Rightarrow> if te_append env (tw_tick w) then (Inr (), ticked (w\<lparr>tw_events := tw_events w @ [j]\<rparr>))
          else (Inl (Refused ''LEDGER_WRITE_FAILED''), ticked w))"

definition counted :: "(tally \<Rightarrow> tally) \<Rightarrow> tick_world \<Rightarrow> tick_world" where
  "counted g w = w\<lparr>tw_tally := g (tw_tally w)\<rparr>"

definition noted_result :: "string \<Rightarrow> string \<Rightarrow> string \<Rightarrow> tick_world \<Rightarrow> tick_world" where
  "noted_result i action status w = w\<lparr>tw_results := tw_results w @ [(i, action, status)]\<rparr>"

text \<open>
  \<open>_notify_status_change\<close>: a schedule starts failing, or comes back; the notifier's own errors are
  swallowed.  A last status that is no string has no \<open>startswith\<close>.
\<close>

definition notify_status_change ::
  "pass_args \<Rightarrow> schedule \<Rightarrow> json \<Rightarrow> bool \<Rightarrow> tick_world \<Rightarrow> unit res \<times> tick_world" where
  "notify_status_change a s previous has_failed w =
     (if has_failed then bindW (next_occurrence (sc_next_run_at s) (sc_interval s) (pa_now a), w) (\<lambda>_ w.
        (Inr (), w\<lparr>tw_notices := tw_notices w @ [(sc_id s, True)]\<rparr>))
      else if \<not> truthy previous then (Inr (), w)
      else case previous of
        JStr p \<Rightarrow> if startswith p ''failed:'' then (Inr (), w\<lparr>tw_notices := tw_notices w @ [(sc_id s, False)]\<rparr>)
          else (Inr (), w)
      | _ \<Rightarrow> (Inl (PyError ''AttributeError''), w))"

definition notify :: "pass_args \<Rightarrow> schedule \<Rightarrow> json \<Rightarrow> bool \<Rightarrow> tick_world \<Rightarrow> unit res \<times> tick_world" where
  "notify a s previous has_failed w = (if pa_notifier a then notify_status_change a s previous has_failed w else (Inr (), w))"

text \<open>The end of an occurrence: its terminal event, the stored result, the notice.\<close>

definition close_occurrence ::
  "tick_env \<Rightarrow> pass_args \<Rightarrow> schedule \<Rightarrow> string \<Rightarrow> string \<Rightarrow> string \<Rightarrow> int \<Rightarrow> json \<Rightarrow> tick_world \<Rightarrow> unit res \<times> tick_world" where
  "close_occurrence env a s action status run_id duration previous w =
     bindW (append_event env a (scheduler_event (pa_hash a) action s (pa_now a) status (Some run_id)
       [(''duration_ms'', JInt duration)]) w) (\<lambda>_ w.
     bindW (on_store env (\<lambda>io. record_result io (sc_id s) (pa_now a) status) w) (\<lambda>_ w.
     notify a s previous (action = ''failed'') (noted_result (sc_id s) action status w)))"

text \<open>
  \<open>_finish_factory_occurrence\<close> for each child the pass collects.  Its row of the summary is made before the notice here
  and after it in the code, which only a notice that raises can tell apart.
\<close>

fun collect_children :: "tick_env \<Rightarrow> pass_args \<Rightarrow> child_end list \<Rightarrow> tick_world \<Rightarrow> unit res \<times> tick_world" where
  "collect_children env a [] w = (Inr (), w)"
| "collect_children env a (c # cs) w =
     bindW (close_occurrence env a (ch_schedule c) (if ch_fired c then ''fired'' else ''failed'') (ch_status c)
       (ch_run_id c) (ch_duration c) (sc_last_status (ch_schedule c)) w) (\<lambda>_ w.
     collect_children env a cs (counted (\<lambda>t. if ch_fired c then t\<lparr>tl_fired := tl_fired t + 1\<rparr>
       else t\<lparr>tl_failed := tl_failed t + 1\<rparr>) w))"

text \<open>The fire of a claimed occurrence: what ends the bracket, or \<open>None\<close> when a spawned child will.\<close>

definition run_fire :: "tick_env \<Rightarrow> pass_args \<Rightarrow> schedule \<Rightarrow> nat \<Rightarrow> tick_world \<Rightarrow> (string \<times> string) option res \<times> tick_world" where
  "run_fire env a s n w =
     (let w' = ticked (w\<lparr>tw_fires := tw_fires w @ [(s, pa_now a, n)]\<rparr>);
          failing = (\<lambda>st w. (Inr (Some (''failed'', st)), counted (\<lambda>t. t\<lparr>tl_failed := tl_failed t + 1\<rparr>) w)) in
      case te_fire env (tw_tick w) of
        Process_Ended name \<Rightarrow> (Inl (PyError name), w')
      | Fire_Refused code \<Rightarrow> failing (''failed:'' @ code) w'
      | Fire_Raised name \<Rightarrow> failing (''failed:UNEXPECTED:'' @ name) w'
      | Returned st \<Rightarrow>
          if sc_kind s = kind_factory \<and> st = ''factory_child_spawned'' then
            (case on_store env (\<lambda>io. record_result io (sc_id s) (pa_now a) ''factory_child_running'')
                (counted (\<lambda>t. t\<lparr>tl_spawned := tl_spawned t + 1\<rparr>) w') of
               (Inr _, w) \<Rightarrow> (Inr None, noted_result (sc_id s) ''spawned'' ''factory_child_running'' w)
             | (Inl (Refused code), w) \<Rightarrow> failing (''failed:'' @ code) w
             | (Inl (PyError name), w) \<Rightarrow> failing (''failed:UNEXPECTED:'' @ name) w)
          else (Inr (Some (''fired'', st)), counted (\<lambda>t. t\<lparr>tl_fired := tl_fired t + 1\<rparr>) w'))"

text \<open>The duration of a fire, in milliseconds.\<close>

definition fire_ms :: "tick_env \<Rightarrow> tick_world \<Rightarrow> tick_world \<Rightarrow> int" where
  "fire_ms env w w' = int ((te_elapsed_us env (tw_tick w') - te_elapsed_us env (tw_tick w)) div 1000)"

definition fire_claimed :: "tick_env \<Rightarrow> pass_args \<Rightarrow> schedule \<Rightarrow> nat \<Rightarrow> tick_world \<Rightarrow> unit res \<times> tick_world" where
  "fire_claimed env a s n w =
     bindW (schedule_run_id (pa_hash a) s (pa_now a), w) (\<lambda>run_id w.
     if sc_expires_at s \<noteq> None \<and> the (sc_expires_at s) \<le> pa_now a then
       bindW (on_store env (\<lambda>io. set_enabled io (sc_id s) False) w) (\<lambda>previous w.
       bindW (case previous of None \<Rightarrow> (Inr (), w)
         | Some p \<Rightarrow> append_event env a (mutation_event (pa_hash a) ''expired'' (p\<lparr>sc_enabled := False\<rparr>) (pa_now a)
             (Some (sc_enabled p))) w) (\<lambda>_ w.
       (Inr (), noted_result (sc_id s) ''expired'' ''disabled'' w)))
     else
       bindW (append_event env a (scheduler_event (pa_hash a) started_action s (pa_now a) ''running'' (Some run_id) []) w) (\<lambda>_ w0.
       bindW (run_fire env a s n w0) (\<lambda>ending w. case ending of None \<Rightarrow> (Inr (), w)
         | Some (action, st) \<Rightarrow>
             close_occurrence env a s action st run_id (fire_ms env w0 w) (sc_last_status s) w)))"

definition defer_due :: "tick_env \<Rightarrow> pass_args \<Rightarrow> schedule \<Rightarrow> string \<Rightarrow> (string \<times> json) list \<Rightarrow> tick_world \<Rightarrow> unit res \<times> tick_world" where
  "defer_due env a s status extra w =
     bindW (append_event env a (scheduler_event (pa_hash a) deferred s (pa_now a) status None extra)
       (counted (\<lambda>t. t\<lparr>tl_deferred := tl_deferred t + 1\<rparr>) w)) (\<lambda>_ w.
     (Inr (), noted_result (sc_id s) deferred status w))"

definition pass_budget_us :: nat where
  "pass_budget_us = 60 * 1000 * 1000"

text \<open>One due schedule: the control state is read again before each.\<close>

definition pass_step :: "tick_env \<Rightarrow> pass_args \<Rightarrow> schedule \<Rightarrow> tick_world \<Rightarrow> unit res \<times> tick_world" where
  "pass_step env a s w =
     (let n = tw_tick w; w = ticked w; elapsed = te_elapsed_us env (tw_tick w);
          claim = on_store env (\<lambda>io. claim_due io (sc_id s) (pa_now a)) in
      if \<not> execution_allowed (load (te_control env n)) then
        bindW (claim w) (\<lambda>claimed w. case claimed of None \<Rightarrow> (Inr (), w)
        | Some _ \<Rightarrow>
          bindW (append_event env a (scheduler_event (pa_hash a) ''skipped'' s (pa_now a) ''skipped_not_active'' None [])
            (counted (\<lambda>t. t\<lparr>tl_skipped := tl_skipped t + 1\<rparr>) w)) (\<lambda>_ w.
          (Inr (), noted_result (sc_id s) ''skipped'' ''skipped_not_active'' w)))
      else if sc_kind s \<in> set maintenance_kinds \<and> pass_budget_us < elapsed then
        defer_due env a s ''deferred_pass_budget'' [(''pass_elapsed_ms'', JInt (int (elapsed div 1000))),
          (''pass_budget_ms'', JInt (int (pass_budget_us div 1000)))] w
      else if sc_kind s = kind_factory \<and> te_busy env (tw_tick w) then
        defer_due env a s ''deferred_factory_child_running'' [] w
      else bindW (claim w) (\<lambda>claimed w. case claimed of None \<Rightarrow> (Inr (), w)
        | Some c \<Rightarrow> fire_claimed env a c n w))"

fun pass_steps :: "tick_env \<Rightarrow> pass_args \<Rightarrow> schedule list \<Rightarrow> tick_world \<Rightarrow> unit res \<times> tick_world" where
  "pass_steps env a [] w = (Inr (), w)"
| "pass_steps env a (s # ss) w = bindW (pass_step env a s w) (\<lambda>_ w. pass_steps env a ss w)"

definition in_lane :: "pass_args \<Rightarrow> string \<Rightarrow> bool" where
  "in_lane a k = (case pa_kinds a of None \<Rightarrow> True | Some ks \<Rightarrow> k \<in> set ks)"

definition due_of :: "pass_args \<Rightarrow> schedule list \<Rightarrow> schedule list" where
  "due_of a ss = sort_key (\<lambda>s. if sc_kind s \<in> set risk_kinds then 0 else 1 :: nat)
     (filter (\<lambda>s. sc_enabled s \<and> sc_next_run_at s \<le> pa_now a \<and> in_lane a (sc_kind s)) ss)"

definition run_due :: "tick_env \<Rightarrow> pass_args \<Rightarrow> tick_world \<Rightarrow> tally res \<times> tick_world" where
  "run_due env a w =
     bindW (list_schedules (io_looks (te_io env (tw_tick w))) (tw_file w), ticked (w\<lparr>tw_tally := no_tally\<rparr>)) (\<lambda>ss w.
     bindW (if in_lane a kind_factory then collect_children env a (te_collected env) w else (Inr (), w)) (\<lambda>_ w.
     bindW (pass_steps env a (due_of a ss) w) (\<lambda>_ w. (Inr (tw_tally w), w))))"

section \<open>What a dead process left\<close>

text \<open>
  \<open>report_abandoned_runs\<close> of \<open>runtime/mvp_runtime/scheduler_cli.py\<close>, at startup: each orphan of the lane gets its
  terminal event.  An unreadable ledger skips the scan.  A kind that is a list is not hashable.
\<close>

definition lane_event :: "pass_args \<Rightarrow> json \<Rightarrow> bool" where
  "lane_event a e = (case pa_kinds a of None \<Rightarrow> True | Some ks \<Rightarrow> jget e ''kind'' \<in> JStr ` set ks)"

fun close_orphans :: "tick_env \<Rightarrow> pass_args \<Rightarrow> json list \<Rightarrow> tick_world \<Rightarrow> unit res \<times> tick_world" where
  "close_orphans env a [] w = (Inr (), w)"
| "close_orphans env a (e # es) w =
     bindW (append_event env a (abandoned_event (pa_hash a) e (pa_now a)) w) (\<lambda>_ w. close_orphans env a es w)"

definition report_abandoned_runs :: "tick_env \<Rightarrow> pass_args \<Rightarrow> tick_world \<Rightarrow> json list res \<times> tick_world" where
  "report_abandoned_runs env a w =
     (if \<not> pa_ledger a then (Inr [], w)
      else if \<not> te_readable env (tw_tick w) then (Inr [], ticked w)
      else bindW (find_abandoned_runs (tw_events w), ticked w) (\<lambda>orphans w.
        if pa_kinds a \<noteq> None \<and> list_ex (\<lambda>e. unhashable (jget e ''kind'')) orphans then (Inl (PyError ''TypeError''), w)
        else let own = filter (lane_event a) orphans in
          bindW (close_orphans env a own w) (\<lambda>_ w. (Inr own, w))))"

end
