(* ===== verification/Scheduler_Scan.thy ===== *)
theory Scheduler_Scan
  imports Scheduler
begin

text \<open>
  The scan for abandoned runs against its meaning, event by event, and what a restart's report
  does to it.
\<close>

definition starts :: "json \<Rightarrow> string \<Rightarrow> bool" where
  "starts e r = (run_of e = Some r \<and> jget e ''action'' = JStr started_action)"

definition ends :: "json \<Rightarrow> string \<Rightarrow> bool" where
  "ends e r = (run_of e = Some r \<and> jget e ''action'' \<noteq> JStr started_action \<and> jget e ''action'' \<in> set (map JStr terminal_actions))"

text \<open>The \<open>i\<close>-th event opens a run: it is the first start of it.\<close>

definition opens_run :: "json list \<Rightarrow> nat \<Rightarrow> bool" where
  "opens_run es i = (\<exists>r. starts (es ! i) r \<and> (\<forall>j < i. \<not> starts (es ! j) r))"

definition never_ends :: "json list \<Rightarrow> nat \<Rightarrow> bool" where
  "never_ends es i = (\<forall>r. run_of (es ! i) = Some r \<longrightarrow> (\<forall>e \<in> set es. \<not> ends e r))"

definition open_indices :: "json list \<Rightarrow> nat list" where
  "open_indices es = filter (opens_run es) [0..<length es]"

definition opened_runs :: "json list \<Rightarrow> (string \<times> json) list" where
  "opened_runs es = map (\<lambda>i. (the (run_of (es ! i)), es ! i)) (open_indices es)"

lemma started_not_terminal [simp]: "JStr started_action \<notin> set (map JStr terminal_actions)" "started_action \<notin> set terminal_actions"
  by (simp_all add: started_action_def terminal_actions_def abandoned_action_def)

lemma open_indices_snoc:
  "open_indices (es @ [e]) = open_indices es @
     (if \<exists>r. starts e r \<and> (\<forall>e' \<in> set es. \<not> starts e' r) then [length es] else [])"
proof -
  have "filter (opens_run (es @ [e])) [0..<length es] = filter (opens_run es) [0..<length es]"
    by (rule filter_cong) (auto simp: opens_run_def nth_append)
  moreover have "opens_run (es @ [e]) (length es) \<longleftrightarrow> (\<exists>r. starts e r \<and> (\<forall>e' \<in> set es. \<not> starts e' r))"
    by (auto simp: opens_run_def nth_append all_set_conv_all_nth)
  ultimately show ?thesis by (simp add: open_indices_def)
qed

lemma opened_runs_snoc:
  "opened_runs (es @ [e]) = opened_runs es @
     (if \<exists>r. starts e r \<and> (\<forall>e' \<in> set es. \<not> starts e' r) then [(the (run_of e), e)] else [])"
proof -
  have "map (\<lambda>i. (the (run_of ((es @ [e]) ! i)), (es @ [e]) ! i)) (open_indices es) =
      map (\<lambda>i. (the (run_of (es ! i)), es ! i)) (open_indices es)"
    by (rule map_cong) (auto simp: open_indices_def nth_append)
  then show ?thesis by (simp add: opened_runs_def open_indices_snoc)
qed

lemma opened_runs_dom: "r \<in> fst ` set (opened_runs es) \<longleftrightarrow> (\<exists>e \<in> set es. starts e r)"
proof (induction es rule: rev_induct)
  case (snoc e es)
  have "starts e r \<Longrightarrow> starts e q \<Longrightarrow> r = q" for q by (auto simp: starts_def)
  with snoc show ?case by (auto simp: opened_runs_snoc starts_def)
qed (simp add: opened_runs_def open_indices_def)

lemma opened_runs_distinct: "distinct (map fst (opened_runs es))"
proof (induction es rule: rev_induct)
  case (snoc e es)
  then show ?case using opened_runs_dom [of "the (run_of e)" es] by (auto simp: opened_runs_snoc starts_def)
qed (simp add: opened_runs_def open_indices_def)

lemma opened_runs_start: "(r, e) \<in> set (opened_runs es) \<Longrightarrow> e \<in> set es \<and> starts e r"
  by (auto simp: opened_runs_def open_indices_def opens_run_def starts_def)

lemmas pair_event_step = pair_event_def [of "(terminal, opened)" for terminal opened, simplified]

lemma pair_events:
  "\<exists>terminal. foldl pair_event ([], []) es = (terminal, opened_runs es) \<and> set terminal = {r. \<exists>e \<in> set es. ends e r}"
proof (induction es rule: rev_induct)
  case Nil
  show ?case by (simp add: opened_runs_def open_indices_def)
next
  case (snoc e es)
  then obtain terminal where t: "foldl pair_event ([], []) es = (terminal, opened_runs es)"
    "set terminal = {r. \<exists>e \<in> set es. ends e r}" by blast
  have dom: "map_of (opened_runs es) r = None \<longleftrightarrow> (\<forall>e' \<in> set es. \<not> starts e' r)" for r
    using opened_runs_dom [of r es] by (simp add: map_of_eq_None_iff)
  show ?case
  proof (cases "run_of e")
    case None
    then show ?thesis using t by (simp add: pair_event_step opened_runs_snoc starts_def ends_def)
  next
    case (Some r)
    then show ?thesis using t dom [of r]
      by (auto simp: pair_event_step opened_runs_snoc starts_def ends_def)
  qed
qed

lemma abandoned_opened:
  "abandoned_of es = map snd (filter (\<lambda>x. \<forall>e' \<in> set es. \<not> ends e' (fst x)) (opened_runs es))"
proof -
  obtain terminal where "foldl pair_event ([], []) es = (terminal, opened_runs es)"
    "set terminal = {r. \<exists>e \<in> set es. ends e r}" using pair_events by blast
  then show ?thesis by (auto simp: abandoned_of_def intro!: arg_cong [where f = "map snd"] filter_cong)
qed

text \<open>
  C25 The scan is exact.  \<open>find_abandoned_runs\<close> returns, in the order they began, the first start event of each run that has no
  terminal event anywhere in the ledger, each run once; it raises only for an action that is a list or a dictionary.
\<close>

theorem abandoned_scan_is_exact:
  "find_abandoned_runs es =
     (if list_ex (\<lambda>e. run_of e \<noteq> None \<and> unhashable (jget e ''action'')) es then Inl (PyError ''TypeError'')
      else Inr (map ((!) es) (filter (\<lambda>i. opens_run es i \<and> never_ends es i) [0..<length es])))"
proof -
  have "filter (\<lambda>x. \<forall>e' \<in> set es. \<not> ends e' (fst x)) (opened_runs es) =
      map (\<lambda>i. (the (run_of (es ! i)), es ! i)) (filter (never_ends es) (open_indices es))"
    unfolding opened_runs_def filter_map
    by (rule arg_cong [where f = "map _"], rule filter_cong)
       (auto simp: never_ends_def open_indices_def opens_run_def starts_def)
  then show ?thesis by (simp add: find_abandoned_runs_def abandoned_opened open_indices_def comp_def conj_commute)
qed

section \<open>The report of a restart\<close>

lemma stamped_fields:
  assumes "stamped_event H t fs = Inr e" "k \<noteq> ''record_type''" "k \<noteq> ''integrity''"
  shows "jget e k = (case map_of fs k of None \<Rightarrow> JNull | Some v \<Rightarrow> v)"
  using assms by (auto simp: stamped_event_def bindR_Inr_iff jget_def items_def map_add_def map_of_append split: option.splits)

lemma abandoned_event_fields:
  "abandoned_event H e now = Inr x \<Longrightarrow> run_of x = run_of e \<and> jget x ''action'' = JStr abandoned_action"
  using stamped_fields [of H "''scheduler_event.v0''" _ x "''schedule_run_id''"]
    stamped_fields [of H "''scheduler_event.v0''" _ x "''action''"]
  by (simp add: abandoned_event_def run_of_def)

lemma close_orphans_events:
  assumes "close_orphans env a es w = (Inr (), w')" "pa_ledger a"
  shows "\<exists>xs. tw_events w' = tw_events w @ xs \<and> list_all2 (\<lambda>e x. abandoned_event (pa_hash a) e (pa_now a) = Inr x) es xs"
  using assms
proof (induction es arbitrary: w)
  case (Cons e es)
  then obtain v where v: "append_event env a (abandoned_event (pa_hash a) e (pa_now a)) w = (Inr (), v)"
    "close_orphans env a es v = (Inr (), w')" by (auto simp: bindW_Inr_iff)
  then obtain x where "abandoned_event (pa_hash a) e (pa_now a) = Inr x" "tw_events v = tw_events w @ [x]"
    using Cons.prems(2) by (auto simp: append_event_def ticked_def split: sum.splits if_splits)
  with Cons.IH [OF v(2) Cons.prems(2)] show ?case by auto
qed simp

lemma opened_runs_ends:
  assumes "\<forall>x \<in> set xs. \<not> (\<exists>r. starts x r)"
  shows "opened_runs (es @ xs) = opened_runs es"
  using assms by (induction xs rule: rev_induct) (auto simp: opened_runs_snoc simp flip: append_assoc)

lemma orphans_after_their_ends:
  assumes own: "own = filter P (abandoned_of es)"
    and xs: "list_all2 (\<lambda>e x. run_of x = run_of e \<and> jget x ''action'' = JStr abandoned_action) own xs"
  shows "abandoned_of (es @ xs) = filter (\<lambda>e. \<not> P e) (abandoned_of es)"
proof -
  have field: "\<exists>e \<in> set own. run_of x = run_of e \<and> jget x ''action'' = JStr abandoned_action" if "x \<in> set xs" for x
    using xs that by (fastforce simp: list_all2_conv_all_nth in_set_conv_nth)
  have sent: "\<exists>x \<in> set xs. run_of x = run_of e \<and> jget x ''action'' = JStr abandoned_action" if "e \<in> set own" for e
    using xs that by (fastforce simp: list_all2_conv_all_nth in_set_conv_nth)
  have act: "abandoned_action \<noteq> started_action" "abandoned_action \<in> set terminal_actions"
    by (simp_all add: abandoned_action_def started_action_def terminal_actions_def)
  have same: "opened_runs (es @ xs) = opened_runs es"
    using field act by (intro opened_runs_ends) (fastforce simp: starts_def)
  have cond: "(\<forall>e' \<in> set (es @ xs). \<not> ends e' r) \<longleftrightarrow> (\<forall>e' \<in> set es. \<not> ends e' r) \<and> \<not> P e"
    if o: "(r, e) \<in> set (opened_runs es)" for r e
  proof -
    have re: "run_of e = Some r" using opened_runs_start [OF o] by (simp add: starts_def)
    have "(\<exists>x \<in> set xs. ends x r) \<longleftrightarrow> (\<exists>e' \<in> set own. run_of e' = Some r)"
      using field sent act by (fastforce simp: ends_def)
    also have "\<dots> \<longleftrightarrow> P e \<and> (\<forall>e' \<in> set es. \<not> ends e' r)"
    proof
      assume "\<exists>e' \<in> set own. run_of e' = Some r"
      then obtain e' q where e': "P e'" "(q, e') \<in> set (opened_runs es)" "run_of e' = Some r"
        "\<forall>e'' \<in> set es. \<not> ends e'' q" by (auto simp: own abandoned_opened)
      then have "q = r" using opened_runs_start [OF e'(2)] by (simp add: starts_def)
      with e' o opened_runs_distinct [of es] have "e' = e" by (metis map_of_is_SomeI option.inject)
      with e' \<open>q = r\<close> show "P e \<and> (\<forall>e' \<in> set es. \<not> ends e' r)" by simp
    next
      assume "P e \<and> (\<forall>e' \<in> set es. \<not> ends e' r)"
      then have "e \<in> set own" using o by (force simp: own abandoned_opened)
      with re show "\<exists>e' \<in> set own. run_of e' = Some r" by blast
    qed
    finally show ?thesis by auto
  qed
  have "filter (\<lambda>x. \<forall>e' \<in> set (es @ xs). \<not> ends e' (fst x)) (opened_runs es) =
      filter (\<lambda>x. (\<forall>e' \<in> set es. \<not> ends e' (fst x)) \<and> \<not> P (snd x)) (opened_runs es)"
    by (rule filter_cong [OF HOL.refl]) (use cond in \<open>simp add: prod_eq_iff split: prod.splits\<close>)
  with same show ?thesis by (simp add: abandoned_opened filter_map comp_def conj_commute)
qed

text \<open>
  C24 A restart closes its own.  When the report of a starting lane returns, the orphans of that lane have their terminal event, and
  the scan finds from then on exactly the orphans of the other lane, which may still be running there.
\<close>

theorem restart_closes_its_own_orphans:
  assumes "report_abandoned_runs env a w = (Inr own, w')" "pa_ledger a" "te_readable env (tw_tick w)"
  shows "\<exists>orphans. find_abandoned_runs (tw_events w) = Inr orphans \<and> own = filter (lane_event a) orphans \<and>
    find_abandoned_runs (tw_events w') = Inr (filter (\<lambda>e. \<not> lane_event a e) orphans)"
proof -
  let ?es = "tw_events w"
  from assms have own: "own = filter (lane_event a) (abandoned_of ?es)"
    and "close_orphans env a own (ticked w) = (Inr (), w')"
    and sound: "\<not> list_ex (\<lambda>e. run_of e \<noteq> None \<and> unhashable (jget e ''action'')) ?es"
    by (auto simp: report_abandoned_runs_def find_abandoned_runs_def bindW_Inr_iff Let_def split: if_splits)
  with close_orphans_events [of env a own "ticked w" w'] assms(2) obtain xs where
    xs: "tw_events w' = ?es @ xs" "list_all2 (\<lambda>e x. abandoned_event (pa_hash a) e (pa_now a) = Inr x) own xs"
    by (auto simp: ticked_def)
  from xs(2) have ends: "list_all2 (\<lambda>e x. run_of x = run_of e \<and> jget x ''action'' = JStr abandoned_action) own xs"
    by (rule list_all2_mono) (rule abandoned_event_fields)
  then have "\<forall>x \<in> set xs. jget x ''action'' = JStr abandoned_action" by (auto simp: list_all2_conv_all_nth in_set_conv_nth)
  then have "\<not> list_ex (\<lambda>e. run_of e \<noteq> None \<and> unhashable (jget e ''action'')) xs"
    by (auto simp: list_ex_iff unhashable_def)
  with sound own orphans_after_their_ends [OF own ends] xs(1) show ?thesis by (simp add: find_abandoned_runs_def)
qed

end
