(* ===== verification/Schedule_Facts.thy ===== *)
theory Schedule_Facts
  imports Schedule
begin

text \<open>
  What the store's operations do to the list of schedules a file holds, and the grid a
  schedule's occurrences lie on.
\<close>

section \<open>The grid\<close>

lemma fixed_utc_format: "fixed_utc (format_iso t)"
proof -
  obtain mo day where md: "month_of_day (month_lengths (year_of_days (t div 86400))) 1
      (t div 86400 - days_before_year (year_of_days (t div 86400))) = (mo, day)" by fastforce
  have "{..<20} = {0::nat, 1, 2, 3, 4, 5, 6, 7, 8, 9, 10, 11, 12, 13, 14, 15, 16, 17, 18, 19}" by (auto simp: lessThan_nat_numeral lessThan_Suc)
  then have "(\<forall>i < 20. P i) \<longleftrightarrow> (\<forall>i \<in> {0::nat, 1, 2, 3, 4, 5, 6, 7, 8, 9, 10, 11, 12, 13, 14, 15, 16, 17, 18, 19}. P i)" for P
    by (metis lessThan_iff)
  then show ?thesis by (simp add: fixed_utc_def format_iso_def md Let_def pad4_def pad2_def)
qed

lemma grid_step:
  fixes t a i :: int
  assumes "0 < i"
  defines "k \<equiv> max 1 ((t - a) div i + 1)"
  shows "t < a + k * i" "1 \<le> k" "k = 1 \<or> a + (k - 1) * i \<le> t"
proof -
  have d: "(t - a) div i * i \<le> t - a" "t - a < (t - a) div i * i + i"
    using assms(1) pos_mod_bound [of i "t - a"] pos_mod_sign [of i "t - a"] div_mult_mod_eq [of "t - a" i] by linarith+
  show "1 \<le> k" by (simp add: k_def)
  show "t < a + k * i"
  proof (cases "0 \<le> (t - a) div i")
    case True
    then show ?thesis using d by (simp add: k_def algebra_simps)
  next
    case False
    then have "t - a < 0" using assms(1) by (simp add: pos_imp_zdiv_nonneg_iff)
    with False assms(1) show ?thesis by (simp add: k_def)
  qed
  show "k = 1 \<or> a + (k - 1) * i \<le> t"
    using d(1) by (auto simp: k_def max_def split: if_splits)
qed

text \<open>
  C27 The grid.  The next occurrence is a whole positive number of intervals after the one that is due, lies
  strictly after the time of the claim, and is the first such point: a scheduler that was down fires once and
  keeps the phase.
\<close>

theorem next_occurrence_is_first_on_the_grid:
  assumes "parse_iso due = Inr a" "parse_iso now = Inr t" "0 < interval"
    and "next_occurrence due interval now = Inr next"
  shows "\<exists>k \<ge> 1. next = format_iso (a + k * interval) \<and> parse_iso next = Inr (a + k * interval) \<and>
    t < a + k * interval \<and> (k = 1 \<or> a + (k - 1) * interval \<le> t)"
proof -
  define k where "k = max 1 ((t - a) div interval + 1)"
  from assms have "next = format_iso (a + k * interval)" "0 \<le> a + k * interval" "a + k * interval < max_instant"
    by (auto simp: next_occurrence_def checked_def k_def split: if_splits)
  with grid_step [OF assms(3), of t a] parse_format [of "a + k * interval"] show ?thesis
    by (intro exI [of _ k]) (auto simp: k_def)
qed

lemma next_occurrence_later:
  assumes "0 < interval" "next_occurrence due interval (format_iso t) = Inr next" "0 \<le> t" "t < max_instant"
  obtains u where "next = format_iso u" "t < u" "0 \<le> u" "u < max_instant"
proof -
  from assms(2) obtain a where "parse_iso due = Inr a"
    by (cases "parse_iso due") (auto simp: next_occurrence_def)
  with assms have "next = format_iso (a + max 1 ((t - a) div interval + 1) * interval)"
    "0 \<le> a + max 1 ((t - a) div interval + 1) * interval" "a + max 1 ((t - a) div interval + 1) * interval < max_instant"
    by (auto simp: next_occurrence_def checked_def parse_format split: if_splits)
  with grid_step(1) [OF assms(1), of t a] that show ?thesis by blast
qed

section \<open>A row and its schedule\<close>

definition plain_leaf :: "json \<Rightarrow> bool" where
  "plain_leaf j = (j = JNull \<or> (\<exists>s. j = JStr s))"

definition wf_schedule :: "schedule \<Rightarrow> bool" where
  "wf_schedule s = (fixed_utc (sc_next_run_at s) \<and> (\<forall>t. sc_expires_at s = Some t \<longrightarrow> fixed_utc t) \<and>
     plain_leaf (sc_last_run_at s) \<and> plain_leaf (sc_last_status s))"

lemma storable_schedule: "wf_schedule s \<Longrightarrow> storable (schedule_record s)"
  by (auto simp: wf_schedule_def plain_leaf_def schedule_record_def split: option.splits)

lemma canon_plain: "plain_leaf j \<Longrightarrow> canon j = j"
  by (auto simp: plain_leaf_def)

lemma schedule_fields:
  assumes "wf_schedule s"
  defines "r \<equiv> canon (schedule_record s)"
  shows "jget r ''schedule_id'' = JStr (sc_id s)" "jget r ''kind'' = JStr (sc_kind s)"
    "jget r ''request'' = JStr (sc_request s)" "jget r ''interval_seconds'' = JInt (sc_interval s)"
    "jget r ''enabled'' = JBool (sc_enabled s)" "jget r ''created_by'' = JStr (sc_created_by s)"
    "jget r ''created_at'' = JStr (sc_created_at s)" "jget r ''next_run_at'' = JStr (sc_next_run_at s)"
    "jget r ''reason'' = JStr (sc_reason s)" "jget r ''last_run_at'' = sc_last_run_at s"
    "jget r ''last_status'' = sc_last_status s" "jget r ''expires_at'' = of_opt (sc_expires_at s)"
  using assms canon_plain [of "sc_last_run_at s"] canon_plain [of "sc_last_status s"]
  by (simp_all add: r_def jget_canon wf_schedule_def del: canon.simps)
     (simp_all add: schedule_record_def of_opt_def split: option.splits)

lemma has_key_of: "jget j k \<noteq> JNull \<Longrightarrow> has_key j k"
  by (auto simp: jget_def has_key_def split: option.splits)

lemma schedule_of_record:
  assumes "wf_schedule s"
  shows "schedule_of (canon (schedule_record s)) = Inr s"
proof -
  note f = schedule_fields [OF assms]
  have keys: "has_key (canon (schedule_record s)) ''schedule_id''" "has_key (canon (schedule_record s)) ''kind''"
    "has_key (canon (schedule_record s)) ''interval_seconds''" "has_key (canon (schedule_record s)) ''next_run_at''"
    "has_key (canon (schedule_record s)) ''enabled''" "has_key (canon (schedule_record s)) ''request''"
    "has_key (canon (schedule_record s)) ''created_by''" "has_key (canon (schedule_record s)) ''created_at''"
    "has_key (canon (schedule_record s)) ''reason''"
    by (rule has_key_of; simp add: f)+
  show ?thesis using assms
    by (cases "sc_expires_at s")
       (simp_all add: schedule_of_def f keys int_value_def utc_string_def wf_schedule_def str_default_def truthy_def of_opt_def)
qed

section \<open>A file of schedules\<close>

definition schedule_text :: "schedule list \<Rightarrow> string" where
  "schedule_text ss = concat (map row_text (map schedule_record ss))"

definition schedule_file :: "stored \<Rightarrow> schedule list \<Rightarrow> bool" where
  "schedule_file f ss = ((case f of Missing \<Rightarrow> ss = [] | Denied \<Rightarrow> False | Stored _ t \<Rightarrow> t = schedule_text ss) \<and>
     (\<forall>s \<in> set ss. wf_schedule s))"

lemma schedules_of_rows: "\<forall>s \<in> set ss. wf_schedule s \<Longrightarrow> schedules_of (map (canon \<circ> schedule_record) ss) = Inr ss"
  by (induction ss) (simp_all add: schedule_of_record)

lemma schedule_file_list: "schedule_file f ss \<Longrightarrow> list_schedules looks f = Inr ss"
proof (cases f)
  case Missing
  then show "schedule_file f ss \<Longrightarrow> ?thesis"
    by (simp add: schedule_file_def list_schedules_def read_objects_def iter_objects_def iter_numbered_def)
next
  case (Stored i t)
  assume a: "schedule_file f ss"
  let ?rows = "map schedule_record ss"
  have st: "\<forall>r \<in> set ?rows. storable r" using a storable_schedule by (auto simp: schedule_file_def)
  show ?thesis using rows_of_text [OF st] whole_rows [of ?rows] schedules_of_rows [of ss] a Stored
    by (simp add: schedule_file_def schedule_text_def list_schedules_def read_objects_whole)
qed (simp add: schedule_file_def)

lemma with_schedules_file:
  assumes "schedule_file f ss" "io_others io = id"
  shows "with_schedules io change f = (if \<not> io_lock io then (Inl (Refused ''SCHEDULES_WRITE_FAILED''), f)
    else case change ss of Inl e \<Rightarrow> (Inl e, f) | Inr (x, None) \<Rightarrow> (Inr x, f)
      | Inr (x, Some ss') \<Rightarrow> if io_fate io = Written then (Inr x, Stored (io_fresh io) (schedule_text ss'))
          else (Inl (Refused ''SCHEDULES_WRITE_FAILED''), f))"
  using assms schedule_file_list [OF assms(1)]
  by (auto simp: with_schedules_def save_schedules_def write_objects_def schedule_text_def split: sum.splits option.splits)

lemma with_schedules_cases:
  assumes "schedule_file f ss" "io_others io = id" "with_schedules io change f = (r, g)"
  obtains "g = f" "\<And>x. r = Inr x \<Longrightarrow> change ss = Inr (x, None)"
  | x ss' where "change ss = Inr (x, Some ss')" "r = Inr x" "g = Stored (io_fresh io) (schedule_text ss')"
  using assms(3) unfolding with_schedules_file [OF assms(1,2)]
  by (auto split: if_splits sum.splits option.splits)

lemma with_schedules_result:
  assumes "schedule_file f ss" "io_others io = id" "with_schedules io change f = (Inr x, g)"
  shows "\<exists>new. change ss = Inr (x, new) \<and> g = (case new of None \<Rightarrow> f | Some ss' \<Rightarrow> Stored (io_fresh io) (schedule_text ss'))"
  using assms(3) unfolding with_schedules_file [OF assms(1,2)]
  by (auto split: if_splits sum.splits option.splits)

lemma schedule_file_written:
  "\<forall>s \<in> set ss. wf_schedule s \<Longrightarrow> schedule_file (Stored i (schedule_text ss)) ss"
  by (simp add: schedule_file_def)

end
