(* ===== verification/Schedule_Runs.thy ===== *)
theory Schedule_Runs
  imports Schedule_Facts
begin

text \<open>
  Any number of processes over one schedule store: the tick loops of the lanes, the operator's console
  and the assistant's door.  A run carries the occurrences that were claimed, with the time of the claim.
\<close>

datatype sched_op =
    Do_Add schedule
  | Do_Add_Checked schedule "schedule list \<Rightarrow> string list"
  | Do_Enable string bool
  | Do_Enable_Checked string bool "schedule list \<Rightarrow> string list"
  | Do_Remove string
  | Do_Claim string string
  | Do_Result string string string

fun sched_effect :: "file_io \<Rightarrow> sched_op \<Rightarrow> stored \<Rightarrow> (schedule \<times> string) list \<times> stored" where
  "sched_effect io (Do_Add s) f = ([], snd (add_schedule io s f))"
| "sched_effect io (Do_Add_Checked s check) f = ([], snd (add_checked io s check f))"
| "sched_effect io (Do_Enable i b) f = ([], snd (set_enabled io i b f))"
| "sched_effect io (Do_Enable_Checked i b check) f = ([], snd (set_enabled_checked io i b check f))"
| "sched_effect io (Do_Remove i) f = ([], snd (remove_schedule io i f))"
| "sched_effect io (Do_Claim i now) f = (case claim_due io i now f of
     (Inr (Some s), g) \<Rightarrow> ([(s, now)], g) | (_, g) \<Rightarrow> ([], g))"
| "sched_effect io (Do_Result i at status) f = ([], snd (record_result io i at status f))"

text \<open>
  A schedule that is added was built by \<open>build_schedule\<close> and has an id of its own; a claim is made at a
  time the clock can show.
\<close>

definition clock_time :: "string \<Rightarrow> bool" where
  "clock_time now = (\<exists>t. 0 \<le> t \<and> t < max_instant \<and> now = format_iso t)"

definition new_schedule :: "stored \<Rightarrow> (schedule \<times> string) list \<Rightarrow> schedule \<Rightarrow> bool" where
  "new_schedule f log s =
     ((\<exists>H k req iv creator now reason en ex. build_schedule H k req iv creator now reason en ex = Inr s) \<and>
      (\<forall>ss. list_schedules (\<lambda>_. []) f = Inr ss \<longrightarrow> sc_id s \<notin> sc_id ` set ss) \<and> sc_id s \<notin> sc_id ` fst ` set log)"

fun sched_ok :: "stored \<Rightarrow> (schedule \<times> string) list \<Rightarrow> sched_op \<Rightarrow> bool" where
  "sched_ok f log (Do_Add s) = new_schedule f log s"
| "sched_ok f log (Do_Add_Checked s check) = new_schedule f log s"
| "sched_ok f log (Do_Claim i now) = clock_time now"
| "sched_ok f log op = True"

text \<open>
  Every write either replaces the file whole or leaves it: a crash and a failing disk are steps too.  What
  another process does is a step of its own.
\<close>

inductive schedule_run :: "stored \<Rightarrow> (schedule \<times> string) list \<Rightarrow> bool" where
  no_schedules: "schedule_run Missing []"
| sched_step: "schedule_run f log \<Longrightarrow> sched_ok f log op \<Longrightarrow> io_others io = id \<Longrightarrow>
    sched_effect io op f = (claims, g) \<Longrightarrow> schedule_run g (log @ claims)"

text \<open>What may happen after a given point, and the operations that can turn an id on.\<close>

inductive continues ::
  "(sched_op \<Rightarrow> bool) \<Rightarrow> stored \<Rightarrow> (schedule \<times> string) list \<Rightarrow> stored \<Rightarrow> (schedule \<times> string) list \<Rightarrow> bool"
  for ok f log where
  stays: "continues ok f log f []"
| goes_on: "continues ok f log g since \<Longrightarrow> ok op \<Longrightarrow> sched_ok g (log @ since) op \<Longrightarrow> io_others io = id \<Longrightarrow>
    sched_effect io op g = (claims, h) \<Longrightarrow> continues ok f log h (since @ claims)"

fun turns_on :: "string \<Rightarrow> sched_op \<Rightarrow> bool" where
  "turns_on i (Do_Add s) = (sc_id s = i)"
| "turns_on i (Do_Add_Checked s check) = (sc_id s = i)"
| "turns_on i (Do_Enable j b) = (j = i \<and> b)"
| "turns_on i (Do_Enable_Checked j b check) = (j = i \<and> b)"
| "turns_on i op = False"

section \<open>The invariant\<close>

definition timely :: "schedule \<Rightarrow> bool" where
  "timely s = (wf_schedule s \<and> 0 < sc_interval s \<and> clock_time (sc_next_run_at s))"

definition ahead_of :: "(schedule \<times> string) list \<Rightarrow> schedule list \<Rightarrow> bool" where
  "ahead_of log ss = (\<forall>c \<in> set log. \<forall>s \<in> set ss. sc_id (fst c) = sc_id s \<longrightarrow> snd c < sc_next_run_at s)"

definition claims_apart :: "(schedule \<times> string) list \<Rightarrow> bool" where
  "claims_apart log = (sorted_wrt (\<lambda>c d. sc_id (fst c) = sc_id (fst d) \<longrightarrow> snd c < sc_next_run_at (fst d)) log \<and>
     (\<forall>c \<in> set log. sc_enabled (fst c) \<and> sc_next_run_at (fst c) \<le> snd c))"

definition sound_rows :: "(schedule \<times> string) list \<Rightarrow> schedule list \<Rightarrow> bool" where
  "sound_rows log ss = (distinct (map sc_id ss) \<and> (\<forall>s \<in> set ss. timely s) \<and> ahead_of log ss)"

definition sound_store :: "stored \<Rightarrow> (schedule \<times> string) list \<Rightarrow> bool" where
  "sound_store f log = (\<exists>ss. schedule_file f ss \<and> sound_rows log ss)"

text \<open>Nothing is on that was not on or was turned on.\<close>

definition stays_off :: "sched_op \<Rightarrow> schedule list \<Rightarrow> schedule list \<Rightarrow> bool" where
  "stays_off op ss ss' = (\<forall>s' \<in> set ss'. sc_enabled s' \<longrightarrow> turns_on (sc_id s') op \<or>
     (\<exists>s \<in> set ss. sc_id s = sc_id s' \<and> sc_enabled s))"

lemma stays_off_refl [simp]: "stays_off op ss ss"
  by (auto simp: stays_off_def)

lemma build_schedule_fields:
  assumes "build_schedule H k req iv creator now reason en ex = Inr s"
  shows "iv = JInt (sc_interval s) \<and> 60 \<le> sc_interval s \<and> sc_kind s = k \<and> k \<in> set schedule_kinds \<and>
    sc_request s = (case req of JStr r \<Rightarrow> strip r | _ \<Rightarrow> []) \<and> creator = JStr (py_str creator) \<and>
    sc_created_by s = strip (py_str creator) \<and> sc_enabled s = en \<and>
    plus_seconds now (sc_interval s) = Inr (sc_next_run_at s) \<and> sc_last_run_at s = JNull \<and> sc_last_status s = JNull \<and>
    sc_expires_at s = (if ex = JNull then None else Some (py_str ex)) \<and> (ex = JNull \<or> utc_string ex)"
proof -
  obtain interval where "iv = JInt interval"
    using assms by (cases iv) (auto simp: build_schedule_def bindR_Inr_iff Let_def)
  moreover have "strip [] = []" by code_simp
  with \<open>iv = JInt interval\<close> obtain c where "creator = JStr c"
    using assms by (cases creator) (simp_all add: build_schedule_def bindR_Inr_iff Let_def)
  ultimately show ?thesis
    using assms unfolding build_schedule_def Let_def by (auto simp: bindR_Inr_iff min_interval_seconds_def)
qed

lemma utc_string_py_str: "utc_string j \<Longrightarrow> fixed_utc (py_str j)"
  by (cases j) (simp_all add: utc_string_def)

lemma plus_seconds_clock: "plus_seconds now n = Inr t \<Longrightarrow> clock_time t \<and> fixed_utc t"
  by (auto simp: plus_seconds_def bindR_Inr_iff checked_def clock_time_def fixed_utc_format split: if_splits)

lemma build_schedule_timely:
  "build_schedule H k req iv creator now reason en ex = Inr s \<Longrightarrow> timely s"
  using build_schedule_fields [of H k req iv creator now reason en ex s] plus_seconds_clock [of now "sc_interval s" "sc_next_run_at s"]
  by (auto simp: timely_def wf_schedule_def plain_leaf_def utc_string_py_str)

text \<open>A change that moves no due time back.\<close>

lemma sound_rows_map:
  assumes "sound_rows log ss"
    and "\<And>s. s \<in> set ss \<Longrightarrow> sc_id (g s) = sc_id s \<and> timely (g s) \<and> sc_next_run_at s \<le> sc_next_run_at (g s)"
  shows "sound_rows log (map g ss)"
proof -
  have "map sc_id (map g ss) = map sc_id ss" using assms(2) by simp
  moreover have "ahead_of log (map g ss)" unfolding ahead_of_def
  proof (intro ballI impI)
    fix c t assume c: "c \<in> set log" and t: "t \<in> set (map g ss)" "sc_id (fst c) = sc_id t"
    then obtain s where "s \<in> set ss" "t = g s" by auto
    with c t assms show "snd c < sc_next_run_at t"
      unfolding sound_rows_def ahead_of_def by (metis order_less_le_trans)
  qed
  ultimately show ?thesis using assms by (auto simp: sound_rows_def simp del: map_map)
qed

lemma sound_rows_add:
  "sound_rows log ss \<Longrightarrow> timely s \<Longrightarrow> sc_id s \<notin> sc_id ` set ss \<Longrightarrow> sc_id s \<notin> sc_id ` fst ` set log \<Longrightarrow>
   sound_rows log (ss @ [s])"
  unfolding sound_rows_def ahead_of_def by (auto simp: image_iff; metis image_eqI)

lemma sound_rows_filter: "sound_rows log ss \<Longrightarrow> sound_rows log (filter P ss)"
  by (auto simp: sound_rows_def ahead_of_def distinct_map_filter)

lemma on_first_map: "distinct (map sc_id ss) \<Longrightarrow> on_first i g ss = map (\<lambda>s. if sc_id s = i then g s else s) ss"
  by (induction ss) (auto simp: image_iff intro!: map_idI [symmetric])

lemma timely_next: "timely s \<Longrightarrow> clock_time n \<Longrightarrow> timely (s\<lparr>sc_next_run_at := n\<rparr>)"
  by (auto simp: timely_def wf_schedule_def clock_time_def fixed_utc_format)

lemma timely_enabled: "timely s \<Longrightarrow> timely (s\<lparr>sc_enabled := b\<rparr>)"
  by (simp add: timely_def wf_schedule_def)

lemma timely_result: "timely s \<Longrightarrow> timely (s\<lparr>sc_last_run_at := JStr a, sc_last_status := JStr b\<rparr>)"
  by (simp add: timely_def wf_schedule_def plain_leaf_def)

lemma sound_enabled: "sound_rows log ss \<Longrightarrow> sound_rows log (enabled_as i b ss)"
  unfolding enabled_as_def by (rule sound_rows_map) (auto simp: sound_rows_def timely_enabled)

lemma stays_off_enabled: "(b \<Longrightarrow> turns_on i op) \<Longrightarrow> stays_off op ss (enabled_as i b ss)"
  unfolding stays_off_def enabled_as_def by (auto simp del: if_image_distrib)

lemma named_some: "named i ss = Some s \<Longrightarrow> s \<in> set ss \<and> sc_id s = i"
  by (auto simp: named_def find_Some_iff)

lemma with_schedules_rows:
  assumes "schedule_file f ss" "io_others io = id" "P ss" "\<And>ss. P ss \<Longrightarrow> \<forall>s \<in> set ss. wf_schedule s"
    and "\<And>x ss'. change ss = Inr (x, Some ss') \<Longrightarrow> P ss'"
  shows "\<exists>ss'. schedule_file (snd (with_schedules io change f)) ss' \<and> P ss'"
proof -
  obtain r g where g: "with_schedules io change f = (r, g)" by fastforce
  from with_schedules_cases [OF assms(1,2) g] show ?thesis
  proof cases
    case 1
    with assms(1,3) g show ?thesis by auto
  next
    case (2 x ss')
    from 2(1) have "P ss'" by (rule assms(5))
    with assms(4) [OF this] 2(3) g schedule_file_written [of ss'] show ?thesis by auto
  qed
qed

lemma sound_rows_wf: "sound_rows log ss \<Longrightarrow> \<forall>s \<in> set ss. wf_schedule s"
  by (simp add: sound_rows_def timely_def)

lemma new_schedule_rows:
  "new_schedule f log s \<Longrightarrow> schedule_file f ss \<Longrightarrow> sound_rows log ss \<Longrightarrow> sound_rows log (ss @ [s])"
  using schedule_file_list [of f ss "\<lambda>_. []"] build_schedule_timely by (auto simp: new_schedule_def intro!: sound_rows_add)

lemma claim_sound:
  assumes ss: "schedule_file f ss" "sound_rows log ss" and "clock_time now" "io_others io = id"
    and claim: "claim_due io i now f = (r, g)"
  shows "if \<exists>s. r = Inr (Some s)
    then \<exists>s ss'. r = Inr (Some s) \<and> s \<in> set ss \<and> sc_id s = i \<and> sc_enabled s \<and> sc_next_run_at s \<le> now \<and>
      (\<forall>c \<in> set log. sc_id (fst c) = sc_id s \<longrightarrow> snd c < sc_next_run_at s) \<and>
      schedule_file g ss' \<and> sound_rows (log @ [(s, now)]) ss' \<and> stays_off (Do_Claim i now) ss ss'
    else g = f"
proof -
  obtain t where t: "now = format_iso t" "0 \<le> t" "t < max_instant" using assms(3) by (auto simp: clock_time_def)
  note dist = on_first_map [of ss]
  from with_schedules_cases [OF ss(1) assms(4) claim [unfolded claim_due_def]] show ?thesis
  proof cases
    case 1
    then have "r \<noteq> Inr (Some s)" for s by (auto simp: bindR_Inr_iff split: option.splits if_splits)
    with 1 show ?thesis by auto
  next
    case (2 x ss')
    then obtain s n where s: "named i ss = Some s" "sc_enabled s" "sc_next_run_at s \<le> now" "x = Some s"
        "next_occurrence (sc_next_run_at s) (sc_interval s) now = Inr n"
        "ss' = on_first i (\<lambda>s. s\<lparr>sc_next_run_at := n\<rparr>) ss"
      by (auto simp: bindR_Inr_iff split: option.splits if_splits)
    note mem = named_some [OF s(1)]
    from mem ss(2) have "0 < sc_interval s" "timely s" by (auto simp: sound_rows_def timely_def)
    with s(5) t obtain u where u: "n = format_iso u" "t < u" "0 \<le> u" "u < max_instant"
      using next_occurrence_later by metis
    then have n: "now < n" "clock_time n" using t format_iso_less [of t u] unfolding clock_time_def
      by (simp, blast intro: order_less_imp_le order_trans)
    have same: "s' = s" if "s' \<in> set ss" "sc_id s' = i" for s'
      using that mem ss(2) by (auto simp: sound_rows_def distinct_map inj_on_def)
    have rows: "ss' = map (\<lambda>s'. if sc_id s' = i then s'\<lparr>sc_next_run_at := n\<rparr> else s') ss"
      using s(6) dist ss(2) by (simp add: sound_rows_def)
    have "sound_rows log ss'" unfolding rows
    proof (rule sound_rows_map [OF ss(2)])
      fix s' assume "s' \<in> set ss"
      moreover from this have "timely s'" using ss(2) by (simp add: sound_rows_def)
      moreover have "sc_next_run_at s \<le> n" using s(3) n(1) by simp
      ultimately show "sc_id (if sc_id s' = i then s'\<lparr>sc_next_run_at := n\<rparr> else s') = sc_id s' \<and>
          timely (if sc_id s' = i then s'\<lparr>sc_next_run_at := n\<rparr> else s') \<and>
          sc_next_run_at s' \<le> sc_next_run_at (if sc_id s' = i then s'\<lparr>sc_next_run_at := n\<rparr> else s')"
        using same [of s'] n(2) by (cases "sc_id s' = i") (simp_all add: timely_next)
    qed
    moreover have "\<forall>t \<in> set ss'. sc_id t = i \<longrightarrow> sc_next_run_at t = n" unfolding rows by (simp del: if_image_distrib)
    then have "ahead_of [(s, now)] ss'" using n(1) mem by (auto simp: ahead_of_def)
    ultimately have sound: "sound_rows (log @ [(s, now)]) ss'" by (auto simp: sound_rows_def ahead_of_def)
    moreover have "schedule_file g ss'" unfolding 2(3) by (rule schedule_file_written [OF sound_rows_wf [OF sound]])
    moreover have "stays_off (Do_Claim i now) ss ss'" unfolding stays_off_def rows by (auto simp del: if_image_distrib)
    moreover have "\<forall>c \<in> set log. sc_id (fst c) = sc_id s \<longrightarrow> snd c < sc_next_run_at s"
      using mem ss(2) by (simp add: sound_rows_def ahead_of_def)
    ultimately show ?thesis using 2(2) s(2-4) mem by auto
  qed
qed

lemma op_sound:
  assumes ss: "schedule_file f ss" "sound_rows log ss" and ok: "sched_ok f log op" and io: "io_others io = id"
    and eff: "sched_effect io op f = (claims, g)" and op: "\<And>i now. op \<noteq> Do_Claim i now"
  shows "claims = [] \<and> (\<exists>ss'. schedule_file g ss' \<and> sound_rows log ss' \<and> stays_off op ss ss')"
proof -
  have start: "sound_rows log ss \<and> stays_off op ss ss" using ss by simp
  have wf: "sound_rows log ss' \<and> stays_off op ss ss' \<Longrightarrow> \<forall>s \<in> set ss'. wf_schedule s" for ss'
    using sound_rows_wf by blast
  note keep = with_schedules_rows [OF ss(1) io, of "\<lambda>ss'. sound_rows log ss' \<and> stays_off op ss ss'", OF start wf]
  show ?thesis
  proof (cases op)
    case (Do_Add s)
    have "\<exists>ss'. schedule_file (snd (add_schedule io s f)) ss' \<and> sound_rows log ss' \<and> stays_off op ss ss'"
      unfolding add_schedule_def
      by (rule keep) (use Do_Add ok ss new_schedule_rows in \<open>auto simp: stays_off_def\<close>)
    with Do_Add eff show ?thesis by auto
  next
    case (Do_Add_Checked s check)
    have "\<exists>ss'. schedule_file (snd (add_checked io s check f)) ss' \<and> sound_rows log ss' \<and> stays_off op ss ss'"
      unfolding add_checked_def
      by (rule keep) (use Do_Add_Checked ok ss new_schedule_rows in \<open>auto simp: stays_off_def split: if_splits\<close>)
    with Do_Add_Checked eff show ?thesis by auto
  next
    case (Do_Enable i b)
    have "\<exists>ss'. schedule_file (snd (set_enabled io i b f)) ss' \<and> sound_rows log ss' \<and> stays_off op ss ss'"
      unfolding set_enabled_def
      by (rule keep) (use Do_Enable ss sound_enabled in \<open>auto simp: stays_off_enabled split: option.splits\<close>)
    with Do_Enable eff show ?thesis by auto
  next
    case (Do_Enable_Checked i b check)
    have "\<exists>ss'. schedule_file (snd (set_enabled_checked io i b check f)) ss' \<and> sound_rows log ss' \<and> stays_off op ss ss'"
      unfolding set_enabled_checked_def
      by (rule keep) (use Do_Enable_Checked ss sound_enabled in \<open>auto simp: stays_off_enabled split: option.splits if_splits\<close>)
    with Do_Enable_Checked eff show ?thesis by auto
  next
    case (Do_Remove i)
    have "\<exists>ss'. schedule_file (snd (remove_schedule io i f)) ss' \<and> sound_rows log ss' \<and> stays_off op ss ss'"
      unfolding remove_schedule_def
      by (rule keep) (use ss sound_rows_filter in \<open>auto simp: stays_off_def split: option.splits\<close>)
    with Do_Remove eff show ?thesis by auto
  next
    case (Do_Result i at st)
    have dist: "distinct (map sc_id ss)" using ss by (simp add: sound_rows_def)
    have "sound_rows log (on_first i (\<lambda>s. s\<lparr>sc_last_run_at := JStr at, sc_last_status := JStr st\<rparr>) ss)"
      unfolding on_first_map [OF dist] by (rule sound_rows_map [OF ss(2)]) (use ss in \<open>auto simp: sound_rows_def timely_result\<close>)
    moreover have "stays_off op ss (on_first i (\<lambda>s. s\<lparr>sc_last_run_at := JStr at, sc_last_status := JStr st\<rparr>) ss)"
      unfolding on_first_map [OF dist] stays_off_def by (auto simp del: if_image_distrib)
    ultimately have "\<exists>ss'. schedule_file (snd (record_result io i at st f)) ss' \<and> sound_rows log ss' \<and> stays_off op ss ss'"
      unfolding record_result_def by (intro keep) (auto split: if_splits)
    with Do_Result eff show ?thesis by auto
  qed (use op in blast)
qed

lemma step_sound:
  assumes ss: "schedule_file f ss" "sound_rows log ss" and ok: "sched_ok f log op" and io: "io_others io = id"
    and eff: "sched_effect io op f = (claims, g)"
  shows "\<exists>ss'. schedule_file g ss' \<and> sound_rows (log @ claims) ss' \<and> stays_off op ss ss' \<and>
    (claims = [] \<or> (\<exists>s i now. claims = [(s, now)] \<and> op = Do_Claim i now \<and> s \<in> set ss \<and> sc_id s = i \<and> sc_enabled s \<and>
       sc_next_run_at s \<le> now \<and> (\<forall>c \<in> set log. sc_id (fst c) = sc_id s \<longrightarrow> snd c < sc_next_run_at s)))"
proof (cases "\<exists>i now. op = Do_Claim i now")
  case True
  then obtain i now where Do_Claim: "op = Do_Claim i now" by blast
  obtain r h where r: "claim_due io i now f = (r, h)" by fastforce
  have "clock_time now" using ok Do_Claim by simp
  note claim = claim_sound [OF ss this io r]
  show ?thesis
  proof (cases "\<exists>s. r = Inr (Some s)")
    case True
    with claim obtain s ss' where s: "r = Inr (Some s)" "s \<in> set ss" "sc_id s = i" "sc_enabled s" "sc_next_run_at s \<le> now"
        "\<forall>c \<in> set log. sc_id (fst c) = sc_id s \<longrightarrow> snd c < sc_next_run_at s"
        "schedule_file h ss'" "sound_rows (log @ [(s, now)]) ss'" "stays_off (Do_Claim i now) ss ss'" by auto
    with Do_Claim r eff have "claims = [(s, now)]" "g = h" by auto
    with s Do_Claim show ?thesis by (intro exI [of _ ss']) auto
  next
    case False
    with Do_Claim r eff claim ss show ?thesis by (auto split: sum.splits option.splits)
  qed
next
  case False
  with op_sound [OF ss ok io eff] show ?thesis by auto
qed

lemma run_sound: "schedule_run f log \<Longrightarrow> sound_store f log \<and> claims_apart log"
proof (induction rule: schedule_run.induct)
  case no_schedules
  show ?case by (auto simp: sound_store_def sound_rows_def ahead_of_def claims_apart_def schedule_file_def)
next
  case (sched_step f log op io claims g)
  then obtain ss where "schedule_file f ss" "sound_rows log ss" by (auto simp: sound_store_def)
  from step_sound [OF this sched_step.hyps(2-4)] sched_step.IH show ?case
    by (auto simp: sound_store_def claims_apart_def sorted_wrt_append)
qed

text \<open>
  C9 An occurrence is claimed at most once.  Whatever the tick loops, the console and the assistant's door do to
  the shared store, and whichever writes fail, two claims of one schedule are apart in time: each was enabled and due
  when it was claimed, and the later one fell due only after the earlier one had been made.
\<close>

theorem occurrence_claimed_once:
  assumes "schedule_run f log" "i < j" "j < length log" "sc_id (fst (log ! i)) = sc_id (fst (log ! j))"
  shows "snd (log ! i) < sc_next_run_at (fst (log ! j)) \<and> sc_next_run_at (fst (log ! i)) < sc_next_run_at (fst (log ! j)) \<and>
    sc_next_run_at (fst (log ! j)) \<le> snd (log ! j) \<and> sc_enabled (fst (log ! j))"
proof -
  have "claims_apart log" using run_sound [OF assms(1)] by blast
  then have "snd (log ! i) < sc_next_run_at (fst (log ! j))" "log ! i \<in> set log" "log ! j \<in> set log"
    "\<forall>c \<in> set log. sc_enabled (fst c) \<and> sc_next_run_at (fst c) \<le> snd c"
    using assms(2-4) by (auto simp: claims_apart_def sorted_wrt_iff_nth_less)
  then show ?thesis by (meson order_le_less_trans)
qed

lemma continues_off:
  assumes "continues (\<lambda>op. \<not> turns_on i op) f log g since" "schedule_file f ss" "sound_rows log ss"
    and "\<forall>s \<in> set ss. sc_id s = i \<longrightarrow> \<not> sc_enabled s"
  shows "(\<exists>ss'. schedule_file g ss' \<and> sound_rows (log @ since) ss' \<and> (\<forall>s \<in> set ss'. sc_id s = i \<longrightarrow> \<not> sc_enabled s)) \<and>
    (\<forall>c \<in> set since. sc_id (fst c) \<noteq> i)"
  using assms(1)
proof (induction rule: continues.induct)
  case stays
  with assms(2-4) show ?case by auto
next
  case (goes_on g since op io claims h)
  then obtain ss' where ss': "schedule_file g ss'" "sound_rows (log @ since) ss'" "\<forall>s \<in> set ss'. sc_id s = i \<longrightarrow> \<not> sc_enabled s"
    by blast
  from step_sound [OF ss'(1,2) goes_on.hyps(3-5)] obtain rows where rows: "schedule_file h rows"
      "sound_rows ((log @ since) @ claims) rows" "stays_off op ss' rows" "\<forall>c \<in> set claims. fst c \<in> set ss' \<and> sc_enabled (fst c)"
    by auto
  from rows(3) ss'(3) goes_on.hyps(2) have "\<forall>s \<in> set rows. sc_id s = i \<longrightarrow> \<not> sc_enabled s"
    unfolding stays_off_def by metis
  with rows goes_on.IH ss'(3) show ?case by auto
qed

text \<open>
  C22 An operator's disable is not reverted.  After \<open>set_enabled\<close> turned a schedule off, no tick of any lane claims it
  until somebody turns it on or adds it again, however the tick loops' own writes interleave with it.
\<close>

theorem disabled_until_enabled:
  assumes "schedule_run f log" "io_others io = id" "set_enabled io i False f = (Inr (Some s), g)"
    and "continues (\<lambda>op. \<not> turns_on i op) g log h since"
  shows "\<forall>c \<in> set since. sc_id (fst c) \<noteq> i"
proof -
  obtain ss where ss: "schedule_file f ss" "sound_rows log ss" using run_sound [OF assms(1)] by (auto simp: sound_store_def)
  from with_schedules_result [OF ss(1) assms(2) assms(3) [unfolded set_enabled_def]]
  have g: "g = Stored (io_fresh io) (schedule_text (enabled_as i False ss))" by (auto split: option.splits)
  note off = sound_enabled [OF ss(2), of i False]
  have "schedule_file g (enabled_as i False ss)" unfolding g by (rule schedule_file_written [OF sound_rows_wf [OF off]])
  moreover have "\<forall>s \<in> set (enabled_as i False ss). sc_id s = i \<longrightarrow> \<not> sc_enabled s"
    unfolding enabled_as_def by (simp del: if_image_distrib)
  ultimately show ?thesis using continues_off [OF assms(4) _ off] by blast
qed

end
