(* ===== verification/Scheduler_Safety.thy ===== *)
theory Scheduler_Safety
  imports Scheduler_Scan Schedule_Runs
begin

text \<open>
  What a pass may do.  A relation between the world before and after that every operation of a pass keeps
  is kept by the pass; the locale states it once, and each property is one relation.
\<close>

definition same_effects :: "tick_world \<Rightarrow> tick_world \<Rightarrow> bool" where
  "same_effects u v = (tw_file v = tw_file u \<and> tw_events v = tw_events u \<and> tw_fires v = tw_fires u \<and> tw_tick u \<le> tw_tick v)"

text \<open>A fire that is allowed: the control state was read for it, and its start is on the ledger.\<close>

definition start_recorded :: "pass_args \<Rightarrow> schedule \<Rightarrow> json list \<Rightarrow> bool" where
  "start_recorded a s es = (pa_ledger a \<longrightarrow>
     (\<exists>e \<in> set es. jget e ''action'' = JStr started_action \<and> jget e ''schedule_id'' = JStr (sc_id s) \<and>
        schedule_run_id (pa_hash a) s (pa_now a) = Inr (py_str (jget e ''schedule_run_id''))))"

definition permitted :: "tick_env \<Rightarrow> pass_args \<Rightarrow> schedule \<Rightarrow> nat \<Rightarrow> bool" where
  "permitted env a s n = (execution_allowed (load (te_control env n)) \<and> sc_enabled s \<and> sc_next_run_at s \<le> pa_now a \<and>
     (\<forall>t. sc_expires_at s = Some t \<longrightarrow> pa_now a < t))"

lemma scheduler_event_fields:
  assumes "scheduler_event H act s now st (Some r) [] = Inr e"
  shows "jget e ''action'' = JStr act" "jget e ''schedule_id'' = JStr (sc_id s)" "jget e ''schedule_run_id'' = JStr r"
  using assms stamped_fields [of H "''scheduler_event.v0''" _ e "''action''"]
    stamped_fields [of H "''scheduler_event.v0''" _ e "''schedule_id''"]
    stamped_fields [of H "''scheduler_event.v0''" _ e "''schedule_run_id''"]
  by (simp_all add: scheduler_event_def)

lemma start_is_recorded:
  assumes "append_event env a (scheduler_event (pa_hash a) started_action s (pa_now a) st (Some r) []) w = (Inr (), v)"
    and "schedule_run_id (pa_hash a) s (pa_now a) = Inr r"
  shows "start_recorded a s (tw_events v)"
  using assms scheduler_event_fields
  by (fastforce simp: append_event_def start_recorded_def ticked_def split: if_splits sum.splits)

lemma with_schedules_change:
  "with_schedules io change f = (Inr x, g) \<Longrightarrow>
   \<exists>ss new. list_schedules (io_looks io) (io_others io f) = Inr ss \<and> change ss = Inr (x, new)"
  by (cases "list_schedules (io_looks io) (io_others io f)")
     (auto simp: with_schedules_def Let_def bindW_Inr_iff split: if_splits sum.splits option.splits)

lemma claim_due_some:
  assumes "claim_due io i now f = (Inr (Some s), g)"
  shows "sc_id s = i \<and> sc_enabled s \<and> sc_next_run_at s \<le> now"
  using with_schedules_change [OF assms [unfolded claim_due_def]]
  by (auto simp: bindR_Inr_iff dest: named_some split: if_splits option.splits)

lemma on_store_Inr: "on_store env op w = (Inr x, v) \<Longrightarrow> \<exists>f. op (te_io env (tw_tick w)) (tw_file w) = (Inr x, f)"
  by (auto simp: on_store_def split: prod.splits)

locale pass_relation =
  fixes R :: "tick_world \<Rightarrow> tick_world \<Rightarrow> bool" and env :: tick_env and a :: pass_args
    and own :: "string \<Rightarrow> bool" and base :: nat
  assumes refl: "R w w"
    and trans: "R u v \<Longrightarrow> R v w \<Longrightarrow> R u w"
    and forward: "R u v \<Longrightarrow> tw_tick u \<le> tw_tick v"
    and books: "same_effects u v \<Longrightarrow> R u v"
    and recorded: "R w (snd (append_event env a e w))"
    and claimed: "own i \<Longrightarrow> R w (snd (on_store env (\<lambda>io. claim_due io i (pa_now a)) w))"
    and resulted: "own i \<Longrightarrow> R w (snd (on_store env (\<lambda>io. record_result io i (pa_now a) st) w))"
    and disabled: "own i \<Longrightarrow> R w (snd (on_store env (\<lambda>io. set_enabled io i False) w))"
    and fired: "own (sc_id s) \<Longrightarrow> base \<le> n \<Longrightarrow> n < tw_tick w \<Longrightarrow> permitted env a s n \<Longrightarrow>
      start_recorded a s (tw_events w) \<Longrightarrow> R w (w\<lparr>tw_fires := tw_fires w @ [(s, pa_now a, n)]\<rparr>)"
begin

lemma then_books: "R w u \<Longrightarrow> same_effects u v \<Longrightarrow> R w v"
  using trans books by blast

lemma bindW_kept:
  assumes "R w (snd m)" "\<And>x v. m = (Inr x, v) \<Longrightarrow> R v (snd (f x v))"
  shows "R w (snd (bindW m f))"
proof (cases m)
  case (Pair r v)
  with assms trans [of w v] show ?thesis by (cases r) auto
qed

lemma notify_kept: "R w (snd (notify a s p b w))"
  by (cases p; cases "next_occurrence (sc_next_run_at s) (sc_interval s) (pa_now a)")
     (auto simp: notify_def notify_status_change_def refl intro!: books simp: same_effects_def)

lemma noted_kept: "R w (noted_result i act st w)"
  by (rule books) (simp add: same_effects_def noted_result_def)

lemma counted_kept: "R w (counted g w)"
  by (rule books) (simp add: same_effects_def counted_def)

lemma close_kept: "own (sc_id s) \<Longrightarrow> R w (snd (close_occurrence env a s act st r d p w))"
  unfolding close_occurrence_def
  by (intro bindW_kept recorded resulted trans [OF noted_kept notify_kept])

lemma children_kept: "\<forall>c \<in> set cs. own (sc_id (ch_schedule c)) \<Longrightarrow> R w (snd (collect_children env a cs w))"
proof (induction cs arbitrary: w)
  case (Cons c cs)
  show ?case unfolding collect_children.simps
    by (rule bindW_kept) (use Cons in \<open>auto intro: close_kept trans [OF counted_kept]\<close>)
qed (simp add: refl)

lemma defer_kept: "R w (snd (defer_due env a s st extra w))"
  unfolding defer_due_def
  by (rule bindW_kept) (auto intro: trans [OF counted_kept recorded] noted_kept)

lemma ticked_kept: "R w (ticked w)"
  by (rule books) (simp add: same_effects_def ticked_def)

lemma run_fire_kept:
  assumes "own (sc_id s)" "base \<le> n" "n < tw_tick w" "permitted env a s n" "start_recorded a s (tw_events w)"
  shows "R w (snd (run_fire env a s n w))"
proof -
  have w': "R w (ticked (w\<lparr>tw_fires := tw_fires w @ [(s, pa_now a, n)]\<rparr>))"
    using fired [OF assms] ticked_kept trans by blast
  then have c: "R w (counted g (ticked (w\<lparr>tw_fires := tw_fires w @ [(s, pa_now a, n)]\<rparr>)))" for g
    using counted_kept trans by blast
  show ?thesis
  proof (cases "te_fire env (tw_tick w)")
    case (Returned st)
    let ?u = "counted (\<lambda>t. t\<lparr>tl_spawned := tl_spawned t + 1\<rparr>) (ticked (w\<lparr>tw_fires := tw_fires w @ [(s, pa_now a, n)]\<rparr>))"
    obtain r v where r: "on_store env (\<lambda>io. record_result io (sc_id s) (pa_now a) ''factory_child_running'') ?u = (r, v)"
      by fastforce
    then have v: "R w v" using resulted [OF assms(1), of ?u "''factory_child_running''"] trans [OF c] by simp
    show ?thesis using Returned c r trans [OF v counted_kept] trans [OF v noted_kept]
      by (auto simp: run_fire_def Let_def split: sum.splits exn.splits)
  qed (use w' c in \<open>simp_all add: run_fire_def Let_def\<close>)
qed

lemma fire_claimed_kept:
  assumes own: "own (sc_id s)" and n: "base \<le> n" "n < tw_tick w"
    and ok: "execution_allowed (load (te_control env n))" "sc_enabled s" "sc_next_run_at s \<le> pa_now a"
  shows "R w (snd (fire_claimed env a s n w))"
proof (cases "schedule_run_id (pa_hash a) s (pa_now a)")
  case (Inr r)
  show ?thesis
  proof (cases "sc_expires_at s \<noteq> None \<and> the (sc_expires_at s) \<le> pa_now a")
    case True
    have "R w (snd (bindW (on_store env (\<lambda>io. set_enabled io (sc_id s) False) w) (\<lambda>previous w.
       bindW (case previous of None \<Rightarrow> (Inr (), w)
         | Some p \<Rightarrow> append_event env a (mutation_event (pa_hash a) ''expired'' (p\<lparr>sc_enabled := False\<rparr>) (pa_now a)
             (Some (sc_enabled p))) w) (\<lambda>_ w. (Inr (), noted_result (sc_id s) ''expired'' ''disabled'' w)))))"
      by (intro bindW_kept disabled own) (auto intro: refl recorded noted_kept split: option.splits)
    with True Inr show ?thesis by (simp add: fire_claimed_def)
  next
    case False
    then have fire: "permitted env a s n" using ok by (auto simp: permitted_def not_le)
    have "R w (snd (bindW (append_event env a (scheduler_event (pa_hash a) started_action s (pa_now a) ''running'' (Some r) []) w)
       (\<lambda>_ w0. bindW (run_fire env a s n w0) (\<lambda>ending w. case ending of None \<Rightarrow> (Inr (), w)
         | Some (action, st) \<Rightarrow> close_occurrence env a s action st r (fire_ms env w0 w) (sc_last_status s) w))))"
    proof (rule bindW_kept [OF recorded])
      fix x v assume v: "append_event env a (scheduler_event (pa_hash a) started_action s (pa_now a) ''running'' (Some r) []) w = (Inr x, v)"
      then have "start_recorded a s (tw_events v)" using start_is_recorded Inr by (cases x) blast
      moreover have "n < tw_tick v"
        using forward [OF recorded [of w "scheduler_event (pa_hash a) started_action s (pa_now a) ''running'' (Some r) []"]] v n(2) by simp
      ultimately show "R v (snd (bindW (run_fire env a s n v) (\<lambda>ending w. case ending of None \<Rightarrow> (Inr (), w)
         | Some (action, st) \<Rightarrow> close_occurrence env a s action st r (fire_ms env v w) (sc_last_status s) w)))"
        by (intro bindW_kept run_fire_kept own n fire) (auto intro: refl close_kept own split: option.splits)
    qed
    with False Inr show ?thesis by (auto simp: fire_claimed_def)
  qed
qed (simp add: fire_claimed_def refl)

lemma pass_step_kept:
  assumes own: "own (sc_id s)" and base: "base \<le> tw_tick w"
  shows "R w (snd (pass_step env a s w))"
proof -
  let ?n = "tw_tick w" and ?w = "ticked w"
  have claim: "R ?w (snd (on_store env (\<lambda>io. claim_due io (sc_id s) (pa_now a)) ?w))" using claimed [OF own] .
  have skip: "R ?w (snd (bindW (on_store env (\<lambda>io. claim_due io (sc_id s) (pa_now a)) ?w) (\<lambda>claimed w. case claimed of
      None \<Rightarrow> (Inr (), w)
    | Some _ \<Rightarrow> bindW (append_event env a (scheduler_event (pa_hash a) ''skipped'' s (pa_now a) ''skipped_not_active'' None [])
        (counted (\<lambda>t. t\<lparr>tl_skipped := tl_skipped t + 1\<rparr>) w)) (\<lambda>_ w.
        (Inr (), noted_result (sc_id s) ''skipped'' ''skipped_not_active'' w)))))"
    by (intro bindW_kept claim)
       (auto intro!: refl bindW_kept trans [OF counted_kept recorded] noted_kept split: option.splits)
  have run: "R ?w (snd (bindW (on_store env (\<lambda>io. claim_due io (sc_id s) (pa_now a)) ?w) (\<lambda>claimed w. case claimed of
      None \<Rightarrow> (Inr (), w) | Some c \<Rightarrow> fire_claimed env a c ?n w)))"
    if allowed: "execution_allowed (load (te_control env ?n))"
  proof (rule bindW_kept [OF claim])
    fix x v assume v: "on_store env (\<lambda>io. claim_due io (sc_id s) (pa_now a)) ?w = (Inr x, v)"
    show "R v (snd (case x of None \<Rightarrow> (Inr (), v) | Some c \<Rightarrow> fire_claimed env a c ?n v))"
    proof (cases x)
      case (Some c)
      have c: "sc_id c = sc_id s" "sc_enabled c" "sc_next_run_at c \<le> pa_now a"
        using on_store_Inr [OF v] Some claim_due_some by fastforce+
      have "?n < tw_tick v" using forward [OF claim] v by (simp add: ticked_def)
      with c Some show ?thesis using fire_claimed_kept [of c ?n v] own base allowed by simp
    qed (simp add: refl)
  qed
  have "R ?w (snd (pass_step env a s w))"
    using skip run defer_kept by (simp add: pass_step_def Let_def)
  with ticked_kept show ?thesis using trans by blast
qed

lemma pass_steps_kept:
  "\<forall>s \<in> set ss. own (sc_id s) \<Longrightarrow> base \<le> tw_tick w \<Longrightarrow> R w (snd (pass_steps env a ss w))"
proof (induction ss arbitrary: w)
  case (Cons s ss)
  have step: "R w (snd (pass_step env a s w))" using Cons.prems by (intro pass_step_kept) auto
  show ?case unfolding pass_steps.simps
  proof (rule bindW_kept [OF step])
    fix x v assume "pass_step env a s w = (Inr x, v)"
    with forward [OF step] Cons.prems(2) have "base \<le> tw_tick v" by simp
    then show "R v (snd (pass_steps env a ss v))" using Cons by simp
  qed
qed (simp add: refl)

lemma set_due: "s \<in> set (due_of a ss) \<longleftrightarrow> s \<in> set ss \<and> sc_enabled s \<and> sc_next_run_at s \<le> pa_now a \<and> in_lane a (sc_kind s)"
  by (auto simp: due_of_def)

lemma run_due_kept:
  assumes "base \<le> tw_tick w" "in_lane a kind_factory \<Longrightarrow> \<forall>c \<in> set (te_collected env). own (sc_id (ch_schedule c))"
    and "\<And>ss s. list_schedules (io_looks (te_io env (tw_tick w))) (tw_file w) = Inr ss \<Longrightarrow> s \<in> set (due_of a ss) \<Longrightarrow> own (sc_id s)"
  shows "R w (snd (run_due env a w))"
proof -
  let ?w = "ticked (w\<lparr>tw_tally := no_tally\<rparr>)"
  have start: "R w ?w" by (rule books) (simp add: same_effects_def ticked_def)
  have kids: "R v (snd (if in_lane a kind_factory then collect_children env a (te_collected env) v else (Inr (), v)))" for v
    using children_kept assms(2) refl by simp
  show ?thesis unfolding run_due_def
  proof (rule bindW_kept)
    show "R w (snd (list_schedules (io_looks (te_io env (tw_tick w))) (tw_file w), ?w))" using start by simp
  next
    fix ss v assume ss: "(list_schedules (io_looks (te_io env (tw_tick w))) (tw_file w), ?w) = (Inr ss, v)"
    show "R v (snd (bindW (if in_lane a kind_factory then collect_children env a (te_collected env) v else (Inr (), v))
        (\<lambda>_ w. bindW (pass_steps env a (due_of a ss) w) (\<lambda>_ w. (Inr (tw_tally w), w)))))"
    proof (rule bindW_kept [OF kids])
      fix x u assume "(if in_lane a kind_factory then collect_children env a (te_collected env) v else (Inr (), v)) = (Inr x, u)"
      with forward [OF kids [of v]] ss assms(1) have "base \<le> tw_tick u" by (auto simp: ticked_def)
      then have "R u (snd (pass_steps env a (due_of a ss) u))" using assms(3) ss by (intro pass_steps_kept) auto
      then show "R u (snd (bindW (pass_steps env a (due_of a ss) u) (\<lambda>_ w. (Inr (tw_tally w), w))))"
        by (rule bindW_kept) (simp add: refl)
    qed
  qed
qed

end

section \<open>Every fire was permitted\<close>

text \<open>The events and the calls only grow, and each call of \<open>_execute\<close> was allowed when it was made.\<close>

definition allowed_fire :: "tick_env \<Rightarrow> pass_args \<Rightarrow> nat \<Rightarrow> tick_world \<Rightarrow> schedule \<times> string \<times> nat \<Rightarrow> bool" where
  "allowed_fire env a base v = (\<lambda>(s, now, n). now = pa_now a \<and> base \<le> n \<and> n < tw_tick v \<and>
     permitted env a s n \<and> start_recorded a s (tw_events v))"

definition fires_allowed :: "tick_env \<Rightarrow> pass_args \<Rightarrow> nat \<Rightarrow> tick_world \<Rightarrow> tick_world \<Rightarrow> bool" where
  "fires_allowed env a base u v = (tw_tick u \<le> tw_tick v \<and> (\<exists>es. tw_events v = tw_events u @ es) \<and>
     (\<exists>new. tw_fires v = tw_fires u @ new \<and> list_all (allowed_fire env a base v) new))"

lemma start_recorded_append: "start_recorded a s es \<Longrightarrow> start_recorded a s (es @ es')"
  by (auto simp: start_recorded_def)

lemma allowed_fire_later:
  "allowed_fire env a base v x \<Longrightarrow> tw_tick v \<le> tw_tick w \<Longrightarrow> tw_events w = tw_events v @ es \<Longrightarrow> allowed_fire env a base w x"
  by (cases x) (simp add: allowed_fire_def start_recorded_append)

lemma fires_allowed_trans:
  assumes "fires_allowed env a base u v" "fires_allowed env a base v w"
  shows "fires_allowed env a base u w"
proof -
  obtain es new where v: "tw_events v = tw_events u @ es" "tw_fires v = tw_fires u @ new" "list_all (allowed_fire env a base v) new"
    using assms(1) by (auto simp: fires_allowed_def)
  obtain es' new' where w: "tw_events w = tw_events v @ es'" "tw_fires w = tw_fires v @ new'" "list_all (allowed_fire env a base w) new'"
    using assms(2) by (auto simp: fires_allowed_def)
  have "list_all (allowed_fire env a base w) new"
    using v(3) by (rule list.pred_mono_strong) (use assms(2) w(1) allowed_fire_later in \<open>auto simp: fires_allowed_def\<close>)
  with v w assms show ?thesis by (simp add: fires_allowed_def)
qed

lemma fires_allowed_store: "fires_allowed env a base w (snd (on_store env op w))"
  by (simp add: fires_allowed_def on_store_def ticked_def split: prod.splits)

interpretation fires: pass_relation "fires_allowed env a base" env a "\<lambda>_. True" base for env a base
proof unfold_locales
  show "fires_allowed env a base w w" for w by (simp add: fires_allowed_def)
  show "fires_allowed env a base w (snd (append_event env a e w))" for e w
    by (auto simp: fires_allowed_def append_event_def ticked_def split: sum.splits)
qed (auto simp: fires_allowed_store same_effects_def intro: fires_allowed_trans, auto simp: fires_allowed_def allowed_fire_def)


section \<open>A lane touches its own\<close>

text \<open>The rows of the other lane, as they are.\<close>

definition lane_rows :: "string list \<Rightarrow> schedule list \<Rightarrow> stored \<Rightarrow> bool" where
  "lane_rows ks others f = (\<exists>ss. schedule_file f ss \<and> distinct (map sc_id ss) \<and> filter (\<lambda>s. sc_kind s \<notin> set ks) ss = others)"

definition quiet_store :: "tick_env \<Rightarrow> bool" where
  "quiet_store env = (\<forall>n. io_others (te_io env n) = id)"

definition others_kept :: "tick_env \<Rightarrow> string list \<Rightarrow> schedule list \<Rightarrow> tick_world \<Rightarrow> tick_world \<Rightarrow> bool" where
  "others_kept env ks others u v = (tw_tick u \<le> tw_tick v \<and>
     (quiet_store env \<longrightarrow> lane_rows ks others (tw_file u) \<longrightarrow> lane_rows ks others (tw_file v)))"

text \<open>A change of the rows of one id of the lane.\<close>

lemma own_rows_kept:
  assumes "lane_rows ks others f" "i \<notin> sc_id ` set others" "io_others io = id"
    and "\<And>ss x ss'. distinct (map sc_id ss) \<Longrightarrow> change ss = Inr (x, Some ss') \<Longrightarrow>
      \<exists>g. ss' = map (\<lambda>s. if sc_id s = i then g s else s) ss \<and>
        (\<forall>s. wf_schedule s \<longrightarrow> wf_schedule (g s) \<and> sc_id (g s) = sc_id s \<and> sc_kind (g s) = sc_kind s)"
  shows "lane_rows ks others (snd (with_schedules io change f))"
proof -
  obtain ss where ss: "schedule_file f ss" "distinct (map sc_id ss)" "filter (\<lambda>s. sc_kind s \<notin> set ks) ss = others"
    using assms(1) by (auto simp: lane_rows_def)
  obtain r h where h: "with_schedules io change f = (r, h)" by fastforce
  from with_schedules_cases [OF ss(1) assms(3) h] show ?thesis
  proof cases
    case 1
    with assms(1) h show ?thesis by simp
  next
    case (2 x ss')
    obtain g where g: "ss' = map (\<lambda>s. if sc_id s = i then g s else s) ss"
      "\<forall>s. wf_schedule s \<longrightarrow> wf_schedule (g s) \<and> sc_id (g s) = sc_id s \<and> sc_kind (g s) = sc_kind s"
      using assms(4) [OF ss(2) 2(1)] by blast
    have wf: "\<forall>s \<in> set ss. wf_schedule s" using ss(1) by (simp add: schedule_file_def)
    have "map sc_id ss' = map sc_id ss" unfolding g(1) using wf g(2) by simp
    moreover have "\<forall>s \<in> set ss'. wf_schedule s" unfolding g(1) using wf g(2) by (auto simp del: if_image_distrib)
    moreover have "filter (\<lambda>s. sc_kind s \<notin> set ks) ss' = others"
    proof -
      have "filter (\<lambda>s. sc_kind s \<notin> set ks) ss' =
          map (\<lambda>s. if sc_id s = i then g s else s) (filter (\<lambda>s. sc_kind s \<notin> set ks) ss)"
        unfolding g(1) filter_map by (rule arg_cong [where f = "map _"], rule filter_cong) (use wf g(2) in auto)
      also have "\<dots> = filter (\<lambda>s. sc_kind s \<notin> set ks) ss"
        by (rule map_idI) (use assms(2) ss(3) in auto)
      finally show ?thesis using ss(3) by simp
    qed
    ultimately have "lane_rows ks others h"
      unfolding lane_rows_def 2(3) using ss(2) schedule_file_written [of ss' "io_fresh io"] by metis
    then show ?thesis using h by simp
  qed
qed

lemma claim_lane:
  "lane_rows ks others f \<Longrightarrow> i \<notin> sc_id ` set others \<Longrightarrow> io_others io = id \<Longrightarrow> lane_rows ks others (snd (claim_due io i now f))"
  unfolding claim_due_def
proof (rule own_rows_kept, assumption+)
  fix ss x ss'
  assume d: "distinct (map sc_id ss)" and c: "(case named i ss of None \<Rightarrow> Inr (None, None)
     | Some s \<Rightarrow> if \<not> (sc_enabled s \<and> sc_next_run_at s \<le> now) then Inr (None, None)
         else bindR (next_occurrence (sc_next_run_at s) (sc_interval s) now) (\<lambda>next.
           Inr (Some s, Some (on_first i (\<lambda>s. s\<lparr>sc_next_run_at := next\<rparr>) ss)))) = Inr (x, Some ss')"
  obtain s where s: "named i ss = Some s" using c by (cases "named i ss") auto
  with c have "sc_enabled s \<and> sc_next_run_at s \<le> now" by (auto split: if_splits)
  with s c obtain n where "next_occurrence (sc_next_run_at s) (sc_interval s) now = Inr n"
      "ss' = on_first i (\<lambda>s. s\<lparr>sc_next_run_at := n\<rparr>) ss"
    by (auto simp: bindR_Inr_iff)
  moreover from this(1) have "fixed_utc n"
    by (auto simp: next_occurrence_def bindR_Inr_iff fixed_utc_format split: if_splits)
  ultimately show "\<exists>g. ss' = map (\<lambda>s. if sc_id s = i then g s else s) ss \<and>
      (\<forall>s. wf_schedule s \<longrightarrow> wf_schedule (g s) \<and> sc_id (g s) = sc_id s \<and> sc_kind (g s) = sc_kind s)"
    using d by (intro exI [of _ "\<lambda>s. s\<lparr>sc_next_run_at := n\<rparr>"]) (simp add: on_first_map wf_schedule_def)
qed

lemma result_lane:
  "lane_rows ks others f \<Longrightarrow> i \<notin> sc_id ` set others \<Longrightarrow> io_others io = id \<Longrightarrow>
   lane_rows ks others (snd (record_result io i at st f))"
  unfolding record_result_def
  by (rule own_rows_kept, assumption+)
     (auto simp: on_first_map wf_schedule_def plain_leaf_def split: if_splits
       intro!: exI [of _ "\<lambda>s. s\<lparr>sc_last_run_at := JStr at, sc_last_status := JStr st\<rparr>"])

lemma disable_lane:
  "lane_rows ks others f \<Longrightarrow> i \<notin> sc_id ` set others \<Longrightarrow> io_others io = id \<Longrightarrow>
   lane_rows ks others (snd (set_enabled io i b f))"
  unfolding set_enabled_def
  by (rule own_rows_kept, assumption+)
     (auto simp: enabled_as_def wf_schedule_def split: option.splits intro!: exI [of _ "\<lambda>s. s\<lparr>sc_enabled := b\<rparr>"])

lemma others_store:
  assumes "\<And>io f. lane_rows ks others f \<Longrightarrow> io_others io = id \<Longrightarrow> lane_rows ks others (snd (op io f))"
  shows "others_kept env ks others w (snd (on_store env op w))"
proof -
  obtain r g where g: "op (te_io env (tw_tick w)) (tw_file w) = (r, g)" by fastforce
  then show ?thesis using assms [of "tw_file w" "te_io env (tw_tick w)"]
    by (auto simp: others_kept_def on_store_def ticked_def quiet_store_def)
qed

lemma others_trans: "others_kept env ks others u v \<Longrightarrow> others_kept env ks others v w \<Longrightarrow> others_kept env ks others u w"
  by (auto simp: others_kept_def)

interpretation lane: pass_relation "others_kept env ks others" env a "\<lambda>i. i \<notin> sc_id ` set others" base
  for env ks others a base
proof unfold_locales
  show "others_kept env ks others w (snd (append_event env a e w))" for e w
    by (auto simp: others_kept_def append_event_def ticked_def split: sum.splits)
  show "others_kept env ks others w (snd (on_store env (\<lambda>io. claim_due io i (pa_now a)) w))"
    if "i \<notin> sc_id ` set others" for i w
    by (rule others_store) (rule claim_lane [OF _ that])
  show "others_kept env ks others w (snd (on_store env (\<lambda>io. record_result io i (pa_now a) st) w))"
    if "i \<notin> sc_id ` set others" for i w st
    by (rule others_store) (rule result_lane [OF _ that])
  show "others_kept env ks others w (snd (on_store env (\<lambda>io. set_enabled io i False) w))"
    if "i \<notin> sc_id ` set others" for i w
    by (rule others_store) (rule disable_lane [OF _ that])
  show "others_kept env ks others u w" if "others_kept env ks others u v" "others_kept env ks others v w" for u v w
    using that by (rule others_trans)
qed (simp_all add: others_kept_def same_effects_def)

text \<open>
  C23 A lane touches only its own schedules.  A pass of a lane leaves every row of another kind in the store as it was, whatever it
  fires, fails, defers or expires and whichever of its writes fail.
\<close>

theorem pass_keeps_other_lanes:
  assumes "pa_kinds a = Some ks" "schedule_file (tw_file w) ss" "distinct (map sc_id ss)" "\<forall>n. io_others (te_io env n) = id"
    and "kind_factory \<in> set ks \<longrightarrow> (\<forall>c \<in> set (te_collected env). \<forall>s \<in> set ss. sc_id s = sc_id (ch_schedule c) \<longrightarrow> sc_kind s \<in> set ks)"
  shows "\<exists>ss'. list_schedules looks (tw_file (snd (run_due env a w))) = Inr ss' \<and>
    filter (\<lambda>s. sc_kind s \<notin> set ks) ss' = filter (\<lambda>s. sc_kind s \<notin> set ks) ss"
proof -
  let ?others = "filter (\<lambda>s. sc_kind s \<notin> set ks) ss"
  have "others_kept env ks ?others w (snd (run_due env a w))"
  proof (rule lane.run_due_kept [where base = 0])
    show "\<forall>c \<in> set (te_collected env). sc_id (ch_schedule c) \<notin> sc_id ` set ?others" if "in_lane a kind_factory"
      using that assms(1,5) by (auto simp: in_lane_def)
  next
    fix rows s assume "list_schedules (io_looks (te_io env (tw_tick w))) (tw_file w) = Inr rows" "s \<in> set (due_of a rows)"
    then have "s \<in> set ss" "sc_kind s \<in> set ks"
      using schedule_file_list [OF assms(2)] assms(1) by (auto simp: due_of_def in_lane_def)
    then show "sc_id s \<notin> sc_id ` set ?others" using assms(3) by (auto simp: distinct_map inj_on_def)
  qed simp
  moreover have "lane_rows ks ?others (tw_file w)" using assms(2,3) by (auto simp: lane_rows_def)
  ultimately have "lane_rows ks ?others (tw_file (snd (run_due env a w)))"
    using assms(4) by (simp add: others_kept_def quiet_store_def)
  then show ?thesis by (auto simp: lane_rows_def dest: schedule_file_list)
qed

end
