(* ===== verification/Delegation.thy ===== *)
theory Delegation
  imports Scheduler
begin

text \<open>
  Changes of a schedule as one service (\<open>runtime/mvp_runtime/schedule_delegation.py\<close>): the operator's console
  applies any change; the assistant's are applied inside the scope the governance policy delegates, recorded
  as a proposal outside it, and refused for a financial kind.
\<close>

section \<open>The delegated scope\<close>

definition assistant_actor :: string where "assistant_actor = ''assistant_bridge''"

definition change_actions :: "string list" where
  "change_actions = [''create'', ''enable'', ''disable'', ''remove'']"

definition change_keys :: "string list" where
  "change_keys = [''action'', ''kind'', ''request'', ''interval_seconds'', ''schedule_id'', ''reason'']"

definition financial_kinds :: "string list" where
  "financial_kinds = risk_kinds @
     filter (\<lambda>k. startswith k ''crypto_'' \<or> k = ''candle_archive'') schedule_kinds @ [''holdings_refresh'']"

record delegation =
  dg_kinds :: "string list"
  dg_min_interval :: int
  dg_max_active :: int
  dg_max_days :: int
  dg_max_calls :: int

definition delegation_invalid :: "'a res" where
  "delegation_invalid = Inl (Refused ''SCHEDULE_DELEGATION_INVALID'')"

definition at_least :: "json \<Rightarrow> string \<Rightarrow> int \<Rightarrow> int res" where
  "at_least clause key floor = (case jget clause key of
     JInt n \<Rightarrow> if floor \<le> n then Inr n else delegation_invalid | _ \<Rightarrow> delegation_invalid)"

definition from_clause :: "json \<Rightarrow> delegation res" where
  "from_clause clause =
     (if \<not> is_obj clause \<or> jget clause ''mutation_allowed'' \<noteq> JBool True then delegation_invalid
      else case jget clause ''delegated_kinds'' of
        JArr ks \<Rightarrow>
          if ks = [] \<or> \<not> list_all is_str ks then delegation_invalid
          else let kinds = map py_str ks in
            if \<not> set kinds \<subseteq> set schedule_kinds then delegation_invalid
            else if set kinds \<inter> set financial_kinds \<noteq> {} then delegation_invalid
            else bindR (at_least clause ''min_interval_seconds'' min_interval_seconds) (\<lambda>interval.
              bindR (at_least clause ''max_active'' 1) (\<lambda>active.
              bindR (at_least clause ''max_validity_days'' 1) (\<lambda>days.
              bindR (at_least clause ''max_model_calls_per_run'' 1) (\<lambda>calls.
              Inr \<lparr>dg_kinds = kinds, dg_min_interval = interval, dg_max_active = active, dg_max_days = days,
                dg_max_calls = calls\<rparr>))))
      | _ \<Rightarrow> delegation_invalid)"

text \<open>
  The committed policy as the YAML library reads it; what does not read is refused.  \<open>x or {}\<close> replaces what is
  false, and \<open>get\<close> of what is no mapping is an \<open>AttributeError\<close>.
\<close>

datatype delegated = No_Delegation | Invalid_Delegation string | Delegated delegation

definition get_or_empty :: "json \<Rightarrow> string \<Rightarrow> json res" where
  "get_or_empty j k = (if \<not> truthy j then Inr JNull
     else if is_obj j then Inr (jget j k) else Inl (PyError ''AttributeError''))"

definition load_delegation :: "json option \<Rightarrow> delegated res" where
  "load_delegation policy = (case policy of
     None \<Rightarrow> Inl (Refused ''POLICY_UNREADABLE'')
   | Some p \<Rightarrow> bindR (get_or_empty p ''control_channel'') (\<lambda>channel.
       bindR (get_or_empty channel ''assistant_schedule'') (\<lambda>clause.
       if clause = JNull then Inr No_Delegation
       else bindR (from_clause clause) (\<lambda>d. Inr (Delegated d)))))"

definition load_delegation_safely :: "json option \<Rightarrow> delegated res" where
  "load_delegation_safely policy = (case load_delegation policy of
     Inl (Refused code) \<Rightarrow> Inr (Invalid_Delegation code) | r \<Rightarrow> r)"

section \<open>A change\<close>

record change =
  cg_action :: string
  cg_reason :: string
  cg_kind :: "string option"
  cg_request :: string
  cg_interval :: "int option"
  cg_id :: "string option"
  cg_enabled :: bool

definition change_invalid :: "'a res" where
  "change_invalid = Inl (Refused ''SCHEDULE_CHANGE_INVALID'')"

definition change_reason_chars :: nat where "change_reason_chars = 500"
definition change_request_chars :: nat where "change_request_chars = 20000"

definition parse_create :: "json \<Rightarrow> string \<Rightarrow> change res" where
  "parse_create raw reason =
     (case jget raw ''kind'' of JStr k \<Rightarrow>
        if strip k = [] then change_invalid
        else (case (if has_key raw ''request'' then jget raw ''request'' else JStr []) of JStr r \<Rightarrow>
          if change_request_chars < length r then change_invalid
          else (case jget raw ''interval_seconds'' of JInt n \<Rightarrow>
            if jget raw ''schedule_id'' \<noteq> JNull then change_invalid
            else Inr \<lparr>cg_action = ''create'', cg_reason = strip reason, cg_kind = Some (strip k), cg_request = r,
              cg_interval = Some n, cg_id = None, cg_enabled = True\<rparr>
          | _ \<Rightarrow> change_invalid)
        | _ \<Rightarrow> change_invalid)
      | _ \<Rightarrow> change_invalid)"

definition parse_named :: "json \<Rightarrow> string \<Rightarrow> string \<Rightarrow> change res" where
  "parse_named raw action reason =
     (case jget raw ''schedule_id'' of JStr i \<Rightarrow>
        if strip i = [] then change_invalid
        else if list_ex (\<lambda>k. jget raw k \<notin> {JNull, JStr []}) [''kind'', ''request'', ''interval_seconds''] then change_invalid
        else Inr \<lparr>cg_action = action, cg_reason = strip reason, cg_kind = None, cg_request = [],
          cg_interval = None, cg_id = Some (strip i), cg_enabled = True\<rparr>
      | _ \<Rightarrow> change_invalid)"

definition parse_change :: "json \<Rightarrow> change res" where
  "parse_change raw =
     (if \<not> is_obj raw \<or> \<not> set (map fst (items raw)) \<subseteq> set change_keys then change_invalid
      else case jget raw ''action'' of JStr a \<Rightarrow>
        let action = lower (strip a) in
        if action \<notin> set change_actions then change_invalid
        else (case jget raw ''reason'' of JStr reason \<Rightarrow>
          if strip reason = [] \<or> change_reason_chars < length reason then change_invalid
          else if action = ''create'' then parse_create raw reason else parse_named raw action reason
        | _ \<Rightarrow> change_invalid)
      | _ \<Rightarrow> change_invalid)"

text \<open>Why a change is outside the scope; the sentences are \<open>sentence\<close>.\<close>

datatype scope_reason =
    Kind_Not_Delegated "string option"
  | Created_By_Another string string
  | Validity_Over string string
  | Below_Minimum int
  | Never_Runs int
  | Same_Schedule_Expired string string
  | Ceiling_Reached nat

record change_outcome =
  oc_applied :: bool
  oc_proposed :: bool
  oc_schedule :: "schedule option"
  oc_reasons :: "scope_reason list"
  oc_event :: "json option"

definition change_verdict :: "change_outcome \<Rightarrow> string" where
  "change_verdict oc = (if oc_applied oc then ''APPLIED'' else if oc_proposed oc then ''PROPOSED'' else ''REFUSED'')"

definition changed_kind :: "change \<Rightarrow> schedule option \<Rightarrow> string option" where
  "changed_kind c existing = (case existing of None \<Rightarrow> cg_kind c | Some s \<Rightarrow> Some (sc_kind s))"

definition proposal_event ::
  "(string \<Rightarrow> string) \<Rightarrow> (scope_reason \<Rightarrow> string) \<Rightarrow> change \<Rightarrow> schedule option \<Rightarrow> string \<Rightarrow> string \<Rightarrow> scope_reason list \<Rightarrow> json res" where
  "proposal_event H sentence c existing actor now reasons = stamped_event H ''scheduler_event.v0''
     [(''action'', JStr ''proposed''),
      (''schedule_id'', of_opt (map_option sc_id existing)),
      (''kind'', of_opt (changed_kind c existing)),
      (''status'', JStr ''proposed''), (''created_at'', JStr now), (''proposed_by'', JStr actor),
      (''change_action'', JStr (cg_action c)),
      (''request'', JStr (if cg_request c \<noteq> [] then cg_request c
         else case existing of None \<Rightarrow> [] | Some s \<Rightarrow> sc_request s)),
      (''interval_seconds'', case existing of
         None \<Rightarrow> (case cg_interval c of None \<Rightarrow> JNull | Some n \<Rightarrow> JInt n) | Some s \<Rightarrow> JInt (sc_interval s)),
      (''reason'', JStr (cg_reason c)),
      (''out_of_scope'', JArr (map (\<lambda>r. JStr (sentence r)) reasons))]"

definition propose ::
  "tick_env \<Rightarrow> pass_args \<Rightarrow> (scope_reason \<Rightarrow> string) \<Rightarrow> change \<Rightarrow> schedule option \<Rightarrow> string \<Rightarrow> scope_reason list \<Rightarrow> tick_world \<Rightarrow>
   change_outcome res \<times> tick_world" where
  "propose env a sentence c existing actor reasons w =
     bindW (proposal_event (pa_hash a) sentence c existing actor (pa_now a) reasons, w) (\<lambda>event w.
     bindW (append_event env a (Inr event) w) (\<lambda>_ w.
     (Inr \<lparr>oc_applied = False, oc_proposed = True, oc_schedule = existing, oc_reasons = reasons, oc_event = Some event\<rparr>, w)))"

section \<open>Applying it\<close>

text \<open>A read of the store, after whatever another process wrote.\<close>

definition look_store :: "tick_env \<Rightarrow> tick_world \<Rightarrow> schedule list res \<times> tick_world" where
  "look_store env w = (let io = te_io env (tw_tick w); f = io_others io (tw_file w) in
     (list_schedules (io_looks io) f, ticked (w\<lparr>tw_file := f\<rparr>)))"

definition expired :: "schedule \<Rightarrow> string \<Rightarrow> bool" where
  "expired s now = (case sc_expires_at s of None \<Rightarrow> False | Some t \<Rightarrow> t \<noteq> [] \<and> t \<le> now)"

definition validity_seconds :: "delegation \<Rightarrow> int" where
  "validity_seconds d = dg_max_days d * 86400"

definition scope_reasons :: "change \<Rightarrow> schedule option \<Rightarrow> string \<Rightarrow> delegation \<Rightarrow> string \<Rightarrow> scope_reason list" where
  "scope_reasons c existing actor d now =
     (let k = changed_kind c existing in
      (if k \<notin> Some ` set (dg_kinds d) then [Kind_Not_Delegated k] else []) @
      (case existing of None \<Rightarrow> [] | Some s \<Rightarrow>
        (if sc_created_by s \<noteq> actor then [Created_By_Another (sc_id s) (sc_created_by s)] else []) @
        (if cg_action c = ''enable'' \<and> expired s now then [Validity_Over (sc_id s) (the (sc_expires_at s))] else [])) @
      (if cg_action c = ''create'' then (case cg_interval c of None \<Rightarrow> [] | Some n \<Rightarrow>
        (if n < dg_min_interval d then [Below_Minimum n] else []) @
        (if validity_seconds d \<le> n then [Never_Runs n] else []))
       else []))"

definition expired_twin :: "change \<Rightarrow> schedule option \<Rightarrow> string \<Rightarrow> string \<Rightarrow> schedule list \<Rightarrow> schedule option" where
  "expired_twin c existing actor now ss =
     find (\<lambda>s. sc_created_by s = actor \<and> Some (sc_kind s) = changed_kind c existing \<and> sc_request s = cg_request c \<and>
       expired s now) ss"

definition out_of_scope ::
  "tick_env \<Rightarrow> change \<Rightarrow> schedule option \<Rightarrow> string \<Rightarrow> delegation \<Rightarrow> string \<Rightarrow> tick_world \<Rightarrow> scope_reason list res \<times> tick_world" where
  "out_of_scope env c existing actor d now w =
     (if cg_action c \<noteq> ''create'' then (Inr (scope_reasons c existing actor d now), w)
      else bindW (look_store env w) (\<lambda>ss w.
        (Inr (scope_reasons c existing actor d now @
          (case expired_twin c existing actor now ss of None \<Rightarrow> []
           | Some s \<Rightarrow> [Same_Schedule_Expired (sc_id s) (the (sc_expires_at s))])), w)))"

definition active_of :: "string \<Rightarrow> string option \<Rightarrow> schedule list \<Rightarrow> schedule list" where
  "active_of actor excluding ss =
     filter (\<lambda>s. sc_enabled s \<and> sc_created_by s = actor \<and> Some (sc_id s) \<noteq> excluding) ss"

definition ceiling_check :: "string \<Rightarrow> delegation \<Rightarrow> string option \<Rightarrow> schedule list \<Rightarrow> scope_reason list" where
  "ceiling_check actor d excluding ss = (let n = length (active_of actor excluding ss) in
     if dg_max_active d \<le> int n then [Ceiling_Reached n] else [])"

text \<open>The scope in force for a bounded change, and the refusals that no proposal follows.\<close>

definition check_scope :: "delegated \<Rightarrow> change \<Rightarrow> schedule option \<Rightarrow> delegation res" where
  "check_scope delegated c existing = (case delegated of
     Invalid_Delegation _ \<Rightarrow> delegation_invalid
   | No_Delegation \<Rightarrow> Inl (Refused ''SCHEDULE_DELEGATION_DISABLED'')
   | Delegated d \<Rightarrow>
       let k = changed_kind c existing in
       if k \<in> Some ` set financial_kinds then Inl (Refused ''FINANCIAL_SCHEDULE_REFUSED'')
       else if cg_action c = ''create'' \<and> k \<notin> Some ` set schedule_kinds then Inl (Refused ''UNKNOWN_KIND'')
       else Inr d)"

definition twin :: "change \<Rightarrow> string \<Rightarrow> schedule list \<Rightarrow> schedule option" where
  "twin c actor ss = find (\<lambda>s. sc_enabled s \<and> sc_created_by s = actor \<and> Some (sc_kind s) = cg_kind c \<and>
     sc_request s = cg_request c \<and> Some (sc_interval s) = cg_interval c) ss"

definition applied :: "schedule \<Rightarrow> json option \<Rightarrow> change_outcome" where
  "applied s event = \<lparr>oc_applied = True, oc_proposed = False, oc_schedule = Some s, oc_reasons = [], oc_event = event\<rparr>"

text \<open>The create: an answered retry, the schedule, the write with the ceiling under its lock, the record.\<close>

definition create_schedule ::
  "tick_env \<Rightarrow> pass_args \<Rightarrow> (scope_reason \<Rightarrow> string) \<Rightarrow> change \<Rightarrow> string \<Rightarrow> delegation option \<Rightarrow> string option \<Rightarrow> tick_world \<Rightarrow>
   change_outcome res \<times> tick_world" where
  "create_schedule env a sentence c actor scope expires w =
     bindW (case scope of None \<Rightarrow> (Inr None, w)
       | Some d \<Rightarrow> bindW (look_store env w) (\<lambda>ss w. (Inr (twin c actor ss), w))) (\<lambda>same w.
     case same of Some s \<Rightarrow> (Inr (applied s None), w)
     | None \<Rightarrow>
       bindW (case cg_kind c of None \<Rightarrow> Inl (Refused ''UNKNOWN_KIND'') | Some k \<Rightarrow>
           build_schedule (pa_hash a) k (JStr (cg_request c)) (JInt (case cg_interval c of None \<Rightarrow> 0 | Some n \<Rightarrow> n))
             (JStr actor) (pa_now a) (cg_reason c) (cg_enabled c) (of_opt expires), w) (\<lambda>s w.
       bindW (case scope of None \<Rightarrow> bindW (on_store env (\<lambda>io. add_schedule io s) w) (\<lambda>_ w. (Inr [], w))
         | Some d \<Rightarrow> on_store env (\<lambda>io. add_checked io s (ceiling_check actor d None)) w) (\<lambda>reasons w.
       if reasons \<noteq> [] then propose env a sentence c None actor reasons w
       else bindW (mutation_event (pa_hash a) ''created'' s (pa_now a) None, w) (\<lambda>event w.
         bindW (append_event env a (Inr event) w) (\<lambda>_ w. (Inr (applied s (Some event)), w))))))"

text \<open>The other changes, of a schedule that was found.\<close>

definition change_named ::
  "tick_env \<Rightarrow> change \<Rightarrow> string \<Rightarrow> delegation option \<Rightarrow> schedule \<Rightarrow> tick_world \<Rightarrow>
   (schedule option \<times> scope_reason list) res \<times> tick_world" where
  "change_named env c actor scope existing w =
     (if cg_action c = ''remove'' then
        bindW (on_store env (\<lambda>io. remove_schedule io (sc_id existing)) w) (\<lambda>s w. (Inr (s, []), w))
      else if cg_action c = ''enable'' \<and> scope \<noteq> None then
        on_store env (\<lambda>io. set_enabled_checked io (sc_id existing) True
          (ceiling_check actor (the scope) (Some (sc_id existing)))) w
      else bindW (on_store env (\<lambda>io. set_enabled io (sc_id existing) (cg_action c = ''enable'')) w) (\<lambda>s w.
        (Inr (s, []), w)))"

definition mutation_of :: "string \<Rightarrow> string" where
  "mutation_of action = (if action = ''remove'' then ''removed'' else if action = ''enable'' then ''enabled'' else ''disabled'')"

definition change_existing ::
  "tick_env \<Rightarrow> pass_args \<Rightarrow> (scope_reason \<Rightarrow> string) \<Rightarrow> change \<Rightarrow> string \<Rightarrow> delegation option \<Rightarrow> schedule \<Rightarrow> tick_world \<Rightarrow>
   change_outcome res \<times> tick_world" where
  "change_existing env a sentence c actor scope existing w =
     bindW (change_named env c actor scope existing w) (\<lambda>(affected, reasons) w.
     if reasons \<noteq> [] then propose env a sentence c (Some existing) actor reasons w
     else case affected of None \<Rightarrow> (Inl (Refused ''SCHEDULE_NOT_FOUND''), w)
     | Some s \<Rightarrow>
       bindW (mutation_event (pa_hash a) (mutation_of (cg_action c)) s (pa_now a) (Some (sc_enabled s)), w) (\<lambda>event w.
       bindW (append_event env a (Inr event) w) (\<lambda>_ w.
       if cg_action c = ''remove'' then (Inr (applied s (Some event)), w)
       else bindW (look_store env w) (\<lambda>ss w.
         (Inr (applied (case named (sc_id existing) ss of None \<Rightarrow> s | Some after \<Rightarrow> after) (Some event)), w)))))"

definition find_existing :: "tick_env \<Rightarrow> change \<Rightarrow> tick_world \<Rightarrow> schedule option res \<times> tick_world" where
  "find_existing env c w =
     (if cg_action c = ''create'' then (Inr None, w)
      else bindW (look_store env w) (\<lambda>ss w. case find (\<lambda>s. Some (sc_id s) = cg_id c) ss of
        None \<Rightarrow> (Inl (Refused ''SCHEDULE_NOT_FOUND''), w) | Some s \<Rightarrow> (Inr (Some s), w)))"

text \<open>The scope of the change, or the reasons it is outside; an unbounded change has neither.\<close>

definition scope_of ::
  "tick_env \<Rightarrow> change \<Rightarrow> schedule option \<Rightarrow> string \<Rightarrow> string \<Rightarrow> delegated \<Rightarrow> bool \<Rightarrow> tick_world \<Rightarrow>
   (delegation option \<times> scope_reason list \<times> string option) res \<times> tick_world" where
  "scope_of env c existing actor now delegated bounded w =
     (if \<not> bounded then (Inr (None, [], None), w)
      else bindW (check_scope delegated c existing, w) (\<lambda>d w.
        bindW (out_of_scope env c existing actor d now w) (\<lambda>reasons w.
        if reasons \<noteq> [] then (Inr (Some d, reasons, None), w)
        else bindW (if cg_action c = ''create'' then bindR (plus_seconds now (validity_seconds d)) (\<lambda>t. Inr (Some t))
            else Inr None, w) (\<lambda>expires w. (Inr (Some d, [], expires), w)))))"

definition apply_change ::
  "tick_env \<Rightarrow> pass_args \<Rightarrow> (scope_reason \<Rightarrow> string) \<Rightarrow> change \<Rightarrow> string \<Rightarrow> delegated \<Rightarrow> bool \<Rightarrow> tick_world \<Rightarrow>
   change_outcome res \<times> tick_world" where
  "apply_change env a sentence c actor delegated bounded w =
     bindW (find_existing env c w) (\<lambda>existing w.
     bindW (scope_of env c existing actor (pa_now a) delegated bounded w) (\<lambda>(scope, reasons, expires) w.
     if reasons \<noteq> [] then propose env a sentence c existing actor reasons w
     else case existing of
       None \<Rightarrow> create_schedule env a sentence c actor scope expires w
     | Some s \<Rightarrow> change_existing env a sentence c actor scope s w))"

end
