(* ===== verification/Delegation_Safety.thy ===== *)
theory Delegation_Safety
  imports Delegation Scheduler_Safety
begin

text \<open>
  What a bounded change may do.  A property of the store that what the other processes do keeps, and that each
  of the four writes of the service keeps for the schedules in reach, is kept by the whole change.
\<close>

definition delegated_new :: "pass_args \<Rightarrow> string \<Rightarrow> delegation \<Rightarrow> schedule \<Rightarrow> bool" where
  "delegated_new a actor d s = (wf_schedule s \<and> sc_kind s \<in> set (dg_kinds d) \<and> sc_kind s \<notin> set financial_kinds \<and>
     sc_created_by s = strip actor \<and> dg_min_interval d \<le> sc_interval s \<and> sc_interval s < validity_seconds d \<and>
     (\<exists>t. plus_seconds (pa_now a) (validity_seconds d) = Inr t \<and> sc_expires_at s = Some t))"

definition in_reach :: "string \<Rightarrow> delegation \<Rightarrow> schedule \<Rightarrow> bool" where
  "in_reach actor d s = (sc_created_by s = actor \<and> sc_kind s \<in> set (dg_kinds d) \<and> sc_kind s \<notin> set financial_kinds)"

lemma propose_file: "tw_file (snd (propose env a sentence c existing actor reasons w)) = tw_file w"
  by (auto simp: propose_def bindW_def append_event_def ticked_def split: sum.splits prod.splits if_splits)

lemma append_file: "tw_file (snd (append_event env a e w)) = tw_file w"
  by (auto simp: append_event_def ticked_def split: sum.splits)

lemma on_store_file: "tw_file (snd (on_store env op w)) = snd (op (te_io env (tw_tick w)) (tw_file w))"
  by (simp add: on_store_def ticked_def split: prod.splits)

lemma look_store_file: "tw_file (snd (look_store env w)) = io_others (te_io env (tw_tick w)) (tw_file w)"
  by (simp add: look_store_def Let_def ticked_def)

lemma found_member: "find Q ss = Some s \<Longrightarrow> s \<in> set ss"
  by (auto simp: find_Some_iff)

locale bounded_change =
  fixes before P :: "stored \<Rightarrow> bool" and env :: tick_env and a :: pass_args and actor :: string and d :: delegation
    and own :: "string \<Rightarrow> bool" and live :: "string \<Rightarrow> bool"
  assumes start: "before f \<Longrightarrow> P f"
    and others: "P f \<Longrightarrow> P (io_others (te_io env n) f)" "before f \<Longrightarrow> before (io_others (te_io env n) f)"
    and reach: "before f \<Longrightarrow> list_schedules looks f = Inr ss \<Longrightarrow> s \<in> set ss \<Longrightarrow> in_reach actor d s \<Longrightarrow> own (sc_id s)"
    and alive: "before f \<Longrightarrow> list_schedules looks f = Inr ss \<Longrightarrow> s \<in> set ss \<Longrightarrow> in_reach actor d s \<Longrightarrow>
      \<not> expired s (pa_now a) \<Longrightarrow> live (sc_id s)"
    and added: "before f \<Longrightarrow> delegated_new a actor d s \<Longrightarrow> P (snd (add_checked (te_io env n) s (ceiling_check actor d None) f))"
    and enabled: "before f \<Longrightarrow> own i \<Longrightarrow> live i \<Longrightarrow>
      P (snd (set_enabled_checked (te_io env n) i True (ceiling_check actor d (Some i)) f))"
    and disabled: "before f \<Longrightarrow> own i \<Longrightarrow> P (snd (set_enabled (te_io env n) i False f))"
    and removed: "before f \<Longrightarrow> own i \<Longrightarrow> P (snd (remove_schedule (te_io env n) i f))"
begin

abbreviation kept :: "tick_world \<Rightarrow> bool" where
  "kept w \<equiv> P (tw_file w)"

abbreviation unwritten :: "tick_world \<Rightarrow> bool" where
  "unwritten w \<equiv> before (tw_file w)"

lemma bind_kept: "kept (snd m) \<Longrightarrow> (\<And>x v. m = (Inr x, v) \<Longrightarrow> kept v \<Longrightarrow> kept (snd (f x v))) \<Longrightarrow> kept (snd (bindW m f))"
  by (auto simp: bindW_def split: prod.splits sum.splits)

lemma bind_first:
  "unwritten (snd m) \<Longrightarrow> (\<And>x v. m = (Inr x, v) \<Longrightarrow> unwritten v \<Longrightarrow> kept (snd (f x v))) \<Longrightarrow> kept (snd (bindW m f))"
  by (auto simp: bindW_def start split: prod.splits sum.splits)

lemma bind_unwritten:
  "unwritten (snd m) \<Longrightarrow> (\<And>x v. m = (Inr x, v) \<Longrightarrow> unwritten v \<Longrightarrow> unwritten (snd (f x v))) \<Longrightarrow> unwritten (snd (bindW m f))"
  by (auto simp: bindW_def split: prod.splits sum.splits)

lemma look_kept: "kept w \<Longrightarrow> kept (snd (look_store env w))"
  by (simp add: look_store_file others)

lemma look_unwritten: "unwritten w \<Longrightarrow> unwritten (snd (look_store env w))"
  by (simp add: look_store_file others)

lemma create_kept:
  assumes "unwritten w" "cg_kind c = Some k" "k \<in> set (dg_kinds d)" "k \<notin> set financial_kinds"
    and "\<forall>n. cg_interval c = Some n \<longrightarrow> dg_min_interval d \<le> n \<and> n < validity_seconds d"
    and "plus_seconds (pa_now a) (validity_seconds d) = Inr t"
  shows "kept (snd (create_schedule env a sentence c actor (Some d) (Some t) w))"
proof -
  have new: "delegated_new a actor d s"
    if "build_schedule (pa_hash a) k (JStr (cg_request c)) (JInt (case cg_interval c of None \<Rightarrow> 0 | Some n \<Rightarrow> n))
      (JStr actor) (pa_now a) (cg_reason c) (cg_enabled c) (of_opt (Some t)) = Inr s" for s
    using build_schedule_fields [OF that] build_schedule_timely [OF that] assms(2-)
    by (cases "cg_interval c") (auto simp: delegated_new_def of_opt_def timely_def)
  have add: "kept (snd (on_store env (\<lambda>io. add_checked io s (ceiling_check actor d None)) v))"
    if "unwritten v" "delegated_new a actor d s" for s v
    using added that by (simp add: on_store_file)
  have same: "unwritten (snd (bindW (look_store env w) (\<lambda>ss w. (Inr (twin c actor ss), w))))"
    by (rule bind_unwritten) (simp_all add: look_unwritten assms(1))
  show ?thesis unfolding create_schedule_def option.case
  proof (rule bind_first [OF same])
    fix x v assume v: "unwritten v"
    show "kept (snd (case x of Some s \<Rightarrow> (Inr (applied s None), v) | None \<Rightarrow>
       bindW (case cg_kind c of None \<Rightarrow> Inl (Refused ''UNKNOWN_KIND'') | Some k \<Rightarrow>
           build_schedule (pa_hash a) k (JStr (cg_request c)) (JInt (case cg_interval c of None \<Rightarrow> 0 | Some n \<Rightarrow> n))
             (JStr actor) (pa_now a) (cg_reason c) (cg_enabled c) (of_opt (Some t)), v) (\<lambda>s w.
       bindW (on_store env (\<lambda>io. add_checked io s (ceiling_check actor d None)) w) (\<lambda>reasons w.
       if reasons \<noteq> [] then propose env a sentence c None actor reasons w
       else bindW (mutation_event (pa_hash a) ''created'' s (pa_now a) None, w) (\<lambda>event w.
         bindW (append_event env a (Inr event) w) (\<lambda>_ w. (Inr (applied s (Some event)), w)))))))"
    proof (cases x)
      case None
      show ?thesis unfolding None option.case assms(2)
      proof (rule bind_first)
        fix s u assume "(build_schedule (pa_hash a) k (JStr (cg_request c)) (JInt (case cg_interval c of None \<Rightarrow> 0 | Some n \<Rightarrow> n))
             (JStr actor) (pa_now a) (cg_reason c) (cg_enabled c) (of_opt (Some t)), v) = (Inr s, u)"
          and u: "unwritten u"
        then have "delegated_new a actor d s" using new by simp
        from add [OF u this] show "kept (snd (bindW (on_store env (\<lambda>io. add_checked io s (ceiling_check actor d None)) u) (\<lambda>reasons w.
          if reasons \<noteq> [] then propose env a sentence c None actor reasons w
          else bindW (mutation_event (pa_hash a) ''created'' s (pa_now a) None, w) (\<lambda>event w.
            bindW (append_event env a (Inr event) w) (\<lambda>_ w. (Inr (applied s (Some event)), w))))))"
          by (rule bind_kept) (auto simp: propose_file append_file intro!: bind_kept)
      qed (use v in simp)
    qed (simp add: v start)
  qed
qed

lemma change_kept:
  assumes "unwritten w" "own (sc_id s)" "cg_action c = ''enable'' \<longrightarrow> live (sc_id s)"
  shows "kept (snd (change_existing env a sentence c actor (Some d) s w))"
proof -
  have "kept (snd (change_named env c actor (Some d) s w))"
    unfolding change_named_def
    using assms by (auto simp: on_store_file intro!: bind_kept removed enabled disabled)
  then show ?thesis unfolding change_existing_def
    by (rule bind_kept) (auto simp: propose_file append_file intro!: bind_kept look_kept split: option.splits)
qed

lemma scope_unwritten: "unwritten w \<Longrightarrow> unwritten (snd (scope_of env c existing actor now g True w))"
  unfolding scope_of_def out_of_scope_def
  by (auto intro!: bind_unwritten look_unwritten split: option.splits)

lemma in_scope:
  assumes "scope_of env c existing actor (pa_now a) (Delegated e) True w = (Inr (scope, [], expires), v)"
  shows "scope = Some e \<and> changed_kind c existing \<in> Some ` set (dg_kinds e) \<and>
    changed_kind c existing \<notin> Some ` set financial_kinds \<and> scope_reasons c existing actor e (pa_now a) = [] \<and>
    (cg_action c = ''create'' \<longrightarrow> (\<exists>t. plus_seconds (pa_now a) (validity_seconds e) = Inr t \<and> expires = Some t))"
  using assms
  by (auto simp: scope_of_def bindW_Inr_iff bindR_Inr_iff check_scope_def out_of_scope_def scope_reasons_def Let_def
      split: if_splits)

lemma apply_change_kept:
  assumes "unwritten w"
  shows "kept (snd (apply_change env a sentence c actor (Delegated d) True w))"
  unfolding apply_change_def
proof (rule bind_first)
  show "unwritten (snd (find_existing env c w))"
    unfolding find_existing_def using assms by (auto intro!: bind_unwritten look_unwritten split: option.splits)
next
  fix existing v assume found: "find_existing env c w = (Inr existing, v)" and v: "unwritten v"
  show "kept (snd (bindW (scope_of env c existing actor (pa_now a) (Delegated d) True v) (\<lambda>(scope, reasons, expires) w.
     if reasons \<noteq> [] then propose env a sentence c existing actor reasons w
     else case existing of None \<Rightarrow> create_schedule env a sentence c actor scope expires w
       | Some s \<Rightarrow> change_existing env a sentence c actor scope s w)))"
  proof (rule bind_first [OF scope_unwritten [OF v]])
    fix x u assume x: "scope_of env c existing actor (pa_now a) (Delegated d) True v = (Inr x, u)" and u: "unwritten u"
    obtain scope reasons expires where p: "x = (scope, reasons, expires)" by (cases x) auto
    show "kept (snd ((\<lambda>(scope, reasons, expires) w. if reasons \<noteq> [] then propose env a sentence c existing actor reasons w
       else case existing of None \<Rightarrow> create_schedule env a sentence c actor scope expires w
         | Some s \<Rightarrow> change_existing env a sentence c actor scope s w) x u))"
    proof (cases "reasons = []")
      case False
      with u p show ?thesis by (simp add: propose_file start)
    next
      case True
      note scope = in_scope [OF x [unfolded p True]]
      show ?thesis
      proof (cases existing)
        case None
        then have c: "cg_action c = ''create''" using found by (auto simp: find_existing_def bindW_Inr_iff split: if_splits option.splits)
        with scope None obtain k t where "cg_kind c = Some k" "k \<in> set (dg_kinds d)" "k \<notin> set financial_kinds"
            "plus_seconds (pa_now a) (validity_seconds d) = Inr t" "expires = Some t" "scope = Some d"
          by (auto simp: changed_kind_def)
        moreover have "\<forall>n. cg_interval c = Some n \<longrightarrow> dg_min_interval d \<le> n \<and> n < validity_seconds d"
          using scope c by (auto simp: scope_reasons_def split: if_splits)
        ultimately show ?thesis using p True None u by (auto intro!: create_kept)
      next
        case (Some s)
        with scope have s: "in_reach actor d s" "cg_action c = ''enable'' \<longrightarrow> \<not> expired s (pa_now a)"
          by (auto simp: in_reach_def changed_kind_def scope_reasons_def split: if_splits)
        obtain ss where "look_store env w = (Inr ss, v)" "s \<in> set ss"
          using found Some by (auto simp: find_existing_def bindW_Inr_iff dest: found_member split: if_splits option.splits)
        then have "list_schedules (io_looks (te_io env (tw_tick w))) (tw_file v) = Inr ss" "s \<in> set ss"
          by (auto simp: look_store_def Let_def ticked_def)
        with v s have "own (sc_id s)" "cg_action c = ''enable'' \<longrightarrow> live (sc_id s)" using reach alive by blast+
        with p True Some u scope show ?thesis by (simp add: change_kept)
      qed
    qed
  qed
qed

end

text \<open>A write of a change to the store, whatever the other processes wrote before it.\<close>

lemma with_schedules_under_lock:
  "with_schedules io change f = (if io_lock io then with_schedules (io\<lparr>io_others := id\<rparr>) change (io_others io f)
     else (Inl (Refused ''SCHEDULES_WRITE_FAILED''), f))"
proof -
  have same: "save_schedules (io\<lparr>io_others := id\<rparr>) = save_schedules io" by (intro ext) (simp add: save_schedules_def)
  have quiet: "io_others (io\<lparr>io_others := id\<rparr>) = id" "io_looks (io\<lparr>io_others := id\<rparr>) = io_looks io"
    "io_lock (io\<lparr>io_others := id\<rparr>) = io_lock io" by simp_all
  show ?thesis unfolding with_schedules_def Let_def same quiet id_apply by simp
qed

lemma with_schedules_keeps:
  assumes "K f" "K (io_others io f)" "\<And>f. K f \<Longrightarrow> \<exists>ss. schedule_file f ss \<and> Q ss"
    and "\<And>ss x ss'. Q ss \<Longrightarrow> \<forall>s \<in> set ss. wf_schedule s \<Longrightarrow> change ss = Inr (x, Some ss') \<Longrightarrow> Q ss' \<and> (\<forall>s \<in> set ss'. wf_schedule s)"
    and "\<And>f ss. schedule_file f ss \<Longrightarrow> Q ss \<Longrightarrow> K f"
  shows "K (snd (with_schedules io change f))"
proof (cases "io_lock io")
  case True
  let ?io = "io\<lparr>io_others := id\<rparr>"
  obtain ss where ss: "schedule_file (io_others io f) ss" "Q ss" using assms(2,3) by blast
  obtain r g where g: "with_schedules ?io change (io_others io f) = (r, g)" by fastforce
  have "K g"
  proof (rule with_schedules_cases [OF ss(1) _ g])
    fix x ss' assume 2: "change ss = Inr (x, Some ss')" "r = Inr x" "g = Stored (io_fresh ?io) (schedule_text ss')"
    have "\<forall>s \<in> set ss. wf_schedule s" using ss(1) by (simp add: schedule_file_def)
    from assms(4) [OF ss(2) this 2(1)] 2(3) show "K g" using schedule_file_written [of ss'] assms(5) by blast
  qed (use assms(2) in auto)
  with g True show ?thesis by (simp add: with_schedules_under_lock [of io])
qed (use assms(1) in \<open>simp add: with_schedules_def\<close>)

section \<open>The ceiling\<close>

definition within_ceiling :: "string \<Rightarrow> delegation \<Rightarrow> schedule list \<Rightarrow> bool" where
  "within_ceiling actor d ss = (int (card (sc_id ` set (active_of actor None ss))) \<le> dg_max_active d)"

definition ceiling_holds :: "string \<Rightarrow> delegation \<Rightarrow> stored \<Rightarrow> bool" where
  "ceiling_holds actor d f = (\<exists>ss. schedule_file f ss \<and> within_ceiling actor d ss)"

definition others_hold :: "tick_env \<Rightarrow> string \<Rightarrow> delegation \<Rightarrow> bool" where
  "others_hold env actor d = (\<forall>n f. ceiling_holds actor d f \<longrightarrow> ceiling_holds actor d (io_others (te_io env n) f))"

lemma fewer_within:
  assumes "within_ceiling actor d ss" "sc_id ` set (active_of actor None ss') \<subseteq> sc_id ` set (active_of actor None ss)"
  shows "within_ceiling actor d ss'"
proof -
  have "card (sc_id ` set (active_of actor None ss')) \<le> card (sc_id ` set (active_of actor None ss))"
    using assms(2) by (intro card_mono) auto
  with assms(1) show ?thesis by (simp add: within_ceiling_def)
qed

lemma one_more_within:
  assumes "ceiling_check actor d e ss = []"
    and "sc_id ` set (active_of actor None ss') \<subseteq> insert i (sc_id ` set (active_of actor e ss))"
  shows "within_ceiling actor d ss'"
proof -
  have "card (sc_id ` set (active_of actor None ss')) \<le> card (insert i (sc_id ` set (active_of actor e ss)))"
    using assms(2) by (intro card_mono) auto
  also have "\<dots> \<le> Suc (card (sc_id ` set (active_of actor e ss)))" by (simp add: card_insert_if)
  also have "\<dots> \<le> Suc (length (active_of actor e ss))"
    using card_image_le [of "set (active_of actor e ss)" sc_id] card_length [of "active_of actor e ss"] by simp
  finally show ?thesis using assms(1) by (simp add: within_ceiling_def ceiling_check_def Let_def split: if_splits)
qed

lemma enabled_within: "ceiling_check actor d (Some i) ss = [] \<Longrightarrow> within_ceiling actor d (enabled_as i True ss)"
proof (rule one_more_within)
  show "sc_id ` set (active_of actor None (enabled_as i True ss)) \<subseteq> insert i (sc_id ` set (active_of actor (Some i) ss))"
    unfolding active_of_def enabled_as_def by (auto simp del: if_image_distrib split: if_splits)
qed

lemma disabled_within: "within_ceiling actor d ss \<Longrightarrow> within_ceiling actor d (enabled_as i False ss)"
  by (erule fewer_within) (auto simp: active_of_def enabled_as_def simp del: if_image_distrib split: if_splits)

lemma removed_within: "within_ceiling actor d ss \<Longrightarrow> within_ceiling actor d (filter Q ss)"
  by (erule fewer_within) (auto simp: active_of_def)

lemma wf_enabled: "\<forall>s \<in> set ss. wf_schedule s \<Longrightarrow> \<forall>s \<in> set (enabled_as i b ss). wf_schedule s"
  by (auto simp: enabled_as_def wf_schedule_def)

lemma ceiling_write:
  assumes "others_hold env actor d \<longrightarrow> ceiling_holds actor d f"
    and "\<And>ss x ss'. within_ceiling actor d ss \<Longrightarrow> \<forall>s \<in> set ss. wf_schedule s \<Longrightarrow> change ss = Inr (x, Some ss') \<Longrightarrow>
      within_ceiling actor d ss' \<and> (\<forall>s \<in> set ss'. wf_schedule s)"
  shows "others_hold env actor d \<longrightarrow> ceiling_holds actor d (snd (with_schedules (te_io env n) change f))"
proof
  assume o: "others_hold env actor d"
  then have "ceiling_holds actor d f" using assms(1) by blast
  then show "ceiling_holds actor d (snd (with_schedules (te_io env n) change f))"
  proof (rule with_schedules_keeps [where K = "ceiling_holds actor d" and Q = "within_ceiling actor d"])
    show "ceiling_holds actor d (io_others (te_io env n) f)"
      using o \<open>ceiling_holds actor d f\<close> by (simp add: others_hold_def)
  qed (simp add: ceiling_holds_def, rule assms(2), assumption+, auto simp: ceiling_holds_def)
qed

interpretation ceiling: bounded_change "\<lambda>f. others_hold env actor d \<longrightarrow> ceiling_holds actor d f"
  "\<lambda>f. others_hold env actor d \<longrightarrow> ceiling_holds actor d f"
  env a actor d "\<lambda>_. True" "\<lambda>_. True" for env a actor d
proof unfold_locales
  fix f n s assume f: "others_hold env actor d \<longrightarrow> ceiling_holds actor d f" and s: "delegated_new a actor d s"
  show "others_hold env actor d \<longrightarrow> ceiling_holds actor d (snd (add_checked (te_io env n) s (ceiling_check actor d None) f))"
    unfolding add_checked_def
    by (rule ceiling_write [OF f])
       (use s in \<open>auto simp: delegated_new_def active_of_def split: if_splits intro!: one_more_within [where i = "sc_id s"]\<close>)
next
  fix f n i assume f: "others_hold env actor d \<longrightarrow> ceiling_holds actor d f"
  show "others_hold env actor d \<longrightarrow> ceiling_holds actor d
      (snd (set_enabled_checked (te_io env n) i True (ceiling_check actor d (Some i)) f))"
    unfolding set_enabled_checked_def
    by (rule ceiling_write [OF f])
       (auto simp: wf_enabled enabled_within split: if_splits option.splits)
  show "others_hold env actor d \<longrightarrow> ceiling_holds actor d (snd (set_enabled (te_io env n) i False f))"
    unfolding set_enabled_def
    by (rule ceiling_write [OF f]) (auto simp: wf_enabled disabled_within split: option.splits)
  show "others_hold env actor d \<longrightarrow> ceiling_holds actor d (snd (remove_schedule (te_io env n) i f))"
    unfolding remove_schedule_def
    by (rule ceiling_write [OF f]) (auto simp: removed_within split: option.splits)
qed (auto simp: others_hold_def)

text \<open>
  C21 The ceiling on the assistant's schedules.  However many doors change schedules at once, a bounded change never
  leaves more of the actor's schedules active than the policy's ceiling, if what the other processes do in between
  does not either: the count and the write are under one lock.
\<close>

theorem delegated_ceiling_holds:
  assumes "ceiling_holds actor d (tw_file w)"
    and "\<forall>n f. ceiling_holds actor d f \<longrightarrow> ceiling_holds actor d (io_others (te_io env n) f)"
  shows "ceiling_holds actor d (tw_file (snd (apply_change env a sentence c actor (Delegated d) True w)))"
  using ceiling.apply_change_kept [of env actor d w a sentence c] assms by (simp add: others_hold_def)


section \<open>The scope\<close>

text \<open>
  What a change by the actor makes of the rows \<open>ss\<close>: the rows out of reach are as they were, and each row is new inside
  the scope or an old one, enabled only if it was before or has not expired.
\<close>

definition row_in_scope :: "pass_args \<Rightarrow> string \<Rightarrow> delegation \<Rightarrow> schedule list \<Rightarrow> schedule \<Rightarrow> bool" where
  "row_in_scope a actor d ss s' = (delegated_new a actor d s' \<or>
     (\<exists>s \<in> set ss. s' = s\<lparr>sc_enabled := sc_enabled s'\<rparr> \<and> (sc_enabled s' \<longrightarrow> sc_enabled s \<or> \<not> expired s (pa_now a))))"

definition scope_kept_rows :: "pass_args \<Rightarrow> string \<Rightarrow> delegation \<Rightarrow> schedule list \<Rightarrow> schedule list \<Rightarrow> bool" where
  "scope_kept_rows a actor d ss ss' = (filter (\<lambda>s. \<not> in_reach actor d s) ss' = filter (\<lambda>s. \<not> in_reach actor d s) ss \<and>
     (\<forall>s' \<in> set ss'. row_in_scope a actor d ss s'))"

text \<open>No other process writes, the ids are distinct, and the actor's name has no white space around it.\<close>

definition one_door :: "tick_env \<Rightarrow> string \<Rightarrow> schedule list \<Rightarrow> bool" where
  "one_door env actor ss = (quiet_store env \<and> distinct (map sc_id ss) \<and> strip actor = actor)"

definition in_scope_file :: "tick_env \<Rightarrow> pass_args \<Rightarrow> string \<Rightarrow> delegation \<Rightarrow> schedule list \<Rightarrow> stored \<Rightarrow> bool" where
  "in_scope_file env a actor d ss f = (one_door env actor ss \<longrightarrow>
     (\<exists>ss'. schedule_file f ss' \<and> scope_kept_rows a actor d ss ss'))"

definition of_actor :: "string \<Rightarrow> delegation \<Rightarrow> schedule list \<Rightarrow> string \<Rightarrow> bool" where
  "of_actor actor d ss i = (\<forall>s \<in> set ss. sc_id s = i \<longrightarrow> in_reach actor d s)"

definition unexpired :: "pass_args \<Rightarrow> schedule list \<Rightarrow> string \<Rightarrow> bool" where
  "unexpired a ss i = (\<forall>s \<in> set ss. sc_id s = i \<longrightarrow> \<not> expired s (pa_now a))"

lemma in_reach_enabled [simp]: "in_reach actor d (s\<lparr>sc_enabled := b\<rparr>) = in_reach actor d s"
  by (simp add: in_reach_def)

lemma expired_enabled [simp]: "expired (s\<lparr>sc_enabled := b\<rparr>) now = expired s now"
  by (simp add: expired_def)

lemma delegated_new_enabled [simp]: "delegated_new a actor d (s\<lparr>sc_enabled := b\<rparr>) = delegated_new a actor d s"
  by (simp add: delegated_new_def wf_schedule_def)

lemma scope_refl: "scope_kept_rows a actor d ss ss"
  by (auto simp: scope_kept_rows_def row_in_scope_def intro!: bexI)

lemma enabled_in_scope:
  assumes own: "of_actor actor d ss i" and live: "b \<longrightarrow> unexpired a ss i"
  shows "scope_kept_rows a actor d ss (enabled_as i b ss)"
proof -
  have "filter (\<lambda>s. \<not> in_reach actor d s) (enabled_as i b ss) =
      map (\<lambda>s. if sc_id s = i then s\<lparr>sc_enabled := b\<rparr> else s) (filter (\<lambda>s. \<not> in_reach actor d s) ss)"
    unfolding enabled_as_def filter_map by (rule arg_cong [where f = "map _"], rule filter_cong) auto
  also have "\<dots> = filter (\<lambda>s. \<not> in_reach actor d s) ss"
    by (rule map_idI) (use own in \<open>auto simp: of_actor_def\<close>)
  finally have "filter (\<lambda>s. \<not> in_reach actor d s) (enabled_as i b ss) = filter (\<lambda>s. \<not> in_reach actor d s) ss" .
  moreover have "row_in_scope a actor d ss (if sc_id s = i then s\<lparr>sc_enabled := b\<rparr> else s)" if "s \<in> set ss" for s
    unfolding row_in_scope_def using that live by (intro disjI2 bexI [of _ s]) (auto simp: unexpired_def)
  then have "\<forall>s' \<in> set (enabled_as i b ss). row_in_scope a actor d ss s'"
    unfolding enabled_as_def by (auto simp del: if_image_distrib)
  ultimately show ?thesis by (simp add: scope_kept_rows_def)
qed

lemma removed_in_scope:
  assumes own: "of_actor actor d ss i"
  shows "scope_kept_rows a actor d ss (filter (\<lambda>s. sc_id s \<noteq> i) ss)"
proof -
  have "filter (\<lambda>s. \<not> in_reach actor d s) (filter (\<lambda>s. sc_id s \<noteq> i) ss) = filter (\<lambda>s. \<not> in_reach actor d s) ss"
    unfolding filter_filter by (rule filter_cong) (use own in \<open>auto simp: of_actor_def\<close>)
  moreover have "\<forall>s \<in> set ss. row_in_scope a actor d ss s" using scope_refl by (auto simp: scope_kept_rows_def)
  ultimately show ?thesis by (simp add: scope_kept_rows_def)
qed

lemma added_in_scope:
  assumes "delegated_new a actor d s" "strip actor = actor"
  shows "scope_kept_rows a actor d ss (ss @ [s])"
  using assms scope_refl [of a actor d ss] by (auto simp: scope_kept_rows_def row_in_scope_def delegated_new_def in_reach_def)

definition rows_unchanged :: "tick_env \<Rightarrow> string \<Rightarrow> schedule list \<Rightarrow> stored \<Rightarrow> bool" where
  "rows_unchanged env actor ss f = (one_door env actor ss \<longrightarrow> schedule_file f ss)"

lemma scope_write:
  assumes f: "rows_unchanged env actor ss f"
    and "\<And>x ss'. one_door env actor ss \<Longrightarrow> change ss = Inr (x, Some ss') \<Longrightarrow>
      scope_kept_rows a actor d ss ss' \<and> (\<forall>s \<in> set ss'. wf_schedule s)"
  shows "in_scope_file env a actor d ss (snd (with_schedules (te_io env n) change f))"
  unfolding in_scope_file_def
proof (intro impI)
  assume q: "one_door env actor ss"
  with f have ss: "schedule_file f ss" by (simp add: rows_unchanged_def)
  obtain r g where g: "with_schedules (te_io env n) change f = (r, g)" by fastforce
  have "io_others (te_io env n) = id" using q by (simp add: one_door_def quiet_store_def)
  from with_schedules_cases [OF ss this g]
  show "\<exists>ss'. schedule_file (snd (with_schedules (te_io env n) change f)) ss' \<and> scope_kept_rows a actor d ss ss'"
  proof cases
    case 1
    then show ?thesis using g ss scope_refl by auto
  next
    case (2 x ss')
    then show ?thesis using assms(2) [OF q 2(1)] g schedule_file_written [of ss'] by auto
  qed
qed

lemma same_id_row:
  assumes "rows_unchanged env actor ss f" "list_schedules looks f = Inr rows" "s \<in> set rows" "in_reach actor d s"
  shows "one_door env actor ss \<longrightarrow> of_actor actor d ss (sc_id s)"
    and "\<not> expired s (pa_now a) \<Longrightarrow> one_door env actor ss \<longrightarrow> unexpired a ss (sc_id s)"
proof -
  have "rows = ss \<and> (\<forall>r \<in> set ss. sc_id r = sc_id s \<longrightarrow> r = s)" if "one_door env actor ss"
  proof -
    have "rows = ss" using that assms schedule_file_list by (fastforce simp: rows_unchanged_def)
    with that assms(3) show ?thesis by (auto simp: one_door_def distinct_map inj_on_def)
  qed
  with assms(4) show "one_door env actor ss \<longrightarrow> of_actor actor d ss (sc_id s)"
    and "\<not> expired s (pa_now a) \<Longrightarrow> one_door env actor ss \<longrightarrow> unexpired a ss (sc_id s)"
    by (auto simp: of_actor_def unexpired_def)
qed

interpretation scope: bounded_change "\<lambda>f. rows_unchanged env actor ss f" "\<lambda>f. in_scope_file env a actor d ss f" env a actor d
  "\<lambda>i. one_door env actor ss \<longrightarrow> of_actor actor d ss i" "\<lambda>i. one_door env actor ss \<longrightarrow> unexpired a ss i" for env a actor d ss
proof unfold_locales
  show "in_scope_file env a actor d ss f" if "rows_unchanged env actor ss f" for f
    using that scope_refl by (auto simp: in_scope_file_def rows_unchanged_def)
  show "in_scope_file env a actor d ss (snd (add_checked (te_io env n) s (ceiling_check actor d None) f))"
    if "rows_unchanged env actor ss f" "delegated_new a actor d s" for f s n
    unfolding add_checked_def
    by (rule scope_write [OF that(1)])
       (use that in \<open>auto simp: one_door_def rows_unchanged_def schedule_file_def delegated_new_def added_in_scope split: if_splits\<close>)
  show "in_scope_file env a actor d ss (snd (set_enabled_checked (te_io env n) i True (ceiling_check actor d (Some i)) f))"
    if "rows_unchanged env actor ss f" "one_door env actor ss \<longrightarrow> of_actor actor d ss i" "one_door env actor ss \<longrightarrow> unexpired a ss i"
    for f i n
    unfolding set_enabled_checked_def
    by (rule scope_write [OF that(1)])
       (use that in \<open>auto simp: rows_unchanged_def schedule_file_def enabled_in_scope wf_enabled split: if_splits option.splits\<close>)
  show "in_scope_file env a actor d ss (snd (set_enabled (te_io env n) i False f))"
    if "rows_unchanged env actor ss f" "one_door env actor ss \<longrightarrow> of_actor actor d ss i" for f i n
    unfolding set_enabled_def
    by (rule scope_write [OF that(1)])
       (use that in \<open>auto simp: rows_unchanged_def schedule_file_def enabled_in_scope wf_enabled split: option.splits\<close>)
  show "in_scope_file env a actor d ss (snd (remove_schedule (te_io env n) i f))"
    if "rows_unchanged env actor ss f" "one_door env actor ss \<longrightarrow> of_actor actor d ss i" for f i n
    unfolding remove_schedule_def
    by (rule scope_write [OF that(1)])
       (use that in \<open>auto simp: rows_unchanged_def schedule_file_def removed_in_scope split: option.splits\<close>)
  show "one_door env actor ss \<longrightarrow> of_actor actor d ss (sc_id s)"
    if "rows_unchanged env actor ss f" "list_schedules looks f = Inr rows" "s \<in> set rows" "in_reach actor d s" for f looks rows s
    using same_id_row(1) [OF that] .
  show "one_door env actor ss \<longrightarrow> unexpired a ss (sc_id s)"
    if "rows_unchanged env actor ss f" "list_schedules looks f = Inr rows" "s \<in> set rows" "in_reach actor d s"
      "\<not> expired s (pa_now a)" for f looks rows s
    using same_id_row(2) [OF that] .
qed (auto simp: in_scope_file_def rows_unchanged_def one_door_def quiet_store_def)

text \<open>
  C11 A delegated change stays in scope.  Whatever change the assistant asks for, every schedule that is not its own or not
  of a delegated kind, the financial ones among them, stays as it was; a schedule it adds is of a delegated kind, within
  the interval bounds, and expires with the validity; and no schedule is turned on that has expired.
\<close>

theorem delegated_change_stays_in_scope:
  assumes "schedule_file (tw_file w) ss" "distinct (map sc_id ss)" "strip actor = actor" "\<forall>n. io_others (te_io env n) = id"
  shows "\<exists>ss'. schedule_file (tw_file (snd (apply_change env a sentence c actor (Delegated d) True w))) ss' \<and>
    filter (\<lambda>s. \<not> in_reach actor d s) ss' = filter (\<lambda>s. \<not> in_reach actor d s) ss \<and>
    (\<forall>s' \<in> set ss'. delegated_new a actor d s' \<or>
      (\<exists>s \<in> set ss. s' = s\<lparr>sc_enabled := sc_enabled s'\<rparr> \<and> (sc_enabled s' \<longrightarrow> sc_enabled s \<or> \<not> expired s (pa_now a))))"
  using scope.apply_change_kept [of env actor ss w a d sentence c] assms
  by (simp add: rows_unchanged_def one_door_def quiet_store_def in_scope_file_def scope_kept_rows_def row_in_scope_def)

text \<open>
  The twins are compared with the request as it was asked for, and the store keeps the request without white space around
  it: a request with a trailing space has no twin, so the same schedule is created again after its validity.
\<close>

lemma strip_trailing: "strip (r @ '' '') = strip r"
proof (cases "dropWhile is_ws r = []")
  case True
  then have "dropWhile is_ws (r @ '' '') = dropWhile is_ws '' ''" by (simp add: dropWhile_append2)
  moreover have "dropWhile is_ws '' '' = []" by code_simp
  ultimately show ?thesis unfolding strip_def lstrip_def True by (simp only:)
next
  case False
  then have "dropWhile is_ws (r @ '' '') = dropWhile is_ws r @ '' ''"
    by (metis dropWhile_append3 dropWhile_eq_Nil_conv dropWhile_append1)
  then show ?thesis by (simp add: strip_def lstrip_def rstrip_def is_ws_def)
qed

lemma padded_request_has_no_twin:
  assumes "sc_request s = strip (sc_request s)" "cg_request c = sc_request s @ '' ''"
  shows "expired_twin c None actor now [s] = None" "twin c actor [s] = None" "strip (cg_request c) = sc_request s"
  using assms by (simp_all add: expired_twin_def twin_def strip_trailing)

section \<open>A proposal\<close>

lemma with_schedules_none:
  assumes w: "with_schedules io change f = (Inr x, g)" "io_others io = id" and new: "\<And>ss new. change ss = Inr (x, new) \<Longrightarrow> new = None"
  shows "g = f"
proof (cases "io_lock io")
  case True
  with w obtain ss new where "bindR (list_schedules (io_looks io) f) change = Inr (x, new)" "change ss = Inr (x, new)"
    by (auto simp: with_schedules_def Let_def bindW_Inr_iff bindR_Inr_iff split: sum.splits option.splits)
  moreover from this(2) have "new = None" by (rule new)
  ultimately show ?thesis using w True by (simp add: with_schedules_def Let_def)
qed (use w in \<open>simp add: with_schedules_def\<close>)

lemma add_checked_refused: "add_checked io s check f = (Inr rs, g) \<Longrightarrow> rs \<noteq> [] \<Longrightarrow> io_others io = id \<Longrightarrow> g = f"
  unfolding add_checked_def by (erule with_schedules_none) (auto split: if_splits)

lemma enable_refused:
  "set_enabled_checked io i b check f = (Inr (s, rs), g) \<Longrightarrow> rs \<noteq> [] \<Longrightarrow> io_others io = id \<Longrightarrow> g = f"
  unfolding set_enabled_checked_def by (erule with_schedules_none) (auto split: if_splits option.splits)

definition untouched :: "tick_world \<Rightarrow> tick_world \<Rightarrow> bool" where
  "untouched w v = (tw_file v = tw_file w \<and> tw_events v = tw_events w)"

lemma untouched_refl: "untouched w w"
  by (simp add: untouched_def)

lemma untouched_trans: "untouched u v \<Longrightarrow> untouched v w \<Longrightarrow> untouched u w"
  by (simp add: untouched_def)

lemma look_untouched: "quiet_store env \<Longrightarrow> look_store env w = (r, v) \<Longrightarrow> untouched w v"
  by (auto simp: look_store_def Let_def ticked_def quiet_store_def untouched_def)

definition recorded_proposal :: "pass_args \<Rightarrow> change_outcome \<Rightarrow> tick_world \<Rightarrow> tick_world \<Rightarrow> bool" where
  "recorded_proposal a oc w w' = (oc_proposed oc \<and> tw_file w' = tw_file w \<and>
     (\<exists>e. oc_event oc = Some e \<and> jget e ''action'' = JStr ''proposed'' \<and>
       tw_events w' = tw_events w @ (if pa_ledger a then [e] else [])))"

lemma propose_recorded:
  assumes p: "propose env a sentence c existing actor reasons v = (Inr oc, w')" and v: "untouched w v"
  shows "recorded_proposal a oc w w'"
proof -
  from p obtain e u where e: "proposal_event (pa_hash a) sentence c existing actor (pa_now a) reasons = Inr e"
      "append_event env a (Inr e) v = (Inr (), w')" "oc_proposed oc" "oc_event oc = Some e"
    by (auto simp: propose_def bindW_Inr_iff)
  moreover from e(1) have "jget e ''action'' = JStr ''proposed''"
    unfolding proposal_event_def by (subst stamped_fields) (auto simp only: map_of.simps, simp_all)
  moreover from e(2) v have "tw_file w' = tw_file w \<and> tw_events w' = tw_events w @ (if pa_ledger a then [e] else [])"
    by (auto simp: append_event_def ticked_def untouched_def split: if_splits)
  ultimately show ?thesis by (simp add: recorded_proposal_def)
qed

lemma find_untouched: "quiet_store env \<Longrightarrow> find_existing env c w = (Inr x, v) \<Longrightarrow> untouched w v"
  by (auto simp: find_existing_def bindW_Inr_iff untouched_refl look_untouched split: if_splits option.splits)

lemma scope_untouched: "quiet_store env \<Longrightarrow> scope_of env c x actor now g b w = (Inr y, v) \<Longrightarrow> untouched w v"
  by (auto simp: scope_of_def out_of_scope_def bindW_Inr_iff untouched_refl look_untouched split: if_splits)

lemma create_proposal:
  assumes q: "quiet_store env" and r: "create_schedule env a sentence c actor scope t w = (Inr oc, w')" "\<not> oc_applied oc"
  shows "recorded_proposal a oc w w'"
proof -
  from r obtain x v where v: "(case scope of None \<Rightarrow> (Inr None, w)
       | Some d \<Rightarrow> bindW (look_store env w) (\<lambda>ss w. (Inr (twin c actor ss), w))) = (Inr x, v)"
    and rest: "(case x of Some s \<Rightarrow> (Inr (applied s None), v)
     | None \<Rightarrow>
       bindW (case cg_kind c of None \<Rightarrow> Inl (Refused ''UNKNOWN_KIND'') | Some k \<Rightarrow>
           build_schedule (pa_hash a) k (JStr (cg_request c)) (JInt (case cg_interval c of None \<Rightarrow> 0 | Some n \<Rightarrow> n))
             (JStr actor) (pa_now a) (cg_reason c) (cg_enabled c) (of_opt t), v) (\<lambda>s w.
       bindW (case scope of None \<Rightarrow> bindW (on_store env (\<lambda>io. add_schedule io s) w) (\<lambda>_ w. (Inr [], w))
         | Some d \<Rightarrow> on_store env (\<lambda>io. add_checked io s (ceiling_check actor d None)) w) (\<lambda>reasons w.
       if reasons \<noteq> [] then propose env a sentence c None actor reasons w
       else bindW (mutation_event (pa_hash a) ''created'' s (pa_now a) None, w) (\<lambda>event w.
         bindW (append_event env a (Inr event) w) (\<lambda>_ w. (Inr (applied s (Some event)), w)))))) = (Inr oc, w')"
    unfolding create_schedule_def bindW_Inr_iff [of _ _ oc] by blast
  have wv: "untouched w v" using v q by (auto simp: bindW_Inr_iff untouched_refl look_untouched split: option.splits)
  from rest r(2) obtain s reasons u where u: "(case scope of None \<Rightarrow> bindW (on_store env (\<lambda>io. add_schedule io s) v) (\<lambda>_ w. (Inr [], w))
         | Some d \<Rightarrow> on_store env (\<lambda>io. add_checked io s (ceiling_check actor d None)) v) = (Inr reasons, u)"
      "reasons \<noteq> []" "propose env a sentence c None actor reasons u = (Inr oc, w')"
    by (auto simp: bindW_Inr_iff applied_def split: option.splits if_splits)
  then obtain d where "on_store env (\<lambda>io. add_checked io s (ceiling_check actor d None)) v = (Inr reasons, u)"
    by (auto simp: bindW_Inr_iff split: option.splits)
  then have "untouched v u" using q u(2)
    by (auto simp: on_store_def ticked_def untouched_def quiet_store_def dest: add_checked_refused split: prod.splits)
  then show ?thesis using u(3) wv propose_recorded untouched_trans by blast
qed

lemma existing_proposal:
  assumes q: "quiet_store env" and r: "change_existing env a sentence c actor scope s w = (Inr oc, w')" "\<not> oc_applied oc"
  shows "recorded_proposal a oc w w'"
proof -
  from r obtain x reasons u where u: "change_named env c actor scope s w = (Inr (x, reasons), u)" "reasons \<noteq> []"
      "propose env a sentence c (Some s) actor reasons u = (Inr oc, w')"
    by (auto simp: change_existing_def bindW_Inr_iff applied_def split: option.splits if_splits)
  then obtain d where "on_store env (\<lambda>io. set_enabled_checked io (sc_id s) True (ceiling_check actor d (Some (sc_id s)))) w =
      (Inr (x, reasons), u)"
    by (auto simp: change_named_def bindW_Inr_iff split: if_splits)
  then have "untouched w u" using q u(2)
    by (auto simp: on_store_def ticked_def untouched_def quiet_store_def dest: enable_refused split: prod.splits)
  then show ?thesis using u(3) propose_recorded by blast
qed

text \<open>
  C26 A proposal applies nothing.  A change that is answered without being applied leaves the store as it was and has exactly
  its proposal on the ledger, whether it was out of scope or at the ceiling.
\<close>

theorem proposal_applies_nothing:
  assumes "apply_change env a sentence c actor g bounded w = (Inr oc, w')" "\<not> oc_applied oc" "\<forall>n. io_others (te_io env n) = id"
  shows "oc_proposed oc \<and> tw_file w' = tw_file w \<and> (\<exists>e. oc_event oc = Some e \<and> jget e ''action'' = JStr ''proposed'' \<and>
    tw_events w' = tw_events w @ (if pa_ledger a then [e] else []))"
proof -
  have q: "quiet_store env" using assms(3) by (simp add: quiet_store_def)
  from assms(1) obtain x v scope reasons t u where x: "find_existing env c w = (Inr x, v)"
      "scope_of env c x actor (pa_now a) g bounded v = (Inr (scope, reasons, t), u)"
    and r: "(if reasons \<noteq> [] then propose env a sentence c x actor reasons u else case x of
       None \<Rightarrow> create_schedule env a sentence c actor scope t u
     | Some s \<Rightarrow> change_existing env a sentence c actor scope s u) = (Inr oc, w')"
    by (auto simp: apply_change_def bindW_Inr_iff)
  have wu: "untouched w u" using find_untouched [OF q x(1)] scope_untouched [OF q x(2)] by (rule untouched_trans)
  have "recorded_proposal a oc w w'"
  proof (cases "reasons = []")
    case False
    with r show ?thesis using propose_recorded wu by auto
  next
    case True
    with r assms(2) have "recorded_proposal a oc u w'"
      using create_proposal [OF q] existing_proposal [OF q] by (auto split: option.splits)
    with wu show ?thesis by (simp add: recorded_proposal_def untouched_def)
  qed
  then show ?thesis by (simp add: recorded_proposal_def)
qed

end
