(* ===== verification/Schedule_Sample.thy ===== *)
theory Schedule_Sample
  imports Scheduler_Safety Delegation_Safety
begin

text \<open>One schedule store: a schedule of every lane kind is added, claimed, turned off, fired by a pass.\<close>

definition sched_hash :: "string \<Rightarrow> string" where
  "sched_hash _ = replicate 64 (CHR ''0'')"

definition quiet_disk :: file_io where
  "quiet_disk = \<lparr>io_lock = True, io_others = id, io_looks = (\<lambda>_. []), io_fate = Written, io_fresh = 7\<rparr>"

definition at_ten :: string where "at_ten = ''2026-10-01T10:00:00Z''"
definition at_eleven :: string where "at_eleven = ''2026-10-01T11:00:00Z''"
definition at_noon :: string where "at_noon = ''2026-10-01T12:00:00Z''"

definition prune :: schedule where
  "prune = \<lparr>sc_id = ''schedule_00000000000000000000'', sc_kind = ''memory_prune'', sc_request = [], sc_interval = 3600,
     sc_enabled = True, sc_created_by = ''thomas'', sc_created_at = at_ten, sc_next_run_at = at_eleven,
     sc_reason = ''hourly'', sc_last_run_at = JNull, sc_last_status = JNull, sc_expires_at = None\<rparr>"

lemma prune_built:
  "build_schedule sched_hash ''memory_prune'' (JStr []) (JInt 3600) (JStr ''thomas'') at_ten ''hourly'' True JNull = Inr prune"
  by code_simp

lemma quiet_io [simp]: "io_others quiet_disk = id" "io_lock quiet_disk" "io_fate quiet_disk = Written" "io_fresh quiet_disk = 7"
  by (simp_all add: quiet_disk_def)

lemma prune_wf: "wf_schedule prune"
  using build_schedule_timely [OF prune_built] by (simp add: timely_def)

lemma stored_schedules: "\<forall>s \<in> set ss. wf_schedule s \<Longrightarrow> schedule_file (Stored 7 (schedule_text ss)) ss"
  by (rule schedule_file_written)

section \<open>The grid\<close>

lemma next_occurrence_is_first_on_the_grid_witness:
  "\<exists>k \<ge> 1. ''2026-10-01T13:00:00Z'' = format_iso (63926445600 + k * 3600) \<and>
    parse_iso ''2026-10-01T13:00:00Z'' = Inr (63926445600 + k * 3600) \<and>
    63926454600 < 63926445600 + k * (3600 :: int) \<and> (k = 1 \<or> 63926445600 + (k - 1) * 3600 \<le> (63926454600 :: int))"
proof (rule next_occurrence_is_first_on_the_grid)
  show "parse_iso at_ten = Inr 63926445600" by code_simp
  show "parse_iso ''2026-10-01T12:30:00Z'' = Inr 63926454600" by code_simp
  show "next_occurrence at_ten 3600 ''2026-10-01T12:30:00Z'' = Inr ''2026-10-01T13:00:00Z''" by code_simp
qed simp

section \<open>Two claims, and a schedule that was turned off\<close>

definition claim_of :: "string \<Rightarrow> string \<Rightarrow> schedule list \<Rightarrow> (schedule option \<times> schedule list option) res" where
  "claim_of i now ss = (case named i ss of None \<Rightarrow> Inr (None, None)
     | Some s \<Rightarrow> if \<not> (sc_enabled s \<and> sc_next_run_at s \<le> now) then Inr (None, None)
         else bindR (next_occurrence (sc_next_run_at s) (sc_interval s) now) (\<lambda>next.
           Inr (Some s, Some (on_first i (\<lambda>s. s\<lparr>sc_next_run_at := next\<rparr>) ss))))"

lemma claim_stored:
  "schedule_file f ss \<Longrightarrow> claim_of i now ss = Inr (x, Some ss') \<Longrightarrow>
   claim_due quiet_disk i now f = (Inr x, Stored 7 (schedule_text ss'))"
  unfolding claim_due_def claim_of_def by (simp add: with_schedules_file)

lemma claim_none:
  "schedule_file f ss \<Longrightarrow> claim_of i now ss = Inr (x, None) \<Longrightarrow> claim_due quiet_disk i now f = (Inr x, f)"
  unfolding claim_due_def claim_of_def by (simp add: with_schedules_file)

lemma prune_claims:
  "claim_of (sc_id prune) at_eleven [prune] = Inr (Some prune, Some [prune\<lparr>sc_next_run_at := at_noon\<rparr>])"
  "claim_of (sc_id prune) at_noon [prune\<lparr>sc_next_run_at := at_noon\<rparr>] =
     Inr (Some (prune\<lparr>sc_next_run_at := at_noon\<rparr>), Some [prune\<lparr>sc_next_run_at := ''2026-10-01T13:00:00Z''\<rparr>])"
  "claim_of (sc_id prune) at_noon [prune\<lparr>sc_enabled := False\<rparr>] = Inr (None, None)"
  by code_simp+

lemma shown_times: "clock_time at_eleven" "clock_time at_noon"
proof -
  have "at_eleven = format_iso 63926449200" "at_noon = format_iso 63926452800" by code_simp+
  moreover have "63926449200 < max_instant" "63926452800 < max_instant" by code_simp+
  ultimately show "clock_time at_eleven" "clock_time at_noon" unfolding clock_time_def
    by (intro exI [of _ 63926449200] exI [of _ 63926452800]; simp)+
qed

lemma next_wf: "clock_time t \<Longrightarrow> wf_schedule (prune\<lparr>sc_next_run_at := t\<rparr>)"
  using timely_next [of prune t] build_schedule_timely [OF prune_built] by (simp add: timely_def)

definition one_row :: "schedule \<Rightarrow> stored" where
  "one_row s = Stored 7 (schedule_text [s])"

lemma added_run: "schedule_run (one_row prune) []"
proof -
  have fl: "schedule_file Missing []" by (simp add: schedule_file_def)
  have "new_schedule Missing [] prune"
    using prune_built schedule_file_list [OF fl] unfolding new_schedule_def by fastforce
  moreover have "sched_effect quiet_disk (Do_Add prune) Missing = ([], one_row prune)"
    by (simp add: add_schedule_def with_schedules_file [OF fl] one_row_def)
  ultimately have "schedule_run (one_row prune) ([] @ [])"
    by (intro sched_step [OF no_schedules, of "Do_Add prune" quiet_disk]) simp_all
  then show ?thesis by simp
qed

lemma occurrence_claimed_once_witness:
  "at_eleven < at_noon \<and> sc_next_run_at prune < at_noon"
proof -
  let ?at_noon = "prune\<lparr>sc_next_run_at := at_noon\<rparr>"
  have "sched_effect quiet_disk (Do_Claim (sc_id prune) at_eleven) (one_row prune) = ([(prune, at_eleven)], one_row ?at_noon)"
    using claim_stored [OF stored_schedules prune_claims(1)] prune_wf by (simp add: one_row_def)
  from sched_step [OF added_run _ _ this] have "schedule_run (one_row ?at_noon) ([] @ [(prune, at_eleven)])"
    using shown_times by simp
  note first = this
  have "sched_effect quiet_disk (Do_Claim (sc_id prune) at_noon) (one_row ?at_noon) =
      ([(?at_noon, at_noon)], one_row (prune\<lparr>sc_next_run_at := ''2026-10-01T13:00:00Z''\<rparr>))"
    using claim_stored [OF stored_schedules prune_claims(2)] next_wf shown_times by (simp add: one_row_def)
  from sched_step [OF first _ _ this] have "schedule_run (one_row (prune\<lparr>sc_next_run_at := ''2026-10-01T13:00:00Z''\<rparr>))
      (([] @ [(prune, at_eleven)]) @ [(?at_noon, at_noon)])"
    using shown_times by simp
  from occurrence_claimed_once [OF this, of 0 1] show ?thesis by simp
qed

lemma disabled_until_enabled_witness:
  "\<exists>g h since. set_enabled quiet_disk (sc_id prune) False (one_row prune) = (Inr (Some prune), g) \<and>
     continues (\<lambda>op. \<not> turns_on (sc_id prune) op) g [] h since \<and> (\<forall>c \<in> set since. sc_id (fst c) \<noteq> sc_id prune)"
proof -
  let ?off = "prune\<lparr>sc_enabled := False\<rparr>"
  have off: "wf_schedule ?off" using prune_wf by (simp add: wf_schedule_def)
  have g: "set_enabled quiet_disk (sc_id prune) False (one_row prune) = (Inr (Some prune), one_row ?off)"
    using stored_schedules [of "[prune]"] prune_wf
    by (simp add: set_enabled_def with_schedules_file one_row_def named_def enabled_as_def)
  have "sched_effect quiet_disk (Do_Claim (sc_id prune) at_noon) (one_row ?off) = ([], one_row ?off)"
    using claim_none [OF stored_schedules prune_claims(3)] off by (simp add: one_row_def)
  then have "continues (\<lambda>op. \<not> turns_on (sc_id prune) op) (one_row ?off) [] (one_row ?off) ([] @ [])"
    using shown_times by (intro goes_on [OF stays, of _ "Do_Claim (sc_id prune) at_noon" _ _ quiet_disk]) simp_all
  from g this disabled_until_enabled [OF added_run quiet_io(1) g this] show ?thesis by blast
qed

section \<open>A pass\<close>

text \<open>The store holds the schedule; the operator kills the runtime after the pass has read the control state once.\<close>

definition open_control :: control_world where
  "open_control = \<lparr>state_file = No_File, event_log = No_Log, save_fails = False, append_fails = False\<rparr>"

definition killed_control :: control_world where
  "killed_control = open_control\<lparr>state_file := Unreadable_File\<rparr>"

definition sched_env :: tick_env where
  "sched_env = \<lparr>te_io = (\<lambda>_. quiet_disk), te_control = (\<lambda>n. if n < 2 then open_control else killed_control),
     te_elapsed_us = (\<lambda>_. 0), te_busy = (\<lambda>_. False), te_fire = (\<lambda>_. Returned ''pruned''), te_append = (\<lambda>_. True),
     te_readable = (\<lambda>_. True), te_collected = []\<rparr>"

definition sched_args :: pass_args where
  "sched_args = \<lparr>pa_hash = sched_hash, pa_now = at_eleven, pa_ledger = True, pa_notifier = True,
     pa_kinds = Some maintenance_kinds\<rparr>"

definition sample_world :: tick_world where
  "sample_world = \<lparr>tw_file = one_row prune, tw_events = [], tw_fires = [], tw_notices = [], tw_tally = no_tally,
     tw_results = [], tw_tick = 0\<rparr>"

lemma control_reads:
  "execution_allowed (load open_control)" "\<not> execution_allowed (load killed_control)"
  by code_simp+

definition sched_run :: string where
  "sched_run = ''srun_00000000000000000000''"

definition start_event :: json where
  "start_event = projr (scheduler_event sched_hash started_action prune at_eleven ''running'' (Some sched_run) [])"

definition end_event :: json where
  "end_event = projr (scheduler_event sched_hash ''fired'' prune at_eleven ''pruned'' (Some sched_run) [(''duration_ms'', JInt 0)])"

lemma sample_events:
  "schedule_run_id sched_hash prune at_eleven = Inr sched_run"
  "scheduler_event sched_hash started_action prune at_eleven ''running'' (Some sched_run) [] = Inr start_event"
  "scheduler_event sched_hash ''fired'' prune at_eleven ''pruned'' (Some sched_run) [(''duration_ms'', JInt 0)] = Inr end_event"
proof -
  show "schedule_run_id sched_hash prune at_eleven = Inr sched_run" by code_simp
  have "\<not> isl (scheduler_event sched_hash started_action prune at_eleven ''running'' (Some sched_run) [])"
    "\<not> isl (scheduler_event sched_hash ''fired'' prune at_eleven ''pruned'' (Some sched_run) [(''duration_ms'', JInt 0)])"
    by code_simp+
  then show "scheduler_event sched_hash started_action prune at_eleven ''running'' (Some sched_run) [] = Inr start_event"
    "scheduler_event sched_hash ''fired'' prune at_eleven ''pruned'' (Some sched_run) [(''duration_ms'', JInt 0)] = Inr end_event"
    by (simp_all add: start_event_def end_event_def)
qed

lemma sample_due: "due_of sched_args [prune] = [prune]" "in_lane sched_args kind_factory"
  "sc_kind prune \<noteq> kind_factory" "startswith ''pruned'' ''failed:'' = False"
  by code_simp+


lemma sample_writes:
  "list_schedules (\<lambda>_. []) (one_row prune) = Inr [prune]"
  "claim_due quiet_disk (sc_id prune) at_eleven (one_row prune) = (Inr (Some prune), one_row (prune\<lparr>sc_next_run_at := at_noon\<rparr>))"
  "record_result quiet_disk (sc_id prune) at_eleven ''pruned'' (one_row (prune\<lparr>sc_next_run_at := at_noon\<rparr>)) =
     (Inr (), one_row (prune\<lparr>sc_next_run_at := at_noon, sc_last_run_at := JStr at_eleven, sc_last_status := JStr ''pruned''\<rparr>))"
proof -
  have p: "schedule_file (one_row prune) [prune]" using stored_schedules [of "[prune]"] prune_wf by (simp add: one_row_def)
  then show "list_schedules (\<lambda>_. []) (one_row prune) = Inr [prune]" by (rule schedule_file_list)
  show "claim_due quiet_disk (sc_id prune) at_eleven (one_row prune) = (Inr (Some prune), one_row (prune\<lparr>sc_next_run_at := at_noon\<rparr>))"
    using claim_stored [OF p prune_claims(1)] by (simp add: one_row_def)
  have "schedule_file (one_row (prune\<lparr>sc_next_run_at := at_noon\<rparr>)) [prune\<lparr>sc_next_run_at := at_noon\<rparr>]"
    using stored_schedules [of "[prune\<lparr>sc_next_run_at := at_noon\<rparr>]"] next_wf shown_times by (simp add: one_row_def)
  then show "record_result quiet_disk (sc_id prune) at_eleven ''pruned'' (one_row (prune\<lparr>sc_next_run_at := at_noon\<rparr>)) =
     (Inr (), one_row (prune\<lparr>sc_next_run_at := at_noon, sc_last_run_at := JStr at_eleven, sc_last_status := JStr ''pruned''\<rparr>))"
    by (simp add: record_result_def with_schedules_file one_row_def named_def)
qed

lemma sched_env_fields:
  "te_io sched_env n = quiet_disk" "te_control sched_env n = (if n < 2 then open_control else killed_control)"
  "te_elapsed_us sched_env n = 0" "te_busy sched_env n = False" "te_fire sched_env n = Returned ''pruned''"
  "te_append sched_env n" "te_readable sched_env n" "te_collected sched_env = []"
  by (simp_all add: sched_env_def)

lemma sched_args_fields:
  "pa_hash sched_args = sched_hash" "pa_now sched_args = at_eleven" "pa_ledger sched_args" "pa_notifier sched_args"
  by (simp_all add: sched_args_def)

lemma prune_fields: "sc_expires_at prune = None" "sc_last_status prune = JNull"
  by (simp_all add: prune_def)

lemma sample_fire:
  "\<exists>w. pass_step sched_env sched_args prune (sample_world\<lparr>tw_tick := 1\<rparr>) = (Inr (), w) \<and>
     tw_fires w = [(prune, at_eleven, 1)] \<and> tw_events w = [start_event, end_event]"
  by (simp add: pass_step_def Let_def sample_world_def ticked_def on_store_def sched_env_fields sched_args_fields control_reads
      sample_writes fire_claimed_def sample_events sample_due prune_fields append_event_def run_fire_def counted_def fire_ms_def
      close_occurrence_def noted_result_def notify_def notify_status_change_def truthy_def)


lemma sample_pass:
  "\<exists>r w. run_due sched_env sched_args sample_world = (r, w) \<and> tw_fires w = [(prune, at_eleven, 1)]"
proof -
  obtain w where w: "pass_step sched_env sched_args prune (sample_world\<lparr>tw_tick := 1\<rparr>) = (Inr (), w)"
    "tw_fires w = [(prune, at_eleven, 1)]" using sample_fire by blast
  have "ticked (sample_world\<lparr>tw_tally := no_tally\<rparr>) = sample_world\<lparr>tw_tick := 1\<rparr>"
    "tw_tick sample_world = 0" "tw_file sample_world = one_row prune" "io_looks quiet_disk = (\<lambda>_. [])"
    by (simp_all add: sample_world_def ticked_def quiet_disk_def)
  with w show ?thesis by (simp add: run_due_def sched_env_fields sample_writes sample_due)
qed


definition watch :: schedule where
  "watch = prune\<lparr>sc_id := ''schedule_00000000000000000001'', sc_kind := ''crypto_route_watch''\<rparr>"

lemma two_rows: "schedule_file (Stored 7 (schedule_text [prune, watch])) [prune, watch]" "distinct (map sc_id [prune, watch])"
  "sc_kind watch \<notin> set maintenance_kinds" "sc_kind prune \<in> set maintenance_kinds"
proof -
  have "wf_schedule watch" using prune_wf by (simp add: watch_def wf_schedule_def)
  then show "schedule_file (Stored 7 (schedule_text [prune, watch])) [prune, watch]" using prune_wf by (intro stored_schedules) simp
  show "distinct (map sc_id [prune, watch])" "sc_kind watch \<notin> set maintenance_kinds" "sc_kind prune \<in> set maintenance_kinds"
    by code_simp+
qed

lemma pass_keeps_other_lanes_witness:
  "\<exists>ss'. list_schedules (\<lambda>_. []) (tw_file (snd (run_due sched_env sched_args
     (sample_world\<lparr>tw_file := Stored 7 (schedule_text [prune, watch])\<rparr>)))) = Inr ss' \<and>
     filter (\<lambda>s. sc_kind s \<notin> set maintenance_kinds) ss' = [watch]"
  using pass_keeps_other_lanes [of sched_args maintenance_kinds "sample_world\<lparr>tw_file := Stored 7 (schedule_text [prune, watch])\<rparr>"
      "[prune, watch]" sched_env "\<lambda>_. []"] two_rows
  by (simp add: sched_args_def sched_env_fields)

section \<open>A restart\<close>

lemma sample_orphans:
  "find_abandoned_runs [start_event] = Inr [start_event]" "lane_event sched_args start_event"
  "\<not> unhashable (jget start_event ''kind'')"
  "\<not> isl (abandoned_event sched_hash start_event at_eleven)"
  by code_simp+

lemma restart_closes_its_own_orphans_witness:
  "\<exists>w. report_abandoned_runs sched_env sched_args (sample_world\<lparr>tw_events := [start_event]\<rparr>) = (Inr [start_event], w) \<and>
     find_abandoned_runs (tw_events w) = Inr []"
proof -
  obtain x where x: "abandoned_event sched_hash start_event at_eleven = Inr x"
    using sample_orphans(4) by (cases "abandoned_event sched_hash start_event at_eleven") auto
  then have "\<exists>w. report_abandoned_runs sched_env sched_args (sample_world\<lparr>tw_events := [start_event]\<rparr>) = (Inr [start_event], w)"
    by (simp add: report_abandoned_runs_def sample_orphans sched_args_fields sched_env_fields append_event_def Let_def ticked_def)
  then obtain w where w: "report_abandoned_runs sched_env sched_args (sample_world\<lparr>tw_events := [start_event]\<rparr>) =
    (Inr [start_event], w)" by blast
  from restart_closes_its_own_orphans [OF this] w show ?thesis
    by (simp add: sched_args_fields sched_env_fields sample_orphans)
qed

section \<open>A delegated change\<close>

definition sample_scope :: delegation where
  "sample_scope = \<lparr>dg_kinds = [''analysis_task''], dg_min_interval = 3600, dg_max_active = 2, dg_max_days = 7, dg_max_calls = 6\<rparr>"

definition asked :: "string \<Rightarrow> change" where
  "asked k = \<lparr>cg_action = ''create'', cg_reason = ''daily'', cg_kind = Some k, cg_request = ''compare'', cg_interval = Some 7200,
     cg_id = None, cg_enabled = True\<rparr>"

definition empty_world :: tick_world where
  "empty_world = sample_world\<lparr>tw_file := Missing\<rparr>"

lemma quiet_env: "\<forall>n. io_others (te_io sched_env n) = id"
  by (simp add: sched_env_fields)

lemma delegated_ceiling_holds_witness:
  "ceiling_holds assistant_actor sample_scope
     (tw_file (snd (apply_change sched_env sched_args (\<lambda>_. []) (asked ''analysis_task'') assistant_actor
       (Delegated sample_scope) True empty_world)))"
proof (rule delegated_ceiling_holds)
  have "schedule_file Missing []" "within_ceiling assistant_actor sample_scope []"
    by (simp_all add: schedule_file_def within_ceiling_def active_of_def sample_scope_def)
  then show "ceiling_holds assistant_actor sample_scope (tw_file empty_world)"
    unfolding ceiling_holds_def by (auto simp: empty_world_def)
qed (simp add: quiet_env)

lemma delegated_change_stays_in_scope_witness:
  "\<exists>ss'. schedule_file (tw_file (snd (apply_change sched_env sched_args (\<lambda>_. [])
      \<lparr>cg_action = ''remove'', cg_reason = ''tidy'', cg_kind = None, cg_request = [], cg_interval = None,
        cg_id = Some (sc_id prune), cg_enabled = True\<rparr> assistant_actor (Delegated sample_scope) True sample_world))) ss' \<and>
     filter (\<lambda>s. \<not> in_reach assistant_actor sample_scope s) ss' = [prune]"
proof -
  have "schedule_file (tw_file sample_world) [prune]"
    using stored_schedules [of "[prune]"] prune_wf by (simp add: sample_world_def one_row_def)
  moreover have "strip assistant_actor = assistant_actor" "\<not> in_reach assistant_actor sample_scope prune" by code_simp+
  ultimately show ?thesis
    using delegated_change_stays_in_scope [of sample_world "[prune]" assistant_actor sched_env sched_args "\<lambda>_. []"
      "\<lparr>cg_action = ''remove'', cg_reason = ''tidy'', cg_kind = None, cg_request = [], cg_interval = None,
        cg_id = Some (sc_id prune), cg_enabled = True\<rparr>" sample_scope] quiet_env by auto
qed

lemma sample_proposal:
  "check_scope (Delegated sample_scope) (asked ''memory_prune'') None = Inr sample_scope"
  "scope_reasons (asked ''memory_prune'') None assistant_actor sample_scope at_eleven = [Kind_Not_Delegated (Some ''memory_prune'')]"
  by code_simp+

lemma sample_proposal_event:
  "\<exists>e. proposal_event sched_hash (\<lambda>_. []) (asked ''memory_prune'') None assistant_actor at_eleven
     [Kind_Not_Delegated (Some ''memory_prune'')] = Inr e"
proof -
  have "\<not> has_secret_key (JObj ((''record_type'', JStr ''scheduler_event.v0'') #
     [(''action'', JStr ''proposed''), (''schedule_id'', of_opt (map_option sc_id None)),
      (''kind'', of_opt (Some ''memory_prune'')), (''status'', JStr ''proposed''), (''created_at'', JStr at_eleven),
      (''proposed_by'', JStr assistant_actor), (''change_action'', JStr ''create''), (''request'', JStr ''compare''),
      (''interval_seconds'', JInt 7200), (''reason'', JStr ''daily''), (''out_of_scope'', JArr [JStr []])]))"
    by code_simp
  then show ?thesis
    by (simp add: proposal_event_def stamped_event_def sha256_record_def asked_def changed_kind_def Let_def)
qed

lemma proposal_applies_nothing_witness:
  "\<exists>oc w. apply_change sched_env sched_args (\<lambda>_. []) (asked ''memory_prune'') assistant_actor (Delegated sample_scope) True
     empty_world = (Inr oc, w) \<and> oc_proposed oc \<and> tw_file w = Missing \<and> length (tw_events w) = 1"
proof -
  obtain e where e: "proposal_event sched_hash (\<lambda>_. []) (asked ''memory_prune'') None assistant_actor at_eleven
     [Kind_Not_Delegated (Some ''memory_prune'')] = Inr e"
    using sample_proposal_event by blast
  have looks: "\<exists>v. look_store sched_env empty_world = (Inr [], v) \<and> tw_events v = [] \<and> tw_tick v = 1 \<and> tw_file v = Missing"
    using schedule_file_list [of Missing "[]"]
    by (simp add: look_store_def sched_env_fields empty_world_def sample_world_def ticked_def schedule_file_def)
  have "\<exists>oc w. apply_change sched_env sched_args (\<lambda>_. []) (asked ''memory_prune'') assistant_actor (Delegated sample_scope) True
     empty_world = (Inr oc, w) \<and> \<not> oc_applied oc"
    using looks e sample_proposal(1,2)
    by (auto simp: apply_change_def find_existing_def asked_def scope_of_def out_of_scope_def expired_twin_def propose_def
        append_event_def sched_args_fields sched_env_fields)
  then obtain oc w where oc: "apply_change sched_env sched_args (\<lambda>_. []) (asked ''memory_prune'') assistant_actor
    (Delegated sample_scope) True empty_world = (Inr oc, w)" "\<not> oc_applied oc" by blast
  from proposal_applies_nothing [OF oc quiet_env] oc(1) show ?thesis
    by (auto simp: empty_world_def sample_world_def sched_args_fields)
qed

section \<open>Intervals no schedule was built with\<close>

text \<open>
  \<open>from_record\<close> reads any interval.  The claim of a row whose interval is zero raises; one whose interval is negative
  moves the schedule back; and an infinite one leaves \<open>from_record\<close> by an exception it does not turn into its refusal.
\<close>

definition hand_row :: "json \<Rightarrow> json" where
  "hand_row n = JObj [(''schedule_id'', JStr ''s''), (''kind'', JStr ''memory_prune''), (''interval_seconds'', n),
     (''next_run_at'', JStr at_eleven)]"

lemma hand_rows_are_read:
  "map_sum id sc_interval (schedule_of (hand_row (JInt 0))) = Inr 0"
  "map_sum id sc_interval (schedule_of (hand_row (JInt (- 3600)))) = Inr (- 3600)"
  "schedule_of (hand_row (JFloat ''Infinity'')) = Inl (PyError ''OverflowError'')"
  by code_simp+

lemma zero_interval_raises:
  "claim_of (sc_id prune) at_noon [prune\<lparr>sc_interval := 0\<rparr>] = Inl (PyError ''ZeroDivisionError'')"
  by code_simp

lemma negative_interval_moves_back:
  "claim_of (sc_id prune) at_noon [prune\<lparr>sc_interval := - 3600\<rparr>] =
     Inr (Some (prune\<lparr>sc_interval := - 3600\<rparr>), Some [prune\<lparr>sc_interval := - 3600, sc_next_run_at := at_ten\<rparr>])"
  by code_simp

end
