(* ===== verification/Safety_Gate.thy ===== *)
theory Safety_Gate
  imports Integrity
begin

text \<open>
  The gate of the capabilities (\<open>runtime/mvp_runtime/safety_gate.py\<close>): a capable implementation is built only behind its
  opt-in in the environment, with an authorization that is checked again before each egress.  The environment of the
  process is a function, where an unset variable reads as the empty string.
\<close>

section \<open>Authorizations\<close>

record authorization =
  au_flags :: "string list"
  au_provider :: string
  au_sha256 :: string
  au_expires_at :: string
  au_evidence :: string
  au_path :: "string option"
  au_env_gate :: "(string \<times> string) option"

text \<open>What a record file holds: nothing, text that is not JSON or cannot be read, or a value.\<close>

datatype activation_file = No_Record | Bad_Record | Json_Record json

definition norm_env :: "string \<Rightarrow> string" where
  "norm_env s = lower (strip s)"

definition record_sha256 :: "(string \<Rightarrow> string) \<Rightarrow> activation_file \<Rightarrow> string option" where
  "record_sha256 H f = (case f of Json_Record r \<Rightarrow>
       if is_obj r then (case sha256_record H (drop_key ''content_sha256'' r) of Inr h \<Rightarrow> Some h | Inl _ \<Rightarrow> None) else None
     | _ \<Rightarrow> None)"

definition assert_authorization ::
  "(string \<Rightarrow> string) \<Rightarrow> (string \<Rightarrow> string) \<Rightarrow> (string \<Rightarrow> activation_file) \<Rightarrow> authorization option \<Rightarrow> string list \<Rightarrow> string \<Rightarrow> string \<Rightarrow>
   unit res" where
  "assert_authorization H env file authorization required provider_id now = (case authorization of
     None \<Rightarrow> Inl (Refused ''NOT_AUTHORIZED'')
   | Some a \<Rightarrow>
       bindR (ensure (au_provider a = provider_id) ''PROVIDER_NOT_AUTHORIZED'') (\<lambda>_.
       bindR (ensure (filter (\<lambda>f. f \<notin> set (au_flags a)) required = []) ''FLAG_NOT_ENABLED'') (\<lambda>_.
       bindR (ensure (now < au_expires_at a) ''ACTIVATION_EXPIRED'') (\<lambda>_.
       case au_env_gate a of
         Some (var, expected) \<Rightarrow> ensure (norm_env (env var) = norm_env expected) ''ENV_OPT_IN_WITHDRAWN''
       | None \<Rightarrow> (case au_path a of None \<Rightarrow> Inr ()
           | Some p \<Rightarrow>
               bindR (ensure (file p \<noteq> No_Record) ''ACTIVATION_REVOKED'') (\<lambda>_.
               ensure (record_sha256 H (file p) = Some (au_sha256 a)) ''ACTIVATION_CHANGED''))))))"

definition env_only_authorization :: "string list \<Rightarrow> string \<Rightarrow> string \<Rightarrow> string \<Rightarrow> authorization" where
  "env_only_authorization flags provider_id var opt_in =
     \<lparr>au_flags = flags, au_provider = provider_id, au_sha256 = [], au_expires_at = ''9999-12-31T23:59:59Z'',
      au_evidence = ''env_only:'' @ var @ ''='' @ opt_in, au_path = None, au_env_gate = Some (var, opt_in)\<rparr>"

section \<open>The selections\<close>

definition select_env_gated ::
  "(string \<Rightarrow> string) \<Rightarrow> string \<Rightarrow> string \<Rightarrow> string list \<Rightarrow> string \<Rightarrow> 'a res \<Rightarrow> (authorization \<Rightarrow> 'a res) \<Rightarrow> 'a res" where
  "select_env_gated env var opt_in flags provider_id unopened gated =
     (if norm_env (env var) \<noteq> norm_env opt_in then unopened
      else gated (env_only_authorization flags provider_id var opt_in))"

fun split_commas :: "string \<Rightarrow> string list" where
  "split_commas [] = [[]]"
| "split_commas (c # s) = (if c = CHR '','' then [] # split_commas s
     else case split_commas s of [] \<Rightarrow> [[c]] | w # ws \<Rightarrow> (c # w) # ws)"

definition names_in :: "string \<Rightarrow> string list" where
  "names_in choice = filter (\<lambda>n. n \<noteq> []) (map strip (split_commas choice))"

definition select_env_gated_optional ::
  "(string \<Rightarrow> string) \<Rightarrow> string \<Rightarrow> string list \<Rightarrow> string \<Rightarrow> (authorization \<Rightarrow> 'a res) \<Rightarrow> ('a option \<times> string option) res" where
  "select_env_gated_optional env var flags provider_id gated =
     (let choice = norm_env (env var) in
      if provider_id \<notin> set (names_in choice) then Inr (None, Some ''ENV_OPT_IN_MISSING'')
      else bindR (gated (env_only_authorization flags provider_id var choice)) (\<lambda>impl. Inr (Some impl, None)))"

text \<open>The members of a chain, built in its order.\<close>

fun build_members :: "(string \<times> (authorization \<Rightarrow> 'a res)) list \<Rightarrow> string list \<Rightarrow> string \<Rightarrow> string \<Rightarrow> string list \<Rightarrow> 'a list res" where
  "build_members factories flags var choice [] = Inr []"
| "build_members factories flags var choice (n # ns) = (case map_of factories n of
     None \<Rightarrow> Inl (PyError ''KeyError'')
   | Some gated \<Rightarrow> bindR (gated (env_only_authorization flags n var choice)) (\<lambda>m.
       bindR (build_members factories flags var choice ns) (\<lambda>ms. Inr (m # ms))))"

definition select_env_gated_chain ::
  "(string \<Rightarrow> string) \<Rightarrow> string \<Rightarrow> (string \<times> (authorization \<Rightarrow> 'a res)) list \<Rightarrow> string list \<Rightarrow> 'a res \<Rightarrow> 'a list res" where
  "select_env_gated_chain env var factories flags unopened =
     (let choice = norm_env (env var); names = names_in choice;
          inert = bindR unopened (\<lambda>d. Inr [d]); unknown = filter (\<lambda>n. map_of factories n = None) names in
      if choice = [] then inert
      else if length names = 1 \<and> map_of factories (hd names) = None then inert
      else if unknown \<noteq> [] then Inl (Refused ''UNKNOWN_PROVIDER'')
      else if length (remdups names) \<noteq> length names then Inl (Refused ''DUPLICATE_PROVIDER'')
      else build_members factories flags var choice names)"

section \<open>What it guarantees\<close>

lemma of_lower_char:
  "(of_char (lower_char c) :: nat) = (let n = of_char c in if (65 \<le> n \<and> n \<le> 90) \<or> (192 \<le> n \<and> n \<le> 222 \<and> n \<noteq> 215) then n + 32 else n)"
  by (auto simp: lower_char_def Let_def)

lemma is_ws_lower: "is_ws (lower_char c) = is_ws c"
  unfolding is_ws_def of_lower_char Let_def by auto

lemma lower_char_twice: "lower_char (lower_char c) = lower_char c"
proof -
  have "(of_char (lower_char (lower_char c)) :: nat) = of_char (lower_char c)"
    unfolding of_lower_char Let_def by auto
  then show ?thesis by simp
qed

lemma strip_lower: "strip (lower s) = lower (strip s)"
  by (simp add: strip_def lstrip_def rstrip_def lower_def dropWhile_map comp_def is_ws_lower rev_map)

lemma lstrip_rstrip: "t = [] \<or> \<not> is_ws (hd t) \<Longrightarrow> lstrip (rstrip t) = rstrip t"
proof -
  assume t: "t = [] \<or> \<not> is_ws (hd t)"
  show ?thesis
  proof (cases "rstrip t = []")
    case False
    then have "dropWhile is_ws (rev t) \<noteq> []" by (simp add: rstrip_def)
    then have "last (dropWhile is_ws (rev t)) = last (rev t)"
      using last_appendR [of "dropWhile is_ws (rev t)" "takeWhile is_ws (rev t)"] by simp
    then have "hd (rstrip t) = last (rev t)" by (simp add: rstrip_def hd_rev)
    with t False have "\<not> is_ws (hd (rstrip t))" by (auto simp: last_rev rstrip_def)
    with False show ?thesis by (cases "rstrip t") (simp_all add: lstrip_def)
  qed (simp add: lstrip_def)
qed

lemma rstrip_twice: "rstrip (rstrip s) = rstrip s"
  by (simp add: rstrip_def)

lemma strip_twice: "strip (strip s) = strip s"
proof -
  have "lstrip s = [] \<or> \<not> is_ws (hd (lstrip s))" using hd_dropWhile [of is_ws s] by (auto simp: lstrip_def)
  then show ?thesis by (simp add: strip_def lstrip_rstrip rstrip_twice)
qed

lemma lower_lower: "lower (lower s) = lower s"
  by (simp add: lower_def comp_def lower_char_twice)

lemma norm_env_twice [simp]: "norm_env (norm_env s) = norm_env s"
  by (simp add: norm_env_def strip_lower strip_twice lower_lower)

lemma egress_env_only:
  "assert_authorization H env file (Some (env_only_authorization flags p var v)) required q now = Inr () \<longleftrightarrow>
     q = p \<and> set required \<subseteq> set flags \<and> now < ''9999-12-31T23:59:59Z'' \<and> norm_env (env var) = norm_env v"
  by (auto simp: assert_authorization_def env_only_authorization_def filter_empty_conv subset_iff
    bindR_Inr_iff)

text \<open>Factories that hand out the authorization they were given.\<close>

definition plain_factories :: "string list \<Rightarrow> (string \<times> (authorization \<Rightarrow> authorization option res)) list" where
  "plain_factories known = map (\<lambda>n. (n, \<lambda>a. Inr (Some a))) known"

lemma plain_factories_map: "map_of (plain_factories known) n = (if n \<in> set known then Some (\<lambda>a. Inr (Some a)) else None)"
  by (induction known) (auto simp: plain_factories_def)

lemma build_plain:
  "set names \<subseteq> set known \<Longrightarrow> build_members (plain_factories known) flags var choice names =
     Inr (map (\<lambda>n. Some (env_only_authorization flags n var choice)) names)"
  by (induction names) (auto simp: plain_factories_map)

lemma chain_parts:
  assumes "select_env_gated_chain env var (plain_factories known) flags (Inr None) = Inr ms"
  shows "(ms = [None] \<and> (norm_env (env var) = [] \<or> (\<exists>n. names_in (norm_env (env var)) = [n] \<and> n \<notin> set known))) \<or>
    (ms = map (\<lambda>n. Some (env_only_authorization flags n var (norm_env (env var)))) (names_in (norm_env (env var))) \<and>
     distinct (names_in (norm_env (env var))) \<and> set (names_in (norm_env (env var))) \<subseteq> set known)"
proof -
  define names where "names = names_in (norm_env (env var))"
  have known: "filter (\<lambda>n. map_of (plain_factories known) n = None) names = [] \<longleftrightarrow> set names \<subseteq> set known"
    by (auto simp: filter_empty_conv plain_factories_map)
  have distinct: "length (remdups names) = length names \<longleftrightarrow> distinct names"
    by (metis distinct_remdups length_remdups_eq remdups_id_iff_distinct)
  note chain = assms [unfolded select_env_gated_chain_def Let_def names_def [symmetric] known distinct]
  show ?thesis unfolding names_def [symmetric]
  proof (cases "norm_env (env var) = [] \<or> length names = 1 \<and> map_of (plain_factories known) (hd names) = None")
    case True
    with chain have "ms = [None]" by (auto split: if_splits)
    with True show "(ms = [None] \<and> (norm_env (env var) = [] \<or> (\<exists>n. names = [n] \<and> n \<notin> set known))) \<or>
      (ms = map (\<lambda>n. Some (env_only_authorization flags n var (norm_env (env var)))) names \<and> distinct names \<and>
       set names \<subseteq> set known)"
      by (cases names) (auto simp: plain_factories_map split: if_splits)
  next
    case False
    with chain show "(ms = [None] \<and> (norm_env (env var) = [] \<or> (\<exists>n. names = [n] \<and> n \<notin> set known))) \<or>
      (ms = map (\<lambda>n. Some (env_only_authorization flags n var (norm_env (env var)))) names \<and> distinct names \<and>
       set names \<subseteq> set known)"
      by (auto simp: build_plain split: if_splits)
  qed
qed

text \<open>
  A chain never shrinks.  A selection of a chain is the inert default, for an unset variable or a single unknown name, or it has
  a member for each name the variable spells, in that order, every one known and none twice; anything else is refused.
\<close>

theorem chain_never_shrinks:
  assumes "select_env_gated_chain env var (plain_factories known) flags (Inr None) = Inr ms"
  shows "(ms = [None] \<and> (norm_env (env var) = [] \<or> (\<exists>n. names_in (norm_env (env var)) = [n] \<and> n \<notin> set known))) \<or>
    (ms = map (\<lambda>n. Some (env_only_authorization flags n var (norm_env (env var)))) (names_in (norm_env (env var))) \<and>
     distinct (names_in (norm_env (env var))) \<and> set (names_in (norm_env (env var))) \<subseteq> set known)"
  using chain_parts [OF assms] .

text \<open>
  C13 The environment is the gate, also later.  An authorization that any of the three selections handed out passes the
  check before an egress exactly for its own provider, within its flags, before the year 9999 ends, and while the
  variable spells what it spelled at the selection, up to case and white space around it.
\<close>

theorem egress_follows_the_opt_in:
  assumes "select_env_gated env var opt_in flags pid (Inr None) (\<lambda>a. Inr (Some a)) = Inr (Some a) \<or>
    (\<exists>r. select_env_gated_optional env var flags pid Inr = Inr (Some a, r)) \<or>
    (\<exists>ms. select_env_gated_chain env var (plain_factories known) flags (Inr None) = Inr ms \<and> Some a \<in> set ms)"
  shows "assert_authorization H env' file (Some a) required p now = Inr () \<longleftrightarrow>
    p = au_provider a \<and> set required \<subseteq> set flags \<and> now < ''9999-12-31T23:59:59Z'' \<and> norm_env (env' var) = norm_env (env var)"
proof -
  have "\<exists>q v. a = env_only_authorization flags q var v \<and> norm_env v = norm_env (env var)"
    using assms
  proof (elim disjE exE conjE)
    fix ms assume "select_env_gated_chain env var (plain_factories known) flags (Inr None) = Inr ms" "Some a \<in> set ms"
    from chain_parts [OF this(1)] this(2)
    obtain n where "a = env_only_authorization flags n var (norm_env (env var))" by auto
    then show ?thesis using norm_env_twice by blast
  next
    assume "select_env_gated env var opt_in flags pid (Inr None) (\<lambda>a. Inr (Some a)) = Inr (Some a)"
    then show ?thesis by (intro exI [of _ pid] exI [of _ opt_in]) (auto simp: select_env_gated_def split: if_splits)
  next
    fix r assume "select_env_gated_optional env var flags pid Inr = Inr (Some a, r)"
    then show ?thesis by (intro exI [of _ pid] exI [of _ "norm_env (env var)"])
        (auto simp: select_env_gated_optional_def Let_def split: if_splits)
  qed
  then show ?thesis by (auto simp: egress_env_only) (auto simp: env_only_authorization_def)
qed


lemma egress_follows_the_opt_in_witness:
  "assert_authorization id (\<lambda>_. ''off'') (\<lambda>_. No_Record)
     (Some (env_only_authorization [''network_access''] ''groq'' ''MVP_HOSTED_PROVIDER'' ''groq''))
     [''network_access''] ''groq'' ''2026-10-01T10:00:00Z'' \<noteq> Inr ()"
proof -
  let ?a = "env_only_authorization [''network_access''] ''groq'' ''MVP_HOSTED_PROVIDER'' ''groq''"
  have "norm_env '' Groq '' = ''groq''" "norm_env ''off'' = ''off''" "names_in ''groq'' = [''groq'']" by code_simp+
  moreover from this have "\<exists>r. select_env_gated_optional (\<lambda>_. '' Groq '') ''MVP_HOSTED_PROVIDER'' [''network_access''] ''groq'' Inr =
      Inr (Some ?a, r)"
    by (simp add: select_env_gated_optional_def Let_def)
  ultimately show ?thesis
    using egress_follows_the_opt_in [of "\<lambda>_. '' Groq ''" "''MVP_HOSTED_PROVIDER''" "''groq''" "[''network_access'']" "''groq''"
      ?a "[]" id "\<lambda>_. ''off''" "\<lambda>_. No_Record" "[''network_access'']" "''groq''" "''2026-10-01T10:00:00Z''"] by auto
qed

end
