(* ===== verification/Failover.thy ===== *)
theory Failover
  imports Safety_Gate
begin

text \<open>
  The chain of model providers (\<open>FailoverProvider\<close> of \<open>runtime/mvp_runtime/providers.py\<close>): the next member is asked
  when the one before failed for a reason of its own, within the time of the call.  The clock is in microseconds; a
  member is a name and, for the time it is given, what it answers (its result, as a record) and how long it takes.
\<close>

section \<open>Which failures move a chain\<close>

text \<open>What a call raised: a provider's error with its data and reason, or any other exception.\<close>

datatype raised = Provider_Error string json string | Other_Error string

definition retryable_error_codes :: "string list" where
  "retryable_error_codes = [''json_validate_failed'']"

definition configuration_statuses :: "int list" where
  "configuration_statuses = [401, 403, 404]"

definition failover_kind :: "raised \<Rightarrow> string option res" where
  "failover_kind e = (case e of Other_Error _ \<Rightarrow> Inr None
   | Provider_Error code data _ \<Rightarrow>
       let error_code = jget data ''error_code'';
           by_code = (if unhashable error_code then Inl (PyError ''TypeError'')
             else Inr (if error_code \<in> set (map JStr retryable_error_codes) then Some ''malformed'' else None)) in
       if code = ''PROVIDER_UNAVAILABLE'' then Inr (Some ''unavailable'')
       else if code = ''NO_API_KEY'' then Inr (Some ''configuration'')
       else if code = ''MALFORMED_RESPONSE'' then Inr (Some ''malformed'')
       else if code \<noteq> ''PROVIDER_TRANSPORT'' then Inr None
       else (case jget data ''http_status'' of
           JInt n \<Rightarrow> if n \<in> set configuration_statuses then Inr (Some ''configuration'')
             else if 500 \<le> n then Inr (Some ''server'') else by_code
         | JBool _ \<Rightarrow> by_code
         | _ \<Rightarrow> Inr (if truthy (jget data ''transport'') then Some ''transport'' else None)))"

section \<open>The chain\<close>

datatype member_reply = Answered json | Raised raised

record member =
  mb_name :: string
  mb_call :: "nat \<Rightarrow> member_reply \<times> nat"

record failover =
  fo_member :: string
  fo_kind :: string
  fo_code :: string
  fo_reason :: string

text \<open>How a call ends, and the members that were called with the time each was given.\<close>

datatype chain_end = Served json "failover list" | Let_Out raised | Failed string "failover list" | Broke string

record chain_run =
  cr_end :: "chain_end"
  cr_calls :: "(string \<times> nat) list"
  cr_clock :: nat

definition second :: nat where "second = 1000 * 1000"
definition member_timeout_seconds :: nat where "member_timeout_seconds = 45"
definition min_member_seconds :: nat where "min_member_seconds = 5"
definition reason_limit :: nat where "reason_limit = 200"

definition per_member :: "nat \<Rightarrow> nat \<Rightarrow> nat \<Rightarrow> nat" where
  "per_member cap timeout n = max min_member_seconds (min cap (timeout div n))"

definition exhausted :: "failover list \<Rightarrow> chain_end" where
  "exhausted fs = (if list_all (\<lambda>f. fo_kind f = ''unavailable'') fs then Failed ''PROVIDER_UNAVAILABLE'' fs
     else Failed ''PROVIDER_CHAIN_EXHAUSTED'' fs)"

definition not_tried :: "string \<Rightarrow> failover" where
  "not_tried name = \<lparr>fo_member = name, fo_kind = ''not_tried'', fo_code = ''BUDGET_EXHAUSTED'',
     fo_reason = ''the call's time budget ran out before this member''\<rparr>"

text \<open>One member's time: what is left for the last one, its share for the others.\<close>

definition member_timeout :: "nat \<Rightarrow> nat \<Rightarrow> bool \<Rightarrow> nat" where
  "member_timeout share left is_last = max 1 (if is_last then left div second else min (left div second) share)"

fun try_members :: "nat \<Rightarrow> nat \<Rightarrow> member list \<Rightarrow> failover list \<Rightarrow> (string \<times> nat) list \<Rightarrow> nat \<Rightarrow> chain_run" where
  "try_members deadline share [] fs calls clock =
     \<lparr>cr_end = exhausted fs, cr_calls = calls, cr_clock = clock\<rparr>"
| "try_members deadline share (m # ms) fs calls clock =
     (if deadline < clock + min_member_seconds * second then
        \<lparr>cr_end = exhausted (fs @ [not_tried (mb_name m)]), cr_calls = calls, cr_clock = clock\<rparr>
      else let t = member_timeout share (deadline - clock) (ms = []); (reply, took) = mb_call m t;
               calls = calls @ [(mb_name m, t)]; clock = clock + took in
        case reply of Answered r \<Rightarrow> \<lparr>cr_end = Served r fs, cr_calls = calls, cr_clock = clock\<rparr>
        | Raised e \<Rightarrow> (case failover_kind e of
             Inl (PyError name) \<Rightarrow> \<lparr>cr_end = Broke name, cr_calls = calls, cr_clock = clock\<rparr>
           | Inl (Refused code) \<Rightarrow> \<lparr>cr_end = Broke code, cr_calls = calls, cr_clock = clock\<rparr>
           | Inr None \<Rightarrow> \<lparr>cr_end = Let_Out e, cr_calls = calls, cr_clock = clock\<rparr>
           | Inr (Some k) \<Rightarrow> (case e of
               Provider_Error code _ reason \<Rightarrow> try_members deadline share ms
                 (fs @ [\<lparr>fo_member = mb_name m, fo_kind = k, fo_code = code, fo_reason = take reason_limit reason\<rparr>])
                 calls clock
             | Other_Error _ \<Rightarrow> \<lparr>cr_end = Let_Out e, cr_calls = calls, cr_clock = clock\<rparr>)))"

definition generate :: "nat \<Rightarrow> nat \<Rightarrow> member list \<Rightarrow> nat \<Rightarrow> chain_run" where
  "generate cap timeout ms clock = try_members (clock + timeout * second) (per_member cap timeout (length ms)) ms [] [] clock"

definition failover_provider :: "member list \<Rightarrow> member list res" where
  "failover_provider ms = (if length ms < 2 then Inl (Refused ''INVALID_CHAIN'') else Inr ms)"

section \<open>The order\<close>

text \<open>A member that failed for a reason of its own in the given time, and the row it leaves.\<close>

definition own_failure :: "member \<Rightarrow> nat \<Rightarrow> failover \<Rightarrow> bool" where
  "own_failure m t f = (\<exists>e code data reason k. fst (mb_call m t) = Raised e \<and> e = Provider_Error code data reason \<and>
     failover_kind e = Inr (Some k) \<and>
     f = \<lparr>fo_member = mb_name m, fo_kind = k, fo_code = code, fo_reason = take reason_limit reason\<rparr>)"


definition own_failures :: "member list \<Rightarrow> nat list \<Rightarrow> failover list \<Rightarrow> bool" where
  "own_failures failed ts rows = (length ts = length failed \<and>
     list_all2 (\<lambda>mt f. own_failure (fst mt) (snd mt) f) (zip failed ts) rows)"

lemma own_failures_Nil: "own_failures [] [] []"
  by (simp add: own_failures_def)

lemma own_failures_Cons: "own_failure m t f \<Longrightarrow> own_failures ms ts rows \<Longrightarrow> own_failures (m # ms) (t # ts) (f # rows)"
  by (simp add: own_failures_def)

definition called :: "member list \<Rightarrow> nat list \<Rightarrow> (string \<times> nat) list" where
  "called ms ts = map (\<lambda>(m, t). (mb_name m, t)) (zip ms ts)"

text \<open>How a run may end after the members \<open>failed\<close> failed for reasons of their own.\<close>

fun ends_well :: "chain_end \<Rightarrow> member list \<Rightarrow> (string \<times> nat) list \<Rightarrow> failover list \<Rightarrow> bool" where
  "ends_well (Served r gs) rest since rows =
     (\<exists>m ms t. rest = m # ms \<and> since = [(mb_name m, t)] \<and> fst (mb_call m t) = Answered r \<and> gs = rows)"
| "ends_well (Let_Out e) rest since rows =
     (\<exists>m ms t. rest = m # ms \<and> since = [(mb_name m, t)] \<and> fst (mb_call m t) = Raised e \<and> failover_kind e = Inr None)"
| "ends_well (Broke name) rest since rows =
     (\<exists>m ms t e. rest = m # ms \<and> since = [(mb_name m, t)] \<and> fst (mb_call m t) = Raised e \<and> isl (failover_kind e))"
| "ends_well (Failed code gs) rest since rows =
     (since = [] \<and> (rest = [] \<and> gs = rows \<or> (\<exists>m ms. rest = m # ms \<and> gs = rows @ [not_tried (mb_name m)])) \<and>
      code = (if list_all (\<lambda>f. fo_kind f = ''unavailable'') gs then ''PROVIDER_UNAVAILABLE'' else ''PROVIDER_CHAIN_EXHAUSTED''))"

definition asked_in_order :: "member list \<Rightarrow> failover list \<Rightarrow> (string \<times> nat) list \<Rightarrow> chain_run \<Rightarrow> bool" where
  "asked_in_order ms fs calls run = (\<exists>failed rest ts rows since. ms = failed @ rest \<and> own_failures failed ts rows \<and>
     cr_calls run = calls @ called failed ts @ since \<and> ends_well (cr_end run) rest since (fs @ rows))"

lemma failover_kind_Some: "failover_kind e = Inr (Some k) \<Longrightarrow> \<exists>code data reason. e = Provider_Error code data reason"
  by (cases e) (simp_all add: failover_kind_def)

lemma ends_exhausted: "ends_well (exhausted gs) rest [] rows \<longleftrightarrow>
    rest = [] \<and> gs = rows \<or> (\<exists>m ms. rest = m # ms \<and> gs = rows @ [not_tried (mb_name m)])"
  by (simp add: exhausted_def)

lemma asked_in_order_now: "cr_calls run = calls @ since \<Longrightarrow> ends_well (cr_end run) ms since fs \<Longrightarrow> asked_in_order ms fs calls run"
  unfolding asked_in_order_def called_def
  by (intro exI [of _ "[]"] exI [of _ ms] exI [of _ since]) (simp add: own_failures_Nil)

lemma asked_in_order_later:
  assumes "own_failure m t f" "asked_in_order ms (fs @ [f]) (calls @ [(mb_name m, t)]) run"
  shows "asked_in_order (m # ms) fs calls run"
proof -
  obtain failed rest ts rows since where "ms = failed @ rest" "own_failures failed ts rows"
    "cr_calls run = (calls @ [(mb_name m, t)]) @ called failed ts @ since" "ends_well (cr_end run) rest since ((fs @ [f]) @ rows)"
    using assms(2) unfolding asked_in_order_def by blast
  with own_failures_Cons [OF assms(1)] show ?thesis unfolding asked_in_order_def called_def
    by (intro exI [of _ "m # failed"] exI [of _ rest] exI [of _ "t # ts"] exI [of _ "f # rows"] exI [of _ since]) simp
qed

lemma try_members_order: "asked_in_order ms fs calls (try_members deadline share ms fs calls clock)"
proof (induction ms arbitrary: fs calls clock)
  case Nil
  show ?case by (rule asked_in_order_now [where since = "[]"]) (simp_all add: ends_exhausted)
next
  case (Cons m ms)
  define t where "t = member_timeout share (deadline - clock) (ms = [])"
  obtain reply took where call: "mb_call m t = (reply, took)" by fastforce
  show ?case
  proof (cases "deadline < clock + min_member_seconds * second")
    case True
    then show ?thesis by (intro asked_in_order_now [where since = "[]"]) (simp_all add: ends_exhausted)
  next
    case time: False
    show ?thesis
    proof (cases reply)
      case (Answered r)
      with time call show ?thesis
        by (intro asked_in_order_now [where since = "[(mb_name m, t)]"]) (auto simp: Let_def simp flip: t_def)
    next
      case (Raised e)
      consider (own) k where "failover_kind e = Inr (Some k)" | (other) "failover_kind e = Inr None" | (broken) x where "failover_kind e = Inl x"
        by (metis option.exhaust sum.exhaust)
      then show ?thesis
      proof cases
        case own
        then obtain code data reason where e: "e = Provider_Error code data reason" using failover_kind_Some by blast
        define f where "f = \<lparr>fo_member = mb_name m, fo_kind = k, fo_code = code, fo_reason = take reason_limit reason\<rparr>"
        have "own_failure m t f" using call Raised e own by (simp add: own_failure_def f_def)
        from asked_in_order_later [OF this Cons.IH] time call Raised own e show ?thesis
          by (simp add: Let_def f_def flip: t_def)
      next
        case other
        with time call Raised show ?thesis
          by (intro asked_in_order_now [where since = "[(mb_name m, t)]"]) (auto simp: Let_def simp flip: t_def)
      next
        case broken
        with time call Raised show ?thesis
          by (intro asked_in_order_now [where since = "[(mb_name m, t)]"]) (auto simp: Let_def simp flip: t_def split: exn.splits)
      qed
    qed
  qed
qed

text \<open>
  C19 The chain is asked in order.  The members that are called are the first ones, each once; every one before the last called
  failed for a reason of its own and leaves its row, in order.  A chain serves the first answer with those rows, lets out
  at once an error that is not a member's own, and fails with every row otherwise, as unavailable only if each one was.
\<close>

theorem failover_serves_in_order:
  "\<exists>failed rest ts rows since. ms = failed @ rest \<and> own_failures failed ts rows \<and>
     cr_calls (generate cap timeout ms clock) = called failed ts @ since \<and>
     ends_well (cr_end (generate cap timeout ms clock)) rest since rows"
  using try_members_order [of ms "[]" "[]" "clock + timeout * second" "per_member cap timeout (length ms)" clock]
  by (simp add: generate_def asked_in_order_def)

section \<open>The time\<close>

lemma member_timeout_bounds:
  assumes "min_member_seconds * second \<le> left" "min_member_seconds \<le> share"
  shows "min_member_seconds \<le> member_timeout share left final" "member_timeout share left final * second \<le> left"
    "\<not> final \<Longrightarrow> member_timeout share left final \<le> share"
proof -
  have "min_member_seconds \<le> left div second" using assms(1) by (simp add: second_def min_member_seconds_def)
  with assms(2) have m: "member_timeout share left final = (if final then left div second else min (left div second) share)"
    "min_member_seconds \<le> member_timeout share left final"
    by (auto simp: member_timeout_def min_member_seconds_def)
  then show "min_member_seconds \<le> member_timeout share left final" by simp
  have "member_timeout share left final \<le> left div second" using m(1) by auto
  then have "member_timeout share left final * second \<le> left div second * second" by simp
  also have "\<dots> \<le> left" by simp
  finally show "member_timeout share left final * second \<le> left" .
  show "\<not> final \<Longrightarrow> member_timeout share left final \<le> share" using m(1) by simp
qed

definition in_time :: "nat \<Rightarrow> nat \<Rightarrow> string \<times> nat \<Rightarrow> bool" where
  "in_time clock deadline c = (min_member_seconds \<le> snd c \<and> clock + snd c * second \<le> deadline)"

lemma in_time_earlier: "list_all (in_time (clock + d) deadline) cs \<Longrightarrow> list_all (in_time clock deadline) cs"
  by (auto simp: list_all_iff in_time_def)

lemma try_members_time:
  assumes "\<forall>m \<in> set ms. \<forall>t. snd (mb_call m t) \<le> t * second" "min_member_seconds \<le> share" "clock \<le> deadline"
  shows "cr_clock (try_members deadline share ms fs calls clock) \<le> deadline \<and>
    (\<exists>since. cr_calls (try_members deadline share ms fs calls clock) = calls @ since \<and> list_all (in_time clock deadline) since)"
  using assms(1,3)
proof (induction ms arbitrary: fs calls clock)
  case (Cons m ms)
  define t where "t = member_timeout share (deadline - clock) (ms = [])"
  obtain reply took where call: "mb_call m t = (reply, took)" by fastforce
  show ?case
  proof (cases "deadline < clock + min_member_seconds * second")
    case False
    then have "min_member_seconds * second \<le> deadline - clock" by simp
    from member_timeout_bounds [OF this assms(2), of "ms = []"] have t: "min_member_seconds \<le> t" "t * second \<le> deadline - clock"
      by (simp_all flip: t_def)
    have "took \<le> t * second" using Cons.prems(1) call by (metis list.set_intros(1) snd_conv)
    with t Cons.prems(2) have later: "clock + took \<le> deadline" "in_time clock deadline (mb_name m, t)"
      by (simp_all add: in_time_def)
    have ms: "\<forall>m \<in> set ms. \<forall>t. snd (mb_call m t) \<le> t * second" using Cons.prems(1) by simp
    have goes_on: "cr_clock (try_members deadline share ms gs (calls @ [(mb_name m, t)]) (clock + took)) \<le> deadline \<and>
        (\<exists>since. cr_calls (try_members deadline share ms gs (calls @ [(mb_name m, t)]) (clock + took)) = calls @ since \<and>
          list_all (in_time clock deadline) since)" for gs
    proof -
      obtain since where "cr_calls (try_members deadline share ms gs (calls @ [(mb_name m, t)]) (clock + took)) =
          (calls @ [(mb_name m, t)]) @ since" "list_all (in_time (clock + took) deadline) since"
        "cr_clock (try_members deadline share ms gs (calls @ [(mb_name m, t)]) (clock + took)) \<le> deadline"
        using Cons.IH [OF ms later(1), of gs "calls @ [(mb_name m, t)]"] by blast
      with later(2) in_time_earlier show ?thesis by (intro conjI exI [of _ "(mb_name m, t) # since"]) auto
    qed
    have stops: "\<exists>since. calls @ [(mb_name m, t)] = calls @ since \<and> list_all (in_time clock deadline) since"
      using later(2) by (intro exI [of _ "[(mb_name m, t)]"]) simp
    show ?thesis using False call later(1) goes_on stops
      by (simp add: Let_def flip: t_def split: member_reply.splits sum.splits exn.splits option.splits raised.splits)
  qed (use Cons.prems in simp)
qed simp

text \<open>
  C20 The chain fits its time.  If no member takes longer than the time it is given, the chain is through by the deadline of its
  call; every member that is asked gets at least five seconds, and no more than is left.
\<close>

theorem failover_fits_its_budget:
  assumes "\<forall>m \<in> set ms. \<forall>t. snd (mb_call m t) \<le> t * second"
  shows "cr_clock (generate cap timeout ms clock) \<le> clock + timeout * second \<and>
    list_all (\<lambda>c. min_member_seconds \<le> snd c \<and> snd c \<le> timeout) (cr_calls (generate cap timeout ms clock))"
proof -
  have "min_member_seconds \<le> per_member cap timeout (length ms)" by (simp add: per_member_def)
  from try_members_time [OF assms this, of clock "clock + timeout * second" "[]" "[]"] show ?thesis
    by (auto simp: generate_def in_time_def list_all_iff second_def)
qed

section \<open>A chain of two\<close>

text \<open>The first member has no key; the second one answers.\<close>

definition keyless :: "member" where
  "keyless = \<lparr>mb_name = ''groq'',
     mb_call = (\<lambda>t. (Raised (Provider_Error ''NO_API_KEY'' JNull ''GROQ_API_KEY is not set''), t * 1000))\<rparr>"

definition steady :: "member" where
  "steady = \<lparr>mb_name = ''openrouter'', mb_call = (\<lambda>t. (Answered (JObj []), t * 100000))\<rparr>"

lemma failover_fits_its_budget_witness:
  "cr_clock (generate member_timeout_seconds 30 [keyless, steady] 0) \<le> 30 * second \<and>
     list_all (\<lambda>c. 5 \<le> snd c \<and> snd c \<le> 30) (cr_calls (generate member_timeout_seconds 30 [keyless, steady] 0))"
proof -
  have "\<forall>m \<in> set [keyless, steady]. \<forall>t. snd (mb_call m t) \<le> t * second" by (simp add: keyless_def steady_def second_def)
  from failover_fits_its_budget [OF this, of member_timeout_seconds 30 0] show ?thesis by (simp add: min_member_seconds_def)
qed

lemma keyless_is_passed_over:
  "cr_end (generate member_timeout_seconds 30 [keyless, steady] 0) =
     Served (JObj []) [\<lparr>fo_member = ''groq'', fo_kind = ''configuration'', fo_code = ''NO_API_KEY'',
       fo_reason = ''GROQ_API_KEY is not set''\<rparr>]"
  "cr_calls (generate member_timeout_seconds 30 [keyless, steady] 0) = [(''groq'', 15), (''openrouter'', 29)]"
  by (simp_all add: generate_def keyless_def steady_def failover_kind_def Let_def member_timeout_def per_member_def
      second_def min_member_seconds_def member_timeout_seconds_def reason_limit_def numeral_2_eq_2 [symmetric])

end
