(* ===== verification/Spec2Isabelle.thy ===== *)
theory Spec2Isabelle
  imports Control_Safety Stage_History Deploy_Witnesses Json_Fuel Jsonl_Sample Registry_Sample Schedule_Sample Failover
begin

text \<open>
  The control plane of a governed agent runtime.

  The program is a runtime whose effects are gated: an operator stops and resumes it
  (\<open>mvp_runtime/control.py\<close>), Thomas approves single actions (\<open>mvp_runtime/approval.py\<close>), a
  hash-chained ledger says how far the trading lane may go (\<open>mvp_runtime/crypto/execution_stage.py\<close>),
  and a privileged actor deploys the runtime itself for a signed approval
  (\<open>mvp_runtime/deploy_runner/\<close>).  What he asks for waits in a queue that several processes share
  (\<open>mvp_runtime/task_registry.py\<close>), what recurs is a schedule that a tick fires
  (\<open>mvp_runtime/scheduler.py\<close>), and an assistant may change a schedule inside a delegated scope
  (\<open>mvp_runtime/schedule_delegation.py\<close>).  A model is called through a capability that the environment opens
  (\<open>mvp_runtime/safety_gate.py\<close>) and a chain of providers (\<open>mvp_runtime/providers.py\<close>).  This development models those parts and the kernel they stand
  on, and proves what each one promises.  The research, market-data and content lanes are not here.

  What is modelled, and where:

  \<^item> \<open>Prelude\<close>, \<open>Integrity\<close>: exceptions as values (\<open>Refused code\<close> for the runtime's own refusals,
    \<open>PyError name\<close> for what Python raises), Python's string methods, JSON values, the canonical text,
    self-hashes and stamped events (\<open>read_only_kernel/integrity.py\<close>, \<open>events.py\<close>).  The canonical text is
    injective up to Python's equality, so two records with one hash are equal or \<open>collision H\<close> holds.
  \<^item> \<open>Timeutil\<close>, \<open>Fingerprint\<close>: timestamps over the proleptic calendar, their round trip and their order;
    the fingerprint that binds an approval to an action.
  \<^item> \<open>Logs\<close>: the two readings of an append-only store, each with a locale: \<open>forward_store\<close> (the latest row
    of each id, terminal rows final) and \<open>hash_chain\<close> (the tip's hash determines the chain).  The approval
    store, the stage ledger, the consumption store and the effect audit interpret them.
  \<^item> \<open>Control\<close>, \<open>Control_Commands\<close>, \<open>Control_Safety\<close>: the operator state, its fail-closed read, the five
    verbs, and an abstract specification they refine.
  \<^item> \<open>Approval\<close>, \<open>Approval_Store\<close>, \<open>Approval_Safety\<close>: the ask, its answer and its single spend, with the
    semantic validator of \<open>scripts/validate_permission_approval_contracts.py\<close>.
  \<^item> \<open>Stage\<close>, \<open>Stage_Writes\<close>, \<open>Stage_Append\<close>, \<open>Stage_Door\<close>, \<open>Testnet_Evidence\<close> and the \<open>Stage_*\<close> lemmas:
    the ledger, its anchor and mirror, the resolution of the effective stage, the transitions, the
    operator's door (\<open>scripts/register_execution_stage.py\<close>), and its runs.
  \<^item> \<open>Deploy_Files\<close> to \<open>Deploy_Actor\<close>: the deploy runner's records, the signed approval, the startup check,
    the closed commands and the handling of one message.  \<open>Deploy_Facts\<close> holds the locales the proofs
    share: a relation between worlds that is reflexive and transitive composes along the actor's
    sequencing (\<open>step_relation\<close>), and one law per primitive operation then gives it for every handler
    (\<open>measuring\<close>, \<open>quiet_ops\<close>, \<open>effect_ops\<close>, \<open>all_ops\<close>, \<open>startup_ops\<close>).  Each property is one relation
    interpreted there: the accounts (\<open>quiet\<close>), the latch (\<open>latch_kept\<close>), the ticks (\<open>later\<close>), the audit
    (\<open>audit_grows\<close>), the shape of the commands (\<open>runs_closed\<close>).  \<open>Deploy_Runs\<close> defines the runs,
    \<open>Deploy_Sample\<close>, \<open>Deploy_Sample_Run\<close> and \<open>Deploy_Witnesses\<close> carry one machine through a message.
  \<^item> \<open>Json_Text\<close>, \<open>Json_Fuel\<close>, \<open>Jsonl\<close>, \<open>Jsonl_Facts\<close>, \<open>Jsonl_Sample\<close>: the text a row is written as and the parser that reads it
    back (\<open>loads_dumps\<close>); the append-only files of \<open>mvp_runtime/jsonl.py\<close> with the full read, the wait for
    an unfinished last line, the screened read, the read from the end and the incremental cursor.  The three
    readers agree on a file of whole lines (\<open>in_step\<close> is the invariant of a cursor).
  \<^item> \<open>Task_Registry\<close>: entries, transitions and the store of \<open>mvp_runtime/task_registry.py\<close> with the folded state a
    process keeps.  \<open>Registry_Facts\<close> shows that the state folded row by row is the view of the whole file
    (\<open>registry_view\<close>), \<open>Registry_Runs\<close> defines the runs of any number of processes and what each operation
    appends (\<open>lawful\<close>), \<open>Registry_Safety\<close> holds the properties and \<open>Registry_Sample\<close> their concrete runs.
  \<^item> \<open>Schedule\<close>: the kinds and lanes, the schedule and its row, the grid of its occurrences and the locked store.
    \<open>Schedule_Facts\<close> shows that a file of schedules reads back and what each locked change does to it;
    \<open>Schedule_Runs\<close> runs any number of processes over it.
  \<^item> \<open>Scheduler\<close>: the events, one pass of the tick (\<open>run_due\<close>: \<open>pass_step\<close> decides for one due schedule,
    \<open>fire_claimed\<close> and \<open>run_fire\<close> are the bracket of one fire) and the report of a restart.
    \<open>Scheduler_Scan\<close> proves the pairing of starts and ends, \<open>Scheduler_Safety\<close> composes a pass from its operations
    once, in the locale \<open>pass_relation\<close>, and interprets it for the fires and for the rows of the other lane.
  \<^item> \<open>Delegation\<close>: the policy's clause, the parsed change, and the change applied, proposed or refused.
    \<open>Delegation_Safety\<close> composes a bounded change in the locale \<open>bounded_change\<close> and interprets it for the ceiling
    and for the scope.  \<open>Schedule_Sample\<close> holds the concrete runs of both.
  \<^item> \<open>Safety_Gate\<close>: authorizations, the three selections that build a capable implementation behind its opt-in, and the
    check before an egress; \<open>Failover\<close>: the chain of providers, which failures move it, its order and its time.

  State and effects.  Each component has a record of its files and its memory, and an operation returns
  its result and the next record.  What another process does between a first read and the locked
  write is a second argument, the world as it was \<open>seen\<close>, so a theorem over every \<open>seen\<close> holds under every
  interference.  A failing disk is data: a flag per file in the control, approval and stage worlds, and
  for the actor an environment that is asked at each tick for the outcome of the next operation
  (\<open>Io_Ok\<close>, \<open>Io_Unread\<close>, \<open>Io_Fails\<close>, \<open>Io_Dies\<close>, the last two with what became of the row).  A theorem over
  every environment therefore covers every failed write, every crash between two writes, every answer
  of the container daemon and of git, and every clock.

  A pass of the tick is numbered operation by operation: at each number the environment says what other processes
  wrote before the store's lock was taken, whether the lock, the write and the ledger's append
  succeeded, what control state the read found, how long the pass has taken in microseconds, and what the fire did.
  The fire itself (\<open>_execute\<close>) and the child process of a factory are that environment; the guard around a fire does not raise,
  and a notifier's own errors are swallowed as in the code.  A run over the schedules is a sequence of the store's
  operations by any process, with clocks that show \<open>format_iso\<close> times; a schedule that is added was built
  by \<open>build_schedule\<close> under an id that is not in use.  \<open>int()\<close> of a number with a
  point or an exponent is that of the double nearest to it, and the clocks of a pass and of a chain of providers count
  whole microseconds.

  A run of the registry is a sequence of locked operations of any processes, each with the state it has folded
  so far.  In it a write lands whole or the file was not opened (a row cut by a crash makes every later read
  refuse, which \<open>Jsonl\<close> models and the runs leave out), an operation that opens an entry names an id the
  file does not hold, and what other processes do is steps of their own.  A cursor takes a replaced file for a
  new one by its identity, so a replacement has another identity than the one the cursor holds.

  Parameters.  SHA-256 is a function \<open>H\<close>; nothing is assumed of it, and where binding matters the
  theorem says that the records are equal or that \<open>H\<close> has a collision.  The JSON-schema validators of
  records whose schema is not written out, the running policy, \<open>ssh-keygen\<close>, the strict JSON reader, the
  trust files and the revocation list are parameters of the environment.  No property assumes more of
  them than what its own statement shows.

  Bounds.  Strings are of code points below 256, written as HOL's \<open>string\<close>; the canonical text escapes the
  others before they are hashed.  Floats in records are their text, which is enough since
  canonical hashing refuses them.  The reply texts of the console are constructors.  The loop that waits for
  a record's lock is a \<open>partial_function\<close>, and \<open>lock_wait_ends\<close> proves that it returns within 250 polls: the timeout
  of 5 s divided by the poll of 20 ms.  A reader looks 100 times at an unfinished line (1 s by 10 ms), by
  recursion on that number.  The queue holds at most 20 waiting entries.  A pass
  stops starting maintenance fires after 60 s (\<open>pass_budget_us\<close>).  The parser of JSON text recurses on
  fuel, the length of the text, and what any larger fuel parses this one does (\<open>loads_iff\<close>).  Python's
  own limits on a text (integers of more than 4300 digits, the depth of the recursion) and escapes of code
  points from 256 on are outside the model of it.

  Where the code departs from its own words.
  \<^item> \<open>sync_anchor\<close> is documented as unable to change the stage.  It refuses only an anchor that names a row
    the chain does not hold, so an anchor two or more rows behind the tip, which reads READ_ONLY, is
    re-anchored and the machine then reads the tip's stage (\<open>sync_keeps_the_stage\<close>, its second branch).
  \<^item> The actor is documented to latch on every failure after the spend.  When every step succeeds
    and only the last row of the request cannot be written, it answers \<open>RUNNER_ERROR\<close> unlatched, and the
    claim is found at the next start (\<open>failed_effect_latches\<close>, its last disjunct).
  \<^item> When the EXECUTING row cannot be written, \<open>_fail_after_spend\<close> says that the records already disagree, as the
    next startup would find.  They agree: the CONSUMED row names the spent row and FAILED_NOT_STARTED
    ends the request, so with the LATCH file removed the next start comes up unlatched.
  \<^item> \<open>Actor.handle\<close> is documented never to raise.  A schema integer admits \<open>1.0\<close>, a \<open>gate_intake_seq\<close> of 1.0 makes the
    canonical hash of the audit row raise \<open>IntegrityError\<close>, and the exception leaves \<open>handle\<close> with the request
    claimed (\<open>float_sequence_raises\<close>).
  \<^item> The registry's reader is documented to refuse a damaged row the same way each time.  A row whose \<open>flags\<close> is
    a list raises \<open>AttributeError\<close>, which is not a refusal: the cursor has moved on and the next read of the
    same process skips the row (\<open>skipped_after_an_attribute_error\<close>).
  \<^item> An entry that ended is documented as never opened again.  The id of an entry is made of its text, origin, requester
    and second, and \<open>submit\<close> does not ask what the file holds: the same request in the same second re-opens the
    entry (\<open>resubmission_reopens_a_running_entry\<close>).  The runs above assume a new id.
  \<^item> \<open>SafetyGateBlocked\<close> says that a capability is never enabled by a bare environment variable.  It is: a selection
    hands out its authorization for the variable alone (\<open>egress_follows_the_opt_in\<close>).
  \<^item> Renewing an expired delegated schedule is documented as Thomas's.  The rows are compared with the request as it was asked
    for and hold it stripped, so a trailing space hides the expired schedule and it is created again
    (\<open>padded_request_has_no_twin\<close>).
  \<^item> A stored schedule is documented to be rebuilt or refused.  An interval of zero is read, and its claim raises out of the
    pass, so that the schedules behind it do not fire; a negative one moves the schedule back; an infinite
    one raises \<open>OverflowError\<close> (\<open>zero_interval_raises\<close>, \<open>negative_interval_moves_back\<close>, \<open>hand_rows_are_read\<close>).
  \<^item> An executed occurrence is documented to have exactly one terminal event.  When a factory child was spawned and
    the write of its running status fails, \<open>run_fire\<close> ends as a failed fire, and the pass that collects the child writes
    a second terminal event for the run.
  \<^item> The cursor is documented to parse as the full read does.  It takes a complete row without its newline; when
    the next append is glued to that row, the full read refuses the file and the cursor does not
    (\<open>unterminated_row_parts_the_readers\<close>).

  Not modelled.  The actor handles one message at a time: its record locks order single operations, and
  two messages interleaved finer than an operation are not covered.  The sockets, the gatekeeper, the trust
  files' ownership checks and the configuration of the deploy runner; the display texts and read views
  of the console; the planner, pipeline and operator code and the providers' adapters, which move messages between
  processes and models; what each kind of schedule executes, the spool of a factory child, the heartbeat and
  the loop of \<open>scheduler_cli.py\<close>; the sentences in which an out-of-scope change is explained (a parameter of
  \<open>apply_change\<close>); the crypto research and order lanes, whose results are floating point; holdings,
  blog, and the gates of \<open>scripts/\<close> that check the repository at build time.
\<close>

end
